(* ===== verification/Prelude.thy ===== *)
theory Prelude
  imports Main "HOL-Library.AList" "HOL-Library.Code_Target_Nat"
begin

text \<open>
  Prelude of the GameWake development: Python exceptions as values, the string and
  sequence operations the code uses (\<open>next(...)\<close>, rebuilding a tuple with one item
  replaced, \<open>str.strip\<close>, \<open>str.startswith\<close>, decimal printing), insertion-ordered
  dictionaries as association lists, and the lemmas about them that every component shares.

  Timestamps are integers: microseconds since the Unix epoch, in UTC (theory Calendar).
  Identifiers are \<open>string\<close>s; the random ones (\<open>uuid4\<close>) are arguments of the operations.
\<close>

named_theorems attempt_defs \<open>definitions of the attempt bodies of the optimistic loops\<close>
named_theorems inv_intros \<open>preservation lemmas of the component invariants\<close>

section \<open>Exceptions\<close>

text \<open>
  One constructor per exception class the modelled code raises. Those that carry a message
  in the code carry it here (messages written in Portuguese are transliterated to ASCII).
  \<open>StopIteration\<close> is what \<open>next(generator)\<close> raises when nothing matches.
\<close>

datatype py_error =
    ValueError string
  | RuntimeError string
  | KeyError string
  | TypeError string
  | StopIteration
  | InvalidOperation
  | DivisionByZero
  | PermissionError string
  | PermissionDeniedError string
  | InsufficientFundsError string
  | ConcurrentBillingUpdate string
  | WorldBudgetExceeded string
  | PaymentProviderError string
  | LastOwnerRemovalError string
  | DiscordGuildAlreadyLinkedError string
  | ExistingMembershipInvitationError "string list"
  | SensitiveActionConfirmationError string
  | InvalidRecoveryCodeError string
  | StorageBlockedError string
  | OverflowError string
  | SettingsValidationError string
  | GameConfigurationError string
  | InvalidSession string
  | InvalidWebhookSignature string
  | InvalidWebhookPayload string
  | SignatureValidationError string
  | OSError string
  | UnboundLocalError string
  | AttributeError string
  | ClientError string
  | RuntimeNotReady string

text \<open>The result of a call: an exception or a value.\<close>

type_synonym 'a result = "py_error + 'a"

section \<open>Sequences\<close>

text \<open>
  \<open>tuple(new if P(item) else item for item in items)\<close>: the way the code writes one
  aggregate member back.
\<close>

definition replace_where :: "('a \<Rightarrow> bool) \<Rightarrow> 'a \<Rightarrow> 'a list \<Rightarrow> 'a list" where
  "replace_where P new xs = map (\<lambda>x. if P x then new else x) xs"

lemma length_replace_where [simp]: "length (replace_where P new xs) = length xs"
  by (simp add: replace_where_def)

lemma replace_where_Nil [simp]: "replace_where P new [] = []"
  by (simp add: replace_where_def)

lemma replace_where_Cons [simp]:
  "replace_where P new (x # xs) = (if P x then new else x) # replace_where P new xs"
  by (simp add: replace_where_def)

lemma map_replace_where:
  "(\<And>x. x \<in> set xs \<Longrightarrow> P x \<Longrightarrow> f x = f new) \<Longrightarrow> map f (replace_where P new xs) = map f xs"
  by (auto simp: replace_where_def)

lemma set_replace_where_subset: "set (replace_where P new xs) \<subseteq> insert new (set xs)"
  by (auto simp: replace_where_def)

lemma ball_replace_where:
  "(\<forall>x \<in> set xs. Q x) \<Longrightarrow> Q new \<Longrightarrow> \<forall>x \<in> set (replace_where P new xs). Q x"
  by (auto simp: replace_where_def)

lemma replace_where_none: "\<forall>x \<in> set xs. \<not> P x \<Longrightarrow> replace_where P new xs = xs"
  by (induction xs) auto

lemma find_Some_iff_mem: "find P xs = Some x \<Longrightarrow> x \<in> set xs \<and> P x"
  by (induction xs) (auto split: if_splits)

lemma find_None_ball: "find P xs = None \<Longrightarrow> \<forall>x \<in> set xs. \<not> P x"
  by (induction xs) (auto split: if_splits)

lemma find_append_Some: "find P xs = Some x \<Longrightarrow> find P (xs @ ys) = Some x"
  by (induction xs) (auto split: if_splits)

lemma find_append_None: "find P xs = None \<Longrightarrow> find P (xs @ ys) = find P ys"
  by (induction xs) (auto split: if_splits)

lemma find_replace_where:
  "find P xs = Some x \<Longrightarrow> P new \<Longrightarrow> find P (replace_where P new xs) = Some new"
  by (induction xs) (auto split: if_splits)

text \<open>
  Writing back the member an earlier \<open>next\<close> found, when the identifiers are distinct:
  a sum over the members changes by the difference of the two.
\<close>

lemma sum_list_replace_found:
  fixes g :: "'a \<Rightarrow> int"
  assumes "distinct (map f xs)" and "find (\<lambda>x. f x = k) xs = Some x"
  shows "sum_list (map g (replace_where (\<lambda>x. f x = k) new xs))
       = sum_list (map g xs) - g x + g new"
  using assms
proof (induction xs)
  case Nil
  then show ?case by simp
next
  case (Cons y ys)
  show ?case
  proof (cases "f y = k")
    case True
    with Cons.prems have "\<forall>z \<in> set ys. f z \<noteq> k" by (force simp: image_iff)
    then have "replace_where (\<lambda>x. f x = k) new ys = ys" by (rule replace_where_none)
    with True Cons.prems show ?thesis by simp
  next
    case False
    with Cons show ?thesis by simp
  qed
qed

lemma sum_list_nonneg_ball:
  fixes g :: "'a \<Rightarrow> int"
  shows "(\<forall>x \<in> set xs. 0 \<le> g x) \<Longrightarrow> 0 \<le> sum_list (map g xs)"
  by (induction xs) auto

lemma sum_list_member_le:
  fixes g :: "'a \<Rightarrow> int"
  shows "(\<forall>x \<in> set xs. 0 \<le> g x) \<Longrightarrow> x \<in> set xs \<Longrightarrow> g x \<le> sum_list (map g xs)"
  by (induction xs) (auto dest!: sum_list_nonneg_ball)

section \<open>Strings\<close>

text \<open>\<open>str.strip()\<close> on ASCII text.\<close>

definition is_space :: "char \<Rightarrow> bool" where
  "is_space c \<longleftrightarrow> of_char c \<in> {9, 10, 11, 12, 13, 28, 29, 30, 31, 32 :: int}"

definition strip :: "string \<Rightarrow> string" where
  "strip s = rev (dropWhile is_space (rev (dropWhile is_space s)))"

definition starts_with :: "string \<Rightarrow> string \<Rightarrow> bool" where
  "starts_with p s \<longleftrightarrow> take (length p) s = p"

definition is_digit :: "char \<Rightarrow> bool" where
  "is_digit c \<longleftrightarrow> c \<in> set ''0123456789''"

text \<open>\<open>str.casefold()\<close> on ASCII text.\<close>

definition to_lower :: "char \<Rightarrow> char" where
  "to_lower c = (let n = of_char c :: nat in if 65 \<le> n \<and> n \<le> 90 then char_of (n + 32) else c)"

definition casefold :: "string \<Rightarrow> string" where
  "casefold s = map to_lower s"

text \<open>\<open>', '.join(...)\<close>.\<close>

fun join_comma :: "string list \<Rightarrow> string" where
  "join_comma [] = []"
| "join_comma [x] = x"
| "join_comma (x # xs) = x @ '', '' @ join_comma xs"

lemma starts_with_append [simp]: "starts_with p (p @ s)"
  by (simp add: starts_with_def)

text \<open>\<open>str(n)\<close> for an integer, and the zero-padded \<open>f"{n:0wd}"\<close>.\<close>

definition digit :: "nat \<Rightarrow> char" where
  "digit d = ''0123456789'' ! (d mod 10)"

fun show_nat :: "nat \<Rightarrow> string" where
  "show_nat n = (if n < 10 then [digit n] else show_nat (n div 10) @ [digit (n mod 10)])"

declare show_nat.simps [simp del]

definition show_int :: "int \<Rightarrow> string" where
  "show_int i = (if i < 0 then CHR ''-'' # show_nat (nat (- i)) else show_nat (nat i))"

definition zero_pad :: "nat \<Rightarrow> nat \<Rightarrow> string" where
  "zero_pad w n = (let s = show_nat n in replicate (w - length s) CHR ''0'' @ s)"

section \<open>Dictionaries\<close>

text \<open>
  A Python \<open>dict\<close> keeps insertion order and \<open>d[k] = v\<close> overwrites in place; an association
  list with \<^const>\<open>AList.update\<close> behaves the same way.
\<close>

type_synonym ('k, 'v) dict = "('k \<times> 'v) list"

abbreviation dict_get :: "('k, 'v) dict \<Rightarrow> 'k \<Rightarrow> 'v option" where
  "dict_get \<equiv> map_of"

abbreviation dict_set :: "'k \<Rightarrow> 'v \<Rightarrow> ('k, 'v) dict \<Rightarrow> ('k, 'v) dict" where
  "dict_set \<equiv> AList.update"

lemma dict_get_set [simp]:
  "dict_get (dict_set k v d) k' = (if k = k' then Some v else dict_get d k')"
  by (simp add: update_conv')

text \<open>Two prefix facts used to state that logs only grow.\<close>

definition extends :: "'a list \<Rightarrow> 'a list \<Rightarrow> bool" where
  "extends new old \<longleftrightarrow> (\<exists>zs. new = old @ zs)"

lemma extends_refl [simp, intro]: "extends xs xs"
  by (simp add: extends_def)

lemma extends_append [simp, intro]: "extends (xs @ ys) xs"
  by (auto simp: extends_def)

lemma extends_trans: "extends zs ys \<Longrightarrow> extends ys xs \<Longrightarrow> extends zs xs"
  by (auto simp: extends_def)

text \<open>A member found by its key, where keys are unique.\<close>

lemma find_unique:
  assumes "distinct (map f xs)" and "y \<in> set xs" and "f y = i"
  shows "find (\<lambda>x. f x = i) xs = Some y"
proof (cases "find (\<lambda>x. f x = i) xs")
  case None
  then show ?thesis using assms by (auto simp: find_None_iff)
next
  case (Some w)
  with find_Some_iff_mem [OF Some] assms show ?thesis by (auto simp: distinct_map inj_on_def)
qed

end
