(* ===== verification/Calendar.thy ===== *)
theory Calendar
  imports Prelude
begin

text \<open>
  The part of Python's \<open>datetime\<close> the code uses, on UTC instants counted in microseconds:
  the civil date of an instant (proleptic Gregorian calendar), the month key
  \<open>YYYY-MM\<close> that groups a World Budget, \<open>isoformat\<close>, \<open>timedelta\<close> constants and
  \<open>math.ceil(delta.total_seconds())\<close>. Every datetime of the program is UTC-aware
  (\<open>datetime.now(UTC)\<close>), so the fields of a datetime are those of its UTC instant.
\<close>

type_synonym instant = int

definition seconds :: "int \<Rightarrow> int" where
  "seconds n = n * 1000000"

definition minutes :: "int \<Rightarrow> int" where
  "minutes n = seconds (60 * n)"

definition days :: "int \<Rightarrow> int" where
  "days n = seconds (86400 * n)"

lemmas time_units = seconds_def minutes_def days_def

text \<open>\<open>ceil\<close> of the seconds between two instants.\<close>

definition ceil_seconds :: "int \<Rightarrow> int" where
  "ceil_seconds us = - ((- us) div 1000000)"

lemma ceil_seconds_nonneg: "0 \<le> us \<Longrightarrow> 0 \<le> ceil_seconds us"
  by (simp add: ceil_seconds_def)

lemma ceil_seconds_mono: "a \<le> b \<Longrightarrow> ceil_seconds a \<le> ceil_seconds b"
  by (simp add: ceil_seconds_def zdiv_mono1)

lemma ceil_seconds_le_iff: "ceil_seconds us \<le> n \<longleftrightarrow> us \<le> seconds n"
proof -
  have "1000000 * ((- us) div 1000000) + (- us) mod 1000000 = - us" by simp
  moreover have "0 \<le> (- us) mod 1000000" and "(- us) mod 1000000 < (1000000 :: int)" by simp_all
  ultimately show ?thesis unfolding ceil_seconds_def seconds_def by linarith
qed

text \<open>
  Civil date of a day number (days since 1970-01-01), by the usual 400-year-era
  computation with years that start in March.
\<close>

definition civil_from_days :: "int \<Rightarrow> int \<times> int \<times> int" where
  "civil_from_days z =
     (let z = z + 719468;
          era = z div 146097;
          doe = z mod 146097;
          yoe = (doe - doe div 1460 + doe div 36524 - doe div 146096) div 365;
          doy = doe - (365 * yoe + yoe div 4 - yoe div 100);
          mp = (5 * doy + 2) div 153;
          d = doy - (153 * mp + 2) div 5 + 1;
          m = (if mp < 10 then mp + 3 else mp - 9)
      in (yoe + era * 400 + (if m \<le> 2 then 1 else 0), m, d))"

definition civil_date :: "instant \<Rightarrow> int \<times> int \<times> int" where
  "civil_date t = civil_from_days (t div days 1)"

definition month_key :: "instant \<Rightarrow> string" where
  "month_key t = (case civil_date t of
     (y, m, _) \<Rightarrow> zero_pad 4 (nat y) @ ''-'' @ zero_pad 2 (nat m))"

definition isoformat :: "instant \<Rightarrow> string" where
  "isoformat t =
     (case civil_date t of (y, m, d) \<Rightarrow>
      let us = t mod days 1; s = us div 1000000; frac = us mod 1000000
      in zero_pad 4 (nat y) @ ''-'' @ zero_pad 2 (nat m) @ ''-'' @ zero_pad 2 (nat d)
         @ ''T'' @ zero_pad 2 (nat (s div 3600)) @ '':'' @ zero_pad 2 (nat (s div 60 mod 60))
         @ '':'' @ zero_pad 2 (nat (s mod 60))
         @ (if frac = 0 then [] else ''.'' @ zero_pad 6 (nat frac)) @ ''+00:00'')"

text \<open>
  \<open>datetime.strptime(s, "%Y-%m")\<close> succeeds: four digits that are not 0000, a dash and a
  month \<open>1\<close> to \<open>12\<close>, which may be written with one digit.
\<close>

definition parses_year_month :: "string \<Rightarrow> bool" where
  "parses_year_month s \<longleftrightarrow>
     (let y = take 4 s; m = drop 5 s
      in length y = 4 \<and> list_all is_digit y \<and> y \<noteq> ''0000'' \<and> take 1 (drop 4 s) = ''-''
         \<and> m \<in> set [''1'', ''2'', ''3'', ''4'', ''5'', ''6'', ''7'', ''8'', ''9'',
             ''01'', ''02'', ''03'', ''04'', ''05'', ''06'', ''07'', ''08'', ''09'',
             ''10'', ''11'', ''12''])"

end
