(* ===== verification/Decimals.thy ===== *)
theory Decimals
  imports Prelude
begin

text \<open>
  The part of Python's \<open>decimal\<close> module the Billing code uses, in the default context: 28
  significant digits, \<open>ROUND_HALF_EVEN\<close> for arithmetic, an explicit rounding mode for
  \<open>quantize\<close>. A finite number is a coefficient and a power of ten. Stored amounts are
  integers of cents (\<open>money\<close>): every amount is quantized to \<open>0.01\<close> before it is
  stored. The main result, \<open>quantized_quotient_exact\<close>, shows that the 28-digit rounding of
  an intermediate quotient never changes the cent it is quantized to.
\<close>

datatype decimal = Dec int int | DInf bool | DNaN | DSNaN

type_synonym money = int

datatype rounding = HalfUp | Up

fun ndigits :: "nat \<Rightarrow> nat" where
  "ndigits n = (if n < 10 then 1 else Suc (ndigits (n div 10)))"

declare ndigits.simps [simp del]

definition prec :: nat where
  "prec = 28"

text \<open>The context's rounding of a result: half-even to 28 digits.\<close>

definition half_even :: "nat \<Rightarrow> nat \<Rightarrow> nat" where
  "half_even n k =
     (let q = n div 10 ^ k; r = n mod 10 ^ k
      in if 10 ^ k < 2 * r \<or> (2 * r = 10 ^ k \<and> odd q) then Suc q else q)"

definition fix_prec :: "nat \<Rightarrow> int \<Rightarrow> nat \<times> int" where
  "fix_prec n e =
     (let k = ndigits n - prec in if k = 0 then (n, e) else (half_even n k, e + int k))"

text \<open>
  Products and quotients of non-negative numbers. The quotient is computed to one or two
  digits more than the context's precision, with a sticky digit when it is not exact, and
  then rounded, as the reference implementation of the module does.
\<close>

definition dec_mul :: "nat \<times> int \<Rightarrow> nat \<times> int \<Rightarrow> nat \<times> int" where
  "dec_mul a b = fix_prec (fst a * fst b) (snd a + snd b)"

definition dec_quot :: "nat \<times> int \<Rightarrow> nat \<times> int \<Rightarrow> nat \<times> int" where
  "dec_quot a b =
     (let shift = int (ndigits (fst b)) - int (ndigits (fst a)) + int prec + 1;
          num = (if 0 \<le> shift then fst a * 10 ^ nat shift else fst a);
          den = (if 0 \<le> shift then fst b else fst b * 10 ^ nat (- shift));
          c = num div den;
          c' = (if num mod den \<noteq> 0 \<and> c mod 5 = 0 then Suc c else c)
      in fix_prec c' (snd a - snd b - shift))"

text \<open>\<open>quantize(Decimal("0.01"), rounding=...)\<close> of a non-negative number, in cents.\<close>

definition round_digits :: "rounding \<Rightarrow> nat \<Rightarrow> nat \<Rightarrow> nat" where
  "round_digits m n k =
     (let q = n div 10 ^ k; r = n mod 10 ^ k
      in case m of HalfUp \<Rightarrow> (if 10 ^ k \<le> 2 * r then Suc q else q)
                 | Up \<Rightarrow> (if 0 < r then Suc q else q))"

definition to_cents :: "rounding \<Rightarrow> nat \<times> int \<Rightarrow> nat" where
  "to_cents m a =
     (if -2 \<le> snd a then fst a * 10 ^ nat (snd a + 2)
      else round_digits m (fst a) (nat (-2 - snd a)))"

definition quantize_cents :: "rounding \<Rightarrow> nat \<times> int \<Rightarrow> money result" where
  "quantize_cents m a =
     (let c = to_cents m a in if 10 ^ prec \<le> c then Inl InvalidOperation else Inr (int c))"

text \<open>
  \<open>Billing._positive_money\<close>: quantize half-up; infinities, signalling NaNs and results of
  more than 28 digits raise \<open>InvalidOperation\<close>, a quiet NaN and a non-positive result
  raise \<open>ValueError\<close>. The sign is kept apart, as in the module.
\<close>

definition positive_money :: "decimal \<Rightarrow> money result" where
  "positive_money d = (case d of
      DInf _ \<Rightarrow> Inl InvalidOperation
    | DSNaN \<Rightarrow> Inl InvalidOperation
    | DNaN \<Rightarrow> Inl (ValueError ''amount must be a positive finite BRL value'')
    | Dec c e \<Rightarrow> (case quantize_cents HalfUp (nat \<bar>c\<bar>, e) of
         Inl err \<Rightarrow> Inl err
       | Inr n \<Rightarrow> if c \<le> 0 \<or> n \<le> 0
                  then Inl (ValueError ''amount must be a positive finite BRL value'')
                  else Inr n))"

abbreviation decimal_of_cents :: "money \<Rightarrow> decimal" where
  "decimal_of_cents c \<equiv> Dec c (-2)"

text \<open>
  \<open>(rate * Decimal(n) / Decimal(d)).quantize(_CENT, rounding=m)\<close> for a rate in cents: the
  price of \<open>n\<close> units when \<open>d\<close> units cost \<open>rate\<close>.
\<close>

definition prorate :: "rounding \<Rightarrow> money \<Rightarrow> int \<Rightarrow> nat \<Rightarrow> money result" where
  "prorate m rate n d =
     quantize_cents m (dec_quot (dec_mul (nat rate, -2) (nat n, 0)) (d, 0))"

text \<open>Comparison of finite numbers, and \<open>int(...)\<close>.\<close>

definition dec_le :: "nat \<times> int \<Rightarrow> nat \<times> int \<Rightarrow> bool" where
  "dec_le a b = (let e = min (snd a) (snd b)
     in fst a * 10 ^ nat (snd a - e) \<le> fst b * 10 ^ nat (snd b - e))"

definition dec_trunc :: "nat \<times> int \<Rightarrow> nat" where
  "dec_trunc a = (if 0 \<le> snd a then fst a * 10 ^ nat (snd a) else fst a div 10 ^ nat (- snd a))"

section \<open>Basic facts\<close>

lemma quantize_cents_nonneg: "quantize_cents m a = Inr c \<Longrightarrow> 0 \<le> c"
  by (auto simp: quantize_cents_def Let_def split: if_splits)

lemma prorate_nonneg: "prorate m rate n d = Inr c \<Longrightarrow> 0 \<le> c"
  by (auto simp: prorate_def dest: quantize_cents_nonneg)

lemma positive_money_pos: "positive_money d = Inr c \<Longrightarrow> 0 < c"
  by (auto simp: positive_money_def split: decimal.splits sum.splits if_splits)

lemma positive_money_cents:
  "0 < c \<Longrightarrow> c < 10 ^ prec \<Longrightarrow> positive_money (decimal_of_cents c) = Inr c"
  by (auto simp: positive_money_def quantize_cents_def to_cents_def Let_def nat_less_iff)

section \<open>The context's precision never changes a cent\<close>

lemma ndigits_pos: "0 < ndigits n"
  by (subst ndigits.simps) simp

lemma ndigits_upper: "n < 10 ^ ndigits n"
proof (induction n rule: ndigits.induct)
  case (1 n)
  show ?case
  proof (cases "n < 10")
    case True
    then show ?thesis by (simp add: ndigits.simps [of n])
  next
    case False
    with "1.IH" have "n div 10 < 10 ^ ndigits (n div 10)" by simp
    then have "n < 10 * 10 ^ ndigits (n div 10)" by linarith
    with False show ?thesis by (simp add: ndigits.simps [of n])
  qed
qed

lemma ndigits_lower: "0 < n \<Longrightarrow> 10 ^ (ndigits n - 1) \<le> n"
proof (induction n rule: ndigits.induct)
  case (1 n)
  show ?case
  proof (cases "n < 10")
    case True
    with "1.prems" show ?thesis by (simp add: ndigits.simps [of n])
  next
    case False
    with "1.IH" have "10 ^ (ndigits (n div 10) - 1) \<le> n div 10" by simp
    then have "10 * 10 ^ (ndigits (n div 10) - 1) \<le> n" by linarith
    then have "10 ^ ndigits (n div 10) \<le> n"
      using ndigits_pos [of "n div 10"] by (simp flip: power_Suc)
    with False show ?thesis by (simp add: ndigits.simps [of n])
  qed
qed

lemma ndigits_leI: "n < 10 ^ k \<Longrightarrow> 0 < k \<Longrightarrow> ndigits n \<le> k"
proof (rule ccontr)
  assume "n < 10 ^ k" "0 < k" "\<not> ndigits n \<le> k"
  then have "k \<le> ndigits n - 1" by simp
  then have "(10::nat) ^ k \<le> 10 ^ (ndigits n - 1)" by (simp add: power_increasing)
  also have "\<dots> \<le> n"
  proof (rule ndigits_lower)
    show "0 < n" using \<open>\<not> ndigits n \<le> k\<close> \<open>0 < k\<close> by (cases n) (auto simp: ndigits.simps [of 0])
  qed
  finally show False using \<open>n < 10 ^ k\<close> by simp
qed

lemma ndigits_gtI: "10 ^ k \<le> n \<Longrightarrow> k < ndigits n"
  using ndigits_upper [of n] by (meson le_less_trans power_less_imp_less_exp one_less_numeral_iff
      semiring_norm(76))

lemma half_even_exact: "10 ^ k dvd n \<Longrightarrow> half_even n k * 10 ^ k = n"
  by (auto simp: half_even_def Let_def)

lemma half_even_error:
  "2 * n \<le> 2 * (half_even n k * 10 ^ k) + 10 ^ k"
  "2 * (half_even n k * 10 ^ k) \<le> 2 * n + 10 ^ k"
proof -
  define T :: nat where "T = 10 ^ k"
  have n: "n = n div T * T + n mod T" by simp
  have "2 * n \<le> 2 * (half_even n k * T) + T \<and> 2 * (half_even n k * T) \<le> 2 * n + T"
  proof (cases "T < 2 * (n mod T) \<or> 2 * (n mod T) = T \<and> odd (n div T)")
    case True
    then have "half_even n k * T = n div T * T + T" by (simp add: half_even_def Let_def T_def)
    moreover have "n mod T \<le> T" unfolding T_def by (simp add: order_less_imp_le)
    ultimately show ?thesis using True n by linarith
  next
    case False
    then have "half_even n k * T = n div T * T" by (auto simp: half_even_def Let_def T_def)
    with False n show ?thesis by linarith
  qed
  then show "2 * n \<le> 2 * (half_even n k * 10 ^ k) + 10 ^ k"
    and "2 * (half_even n k * 10 ^ k) \<le> 2 * n + 10 ^ k" by (simp_all add: T_def)
qed

text \<open>
  What \<open>quantize\<close> of the exact quotient \<open>n / d\<close> gives: the next integer, or the nearest
  one with ties upwards.
\<close>

definition exact_quotient :: "rounding \<Rightarrow> nat \<Rightarrow> nat \<Rightarrow> nat" where
  "exact_quotient m n d =
     (case m of HalfUp \<Rightarrow> (if d \<le> 2 * (n mod d) then Suc (n div d) else n div d)
              | Up \<Rightarrow> (if 0 < n mod d then Suc (n div d) else n div d))"


text \<open>
  Rounding an approximation \<open>q\<close> of \<open>n * T / d\<close> (\<open>T\<close> a power of ten) that is off by at most
  one unit gives the exact quotient, provided the approximation is exact whenever the quotient
  is an integer or a tie.
\<close>

lemma round_approximation:
  assumes d: "0 < d" and T: "2 * d < 10 ^ j"
    and low: "n * 10 ^ j \<le> d * q + d" and high: "d * q \<le> n * 10 ^ j + d"
    and whole: "n mod d = 0 \<Longrightarrow> d * q = n * 10 ^ j"
    and tie: "2 * (n mod d) = d \<Longrightarrow> d * q = n * 10 ^ j"
  shows "round_digits m q j = exact_quotient m n d"
proof -
  define T :: nat where "T = 10 ^ j"
  define a where "a = n div d"
  define t where "t = n mod d"
  have n: "n = d * a + t" and td: "t < d" using d by (simp_all add: a_def t_def)
  have TT: "2 * d < T" "0 < T" using T by (simp_all add: T_def)
  have "n * T = (d * a + t) * T" using n by simp
  then have nT: "n * T = d * (a * T) + t * T" by (simp add: algebra_simps)
  have "d * q = n * T" if "t = 0 \<or> 2 * t = d"
    using that unfolding t_def T_def by (elim disjE) (erule whole, erule tie)
  with nT have eq: "d * q = d * (a * T) + t * T" if "t = 0 \<or> 2 * t = d" using that by simp
  have lo: "d * (a * T) + t * T \<le> d * q + d" and hi: "d * q \<le> d * (a * T) + t * T + d"
    using low high nT by (simp_all only: T_def)
  have tT: "t * T + T \<le> d * T" using mult_le_mono1 [OF Suc_leI [OF td], of T] by simp
  have qa: "a * T \<le> q"
  proof (cases "t = 0")
    case True with eq d show ?thesis by simp
  next
    case False
    then have "T \<le> t * T" by simp
    with lo TT have "d * (a * T) \<le> d * q" by linarith
    with d show ?thesis by simp
  qed
  then obtain u where u: "q = a * T + u" using le_Suc_ex by blast
  have ulo: "t * T \<le> d * u + d" and uhi: "d * u \<le> t * T + d"
    using lo hi by (simp_all add: u algebra_simps)
  have "d * u < d * T" using uhi tT TT by linarith
  then have uT: "u < T" by simp
  have qd: "q div T = a" "q mod T = u" using uT by (simp_all add: u)
  have upos: "0 < u \<longleftrightarrow> 0 < t"
  proof (cases "t = 0")
    case True with eq d u show ?thesis by simp
  next
    case False
    then have "T \<le> t * T" by simp
    with ulo TT have "0 < d * u" by linarith
    with False show ?thesis by simp
  qed
  have utie: "T \<le> 2 * u \<longleftrightarrow> d \<le> 2 * t"
  proof (rule linorder_cases [of "2 * t" d])
    assume "2 * t < d"
    then have "2 * (t * T) + T \<le> d * T"
      using mult_le_mono1 [of "Suc (2 * t)" d T] by simp
    moreover have "d * (2 * u) = 2 * (d * u)" by simp
    ultimately have "d * (2 * u) < d * T" using uhi TT by linarith
    with \<open>2 * t < d\<close> show ?thesis by simp
  next
    assume "2 * t = d"
    then have "d * q = d * (a * T) + t * T" by (intro eq) simp
    then have "d * u = t * T" unfolding u by (simp add: distrib_left)
    moreover have "d * u = t * (2 * u)" unfolding \<open>2 * t = d\<close> [symmetric] by simp
    ultimately have "t * (2 * u) = t * T" by simp
    with \<open>2 * t = d\<close> d show ?thesis by simp
  next
    assume "d < 2 * t"
    then have "d * T + T \<le> 2 * (t * T)"
      using mult_le_mono1 [of "Suc d" "2 * t" T] by simp
    moreover have "d * (2 * u) = 2 * (d * u)" by simp
    ultimately have "d * T < d * (2 * u)" using ulo TT by linarith
    with \<open>d < 2 * t\<close> show ?thesis by simp
  qed
  show ?thesis
    using qd upos utie d
    by (cases m) (simp_all add: round_digits_def exact_quotient_def Let_def flip: a_def t_def T_def)
qed

text \<open>The coefficient of the quotient before its last rounding has 29 or 30 digits.\<close>

definition sticky :: "nat \<Rightarrow> nat \<Rightarrow> nat" where
  "sticky x d = (if x mod d \<noteq> 0 \<and> x div d mod 5 = 0 then Suc (x div d) else x div d)"

lemma sticky_exact: "d dvd x \<Longrightarrow> d * sticky x d = x"
  by (simp add: sticky_def)

lemma sticky_error:
  assumes "0 < d" shows "x \<le> d * sticky x d + d" and "d * sticky x d \<le> x + d"
proof -
  have x: "x = d * (x div d) + x mod d" "x mod d < d" using assms by simp_all
  then have "x \<le> d * (x div d) + d" and "d * (x div d) \<le> x" by linarith+
  then show "x \<le> d * sticky x d + d" and "d * sticky x d \<le> x + d"
    unfolding sticky_def by (simp_all add: trans_le_add1)
qed

lemma half_even_sticky:
  assumes d: "0 < d" and k: "0 < k" and x: "x = z * 10 ^ k"
  shows "z \<le> d * half_even (sticky x d) k + d" and "d * half_even (sticky x d) k \<le> z + d"
    and "d * 10 ^ k dvd x \<Longrightarrow> d * half_even (sticky x d) k = z"
proof -
  define P :: nat where "P = 10 ^ k"
  define c where "c = sticky x d"
  define q where "q = half_even c k"
  have P: "2 \<le> P" "0 < P" using k by (cases k; simp add: P_def)+
  have "2 * c \<le> 2 * (q * P) + P" and "2 * (q * P) \<le> 2 * c + P"
    using half_even_error [of c k] by (simp_all add: q_def P_def)
  then have "d * (2 * c) \<le> d * (2 * (q * P) + P)" and "d * (2 * (q * P)) \<le> d * (2 * c + P)"
    by (simp_all only: mult_le_mono2)
  moreover have "z * P \<le> d * c + d" "d * c \<le> z * P + d"
    using sticky_error [OF d, of x] by (simp_all add: c_def x P_def)
  moreover have "2 * d \<le> d * P" using P d by simp
  moreover have "d * (2 * c) = 2 * (d * c)" "d * (2 * (q * P) + P) = 2 * (d * q * P) + d * P"
    "d * (2 * (q * P)) = 2 * (d * q * P)" "d * (2 * c + P) = 2 * (d * c) + d * P"
    by (simp_all add: algebra_simps)
  ultimately have "z * P \<le> d * q * P + d * P" and "d * q * P \<le> z * P + d * P"
    by linarith+
  then have "z * P \<le> (d * q + d) * P" and "d * q * P \<le> (z + d) * P"
    by (simp_all add: algebra_simps)
  then show "z \<le> d * half_even (sticky x d) k + d" and "d * half_even (sticky x d) k \<le> z + d"
    using P by (simp_all add: q_def c_def)
  assume dvd: "d * 10 ^ k dvd x"
  then have dc: "d * c = x" unfolding c_def by (intro sticky_exact) (rule dvd_mult_left)
  with dvd d have "P dvd c" by (auto simp: P_def)
  then have "q * P = c" unfolding q_def P_def by (rule half_even_exact)
  with dc x have "(d * q) * P = z * P" unfolding P_def by (simp add: mult.assoc)
  with P show "d * half_even (sticky x d) k = z" by (simp add: q_def c_def)
qed


lemma fix_prec_zero: "fix_prec 0 e = (0, e)"
  by (simp add: fix_prec_def prec_def ndigits.simps [of 0])

lemma dec_quot_zero: "quantize_cents m (dec_quot (0, e) b) = Inr 0"
proof -
  have "quantize_cents m (0, e') = Inr 0" for e'
    by (auto simp: quantize_cents_def to_cents_def round_digits_def split: rounding.splits)
  then show ?thesis by (simp add: dec_quot_def Let_def fix_prec_zero)
qed

lemma dec_quot_sticky:
  assumes "int s = int (ndigits d) - int (ndigits n) + 29"
  shows "dec_quot (n, e) (d, f) = fix_prec (sticky (n * 10 ^ s) d) (e - f - int s)"
proof -
  have "int (ndigits d) - int (ndigits n) + int prec + 1 = int s"
    using assms by (simp add: prec_def)
  then show ?thesis by (simp add: dec_quot_def Let_def sticky_def)
qed

text \<open>
  The exactness theorem: whenever the product \<open>rate * n\<close> stays below ten to the twentieth
  (a quintillion reais), the two 28-digit roundings are invisible in the quantized amount.
\<close>

lemma quantized_quotient_exact:
  assumes rate: "0 \<le> rate" and n: "0 \<le> n" and bound: "rate * n < 10 ^ 20" and d: "0 < d"
  shows "prorate m rate n d = Inr (int (exact_quotient m (nat (rate * n)) d))"
proof (cases "rate * n = 0")
  case True
  then have "nat rate * nat n = 0" by auto
  moreover have "exact_quotient m 0 d = 0"
    using d by (simp add: exact_quotient_def split: rounding.splits)
  ultimately show ?thesis
    by (simp only: prorate_def dec_mul_def fst_conv snd_conv fix_prec_zero dec_quot_zero True
        nat_0 of_nat_0)
next
  case False
  define N where "N = nat (rate * n)"
  define D where "D = ndigits d"
  define L where "L = ndigits N"
  define s where "s = D + 29 - L"
  define x where "x = N * 10 ^ s"
  define c where "c = sticky x d"
  define k where "k = ndigits c - 28"
  have "0 < rate * n" using rate n False by simp
  moreover have "nat (rate * n) < nat (10 ^ 20)" using bound by (subst nat_mono_iff) simp
  moreover have "nat (10 ^ 20) = 10 ^ 20" by simp
  moreover have "nat (rate * n) = nat rate * nat n" using rate by (rule nat_mult_distrib)
  ultimately have N: "nat rate * nat n = N" "0 < N" "N < 10 ^ 20"
    unfolding N_def by (simp_all only: zero_less_nat_eq)
  have L: "L \<le> 20" "0 < L" using N by (auto simp: L_def ndigits_pos intro: ndigits_leI)
  have D: "d < 10 ^ D" "10 ^ (D - 1) \<le> d" "0 < D"
    unfolding D_def by (rule ndigits_upper ndigits_lower [OF d] ndigits_pos)+
  have s: "D + 29 = s + L" using L by (simp add: s_def)
  have "10 ^ 28 * d \<le> 10 ^ 28 * 10 ^ D" using D by simp
  also have "\<dots> = 10 ^ (L - 1) * (10::nat) ^ s"
    unfolding power_add [symmetric] using s L by (intro arg_cong [of _ _ "power 10"]) simp
  also have "\<dots> \<le> x" unfolding x_def L_def using ndigits_lower [OF N(2)] by (rule mult_le_mono1)
  finally have "10 ^ 28 \<le> x div d" using d by (simp add: less_eq_div_iff_mult_less_eq)
  then have clow: "10 ^ 28 \<le> c" by (simp add: c_def sticky_def)
  have "x < 10 ^ L * 10 ^ s" using ndigits_upper [of N] by (simp add: x_def L_def)
  also have "\<dots> = 10 ^ 30 * (10::nat) ^ (D - 1)"
    unfolding power_add [symmetric] using s D by (intro arg_cong [of _ _ "power 10"]) simp
  also have "\<dots> \<le> 10 ^ 30 * d" using D by simp
  finally have "x div d < 10 ^ 30" using d by (simp add: div_less_iff_less_mult)
  then have "c < 10 ^ 31" by (simp add: c_def sticky_def)
  then have k: "0 < k" "k \<le> 3"
    using ndigits_gtI [OF clow] ndigits_leI [of c 31] by (simp_all add: k_def)
  have sk: "D + 6 \<le> s - k" "s = s - k + k" using s L k by simp_all
  have quot: "dec_quot (N, -2) (d, 0) = (half_even c k, -2 - int s + int k)"
  proof -
    have "int s = int (ndigits d) - int (ndigits N) + 29" using s by (simp add: D_def L_def)
    then have "dec_quot (N, -2) (d, 0) = fix_prec c (-2 - int s)"
      by (simp add: dec_quot_sticky flip: c_def x_def)
    with k show ?thesis by (simp add: fix_prec_def prec_def k_def)
  qed
  have prod: "dec_mul (nat rate, -2) (nat n, 0) = (N, -2)"
    using N L by (simp add: dec_mul_def fix_prec_def prec_def L_def)
  have xk: "x = (N * 10 ^ (s - k)) * 10 ^ k" using sk by (simp add: x_def flip: power_add)
  have "round_digits m (half_even c k) (s - k) = exact_quotient m N d"
  proof (rule round_approximation [OF d])
    show "N * 10 ^ (s - k) \<le> d * half_even c k + d"
      and "d * half_even c k \<le> N * 10 ^ (s - k) + d"
      using half_even_sticky(1,2) [OF d k(1) xk] by (simp_all add: c_def)
    have "(10::nat) ^ (D + 6) \<le> 10 ^ (s - k)" using sk by (simp add: power_increasing)
    moreover have "2 * d < 10 ^ (D + 6)" using D by (simp add: power_add)
    ultimately show "2 * d < 10 ^ (s - k)" by linarith
    show "d * half_even c k = N * 10 ^ (s - k)" if "N mod d = 0"
    proof -
      have "d * 10 ^ k dvd x" using that sk unfolding xk by (intro mult_dvd_mono) auto
      with half_even_sticky(3) [OF d k(1) xk] show ?thesis by (simp add: c_def)
    qed
    show "d * half_even c k = N * 10 ^ (s - k)" if t: "2 * (N mod d) = d"
    proof -
      have "2 * N = 2 * (d * (N div d)) + d"
        using t mult_div_mod_eq [of d N] by linarith
      then have "d dvd 2 * N" by simp
      moreover have "N * 10 ^ (s - k) = 2 * N * (5 * 10 ^ (s - k - 1))"
        using sk by (cases "s - k") simp_all
      ultimately have "d dvd N * 10 ^ (s - k)" by (metis dvd_mult2)
      then have "d * 10 ^ k dvd x" unfolding xk by (intro mult_dvd_mono) auto
      with half_even_sticky(3) [OF d k(1) xk] show ?thesis by (simp add: c_def)
    qed
  qed
  moreover have "exact_quotient m N d \<le> Suc N"
    using div_le_dividend [of N d] le_SucI [OF div_le_dividend [of N d]]
    by (cases m) (simp_all add: exact_quotient_def)
  moreover have "nat (int s - int k) = s - k" "\<not> s \<le> k" using sk by simp_all
  ultimately show ?thesis
    using N
    by (simp add: prorate_def prod quot quantize_cents_def to_cents_def prec_def Let_def
        flip: N_def)
qed


text \<open>Rounding up is the least integer not below the quotient, and half-up is never above it.\<close>

lemma exact_up_le_iff: "0 < d \<Longrightarrow> exact_quotient Up n d \<le> k \<longleftrightarrow> n \<le> k * d"
proof -
  assume d: "0 < d"
  have n: "n = n div d * d + n mod d" "n mod d < d" using d by simp_all
  show ?thesis
  proof
    assume "exact_quotient Up n d \<le> k"
    then have "n mod d = 0 \<and> n div d \<le> k \<or> Suc (n div d) \<le> k"
      by (auto simp: exact_quotient_def split: if_splits)
    then show "n \<le> k * d"
    proof
      assume "n mod d = 0 \<and> n div d \<le> k"
      then show ?thesis using n(1) mult_le_mono1 [of "n div d" k d] by simp
    next
      assume "Suc (n div d) \<le> k"
      then have "Suc (n div d) * d \<le> k * d" by (rule mult_le_mono1)
      then have "d + n div d * d \<le> k * d" by simp
      with n show ?thesis by linarith
    qed
  next
    assume le: "n \<le> k * d"
    have "n div d \<le> k" using div_le_mono [OF le, of d] d by simp
    moreover have "n div d \<noteq> k" if "0 < n mod d"
    proof
      assume "n div d = k"
      then have "n div d * d = k * d" by simp
      with that n(1) le show False by linarith
    qed
    ultimately show "exact_quotient Up n d \<le> k" by (auto simp: exact_quotient_def)
  qed
qed

lemma exact_half_le_up: "0 < d \<Longrightarrow> n \<le> m \<Longrightarrow> exact_quotient HalfUp n d \<le> exact_quotient Up m d"
proof -
  assume d: "0 < d" and nm: "n \<le> m"
  have "exact_quotient HalfUp n d \<le> exact_quotient Up n d"
    using d by (auto simp: exact_quotient_def)
  also have "\<dots> \<le> exact_quotient Up m d"
    using exact_up_le_iff [OF d, of m "exact_quotient Up m d"] exact_up_le_iff [OF d] nm by simp
  finally show ?thesis .
qed

text \<open>A shorter period rounded half-up never costs more than a longer one rounded up.\<close>

lemma prorate_half_le_up:
  assumes rate: "0 \<le> rate" and n: "0 \<le> n" "n \<le> m" and bound: "rate * m < 10 ^ 20" and d: "0 < d"
  obtains a b where "prorate HalfUp rate n d = Inr a" "prorate Up rate m d = Inr b" "a \<le> b"
proof -
  have le: "rate * n \<le> rate * m" using n rate by (intro mult_left_mono)
  have "prorate HalfUp rate n d = Inr (int (exact_quotient HalfUp (nat (rate * n)) d))"
    using rate n le bound d by (intro quantized_quotient_exact) auto
  moreover have "prorate Up rate m d = Inr (int (exact_quotient Up (nat (rate * m)) d))"
    using rate n bound d by (intro quantized_quotient_exact) auto
  moreover have "exact_quotient HalfUp (nat (rate * n)) d \<le> exact_quotient Up (nat (rate * m)) d"
    using le d by (intro exact_half_le_up nat_mono)
  ultimately show thesis using that by simp
qed

end
