(* ===== verification/Wallet.thy ===== *)
theory Wallet
  imports Calendar Decimals
begin

text \<open>
  The data of the Billing component (\<open>gamewake/billing/model.py\<close>) and the balances
  computed from a Wallet snapshot (the private helpers at the end of
  \<open>gamewake/billing/service.py\<close>). Amounts are integers of cents: every amount the service
  stores has been quantized to \<open>0.01\<close>, and sums of such amounts are exact below 28 digits.
\<close>

section \<open>Data\<close>

datatype ledger_entry_type =
    CONTRIBUTION | RUNTIME_CHARGE | STORAGE_CHARGE | WAKE_GUARANTEE
  | AVAILABILITY_CREDIT | SUPPORT_CREDIT | REFUND | DISPUTE

datatype reservation_status = ACTIVE | CAPTURED | RELEASED

datatype contribution_status =
    CREATING_CHECKOUT | PENDING | COMPLETED | REFUND_REQUESTED | REFUNDED | DISPUTED
  | NEEDS_REVIEW

record contribution_package =
  cp_id :: string
  cp_amount :: decimal
  cp_provider_product_id :: string

record contribution_checkout_request =
  cr_external_id :: string
  cr_provider_product_id :: string
  cr_expected_amount :: money
  cr_return_url :: string
  cr_completion_url :: string
  cr_payer_name :: "string option"
  cr_payer_email :: "string option"

record payment_checkout =
  pc_id :: string
  pc_external_id :: string
  pc_url :: string
  pc_amount :: money
  pc_status :: string
  pc_paid_amount :: "money option"

record payment_method_summary =
  pm_method :: string
  pm_card_last_four :: "string option"
  pm_card_brand :: "string option"

record wallet_contribution =
  wc_id :: string
  wc_account_id :: string
  wc_payer_user_id :: string
  wc_package_id :: string
  wc_amount :: money
  wc_provider_product_id :: string
  wc_provider_checkout_id :: "string option"
  wc_checkout_url :: "string option"
  wc_return_url :: string
  wc_completion_url :: string
  wc_status :: contribution_status
  wc_idempotency_key :: string
  wc_created_at :: instant
  wc_payment_method :: "payment_method_summary option"
  wc_provider_refund_id :: "string option"

record processed_payment_event =
  pe_id :: string
  pe_event_type :: string
  pe_contribution_id :: string
  pe_processed_at :: instant

record balance_guard_state =
  bg_reservation_id :: string
  bg_notified_alert_minutes :: "int list"

record balance_guard_decision =
  bd_reservation_id :: string
  bd_reserved_amount :: money
  bd_remaining_minutes :: int
  bd_new_alert_minutes :: "int list"
  bd_new_budget_alert_percentages :: "int list"
  bd_safe_sleep_reserved :: bool
  bd_should_sleep :: bool
  bd_reason :: "string option"

record world_budget =
  wb_id :: string
  wb_account_id :: string
  wb_world_id :: string
  wb_monthly_limit :: money
  wb_idempotency_key :: string
  wb_updated_at :: instant

record world_budget_alert_state =
  ba_world_id :: string
  ba_period :: string
  ba_notified_percentages :: "int list"

record world_budget_status =
  bs_world_id :: string
  bs_period :: string
  bs_monthly_limit :: money
  bs_spent :: money
  bs_reserved :: money
  bs_committed :: money
  bs_percentage :: money
  bs_wake_allowed :: bool

record ledger_entry =
  le_id :: string
  le_account_id :: string
  le_entry_type :: ledger_entry_type
  le_amount :: money
  le_reference :: string
  le_idempotency_key :: string
  le_occurred_at :: instant
  le_actor_user_id :: "string option"
  le_reason :: "string option"

record usage_reservation =
  ur_id :: string
  ur_account_id :: string
  ur_amount :: money
  ur_purpose :: string
  ur_idempotency_key :: string
  ur_status :: reservation_status
  ur_created_at :: instant
  ur_quote_id :: "string option"
  ur_world_id :: "string option"

record session_quote =
  sq_id :: string
  sq_account_id :: string
  sq_world_id :: string
  sq_runtime_profile_id :: string
  sq_hourly_rate :: money
  sq_idempotency_key :: string
  sq_created_at :: instant
  sq_expires_at :: instant

record runtime_usage =
  ru_id :: string
  ru_account_id :: string
  ru_world_id :: string
  ru_quote_id :: string
  ru_reservation_id :: string
  ru_billable_seconds :: int
  ru_amount :: money
  ru_runtime_started_at :: instant
  ru_runtime_released_at :: instant
  ru_ledger_entry_id :: string
  ru_idempotency_key :: string

record wallet_snapshot =
  ws_account_id :: string
  ws_entries :: "ledger_entry list"
  ws_reservations :: "usage_reservation list"
  ws_quotes :: "session_quote list"
  ws_usages :: "runtime_usage list"
  ws_contributions :: "wallet_contribution list"
  ws_payment_events :: "processed_payment_event list"
  ws_balance_guards :: "balance_guard_state list"
  ws_world_budgets :: "world_budget list"
  ws_world_budget_alerts :: "world_budget_alert_state list"
  ws_version :: nat

record wallet =
  wa_account_id :: string
  wa_currency :: string
  wa_balance :: money
  wa_available_balance :: money
  wa_statement :: "ledger_entry list"
  wa_reservations :: "usage_reservation list"

section \<open>Balances\<close>

text \<open>\<open>sum((entry.amount for entry in snapshot.entries), start=Decimal("0.00"))\<close>\<close>

definition balance :: "wallet_snapshot \<Rightarrow> money" where
  "balance w = sum_list (map le_amount (ws_entries w))"

definition active_amount :: "usage_reservation \<Rightarrow> money" where
  "active_amount r = (if ur_status r = ACTIVE then ur_amount r else 0)"

definition reserved :: "wallet_snapshot \<Rightarrow> money" where
  "reserved w = sum_list (map active_amount (ws_reservations w))"

definition under_review :: "wallet_snapshot \<Rightarrow> bool" where
  "under_review w = list_ex (\<lambda>c. wc_status c = NEEDS_REVIEW) (ws_contributions w)"

definition available_balance :: "wallet_snapshot \<Rightarrow> money" where
  "available_balance w = (if under_review w then 0 else balance w - reserved w)"

definition find_world_budget :: "wallet_snapshot \<Rightarrow> string \<Rightarrow> world_budget option" where
  "find_world_budget w world_id = find (\<lambda>b. wb_world_id b = world_id) (ws_world_budgets w)"

definition world_budget_reserved :: "wallet_snapshot \<Rightarrow> string \<Rightarrow> money" where
  "world_budget_reserved w world_id =
     sum_list (map active_amount
       (filter (\<lambda>r. ur_world_id r = Some world_id) (ws_reservations w)))"

text \<open>The credits that give back part of a usage: its wake guarantee and availability credits.\<close>

definition usage_credits :: "wallet_snapshot \<Rightarrow> runtime_usage \<Rightarrow> money" where
  "usage_credits w u =
     sum_list (map le_amount (filter
       (\<lambda>e. le_entry_type e \<in> {WAKE_GUARANTEE, AVAILABILITY_CREDIT}
            \<and> (le_reference e = ru_id u \<or> starts_with (ru_id u @ '':'') (le_reference e)))
       (ws_entries w)))"

definition world_budget_spent :: "wallet_snapshot \<Rightarrow> string \<Rightarrow> instant \<Rightarrow> money" where
  "world_budget_spent w world_id observed_at =
     sum_list (map (\<lambda>u. max 0 (ru_amount u - usage_credits w u))
       (filter (\<lambda>u. ru_world_id u = world_id
                    \<and> month_key (ru_runtime_released_at u) = month_key observed_at)
         (ws_usages w)))"

text \<open>\<open>None\<close> stands for \<open>Decimal("Infinity")\<close>: the World has no budget.\<close>

definition world_budget_available ::
    "wallet_snapshot \<Rightarrow> string \<Rightarrow> instant \<Rightarrow> money option" where
  "world_budget_available w world_id observed_at =
     (case find_world_budget w world_id of
        None \<Rightarrow> None
      | Some b \<Rightarrow> Some (max 0 (wb_monthly_limit b
          - (world_budget_spent w world_id observed_at + world_budget_reserved w world_id))))"

text \<open>\<open>available < amount\<close> against a limit that may be infinite.\<close>

definition below :: "money option \<Rightarrow> money \<Rightarrow> bool" where
  "below available amount = (case available of None \<Rightarrow> False | Some a \<Rightarrow> a < amount)"

section \<open>Well-formed Wallets\<close>

text \<open>
  The integrity of a Wallet: identifiers are distinct, amounts have the sign the code checks
  when it creates them, and the Wallet is solvent: its active reservations are covered by its
  ledger balance. A usage has at most one wake guarantee.
\<close>

definition wake_guarantees :: "ledger_entry list \<Rightarrow> ledger_entry list" where
  "wake_guarantees es = filter (\<lambda>e. le_entry_type e = WAKE_GUARANTEE) es"

lemma wake_guarantees_simps [simp]:
  "wake_guarantees [] = []"
  "wake_guarantees (es @ [e])
     = wake_guarantees es @ (if le_entry_type e = WAKE_GUARANTEE then [e] else [])"
  by (simp_all add: wake_guarantees_def)

definition solvent :: "wallet_snapshot \<Rightarrow> bool" where
  "solvent w \<longleftrightarrow> reserved w \<le> balance w"

definition ids_ok :: "wallet_snapshot \<Rightarrow> bool" where
  "ids_ok w \<longleftrightarrow>
     distinct (map le_id (ws_entries w)) \<and> distinct (map ur_id (ws_reservations w))
     \<and> distinct (map sq_id (ws_quotes w)) \<and> distinct (map ru_id (ws_usages w))
     \<and> distinct (map wc_id (ws_contributions w))
     \<and> distinct (map le_reference (wake_guarantees (ws_entries w)))"

definition amounts_ok :: "wallet_snapshot \<Rightarrow> bool" where
  "amounts_ok w \<longleftrightarrow>
     (\<forall>r \<in> set (ws_reservations w). 0 \<le> ur_amount r)
     \<and> (\<forall>q \<in> set (ws_quotes w). 0 < sq_hourly_rate q)
     \<and> (\<forall>u \<in> set (ws_usages w). 0 \<le> ru_amount u)
     \<and> (\<forall>c \<in> set (ws_contributions w). 0 < wc_amount c)
     \<and> (\<forall>b \<in> set (ws_world_budgets w). 0 < wb_monthly_limit b)"

definition wallet_ok :: "wallet_snapshot \<Rightarrow> bool" where
  "wallet_ok w \<longleftrightarrow> ids_ok w \<and> amounts_ok w \<and> solvent w"

definition wallet_ids :: "wallet_snapshot \<Rightarrow> string set" where
  "wallet_ids w = le_id ` set (ws_entries w) \<union> ur_id ` set (ws_reservations w)
     \<union> sq_id ` set (ws_quotes w) \<union> ru_id ` set (ws_usages w)
     \<union> wc_id ` set (ws_contributions w)"

lemma reserved_nonneg: "amounts_ok w \<Longrightarrow> 0 \<le> reserved w"
  unfolding reserved_def
  by (intro sum_list_nonneg_ball) (auto simp: active_amount_def amounts_ok_def)

lemma wallet_okI [intro?]: "ids_ok w \<Longrightarrow> amounts_ok w \<Longrightarrow> solvent w \<Longrightarrow> wallet_ok w"
  by (simp add: wallet_ok_def)

lemma wallet_okD: "wallet_ok w \<Longrightarrow> ids_ok w" "wallet_ok w \<Longrightarrow> amounts_ok w"
  "wallet_ok w \<Longrightarrow> solvent w"
  by (simp_all add: wallet_ok_def)

lemma available_nonneg: "solvent w \<Longrightarrow> 0 \<le> available_balance w"
  by (simp add: available_balance_def solvent_def)

lemma available_le: "solvent w \<Longrightarrow> available_balance w \<le> balance w - reserved w"
  by (simp add: available_balance_def solvent_def)

lemma balance_simps [simp]:
  "balance (ws_entries_update f w) = sum_list (map le_amount (f (ws_entries w)))"
  "balance (ws_reservations_update g w) = balance w"
  "balance (ws_quotes_update h w) = balance w"
  "balance (ws_usages_update k w) = balance w"
  "balance (ws_contributions_update l w) = balance w"
  "balance (ws_payment_events_update m w) = balance w"
  "balance (ws_balance_guards_update n w) = balance w"
  "balance (ws_world_budgets_update p w) = balance w"
  "balance (ws_world_budget_alerts_update q w) = balance w"
  "balance (ws_version_update v w) = balance w"
  by (simp_all add: balance_def)

lemma reserved_simps [simp]:
  "reserved (ws_entries_update f w) = reserved w"
  "reserved (ws_reservations_update g w) = sum_list (map active_amount (g (ws_reservations w)))"
  "reserved (ws_quotes_update h w) = reserved w"
  "reserved (ws_usages_update k w) = reserved w"
  "reserved (ws_contributions_update l w) = reserved w"
  "reserved (ws_payment_events_update m w) = reserved w"
  "reserved (ws_balance_guards_update n w) = reserved w"
  "reserved (ws_world_budgets_update p w) = reserved w"
  "reserved (ws_world_budget_alerts_update q w) = reserved w"
  "reserved (ws_version_update v w) = reserved w"
  by (simp_all add: reserved_def)

end
