(* ===== verification/BillingStore.thy ===== *)
theory BillingStore
  imports Wallet
begin

text \<open>
  The Billing repository (\<open>gamewake/billing/contracts.py\<close>, \<open>in_memory.py\<close>) and the
  optimistic loop every Billing operation is written around: read the Wallet, compute a new
  one, save it under the version that was read, and start again when another client saved
  first (\<open>for _ in range(100)\<close> with \<open>Billing._try_save\<close>). What a loop body decides is a value of
  type \<open>attempt\<close>; the loop is \<open>retry\<close>, and \<open>rival i\<close> is whatever other clients do to the
  store between the read and the save of attempt \<open>i\<close>.

  The locale \<open>optimistic_store\<close> is the contract the loop needs from a repository; its lemmas
  (a loop's effect is one atomic step on the store it saved to; the loop gives up only when
  other clients saved at least once per attempt) are proved there once and used through the
  interpretation on the in-memory repository.
\<close>

section \<open>The loop\<close>

datatype ('w, 'a) attempt = Raise py_error | Return 'a | Commit 'w 'a

fun retry ::
    "('s \<Rightarrow> 'k \<Rightarrow> 'w) \<Rightarrow> ('w \<Rightarrow> nat \<Rightarrow> 's \<Rightarrow> 's result) \<Rightarrow> ('w \<Rightarrow> nat)
     \<Rightarrow> nat \<Rightarrow> nat \<Rightarrow> (nat \<Rightarrow> 's \<Rightarrow> 's) \<Rightarrow> 'k \<Rightarrow> (nat \<Rightarrow> 'w \<Rightarrow> ('w, 'a) attempt)
     \<Rightarrow> string \<Rightarrow> 's \<Rightarrow> 'a result \<times> 's" where
  "retry fetch save version 0 i rival k body msg s = (Inl (ConcurrentBillingUpdate msg), s)"
| "retry fetch save version (Suc n) i rival k body msg s =
     (let w = fetch s k
      in case body i w of
           Raise e \<Rightarrow> (Inl e, s)
         | Return a \<Rightarrow> (Inr a, s)
         | Commit w' a \<Rightarrow>
             (let s1 = rival i s
              in case save w' (version w) s1 of
                   Inr s2 \<Rightarrow> (Inr a, s2)
                 | Inl (ConcurrentBillingUpdate m) \<Rightarrow>
                     retry fetch save version n (Suc i) rival k body msg s1
                 | Inl e \<Rightarrow> (Inl e, s1)))"

text \<open>
  \<open>seen rival i n s\<close>: the store that attempt \<open>i + n\<close> reads when the attempts from \<open>i\<close> on were lost,
  each to what the other clients did in it.
\<close>

fun seen :: "(nat \<Rightarrow> 's \<Rightarrow> 's) \<Rightarrow> nat \<Rightarrow> nat \<Rightarrow> 's \<Rightarrow> 's" where
  "seen rival i 0 s = s"
| "seen rival i (Suc n) s = seen rival (Suc i) n (rival i s)"

section \<open>The repository contract\<close>

locale optimistic_store =
  fixes fetch :: "'s \<Rightarrow> 'k \<Rightarrow> 'w"
    and save :: "'w \<Rightarrow> nat \<Rightarrow> 's \<Rightarrow> 's result"
    and version :: "'w \<Rightarrow> nat"
    and key :: "'w \<Rightarrow> 'k"
    and stored :: "'w \<Rightarrow> nat \<Rightarrow> 'w"
    and conflict :: string
  assumes save_stale:
      "version (fetch s (key w)) \<noteq> v \<Longrightarrow> save w v s = Inl (ConcurrentBillingUpdate conflict)"
    and save_current: "version (fetch s (key w)) = v \<Longrightarrow> \<exists>s'. save w v s = Inr s'"
    and fetch_save:
      "save w v s = Inr s' \<Longrightarrow> fetch s' k = (if k = key w then stored w v else fetch s k)"
    and version_stored: "version (stored w v) = Suc v"
begin

lemma save_cases:
  obtains (stale) "version (fetch s (key w)) \<noteq> v" "save w v s = Inl (ConcurrentBillingUpdate conflict)"
  | (current) s' where "version (fetch s (key w)) = v" "save w v s = Inr s'"
  using save_stale save_current by (cases "version (fetch s (key w)) = v") blast+

lemma save_version: "save w v s = Inr s' \<Longrightarrow> version (fetch s (key w)) = v"
  by (cases rule: save_cases [where s = s and w = w and v = v]) auto

inductive saves :: "'s \<Rightarrow> 's \<Rightarrow> bool" where
  saves_refl: "saves s s"
| saves_step: "saves s s' \<Longrightarrow> save w v s' = Inr s'' \<Longrightarrow> saves s s''"

text \<open>Versions only grow, and an unchanged version means an unchanged aggregate.\<close>

lemma saves_version:
  "saves s s' \<Longrightarrow> version (fetch s k) \<le> version (fetch s' k)
     \<and> (version (fetch s' k) = version (fetch s k) \<longrightarrow> fetch s' k = fetch s k)"
proof (induction rule: saves.induct)
  case (saves_refl s)
  then show ?case by simp
next
  case (saves_step s s' w v s'')
  with save_version [OF saves_step.hyps(2)] show ?case
    by (auto simp: fetch_save [OF saves_step.hyps(2)] version_stored)
qed

lemma saves_unchanged:
  "saves s s' \<Longrightarrow> version (fetch s' k) = version (fetch s k) \<Longrightarrow> fetch s' k = fetch s k"
  using saves_version by blast

lemma saves_trans: "saves s s' \<Longrightarrow> saves s' s'' \<Longrightarrow> saves s s''"
  by (rotate_tac, induction rule: saves.induct) (auto intro: saves_step)

text \<open>
  A run of the loop under a rely condition on the rivals: they only change the store through saves,
  and they keep \<open>I\<close>. Every outcome is one body run on the aggregate as some attempt read it; when
  it commits, nobody has saved the aggregate since that read.
\<close>

lemma seen_keeps:
  assumes "\<And>i s. I s \<Longrightarrow> I (rival i s) \<and> saves s (rival i s)" and "I s"
  shows "I (seen rival i n s) \<and> saves s (seen rival i n s)"
  using assms(2)
proof (induction n arbitrary: i s)
  case 0
  then show ?case by (simp add: saves_refl)
next
  case (Suc n)
  then show ?case using assms(1) [of s i] saves_trans by auto
qed

lemma retry_run:
  assumes rely: "\<And>i s. I s \<Longrightarrow> I (rival i s) \<and> saves s (rival i s)"
    and keyed: "\<And>s. I s \<Longrightarrow> key (fetch s k) = k"
    and body: "\<And>i w w' a. body i w = Commit w' a \<Longrightarrow> key w' = key w"
    and run: "retry fetch save version n i rival k body msg s = (r, s')"
    and start: "I s"
  obtains (exhausted) "r = Inl (ConcurrentBillingUpdate msg)" "s' = seen rival i n s"
      "version (fetch s k) + n \<le> version (fetch s' k)"
  | (raised) e j where "r = Inl e" "j < n" "s' = seen rival i j s" "body (i + j) (fetch s' k) = Raise e"
  | (returned) a j where "r = Inr a" "j < n" "s' = seen rival i j s" "body (i + j) (fetch s' k) = Return a"
  | (committed) a j w' where "r = Inr a" "j < n" "body (i + j) (fetch (seen rival i j s) k) = Commit w' a"
      "fetch (seen rival i (Suc j) s) k = fetch (seen rival i j s) k" "key w' = k"
      "save w' (version (fetch (seen rival i j s) k)) (seen rival i (Suc j) s) = Inr s'"
  using run start
proof (induction n arbitrary: i s thesis)
  case 0
  then show ?case by auto
next
  case (Suc n)
  let ?w = "fetch s k"
  let ?s1 = "rival i s"
  show ?case
  proof (cases "body i ?w")
    case (Raise e)
    with Suc.prems show ?thesis by (intro Suc.prems(2) [of e 0]) simp_all
  next
    case (Return a)
    with Suc.prems show ?thesis by (intro Suc.prems(3) [of a 0]) simp_all
  next
    case (Commit w' a)
    have I1: "I ?s1" and step: "saves s ?s1" using rely Suc.prems by auto
    have key: "key w' = k" using body [OF Commit] keyed Suc.prems by simp
    show ?thesis
    proof (cases rule: save_cases [where s = ?s1 and w = w' and v = "version ?w"])
      case (current s2)
      then have "fetch ?s1 k = ?w" using saves_unchanged [OF step] key by simp
      with current Suc.prems Commit key show ?thesis
        by (intro Suc.prems(4) [of a 0 w']) simp_all
    next
      case stale
      then have rest: "retry fetch save version n (Suc i) rival k body msg ?s1 = (r, s')"
        using Suc.prems Commit by simp
      have less: "version ?w < version (fetch ?s1 k)"
        using stale key saves_version [OF step, of k] by auto
      show ?thesis
      proof (rule Suc.IH [OF _ _ _ _ rest I1], goal_cases)
        case 1
        with less show ?thesis by (intro Suc.prems(1)) simp_all
      next
        case (2 e j)
        then show ?thesis by (intro Suc.prems(2) [of e "Suc j"]) simp_all
      next
        case (3 a j)
        then show ?thesis by (intro Suc.prems(3) [of a "Suc j"]) simp_all
      next
        case (4 a j w')
        then show ?thesis by (intro Suc.prems(4) [of a "Suc j" w']) simp_all
      qed
    qed
  qed
qed

text \<open>The same without the position: a committed loop is one body run on the store it saved to.\<close>

lemma retry_outcome:
  assumes rely: "\<And>i s. I s \<Longrightarrow> I (rival i s) \<and> saves s (rival i s)"
    and keyed: "\<And>s. I s \<Longrightarrow> key (fetch s k) = k"
    and body: "\<And>i w w' a. body i w = Commit w' a \<Longrightarrow> key w' = key w"
    and run: "retry fetch save version n i rival k body msg s = (r, s')"
    and start: "I s"
  obtains (exhausted) "r = Inl (ConcurrentBillingUpdate msg)" "I s'" "saves s s'"
      "version (fetch s k) + n \<le> version (fetch s' k)"
  | (raised) e j where "r = Inl e" "I s'" "i \<le> j" "body j (fetch s' k) = Raise e"
  | (returned) a j where "r = Inr a" "I s'" "i \<le> j" "body j (fetch s' k) = Return a"
  | (committed) a j w' s1 where "r = Inr a" "I s1" "i \<le> j" "body j (fetch s1 k) = Commit w' a"
      "save w' (version (fetch s1 k)) s1 = Inr s'" "key w' = k"
proof -
  have kept: "I (seen rival i j s)" "saves s (seen rival i j s)" for j
    using seen_keeps [of I rival s i j] rely start by blast+
  show thesis
  proof (rule retry_run [where I = I, OF rely keyed body run start])
    assume "r = Inl (ConcurrentBillingUpdate msg)" "s' = seen rival i n s"
      "version (fetch s k) + n \<le> version (fetch s' k)"
    then show ?thesis using kept by (intro exhausted) simp_all
  next
    fix e j assume "r = Inl e" "s' = seen rival i j s" "body (i + j) (fetch s' k) = Raise e"
    then show ?thesis using kept by (intro raised [of e "i + j"]) simp_all
  next
    fix a j assume "r = Inr a" "s' = seen rival i j s" "body (i + j) (fetch s' k) = Return a"
    then show ?thesis using kept by (intro returned [of a "i + j"]) simp_all
  next
    fix a j w'
    assume "r = Inr a" "body (i + j) (fetch (seen rival i j s) k) = Commit w' a" "key w' = k"
      "fetch (seen rival i (Suc j) s) k = fetch (seen rival i j s) k"
      "save w' (version (fetch (seen rival i j s) k)) (seen rival i (Suc j) s) = Inr s'"
    then show ?thesis using kept(1) [of "Suc j"]
      by (intro committed [of a "seen rival i (Suc j) s" "i + j" w']) simp_all
  qed
qed

text \<open>Without rivals a loop runs its body once.\<close>

lemma retry_quiet:
  assumes "key (fetch s k) = k" and "\<And>w' a. body i (fetch s k) = Commit w' a \<Longrightarrow> key w' = k"
    and "0 < n" and "rival i s = s"
  shows "retry fetch save version n i rival k body msg s =
     (case body i (fetch s k) of Raise e \<Rightarrow> (Inl e, s) | Return a \<Rightarrow> (Inr a, s)
      | Commit w' a \<Rightarrow> (Inr a, projr (save w' (version (fetch s k)) s)))"
proof (cases "body i (fetch s k)")
  case (Commit w' a)
  with assms(2) obtain s' where "save w' (version (fetch s k)) s = Inr s'"
    using save_current [of s w' "version (fetch s k)"] by auto
  with Commit assms(3,4) show ?thesis by (cases n) auto
qed (use assms(3,4) in \<open>cases n; simp\<close>)+

end

section \<open>The in-memory repository\<close>

type_synonym billing_store = "(string, wallet_snapshot) dict"

definition empty_wallet :: "string \<Rightarrow> wallet_snapshot" where
  "empty_wallet account_id =
     \<lparr> ws_account_id = account_id, ws_entries = [], ws_reservations = [], ws_quotes = [],
       ws_usages = [], ws_contributions = [], ws_payment_events = [], ws_balance_guards = [],
       ws_world_budgets = [], ws_world_budget_alerts = [], ws_version = 0 \<rparr>"

definition repo_get :: "billing_store \<Rightarrow> string \<Rightarrow> wallet_snapshot" where
  "repo_get st account_id =
     (case dict_get st account_id of Some w \<Rightarrow> w | None \<Rightarrow> empty_wallet account_id)"

definition repo_save :: "wallet_snapshot \<Rightarrow> nat \<Rightarrow> billing_store \<Rightarrow> billing_store result" where
  "repo_save w expected_version st =
     (let current = repo_get st (ws_account_id w)
      in if ws_version current \<noteq> expected_version
         then Inl (ConcurrentBillingUpdate ''Wallet was changed concurrently'')
         else Inr (dict_set (ws_account_id w) (w\<lparr>ws_version := expected_version + 1\<rparr>) st))"

definition repo_find_contribution :: "billing_store \<Rightarrow> string \<Rightarrow> wallet_contribution option" where
  "repo_find_contribution st contribution_id =
     find (\<lambda>c. wc_id c = contribution_id) (concat (map (\<lambda>(_, w). ws_contributions w) st))"

lemma repo_get_save:
  "repo_save w v st = Inr st' \<Longrightarrow>
     repo_get st' k = (if k = ws_account_id w then w\<lparr>ws_version := v + 1\<rparr> else repo_get st k)"
  by (auto simp: repo_save_def repo_get_def Let_def split: if_splits)

interpretation wallets: optimistic_store repo_get repo_save ws_version ws_account_id
    "\<lambda>w v. w\<lparr>ws_version := v + 1\<rparr>" "''Wallet was changed concurrently''"
proof unfold_locales
  fix s s' :: billing_store and w v k
  show "ws_version (repo_get s (ws_account_id w)) \<noteq> v \<Longrightarrow>
      repo_save w v s = Inl (ConcurrentBillingUpdate ''Wallet was changed concurrently'')"
    by (simp add: repo_save_def)
  show "ws_version (repo_get s (ws_account_id w)) = v \<Longrightarrow> \<exists>s'. repo_save w v s = Inr s'"
    by (simp add: repo_save_def)
  show "repo_save w v s = Inr s' \<Longrightarrow>
      repo_get s' k = (if k = ws_account_id w then w\<lparr>ws_version := v + 1\<rparr> else repo_get s k)"
    by (rule repo_get_save)
qed simp

text \<open>
  What surrounds the calls of one operation: the clock, the random identifiers and the other
  clients, indexed by the attempt of the loop and the position of the call in the body. What
  other clients do between a first read and the loop that follows it is \<open>be_rival env 100\<close>.
\<close>

record billing_env =
  be_clock :: "nat \<Rightarrow> nat \<Rightarrow> instant"
  be_uuid :: "nat \<Rightarrow> nat \<Rightarrow> string"
  be_rival :: "nat \<Rightarrow> billing_store \<Rightarrow> billing_store"

definition billing_retry ::
    "billing_env \<Rightarrow> nat \<Rightarrow> string \<Rightarrow> (nat \<Rightarrow> wallet_snapshot \<Rightarrow> (wallet_snapshot, 'a) attempt)
     \<Rightarrow> string \<Rightarrow> billing_store \<Rightarrow> 'a result \<times> billing_store" where
  "billing_retry env i account_id body msg st =
     retry repo_get repo_save ws_version 100 i (be_rival env) account_id body msg st"

section \<open>The store invariant\<close>

text \<open>
  Every stored Wallet is well formed, belongs to the account it is stored under, and uses
  only identifiers of \<open>U\<close>.
\<close>

definition store_ok :: "string set \<Rightarrow> billing_store \<Rightarrow> bool" where
  "store_ok U st \<longleftrightarrow> (\<forall>a. ws_account_id (repo_get st a) = a \<and> wallet_ok (repo_get st a)
     \<and> wallet_ids (repo_get st a) \<subseteq> U)"

text \<open>
  Other clients only change the store through saves, and keep it well formed with their own
  identifiers (which are in \<open>U\<close>) and those of this client.
\<close>

definition rivals_ok :: "string set \<Rightarrow> billing_env \<Rightarrow> bool" where
  "rivals_ok U env \<longleftrightarrow>
     (\<forall>V i st. U \<subseteq> V \<longrightarrow> store_ok V st \<longrightarrow>
        store_ok V (be_rival env i st) \<and> wallets.saves st (be_rival env i st))"

definition uuids :: "billing_env \<Rightarrow> string set" where
  "uuids env = {be_uuid env i k | i k. True}"

text \<open>\<open>uuid4()\<close> never returns an identifier in use.\<close>

definition fresh_ids :: "string set \<Rightarrow> billing_env \<Rightarrow> bool" where
  "fresh_ids U env \<longleftrightarrow> (\<forall>i k. be_uuid env i k \<notin> U)"

text \<open>
  A loop body keeps a Wallet well formed when the identifiers \<open>D\<close> it may draw are not in use.
\<close>

definition keeps_wallet ::
    "string set \<Rightarrow> (nat \<Rightarrow> wallet_snapshot \<Rightarrow> (wallet_snapshot, 'a) attempt) \<Rightarrow> bool" where
  "keeps_wallet D body \<longleftrightarrow>
     (\<forall>i w w' a. body i w = Commit w' a \<longrightarrow>
        ws_account_id w' = ws_account_id w
        \<and> (wallet_ok w \<longrightarrow> D \<inter> wallet_ids w = {}
             \<longrightarrow> wallet_ok w' \<and> wallet_ids w' \<subseteq> wallet_ids w \<union> D))"

lemma store_ok_get: "store_ok U st \<Longrightarrow> wallet_ok (repo_get st a)"
  "store_ok U st \<Longrightarrow> wallet_ids (repo_get st a) \<subseteq> U"
  "store_ok U st \<Longrightarrow> ws_account_id (repo_get st a) = a"
  by (simp_all add: store_ok_def)

lemma wallet_version_irrelevant [simp]:
  "wallet_ok (w\<lparr>ws_version := v\<rparr>) = wallet_ok w"
  "wallet_ids (w\<lparr>ws_version := v\<rparr>) = wallet_ids w"
  by (simp_all add: wallet_ok_def wallet_ids_def ids_ok_def amounts_ok_def solvent_def)

lemma store_ok_save:
  assumes "store_ok U st" and "wallet_ok w" and "wallet_ids w \<subseteq> U" and "repo_save w v st = Inr st'"
  shows "store_ok U st'"
  using assms by (auto simp: store_ok_def repo_get_save)

lemma store_ok_mono: "store_ok U st \<Longrightarrow> U \<subseteq> V \<Longrightarrow> store_ok V st"
  by (auto simp: store_ok_def)

lemma store_ok_empty: "store_ok {} []"
  by (simp add: store_ok_def repo_get_def empty_wallet_def wallet_ok_def ids_ok_def amounts_ok_def
      solvent_def wallet_ids_def balance_def reserved_def)

text \<open>The body of a loop run under the store invariant: every operation reduces to this rule.\<close>

lemma billing_retry_ok:
  assumes body: "keeps_wallet D body"
    and ok: "store_ok U st" "rivals_ok U env" "D \<inter> U = {}"
    and run: "billing_retry env i acc body msg st = (r, st')"
  shows "store_ok (U \<union> D) st'"
proof -
  have rely: "\<And>i s. store_ok U s \<Longrightarrow> store_ok U (be_rival env i s) \<and> wallets.saves s (be_rival env i s)"
    using ok by (auto simp: rivals_ok_def)
  have keyed: "\<And>i w w' a. body i w = Commit w' a \<Longrightarrow> ws_account_id w' = ws_account_id w"
    using body by (auto simp: keeps_wallet_def)
  note outcome = wallets.retry_outcome [where I = "store_ok U",
      OF rely store_ok_get(3) keyed run [unfolded billing_retry_def] ok(1)]
  show ?thesis
  proof (rule outcome)
    fix a j w' s1
    assume s1: "store_ok U s1" and c: "body j (repo_get s1 acc) = Commit w' a"
      and save: "repo_save w' (ws_version (repo_get s1 acc)) s1 = Inr st'"
    have w: "wallet_ok (repo_get s1 acc)" "wallet_ids (repo_get s1 acc) \<subseteq> U"
      using s1 store_ok_get by blast+
    moreover have "D \<inter> wallet_ids (repo_get s1 acc) = {}" using w ok by blast
    ultimately have "wallet_ok w'" "wallet_ids w' \<subseteq> U \<union> D"
      using body c unfolding keeps_wallet_def by blast+
    with save show ?thesis by (intro store_ok_save [OF store_ok_mono [OF s1]]) auto
  qed (auto intro: store_ok_mono)
qed

end
