(* ===== verification/BillingOps.thy ===== *)
theory BillingOps
  imports BillingStore
begin

text \<open>
  The operations of \<open>gamewake/billing/service.py\<close> on the ledger, the reservations, the
  quotes, the usages and the World Budgets. Each loop body is a definition
  \<open><operation>_attempt\<close>; the operation itself checks its arguments and runs the loop.
  \<open>be_clock env i k\<close> and \<open>be_uuid env i k\<close> are the \<open>k\<close>-th reading of the clock and the
  \<open>k\<close>-th \<open>uuid4()\<close> of attempt \<open>i\<close> (position 9 of attempt 0 for a call before the loop).
  The Balance Guard and the payments have theories of their own.
\<close>

section \<open>Shared parts\<close>

text \<open>A \<open>LedgerEntry\<close> without actor and reason (the defaults of the dataclass).\<close>

definition new_entry ::
    "string \<Rightarrow> string \<Rightarrow> ledger_entry_type \<Rightarrow> money \<Rightarrow> string \<Rightarrow> string \<Rightarrow> instant \<Rightarrow> ledger_entry" where
  "new_entry entry_id account_id entry_type amount reference idempotency_key occurred_at =
     \<lparr> le_id = entry_id, le_account_id = account_id, le_entry_type = entry_type, le_amount = amount,
       le_reference = reference, le_idempotency_key = idempotency_key,
       le_occurred_at = occurred_at, le_actor_user_id = None, le_reason = None \<rparr>"

definition entry_with_key :: "wallet_snapshot \<Rightarrow> string \<Rightarrow> ledger_entry option" where
  "entry_with_key w key = find (\<lambda>e. le_idempotency_key e = key) (ws_entries w)"

definition find_reservation :: "wallet_snapshot \<Rightarrow> string \<Rightarrow> usage_reservation option" where
  "find_reservation w k = find (\<lambda>r. ur_id r = k) (ws_reservations w)"

definition find_quote :: "wallet_snapshot \<Rightarrow> string \<Rightarrow> session_quote option" where
  "find_quote w k = find (\<lambda>q. sq_id q = k) (ws_quotes w)"

definition find_usage :: "wallet_snapshot \<Rightarrow> string \<Rightarrow> runtime_usage option" where
  "find_usage w k = find (\<lambda>u. ru_id u = k) (ws_usages w)"

definition put_reservation :: "usage_reservation \<Rightarrow> string \<Rightarrow> wallet_snapshot \<Rightarrow> wallet_snapshot" where
  "put_reservation r k w =
     w\<lparr>ws_reservations := replace_where (\<lambda>x. ur_id x = k) r (ws_reservations w)\<rparr>"

definition add_entry :: "ledger_entry \<Rightarrow> wallet_snapshot \<Rightarrow> wallet_snapshot" where
  "add_entry e w = w\<lparr>ws_entries := ws_entries w @ [e]\<rparr>"

section \<open>Reading\<close>

definition get_wallet :: "string \<Rightarrow> billing_store \<Rightarrow> wallet" where
  "get_wallet account_id st =
     (let w = repo_get st account_id
      in \<lparr> wa_account_id = account_id, wa_currency = ''BRL'', wa_balance = balance w,
           wa_available_balance = available_balance w, wa_statement = ws_entries w,
           wa_reservations = ws_reservations w \<rparr>)"

definition percentage_of :: "money \<Rightarrow> money \<Rightarrow> nat \<times> int" where
  "percentage_of part whole = dec_mul (dec_quot (nat part, -2) (nat whole, -2)) (100, 0)"

definition get_world_budget_status ::
    "billing_env \<Rightarrow> string \<Rightarrow> string \<Rightarrow> instant option \<Rightarrow> billing_store
     \<Rightarrow> world_budget_status option result" where
  "get_world_budget_status env account_id world_id observed_at st =
     (let w = repo_get st account_id
      in case find_world_budget w world_id of
           None \<Rightarrow> Inr None
         | Some b \<Rightarrow>
             (let now = (case observed_at of Some t \<Rightarrow> t | None \<Rightarrow> be_clock env 0 9);
                  spent = world_budget_spent w world_id now;
                  held = world_budget_reserved w world_id;
                  committed = spent + held
              in case quantize_cents HalfUp (percentage_of committed (wb_monthly_limit b)) of
                   Inl e \<Rightarrow> Inl e
                 | Inr p \<Rightarrow> Inr (Some
                     \<lparr> bs_world_id = world_id, bs_period = month_key now,
                       bs_monthly_limit = wb_monthly_limit b, bs_spent = spent,
                       bs_reserved = held, bs_committed = committed, bs_percentage = p,
                       bs_wake_allowed = committed < wb_monthly_limit b \<rparr>)))"

section \<open>Session Quotes\<close>

definition create_session_quote_attempt ::
    "billing_env \<Rightarrow> string \<Rightarrow> string \<Rightarrow> string \<Rightarrow> money \<Rightarrow> string
     \<Rightarrow> nat \<Rightarrow> wallet_snapshot \<Rightarrow> (wallet_snapshot, session_quote) attempt" where
  "create_session_quote_attempt env account_id world_id profile rate key i w =
     (case find (\<lambda>q. sq_idempotency_key q = key) (ws_quotes w) of
        Some q \<Rightarrow> Return q
      | None \<Rightarrow>
          (let created_at = be_clock env i 0;
               quote = \<lparr> sq_id = be_uuid env i 0, sq_account_id = account_id,
                         sq_world_id = world_id, sq_runtime_profile_id = profile,
                         sq_hourly_rate = rate, sq_idempotency_key = key,
                         sq_created_at = created_at,
                         sq_expires_at = created_at + minutes 15 \<rparr>
           in Commit (w\<lparr>ws_quotes := ws_quotes w @ [quote]\<rparr>) quote))"

definition create_session_quote ::
    "billing_env \<Rightarrow> string \<Rightarrow> string \<Rightarrow> string \<Rightarrow> decimal \<Rightarrow> string \<Rightarrow> billing_store
     \<Rightarrow> session_quote result \<times> billing_store" where
  "create_session_quote env account_id world_id profile hourly_rate key st =
     (case positive_money hourly_rate of
        Inl e \<Rightarrow> (Inl e, st)
      | Inr rate \<Rightarrow> billing_retry env 0 account_id
          (create_session_quote_attempt env account_id world_id profile rate key)
          ''could not create Session Quote after retries'' st)"

section \<open>Reservations\<close>

definition reserve_attempt ::
    "billing_env \<Rightarrow> string \<Rightarrow> money \<Rightarrow> string \<Rightarrow> string \<Rightarrow> string option \<Rightarrow> string option
     \<Rightarrow> nat \<Rightarrow> wallet_snapshot \<Rightarrow> (wallet_snapshot, usage_reservation) attempt" where
  "reserve_attempt env account_id amount purpose key quote_id world_id i w =
     (case find (\<lambda>r. ur_idempotency_key r = key) (ws_reservations w) of
        Some r \<Rightarrow> Return r
      | None \<Rightarrow>
          if available_balance w < amount
          then Raise (InsufficientFundsError ''Wallet has insufficient available balance'')
          else if (case world_id of None \<Rightarrow> False
                   | Some world \<Rightarrow> below (world_budget_available w world (be_clock env i 0)) amount)
          then Raise (WorldBudgetExceeded ''World Budget cannot fund this reservation'')
          else
            (let r = \<lparr> ur_id = be_uuid env i 0, ur_account_id = account_id, ur_amount = amount,
                       ur_purpose = purpose, ur_idempotency_key = key, ur_status = ACTIVE,
                       ur_created_at = be_clock env i 1, ur_quote_id = quote_id,
                       ur_world_id = world_id \<rparr>
             in Commit (w\<lparr>ws_reservations := ws_reservations w @ [r]\<rparr>) r))"

definition reserve ::
    "billing_env \<Rightarrow> string \<Rightarrow> decimal \<Rightarrow> string \<Rightarrow> string \<Rightarrow> string option \<Rightarrow> string option
     \<Rightarrow> billing_store \<Rightarrow> usage_reservation result \<times> billing_store" where
  "reserve env account_id amount purpose key quote_id world_id st =
     (case positive_money amount of
        Inl e \<Rightarrow> (Inl e, st)
      | Inr n \<Rightarrow> billing_retry env 0 account_id
          (reserve_attempt env account_id n purpose key quote_id world_id)
          ''could not reserve Wallet after concurrent retries'' st)"

definition reserve_for_wake ::
    "billing_env \<Rightarrow> string \<Rightarrow> string \<Rightarrow> string \<Rightarrow> billing_store
     \<Rightarrow> usage_reservation result \<times> billing_store" where
  "reserve_for_wake env account_id quote_id key st =
     (case find_quote (repo_get st account_id) quote_id of
        None \<Rightarrow> (Inl StopIteration, st)
      | Some q \<Rightarrow>
          if sq_expires_at q < be_clock env 0 9
          then (Inl (ValueError ''Session Quote has expired''), st)
          else (case prorate Up (sq_hourly_rate q) (25 * 60) 3600 of
                  Inl e \<Rightarrow> (Inl e, st)
                | Inr amount \<Rightarrow> reserve env account_id (decimal_of_cents amount)
                    (''wake:'' @ sq_world_id q) key (Some (sq_id q)) (Some (sq_world_id q)) (be_rival env 100 st)))"

definition release_reservation_attempt ::
    "string \<Rightarrow> nat \<Rightarrow> wallet_snapshot \<Rightarrow> (wallet_snapshot, usage_reservation) attempt" where
  "release_reservation_attempt reservation_id i w =
     (case find_reservation w reservation_id of
        None \<Rightarrow> Raise StopIteration
      | Some r \<Rightarrow>
          if ur_status r = RELEASED then Return r
          else if ur_status r = CAPTURED
          then Raise (ValueError ''captured Usage Reservation cannot be released'')
          else (let released = r\<lparr>ur_status := RELEASED\<rparr>
                in Commit (put_reservation released reservation_id w) released))"

definition release_reservation ::
    "billing_env \<Rightarrow> string \<Rightarrow> string \<Rightarrow> billing_store \<Rightarrow> usage_reservation result \<times> billing_store" where
  "release_reservation env account_id reservation_id st =
     billing_retry env 0 account_id (release_reservation_attempt reservation_id)
       ''could not release Usage Reservation after retries'' st"

section \<open>Charges\<close>

definition capture_reservation_attempt ::
    "billing_env \<Rightarrow> string \<Rightarrow> string \<Rightarrow> money \<Rightarrow> string
     \<Rightarrow> nat \<Rightarrow> wallet_snapshot \<Rightarrow> (wallet_snapshot, ledger_entry) attempt" where
  "capture_reservation_attempt env account_id reservation_id amount key i w =
     (case entry_with_key w key of
        Some e \<Rightarrow> Return e
      | None \<Rightarrow> (case find_reservation w reservation_id of
          None \<Rightarrow> Raise StopIteration
        | Some r \<Rightarrow>
            if ur_status r \<noteq> ACTIVE
            then Raise (ValueError ''Usage Reservation is no longer active'')
            else if ur_amount r < amount
            then Raise (ValueError ''Runtime Charge exceeds its Usage Reservation'')
            else (let charge = new_entry (be_uuid env i 0) account_id RUNTIME_CHARGE (- amount)
                        (ur_purpose r) key (be_clock env i 0)
                  in Commit (put_reservation (r\<lparr>ur_status := CAPTURED\<rparr>) reservation_id
                       (add_entry charge w)) charge)))"

definition capture_reservation ::
    "billing_env \<Rightarrow> string \<Rightarrow> string \<Rightarrow> decimal \<Rightarrow> string \<Rightarrow> billing_store
     \<Rightarrow> ledger_entry result \<times> billing_store" where
  "capture_reservation env account_id reservation_id amount key st =
     (case positive_money amount of
        Inl e \<Rightarrow> (Inl e, st)
      | Inr n \<Rightarrow> billing_retry env 0 account_id
          (capture_reservation_attempt env account_id reservation_id n key)
          ''could not charge Wallet after concurrent retries'' st)"

definition capture_runtime_usage_attempt ::
    "billing_env \<Rightarrow> string \<Rightarrow> string \<Rightarrow> string \<Rightarrow> instant \<Rightarrow> instant \<Rightarrow> int \<Rightarrow> string
     \<Rightarrow> nat \<Rightarrow> wallet_snapshot \<Rightarrow> (wallet_snapshot, runtime_usage) attempt" where
  "capture_runtime_usage_attempt env account_id quote_id reservation_id started released secs key i w =
     (case find (\<lambda>u. ru_idempotency_key u = key) (ws_usages w) of
        Some u \<Rightarrow> Return u
      | None \<Rightarrow> (case find_quote w quote_id of
          None \<Rightarrow> Raise StopIteration
        | Some q \<Rightarrow> (case find_reservation w reservation_id of
            None \<Rightarrow> Raise StopIteration
          | Some r \<Rightarrow>
              if ur_status r \<noteq> ACTIVE
              then Raise (ValueError ''Usage Reservation is no longer active'')
              else (case prorate HalfUp (sq_hourly_rate q) secs 3600 of
                  Inl e \<Rightarrow> Raise e
                | Inr amount \<Rightarrow>
                    if ur_amount r < amount
                    then Raise (ValueError ''Runtime Usage exceeds its active reservation'')
                    else
                      (let charge = new_entry (be_uuid env i 0) account_id RUNTIME_CHARGE
                             (- amount) (''runtime:'' @ sq_world_id q) (key @ '':ledger'')
                             (be_clock env i 0);
                           usage = \<lparr> ru_id = be_uuid env i 1, ru_account_id = account_id,
                             ru_world_id = sq_world_id q, ru_quote_id = sq_id q,
                             ru_reservation_id = ur_id r, ru_billable_seconds = secs,
                             ru_amount = amount, ru_runtime_started_at = started,
                             ru_runtime_released_at = released, ru_ledger_entry_id = le_id charge,
                             ru_idempotency_key = key \<rparr>;
                           w' = put_reservation (r\<lparr>ur_status := CAPTURED\<rparr>) reservation_id
                             (add_entry charge w)
                       in Commit (w'\<lparr>ws_usages := ws_usages w @ [usage]\<rparr>) usage)))))"

definition capture_runtime_usage ::
    "billing_env \<Rightarrow> string \<Rightarrow> string \<Rightarrow> string \<Rightarrow> instant \<Rightarrow> instant \<Rightarrow> string \<Rightarrow> billing_store
     \<Rightarrow> runtime_usage result \<times> billing_store" where
  "capture_runtime_usage env account_id quote_id reservation_id started released key st =
     (let elapsed = released - started
      in if elapsed < 0
         then (Inl (ValueError ''Runtime release cannot precede Runtime start''), st)
         else billing_retry env 0 account_id
           (capture_runtime_usage_attempt env account_id quote_id reservation_id started released
              (max 60 (ceil_seconds elapsed)) key)
           ''could not record Runtime Usage after retries'' st)"

definition charge_monthly_storage_attempt ::
    "billing_env \<Rightarrow> string \<Rightarrow> money \<Rightarrow> string \<Rightarrow> string
     \<Rightarrow> nat \<Rightarrow> wallet_snapshot \<Rightarrow> (wallet_snapshot, ledger_entry) attempt" where
  "charge_monthly_storage_attempt env account_id amount billing_month key i w =
     (case entry_with_key w key of
        Some e \<Rightarrow> Return e
      | None \<Rightarrow>
          if available_balance w < amount
          then Raise (InsufficientFundsError ''Wallet cannot fund storage excess'')
          else (let e = new_entry (be_uuid env i 0) account_id STORAGE_CHARGE (- amount)
                      (''storage:'' @ billing_month) key (be_clock env i 0)
                in Commit (add_entry e w) e))"

definition charge_monthly_storage ::
    "billing_env \<Rightarrow> string \<Rightarrow> int \<Rightarrow> decimal \<Rightarrow> string \<Rightarrow> string \<Rightarrow> billing_store
     \<Rightarrow> ledger_entry result \<times> billing_store" where
  "charge_monthly_storage env account_id excess_bytes rate_per_gib_month billing_month key st =
     (if excess_bytes \<le> 0 then (Inl (ValueError ''storage excess must be positive''), st)
      else if \<not> parses_year_month billing_month
      then (Inl (ValueError ''billing month must use YYYY-MM''), st)
      else (case positive_money rate_per_gib_month of
          Inl e \<Rightarrow> (Inl e, st)
        | Inr rate \<Rightarrow> (case prorate HalfUp rate excess_bytes (1024 ^ 3) of
            Inl e \<Rightarrow> (Inl e, st)
          | Inr amount \<Rightarrow>
              if amount \<le> 0
              then (Inl (ValueError ''storage charge rounds below one cent''), st)
              else billing_retry env 0 account_id
                (charge_monthly_storage_attempt env account_id amount billing_month key)
                ''could not charge storage after retries'' st)))"


section \<open>Credits\<close>

definition credit_wallet_attempt ::
    "billing_env \<Rightarrow> string \<Rightarrow> money \<Rightarrow> string \<Rightarrow> string
     \<Rightarrow> nat \<Rightarrow> wallet_snapshot \<Rightarrow> (wallet_snapshot, ledger_entry) attempt" where
  "credit_wallet_attempt env account_id amount reference key i w =
     (case entry_with_key w key of
        Some e \<Rightarrow> Return e
      | None \<Rightarrow>
          (let e = new_entry (be_uuid env i 0) account_id CONTRIBUTION amount reference key
                 (be_clock env i 0)
           in Commit (add_entry e w) e))"

definition credit_wallet ::
    "billing_env \<Rightarrow> string \<Rightarrow> decimal \<Rightarrow> string \<Rightarrow> string \<Rightarrow> billing_store
     \<Rightarrow> ledger_entry result \<times> billing_store" where
  "credit_wallet env account_id amount reference key st =
     (case positive_money amount of
        Inl e \<Rightarrow> (Inl e, st)
      | Inr n \<Rightarrow> billing_retry env 0 account_id
          (credit_wallet_attempt env account_id n reference key)
          ''could not credit Wallet after concurrent retries'' st)"

definition apply_support_credit_attempt ::
    "billing_env \<Rightarrow> string \<Rightarrow> money \<Rightarrow> string \<Rightarrow> string \<Rightarrow> string \<Rightarrow> string
     \<Rightarrow> nat \<Rightarrow> wallet_snapshot \<Rightarrow> (wallet_snapshot, ledger_entry) attempt" where
  "apply_support_credit_attempt env account_id amount reference actor reason key i w =
     (case entry_with_key w key of
        Some e \<Rightarrow>
          if le_entry_type e \<noteq> SUPPORT_CREDIT \<or> le_amount e \<noteq> amount
             \<or> le_reference e \<noteq> reference \<or> le_actor_user_id e \<noteq> Some actor
             \<or> le_reason e \<noteq> Some reason
          then Raise (ValueError ''idempotency key was used for another Ledger Entry'')
          else Return e
      | None \<Rightarrow>
          (let e = (new_entry (be_uuid env i 0) account_id SUPPORT_CREDIT amount reference key
                 (be_clock env i 0)) \<lparr> le_actor_user_id := Some actor, le_reason := Some reason \<rparr>
           in Commit (add_entry e w) e))"

definition apply_support_credit ::
    "billing_env \<Rightarrow> string \<Rightarrow> decimal \<Rightarrow> string \<Rightarrow> string \<Rightarrow> string \<Rightarrow> string \<Rightarrow> billing_store
     \<Rightarrow> ledger_entry result \<times> billing_store" where
  "apply_support_credit env account_id amount reference actor reason key st =
     (case positive_money amount of
        Inl e \<Rightarrow> (Inl e, st)
      | Inr n \<Rightarrow>
          if strip reference = [] \<or> strip actor = [] \<or> strip reason = [] \<or> strip key = []
          then (Inl (ValueError
                 ''Support Credit requires reference, actor, reason and idempotency key''), st)
          else billing_retry env 0 account_id
            (apply_support_credit_attempt env account_id n (strip reference) (strip actor)
               (strip reason) key)
            ''could not apply Support Credit after retries'' st)"

definition apply_wake_guarantee_attempt ::
    "billing_env \<Rightarrow> string \<Rightarrow> string \<Rightarrow> string
     \<Rightarrow> nat \<Rightarrow> wallet_snapshot \<Rightarrow> (wallet_snapshot, ledger_entry) attempt" where
  "apply_wake_guarantee_attempt env account_id usage_id key i w =
     (case find_usage w usage_id of
        None \<Rightarrow> Raise StopIteration
      | Some u \<Rightarrow> (case find (\<lambda>e. le_entry_type e = WAKE_GUARANTEE \<and> le_reference e = ru_id u)
                       (ws_entries w) of
            Some e \<Rightarrow> Return e
          | None \<Rightarrow>
              (let e = new_entry (be_uuid env i 0) account_id WAKE_GUARANTEE (ru_amount u)
                     (ru_id u) key (be_clock env i 0)
               in Commit (add_entry e w) e)))"

definition apply_wake_guarantee ::
    "billing_env \<Rightarrow> string \<Rightarrow> string \<Rightarrow> bool \<Rightarrow> string \<Rightarrow> billing_store
     \<Rightarrow> ledger_entry result \<times> billing_store" where
  "apply_wake_guarantee env account_id usage_id reached_online key st =
     (if reached_online
      then (Inl (ValueError ''Wake Guarantee applies only before a World reaches Online''), st)
      else billing_retry env 0 account_id (apply_wake_guarantee_attempt env account_id usage_id key)
        ''could not apply Wake Guarantee after retries'' st)"

definition apply_availability_credit_attempt ::
    "billing_env \<Rightarrow> string \<Rightarrow> string \<Rightarrow> instant \<Rightarrow> instant \<Rightarrow> string \<Rightarrow> string
     \<Rightarrow> nat \<Rightarrow> wallet_snapshot \<Rightarrow> (wallet_snapshot, ledger_entry option) attempt" where
  "apply_availability_credit_attempt env account_id usage_id unavailable_at recovered_at reference
     key i w =
     (case find_usage w usage_id of
        None \<Rightarrow> Raise StopIteration
      | Some u \<Rightarrow>
          if unavailable_at < ru_runtime_started_at u \<or> ru_runtime_released_at u < recovered_at
          then Raise (ValueError ''Availability interval must be inside Runtime Usage'')
          else (case find (\<lambda>e. le_entry_type e = AVAILABILITY_CREDIT \<and> le_reference e = reference)
                       (ws_entries w) of
            Some e \<Rightarrow> Return (Some e)
          | None \<Rightarrow> (case find_quote w (ru_quote_id u) of
              None \<Rightarrow> Raise StopIteration
            | Some q \<Rightarrow> (case prorate HalfUp (sq_hourly_rate q)
                    (ceil_seconds (recovered_at - unavailable_at)) 3600 of
                Inl e \<Rightarrow> Raise e
              | Inr price \<Rightarrow>
                  (let amount = min price (ru_amount u)
                   in if amount \<le> 0 then Return None
                      else (let e = new_entry (be_uuid env i 0) account_id AVAILABILITY_CREDIT
                                  amount reference key (be_clock env i 0)
                            in Commit (add_entry e w) (Some e)))))))"

definition apply_availability_credit ::
    "billing_env \<Rightarrow> string \<Rightarrow> string \<Rightarrow> instant \<Rightarrow> instant \<Rightarrow> string \<Rightarrow> billing_store
     \<Rightarrow> ledger_entry option result \<times> billing_store" where
  "apply_availability_credit env account_id usage_id unavailable_at recovered_at key st =
     (if recovered_at - unavailable_at \<le> seconds 120 then (Inr None, st)
      else billing_retry env 0 account_id
        (apply_availability_credit_attempt env account_id usage_id unavailable_at recovered_at
           (usage_id @ '':'' @ isoformat unavailable_at @ '':'' @ isoformat recovered_at) key)
        ''could not apply Availability Credit after retries'' st)"

section \<open>World Budgets\<close>

definition set_world_budget_attempt ::
    "billing_env \<Rightarrow> string \<Rightarrow> string \<Rightarrow> money \<Rightarrow> string
     \<Rightarrow> nat \<Rightarrow> wallet_snapshot \<Rightarrow> (wallet_snapshot, world_budget) attempt" where
  "set_world_budget_attempt env account_id world_id limit key i w =
     (case find (\<lambda>b. wb_idempotency_key b = key) (ws_world_budgets w) of
        Some b \<Rightarrow> Return b
      | None \<Rightarrow>
          (let current = find (\<lambda>b. wb_world_id b = world_id) (ws_world_budgets w);
               b = \<lparr> wb_id = (case current of Some c \<Rightarrow> wb_id c | None \<Rightarrow> be_uuid env i 0),
                     wb_account_id = account_id, wb_world_id = world_id,
                     wb_monthly_limit = limit, wb_idempotency_key = key,
                     wb_updated_at = be_clock env i 0 \<rparr>;
               rest = replace_where (\<lambda>x. wb_world_id x = world_id) b (ws_world_budgets w);
               budgets = (if current = None then rest @ [b] else rest)
           in Commit (w\<lparr>ws_world_budgets := budgets\<rparr>) b))"

definition set_world_budget ::
    "billing_env \<Rightarrow> string \<Rightarrow> string \<Rightarrow> decimal \<Rightarrow> string \<Rightarrow> billing_store
     \<Rightarrow> world_budget result \<times> billing_store" where
  "set_world_budget env account_id world_id monthly_limit key st =
     (case positive_money monthly_limit of
        Inl e \<Rightarrow> (Inl e, st)
      | Inr limit \<Rightarrow> billing_retry env 0 account_id
          (set_world_budget_attempt env account_id world_id limit key)
          ''could not set World Budget after retries'' st)"

lemmas billing_operations =
  create_session_quote_def reserve_def release_reservation_def capture_reservation_def
  capture_runtime_usage_def charge_monthly_storage_def credit_wallet_def apply_support_credit_def
  apply_wake_guarantee_def apply_availability_credit_def set_world_budget_def

lemmas attempt_definitions =
  create_session_quote_attempt_def reserve_attempt_def release_reservation_attempt_def
  capture_reservation_attempt_def capture_runtime_usage_attempt_def
  charge_monthly_storage_attempt_def credit_wallet_attempt_def apply_support_credit_attempt_def
  apply_wake_guarantee_attempt_def apply_availability_credit_attempt_def
  set_world_budget_attempt_def

declare attempt_definitions [attempt_defs]

end
