(* ===== verification/BalanceGuard.thy ===== *)
theory BalanceGuard
  imports BillingOps
begin

text \<open>
  \<open>Billing.protect_active_session\<close> (\<open>gamewake/billing/service.py\<close>): the periodic Balance
  Guard of an active session. It re-sizes the session's reservation so that it covers the time
  elapsed plus a safe sleep, tells how many minutes the Wallet and the World Budget still
  fund, which alerts are new, and whether the World must go to sleep.

  \<open>guard_figures\<close> holds the intermediate values of the loop body that do not touch the
  snapshot; \<open>guard_decision\<close> is the answer, \<open>guard_budget_alerts\<close> the World Budget part, and
  \<open>protect_active_session_attempt\<close> the body that puts them together.
\<close>

record guard_figures =
  gf_additional_hold :: money
  gf_can_extend :: bool
  gf_can_extend_budget :: bool
  gf_reserved_amount :: money
  gf_wallet_after :: money
  gf_budget_after :: "money option"
  gf_available_after :: money

text \<open>The figures for a required amount, a reservation and what wallet and budget still have.\<close>

definition guard_figures_of :: "money \<Rightarrow> money \<Rightarrow> money \<Rightarrow> money option \<Rightarrow> guard_figures" where
  "guard_figures_of required held wallet_available budget_available =
     (let additional_hold = max 0 (required - held);
          can_extend_wallet = additional_hold \<le> wallet_available;
          can_extend_budget = \<not> below budget_available additional_hold;
          can_extend = (can_extend_wallet \<and> can_extend_budget);
          wallet_after = (if can_extend then wallet_available - additional_hold else 0);
          budget_after = (case budget_available of
              None \<Rightarrow> None
            | Some b \<Rightarrow> if can_extend then Some (b - additional_hold) else None)
      in \<lparr> gf_additional_hold = additional_hold, gf_can_extend = can_extend,
           gf_can_extend_budget = can_extend_budget,
           gf_reserved_amount = (if can_extend then required else held),
           gf_wallet_after = wallet_after, gf_budget_after = budget_after,
           gf_available_after = (case budget_after of
               None \<Rightarrow> wallet_after | Some b \<Rightarrow> min wallet_after b) \<rparr>)"

text \<open>
  \<open>available_after / (hourly_rate / Decimal(60))\<close>; the rate of a quote is positive, so the
  \<open>else\<close> of the code is for a rate that cannot be stored.
\<close>

definition remaining_minutes_decimal :: "money \<Rightarrow> money \<Rightarrow> nat \<times> int" where
  "remaining_minutes_decimal available_after rate =
     (let rate_per_minute = dec_quot (nat rate, -2) (60, 0)
      in if 0 < fst rate_per_minute then dec_quot (nat available_after, -2) rate_per_minute
         else (0, -2))"

definition thresholds_upto :: "nat \<times> int \<Rightarrow> int list \<Rightarrow> int list" where
  "thresholds_upto x ts = filter (\<lambda>t. dec_le x (nat t, 0)) ts"

definition thresholds_from :: "nat \<times> int \<Rightarrow> int list \<Rightarrow> int list" where
  "thresholds_from x ts = filter (\<lambda>t. dec_le (nat t, 0) x) ts"

text \<open>\<open>available_after < hourly_rate * Decimal(interval) / Decimal(3600)\<close>\<close>

definition below_interval :: "money \<Rightarrow> money \<Rightarrow> int \<Rightarrow> bool" where
  "below_interval available_after rate interval =
     (\<not> dec_le (dec_quot (dec_mul (nat rate, -2) (nat interval, 0)) (3600, 0))
               (nat available_after, -2))"

text \<open>The alert part: the thresholds reached, the one to announce, and the set to remember.\<close>

definition minute_alerts :: "nat \<times> int \<Rightarrow> int list \<Rightarrow> int list \<times> int list" where
  "minute_alerts remaining notified =
     (let eligible = thresholds_upto remaining [30, 10, 5];
          newly = filter (\<lambda>t. t \<notin> set notified) eligible
      in (if newly = [] then [] else [Min (set newly)],
          rev (sorted_list_of_set (set notified \<union> set eligible))))"

definition budget_alerts :: "nat \<times> int \<Rightarrow> int list \<Rightarrow> int list \<times> int list" where
  "budget_alerts percentage notified =
     (let eligible = thresholds_from percentage [50, 80, 100];
          newly = filter (\<lambda>t. t \<notin> set notified) eligible
      in (if newly = [] then [] else [Max (set newly)],
          sorted_list_of_set (set notified \<union> set eligible)))"

definition guard_of :: "wallet_snapshot \<Rightarrow> string \<Rightarrow> balance_guard_state" where
  "guard_of w reservation_id =
     (case find (\<lambda>g. bg_reservation_id g = reservation_id) (ws_balance_guards w) of
        Some g \<Rightarrow> g
      | None \<Rightarrow> \<lparr> bg_reservation_id = reservation_id, bg_notified_alert_minutes = [] \<rparr>)"

definition alert_state_of ::
    "wallet_snapshot \<Rightarrow> string \<Rightarrow> string \<Rightarrow> world_budget_alert_state" where
  "alert_state_of w world_id period =
     (case find (\<lambda>a. ba_world_id a = world_id \<and> ba_period a = period) (ws_world_budget_alerts w) of
        Some a \<Rightarrow> a
      | None \<Rightarrow> \<lparr> ba_world_id = world_id, ba_period = period, ba_notified_percentages = [] \<rparr>)"

text \<open>Write a member back, or append it when no member matches.\<close>

definition upsert :: "('a \<Rightarrow> bool) \<Rightarrow> 'a \<Rightarrow> 'a list \<Rightarrow> 'a list" where
  "upsert P x xs = (let ys = replace_where P x xs in if list_ex P xs then ys else ys @ [x])"

text \<open>The World Budget alerts: those to announce, and the alert states to store.\<close>

definition guard_budget_alerts ::
    "wallet_snapshot \<Rightarrow> string \<Rightarrow> instant \<Rightarrow> guard_figures
     \<Rightarrow> int list \<times> world_budget_alert_state list" where
  "guard_budget_alerts w world_id observed_at f =
     (case find_world_budget w world_id of
        None \<Rightarrow> ([], ws_world_budget_alerts w)
      | Some b \<Rightarrow>
          (let period = month_key observed_at;
               state = alert_state_of w world_id period;
               committed = world_budget_spent w world_id observed_at
                 + world_budget_reserved w world_id
                 + (if gf_can_extend f then gf_additional_hold f else 0);
               alerts = budget_alerts (percentage_of committed (wb_monthly_limit b))
                 (ba_notified_percentages state)
           in (fst alerts,
               upsert (\<lambda>a. ba_world_id a = world_id \<and> ba_period a = period)
                 (state\<lparr>ba_notified_percentages := snd alerts\<rparr>) (ws_world_budget_alerts w))))"

definition guard_decision ::
    "string \<Rightarrow> money \<Rightarrow> int \<Rightarrow> guard_figures \<Rightarrow> int list \<Rightarrow> int list \<Rightarrow> balance_guard_decision" where
  "guard_decision reservation_id rate interval f new_alerts new_budget_alerts =
     (let should_sleep = (\<not> gf_can_extend f \<or> below_interval (gf_available_after f) rate interval);
          budget_is_limiter = (case gf_budget_after f of
              None \<Rightarrow> False | Some b \<Rightarrow> b \<le> gf_wallet_after f)
      in \<lparr> bd_reservation_id = reservation_id,
           bd_reserved_amount = gf_reserved_amount f,
           bd_remaining_minutes =
             int (dec_trunc (remaining_minutes_decimal (gf_available_after f) rate)),
           bd_new_alert_minutes = new_alerts,
           bd_new_budget_alert_percentages = new_budget_alerts,
           bd_safe_sleep_reserved = gf_can_extend f,
           bd_should_sleep = should_sleep,
           bd_reason = (if \<not> should_sleep then None
             else if budget_is_limiter \<or> \<not> gf_can_extend_budget f
             then Some ''world_budget_exhausted''
             else Some ''insufficient_wallet_balance'') \<rparr>)"

definition protect_active_session_attempt ::
    "string \<Rightarrow> string \<Rightarrow> int \<Rightarrow> instant \<Rightarrow> int \<Rightarrow> int
     \<Rightarrow> nat \<Rightarrow> wallet_snapshot \<Rightarrow> (wallet_snapshot, balance_guard_decision) attempt" where
  "protect_active_session_attempt quote_id reservation_id elapsed_seconds observed_at
     safe_sleep_seconds guard_interval_seconds i w =
     (case find_quote w quote_id of
        None \<Rightarrow> Raise StopIteration
      | Some q \<Rightarrow> (case find_reservation w reservation_id of
          None \<Rightarrow> Raise StopIteration
        | Some r \<Rightarrow>
            if ur_quote_id r \<noteq> Some (sq_id q)
            then Raise (ValueError ''Usage Reservation does not belong to Session Quote'')
            else if ur_status r \<noteq> ACTIVE
            then Raise (ValueError ''Balance Guard requires an active Usage Reservation'')
            else (case prorate Up (sq_hourly_rate q) (elapsed_seconds + safe_sleep_seconds) 3600 of
                Inl e \<Rightarrow> Raise e
              | Inr required \<Rightarrow>
                  (let guard = guard_of w (ur_id r);
                       f = guard_figures_of required (ur_amount r) (available_balance w)
                             (world_budget_available w (sq_world_id q) observed_at);
                       minute = minute_alerts
                         (remaining_minutes_decimal (gf_available_after f) (sq_hourly_rate q))
                         (bg_notified_alert_minutes guard);
                       budget = guard_budget_alerts w (sq_world_id q) observed_at f;
                       decision = guard_decision (ur_id r) (sq_hourly_rate q)
                         guard_interval_seconds f (fst minute) (fst budget);
                       w' = (put_reservation (r\<lparr>ur_amount := gf_reserved_amount f\<rparr>) (ur_id r) w)
                         \<lparr> ws_balance_guards := upsert (\<lambda>g. bg_reservation_id g = ur_id r)
                               (guard\<lparr>bg_notified_alert_minutes := snd minute\<rparr>)
                               (ws_balance_guards w),
                           ws_world_budget_alerts := snd budget \<rparr>
                   in if ws_reservations w' = ws_reservations w
                         \<and> ws_balance_guards w' = ws_balance_guards w
                         \<and> ws_world_budget_alerts w' = ws_world_budget_alerts w
                      then Return decision
                      else Commit w' decision))))"

definition protect_active_session ::
    "billing_env \<Rightarrow> string \<Rightarrow> string \<Rightarrow> string \<Rightarrow> instant \<Rightarrow> instant \<Rightarrow> int \<Rightarrow> int \<Rightarrow> billing_store
     \<Rightarrow> balance_guard_decision result \<times> billing_store" where
  "protect_active_session env account_id quote_id reservation_id started observed_at
     safe_sleep_seconds guard_interval_seconds st =
     (let elapsed = observed_at - started
      in if elapsed < 0
         then (Inl (ValueError ''Balance Guard observation cannot precede Runtime start''), st)
         else if safe_sleep_seconds \<le> 0 \<or> guard_interval_seconds \<le> 0
         then (Inl (ValueError ''Balance Guard intervals must be positive''), st)
         else billing_retry env 0 account_id
           (protect_active_session_attempt quote_id reservation_id (ceil_seconds elapsed)
              observed_at safe_sleep_seconds guard_interval_seconds)
           ''could not apply Balance Guard after retries'' st)"

end
