(* ===== verification/Urls.thy ===== *)
theory Urls
  imports Prelude
begin

text \<open>
  The part of \<open>urllib.parse\<close> the code uses. Strings are sequences of UTF-8 bytes, so
  percent-encoding works character by character.
\<close>

section \<open>Splitting\<close>

text \<open>\<open>s.partition(sep)\<close> on a one-character separator: before, whether it occurred, after.\<close>

fun partition_at :: "char \<Rightarrow> string \<Rightarrow> string \<times> bool \<times> string" where
  "partition_at sep [] = ([], False, [])"
| "partition_at sep (c # cs) =
     (if c = sep then ([], True, cs)
      else (case partition_at sep cs of (a, found, b) \<Rightarrow> (c # a, found, b)))"

text \<open>\<open>s.split(sep)\<close>\<close>

fun split_on :: "char \<Rightarrow> string \<Rightarrow> string list" where
  "split_on sep [] = [[]]"
| "split_on sep (c # cs) =
     (if c = sep then [] # split_on sep cs
      else (case split_on sep cs of w # ws \<Rightarrow> (c # w) # ws | [] \<Rightarrow> [[c]]))"

fun join_with :: "string \<Rightarrow> string list \<Rightarrow> string" where
  "join_with sep [] = []"
| "join_with sep [w] = w"
| "join_with sep (w # v # ws) = w @ sep @ join_with sep (v # ws)"

section \<open>Quoting\<close>

definition hex_digit :: "int \<Rightarrow> char" where
  "hex_digit n = (if n < 10 then char_of (48 + n) else char_of (55 + n))"

definition hex_value :: "char \<Rightarrow> int option" where
  "hex_value c =
     (let n = of_char c :: int
      in if 48 \<le> n \<and> n \<le> 57 then Some (n - 48)
         else if 65 \<le> n \<and> n \<le> 70 then Some (n - 55)
         else if 97 \<le> n \<and> n \<le> 102 then Some (n - 87) else None)"

text \<open>The characters \<open>quote\<close> never escapes.\<close>

definition url_safe :: "char \<Rightarrow> bool" where
  "url_safe c =
     (let n = of_char c :: int
      in 48 \<le> n \<and> n \<le> 57 \<or> 65 \<le> n \<and> n \<le> 90 \<or> 97 \<le> n \<and> n \<le> 122
         \<or> c \<in> set ''_.-~'')"

definition quote_char :: "char \<Rightarrow> string" where
  "quote_char c =
     (if url_safe c then [c]
      else if c = CHR '' '' then ''+''
      else [CHR ''%'', hex_digit (of_char c div 16), hex_digit (of_char c mod 16)])"

definition quote_plus :: "string \<Rightarrow> string" where
  "quote_plus s = concat (map quote_char s)"

text \<open>\<open>unquote(s.replace("+", " "))\<close>; an incomplete escape is kept as it is.\<close>

fun unquote_plus :: "string \<Rightarrow> string" where
  "unquote_plus [] = []"
| "unquote_plus [c] = [if c = CHR ''+'' then CHR '' '' else c]"
| "unquote_plus [c, d] = (if c = CHR ''+'' then CHR '' '' else c) # unquote_plus [d]"
| "unquote_plus (c # d # e # cs) =
     (if c = CHR ''%''
      then (case (hex_value d, hex_value e) of
              (Some a, Some b) \<Rightarrow> char_of (16 * a + b) # unquote_plus cs
            | _ \<Rightarrow> c # unquote_plus (d # e # cs))
      else (if c = CHR ''+'' then CHR '' '' else c) # unquote_plus (d # e # cs))"

section \<open>Queries\<close>

text \<open>\<open>parse_qsl(query, keep_blank_values=True)\<close>: empty parts are skipped.\<close>

definition parse_qsl :: "string \<Rightarrow> (string \<times> string) list" where
  "parse_qsl query =
     map (\<lambda>part. case partition_at CHR ''='' part of
            (name, _, val) \<Rightarrow> (unquote_plus name, unquote_plus val))
       (filter (\<lambda>part. part \<noteq> []) (split_on CHR ''&'' query))"

text \<open>\<open>dict(pairs)\<close> and \<open>urlencode(d)\<close>.\<close>

definition dict_of_pairs :: "(string \<times> string) list \<Rightarrow> (string, string) dict" where
  "dict_of_pairs ps = foldl (\<lambda>d (k, v). dict_set k v d) [] ps"

definition urlencode :: "(string, string) dict \<Rightarrow> string" where
  "urlencode d = join_with ''&'' (map (\<lambda>(k, v). quote_plus k @ ''='' @ quote_plus v) d)"

section \<open>\<open>urlsplit\<close> and \<open>urlunsplit\<close>\<close>

record split_url =
  su_scheme :: string
  su_netloc :: string
  su_path :: string
  su_query :: string
  su_fragment :: string

definition lower_char :: "char \<Rightarrow> char" where
  "lower_char c = (let n = of_char c :: int in if 65 \<le> n \<and> n \<le> 90 then char_of (n + 32) else c)"

definition is_alpha :: "char \<Rightarrow> bool" where
  "is_alpha c = (let n = of_char (lower_char c) :: int in 97 \<le> n \<and> n \<le> 122)"

definition split_scheme :: "string \<Rightarrow> string \<times> string" where
  "split_scheme url =
     (case partition_at CHR '':'' url of
        (s, found, rest) \<Rightarrow>
          if found \<and> s \<noteq> [] \<and> is_alpha (hd s)
             \<and> list_all (\<lambda>c. is_alpha c \<or> is_digit c \<or> c \<in> set ''+-.'') s
          then (map lower_char s, rest) else ([], url))"

definition urlsplit :: "string \<Rightarrow> split_url" where
  "urlsplit raw =
     (let url = filter (\<lambda>c. of_char c \<notin> {9, 10, 13 :: int})
            (dropWhile (\<lambda>c. of_char c \<le> (32 :: int)) raw);
          (scheme, rest) = split_scheme url;
          (netloc, rest) = (if starts_with ''//'' rest
             then (takeWhile (\<lambda>c. c \<notin> set ''/?#'') (drop 2 rest),
                   dropWhile (\<lambda>c. c \<notin> set ''/?#'') (drop 2 rest))
             else ([], rest));
          (rest, _, fragment) = partition_at CHR ''#'' rest;
          (path, _, query) = partition_at CHR ''?'' rest
      in \<lparr> su_scheme = scheme, su_netloc = netloc, su_path = path, su_query = query,
           su_fragment = fragment \<rparr>)"

definition urlunsplit :: "split_url \<Rightarrow> string" where
  "urlunsplit u =
     (let url = su_path u;
          url = (if su_netloc u \<noteq> []
             then ''//'' @ su_netloc u @ (if url \<noteq> [] \<and> hd url \<noteq> CHR ''/'' then ''/'' else []) @ url
             else if starts_with ''//'' url then ''//'' @ url
             else if su_scheme u \<in> {''http'', ''https''} \<and> (url = [] \<or> hd url = CHR ''/'')
             then ''//'' @ url else url);
          url = (if su_scheme u \<noteq> [] then su_scheme u @ '':'' @ url else url);
          url = (if su_query u \<noteq> [] then url @ ''?'' @ su_query u else url)
      in if su_fragment u \<noteq> [] then url @ ''#'' @ su_fragment u else url)"

text \<open>\<open>Billing._completion_url\<close> (\<open>gamewake/billing/service.py\<close>)\<close>

definition completion_url_for :: "string \<Rightarrow> string \<Rightarrow> string" where
  "completion_url_for completion_url contribution_id =
     (let parsed = urlsplit completion_url;
          query = dict_set ''contributionId'' contribution_id
            (dict_of_pairs (parse_qsl (su_query parsed)))
      in urlunsplit (parsed\<lparr>su_query := urlencode query\<rparr>))"

end
