(* ===== verification/Payments.thy ===== *)
theory Payments
  imports Prelude Decimals BillingOps Urls
begin

text \<open>
  JSON values as Python objects (\<open>json.loads\<close>, request bodies, webhook payloads): integers and
  other numbers are apart, as \<open>isinstance(x, int)\<close> and \<open>isinstance(x, bool)\<close> tell them apart. A number that is not
  an integer is kept with its exact decimal value.
\<close>

datatype json =
    JNull
  | JBool bool
  | JInt int
  | JNum decimal
  | JStr string
  | JList "json list"
  | JObj "(string \<times> json) list"

text \<open>\<open>d.get(key)\<close>: an absent key reads as \<open>None\<close>.\<close>

definition json_get :: "(string, json) dict \<Rightarrow> string \<Rightarrow> json" where
  "json_get d key = (case dict_get d key of Some v \<Rightarrow> v | None \<Rightarrow> JNull)"

text \<open>\<open>value == n\<close>: Python compares numbers by value, so \<open>2 == 2.0\<close> and \<open>1 == True\<close>.\<close>

definition json_eq_int :: "json \<Rightarrow> int \<Rightarrow> bool" where
  "json_eq_int v n = (case v of
      JInt i \<Rightarrow> i = n
    | JBool b \<Rightarrow> (if b then 1 else 0) = n
    | JNum (Dec c e) \<Rightarrow> (if 0 \<le> e then c * 10 ^ nat e = n else c = n * 10 ^ nat (- e))
    | _ \<Rightarrow> False)"

section \<open>Contributions\<close>


text \<open>
  Wallet contributions (\<open>gamewake/billing/service.py\<close>): opening a checkout with the Payment
  Provider, refund requests, reconciliation, and the webhook events that complete or reverse a
  contribution. The Payment Provider is a parameter: a record of its three calls, each of
  which returns a value or raises. Loops that follow another loop of the same operation use
  the attempt indices from 100 on; what other clients do during a provider call is
  \<open>be_rival env 200\<close>.
\<close>

section \<open>The provider and the events\<close>

record payment_provider =
  pp_create_checkout :: "contribution_checkout_request \<Rightarrow> payment_checkout result"
  pp_refund_checkout :: "string \<Rightarrow> string \<Rightarrow> string result"
  pp_find_checkout :: "string \<Rightarrow> payment_checkout option result"

definition find_contribution :: "wallet_snapshot \<Rightarrow> string \<Rightarrow> wallet_contribution option" where
  "find_contribution w k = find (\<lambda>c. wc_id c = k) (ws_contributions w)"

definition put_contribution ::
    "wallet_contribution \<Rightarrow> string \<Rightarrow> wallet_snapshot \<Rightarrow> wallet_snapshot" where
  "put_contribution c k w =
     w\<lparr>ws_contributions := replace_where (\<lambda>x. wc_id x = k) c (ws_contributions w)\<rparr>"

definition required_string :: "(string, json) dict \<Rightarrow> string \<Rightarrow> string result" where
  "required_string d key =
     (case json_get d key of
        JStr s \<Rightarrow> if s = [] then Inl (ValueError (''AbacatePay webhook '' @ key @ '' is missing''))
                  else Inr s
      | _ \<Rightarrow> Inl (ValueError (''AbacatePay webhook '' @ key @ '' is missing'')))"

text \<open>
  \<open>_cents_to_money\<close>: an amount of 29 digits or more does not fit the decimal context, and its
  quantization raises.
\<close>

definition cents_to_money :: "json \<Rightarrow> money result" where
  "cents_to_money v =
     (case v of
        JInt n \<Rightarrow> if n < 0 then Inl (ValueError ''AbacatePay webhook amount is invalid'')
                  else if 10 ^ prec \<le> n then Inl InvalidOperation else Inr n
      | _ \<Rightarrow> Inl (ValueError ''AbacatePay webhook amount is invalid''))"

definition json_str :: "json \<Rightarrow> string option" where
  "json_str v = (case v of JStr s \<Rightarrow> Some s | _ \<Rightarrow> None)"

definition payment_method_summary_of :: "json \<Rightarrow> payment_method_summary option" where
  "payment_method_summary_of v =
     (case v of
        JObj d \<Rightarrow> (case json_get d ''method'' of
            JStr m \<Rightarrow> Some
              (if m \<noteq> ''CARD''
               then \<lparr> pm_method = m, pm_card_last_four = None, pm_card_brand = None \<rparr>
               else (case json_get d ''CARD'' of
                   JObj details \<Rightarrow> \<lparr> pm_method = m,
                     pm_card_last_four = json_str (json_get details ''number''),
                     pm_card_brand = json_str (json_get details ''brand'') \<rparr>
                 | _ \<Rightarrow> \<lparr> pm_method = m, pm_card_last_four = None, pm_card_brand = None \<rparr>))
          | _ \<Rightarrow> None)
      | _ \<Rightarrow> None)"

text \<open>\<open>_complete_contribution\<close> and \<open>_reverse_contribution\<close>: the contribution and the ledger after.\<close>

definition complete_contribution ::
    "billing_env \<Rightarrow> nat \<Rightarrow> wallet_contribution \<Rightarrow> (string, json) dict \<Rightarrow> (string, json) dict
     \<Rightarrow> string \<Rightarrow> ledger_entry list \<Rightarrow> (wallet_contribution \<times> ledger_entry list) result" where
  "complete_contribution env i c checkout data event_id entries =
     (if wc_status c \<in> {COMPLETED, REFUND_REQUESTED, REFUNDED, DISPUTED} then Inr (c, entries)
      else (case cents_to_money (json_get checkout ''paidAmount'') of
          Inl e \<Rightarrow> Inl e
        | Inr paid \<Rightarrow> (case cents_to_money (json_get checkout ''amount'') of
            Inl e \<Rightarrow> Inl e
          | Inr amount \<Rightarrow>
              if paid \<noteq> wc_amount c \<or> amount \<noteq> wc_amount c
              then Inr (c\<lparr>wc_status := NEEDS_REVIEW\<rparr>, entries)
              else Inr (c\<lparr>wc_status := COMPLETED,
                          wc_payment_method :=
                            payment_method_summary_of (json_get data ''payerInformation'')\<rparr>,
                        entries @ [new_entry (be_uuid env i 0) (wc_account_id c) CONTRIBUTION
                          (wc_amount c) (wc_id c) (''abacatepay:'' @ event_id)
                          (be_clock env i 0)]))))"

definition reverse_contribution ::
    "billing_env \<Rightarrow> nat \<Rightarrow> wallet_contribution \<Rightarrow> string \<Rightarrow> string \<Rightarrow> ledger_entry list \<Rightarrow> money
     \<Rightarrow> wallet_contribution \<times> ledger_entry list" where
  "reverse_contribution env i c event_type event_id entries available =
     (let refunded = (event_type = ''checkout.refunded'');
          status = (if refunded then REFUNDED else DISPUTED)
      in if wc_status c \<in> {REFUNDED, DISPUTED} then (c, entries)
         else if wc_status c \<notin> {COMPLETED, REFUND_REQUESTED} then (c\<lparr>wc_status := status\<rparr>, entries)
         else if available < wc_amount c then (c\<lparr>wc_status := NEEDS_REVIEW\<rparr>, entries)
         else (c\<lparr>wc_status := status\<rparr>,
               entries @ [new_entry (be_uuid env i 0) (wc_account_id c)
                 (if refunded then REFUND else DISPUTE) (- wc_amount c) (wc_id c)
                 (''abacatepay:'' @ event_id) (be_clock env i 0)]))"

definition process_payment_event_attempt ::
    "billing_env \<Rightarrow> string \<Rightarrow> string \<Rightarrow> string \<Rightarrow> (string, json) dict \<Rightarrow> (string, json) dict
     \<Rightarrow> nat \<Rightarrow> wallet_snapshot \<Rightarrow> (wallet_snapshot, processed_payment_event) attempt" where
  "process_payment_event_attempt env event_id event_type contribution_id checkout data i w =
     (case find (\<lambda>p. pe_id p = event_id) (ws_payment_events w) of
        Some p \<Rightarrow> Return p
      | None \<Rightarrow> (case find_contribution w contribution_id of
          None \<Rightarrow> Raise StopIteration
        | Some c \<Rightarrow> (case required_string checkout ''id'' of
            Inl e \<Rightarrow> Raise e
          | Inr checkout_id \<Rightarrow>
              if Some checkout_id \<noteq> wc_provider_checkout_id c
              then Raise (ValueError ''AbacatePay checkout does not match contribution'')
              else (case
                  (if event_type = ''checkout.completed''
                   then complete_contribution env i c checkout data event_id (ws_entries w)
                   else if event_type \<in> {''checkout.refunded'', ''checkout.disputed''}
                   then Inr (reverse_contribution env i c event_type event_id (ws_entries w)
                     (available_balance w))
                   else Inr (c, ws_entries w)) of
                  Inl e \<Rightarrow> Raise e
                | Inr (updated, entries) \<Rightarrow>
                    (let event = \<lparr> pe_id = event_id, pe_event_type = event_type,
                           pe_contribution_id = wc_id c, pe_processed_at = be_clock env i 1 \<rparr>
                     in Commit ((put_contribution updated (wc_id c) w)
                          \<lparr> ws_entries := entries,
                            ws_payment_events := ws_payment_events w @ [event] \<rparr>) event)))))"

definition process_payment_event ::
    "billing_env \<Rightarrow> (string, json) dict \<Rightarrow> billing_store
     \<Rightarrow> processed_payment_event result \<times> billing_store" where
  "process_payment_event env payload st =
     (case required_string payload ''id'' of Inl e \<Rightarrow> (Inl e, st)
      | Inr event_id \<Rightarrow> (case required_string payload ''event'' of Inl e \<Rightarrow> (Inl e, st)
      | Inr event_type \<Rightarrow>
          if \<not> json_eq_int (json_get payload ''apiVersion'') 2
          then (Inl (ValueError ''unsupported AbacatePay webhook API version''), st)
          else (case json_get payload ''data'' of
            JObj data \<Rightarrow> (case json_get data ''checkout'' of
              JObj checkout \<Rightarrow> (case required_string checkout ''externalId'' of
                Inl e \<Rightarrow> (Inl e, st)
              | Inr contribution_id \<Rightarrow> (case repo_find_contribution st contribution_id of
                  None \<Rightarrow> (Inl (ValueError
                    ''AbacatePay webhook references an unknown contribution''), st)
                | Some located \<Rightarrow> billing_retry env 0 (wc_account_id located)
                    (process_payment_event_attempt env event_id event_type contribution_id
                       checkout data)
                    ''could not process payment event after retries'' (be_rival env 100 st)))
            | _ \<Rightarrow> (Inl (ValueError ''AbacatePay webhook checkout is missing''), st))
          | _ \<Rightarrow> (Inl (ValueError ''AbacatePay webhook data is missing''), st))))"

section \<open>Opening a checkout\<close>

text \<open>\<open>None\<close>: the contribution has been recorded; \<open>Some c\<close>: the key had been used for \<open>c\<close>.\<close>

definition start_contribution_attempt ::
    "wallet_contribution \<Rightarrow> nat \<Rightarrow> wallet_snapshot
     \<Rightarrow> (wallet_snapshot, wallet_contribution option) attempt" where
  "start_contribution_attempt contribution i w =
     (case find (\<lambda>c. wc_idempotency_key c = wc_idempotency_key contribution)
             (ws_contributions w) of
        Some c \<Rightarrow>
          if wc_payer_user_id c \<noteq> wc_payer_user_id contribution
             \<or> wc_package_id c \<noteq> wc_package_id contribution
          then Raise (ValueError ''idempotency key was used for another contribution'')
          else Return (Some c)
      | None \<Rightarrow> Commit (w\<lparr>ws_contributions := ws_contributions w @ [contribution]\<rparr>) None)"

definition attach_checkout_attempt ::
    "wallet_contribution \<Rightarrow> nat \<Rightarrow> wallet_snapshot
     \<Rightarrow> (wallet_snapshot, wallet_contribution) attempt" where
  "attach_checkout_attempt pending i w =
     (case find_contribution w (wc_id pending) of
        None \<Rightarrow> Raise StopIteration
      | Some current \<Rightarrow>
          if wc_status current = PENDING then Return current
          else Commit (put_contribution pending (wc_id pending) w) pending)"

definition with_checkout :: "wallet_contribution \<Rightarrow> payment_checkout \<Rightarrow> wallet_contribution" where
  "with_checkout c checkout =
     c\<lparr> wc_provider_checkout_id := Some (pc_id checkout), wc_checkout_url := Some (pc_url checkout),
        wc_status := PENDING \<rparr>"

definition create_contribution ::
    "billing_env \<Rightarrow> payment_provider option \<Rightarrow> (string, contribution_package) dict
     \<Rightarrow> string \<Rightarrow> string \<Rightarrow> string \<Rightarrow> string \<Rightarrow> string \<Rightarrow> string \<Rightarrow> string option \<Rightarrow> string option
     \<Rightarrow> billing_store \<Rightarrow> wallet_contribution result \<times> billing_store" where
  "create_contribution env provider packages account_id payer_user_id package_id return_url
     completion_url key payer_name payer_email st =
     (case provider of
        None \<Rightarrow> (Inl (RuntimeError ''Payment Provider is not configured''), st)
      | Some pp \<Rightarrow> (case dict_get packages package_id of
          None \<Rightarrow> (Inl (ValueError ''unknown contribution package''), st)
        | Some package \<Rightarrow> (case positive_money (cp_amount package) of
            Inl e \<Rightarrow> (Inl e, st)
          | Inr amount \<Rightarrow>
              (let contribution = \<lparr> wc_id = be_uuid env 0 9, wc_account_id = account_id,
                     wc_payer_user_id = payer_user_id, wc_package_id = cp_id package,
                     wc_amount = amount, wc_provider_product_id = cp_provider_product_id package,
                     wc_provider_checkout_id = None, wc_checkout_url = None,
                     wc_return_url = return_url, wc_completion_url = completion_url,
                     wc_status = CREATING_CHECKOUT, wc_idempotency_key = key,
                     wc_created_at = be_clock env 0 9, wc_payment_method = None,
                     wc_provider_refund_id = None \<rparr>
               in case billing_retry env 0 account_id (start_contribution_attempt contribution)
                    ''could not start contribution after retries'' st of
                    (Inl e, st1) \<Rightarrow> (Inl e, st1)
                  | (Inr (Some existing), st1) \<Rightarrow> (Inr existing, st1)
                  | (Inr None, st1) \<Rightarrow>
                      (case pp_create_checkout pp
                          \<lparr> cr_external_id = wc_id contribution,
                            cr_provider_product_id = wc_provider_product_id contribution,
                            cr_expected_amount = wc_amount contribution,
                            cr_return_url = return_url,
                            cr_completion_url =
                              completion_url_for completion_url (wc_id contribution),
                            cr_payer_name = payer_name, cr_payer_email = payer_email \<rparr> of
                         Inl e \<Rightarrow> (Inl e, be_rival env 200 st1)
                       | Inr checkout \<Rightarrow> billing_retry env 100 account_id
                           (attach_checkout_attempt (with_checkout contribution checkout))
                           ''could not attach contribution checkout after retries''
                           (be_rival env 200 st1))))))"

definition get_contribution ::
    "string \<Rightarrow> string \<Rightarrow> string \<Rightarrow> billing_store \<Rightarrow> wallet_contribution result" where
  "get_contribution account_id contribution_id requesting_user_id st =
     (case find_contribution (repo_get st account_id) contribution_id of
        None \<Rightarrow> Inl StopIteration
      | Some c \<Rightarrow>
          if wc_payer_user_id c = requesting_user_id then Inr c
          else Inr (c\<lparr> wc_provider_checkout_id := None, wc_checkout_url := None,
                       wc_payment_method := None \<rparr>))"

section \<open>Refunds and reconciliation\<close>

definition request_refund_attempt ::
    "string \<Rightarrow> string \<Rightarrow> nat \<Rightarrow> wallet_snapshot
     \<Rightarrow> (wallet_snapshot, wallet_contribution) attempt" where
  "request_refund_attempt contribution_id refund_id i w =
     (case find_contribution w contribution_id of
        None \<Rightarrow> Raise StopIteration
      | Some current \<Rightarrow>
          if wc_status current \<in> {REFUND_REQUESTED, REFUNDED} then Return current
          else if wc_status current \<noteq> COMPLETED
          then Raise (ValueError ''contribution changed while requesting refund'')
          else (let requested = current\<lparr> wc_status := REFUND_REQUESTED,
                      wc_provider_refund_id := Some refund_id \<rparr>
                in Commit (put_contribution requested contribution_id w) requested))"

definition request_contribution_refund ::
    "billing_env \<Rightarrow> payment_provider option \<Rightarrow> string \<Rightarrow> string \<Rightarrow> string \<Rightarrow> string
     \<Rightarrow> billing_store \<Rightarrow> wallet_contribution result \<times> billing_store" where
  "request_contribution_refund env provider account_id contribution_id requesting_user_id reason st =
     (case provider of
        None \<Rightarrow> (Inl (RuntimeError ''Payment Provider is not configured''), st)
      | Some pp \<Rightarrow>
          (let w = repo_get st account_id
           in case find_contribution w contribution_id of
                None \<Rightarrow> (Inl StopIteration, st)
              | Some c \<Rightarrow>
                  if wc_payer_user_id c \<noteq> requesting_user_id
                  then (Inl (PermissionError ''only the payer can request this refund''), st)
                  else if wc_status c \<in> {REFUND_REQUESTED, REFUNDED} then (Inr c, st)
                  else if wc_status c \<noteq> COMPLETED
                  then (Inl (ValueError ''only a completed contribution can be refunded''), st)
                  else if available_balance w < wc_amount c
                  then (Inl (InsufficientFundsError
                    ''contribution credit has already been used''), st)
                  else (case wc_provider_checkout_id c of
                      None \<Rightarrow> (Inl (ValueError ''contribution has no provider checkout''), st)
                    | Some checkout_id \<Rightarrow> (case pp_refund_checkout pp checkout_id reason of
                        Inl e \<Rightarrow> (Inl e, be_rival env 200 st)
                      | Inr refund_id \<Rightarrow> billing_retry env 0 account_id
                          (request_refund_attempt contribution_id refund_id)
                          ''could not record contribution refund request''
                          (be_rival env 200 st)))))"

definition reconcile_attempt ::
    "wallet_contribution \<Rightarrow> nat \<Rightarrow> wallet_snapshot
     \<Rightarrow> (wallet_snapshot, wallet_contribution) attempt" where
  "reconcile_attempt pending i w =
     (case find_contribution w (wc_id pending) of
        None \<Rightarrow> Raise StopIteration
      | Some current \<Rightarrow>
          if wc_status current \<noteq> CREATING_CHECKOUT then Return current
          else Commit (put_contribution pending (wc_id pending) w) pending)"

definition reconciliation_event :: "payment_checkout \<Rightarrow> (string, json) dict option" where
  "reconciliation_event checkout =
     (let payload = (\<lambda>event_type lower_status.
        [(''id'', JStr (''reconcile:'' @ pc_id checkout @ '':'' @ lower_status)),
         (''event'', JStr event_type), (''apiVersion'', JInt 2),
         (''data'', JObj [(''checkout'', JObj
            [(''id'', JStr (pc_id checkout)), (''externalId'', JStr (pc_external_id checkout)),
             (''amount'', JInt (pc_amount checkout)),
             (''paidAmount'', case pc_paid_amount checkout of None \<Rightarrow> JNull | Some n \<Rightarrow> JInt n),
             (''status'', JStr (pc_status checkout))])])])
      in if pc_status checkout = ''PAID'' then Some (payload ''checkout.completed'' ''paid'')
         else if pc_status checkout = ''REFUNDED''
         then Some (payload ''checkout.refunded'' ''refunded'') else None)"

text \<open>The environment of the calls from attempt index \<open>n\<close> on.\<close>

definition later :: "nat \<Rightarrow> billing_env \<Rightarrow> billing_env" where
  "later n env = \<lparr> be_clock = \<lambda>i. be_clock env (i + n), be_uuid = \<lambda>i. be_uuid env (i + n),
     be_rival = \<lambda>i. be_rival env (i + n) \<rparr>"

definition settle_reconciled ::
    "billing_env \<Rightarrow> string \<Rightarrow> string \<Rightarrow> payment_checkout \<Rightarrow> wallet_contribution \<Rightarrow> billing_store
     \<Rightarrow> wallet_contribution result \<times> billing_store" where
  "settle_reconciled env account_id contribution_id checkout contribution st =
     (case reconciliation_event checkout of
        None \<Rightarrow> (Inr contribution, st)
      | Some payload \<Rightarrow> (case process_payment_event (later 300 env) payload st of
          (Inl e, st1) \<Rightarrow> (Inl e, st1)
        | (Inr _, st1) \<Rightarrow> (case find_contribution (repo_get st1 account_id) contribution_id of
            None \<Rightarrow> (Inl StopIteration, st1)
          | Some c \<Rightarrow> (Inr c, st1))))"

definition reconcile_contribution ::
    "billing_env \<Rightarrow> payment_provider option \<Rightarrow> string \<Rightarrow> string
     \<Rightarrow> billing_store \<Rightarrow> wallet_contribution result \<times> billing_store" where
  "reconcile_contribution env provider account_id contribution_id st =
     (case provider of
        None \<Rightarrow> (Inl (RuntimeError ''Payment Provider is not configured''), st)
      | Some pp \<Rightarrow> (case find_contribution (repo_get st account_id) contribution_id of
          None \<Rightarrow> (Inl StopIteration, st)
        | Some c \<Rightarrow>
            (let st1 = be_rival env 200 st
             in case pp_find_checkout pp (wc_id c) of
               Inl e \<Rightarrow> (Inl e, st1)
             | Inr None \<Rightarrow> (Inr c, st1)
             | Inr (Some checkout) \<Rightarrow>
                 if pc_external_id checkout \<noteq> wc_id c \<or> pc_amount checkout \<noteq> wc_amount c
                 then (Inl (ValueError ''reconciled checkout does not match contribution''), st1)
                 else if wc_status c = CREATING_CHECKOUT
                 then (case billing_retry env 0 account_id
                         (reconcile_attempt (with_checkout c checkout))
                         ''could not reconcile contribution checkout'' st1 of
                       (Inl e, st2) \<Rightarrow> (Inl e, st2)
                     | (Inr c', st2) \<Rightarrow>
                         settle_reconciled env account_id contribution_id checkout c' st2)
                 else settle_reconciled env account_id contribution_id checkout c st1)))"

lemmas payment_attempts =
  process_payment_event_attempt_def start_contribution_attempt_def attach_checkout_attempt_def
  request_refund_attempt_def reconcile_attempt_def

declare payment_attempts [attempt_defs]

end
