(* ===== verification/BillingSafety.thy ===== *)
theory BillingSafety
  imports BalanceGuard Payments
begin

text \<open>
  What Billing keeps true of every Wallet, whatever the other clients do between the read and
  the save of an attempt. The central fact is that each loop body keeps a Wallet well formed
  (\<open>keeps_wallet\<close>): identifiers stay distinct, amounts keep their signs, and the Wallet stays
  solvent. One lemma per body; the rule \<open>billing_retry_ok\<close> lifts each of them to the
  operation.
\<close>

section \<open>Effect of the elementary updates\<close>

lemma find_reservation_Some:
  "find_reservation w k = Some r \<Longrightarrow> r \<in> set (ws_reservations w) \<and> ur_id r = k"
  by (auto simp: find_reservation_def dest: find_Some_iff_mem)

lemma find_quote_Some: "find_quote w k = Some q \<Longrightarrow> q \<in> set (ws_quotes w) \<and> sq_id q = k"
  by (auto simp: find_quote_def dest: find_Some_iff_mem)

lemma find_usage_Some: "find_usage w k = Some u \<Longrightarrow> u \<in> set (ws_usages w) \<and> ru_id u = k"
  by (auto simp: find_usage_def dest: find_Some_iff_mem)

lemma find_contribution_Some:
  "find_contribution w k = Some c \<Longrightarrow> c \<in> set (ws_contributions w) \<and> wc_id c = k"
  by (auto simp: find_contribution_def dest: find_Some_iff_mem)

lemma add_entry_simps [simp]:
  "ws_entries (add_entry e w) = ws_entries w @ [e]"
  "ws_reservations (add_entry e w) = ws_reservations w"
  "ws_quotes (add_entry e w) = ws_quotes w"
  "ws_usages (add_entry e w) = ws_usages w"
  "ws_contributions (add_entry e w) = ws_contributions w"
  "ws_world_budgets (add_entry e w) = ws_world_budgets w"
  "ws_account_id (add_entry e w) = ws_account_id w"
  "balance (add_entry e w) = balance w + le_amount e"
  "reserved (add_entry e w) = reserved w"
  by (simp_all add: add_entry_def balance_def)

lemma put_reservation_simps [simp]:
  "ws_entries (put_reservation r k w) = ws_entries w"
  "ws_reservations (put_reservation r k w) = replace_where (\<lambda>x. ur_id x = k) r (ws_reservations w)"
  "ws_quotes (put_reservation r k w) = ws_quotes w"
  "ws_usages (put_reservation r k w) = ws_usages w"
  "ws_contributions (put_reservation r k w) = ws_contributions w"
  "ws_world_budgets (put_reservation r k w) = ws_world_budgets w"
  "ws_account_id (put_reservation r k w) = ws_account_id w"
  "balance (put_reservation r k w) = balance w"
  by (simp_all add: put_reservation_def)

lemma put_contribution_simps [simp]:
  "ws_entries (put_contribution c k w) = ws_entries w"
  "ws_reservations (put_contribution c k w) = ws_reservations w"
  "ws_quotes (put_contribution c k w) = ws_quotes w"
  "ws_usages (put_contribution c k w) = ws_usages w"
  "ws_contributions (put_contribution c k w) = replace_where (\<lambda>x. wc_id x = k) c (ws_contributions w)"
  "ws_world_budgets (put_contribution c k w) = ws_world_budgets w"
  "ws_payment_events (put_contribution c k w) = ws_payment_events w"
  "ws_account_id (put_contribution c k w) = ws_account_id w"
  "balance (put_contribution c k w) = balance w"
  "reserved (put_contribution c k w) = reserved w"
  by (simp_all add: put_contribution_def)

lemma new_entry_simps [simp]:
  "le_id (new_entry i a t n r k at) = i"
  "le_amount (new_entry i a t n r k at) = n"
  "le_entry_type (new_entry i a t n r k at) = t"
  "le_reference (new_entry i a t n r k at) = r"
  "le_idempotency_key (new_entry i a t n r k at) = k"
  "le_account_id (new_entry i a t n r k at) = a"
  by (simp_all add: new_entry_def)

lemma reserved_put:
  assumes "ids_ok w" and "find_reservation w k = Some r0"
  shows "reserved (put_reservation r k w) = reserved w - active_amount r0 + active_amount r"
  using assms sum_list_replace_found [of ur_id "ws_reservations w" k r0 active_amount r]
  by (simp add: reserved_def ids_ok_def find_reservation_def)

lemma active_le_reserved:
  assumes "amounts_ok w" and "find_reservation w k = Some r" and "ur_status r = ACTIVE"
  shows "ur_amount r \<le> reserved w"
proof -
  have "r \<in> set (ws_reservations w)" using assms find_reservation_Some by blast
  moreover have "\<forall>x \<in> set (ws_reservations w). 0 \<le> active_amount x"
    using assms by (auto simp: amounts_ok_def active_amount_def)
  ultimately have "active_amount r \<le> reserved w"
    unfolding reserved_def by (intro sum_list_member_le)
  then show ?thesis using assms by (simp add: active_amount_def)
qed

lemma set_replace_where_image:
  "(\<And>x. P x \<Longrightarrow> f x = f new) \<Longrightarrow> f ` set (replace_where P new xs) = f ` set xs"
  using map_replace_where [of xs P f new] by (metis list.set_map)

section \<open>Well-formedness of the updated Wallet\<close>

text \<open>The entry is not a second wake guarantee of the same usage.\<close>

definition guarantee_ok :: "ledger_entry \<Rightarrow> wallet_snapshot \<Rightarrow> bool" where
  "guarantee_ok e w \<longleftrightarrow> le_entry_type e = WAKE_GUARANTEE
     \<longrightarrow> le_reference e \<notin> le_reference ` set (wake_guarantees (ws_entries w))"

lemma guarantee_ok_other [simp]: "le_entry_type e \<noteq> WAKE_GUARANTEE \<Longrightarrow> guarantee_ok e w"
  by (simp add: guarantee_ok_def)

lemma wallet_ok_add_entry:
  assumes "wallet_ok w" and "le_id e \<notin> wallet_ids w" and "reserved w \<le> balance w + le_amount e"
    and "guarantee_ok e w"
  shows "wallet_ok (add_entry e w)"
    and "wallet_ids (add_entry e w) = insert (le_id e) (wallet_ids w)"
  using assms
  by (auto simp: wallet_ok_def ids_ok_def amounts_ok_def solvent_def wallet_ids_def guarantee_ok_def)

lemma wallet_ids_put_reservation:
  "ur_id r = k \<Longrightarrow> wallet_ids (put_reservation r k w) = wallet_ids w"
  by (simp add: wallet_ids_def set_replace_where_image)

lemma wallet_ok_put_reservation:
  assumes "wallet_ok w" and "find_reservation w k = Some r0" and "ur_id r = k"
    and "0 \<le> ur_amount r" and "reserved w - active_amount r0 + active_amount r \<le> balance w"
  shows "wallet_ok (put_reservation r k w)"
proof
  show "ids_ok (put_reservation r k w)"
    using assms by (simp add: wallet_ok_def ids_ok_def map_replace_where)
  show "amounts_ok (put_reservation r k w)"
    using assms by (auto simp: wallet_ok_def amounts_ok_def dest: set_replace_where_subset [THEN subsetD])
  show "solvent (put_reservation r k w)"
    using assms by (simp add: solvent_def reserved_put wallet_okD)
qed

lemma wallet_ok_put_contribution:
  assumes "wallet_ok w" and "wc_id c = k" and "0 < wc_amount c"
  shows "wallet_ok (put_contribution c k w)"
    and "wallet_ids (put_contribution c k w) = wallet_ids w"
  using assms
  by (auto simp: wallet_ok_def ids_ok_def amounts_ok_def solvent_def wallet_ids_def map_replace_where
      set_replace_where_image dest: set_replace_where_subset [THEN subsetD])

lemma keeps_walletI:
  assumes "\<And>i w w' a. body i w = Commit w' a \<Longrightarrow> ws_account_id w' = ws_account_id w"
    and "\<And>i w w' a. body i w = Commit w' a \<Longrightarrow> wallet_ok w
      \<Longrightarrow> (\<And>j k. be_uuid env j k \<notin> wallet_ids w)
      \<Longrightarrow> wallet_ok w' \<and> wallet_ids w' \<subseteq> wallet_ids w \<union> uuids env"
  shows "keeps_wallet (uuids env) body"
  unfolding keeps_wallet_def
proof (intro allI impI conjI)
  fix i w w' a assume c: "body i w = Commit w' a"
  then show "ws_account_id w' = ws_account_id w" by (rule assms(1))
  assume w: "wallet_ok w" "uuids env \<inter> wallet_ids w = {}"
  then have "\<And>j k. be_uuid env j k \<notin> wallet_ids w" by (auto simp: uuids_def)
  from assms(2) [OF c w(1) this]
  show "wallet_ok w'" and "wallet_ids w' \<subseteq> wallet_ids w \<union> uuids env" by simp_all
qed

lemma keeps_pureI:
  assumes "\<And>i w w' a. body i w = Commit w' a \<Longrightarrow> ws_account_id w' = ws_account_id w"
    and "\<And>i w w' a. body i w = Commit w' a \<Longrightarrow> wallet_ok w
      \<Longrightarrow> wallet_ok w' \<and> wallet_ids w' \<subseteq> wallet_ids w"
  shows "keeps_wallet D body"
  using assms unfolding keeps_wallet_def by blast

lemma uuid_in [simp, intro]: "be_uuid env i k \<in> uuids env"
  by (auto simp: uuids_def)

lemmas body_splits = option.splits sum.splits if_splits prod.splits

section \<open>Every loop body keeps the Wallet well formed\<close>

lemma keeps_create_session_quote [inv_intros]:
  "0 < rate \<Longrightarrow> keeps_wallet (uuids env) (create_session_quote_attempt env acc world profile rate key)"
  by (rule keeps_walletI)
    (auto simp: create_session_quote_attempt_def Let_def wallet_ok_def ids_ok_def amounts_ok_def
      solvent_def wallet_ids_def split: body_splits)

lemma keeps_reserve [inv_intros]:
  "0 < n \<Longrightarrow> keeps_wallet (uuids env) (reserve_attempt env acc n purpose key quote world)"
  by (rule keeps_walletI)
    (auto simp: reserve_attempt_def Let_def wallet_ok_def ids_ok_def amounts_ok_def solvent_def
      active_amount_def wallet_ids_def reserved_def available_balance_def split: body_splits)

text \<open>
  What a body that commits has established and written, for the operations that touch a
  reservation. The same rules carry the lifecycle and the amount bounds below.
\<close>

lemma release_commitE:
  assumes "release_reservation_attempt k i w = Commit w' a"
  obtains r where "find_reservation w k = Some r" "ur_status r = ACTIVE"
    "w' = put_reservation (r\<lparr>ur_status := RELEASED\<rparr>) k w" "a = r\<lparr>ur_status := RELEASED\<rparr>"
proof (cases "find_reservation w k")
  case (Some r)
  with assms have "ur_status r = ACTIVE \<and> w' = put_reservation (r\<lparr>ur_status := RELEASED\<rparr>) k w
      \<and> a = r\<lparr>ur_status := RELEASED\<rparr>"
    by (cases "ur_status r") (auto simp: release_reservation_attempt_def Let_def)
  with Some that show thesis by blast
qed (use assms in \<open>simp add: release_reservation_attempt_def\<close>)

lemma capture_commitE:
  assumes "capture_reservation_attempt env acc k n key i w = Commit w' e"
  obtains r where "find_reservation w k = Some r" "ur_status r = ACTIVE" "n \<le> ur_amount r"
    "e = new_entry (be_uuid env i 0) acc RUNTIME_CHARGE (- n) (ur_purpose r) key (be_clock env i 0)"
    "w' = put_reservation (r\<lparr>ur_status := CAPTURED\<rparr>) k (add_entry e w)"
proof (cases "find_reservation w k")
  case (Some r)
  with assms that show thesis
    by (cases "entry_with_key w key")
      (auto simp: capture_reservation_attempt_def Let_def split: if_splits)
qed (use assms in \<open>auto simp: capture_reservation_attempt_def split: option.splits\<close>)

definition runtime_charge ::
    "billing_env \<Rightarrow> nat \<Rightarrow> string \<Rightarrow> session_quote \<Rightarrow> money \<Rightarrow> string \<Rightarrow> ledger_entry" where
  "runtime_charge env i acc q n key = new_entry (be_uuid env i 0) acc RUNTIME_CHARGE (- n)
     (''runtime:'' @ sq_world_id q) (key @ '':ledger'') (be_clock env i 0)"

lemma runtime_commitE:
  assumes "capture_runtime_usage_attempt env acc qid k t1 t2 secs key i w = Commit w' u"
  obtains q r n where "find_quote w qid = Some q" "find_reservation w k = Some r"
    "ur_status r = ACTIVE" "prorate HalfUp (sq_hourly_rate q) secs 3600 = Inr n" "n \<le> ur_amount r"
    "ru_id u = be_uuid env i 1" "ru_amount u = n" "ru_reservation_id u = k" "ru_quote_id u = qid"
    "ru_idempotency_key u = key" "ru_ledger_entry_id u = be_uuid env i 0"
    "ru_billable_seconds u = secs"
    "w' = (put_reservation (r\<lparr>ur_status := CAPTURED\<rparr>) k
            (add_entry (runtime_charge env i acc q n key) w)) \<lparr>ws_usages := ws_usages w @ [u]\<rparr>"
proof -
  obtain q where q: "find_quote w qid = Some q"
    using assms by (auto simp: capture_runtime_usage_attempt_def split: option.splits)
  obtain r where r: "find_reservation w k = Some r"
    using assms q by (auto simp: capture_runtime_usage_attempt_def split: option.splits)
  obtain n where n: "prorate HalfUp (sq_hourly_rate q) secs 3600 = Inr n"
    using assms q r
    by (auto simp: capture_runtime_usage_attempt_def split: option.splits if_splits sum.splits)
  have ids: "sq_id q = qid" "ur_id r = k"
    using find_quote_Some [OF q] find_reservation_Some [OF r] by simp_all
  show thesis
    using assms q r n ids that [OF q r _ n]
    by (cases "find (\<lambda>u. ru_idempotency_key u = key) (ws_usages w)")
      (auto simp: capture_runtime_usage_attempt_def runtime_charge_def Let_def split: if_splits)
qed

lemma runtime_charge_simps [simp]:
  "le_id (runtime_charge env i acc q n key) = be_uuid env i 0"
  "le_amount (runtime_charge env i acc q n key) = - n"
  "le_entry_type (runtime_charge env i acc q n key) = RUNTIME_CHARGE"
  by (simp_all add: runtime_charge_def)

lemma reserved_close:
  assumes "ids_ok w" and "find_reservation w k = Some r" and "ur_status r = ACTIVE"
    and "s \<noteq> ACTIVE"
  shows "reserved (put_reservation (r\<lparr>ur_status := s\<rparr>) k (add_entry e w)) = reserved w - ur_amount r"
  using reserved_put [of w k r "r\<lparr>ur_status := s\<rparr>"] assms
  by (simp add: reserved_def active_amount_def)

text \<open>Closing an active reservation while charging at most what it holds.\<close>

lemma wallet_ok_close:
  assumes ok: "wallet_ok w" and r: "find_reservation w k = Some r" "ur_status r = ACTIVE"
    and n: "0 \<le> n" "n \<le> ur_amount r" and e: "le_id e \<notin> wallet_ids w" "le_amount e = - n"
    and s: "s \<noteq> ACTIVE" and type: "le_entry_type e \<noteq> WAKE_GUARANTEE"
  shows "wallet_ok (put_reservation (r\<lparr>ur_status := s\<rparr>) k (add_entry e w))"
    and "wallet_ids (put_reservation (r\<lparr>ur_status := s\<rparr>) k (add_entry e w))
       = insert (le_id e) (wallet_ids w)"
proof -
  have k: "ur_id r = k" and "ur_amount r \<le> reserved w"
    using r ok find_reservation_Some active_le_reserved by (auto dest: wallet_okD)
  moreover have solvent: "reserved w \<le> balance w" using ok by (auto simp: solvent_def dest: wallet_okD)
  moreover have "wallet_ok (put_reservation (r\<lparr>ur_status := s\<rparr>) k w)"
    using ok r n k s solvent by (intro wallet_ok_put_reservation) (auto simp: active_amount_def)
  ultimately show "wallet_ok (put_reservation (r\<lparr>ur_status := s\<rparr>) k (add_entry e w))"
    using e n r s ok type
    by (auto simp: wallet_ok_def ids_ok_def amounts_ok_def solvent_def wallet_ids_def
        reserved_close)
  show "wallet_ids (put_reservation (r\<lparr>ur_status := s\<rparr>) k (add_entry e w))
       = insert (le_id e) (wallet_ids w)"
    using k by (auto simp: wallet_ids_put_reservation) (auto simp: wallet_ids_def)
qed

lemma keeps_release [inv_intros]: "keeps_wallet D (release_reservation_attempt k)"
proof (rule keeps_pureI, goal_cases)
  case (1 i w w' a)
  then show ?case by (elim release_commitE) simp
next
  case (2 i w w' a)
  then obtain r where r: "find_reservation w k = Some r" "ur_status r = ACTIVE"
    and w': "w' = put_reservation (r\<lparr>ur_status := RELEASED\<rparr>) k w" by (elim release_commitE)
  have "0 \<le> ur_amount r" "ur_id r = k" "reserved w \<le> balance w"
    using r 2 find_reservation_Some by (auto simp: wallet_ok_def amounts_ok_def solvent_def)
  with r 2 show ?case unfolding w'
    by (auto intro!: wallet_ok_put_reservation simp: wallet_ids_put_reservation active_amount_def)
qed

lemma keeps_capture [inv_intros]:
  "0 < n \<Longrightarrow> keeps_wallet (uuids env) (capture_reservation_attempt env acc k n key)"
proof (rule keeps_walletI, goal_cases)
  case (1 i w w' a)
  then show ?case by (elim capture_commitE) simp
next
  case (2 i w w' a)
  from 2(2) show ?case
  proof (rule capture_commitE)
    fix r assume r: "find_reservation w k = Some r" "ur_status r = ACTIVE" "n \<le> ur_amount r"
      and e: "a = new_entry (be_uuid env i 0) acc RUNTIME_CHARGE (- n) (ur_purpose r) key (be_clock env i 0)"
      and w': "w' = put_reservation (r\<lparr>ur_status := CAPTURED\<rparr>) k (add_entry a w)"
    show ?case unfolding w'
      using wallet_ok_close [OF 2(3) r(1,2) _ r(3), of a CAPTURED] 2(1,4) e by simp
  qed
qed

lemma keeps_runtime [inv_intros]:
  "keeps_wallet (uuids env) (capture_runtime_usage_attempt env acc qid k t1 t2 secs key)"
proof (rule keeps_walletI, goal_cases)
  case (1 i w w' u)
  then show ?case by (elim runtime_commitE) simp
next
  case (2 i w w' u)
  from 2(1) obtain q r n where r: "find_reservation w k = Some r" "ur_status r = ACTIVE"
      "n \<le> ur_amount r" and n: "prorate HalfUp (sq_hourly_rate q) secs 3600 = Inr n"
    and u: "ru_id u = be_uuid env i 1" "ru_amount u = n"
    and w': "w' = (put_reservation (r\<lparr>ur_status := CAPTURED\<rparr>) k
        (add_entry (runtime_charge env i acc q n key) w)) \<lparr>ws_usages := ws_usages w @ [u]\<rparr>"
    by (rule runtime_commitE)
  note n = prorate_nonneg [OF n]
  let ?e = "runtime_charge env i acc q n key"
  let ?v = "put_reservation (r\<lparr>ur_status := CAPTURED\<rparr>) k (add_entry ?e w)"
  have v: "wallet_ok ?v" "wallet_ids ?v = insert (le_id ?e) (wallet_ids w)"
    using wallet_ok_close [OF 2(2) r(1,2) n r(3), of ?e CAPTURED] 2(3) by simp_all
  moreover have "ru_id u \<notin> ru_id ` set (ws_usages w)" using 2(3) u by (auto simp: wallet_ids_def)
  ultimately have "wallet_ok w'" unfolding w' using u n
    by (auto simp: wallet_ok_def ids_ok_def amounts_ok_def solvent_def)
  moreover have "wallet_ids w' = insert (ru_id u) (wallet_ids ?v)"
    unfolding w' by (auto simp: wallet_ids_def)
  ultimately show ?case using v u by auto
qed


text \<open>Bodies that only append one ledger entry.\<close>

lemma keeps_append:
  assumes "\<And>i w w' a. body i w = Commit w' a \<Longrightarrow> wallet_ok w \<Longrightarrow>
      \<exists>e. w' = add_entry e w \<and> le_id e = be_uuid env i 0 \<and> reserved w \<le> balance w + le_amount e
        \<and> guarantee_ok e w"
    and "\<And>i w w' a. body i w = Commit w' a \<Longrightarrow> ws_account_id w' = ws_account_id w"
  shows "keeps_wallet (uuids env) body"
proof (rule keeps_walletI, goal_cases)
  case (2 i w w' a)
  then obtain e where "w' = add_entry e w" "le_id e = be_uuid env i 0"
    "reserved w \<le> balance w + le_amount e" "guarantee_ok e w" using assms(1) by blast
  with 2 wallet_ok_add_entry [of w e] show ?case by auto
qed (rule assms(2))

lemma keeps_storage [inv_intros]:
  "0 < n \<Longrightarrow> keeps_wallet (uuids env) (charge_monthly_storage_attempt env acc n month key)"
  by (rule keeps_append; fastforce simp: charge_monthly_storage_attempt_def Let_def wallet_ok_def
      dest: available_le split: body_splits)

lemma keeps_credit [inv_intros]:
  "0 < n \<Longrightarrow> keeps_wallet (uuids env) (credit_wallet_attempt env acc n reference key)"
  by (rule keeps_append; fastforce simp: credit_wallet_attempt_def Let_def wallet_ok_def
      solvent_def split: body_splits)

lemma keeps_support [inv_intros]:
  "0 < n \<Longrightarrow> keeps_wallet (uuids env) (apply_support_credit_attempt env acc n reference actor reason key)"
  by (rule keeps_append; fastforce simp: apply_support_credit_attempt_def new_entry_def Let_def
      wallet_ok_def solvent_def split: body_splits)

lemma keeps_wake [inv_intros]:
  "keeps_wallet (uuids env) (apply_wake_guarantee_attempt env acc usage_id key)"
proof (rule keeps_append, goal_cases)
  case (1 i w w' a)
  then obtain u where u: "find_usage w usage_id = Some u"
    and none: "find (\<lambda>e. le_entry_type e = WAKE_GUARANTEE \<and> le_reference e = ru_id u) (ws_entries w) = None"
    and w': "w' = add_entry
      (new_entry (be_uuid env i 0) acc WAKE_GUARANTEE (ru_amount u) (ru_id u) key (be_clock env i 0)) w"
    by (auto simp: apply_wake_guarantee_attempt_def Let_def split: body_splits)
  have "0 \<le> ru_amount u" using find_usage_Some [OF u] 1 by (auto simp: wallet_ok_def amounts_ok_def)
  moreover have "ru_id u \<notin> le_reference ` set (wake_guarantees (ws_entries w))"
    using find_None_ball [OF none] by (auto simp: wake_guarantees_def)
  ultimately show ?case using w' 1 by (auto simp: wallet_ok_def solvent_def guarantee_ok_def)
qed (auto simp: apply_wake_guarantee_attempt_def Let_def split: body_splits)

lemma keeps_availability [inv_intros]:
  "keeps_wallet (uuids env) (apply_availability_credit_attempt env acc usage_id t1 t2 reference key)"
proof (rule keeps_append, goal_cases)
  case (1 i w w' a)
  then have "\<exists>n. 0 < n \<and> w' = add_entry
      (new_entry (be_uuid env i 0) acc AVAILABILITY_CREDIT n reference key (be_clock env i 0)) w"
    unfolding apply_availability_credit_attempt_def Let_def
    by (clarsimp simp: not_le split: body_splits) (rule exI, rule conjI [OF _ refl], simp)
  with 1 show ?case by (auto simp: wallet_ok_def solvent_def)
qed (auto simp: apply_availability_credit_attempt_def Let_def split: body_splits)

lemma wallet_ok_budgets:
  assumes "wallet_ok w" and "\<forall>b \<in> set bs. 0 < wb_monthly_limit b"
  shows "wallet_ok (w\<lparr>ws_world_budgets := bs\<rparr>)" and "wallet_ids (w\<lparr>ws_world_budgets := bs\<rparr>) = wallet_ids w"
  using assms by (auto simp: wallet_ok_def ids_ok_def amounts_ok_def solvent_def wallet_ids_def)

lemma keeps_set_budget [inv_intros]:
  "0 < limit \<Longrightarrow> keeps_wallet (uuids env) (set_world_budget_attempt env acc world limit key)"
proof (rule keeps_walletI, goal_cases)
  case (2 i w w' a)
  then obtain bs where w': "w' = w\<lparr>ws_world_budgets := bs\<rparr>" and "wb_monthly_limit a = limit"
    and "set bs \<subseteq> insert a (set (ws_world_budgets w))"
    by (force simp: set_world_budget_attempt_def Let_def split: body_splits
        dest: set_replace_where_subset [THEN subsetD])
  with 2 have "\<forall>b \<in> set bs. 0 < wb_monthly_limit b" by (auto simp: wallet_ok_def amounts_ok_def)
  with 2 show ?case unfolding w' by (auto simp: wallet_ok_budgets)
qed (auto simp: set_world_budget_attempt_def Let_def split: body_splits)

section \<open>The Balance Guard\<close>

lemma guard_figures_hold:
  "0 \<le> required \<Longrightarrow> 0 \<le> held \<Longrightarrow>
     0 \<le> gf_reserved_amount (guard_figures_of required held avail budget)
     \<and> (0 \<le> avail \<longrightarrow> gf_reserved_amount (guard_figures_of required held avail budget) - held \<le> avail)"
  by (auto simp: guard_figures_of_def Let_def)

lemma protect_commitE:
  assumes "protect_active_session_attempt qid k secs t safe interval i w = Commit w' d"
  obtains q r n f gs bs where "find_quote w qid = Some q" "find_reservation w k = Some r"
    "ur_status r = ACTIVE" "prorate Up (sq_hourly_rate q) (secs + safe) 3600 = Inr n"
    "f = guard_figures_of n (ur_amount r) (available_balance w)
       (world_budget_available w (sq_world_id q) t)"
    "bd_reserved_amount d = gf_reserved_amount f" "bd_safe_sleep_reserved d = gf_can_extend f"
    "w' = (put_reservation (r\<lparr>ur_amount := gf_reserved_amount f\<rparr>) k w)
        \<lparr> ws_balance_guards := gs, ws_world_budget_alerts := bs \<rparr>"
proof -
  obtain q where q: "find_quote w qid = Some q"
    using assms by (auto simp: protect_active_session_attempt_def split: option.splits)
  obtain r where r: "find_reservation w k = Some r"
    using assms q by (auto simp: protect_active_session_attempt_def split: option.splits)
  have s: "ur_status r = ACTIVE" "ur_quote_id r = Some (sq_id q)"
    using assms q r by (auto simp: protect_active_session_attempt_def split: if_splits)
  obtain n where n: "prorate Up (sq_hourly_rate q) (secs + safe) 3600 = Inr n"
    using assms q r s by (auto simp: protect_active_session_attempt_def split: sum.splits)
  have "ur_id r = k" using find_reservation_Some [OF r] by simp
  let ?f = "guard_figures_of n (ur_amount r) (available_balance w)
      (world_budget_available w (sq_world_id q) t)"
  have "\<exists>gs bs. w' = (put_reservation (r\<lparr>ur_amount := gf_reserved_amount ?f\<rparr>) (ur_id r) w)
        \<lparr> ws_balance_guards := gs, ws_world_budget_alerts := bs \<rparr>
      \<and> bd_reserved_amount d = gf_reserved_amount ?f \<and> bd_safe_sleep_reserved d = gf_can_extend ?f"
    using assms unfolding protect_active_session_attempt_def q r option.case n sum.case Let_def
    by (auto simp: s guard_decision_def Let_def simp del: put_reservation_simps split: if_splits)
  with \<open>ur_id r = k\<close> that [OF q r s(1) n refl] show thesis by blast
qed

lemma protect_returnE:
  assumes "protect_active_session_attempt qid k secs t safe interval i w = Return d"
  obtains q r n f where "find_quote w qid = Some q" "find_reservation w k = Some r"
    "ur_status r = ACTIVE" "prorate Up (sq_hourly_rate q) (secs + safe) 3600 = Inr n"
    "f = guard_figures_of n (ur_amount r) (available_balance w)
       (world_budget_available w (sq_world_id q) t)"
    "bd_reserved_amount d = gf_reserved_amount f" "bd_safe_sleep_reserved d = gf_can_extend f"
    "ws_reservations (put_reservation (r\<lparr>ur_amount := gf_reserved_amount f\<rparr>) k w) = ws_reservations w"
proof -
  obtain q where q: "find_quote w qid = Some q"
    using assms by (auto simp: protect_active_session_attempt_def split: option.splits)
  obtain r where r: "find_reservation w k = Some r"
    using assms q by (auto simp: protect_active_session_attempt_def split: option.splits)
  have s: "ur_status r = ACTIVE" "ur_quote_id r = Some (sq_id q)"
    using assms q r by (auto simp: protect_active_session_attempt_def split: if_splits)
  obtain n where n: "prorate Up (sq_hourly_rate q) (secs + safe) 3600 = Inr n"
    using assms q r s by (auto simp: protect_active_session_attempt_def split: sum.splits)
  have "ur_id r = k" using find_reservation_Some [OF r] by simp
  let ?f = "guard_figures_of n (ur_amount r) (available_balance w)
      (world_budget_available w (sq_world_id q) t)"
  have "ws_reservations (put_reservation (r\<lparr>ur_amount := gf_reserved_amount ?f\<rparr>) (ur_id r) w)
        = ws_reservations w
      \<and> bd_reserved_amount d = gf_reserved_amount ?f \<and> bd_safe_sleep_reserved d = gf_can_extend ?f"
    using assms unfolding protect_active_session_attempt_def q r option.case n sum.case Let_def
    by (auto simp: s guard_decision_def Let_def simp del: put_reservation_simps split: if_splits)
  with \<open>ur_id r = k\<close> that [OF q r s(1) n refl] show thesis by blast
qed

lemma guard_extends: "gf_can_extend (guard_figures_of n held avail budget) \<Longrightarrow>
    gf_reserved_amount (guard_figures_of n held avail budget) = n"
  by (simp add: guard_figures_of_def Let_def)

lemma keeps_protect [inv_intros]:
  "keeps_wallet D (protect_active_session_attempt qid k secs t safe interval)"
proof (rule keeps_pureI, goal_cases)
  case (1 i w w' d)
  then show ?case by (elim protect_commitE) simp
next
  case (2 i w w' d)
  from 2(1) obtain q r n f gs bs where "find_quote w qid = Some q"
    and r: "find_reservation w k = Some r" "ur_status r = ACTIVE"
    and n: "prorate Up (sq_hourly_rate q) (secs + safe) 3600 = Inr n"
    and f: "f = guard_figures_of n (ur_amount r) (available_balance w)
       (world_budget_available w (sq_world_id q) t)"
    and w': "w' = (put_reservation (r\<lparr>ur_amount := gf_reserved_amount f\<rparr>) k w)
        \<lparr> ws_balance_guards := gs, ws_world_budget_alerts := bs \<rparr>"
    by (rule protect_commitE)
  have k: "ur_id r = k" and held: "0 \<le> ur_amount r"
    using r(1) 2(2) find_reservation_Some by (auto simp: wallet_ok_def amounts_ok_def)
  have sol: "solvent w" using 2(2) by (simp add: wallet_ok_def)
  have "0 \<le> gf_reserved_amount f" "gf_reserved_amount f - ur_amount r \<le> balance w - reserved w"
    using guard_figures_hold [OF prorate_nonneg [OF n] held, of "available_balance w"]
      available_nonneg [OF sol] available_le [OF sol] f by (auto intro: order_trans)
  then have "wallet_ok (put_reservation (r\<lparr>ur_amount := gf_reserved_amount f\<rparr>) k w)"
    using 2(2) r k by (intro wallet_ok_put_reservation) (auto simp: active_amount_def)
  then show ?case unfolding w'
    using wallet_ids_put_reservation [of "r\<lparr>ur_amount := gf_reserved_amount f\<rparr>" k w] k
    by (auto simp: wallet_ok_def ids_ok_def amounts_ok_def solvent_def wallet_ids_def)
qed


section \<open>Payments\<close>

lemma complete_contribution_cases:
  assumes "complete_contribution env i c checkout data event entries = Inr (c', entries')"
  obtains "entries' = entries" "wc_id c' = wc_id c" "wc_amount c' = wc_amount c"
  | e where "entries' = entries @ [e]" "le_id e = be_uuid env i 0" "le_entry_type e \<noteq> WAKE_GUARANTEE"
    "le_amount e = wc_amount c"
    "wc_id c' = wc_id c" "wc_amount c' = wc_amount c"
  using assms by (fastforce simp: complete_contribution_def split: body_splits)

lemma reverse_contribution_cases:
  assumes "reverse_contribution env i c kind event entries available = (c', entries')"
  obtains "entries' = entries" "wc_id c' = wc_id c" "wc_amount c' = wc_amount c"
  | e where "entries' = entries @ [e]" "le_id e = be_uuid env i 0" "le_entry_type e \<noteq> WAKE_GUARANTEE"
    "le_amount e = - wc_amount c"
    "wc_id c' = wc_id c" "wc_amount c' = wc_amount c" "wc_amount c \<le> available"
  using assms by (fastforce simp: reverse_contribution_def Let_def split: if_splits)

lemma payment_commitE:
  assumes "process_payment_event_attempt env event kind k checkout data i w = Commit w' p"
  obtains c c' entries where "find_contribution w k = Some c"
    "(if kind = ''checkout.completed''
      then complete_contribution env i c checkout data event (ws_entries w)
      else if kind \<in> {''checkout.refunded'', ''checkout.disputed''}
      then Inr (reverse_contribution env i c kind event (ws_entries w) (available_balance w))
      else Inr (c, ws_entries w)) = Inr (c', entries)"
    "w' = (put_contribution c' k w) \<lparr> ws_entries := entries,
            ws_payment_events := ws_payment_events w @ [p] \<rparr>"
    "pe_id p = event" "find (\<lambda>p. pe_id p = event) (ws_payment_events w) = None"
proof -
  obtain c where c: "find_contribution w k = Some c"
    using assms by (auto simp: process_payment_event_attempt_def split: option.splits)
  have "wc_id c = k" using find_contribution_Some [OF c] by simp
  with assms c that [OF c] show thesis
    unfolding process_payment_event_attempt_def
    by (auto simp del: put_contribution_simps simp: Let_def split: option.splits sum.splits
        if_split_asm prod.splits)
qed

lemma wallet_ok_payment:
  assumes ok: "wallet_ok w" and c: "wc_id c = k" "0 < wc_amount c" and e: "le_id e \<notin> wallet_ids w"
    and sol: "reserved w \<le> balance w + le_amount e" and g: "guarantee_ok e w"
  shows "wallet_ok ((put_contribution c k w)\<lparr> ws_entries := ws_entries w @ [e],
            ws_payment_events := ps \<rparr>)"
    and "wallet_ids ((put_contribution c k w)\<lparr> ws_entries := ws_entries w @ [e],
            ws_payment_events := ps \<rparr>) = insert (le_id e) (wallet_ids w)"
proof -
  let ?v = "put_contribution c k w"
  have v: "wallet_ok ?v" "wallet_ids ?v = wallet_ids w" using wallet_ok_put_contribution ok c by blast+
  have "wallet_ok (add_entry e ?v)" "wallet_ids (add_entry e ?v) = insert (le_id e) (wallet_ids w)"
    using wallet_ok_add_entry [of ?v e] v e sol g by (simp_all add: guarantee_ok_def)
  moreover have "(?v\<lparr> ws_entries := ws_entries w @ [e], ws_payment_events := ps \<rparr>)
      = (add_entry e ?v)\<lparr> ws_payment_events := ps \<rparr>" by (simp add: add_entry_def)
  ultimately show "wallet_ok (?v\<lparr> ws_entries := ws_entries w @ [e], ws_payment_events := ps \<rparr>)"
    and "wallet_ids (?v\<lparr> ws_entries := ws_entries w @ [e], ws_payment_events := ps \<rparr>)
      = insert (le_id e) (wallet_ids w)"
    by (simp_all add: wallet_ok_def ids_ok_def amounts_ok_def solvent_def wallet_ids_def)
qed

lemma wallet_ok_payment_quiet:
  assumes "wallet_ok w" and "wc_id c = k" and "0 < wc_amount c"
  shows "wallet_ok ((put_contribution c k w)\<lparr> ws_entries := ws_entries w, ws_payment_events := ps \<rparr>)"
    and "wallet_ids ((put_contribution c k w)\<lparr> ws_entries := ws_entries w, ws_payment_events := ps \<rparr>)
       = wallet_ids w"
proof -
  have "(put_contribution c k w)\<lparr> ws_entries := ws_entries w, ws_payment_events := ps \<rparr>
      = (put_contribution c k w)\<lparr> ws_payment_events := ps \<rparr>"
    by (simp add: put_contribution_def)
  with wallet_ok_put_contribution [OF assms] show
    "wallet_ok ((put_contribution c k w)\<lparr> ws_entries := ws_entries w, ws_payment_events := ps \<rparr>)"
    and "wallet_ids ((put_contribution c k w)\<lparr> ws_entries := ws_entries w, ws_payment_events := ps \<rparr>)
       = wallet_ids w"
    by (simp_all add: wallet_ok_def ids_ok_def amounts_ok_def solvent_def wallet_ids_def balance_def)
qed

lemma keeps_payment [inv_intros]:
  "keeps_wallet (uuids env) (process_payment_event_attempt env event kind k checkout data)"
proof (rule keeps_walletI, goal_cases)
  case (1 i w w' p)
  then show ?case by (elim payment_commitE) simp
next
  case (2 i w w' p)
  from 2(1) obtain c c' entries where c: "find_contribution w k = Some c"
    and r: "(if kind = ''checkout.completed''
      then complete_contribution env i c checkout data event (ws_entries w)
      else if kind \<in> {''checkout.refunded'', ''checkout.disputed''}
      then Inr (reverse_contribution env i c kind event (ws_entries w) (available_balance w))
      else Inr (c, ws_entries w)) = Inr (c', entries)"
    and w': "w' = (put_contribution c' k w) \<lparr> ws_entries := entries,
            ws_payment_events := ws_payment_events w @ [p] \<rparr>"
    by (rule payment_commitE)
  have k: "wc_id c = k" and pos: "0 < wc_amount c"
    using find_contribution_Some [OF c] 2(2) by (auto simp: wallet_ok_def amounts_ok_def)
  have sol: "solvent w" using 2(2) by (simp add: wallet_ok_def)
  have "wc_id c' = k \<and> wc_amount c' = wc_amount c \<and> (entries = ws_entries w \<or>
      (\<exists>e. entries = ws_entries w @ [e] \<and> le_id e = be_uuid env i 0
         \<and> reserved w \<le> balance w + le_amount e \<and> guarantee_ok e w))"
  proof (cases "kind = ''checkout.completed''")
    case True
    with r have "complete_contribution env i c checkout data event (ws_entries w) = Inr (c', entries)"
      by simp
    then show ?thesis using k pos sol
      by (elim complete_contribution_cases) (auto simp: solvent_def)
  next
    case False
    show ?thesis
    proof (cases "kind \<in> {''checkout.refunded'', ''checkout.disputed''}")
      case True
      with False r have "reverse_contribution env i c kind event (ws_entries w) (available_balance w)
          = (c', entries)" by auto
      then show ?thesis using k pos available_le [OF sol]
        by (elim reverse_contribution_cases) (auto simp: solvent_def)
    qed (use False r k in auto)
  qed
  then show ?case unfolding w'
    using wallet_ok_payment [OF 2(2)] wallet_ok_payment_quiet [OF 2(2)] 2(3) pos by auto
qed

lemma keeps_start_contribution [inv_intros]:
  "wc_id c = be_uuid env 0 9 \<Longrightarrow> 0 < wc_amount c \<Longrightarrow> keeps_wallet (uuids env) (start_contribution_attempt c)"
  by (rule keeps_walletI)
    (auto simp: start_contribution_attempt_def wallet_ok_def ids_ok_def amounts_ok_def solvent_def
      wallet_ids_def split: body_splits)

lemma keeps_put_contribution:
  assumes "\<And>i w w' a. body i w = Commit w' a \<Longrightarrow> wallet_ok w \<Longrightarrow>
      \<exists>c. w' = put_contribution c k w \<and> wc_id c = k \<and> 0 < wc_amount c"
    and "\<And>i w w' a. body i w = Commit w' a \<Longrightarrow> ws_account_id w' = ws_account_id w"
  shows "keeps_wallet D body"
proof (rule keeps_pureI, goal_cases)
  case (2 i w w' a)
  then obtain c where "w' = put_contribution c k w" "wc_id c = k" "0 < wc_amount c"
    using assms(1) by blast
  with 2 wallet_ok_put_contribution [of w c k] show ?case by auto
qed (rule assms(2))

lemma contribution_amount_pos:
  "wallet_ok w \<Longrightarrow> find_contribution w k = Some c \<Longrightarrow> 0 < wc_amount c"
  using find_contribution_Some by (auto simp: wallet_ok_def amounts_ok_def)

lemma keeps_attach [inv_intros]:
  "0 < wc_amount c \<Longrightarrow> keeps_wallet D (attach_checkout_attempt c)"
  by (rule keeps_put_contribution [where k = "wc_id c"])
    (auto simp: attach_checkout_attempt_def split: body_splits)

lemma keeps_reconcile [inv_intros]:
  "0 < wc_amount c \<Longrightarrow> keeps_wallet D (reconcile_attempt c)"
  by (rule keeps_put_contribution [where k = "wc_id c"])
    (auto simp: reconcile_attempt_def split: body_splits)

lemma refund_request_commitE:
  assumes "request_refund_attempt k refund i w = Commit w' a"
  obtains c where "find_contribution w k = Some c" "wc_status c = COMPLETED"
    "a = c\<lparr> wc_status := REFUND_REQUESTED, wc_provider_refund_id := Some refund \<rparr>"
    "w' = put_contribution a k w"
  using assms by (auto simp: request_refund_attempt_def Let_def split: body_splits)

lemma keeps_refund [inv_intros]: "keeps_wallet D (request_refund_attempt k refund)"
proof (rule keeps_put_contribution [where k = k], goal_cases)
  case (1 i w w' a)
  then show ?case
    by (elim refund_request_commitE)
      (use find_contribution_Some contribution_amount_pos in \<open>intro exI [of _ a], fastforce\<close>)
next
  case (2 i w w' a)
  then show ?case by (elim refund_request_commitE) simp
qed

section \<open>A loop that nobody disturbs\<close>

lemma calm_retry:
  assumes "store_ok U st" and "keeps_wallet D body" and "\<And>n b. be_rival env n b = b"
  shows "billing_retry env i acc body msg st =
     (case body i (repo_get st acc) of Raise e \<Rightarrow> (Inl e, st) | Return a \<Rightarrow> (Inr a, st)
      | Commit w' a \<Rightarrow> (Inr a, projr (repo_save w' (ws_version (repo_get st acc)) st)))"
  unfolding billing_retry_def
proof (rule wallets.retry_quiet)
  show k: "ws_account_id (repo_get st acc) = acc" using store_ok_get(3) [OF assms(1)] .
  show "ws_account_id w' = acc" if "body i (repo_get st acc) = Commit w' a" for w' a
    using that assms(2) k unfolding keeps_wallet_def by metis
qed (simp_all add: assms(3))

lemma quiet_save:
  "ws_account_id w' = acc \<Longrightarrow>
     repo_get (projr (repo_save w' (ws_version (repo_get st acc)) st)) acc
       = w'\<lparr>ws_version := ws_version (repo_get st acc) + 1\<rparr>"
  by (simp add: repo_save_def repo_get_def)

end
