(* ===== verification/BillingSystem.thy ===== *)
theory BillingSystem
  imports BillingSafety
begin

text \<open>
  Billing as a whole: every public operation that writes, as a value of \<open>billing_call\<close>, and the
  stores that sequences of such calls reach, each call under interference by other clients.
  The first properties of the component follow from the preservation lemmas of BillingSafety.
\<close>

section \<open>Each operation keeps the store well formed\<close>

definition env_ok :: "string set \<Rightarrow> billing_env \<Rightarrow> bool" where
  "env_ok U env \<longleftrightarrow> rivals_ok U env \<and> fresh_ids U env"

lemma env_ok_disjoint: "env_ok U env \<Longrightarrow> uuids env \<inter> U = {}"
  by (auto simp: env_ok_def fresh_ids_def uuids_def)

lemma env_okD: "env_ok U env \<Longrightarrow> rivals_ok U env"
  by (simp add: env_ok_def)

lemma rivals_ok_mono: "rivals_ok U env \<Longrightarrow> U \<subseteq> V \<Longrightarrow> rivals_ok V env"
  by (auto simp: rivals_ok_def)

lemma rival_store_ok: "rivals_ok U env \<Longrightarrow> store_ok U st \<Longrightarrow> store_ok U (be_rival env i st)"
  by (auto simp: rivals_ok_def)

lemma retry_keeps:
  assumes "keeps_wallet (uuids env) body" and "store_ok U st" and "env_ok U env"
  shows "store_ok (U \<union> uuids env) (snd (billing_retry env i acc body msg st))"
  using billing_retry_ok [OF assms(1,2) env_okD [OF assms(3)] env_ok_disjoint [OF assms(3)], of i acc msg]
  by (metis prod.collapse)

lemma retry_keeps_pure:
  assumes "keeps_wallet {} body" and "store_ok U st" and "rivals_ok U env"
  shows "store_ok U (snd (billing_retry env i acc body msg st))"
  using billing_retry_ok [OF assms, of i acc msg] by (metis Int_empty_left Un_empty_right prod.collapse)

lemma positive_money_keeps:
  assumes "\<And>n. 0 < n \<Longrightarrow> store_ok V (snd (f n))" and "store_ok V st"
  shows "store_ok V (snd (case positive_money m of Inl e \<Rightarrow> (Inl e, st) | Inr n \<Rightarrow> f n))"
  using assms positive_money_pos by (auto split: sum.splits)

lemma later_simps [simp]:
  "be_uuid (later n env) i k = be_uuid env (i + n) k"
  "be_rival (later n env) i = be_rival env (i + n)"
  "be_clock (later n env) i k = be_clock env (i + n) k"
  by (simp_all add: later_def)

lemma later_ok:
  "env_ok U env \<Longrightarrow> env_ok U (later n env)" "uuids (later n env) \<subseteq> uuids env"
  by (auto simp: env_ok_def rivals_ok_def fresh_ids_def uuids_def)

lemma store_ok_widen: "store_ok U st \<Longrightarrow> store_ok (U \<union> D) st"
  by (rule store_ok_mono) auto

named_theorems call_ok \<open>each operation keeps the store well formed\<close>

lemma create_session_quote_ok [call_ok]:
  "store_ok U st \<Longrightarrow> env_ok U env \<Longrightarrow>
     store_ok (U \<union> uuids env) (snd (create_session_quote env acc world profile rate key st))"
  unfolding create_session_quote_def
  by (intro positive_money_keeps retry_keeps inv_intros store_ok_widen)

lemma reserve_ok [call_ok]:
  "store_ok U st \<Longrightarrow> env_ok U env \<Longrightarrow>
     store_ok (U \<union> uuids env) (snd (reserve env acc amount purpose key quote world st))"
  unfolding reserve_def
  by (intro positive_money_keeps retry_keeps inv_intros store_ok_widen)

lemma reserve_for_wake_ok [call_ok]:
  "store_ok U st \<Longrightarrow> env_ok U env \<Longrightarrow>
     store_ok (U \<union> uuids env) (snd (reserve_for_wake env acc quote key st))"
  by (auto simp: reserve_for_wake_def intro: reserve_ok rival_store_ok env_okD store_ok_widen
      split: option.splits sum.splits)

lemma release_reservation_ok [call_ok]:
  "store_ok U st \<Longrightarrow> env_ok U env \<Longrightarrow>
     store_ok (U \<union> uuids env) (snd (release_reservation env acc k st))"
  unfolding release_reservation_def by (intro retry_keeps inv_intros)

lemma capture_reservation_ok [call_ok]:
  "store_ok U st \<Longrightarrow> env_ok U env \<Longrightarrow>
     store_ok (U \<union> uuids env) (snd (capture_reservation env acc k amount key st))"
  unfolding capture_reservation_def
  by (intro positive_money_keeps retry_keeps inv_intros store_ok_widen)

lemma capture_runtime_usage_ok [call_ok]:
  "store_ok U st \<Longrightarrow> env_ok U env \<Longrightarrow>
     store_ok (U \<union> uuids env) (snd (capture_runtime_usage env acc quote k t1 t2 key st))"
  by (auto simp: capture_runtime_usage_def Let_def intro: retry_keeps inv_intros store_ok_widen)

lemma charge_monthly_storage_ok [call_ok]:
  "store_ok U st \<Longrightarrow> env_ok U env \<Longrightarrow>
     store_ok (U \<union> uuids env) (snd (charge_monthly_storage env acc bytes rate month key st))"
  by (auto simp: charge_monthly_storage_def not_le intro: retry_keeps inv_intros store_ok_widen
      split: sum.splits)

lemma credit_wallet_ok [call_ok]:
  "store_ok U st \<Longrightarrow> env_ok U env \<Longrightarrow>
     store_ok (U \<union> uuids env) (snd (credit_wallet env acc amount reference key st))"
  unfolding credit_wallet_def
  by (intro positive_money_keeps retry_keeps inv_intros store_ok_widen)

lemma apply_support_credit_ok [call_ok]:
  "store_ok U st \<Longrightarrow> env_ok U env \<Longrightarrow>
     store_ok (U \<union> uuids env) (snd (apply_support_credit env acc amount reference actor reason key st))"
  by (auto simp: apply_support_credit_def intro: retry_keeps inv_intros store_ok_widen
      dest: positive_money_pos split: sum.splits)

lemma apply_wake_guarantee_ok [call_ok]:
  "store_ok U st \<Longrightarrow> env_ok U env \<Longrightarrow>
     store_ok (U \<union> uuids env) (snd (apply_wake_guarantee env acc usage online key st))"
  by (auto simp: apply_wake_guarantee_def intro: retry_keeps inv_intros store_ok_widen)

lemma apply_availability_credit_ok [call_ok]:
  "store_ok U st \<Longrightarrow> env_ok U env \<Longrightarrow>
     store_ok (U \<union> uuids env) (snd (apply_availability_credit env acc usage t1 t2 key st))"
  by (auto simp: apply_availability_credit_def intro: retry_keeps inv_intros store_ok_widen)

lemma set_world_budget_ok [call_ok]:
  "store_ok U st \<Longrightarrow> env_ok U env \<Longrightarrow>
     store_ok (U \<union> uuids env) (snd (set_world_budget env acc world limit key st))"
  unfolding set_world_budget_def
  by (intro positive_money_keeps retry_keeps inv_intros store_ok_widen)

lemma protect_active_session_ok [call_ok]:
  "store_ok U st \<Longrightarrow> env_ok U env \<Longrightarrow>
     store_ok (U \<union> uuids env) (snd (protect_active_session env acc quote k t1 t2 safe interval st))"
  by (auto simp: protect_active_session_def Let_def intro: retry_keeps inv_intros store_ok_widen)

lemma process_payment_event_ok [call_ok]:
  "store_ok U st \<Longrightarrow> env_ok U env \<Longrightarrow>
     store_ok (U \<union> uuids env) (snd (process_payment_event env payload st))"
  by (auto simp: process_payment_event_def intro: retry_keeps inv_intros rival_store_ok env_okD
      store_ok_widen split: sum.splits json.splits option.splits)

lemma create_contribution_ok [call_ok]:
  assumes st: "store_ok U st" and env: "env_ok U env"
  shows "store_ok (U \<union> uuids env) (snd (create_contribution env provider packages acc payer package
    return_url completion key name email st))"
proof -
  let ?V = "U \<union> uuids env"
  have rivals: "rivals_ok ?V env" using env_okD [OF env] by (rule rivals_ok_mono) simp
  have first: "store_ok ?V st1"
    if "billing_retry env 0 acc (start_contribution_attempt c) msg st = (r, st1)"
      "0 < wc_amount c" "wc_id c = be_uuid env 0 9" for c msg r st1
  proof -
    have "store_ok ?V (snd (billing_retry env 0 acc (start_contribution_attempt c) msg st))"
      using that st env by (intro retry_keeps inv_intros)
    with that show ?thesis by simp
  qed
  have second: "store_ok ?V (snd (billing_retry env 100 acc
      (attach_checkout_attempt (with_checkout c x)) msg (be_rival env 200 st1)))"
    if "0 < wc_amount c" "store_ok ?V st1" for c x msg st1
    using that rivals
    by (intro retry_keeps_pure rival_store_ok inv_intros) (simp_all add: with_checkout_def)
  show ?thesis
    unfolding create_contribution_def Let_def
    by (auto split: option.splits sum.splits prod.splits dest!: positive_money_pos
        intro!: second store_ok_widen [OF st] rival_store_ok [OF rivals] intro: first)
qed

lemma request_contribution_refund_ok [call_ok]:
  assumes st: "store_ok U st" and env: "env_ok U env"
  shows "store_ok (U \<union> uuids env) (snd (request_contribution_refund env provider acc k payer reason st))"
proof -
  have "store_ok U (snd (billing_retry env 0 acc (request_refund_attempt k r) msg (be_rival env 200 st)))"
    for r msg
    using st env_okD [OF env] by (intro retry_keeps_pure rival_store_ok inv_intros)
  then show ?thesis
    unfolding request_contribution_refund_def Let_def
    using st rival_store_ok [OF env_okD [OF env] st]
    by (auto split: option.splits sum.splits intro: store_ok_widen)
qed

lemma settle_reconciled_ok:
  assumes st: "store_ok U st" and env: "env_ok U env"
  shows "store_ok (U \<union> uuids env) (snd (settle_reconciled env acc k checkout c st))"
proof -
  have "store_ok (U \<union> uuids env) (snd (process_payment_event (later 300 env) payload st))" for payload
    by (rule store_ok_mono [OF process_payment_event_ok [OF st later_ok(1) [OF env]]])
      (use later_ok(2) [of 300 env] in auto)
  then have "process_payment_event (later 300 env) payload st = (r, st1) \<Longrightarrow>
      store_ok (U \<union> uuids env) st1" for payload r st1 by (metis snd_conv)
  then show ?thesis
    by (auto simp: settle_reconciled_def intro: store_ok_widen [OF st]
        split: option.splits prod.splits sum.splits)
qed

lemma reconcile_contribution_ok [call_ok]:
  assumes st: "store_ok U st" and env: "env_ok U env"
  shows "store_ok (U \<union> uuids env) (snd (reconcile_contribution env provider acc k st))"
proof -
  have st1: "store_ok U (be_rival env 200 st)" by (rule rival_store_ok [OF env_okD [OF env] st])
  have first: "store_ok U st2"
    if "billing_retry env 0 acc (reconcile_attempt (with_checkout c x)) msg (be_rival env 200 st)
         = (r, st2)" "find_contribution (repo_get st acc) k = Some c" for c x msg r st2
  proof -
    have "0 < wc_amount c" using that(2) contribution_amount_pos store_ok_get(1) [OF st] by blast
    then have "store_ok U (snd (billing_retry env 0 acc (reconcile_attempt (with_checkout c x)) msg
        (be_rival env 200 st)))"
      using st1 env_okD [OF env]
      by (intro retry_keeps_pure inv_intros) (simp_all add: with_checkout_def)
    with that show ?thesis by simp
  qed
  show ?thesis
    unfolding reconcile_contribution_def Let_def
    by (auto split: option.splits sum.splits prod.splits
        intro!: settle_reconciled_ok env intro: store_ok_widen st st1 first)
qed

section \<open>Runs of the system\<close>

datatype billing_call =
    Create_contribution "payment_provider option" "(string, contribution_package) dict"
      string string string string string string "string option" "string option"
  | Request_contribution_refund "payment_provider option" string string string string
  | Reconcile_contribution "payment_provider option" string string
  | Process_payment_event "(string, json) dict"
  | Create_session_quote string string string decimal string
  | Reserve_for_wake string string string
  | Set_world_budget string string decimal string
  | Credit_wallet string decimal string string
  | Charge_monthly_storage string int decimal string string
  | Reserve string decimal string string "string option" "string option"
  | Protect_active_session string string string instant instant int int
  | Release_reservation string string
  | Apply_wake_guarantee string string bool string
  | Apply_availability_credit string string instant instant string
  | Apply_support_credit string decimal string string string string
  | Capture_reservation string string decimal string
  | Capture_runtime_usage string string string instant instant string

fun run_call :: "billing_env \<Rightarrow> billing_call \<Rightarrow> billing_store \<Rightarrow> billing_store" where
  "run_call env (Create_contribution pp packages acc payer package r c key name email) st =
     snd (create_contribution env pp packages acc payer package r c key name email st)"
| "run_call env (Request_contribution_refund pp acc k payer reason) st =
     snd (request_contribution_refund env pp acc k payer reason st)"
| "run_call env (Reconcile_contribution pp acc k) st = snd (reconcile_contribution env pp acc k st)"
| "run_call env (Process_payment_event payload) st = snd (process_payment_event env payload st)"
| "run_call env (Create_session_quote acc world profile rate key) st =
     snd (create_session_quote env acc world profile rate key st)"
| "run_call env (Reserve_for_wake acc quote key) st = snd (reserve_for_wake env acc quote key st)"
| "run_call env (Set_world_budget acc world limit key) st =
     snd (set_world_budget env acc world limit key st)"
| "run_call env (Credit_wallet acc amount reference key) st =
     snd (credit_wallet env acc amount reference key st)"
| "run_call env (Charge_monthly_storage acc bytes rate month key) st =
     snd (charge_monthly_storage env acc bytes rate month key st)"
| "run_call env (Reserve acc amount purpose key quote world) st =
     snd (reserve env acc amount purpose key quote world st)"
| "run_call env (Protect_active_session acc quote k t1 t2 safe interval) st =
     snd (protect_active_session env acc quote k t1 t2 safe interval st)"
| "run_call env (Release_reservation acc k) st = snd (release_reservation env acc k st)"
| "run_call env (Apply_wake_guarantee acc usage online key) st =
     snd (apply_wake_guarantee env acc usage online key st)"
| "run_call env (Apply_availability_credit acc usage t1 t2 key) st =
     snd (apply_availability_credit env acc usage t1 t2 key st)"
| "run_call env (Apply_support_credit acc amount reference actor reason key) st =
     snd (apply_support_credit env acc amount reference actor reason key st)"
| "run_call env (Capture_reservation acc k amount key) st =
     snd (capture_reservation env acc k amount key st)"
| "run_call env (Capture_runtime_usage acc quote k t1 t2 key) st =
     snd (capture_runtime_usage env acc quote k t1 t2 key st)"

inductive billing_reach :: "string set \<Rightarrow> billing_store \<Rightarrow> bool" where
  reach_empty: "billing_reach {} []"
| reach_call: "billing_reach U st \<Longrightarrow> env_ok U env \<Longrightarrow>
     billing_reach (U \<union> uuids env) (run_call env call st)"
| reach_elsewhere: "billing_reach U st \<Longrightarrow> U \<subseteq> V \<Longrightarrow> billing_reach V st"

lemma run_call_ok:
  "store_ok U st \<Longrightarrow> env_ok U env \<Longrightarrow> store_ok (U \<union> uuids env) (run_call env call st)"
  by (cases call) (simp_all add: call_ok)

lemma reach_store_ok: "billing_reach U st \<Longrightarrow> store_ok U st"
  by (induction rule: billing_reach.induct) (auto intro: store_ok_empty run_call_ok store_ok_mono)

end
