(* ===== verification/BillingHistory.thy ===== *)
theory BillingHistory
  imports BillingSystem
begin

text \<open>
  How one Wallet may change over time, whatever operation runs: the ledger, the usages, the
  quotes and the processed payment events only grow; a reservation keeps its identity, and one
  that is no longer active never changes again; a contribution keeps its payer and its amount.
  \<open>evolves old new\<close> states all of it; each loop body respects it, hence every operation does.
\<close>

definition reservation_evolves :: "usage_reservation \<Rightarrow> usage_reservation \<Rightarrow> bool" where
  "reservation_evolves r r' \<longleftrightarrow>
     ur_id r' = ur_id r \<and> ur_idempotency_key r' = ur_idempotency_key r
     \<and> ur_purpose r' = ur_purpose r \<and> ur_world_id r' = ur_world_id r
     \<and> ur_quote_id r' = ur_quote_id r \<and> (ur_status r \<noteq> ACTIVE \<longrightarrow> r' = r)"

definition contribution_evolves :: "wallet_contribution \<Rightarrow> wallet_contribution \<Rightarrow> bool" where
  "contribution_evolves c c' \<longleftrightarrow>
     wc_id c' = wc_id c \<and> wc_amount c' = wc_amount c \<and> wc_payer_user_id c' = wc_payer_user_id c
     \<and> wc_idempotency_key c' = wc_idempotency_key c"

text \<open>Each member evolves in place, and new members come after.\<close>

definition members_evolve :: "('a \<Rightarrow> 'a \<Rightarrow> bool) \<Rightarrow> 'a list \<Rightarrow> 'a list \<Rightarrow> bool" where
  "members_evolve R xs ys \<longleftrightarrow> (\<exists>zs. list_all2 R xs zs \<and> extends ys zs)"

text \<open>
  Every recorded usage has its charge in the ledger and the captured reservation that paid for
  it, no reservation and no command key is charged twice, and every wake guarantee gives back
  exactly what a recorded usage was charged.
\<close>

definition accounts :: "ledger_entry list \<Rightarrow> usage_reservation list \<Rightarrow> runtime_usage list \<Rightarrow> bool" where
  "accounts es rs us \<longleftrightarrow>
     (\<forall>u \<in> set us.
        (\<exists>e \<in> set es. le_id e = ru_ledger_entry_id u \<and> le_entry_type e = RUNTIME_CHARGE
           \<and> le_amount e = - ru_amount u)
        \<and> (\<exists>r \<in> set rs. ur_id r = ru_reservation_id u \<and> ur_status r = CAPTURED
           \<and> ru_amount u \<le> ur_amount r))
     \<and> distinct (map ru_reservation_id us) \<and> distinct (map ru_idempotency_key us)
     \<and> (\<forall>e \<in> set (wake_guarantees es). \<exists>u \<in> set us. ru_id u = le_reference e \<and> ru_amount u = le_amount e)"

definition accounted :: "wallet_snapshot \<Rightarrow> bool" where
  "accounted w \<longleftrightarrow> accounts (ws_entries w) (ws_reservations w) (ws_usages w)"

lemma accounts_entry:
  assumes "accounts es rs us" and "le_entry_type e \<noteq> WAKE_GUARANTEE"
  shows "accounts (es @ [e]) rs us"
  using assms by (fastforce simp: accounts_def)

lemma accounts_guarantee:
  assumes "accounts es rs us" and "u \<in> set us" "le_reference e = ru_id u" "le_amount e = ru_amount u"
  shows "accounts (es @ [e]) rs us"
  using assms unfolding accounts_def by (auto; fastforce)

lemma accounts_reservation: "accounts es rs us \<Longrightarrow> accounts es (rs @ [r]) us"
  by (fastforce simp: accounts_def)

lemma reservation_by_id:
  assumes "distinct (map ur_id rs)" and "find (\<lambda>r. ur_id r = k) rs = Some r"
    and "x \<in> set rs" "ur_id x = k"
  shows "x = r"
  using assms find_Some_iff_mem [OF assms(2)] by (auto simp: distinct_map inj_on_def)

text \<open>Only an active reservation changes; the captured ones stay.\<close>

lemma accounts_put:
  assumes ok: "accounts es rs us" and d: "distinct (map ur_id rs)"
    and r: "find (\<lambda>r. ur_id r = k) rs = Some r" "ur_status r = ACTIVE"
  shows "accounts es (replace_where (\<lambda>x. ur_id x = k) r' rs) us"
proof -
  have keep: "x \<in> set (replace_where (\<lambda>x. ur_id x = k) r' rs)"
    if "x \<in> set rs" "ur_status x = CAPTURED" for x
  proof -
    have "ur_id x \<noteq> k" using reservation_by_id [OF d r(1) that(1)] that(2) r(2) by auto
    with that show ?thesis by (force simp: replace_where_def)
  qed
  show ?thesis using ok keep unfolding accounts_def by blast
qed

text \<open>Recording a usage with its charge, on a reservation that was active.\<close>

lemma accounts_usage:
  assumes ok: "accounts es rs us" and d: "distinct (map ur_id rs)"
    and r: "find (\<lambda>r. ur_id r = ru_reservation_id u) rs = Some r" "ur_status r = ACTIVE"
    and r': "ur_id r' = ru_reservation_id u" "ur_status r' = CAPTURED" "ru_amount u \<le> ur_amount r'"
    and e: "le_id e = ru_ledger_entry_id u" "le_entry_type e = RUNTIME_CHARGE" "le_amount e = - ru_amount u"
    and key: "\<forall>x \<in> set us. ru_idempotency_key x \<noteq> ru_idempotency_key u"
  shows "accounts (es @ [e]) (replace_where (\<lambda>x. ur_id x = ru_reservation_id u) r' rs) (us @ [u])"
proof -
  have "accounts es (replace_where (\<lambda>x. ur_id x = ru_reservation_id u) r' rs) us" (is "accounts es ?rs us")
    by (rule accounts_put [OF ok d r])
  then have old: "accounts (es @ [e]) ?rs us" by (rule accounts_entry) (simp add: e)
  have "r' \<in> set ?rs" using find_Some_iff_mem [OF r(1)] by (force simp: replace_where_def)
  moreover have "ru_reservation_id u \<notin> ru_reservation_id ` set us"
  proof
    assume "ru_reservation_id u \<in> ru_reservation_id ` set us"
    with ok obtain y where "y \<in> set rs" "ur_id y = ru_reservation_id u" "ur_status y = CAPTURED"
      unfolding accounts_def by force
    with reservation_by_id [OF d r(1)] r(2) show False by fastforce
  qed
  ultimately have "distinct (map ru_reservation_id (us @ [u]))"
    "\<exists>r \<in> set ?rs. ur_id r = ru_reservation_id u \<and> ur_status r = CAPTURED \<and> ru_amount u \<le> ur_amount r"
    using old r' by (simp add: accounts_def, blast)
  moreover have "\<exists>x \<in> set (es @ [e]). le_id x = ru_ledger_entry_id u \<and> le_entry_type x = RUNTIME_CHARGE
      \<and> le_amount x = - ru_amount u"
    using e by simp
  moreover have "distinct (map ru_idempotency_key (us @ [u]))" using old key by (auto simp: accounts_def)
  moreover have "\<forall>x \<in> set (wake_guarantees (es @ [e])). \<exists>y \<in> set (us @ [u]).
      ru_id y = le_reference x \<and> ru_amount y = le_amount x"
    using old unfolding accounts_def by fastforce
  moreover have "\<forall>x \<in> set us. P x \<Longrightarrow> P u \<Longrightarrow> \<forall>x \<in> set (us @ [u]). P x" for P by simp
  ultimately show ?thesis using old unfolding accounts_def by (intro conjI) blast+
qed

text \<open>What an update of the Wallet's other lists leaves alone.\<close>

lemma accounted_updates [simp]:
  "accounted (w\<lparr>ws_version := v\<rparr>) = accounted w"
  "accounted (w\<lparr>ws_quotes := qs\<rparr>) = accounted w"
  "accounted (w\<lparr>ws_contributions := cs\<rparr>) = accounted w"
  "accounted (w\<lparr>ws_payment_events := ps\<rparr>) = accounted w"
  "accounted (w\<lparr>ws_balance_guards := gs\<rparr>) = accounted w"
  "accounted (w\<lparr>ws_world_budgets := bs\<rparr>) = accounted w"
  "accounted (w\<lparr>ws_world_budget_alerts := as\<rparr>) = accounted w"
  by (simp_all add: accounted_def)

lemma accounted_reservation [simp]:
  "accounted w \<Longrightarrow> accounted (w\<lparr>ws_reservations := ws_reservations w @ [r]\<rparr>)"
  by (simp add: accounted_def accounts_reservation)

lemma accounted_add_entry:
  "accounted w \<Longrightarrow> le_entry_type e \<noteq> WAKE_GUARANTEE \<Longrightarrow> accounted (add_entry e w)"
  by (simp add: accounted_def add_entry_def accounts_entry)

lemma accounted_put_reservation:
  assumes "accounted w" and "wallet_ok w" and "find_reservation w k = Some r" "ur_status r = ACTIVE"
  shows "accounted (put_reservation r' k w)"
  using assms accounts_put
  by (simp add: accounted_def put_reservation_def find_reservation_def wallet_ok_def ids_ok_def)

lemma accounted_put_entry:
  assumes "accounted w" and "wallet_ok w" and "find_reservation w k = Some r" "ur_status r = ACTIVE"
    and "le_entry_type e \<noteq> WAKE_GUARANTEE"
  shows "accounted (put_reservation r' k (add_entry e w))"
  using assms accounts_put accounts_entry
  by (simp add: accounted_def put_reservation_def add_entry_def find_reservation_def wallet_ok_def ids_ok_def)

definition evolves :: "wallet_snapshot \<Rightarrow> wallet_snapshot \<Rightarrow> bool" where
  "evolves w w' \<longleftrightarrow>
     extends (ws_entries w') (ws_entries w) \<and> extends (ws_usages w') (ws_usages w)
     \<and> extends (ws_quotes w') (ws_quotes w)
     \<and> extends (ws_payment_events w') (ws_payment_events w)
     \<and> members_evolve reservation_evolves (ws_reservations w) (ws_reservations w')
     \<and> (accounted w \<longrightarrow> accounted w')"

section \<open>Order properties\<close>

lemma members_evolve_refl: "(\<And>x. R x x) \<Longrightarrow> members_evolve R xs xs"
  by (auto simp: members_evolve_def intro: list_all2_refl)

lemma members_evolve_append: "(\<And>x. R x x) \<Longrightarrow> members_evolve R xs (xs @ ys)"
  unfolding members_evolve_def using list_all2_refl [of R xs] by blast

lemma members_evolve_replace:
  assumes "\<And>x. R x x" and "distinct (map f xs)" and "find (\<lambda>x. f x = k) xs = Some x" and "R x y"
  shows "members_evolve R xs (replace_where (\<lambda>x. f x = k) y xs)"
proof -
  have "list_all2 R xs (replace_where (\<lambda>x. f x = k) y xs)"
    using assms(2,3)
  proof (induction xs)
    case (Cons z zs)
    show ?case
    proof (cases "f z = k")
      case True
      with Cons.prems have "\<forall>v \<in> set zs. f v \<noteq> k" by (force simp: image_iff)
      then have "replace_where (\<lambda>x. f x = k) y zs = zs" by (rule replace_where_none)
      with True Cons.prems assms(1,4) show ?thesis by (simp add: list_all2_refl)
    next
      case False
      with Cons assms(1) show ?thesis by simp
    qed
  qed simp
  then show ?thesis by (auto simp: members_evolve_def)
qed

lemma members_evolve_trans:
  assumes "\<And>x y z. R x y \<Longrightarrow> R y z \<Longrightarrow> R x z"
    and "members_evolve R xs ys" and "members_evolve R ys zs"
  shows "members_evolve R xs zs"
proof -
  obtain us ts where us: "list_all2 R xs us" "ys = us @ ts"
    using assms(2) by (auto simp: members_evolve_def extends_def)
  obtain vs rs where vs: "list_all2 R ys vs" "zs = vs @ rs"
    using assms(3) by (auto simp: members_evolve_def extends_def)
  obtain vs1 vs2 where v: "vs = vs1 @ vs2" "list_all2 R us vs1"
    using vs(1) us(2) by (auto simp: list_all2_append1)
  have "list_all2 R xs vs1" 
    by (rule list_all2_trans [OF _ us(1) v(2)]) (erule (1) assms(1))
  with v vs show ?thesis by (auto simp: members_evolve_def extends_def)
qed

lemma reservation_evolves_refl [simp]: "reservation_evolves r r"
  by (simp add: reservation_evolves_def)

lemma reservation_evolves_trans:
  "reservation_evolves a b \<Longrightarrow> reservation_evolves b c \<Longrightarrow> reservation_evolves a c"
  by (auto simp: reservation_evolves_def)

lemma evolves_refl [simp]: "evolves w w"
  by (simp add: evolves_def members_evolve_refl)

lemma evolves_trans:
  assumes "evolves a b" and "evolves b c" shows "evolves a c"
proof -
  have "members_evolve reservation_evolves (ws_reservations a) (ws_reservations c)"
    by (rule members_evolve_trans [OF reservation_evolves_trans, where ys = "ws_reservations b"])
      (use assms in \<open>simp_all add: evolves_def\<close>)
  with assms show ?thesis by (auto simp: evolves_def intro: extends_trans)
qed

lemma evolves_version [simp]: "evolves w (w'\<lparr>ws_version := v\<rparr>) = evolves w w'"
  by (simp add: evolves_def)

section \<open>Every body respects the history\<close>

definition respects_history ::
    "(nat \<Rightarrow> wallet_snapshot \<Rightarrow> (wallet_snapshot, 'a) attempt) \<Rightarrow> bool" where
  "respects_history body \<longleftrightarrow>
     (\<forall>i w w' a. body i w = Commit w' a \<longrightarrow> wallet_ok w \<longrightarrow> evolves w w')"

lemma respectsI:
  "(\<And>i w w' a. body i w = Commit w' a \<Longrightarrow> wallet_ok w \<Longrightarrow> evolves w w') \<Longrightarrow> respects_history body"
  by (auto simp: respects_history_def)

lemma evolves_put_reservation:
  assumes "wallet_ok w" and "find_reservation w k = Some r" and "ur_status r = ACTIVE"
    and "ur_id r' = ur_id r" "ur_idempotency_key r' = ur_idempotency_key r"
      "ur_purpose r' = ur_purpose r" "ur_world_id r' = ur_world_id r" "ur_quote_id r' = ur_quote_id r"
  shows "members_evolve reservation_evolves (ws_reservations w)
    (replace_where (\<lambda>x. ur_id x = k) r' (ws_reservations w))"
  using assms
  by (intro members_evolve_replace [where x = r])
    (auto simp: wallet_ok_def ids_ok_def find_reservation_def reservation_evolves_def)

lemma evolves_put:
  assumes "wallet_ok w" and "find_reservation w k = Some r" and "ur_status r = ACTIVE"
    and "ur_id r' = ur_id r" "ur_idempotency_key r' = ur_idempotency_key r"
      "ur_purpose r' = ur_purpose r" "ur_world_id r' = ur_world_id r" "ur_quote_id r' = ur_quote_id r"
  shows "evolves w (put_reservation r' k w)"
  using evolves_put_reservation [OF assms] accounted_put_reservation [OF _ assms(1-3)]
  by (auto simp: evolves_def put_reservation_def)

lemma evolves_put_entry:
  assumes "wallet_ok w" and "find_reservation w k = Some r" and "ur_status r = ACTIVE"
    and "ur_id r' = ur_id r" "ur_idempotency_key r' = ur_idempotency_key r"
      "ur_purpose r' = ur_purpose r" "ur_world_id r' = ur_world_id r" "ur_quote_id r' = ur_quote_id r"
    and "le_entry_type e \<noteq> WAKE_GUARANTEE"
  shows "evolves w (put_reservation r' k (add_entry e w))"
  using evolves_put_reservation [OF assms(1-8)] accounted_put_entry [OF _ assms(1-3,9)]
  by (auto simp: evolves_def put_reservation_def add_entry_def)

lemma runtime_key_new:
  "capture_runtime_usage_attempt env acc qid k t1 t2 secs key i w = Commit w' u \<Longrightarrow>
     \<forall>x \<in> set (ws_usages w). ru_idempotency_key x \<noteq> key"
  by (auto simp: capture_runtime_usage_attempt_def find_None_iff split: option.splits)

named_theorems history_intros

lemma evolves_others [simp]:
  "evolves w (w'\<lparr>ws_balance_guards := gs\<rparr>) = evolves w w'"
  "evolves w (w'\<lparr>ws_world_budgets := bs\<rparr>) = evolves w w'"
  "evolves w (w'\<lparr>ws_world_budget_alerts := as\<rparr>) = evolves w w'"
  "evolves w (w'\<lparr>ws_contributions := cs\<rparr>) = evolves w w'"
  by (simp_all add: evolves_def)

lemma history_quote [history_intros]:
  "respects_history (create_session_quote_attempt env acc world profile rate key)"
  by (rule respectsI) (auto simp: create_session_quote_attempt_def Let_def evolves_def
      members_evolve_refl split: body_splits)

lemma history_reserve [history_intros]:
  "respects_history (reserve_attempt env acc n purpose key quote world)"
  by (rule respectsI) (auto simp: reserve_attempt_def Let_def evolves_def
      members_evolve_append split: body_splits)

lemma history_release [history_intros]: "respects_history (release_reservation_attempt k)"
proof (rule respectsI)
  fix i w w' a assume "release_reservation_attempt k i w = Commit w' a" "wallet_ok w"
  then show "evolves w w'"
    by (elim release_commitE) (auto intro!: evolves_put)
qed

lemma history_capture [history_intros]:
  "respects_history (capture_reservation_attempt env acc k n key)"
proof (rule respectsI)
  fix i w w' a assume "capture_reservation_attempt env acc k n key i w = Commit w' a" "wallet_ok w"
  then show "evolves w w'"
    by (elim capture_commitE) (auto simp: new_entry_def intro!: evolves_put_entry)
qed

lemma history_runtime [history_intros]:
  "respects_history (capture_runtime_usage_attempt env acc qid k t1 t2 secs key)"
proof (rule respectsI)
  fix i w w' a
  assume run: "capture_runtime_usage_attempt env acc qid k t1 t2 secs key i w = Commit w' a"
    and ok: "wallet_ok w"
  from run obtain q r where r: "find_reservation w k = Some r" "ur_status r = ACTIVE" "ru_amount a \<le> ur_amount r"
    and a: "ru_reservation_id a = k" "ru_idempotency_key a = key" "ru_ledger_entry_id a = be_uuid env i 0"
    and w': "w' = (put_reservation (r\<lparr>ur_status := CAPTURED\<rparr>) k
        (add_entry (runtime_charge env i acc q (ru_amount a) key) w)) \<lparr>ws_usages := ws_usages w @ [a]\<rparr>"
    by (elim runtime_commitE) auto
  let ?e = "runtime_charge env i acc q (ru_amount a) key"
  have "accounts (ws_entries w @ [?e])
      (replace_where (\<lambda>x. ur_id x = ru_reservation_id a) (r\<lparr>ur_status := CAPTURED\<rparr>) (ws_reservations w))
      (ws_usages w @ [a])" if "accounted w"
  proof (rule accounts_usage [OF that [unfolded accounted_def]])
    show "distinct (map ur_id (ws_reservations w))" using ok by (simp add: wallet_ok_def ids_ok_def)
    show "find (\<lambda>r. ur_id r = ru_reservation_id a) (ws_reservations w) = Some r"
      using r(1) a by (simp add: find_reservation_def)
    show "\<forall>x \<in> set (ws_usages w). ru_idempotency_key x \<noteq> ru_idempotency_key a"
      using runtime_key_new [OF run] a by simp
  qed (use r a find_reservation_Some [OF r(1)] in simp_all)
  with a have "accounted w'" if "accounted w"
    using that by (simp add: w' accounted_def put_reservation_def add_entry_def)
  moreover have "members_evolve reservation_evolves (ws_reservations w) (ws_reservations w')"
    using evolves_put_reservation [OF ok r(1,2), of "r\<lparr>ur_status := CAPTURED\<rparr>"]
    by (simp add: w' put_reservation_def add_entry_def)
  ultimately show "evolves w w'" by (simp add: evolves_def w' put_reservation_def add_entry_def)
qed

lemma history_protect [history_intros]:
  "respects_history (protect_active_session_attempt qid k secs t safe interval)"
proof (rule respectsI)
  fix i w w' a
  assume "protect_active_session_attempt qid k secs t safe interval i w = Commit w' a" "wallet_ok w"
  then show "evolves w w'"
    by (elim protect_commitE) (auto intro!: evolves_put)
qed

lemma evolves_add_entry [simp]: "le_entry_type e \<noteq> WAKE_GUARANTEE \<Longrightarrow> evolves w (add_entry e w)"
  by (simp add: evolves_def accounted_add_entry) (simp add: add_entry_def members_evolve_refl)

lemma history_storage [history_intros]:
  "respects_history (charge_monthly_storage_attempt env acc n month key)"
  by (rule respectsI)
    (auto simp: charge_monthly_storage_attempt_def new_entry_def Let_def split: body_splits)

lemma history_credit [history_intros]:
  "respects_history (credit_wallet_attempt env acc n reference key)"
  by (rule respectsI) (auto simp: credit_wallet_attempt_def new_entry_def Let_def split: body_splits)

lemma history_support [history_intros]:
  "respects_history (apply_support_credit_attempt env acc n reference actor reason key)"
  by (rule respectsI) (auto simp: apply_support_credit_attempt_def new_entry_def Let_def split: body_splits)

lemma history_wake [history_intros]:
  "respects_history (apply_wake_guarantee_attempt env acc usage key)"
proof (rule respectsI)
  fix i w w' a assume "apply_wake_guarantee_attempt env acc usage key i w = Commit w' a"
  then obtain u where u: "find_usage w usage = Some u"
    and w': "w' = add_entry (new_entry (be_uuid env i 0) acc WAKE_GUARANTEE (ru_amount u) (ru_id u) key
        (be_clock env i 0)) w"
    by (auto simp: apply_wake_guarantee_attempt_def Let_def split: option.splits)
  have "u \<in> set (ws_usages w)" using find_usage_Some [OF u] by simp
  then have "accounted w'" if "accounted w"
    using that accounts_guarantee by (simp add: w' accounted_def add_entry_def new_entry_def)
  then show "evolves w w'" by (simp add: evolves_def w' add_entry_def members_evolve_refl)
qed

lemma history_availability [history_intros]:
  "respects_history (apply_availability_credit_attempt env acc usage t1 t2 reference key)"
  by (rule respectsI) (auto simp: apply_availability_credit_attempt_def new_entry_def Let_def split: body_splits)

lemma history_budget [history_intros]:
  "respects_history (set_world_budget_attempt env acc world limit key)"
  by (rule respectsI) (auto simp: set_world_budget_attempt_def Let_def evolves_def
      members_evolve_refl split: body_splits)

lemma history_start [history_intros]: "respects_history (start_contribution_attempt c)"
  by (rule respectsI) (auto simp: start_contribution_attempt_def evolves_def
      members_evolve_refl split: body_splits)

lemma evolves_put_contribution [simp]: "evolves w (put_contribution c k w)"
  by (simp add: evolves_def put_contribution_def members_evolve_refl)

lemma history_attach [history_intros]: "respects_history (attach_checkout_attempt c)"
  by (rule respectsI) (auto simp: attach_checkout_attempt_def split: body_splits)

lemma history_reconcile [history_intros]: "respects_history (reconcile_attempt c)"
  by (rule respectsI) (auto simp: reconcile_attempt_def split: body_splits)

lemma history_refund [history_intros]: "respects_history (request_refund_attempt k refund)"
  by (rule respectsI) (auto simp: request_refund_attempt_def Let_def split: body_splits)

lemma history_payment [history_intros]:
  "respects_history (process_payment_event_attempt env event kind k checkout data)"
proof (rule respectsI)
  fix i w w' p
  assume "process_payment_event_attempt env event kind k checkout data i w = Commit w' p"
  then obtain c c' entries where r: "(if kind = ''checkout.completed''
      then complete_contribution env i c checkout data event (ws_entries w)
      else if kind \<in> {''checkout.refunded'', ''checkout.disputed''}
      then Inr (reverse_contribution env i c kind event (ws_entries w) (available_balance w))
      else Inr (c, ws_entries w)) = Inr (c', entries)"
    and w': "w' = (put_contribution c' k w) \<lparr> ws_entries := entries,
            ws_payment_events := ws_payment_events w @ [p] \<rparr>"
    by (rule payment_commitE)
  have "extends entries (ws_entries w) \<and> (accounted w \<longrightarrow> accounts entries (ws_reservations w) (ws_usages w))"
  proof (cases "kind = ''checkout.completed''")
    case True
    with r have "complete_contribution env i c checkout data event (ws_entries w) = Inr (c', entries)"
      by simp
    then show ?thesis
      by (elim complete_contribution_cases) (auto simp: accounted_def accounts_entry)
  next
    case False
    show ?thesis
    proof (cases "kind \<in> {''checkout.refunded'', ''checkout.disputed''}")
      case True
      with False r have "reverse_contribution env i c kind event (ws_entries w) (available_balance w)
          = (c', entries)" by auto
      then show ?thesis
        by (elim reverse_contribution_cases) (auto simp: accounted_def accounts_entry)
    qed (use False r in \<open>auto simp: accounted_def\<close>)
  qed
  then show "evolves w w'"
    by (auto simp: w' evolves_def accounted_def put_contribution_def members_evolve_refl)
qed


section \<open>Every operation respects the history\<close>

text \<open>The other clients respect it too.\<close>

definition rivals_evolve :: "billing_env \<Rightarrow> bool" where
  "rivals_evolve env \<longleftrightarrow> (\<forall>i st a. evolves (repo_get st a) (repo_get (be_rival env i st) a))"

definition store_evolves :: "billing_store \<Rightarrow> billing_store \<Rightarrow> bool" where
  "store_evolves st st' \<longleftrightarrow> (\<forall>a. evolves (repo_get st a) (repo_get st' a))"

lemma store_evolves_refl [simp]: "store_evolves st st"
  by (simp add: store_evolves_def)

lemma store_evolves_trans: "store_evolves a b \<Longrightarrow> store_evolves b c \<Longrightarrow> store_evolves a c"
  using evolves_trans unfolding store_evolves_def by blast

lemma store_evolves_rival: "rivals_evolve env \<Longrightarrow> store_evolves st (be_rival env i st)"
  by (simp add: rivals_evolve_def store_evolves_def)

lemma store_evolves_save:
  assumes "repo_save w' v st = Inr st'" and "evolves (repo_get st (ws_account_id w')) w'"
  shows "store_evolves st st'"
  using assms by (simp add: store_evolves_def repo_get_save)

lemma retry_evolves:
  assumes history: "respects_history body" and keeps: "keeps_wallet D body"
    and st: "store_ok U st" and rivals: "rivals_ok U env" "rivals_evolve env"
  shows "store_evolves st (snd (billing_retry env i acc body msg st))"
proof -
  let ?I = "\<lambda>s. store_ok U s \<and> store_evolves st s"
  have rely: "\<And>i s. ?I s \<Longrightarrow> ?I (be_rival env i s) \<and> wallets.saves s (be_rival env i s)"
    using rivals store_evolves_trans store_evolves_rival by (auto simp: rivals_ok_def)
  have keyed: "\<And>s. ?I s \<Longrightarrow> ws_account_id (repo_get s acc) = acc" using store_ok_get(3) by blast
  have body: "\<And>i w w' a. body i w = Commit w' a \<Longrightarrow> ws_account_id w' = ws_account_id w"
    using keeps by (auto simp: keeps_wallet_def)
  obtain r st' where run: "billing_retry env i acc body msg st = (r, st')" by fastforce
  have start: "?I st" using st by simp
  note outcome = wallets.retry_outcome [where I = ?I, OF rely keyed body
      run [unfolded billing_retry_def] start]
  have "store_evolves st st'"
  proof (rule outcome)
    fix a j w' s1
    assume s1: "?I s1" and c: "body j (repo_get s1 acc) = Commit w' a"
      and save: "repo_save w' (ws_version (repo_get s1 acc)) s1 = Inr st'" and k: "ws_account_id w' = acc"
    have "evolves (repo_get s1 acc) w'"
      using history c s1 store_ok_get(1) unfolding respects_history_def by blast
    then have "store_evolves s1 st'"
      by (intro store_evolves_save [OF save]) (simp only: k)
    with s1 store_evolves_trans show ?thesis by blast
  qed simp_all
  with run show ?thesis by simp
qed

lemma retry_evolves_fresh:
  assumes "respects_history body" and "keeps_wallet (uuids env) body"
    and "store_ok U st" and "env_ok U env" and "rivals_evolve env"
  shows "store_evolves st (snd (billing_retry env i acc body msg st))"
  using retry_evolves [OF assms(1,2,3) env_okD [OF assms(4)] assms(5)] .

lemma positive_money_evolves:
  assumes "\<And>n. 0 < n \<Longrightarrow> store_evolves st (snd (f n))"
  shows "store_evolves st (snd (case positive_money m of Inl e \<Rightarrow> (Inl e, st) | Inr n \<Rightarrow> f n))"
  using assms positive_money_pos by (auto split: sum.splits)

lemma later_evolves: "rivals_evolve env \<Longrightarrow> rivals_evolve (later n env)"
  by (simp add: rivals_evolve_def)

named_theorems call_evolves

lemma reserve_evolves [call_evolves]:
  "store_ok U st \<Longrightarrow> env_ok U env \<Longrightarrow> rivals_evolve env \<Longrightarrow>
     store_evolves st (snd (reserve env acc amount purpose key quote world st))"
  unfolding reserve_def
  by (intro positive_money_evolves retry_evolves_fresh [where U = U] inv_intros history_intros)

lemma process_payment_event_evolves [call_evolves]:
  "store_ok U st \<Longrightarrow> env_ok U env \<Longrightarrow> rivals_evolve env \<Longrightarrow>
     store_evolves st (snd (process_payment_event env payload st))"
  by (auto simp: process_payment_event_def
      intro!: store_evolves_trans [OF store_evolves_rival [of env st 100]]
        retry_evolves_fresh [where U = U] inv_intros history_intros rival_store_ok env_okD
      split: sum.splits json.splits option.splits)

lemma create_contribution_evolves [call_evolves]:
  assumes st: "store_ok U st" and env: "env_ok U env" and rivals: "rivals_evolve env"
  shows "store_evolves st (snd (create_contribution env provider packages acc payer package
    return_url completion key name email st))"
proof -
  let ?V = "U \<union> uuids env"
  have V: "rivals_ok ?V env" using env_okD [OF env] by (rule rivals_ok_mono) simp
  have first: "store_ok ?V st1 \<and> store_evolves st st1"
    if "billing_retry env 0 acc (start_contribution_attempt c) msg st = (r, st1)"
      "0 < wc_amount c" "wc_id c = be_uuid env 0 9" for c msg r st1
  proof -
    have "keeps_wallet (uuids env) (start_contribution_attempt c)" using that by (intro inv_intros)
    with retry_keeps [OF this st env, of 0 acc msg]
      retry_evolves_fresh [OF history_start this st env rivals, of 0 acc msg] that
    show ?thesis by simp
  qed
  have second: "store_evolves st (snd (billing_retry env 100 acc
      (attach_checkout_attempt (with_checkout c x)) msg (be_rival env 200 st1)))"
    if "0 < wc_amount c" "store_ok ?V st1 \<and> store_evolves st st1" for c x msg st1
  proof -
    have k: "keeps_wallet {} (attach_checkout_attempt (with_checkout c x))"
      using that by (intro inv_intros) (simp add: with_checkout_def)
    have "store_evolves (be_rival env 200 st1) (snd (billing_retry env 100 acc
      (attach_checkout_attempt (with_checkout c x)) msg (be_rival env 200 st1)))"
      using rival_store_ok [OF V] that by (intro retry_evolves [OF history_attach k _ V rivals]) blast
    with that store_evolves_rival [OF rivals] store_evolves_trans show ?thesis by blast
  qed
  show ?thesis
    unfolding create_contribution_def Let_def
    by (auto split: option.splits sum.splits prod.splits dest!: positive_money_pos
        intro!: second store_evolves_trans [OF _ store_evolves_rival [OF rivals]]
        intro: first [THEN conjunct1] first [THEN conjunct2])
qed

lemma request_contribution_refund_evolves [call_evolves]:
  assumes st: "store_ok U st" and env: "env_ok U env" and rivals: "rivals_evolve env"
  shows "store_evolves st (snd (request_contribution_refund env provider acc k payer reason st))"
proof -
  note step = store_evolves_rival [OF rivals, of st 200]
  have "store_evolves (be_rival env 200 st) (snd (billing_retry env 0 acc
      (request_refund_attempt k r) msg (be_rival env 200 st)))" for r msg
    by (rule retry_evolves [OF history_refund keeps_refund [where D = "{}"]
          rival_store_ok [OF env_okD [OF env] st] env_okD [OF env] rivals])
  then show ?thesis
    unfolding request_contribution_refund_def Let_def
    using step by (auto split: option.splits sum.splits intro: store_evolves_trans [OF step])
qed

lemma reconcile_contribution_evolves [call_evolves]:
  assumes st: "store_ok U st" and env: "env_ok U env" and rivals: "rivals_evolve env"
  shows "store_evolves st (snd (reconcile_contribution env provider acc k st))"
proof -
  note U = env_okD [OF env]
  have st1: "store_ok U (be_rival env 200 st)" by (rule rival_store_ok [OF U st])
  note step = store_evolves_rival [OF rivals, of st 200]
  have settle: "store_evolves st (snd (settle_reconciled env acc k x c s))"
    if "store_ok U s \<and> store_evolves st s" for x c s
  proof -
    have "store_evolves s (snd (process_payment_event (later 300 env) payload s))" for payload
      using process_payment_event_evolves [OF _ later_ok(1) [OF env] later_evolves [OF rivals]] that
      by blast
    then have "process_payment_event (later 300 env) payload s = (r, s') \<Longrightarrow> store_evolves s s'"
      for payload r s' by (metis snd_conv)
    with that store_evolves_trans show ?thesis
      by (fastforce simp: settle_reconciled_def split: option.splits prod.splits sum.splits)
  qed
  have first: "store_ok U s \<and> store_evolves st s"
    if "billing_retry env 0 acc (reconcile_attempt (with_checkout c x)) msg (be_rival env 200 st)
         = (r, s)" "find_contribution (repo_get st acc) k = Some c" for c x msg r s
  proof -
    have "0 < wc_amount c" using that(2) contribution_amount_pos store_ok_get(1) [OF st] by blast
    then have k: "keeps_wallet {} (reconcile_attempt (with_checkout c x))"
      by (intro inv_intros) (simp add: with_checkout_def)
    have "store_evolves (be_rival env 200 st) s"
      using retry_evolves [OF history_reconcile k st1 U rivals, of 0 acc msg] that by simp
    with step store_evolves_trans have "store_evolves st s" by blast
    with retry_keeps_pure [OF k st1 U, of 0 acc msg] that show ?thesis by simp
  qed
  show ?thesis
    unfolding reconcile_contribution_def Let_def
    by (auto split: option.splits sum.splits prod.splits intro!: settle step
        intro: st1 first [THEN conjunct1] first [THEN conjunct2])
qed

lemma run_call_evolves:
  assumes st: "store_ok U st" and env: "env_ok U env" and rivals: "rivals_evolve env"
  shows "store_evolves st (run_call env call st)"
proof (cases call)
  case (Reserve_for_wake acc quote key)
  then show ?thesis
    using store_evolves_trans [OF store_evolves_rival [OF rivals]
        reserve_evolves [OF rival_store_ok [OF env_okD [OF env] st] env rivals]]
    by (auto simp: reserve_for_wake_def split: option.splits sum.splits)
qed (use assms in \<open>auto simp: call_evolves billing_operations protect_active_session_def Let_def not_le
      intro!: call_evolves positive_money_evolves retry_evolves_fresh [where U = U] inv_intros
        history_intros dest: positive_money_pos split: sum.splits\<close>)

end
