(* ===== verification/BillingProperties.thy ===== *)
theory BillingProperties
  imports BillingHistory
begin

text \<open>
  The properties of the Billing component. They hold for the operations as the code runs
  them: a hundred attempts, other clients acting between the read and the save of each.
  \<open>others env j st\<close> is the store that attempt \<open>j\<close> reads, after the other clients have acted \<open>j\<close> times.
  \<open>quiet_env\<close> is an environment without other clients, for the concrete instances.
\<close>

section \<open>Outcomes of one operation\<close>

lemma billing_outcome:
  assumes keeps: "keeps_wallet D body" and st: "store_ok U st" and rivals: "rivals_ok U env"
    and run: "billing_retry env i acc body msg st = (r, st')"
  obtains (exhausted) "r = Inl (ConcurrentBillingUpdate msg)" "store_ok U st'"
      "ws_version (repo_get st acc) + 100 \<le> ws_version (repo_get st' acc)"
  | (raised) e j where "r = Inl e" "store_ok U st'" "body j (repo_get st' acc) = Raise e"
  | (returned) a j where "r = Inr a" "store_ok U st'" "body j (repo_get st' acc) = Return a"
  | (committed) a j w' s1 where "r = Inr a" "store_ok U s1" "body j (repo_get s1 acc) = Commit w' a"
      "repo_get st' acc = w'\<lparr>ws_version := ws_version (repo_get s1 acc) + 1\<rparr>"
proof -
  have rely: "\<And>i s. store_ok U s \<Longrightarrow> store_ok U (be_rival env i s) \<and> wallets.saves s (be_rival env i s)"
    using rivals by (auto simp: rivals_ok_def)
  have keyed: "\<And>i w w' a. body i w = Commit w' a \<Longrightarrow> ws_account_id w' = ws_account_id w"
    using keeps by (auto simp: keeps_wallet_def)
  note outcome = wallets.retry_outcome [where I = "store_ok U", OF rely store_ok_get(3) keyed
      run [unfolded billing_retry_def] st]
  show thesis
  proof (rule outcome)
    fix a j w' s1
    assume "r = Inr a" "store_ok U s1" "body j (repo_get s1 acc) = Commit w' a" "ws_account_id w' = acc"
      "repo_save w' (ws_version (repo_get s1 acc)) s1 = Inr st'"
    then show thesis by (intro committed [of a s1 j w']) (simp_all add: repo_get_save)
  qed (use exhausted raised returned in blast)+
qed

abbreviation others :: "billing_env \<Rightarrow> nat \<Rightarrow> billing_store \<Rightarrow> billing_store" where
  "others env j st \<equiv> seen (be_rival env) 0 j st"

lemma others_ok: "rivals_ok U env \<Longrightarrow> store_ok U st \<Longrightarrow> store_ok U (others env j st)"
  using wallets.seen_keeps [of "store_ok U" "be_rival env" st 0 j] by (auto simp: rivals_ok_def)

lemma billing_run:
  assumes keeps: "keeps_wallet D body" and st: "store_ok U st" and rivals: "rivals_ok U env"
    and run: "billing_retry env 0 acc body msg st = (r, st')"
  obtains (exhausted) "r = Inl (ConcurrentBillingUpdate msg)"
      "ws_version (repo_get st acc) + 100 \<le> ws_version (repo_get st' acc)"
  | (raised) e j where "r = Inl e" "j < 100" "st' = others env j st"
      "body j (repo_get (others env j st) acc) = Raise e"
  | (returned) a j where "r = Inr a" "j < 100" "st' = others env j st"
      "body j (repo_get (others env j st) acc) = Return a"
  | (committed) a j w' where "r = Inr a" "j < 100"
      "body j (repo_get (others env j st) acc) = Commit w' a"
      "repo_get st' acc = w'\<lparr>ws_version := ws_version (repo_get (others env j st) acc) + 1\<rparr>"
proof -
  have rely: "\<And>i s. store_ok U s \<Longrightarrow> store_ok U (be_rival env i s) \<and> wallets.saves s (be_rival env i s)"
    using rivals by (auto simp: rivals_ok_def)
  have keyed: "\<And>i w w' a. body i w = Commit w' a \<Longrightarrow> ws_account_id w' = ws_account_id w"
    using keeps by (auto simp: keeps_wallet_def)
  note outcome = wallets.retry_run [where I = "store_ok U", OF rely store_ok_get(3) keyed
      run [unfolded billing_retry_def] st]
  show thesis
  proof (rule outcome)
    fix a j w'
    let ?w = "repo_get (others env j st) acc"
    assume "r = Inr a" "j < 100" "body (0 + j) ?w = Commit w' a" "ws_account_id w' = acc"
      "repo_save w' (ws_version ?w) (others env (Suc j) st) = Inr st'"
    then show thesis by (intro committed [of a j w']) (simp_all add: repo_get_save)
  qed (use exhausted raised returned in \<open>fastforce\<close>)+
qed

definition quiet_env :: "string \<Rightarrow> instant \<Rightarrow> billing_env" where
  "quiet_env uuid now = \<lparr> be_clock = \<lambda>_ _. now, be_uuid = \<lambda>_ _. uuid, be_rival = \<lambda>_ st. st \<rparr>"

lemma quiet_env_ok: "u \<notin> U \<Longrightarrow> env_ok U (quiet_env u now)" "uuids (quiet_env u now) = {u}"
  by (auto simp: env_ok_def rivals_ok_def fresh_ids_def quiet_env_def uuids_def
      intro: wallets.saves_refl)

lemma quiet_env_evolves: "rivals_evolve (quiet_env u now)"
  by (simp add: rivals_evolve_def quiet_env_def)

lemma quiet_retry:
  assumes "store_ok U st" and "keeps_wallet D body"
  shows "billing_retry (quiet_env u now) i acc body msg st =
     (case body i (repo_get st acc) of Raise e \<Rightarrow> (Inl e, st) | Return a \<Rightarrow> (Inr a, st)
      | Commit w' a \<Rightarrow> (Inr a, projr (repo_save w' (ws_version (repo_get st acc)) st)))"
  by (rule calm_retry [OF assms]) (simp add: quiet_env_def)

lemma quiet_env_simps [simp]:
  "be_clock (quiet_env u now) i k = now" "be_uuid (quiet_env u now) i k = u"
  "be_rival (quiet_env u now) i st = st"
  by (simp_all add: quiet_env_def)

lemma quiet_seen [simp]: "seen (be_rival (quiet_env u now)) i j st = st"
  by (induction j arbitrary: i) simp_all

lemma quiet_call_reach:
  "billing_reach U st \<Longrightarrow> u \<notin> U \<Longrightarrow> billing_reach (insert u U) (run_call (quiet_env u now) call st)"
  using reach_call [of U st "quiet_env u now" call] quiet_env_ok by simp

text \<open>A Wallet of one account with ten reais, of which a reservation holds 2.50.\<close>

definition sample_store :: billing_store where
  "sample_store =
     run_call (quiet_env ''r1'' 0) (Reserve ''acc'' (Dec 250 (-2)) ''wake:w'' ''k2'' None (Some ''w''))
       (run_call (quiet_env ''e1'' 0) (Credit_wallet ''acc'' (Dec 10 0) ''ref'' ''k1'') [])"

lemma sample_reach: "billing_reach {''r1'', ''e1''} sample_store"
  unfolding sample_store_def by (intro quiet_call_reach reach_empty) simp_all

section \<open>Solvency\<close>

text \<open>
  C1. In every store that Billing operations can reach, under any interference of other
  clients, the active reservations of a Wallet are covered by its ledger balance: the
  available balance it shows is never negative, and neither is its balance.
\<close>

theorem wallet_always_solvent:
  assumes "billing_reach U st"
  shows "0 \<le> wa_available_balance (get_wallet a st)
    \<and> reserved (repo_get st a) \<le> wa_balance (get_wallet a st)
    \<and> 0 \<le> wa_balance (get_wallet a st)"
proof -
  have "wallet_ok (repo_get st a)" using reach_store_ok [OF assms] store_ok_get(1) by blast
  then have "solvent (repo_get st a)" "0 \<le> reserved (repo_get st a)"
    by (auto simp: wallet_ok_def reserved_nonneg)
  then show ?thesis by (auto simp: get_wallet_def Let_def solvent_def available_nonneg)
qed

theorem wallet_always_solvent_witness:
  "wa_available_balance (get_wallet ''acc'' sample_store) = 750
   \<and> 0 \<le> wa_available_balance (get_wallet ''acc'' sample_store)"
proof
  show "wa_available_balance (get_wallet ''acc'' sample_store) = 750" by code_simp
  show "0 \<le> wa_available_balance (get_wallet ''acc'' sample_store)"
    using wallet_always_solvent [OF sample_reach] by simp
qed

text \<open>
  C2. Billing never rewrites the past. Whatever operation runs, the ledger, the usages, the
  quotes and the processed payment events of every Wallet only grow; every reservation keeps
  its identity, purpose, World and quote; a reservation that was captured or released never
  changes again; and a Wallet whose usages all have their charge and their captured reservation,
  none charged twice, and whose wake guarantees give back exactly such a charge, stays so.
\<close>

theorem wallet_history_only_grows:
  assumes "store_ok U st" and "env_ok U env" and "rivals_evolve env"
  shows "evolves (repo_get st a) (repo_get (run_call env call st) a)"
  using run_call_evolves [OF assms] by (simp add: store_evolves_def)

theorem wallet_history_only_grows_witness:
  "evolves (repo_get sample_store ''acc'') (repo_get (run_call (quiet_env ''x'' 1)
     (Release_reservation ''acc'' ''r1'') sample_store) ''acc'')
   \<and> map ur_status (ws_reservations (repo_get (run_call (quiet_env ''x'' 1)
     (Release_reservation ''acc'' ''r1'') sample_store) ''acc'')) = [RELEASED]"
proof
  show "evolves (repo_get sample_store ''acc'') (repo_get (run_call (quiet_env ''x'' 1)
     (Release_reservation ''acc'' ''r1'') sample_store) ''acc'')"
    by (rule wallet_history_only_grows [OF reach_store_ok [OF sample_reach] quiet_env_ok(1)
        quiet_env_evolves]) simp
qed code_simp

section \<open>Contention\<close>

text \<open>
  C3. An operation gives up with ConcurrentBillingUpdate only after a hundred attempts that
  each lost to another client: the version of the Wallet has then grown by at least one
  hundred. (The hypotheses on the body hold for every loop body of Billing.)
\<close>

theorem gives_up_only_under_contention:
  assumes "keeps_wallet D body" and "store_ok U st" and "rivals_ok U env"
    and "\<And>i w. body i w \<noteq> Raise (ConcurrentBillingUpdate msg)"
    and "billing_retry env i acc body msg st = (Inl (ConcurrentBillingUpdate msg), st')"
  shows "ws_version (repo_get st acc) + 100 \<le> ws_version (repo_get st' acc)"
  using assms(1,2,3,5) by (rule billing_outcome) (use assms(4) in auto)


text \<open>A client that saves the Wallet again before every save of ours.\<close>

definition busy_rival :: "string \<Rightarrow> nat \<Rightarrow> billing_store \<Rightarrow> billing_store" where
  "busy_rival acc i st = (let w = repo_get st acc in
     case repo_save w (ws_version w) st of Inr st' \<Rightarrow> st' | Inl _ \<Rightarrow> st)"

definition busy_env :: billing_env where
  "busy_env = (quiet_env ''e1'' 0)\<lparr> be_rival := busy_rival ''acc'' \<rparr>"

lemma busy_env_rivals: "rivals_ok U busy_env"
  unfolding rivals_ok_def
proof (intro allI impI conjI)
  fix V i st assume V: "U \<subseteq> V" and ok: "store_ok V st"
  let ?w = "repo_get st ''acc''"
  have k: "ws_account_id ?w = ''acc''" using ok store_ok_get(3) by blast
  then obtain st' where save: "repo_save ?w (ws_version ?w) st = Inr st'"
    using wallets.save_current [of st ?w "ws_version ?w"] by auto
  then have r: "be_rival busy_env i st = st'" by (simp add: busy_env_def busy_rival_def Let_def)
  show "store_ok V (be_rival busy_env i st)"
    unfolding r using store_ok_save [OF ok _ _ save] store_ok_get(1,2) [OF ok] by blast
  show "wallets.saves st (be_rival busy_env i st)"
    unfolding r using wallets.saves_step [OF wallets.saves_refl save] .
qed

theorem gives_up_only_under_contention_witness:
  "let run = billing_retry busy_env 0 ''acc'' (credit_wallet_attempt busy_env ''acc'' 5 ''r'' ''k'') ''m'' []
   in fst run = Inl (ConcurrentBillingUpdate ''m'')
      \<and> ws_version (repo_get [] ''acc'') + 100 \<le> ws_version (repo_get (snd run) ''acc'')"
proof -
  let ?run = "billing_retry busy_env 0 ''acc'' (credit_wallet_attempt busy_env ''acc'' 5 ''r'' ''k'') ''m'' []"
  have lost: "fst ?run = Inl (ConcurrentBillingUpdate ''m'')" by code_simp
  have "ws_version (repo_get [] ''acc'') + 100 \<le> ws_version (repo_get (snd ?run) ''acc'')"
  proof (rule gives_up_only_under_contention [where D = "uuids busy_env"])
    show "keeps_wallet (uuids busy_env) (credit_wallet_attempt busy_env ''acc'' 5 ''r'' ''k'')"
      by (rule keeps_credit) simp
    show "credit_wallet_attempt busy_env ''acc'' 5 ''r'' ''k'' i w \<noteq> Raise (ConcurrentBillingUpdate ''m'')"
      for i w by (simp add: credit_wallet_attempt_def Let_def split: option.split)
    show "?run = (Inl (ConcurrentBillingUpdate ''m''), snd ?run)" using lost by (metis prod.collapse)
  qed (rule store_ok_empty busy_env_rivals)+
  with lost show ?thesis by (simp add: Let_def)
qed

section \<open>Reservations\<close>

lemma find_key_Some:
  "find (\<lambda>r. ur_idempotency_key r = key) rs = Some r \<Longrightarrow> r \<in> set rs \<and> ur_idempotency_key r = key"
  by (auto dest: find_Some_iff_mem)

lemma below_budget:
  "\<not> below (world_budget_available w world t) n \<Longrightarrow> 0 < n \<Longrightarrow> find_world_budget w world = Some b \<Longrightarrow>
     world_budget_spent w world t + world_budget_reserved w world + n \<le> wb_monthly_limit b"
  by (auto simp: below_def world_budget_available_def)

text \<open>A reservation written on top of the Wallet \<open>w\<close> at \<open>now\<close>, and one returned for a used key.\<close>

definition granted ::
    "money \<Rightarrow> string \<Rightarrow> string option \<Rightarrow> instant \<Rightarrow> usage_reservation \<Rightarrow> wallet_snapshot \<Rightarrow> wallet_snapshot
     \<Rightarrow> bool" where
  "granted n key world now r w w' \<longleftrightarrow>
     ur_amount r = n \<and> ur_status r = ACTIVE \<and> ur_idempotency_key r = key \<and> ur_world_id r = world
     \<and> n \<le> available_balance w
     \<and> (\<forall>v b. world = Some v \<longrightarrow> find_world_budget w v = Some b \<longrightarrow>
          world_budget_spent w v now + world_budget_reserved w v + n \<le> wb_monthly_limit b)
     \<and> w' = w\<lparr>ws_reservations := ws_reservations w @ [r], ws_version := ws_version w + 1\<rparr>
     \<and> available_balance w' = available_balance w - n"

definition replayed :: "string \<Rightarrow> usage_reservation \<Rightarrow> wallet_snapshot \<Rightarrow> wallet_snapshot \<Rightarrow> bool" where
  "replayed key r w w' \<longleftrightarrow> w' = w \<and> r \<in> set (ws_reservations w) \<and> ur_idempotency_key r = key"

text \<open>
  C4. A reservation that is granted was affordable in the very Wallet it was written to, the one
  that the last attempt read and that nobody saved meanwhile: the amount was available there, and
  for a World with a monthly budget the amount spent in the month of that attempt's clock, the amount
  already reserved and the new reservation stay within the limit. Nothing but the reservation is
  added, and the available balance falls by exactly that amount. When the idempotency key had been
  used, the earlier reservation is returned and nothing is written.
\<close>

theorem reservation_is_affordable:
  assumes st: "store_ok U st" and env: "env_ok U env"
    and run: "reserve env acc amount purpose key quote world st = (Inr r, st')"
  shows "\<exists>n j. positive_money amount = Inr n \<and> j < 100 \<and>
    (granted n key world (be_clock env j 0) r (repo_get (others env j st) acc) (repo_get st' acc)
     \<or> replayed key r (repo_get (others env j st) acc) (repo_get st' acc))"
proof -
  obtain n where n: "positive_money amount = Inr n" "0 < n"
    and loop: "billing_retry env 0 acc (reserve_attempt env acc n purpose key quote world)
        ''could not reserve Wallet after concurrent retries'' st = (Inr r, st')"
    using run positive_money_pos by (auto simp: reserve_def split: sum.splits)
  show ?thesis
  proof (rule billing_run [OF keeps_reserve [OF n(2)] st env_okD [OF env] loop])
    fix a j assume a: "Inr r = Inr a" "j < 100" "st' = others env j st"
      and b: "reserve_attempt env acc n purpose key quote world j (repo_get (others env j st) acc) = Return a"
    from b have "find (\<lambda>r. ur_idempotency_key r = key)
        (ws_reservations (repo_get (others env j st) acc)) = Some a"
      by (auto simp: reserve_attempt_def Let_def split: option.splits if_splits)
    with a n(1) show ?thesis
      by (intro exI [of _ n] exI [of _ j]) (auto simp: replayed_def dest: find_key_Some)
  next
    fix a j w'
    let ?w = "repo_get (others env j st) acc"
    assume a: "Inr r = Inr a" "j < 100"
      and b: "reserve_attempt env acc n purpose key quote world j ?w = Commit w' a"
      and w': "repo_get st' acc = w'\<lparr>ws_version := ws_version ?w + 1\<rparr>"
    from b have c: "n \<le> available_balance ?w" "w' = ?w\<lparr>ws_reservations := ws_reservations ?w @ [a]\<rparr>"
      "ur_amount a = n" "ur_status a = ACTIVE" "ur_idempotency_key a = key" "ur_world_id a = world"
      and budget: "\<And>v. world = Some v \<Longrightarrow> \<not> below (world_budget_available ?w v (be_clock env j 0)) n"
      by (auto simp: reserve_attempt_def Let_def split: option.splits if_splits)
    have "\<not> under_review ?w" using c(1) n(2) by (auto simp: available_balance_def)
    then have "available_balance (repo_get st' acc) = available_balance ?w - n"
      using c by (simp add: w' available_balance_def balance_def reserved_def active_amount_def
          under_review_def)
    then show ?thesis
      using a c n(1) below_budget [OF budget n(2)]
      by (intro exI [of _ n] exI [of _ j]) (auto simp: granted_def w')
  qed simp_all
qed

text \<open>The same Wallet with a budget of five reais a month for the World.\<close>

definition budget_store :: billing_store where
  "budget_store = run_call (quiet_env ''b1'' 1) (Set_world_budget ''acc'' ''w'' (Dec 5 0) ''k4'') sample_store"

lemma budget_reach: "billing_reach {''b1'', ''r1'', ''e1''} budget_store"
  unfolding budget_store_def by (intro quiet_call_reach sample_reach) simp

theorem reservation_is_affordable_witness:
  "let run = reserve (quiet_env ''r2'' 1) ''acc'' (Dec 2 0) ''p'' ''k3'' None (Some ''w'') budget_store in
   find_world_budget (repo_get budget_store ''acc'') ''w'' \<noteq> None
   \<and> granted 200 ''k3'' (Some ''w'') 1 (projr (fst run)) (repo_get budget_store ''acc'') (repo_get (snd run) ''acc'')"
proof -
  let ?run = "reserve (quiet_env ''r2'' 1) ''acc'' (Dec 2 0) ''p'' ''k3'' None (Some ''w'') budget_store"
  have "fst ?run = Inr (projr (fst ?run))" by code_simp
  then have "?run = (Inr (projr (fst ?run)), snd ?run)" by (metis prod.collapse)
  moreover have "positive_money (Dec 2 0) = Inr 200" by code_simp
  moreover have "ur_id (projr (fst ?run)) \<notin> set (map ur_id (ws_reservations (repo_get budget_store ''acc'')))"
    "\<not> Option.is_none (find_world_budget (repo_get budget_store ''acc'') ''w'')" by code_simp+
  ultimately show ?thesis
    using reservation_is_affordable [OF reach_store_ok [OF budget_reach] quiet_env_ok(1), of "''r2''" 1
        "''acc''" "Dec 2 0" "''p''" "''k3''" None "Some ''w''" "projr (fst ?run)" "snd ?run"]
    by (auto simp: replayed_def Let_def Option.is_none_def)
qed


section \<open>Charging a session\<close>

text \<open>
  What the recording of a session did to the Wallet \<open>w\<close>: the exact price of the seconds, half
  a cent rounded up, charged once, and its reservation closed.
\<close>

definition charged ::
    "string \<Rightarrow> string \<Rightarrow> int \<Rightarrow> runtime_usage \<Rightarrow> wallet_snapshot \<Rightarrow> wallet_snapshot \<Rightarrow> bool" where
  "charged quote_id reservation_id secs u w w' \<longleftrightarrow>
     (\<exists>q r e. find_quote w quote_id = Some q \<and> find_reservation w reservation_id = Some r
        \<and> ur_status r = ACTIVE \<and> ru_billable_seconds u = secs
        \<and> (sq_hourly_rate q * secs < 10 ^ 20 \<longrightarrow>
             ru_amount u = int (exact_quotient HalfUp (nat (sq_hourly_rate q * secs)) 3600))
        \<and> ru_amount u \<le> ur_amount r
        \<and> ws_entries w' = ws_entries w @ [e] \<and> le_amount e = - ru_amount u \<and> ru_ledger_entry_id u = le_id e
        \<and> balance w' = balance w - ru_amount u \<and> reserved w' = reserved w - ur_amount r
        \<and> find_reservation w' reservation_id = Some (r\<lparr>ur_status := CAPTURED\<rparr>)
        \<and> ws_usages w' = ws_usages w @ [u] \<and> ws_quotes w' = ws_quotes w)"

text \<open>
  C5. Recording a released session charges exactly the hourly rate times the billable seconds
  (at least sixty) over 3600, rounded half-up to the cent, never more than the session's
  reservation, and closes the reservation. Quote and reservation are those of the Wallet that the
  last attempt read and that nobody saved meanwhile. The price is exact while rate times
  seconds stays below ten to the twentieth cents, where the decimal context's 28 digits cannot
  show. When the key had been used, the recorded usage is returned and nothing is written.
\<close>

theorem runtime_usage_charges_exact_price:
  assumes st: "store_ok U st" and env: "env_ok U env"
    and run: "capture_runtime_usage env acc quote_id reservation_id t1 t2 key st = (Inr u, st')"
  shows "t1 \<le> t2 \<and> (\<exists>j < 100.
    st' = others env j st \<and> u \<in> set (ws_usages (repo_get st' acc)) \<and> ru_idempotency_key u = key
    \<or> charged quote_id reservation_id (max 60 (ceil_seconds (t2 - t1))) u
        (repo_get (others env j st) acc) (repo_get st' acc))"
proof -
  let ?secs = "max 60 (ceil_seconds (t2 - t1))"
  let ?body = "capture_runtime_usage_attempt env acc quote_id reservation_id t1 t2 ?secs key"
  have t: "t1 \<le> t2" and loop: "billing_retry env 0 acc ?body
      ''could not record Runtime Usage after retries'' st = (Inr u, st')"
    using run by (auto simp: capture_runtime_usage_def Let_def split: if_splits)
  have "\<exists>j < 100. st' = others env j st \<and> u \<in> set (ws_usages (repo_get st' acc)) \<and> ru_idempotency_key u = key
     \<or> charged quote_id reservation_id ?secs u (repo_get (others env j st) acc) (repo_get st' acc)"
  proof (rule billing_run [OF keeps_runtime st env_okD [OF env] loop])
    fix a j assume a: "Inr u = Inr a" "j < 100" "st' = others env j st"
      and b: "?body j (repo_get (others env j st) acc) = Return a"
    from b have "find (\<lambda>u. ru_idempotency_key u = key) (ws_usages (repo_get (others env j st) acc)) = Some a"
      by (auto simp: capture_runtime_usage_attempt_def Let_def split: body_splits)
    with a show ?thesis by (auto dest: find_Some_iff_mem)
  next
    fix a j w'
    let ?w = "repo_get (others env j st) acc"
    assume a: "Inr u = Inr a" "j < 100" and b: "?body j ?w = Commit w' a"
      and w': "repo_get st' acc = w'\<lparr>ws_version := ws_version ?w + 1\<rparr>"
    have okw: "wallet_ok ?w" using store_ok_get(1) [OF others_ok [OF env_okD [OF env] st]] .
    from b obtain q r n where q: "find_quote ?w quote_id = Some q"
      and r: "find_reservation ?w reservation_id = Some r" "ur_status r = ACTIVE" "n \<le> ur_amount r"
      and n: "prorate HalfUp (sq_hourly_rate q) ?secs 3600 = Inr n"
      and u: "ru_amount a = n" "ru_billable_seconds a = ?secs"
      and e: "w' = (put_reservation (r\<lparr>ur_status := CAPTURED\<rparr>) reservation_id
        (add_entry (runtime_charge env j acc q n key) ?w)) \<lparr>ws_usages := ws_usages ?w @ [a]\<rparr>"
      by (rule runtime_commitE)
    have i: "ru_ledger_entry_id a = le_id (runtime_charge env j acc q n key)"
      using b q r n by (auto simp: capture_runtime_usage_attempt_def Let_def split: body_splits)
    have "0 \<le> sq_hourly_rate q"
      using find_quote_Some [OF q] okw by (force simp: wallet_ok_def amounts_ok_def)
    then have exact: "sq_hourly_rate q * ?secs < 10 ^ 20 \<longrightarrow>
        n = int (exact_quotient HalfUp (nat (sq_hourly_rate q * ?secs)) 3600)"
      using quantized_quotient_exact [of "sq_hourly_rate q" ?secs 3600 HalfUp] n by simp
    have close: "reserved w' = reserved ?w - ur_amount r"
      using reserved_close [of ?w reservation_id r CAPTURED] okw r by (simp add: e wallet_ok_def)
    have "find_reservation w' reservation_id = Some (r\<lparr>ur_status := CAPTURED\<rparr>)"
      using r find_reservation_Some [OF r(1)]
      by (simp add: e find_reservation_def find_replace_where)
    with a u q r i exact close have "charged quote_id reservation_id ?secs u ?w (repo_get st' acc)"
      unfolding charged_def w' by (auto simp: e find_reservation_def)
    with a show ?thesis by blast
  qed simp_all
  with t show ?thesis by blast
qed

text \<open>A session of one World: its quote at one real per hour, and its wake reservation.\<close>

definition session_wallet :: wallet_snapshot where
  "session_wallet =
       \<lparr> ws_account_id = ''acc'',
         ws_entries =
           [\<lparr> le_id = ''e1'', le_account_id = ''acc'', le_entry_type = CONTRIBUTION,
              le_amount = 1000, le_reference = ''ref'', le_idempotency_key = ''k1'',
              le_occurred_at = 0, le_actor_user_id = None, le_reason = None \<rparr>],
         ws_reservations =
           [\<lparr> ur_id = ''r1'', ur_account_id = ''acc'', ur_amount = 42, ur_purpose = ''wake:w'',
              ur_idempotency_key = ''k3'', ur_status = ACTIVE, ur_created_at = 0,
              ur_quote_id = Some ''q1'', ur_world_id = Some ''w'' \<rparr>],
         ws_quotes =
           [\<lparr> sq_id = ''q1'', sq_account_id = ''acc'', sq_world_id = ''w'',
              sq_runtime_profile_id = ''small'', sq_hourly_rate = 100,
              sq_idempotency_key = ''k2'', sq_created_at = 0, sq_expires_at = minutes 15 \<rparr>],
         ws_usages = [], ws_contributions = [], ws_payment_events = [], ws_balance_guards = [],
         ws_world_budgets = [], ws_world_budget_alerts = [], ws_version = 3 \<rparr>"

definition session_store :: billing_store where
  "session_store = [(''acc'', session_wallet)]"

lemma session_ok: "store_ok {''r1'', ''q1'', ''e1''} session_store"
  by (auto simp: store_ok_def repo_get_def session_store_def session_wallet_def empty_wallet_def
      wallet_ok_def ids_ok_def amounts_ok_def solvent_def wallet_ids_def balance_def reserved_def
      active_amount_def wake_guarantees_def)

lemma session_get: "repo_get session_store ''acc'' = session_wallet"
  by (simp add: repo_get_def session_store_def)

lemma session_find:
  "find_quote session_wallet ''q1'' = Some (hd (ws_quotes session_wallet))"
  "find_reservation session_wallet ''r1'' = Some (hd (ws_reservations session_wallet))"
  by (simp_all add: find_quote_def find_reservation_def session_wallet_def)

lemma session_members:
  "sq_hourly_rate (hd (ws_quotes session_wallet)) = 100"
  "ur_status (hd (ws_reservations session_wallet)) = ACTIVE"
  "ur_amount (hd (ws_reservations session_wallet)) = 42"
  "ur_quote_id (hd (ws_reservations session_wallet)) = Some ''q1''"
  "sq_id (hd (ws_quotes session_wallet)) = ''q1''"
  "ws_usages session_wallet = []" "ws_account_id session_wallet = ''acc''"
  "balance session_wallet = 1000"
  by (simp_all add: session_wallet_def balance_def)

lemmas session_eval = session_get session_find session_members

lemma session_capture:
  obtains u st where
    "capture_runtime_usage (quiet_env ''u1'' 9) ''acc'' ''q1'' ''r1'' 0 (seconds 750) key session_store
       = (Inr u, st)"
    "ru_amount u = 21" "balance (repo_get st ''acc'') = 979"
proof -
  have price: "prorate HalfUp 100 750 3600 = Inr 21"
    using quantized_quotient_exact [of 100 750 3600 HalfUp] by (simp add: exact_quotient_def)
  have time: "max 60 (ceil_seconds (seconds 750)) = 750" "\<not> seconds 750 < 0" by code_simp+
  let ?run = "capture_runtime_usage (quiet_env ''u1'' 9) ''acc'' ''q1'' ''r1'' 0 (seconds 750) key
      session_store"
  have "\<exists>u st. ?run = (Inr u, st) \<and> ru_amount u = 21 \<and> balance (repo_get st ''acc'') = 979"
    by (simp add: capture_runtime_usage_def time quiet_retry [OF session_ok keeps_runtime]
        capture_runtime_usage_attempt_def session_eval price Let_def
        quiet_save [where st = session_store and acc = "''acc''", unfolded session_get])
  with that show thesis by blast
qed

theorem runtime_usage_charges_exact_price_witness:
  "\<exists>u st. capture_runtime_usage (quiet_env ''u1'' 9) ''acc'' ''q1'' ''r1'' 0 (seconds 750) ''k4''
         session_store = (Inr u, st)
   \<and> ru_amount u = 21 \<and> balance (repo_get st ''acc'') = 979
   \<and> charged ''q1'' ''r1'' (max 60 (ceil_seconds (seconds 750 - 0))) u session_wallet (repo_get st ''acc'')"
proof (rule session_capture)
  fix u st
  assume run: "capture_runtime_usage (quiet_env ''u1'' 9) ''acc'' ''q1'' ''r1'' 0 (seconds 750) ''k4''
      session_store = (Inr u, st)" and b: "ru_amount u = 21" "balance (repo_get st ''acc'') = 979"
  have "st \<noteq> session_store" using b(2) by (auto simp: session_eval)
  with runtime_usage_charges_exact_price [OF session_ok quiet_env_ok(1) run] run b show ?thesis
    by (auto simp: session_get)
qed


text \<open>
  What a later recording of a session meets when nobody captures, releases or re-sizes its
  reservation \<open>r\<close>: every Wallet it reads has evolved from \<open>w\<close> and still holds \<open>r\<close>.
\<close>

definition left_alone ::
    "usage_reservation \<Rightarrow> wallet_snapshot \<Rightarrow> billing_env \<Rightarrow> string \<Rightarrow> billing_store \<Rightarrow> bool" where
  "left_alone r w env acc st \<longleftrightarrow> (\<forall>j < 100. evolves w (repo_get (others env j st) acc)
     \<and> find_reservation (repo_get (others env j st) acc) (ur_id r) = Some r)"

text \<open>
  The recording charged the reservation \<open>k\<close> no more than \<open>limit\<close>, or it returned what had been
  recorded under its key and wrote nothing, or it gave up after a hundred saves of other clients.
\<close>

definition recorded_within ::
    "string \<Rightarrow> string \<Rightarrow> money \<Rightarrow> billing_env \<Rightarrow> string \<Rightarrow> billing_store
     \<Rightarrow> runtime_usage result \<times> billing_store \<Rightarrow> bool" where
  "recorded_within key k limit env acc st run \<longleftrightarrow>
     (\<exists>u. fst run = Inr u \<and> (ru_reservation_id u = k \<and> ru_amount u \<le> limit
        \<or> (\<exists>j < 100. snd run = others env j st \<and> u \<in> set (ws_usages (repo_get (snd run) acc))
              \<and> ru_idempotency_key u = key)))
     \<or> fst run = Inl (ConcurrentBillingUpdate ''could not record Runtime Usage after retries'')
       \<and> ws_version (repo_get st acc) + 100 \<le> ws_version (repo_get (snd run) acc)"

lemma evolves_quote: "evolves w w' \<Longrightarrow> find_quote w k = Some q \<Longrightarrow> find_quote w' k = Some q"
  by (auto simp: evolves_def extends_def find_quote_def find_append_Some)

text \<open>A reservation that covers the price of the seconds can be charged.\<close>

lemma covered_session_is_recorded:
  assumes st: "store_ok U st" and env: "env_ok U env" and alone: "left_alone r w env acc st"
    and q: "find_quote w quote_id = Some q" and r: "ur_status r = ACTIVE" and t: "t1 \<le> t2"
    and price: "prorate HalfUp (sq_hourly_rate q) (max 60 (ceil_seconds (t2 - t1))) 3600 = Inr n"
      "n \<le> ur_amount r"
  shows "recorded_within key (ur_id r) (ur_amount r) env acc st
    (capture_runtime_usage env acc quote_id (ur_id r) t1 t2 key st)"
proof -
  let ?secs = "max 60 (ceil_seconds (t2 - t1))"
  let ?body = "capture_runtime_usage_attempt env acc quote_id (ur_id r) t1 t2 ?secs key"
  obtain res st' where run: "capture_runtime_usage env acc quote_id (ur_id r) t1 t2 key st = (res, st')"
    by fastforce
  then have loop: "billing_retry env 0 acc ?body ''could not record Runtime Usage after retries'' st
      = (res, st')"
    using t by (simp add: capture_runtime_usage_def Let_def)
  have found: "find_quote (repo_get (others env j st) acc) quote_id = Some q"
      "find_reservation (repo_get (others env j st) acc) (ur_id r) = Some r" if "j < 100" for j
    using alone that evolves_quote q unfolding left_alone_def by blast+
  show ?thesis
  proof (rule billing_run [OF keeps_runtime st env_okD [OF env] loop])
    fix e j assume "j < 100" "?body j (repo_get (others env j st) acc) = Raise e"
    then show ?thesis using found [of j] r price
      by (auto simp: capture_runtime_usage_attempt_def Let_def split: option.splits)
  next
    fix a j assume j: "res = Inr a" "j < 100" "st' = others env j st"
      and b: "?body j (repo_get (others env j st) acc) = Return a"
    have "find (\<lambda>u. ru_idempotency_key u = key) (ws_usages (repo_get (others env j st) acc)) = Some a"
      using b by (auto simp: capture_runtime_usage_attempt_def Let_def split: body_splits)
    with j run show ?thesis by (auto simp: recorded_within_def dest: find_Some_iff_mem)
  next
    fix a j w' assume "res = Inr a" "j < 100" "?body j (repo_get (others env j st) acc) = Commit w' a"
    then show ?thesis using found [of j] r price run
      by (auto simp: capture_runtime_usage_attempt_def Let_def recorded_within_def split: option.splits)
  qed (use run in \<open>auto simp: recorded_within_def\<close>)
qed

lemma reserve_for_wake_amount:
  assumes st: "store_ok U st" and env: "env_ok U env"
    and run: "reserve_for_wake env acc quote_id key st = (Inr r, st1)"
    and new: "\<forall>j < 100. \<forall>x \<in> set (ws_reservations (repo_get (others env j (be_rival env 100 st)) acc)).
      ur_idempotency_key x \<noteq> key"
  obtains q where "find_quote (repo_get st acc) quote_id = Some q" "ur_status r = ACTIVE"
    "prorate Up (sq_hourly_rate q) 1500 3600 = Inr (ur_amount r)"
proof -
  let ?st = "be_rival env 100 st"
  obtain q a where q: "find_quote (repo_get st acc) quote_id = Some q"
    and a: "prorate Up (sq_hourly_rate q) 1500 3600 = Inr a"
    and res: "reserve env acc (decimal_of_cents a) (''wake:'' @ sq_world_id q) key
        (Some (sq_id q)) (Some (sq_world_id q)) ?st = (Inr r, st1)"
    using run by (auto simp: reserve_for_wake_def split: body_splits)
  obtain n where n: "positive_money (decimal_of_cents a) = Inr n" "0 < n"
    and loop: "billing_retry env 0 acc (reserve_attempt env acc n (''wake:'' @ sq_world_id q) key
        (Some (sq_id q)) (Some (sq_world_id q))) ''could not reserve Wallet after concurrent retries'' ?st
      = (Inr r, st1)"
    using res positive_money_pos by (auto simp: reserve_def split: sum.splits)
  have na: "n = a" using n by (auto simp: positive_money_def quantize_cents_def to_cents_def Let_def
        split: if_splits)
  have "ur_amount r = a \<and> ur_status r = ACTIVE"
  proof (rule billing_run [OF keeps_reserve [OF n(2)] rival_store_ok [OF env_okD [OF env] st]
        env_okD [OF env] loop])
    fix x j assume "j < 100" "reserve_attempt env acc n (''wake:'' @ sq_world_id q) key (Some (sq_id q))
      (Some (sq_world_id q)) j (repo_get (others env j ?st) acc) = Return x"
    then show ?thesis using new
      by (auto simp: reserve_attempt_def Let_def dest: find_key_Some split: option.splits if_splits)
  qed (use na in \<open>auto simp: reserve_attempt_def Let_def split: option.splits if_splits\<close>)
  with q a that show thesis by blast
qed

text \<open>
  C6. A wake reservation pays for a start of up to 25 minutes, because its price is rounded up and
  the charge half-up: when a wake has been reserved under a key that nobody had used, and no Balance
  Guard or other client touches that reservation until then, recording the session's usage for any
  release within 25 minutes of its start, whatever else happened to the Wallet meanwhile and happens
  during the recording, charges no more than the reservation, unless its own key had been
  used or it loses a hundred attempts to other clients. (While the wake is reserved the other clients
  only append to the Wallets, as C2 shows of every operation, and the hourly rate is below ten to the
  sixteenth cents, where the decimal context's 28 digits cannot show.)
\<close>

theorem wake_reservation_covers_start:
  assumes st: "store_ok U st" and env: "env_ok U env" "rivals_evolve env"
    and run: "reserve_for_wake env acc quote_id key st = (Inr r, st1)"
    and new: "\<forall>j < 100. \<forall>x \<in> set (ws_reservations (repo_get (others env j (be_rival env 100 st)) acc)).
      ur_idempotency_key x \<noteq> key"
    and rate: "\<forall>q \<in> set (ws_quotes (repo_get st acc)). sq_hourly_rate q < 10 ^ 16"
    and later: "store_ok V st2" "env_ok V env2" "left_alone r (repo_get st1 acc) env2 acc st2"
    and t: "t1 \<le> t2" "t2 \<le> t1 + minutes 25"
  shows "recorded_within key' (ur_id r) (ur_amount r) env2 acc st2
    (capture_runtime_usage env2 acc quote_id (ur_id r) t1 t2 key' st2)"
proof (rule reserve_for_wake_amount [OF st env(1) run new])
  let ?secs = "max 60 (ceil_seconds (t2 - t1))"
  fix q assume q: "find_quote (repo_get st acc) quote_id = Some q" and r: "ur_status r = ACTIVE"
    and a: "prorate Up (sq_hourly_rate q) 1500 3600 = Inr (ur_amount r)"
  have "wallet_ok (repo_get st acc)" using store_ok_get st by blast
  then have rate_q: "0 < sq_hourly_rate q" "sq_hourly_rate q < 10 ^ 16"
    using find_quote_Some [OF q] rate by (auto simp: wallet_ok_def amounts_ok_def)
  have secs: "0 \<le> ?secs" "?secs \<le> 1500"
    using t ceil_seconds_le_iff [of "t2 - t1" 1500] by (auto simp: minutes_def)
  have bound: "sq_hourly_rate q * 1500 < 10 ^ 20" using rate_q by simp
  obtain b where b: "prorate HalfUp (sq_hourly_rate q) ?secs 3600 = Inr b" "b \<le> ur_amount r"
    using prorate_half_le_up [of "sq_hourly_rate q" ?secs 1500 3600] rate_q secs bound a by auto
  have "evolves (repo_get st acc) (repo_get st1 acc)"
    using run_call_evolves [OF st env, of "Reserve_for_wake acc quote_id key"] run
    by (simp add: store_evolves_def)
  from evolves_quote [OF this q] show ?thesis
    by (rule covered_session_is_recorded [OF later _ r t(1) b])
qed


lemma session_second_wake:
  obtains r st where "reserve_for_wake (quiet_env ''r2'' 0) ''acc'' ''q1'' ''k9'' session_store = (Inr r, st)"
    "ur_amount r = 42" "find_reservation (repo_get st ''acc'') (ur_id r) = Some r"
proof -
  have price: "prorate Up 100 1500 3600 = Inr 42"
    using quantized_quotient_exact [of 100 1500 3600 Up] by (simp add: exact_quotient_def)
  have money: "positive_money (decimal_of_cents 42) = Inr 42"
    by (rule positive_money_cents) (simp_all add: prec_def)
  have key: "find (\<lambda>r. ur_idempotency_key r = ''k9'') (ws_reservations session_wallet) = None"
    "available_balance session_wallet = 958" "\<not> sq_expires_at (hd (ws_quotes session_wallet)) < 0"
    "\<And>v t. world_budget_available session_wallet v t = None"
    by (simp_all add: session_wallet_def available_balance_def under_review_def balance_def
        reserved_def active_amount_def time_units world_budget_available_def find_world_budget_def)
  have none: "find (\<lambda>x. ur_id x = ''r2'') (ws_reservations session_wallet) = None"
    by (simp add: session_wallet_def)
  have "\<exists>r st. reserve_for_wake (quiet_env ''r2'' 0) ''acc'' ''q1'' ''k9'' session_store = (Inr r, st)
      \<and> ur_amount r = 42 \<and> find_reservation (repo_get st ''acc'') (ur_id r) = Some r"
    by (simp add: reserve_for_wake_def session_eval price money reserve_def key below_def Let_def
        quiet_retry [OF session_ok keeps_reserve] reserve_attempt_def find_reservation_def
        quiet_save [where st = session_store and acc = "''acc''", unfolded session_get]
        find_append_None [OF none])
  with that show thesis by blast
qed

lemma quiet_left_alone:
  "evolves w (repo_get st acc) \<Longrightarrow> find_reservation (repo_get st acc) (ur_id r) = Some r \<Longrightarrow>
     left_alone r w (quiet_env u now) acc st"
  by (simp add: left_alone_def)

theorem wake_reservation_covers_start_witness:
  "\<exists>r st. reserve_for_wake (quiet_env ''r2'' 0) ''acc'' ''q1'' ''k9'' session_store = (Inr r, st)
     \<and> ur_amount r = 42
     \<and> recorded_within ''k10'' (ur_id r) 42 (quiet_env ''u2'' 9) ''acc'' st
         (capture_runtime_usage (quiet_env ''u2'' 9) ''acc'' ''q1'' (ur_id r) 0 (minutes 25) ''k10'' st)"
proof (rule session_second_wake)
  fix r st
  assume run: "reserve_for_wake (quiet_env ''r2'' 0) ''acc'' ''q1'' ''k9'' session_store = (Inr r, st)"
    and r: "ur_amount r = 42" "find_reservation (repo_get st ''acc'') (ur_id r) = Some r"
  have "store_ok ({''r1'', ''q1'', ''e1''} \<union> uuids (quiet_env ''r2'' 0)) st"
    using reserve_for_wake_ok [OF session_ok quiet_env_ok(1), of "''r2''" 0 "''acc''" "''q1''" "''k9''"] run
    by simp
  then have ok: "store_ok {''r1'', ''q1'', ''e1'', ''r2''} st" by (simp add: quiet_env_ok insert_commute)
  have "left_alone r (repo_get st ''acc'') (quiet_env ''u2'' 9) ''acc'' st"
    using r(2) by (intro quiet_left_alone evolves_refl)
  from wake_reservation_covers_start [OF session_ok quiet_env_ok(1) quiet_env_evolves run _ _ ok
      quiet_env_ok(1) this, of 0 "minutes 25" "''k10''"] run r(1) show ?thesis
    by (auto simp: session_get session_wallet_def time_units)
qed

lemma protect_outcome:
  assumes st: "store_ok U st" and env: "rivals_ok U env"
    and run: "protect_active_session env acc quote_id reservation_id t1 t safe interval st = (Inr d, st')"
    and reserved: "bd_safe_sleep_reserved d"
  obtains q r where "t1 \<le> t" "find_quote (repo_get st' acc) quote_id = Some q"
    "prorate Up (sq_hourly_rate q) (ceil_seconds (t - t1) + safe) 3600 = Inr (bd_reserved_amount d)"
    "find_reservation (repo_get st' acc) reservation_id = Some r"
    "ur_status r = ACTIVE" "ur_amount r = bd_reserved_amount d"
proof -
  let ?body = "protect_active_session_attempt quote_id reservation_id (ceil_seconds (t - t1)) t safe interval"
  have tt: "t1 \<le> t" and loop: "billing_retry env 0 acc ?body
      ''could not apply Balance Guard after retries'' st = (Inr d, st')"
    using run by (auto simp: protect_active_session_def Let_def split: if_splits)
  show thesis
  proof (rule billing_run [OF keeps_protect [where D = "{}"] st env loop])
    fix a j
    let ?w = "repo_get (others env j st) acc"
    assume a: "Inr d = Inr a" "st' = others env j st" and "?body j ?w = Return a"
    then show thesis
    proof (elim protect_returnE)
      fix q r n f
      assume q: "find_quote ?w quote_id = Some q" and r: "find_reservation ?w reservation_id = Some r"
        "ur_status r = ACTIVE" and n: "prorate Up (sq_hourly_rate q) (ceil_seconds (t - t1) + safe) 3600 = Inr n"
        and f: "f = guard_figures_of n (ur_amount r) (available_balance ?w)
          (world_budget_available ?w (sq_world_id q) t)"
        and d: "bd_reserved_amount a = gf_reserved_amount f" "bd_safe_sleep_reserved a = gf_can_extend f"
        and same: "ws_reservations (put_reservation (r\<lparr>ur_amount := gf_reserved_amount f\<rparr>)
            reservation_id ?w) = ws_reservations ?w"
      let ?r = "r\<lparr>ur_amount := gf_reserved_amount f\<rparr>"
      have "gf_reserved_amount f = n" using d reserved a f guard_extends by simp
      moreover have "find (\<lambda>x. ur_id x = reservation_id)
          (replace_where (\<lambda>x. ur_id x = reservation_id) ?r (ws_reservations ?w)) = Some ?r"
        using r find_reservation_Some [OF r(1)]
        by (intro find_replace_where) (auto simp: find_reservation_def)
      then have "find_reservation ?w reservation_id = Some ?r" using same by (simp add: find_reservation_def)
      then have "r = ?r" using r(1) by simp
      from arg_cong [OF this, of ur_amount] have "ur_amount r = gf_reserved_amount f" by simp
      ultimately show thesis using tt q n d a r by (intro that [of q r]) simp_all
    qed
  next
    fix a j w'
    let ?w = "repo_get (others env j st) acc"
    assume a: "Inr d = Inr a" and "?body j ?w = Commit w' a"
      and get: "repo_get st' acc = w'\<lparr>ws_version := ws_version ?w + 1\<rparr>"
    then show thesis
    proof (elim protect_commitE)
      fix q r n f gs bs
      assume q: "find_quote ?w quote_id = Some q" and r: "find_reservation ?w reservation_id = Some r"
        "ur_status r = ACTIVE" and n: "prorate Up (sq_hourly_rate q) (ceil_seconds (t - t1) + safe) 3600 = Inr n"
        and f: "f = guard_figures_of n (ur_amount r) (available_balance ?w)
          (world_budget_available ?w (sq_world_id q) t)"
        and d: "bd_reserved_amount a = gf_reserved_amount f" "bd_safe_sleep_reserved a = gf_can_extend f"
        and w': "w' = (put_reservation (r\<lparr>ur_amount := gf_reserved_amount f\<rparr>) reservation_id ?w)
            \<lparr> ws_balance_guards := gs, ws_world_budget_alerts := bs \<rparr>"
      have "gf_reserved_amount f = n" using d reserved a f guard_extends by simp
      moreover have "find_reservation w' reservation_id = Some (r\<lparr>ur_amount := gf_reserved_amount f\<rparr>)"
        using r find_reservation_Some [OF r(1)]
        by (simp add: w' find_reservation_def find_replace_where)
      ultimately show thesis using tt q n d a r get
        by (intro that [of q "r\<lparr>ur_amount := gf_reserved_amount f\<rparr>"])
          (auto simp: w' find_quote_def find_reservation_def)
    qed
  qed simp_all
qed

text \<open>
  C7. When the Balance Guard answers that a safe sleep is reserved, the reservation it leaves
  pays for the session until the safe sleep is over: while no other client or later Balance Guard
  touches that reservation, recording the usage for any release up to \<open>safe\<close> seconds after the
  observation, whatever else happens to the Wallet, charges no more than the reserved amount, unless
  its own key had been used or it loses a hundred attempts to other clients. (The time elapsed and
  the safe sleep together are at least a minute, the least that is billed; with a safe sleep under a
  minute a very young session is not covered. The price of that time is below ten to the twentieth
  cents, where the decimal context's 28 digits cannot show.)
\<close>

theorem guarded_session_can_be_charged:
  assumes st: "store_ok U st" and env: "env_ok U env"
    and run: "protect_active_session env acc quote_id reservation_id t1 t safe interval st = (Inr d, st1)"
    and reserved: "bd_safe_sleep_reserved d" and r: "find_reservation (repo_get st1 acc) reservation_id = Some r"
    and rate: "\<forall>q \<in> set (ws_quotes (repo_get st1 acc)).
      sq_hourly_rate q * (ceil_seconds (t - t1) + safe) < 10 ^ 20"
    and minute: "60 \<le> ceil_seconds (t - t1) + safe"
    and t2: "t1 \<le> t2" "t2 \<le> t + seconds safe"
    and later: "store_ok V st2" "env_ok V env2" "left_alone r (repo_get st1 acc) env2 acc st2"
  shows "recorded_within key (ur_id r) (bd_reserved_amount d) env2 acc st2
    (capture_runtime_usage env2 acc quote_id (ur_id r) t1 t2 key st2)"
proof (rule protect_outcome [OF st env_okD [OF env] run reserved])
  let ?w = "repo_get st1 acc"
  let ?secs = "max 60 (ceil_seconds (t2 - t1))"
  fix q r'
  assume tt: "t1 \<le> t" and q: "find_quote ?w quote_id = Some q"
    and n: "prorate Up (sq_hourly_rate q) (ceil_seconds (t - t1) + safe) 3600 = Inr (bd_reserved_amount d)"
    and r': "find_reservation ?w reservation_id = Some r'" "ur_status r' = ACTIVE"
      "ur_amount r' = bd_reserved_amount d"
  have "store_ok (U \<union> uuids env) st1"
    using protect_active_session_ok [OF st env, of acc] run by (metis snd_conv)
  then have "wallet_ok ?w" using store_ok_get by blast
  then have rate_q: "0 < sq_hourly_rate q" "sq_hourly_rate q * (ceil_seconds (t - t1) + safe) < 10 ^ 20"
    using find_quote_Some [OF q] rate by (auto simp: wallet_ok_def amounts_ok_def)
  have "ceil_seconds (t2 - t1) \<le> ceil_seconds (t - t1) + safe"
    using t2 ceil_seconds_le_iff [of "t - t1" "ceil_seconds (t - t1)"]
    by (subst ceil_seconds_le_iff) (simp add: seconds_def algebra_simps)
  then have secs: "0 \<le> ?secs" "?secs \<le> ceil_seconds (t - t1) + safe" using minute by simp_all
  obtain b where b: "prorate HalfUp (sq_hourly_rate q) ?secs 3600 = Inr b" "b \<le> bd_reserved_amount d"
    using prorate_half_le_up [of "sq_hourly_rate q" ?secs "ceil_seconds (t - t1) + safe" 3600]
      rate_q secs n by auto
  have eq: "r' = r" using r r'(1) by simp
  have "b \<le> ur_amount r" using b(2) r'(3) eq by simp
  from covered_session_is_recorded [OF later q r'(2) [unfolded eq] t2(1) b(1) this] show ?thesis
    using r'(3) eq by simp
qed


lemma session_guard:
  obtains d st where "protect_active_session (quiet_env ''g1'' 0) ''acc'' ''q1'' ''r1'' 0 (seconds 600) 300 60
      session_store = (Inr d, st)" "bd_safe_sleep_reserved d" "bd_reserved_amount d = 25"
    "ws_quotes (repo_get st ''acc'') = ws_quotes session_wallet"
proof -
  have price: "prorate Up 100 900 3600 = Inr 25"
    using quantized_quotient_exact [of 100 900 3600 Up] by (simp add: exact_quotient_def)
  have facts: "ceil_seconds (seconds 600) = 600" "\<not> seconds 600 < 0"
    "available_balance session_wallet = 958" "\<And>v t. world_budget_available session_wallet v t = None"
    by (simp_all add: session_wallet_def available_balance_def under_review_def balance_def ceil_seconds_def
        reserved_def active_amount_def time_units world_budget_available_def find_world_budget_def)
  have figures: "gf_can_extend (guard_figures_of 25 42 958 None)"
    "gf_reserved_amount (guard_figures_of 25 42 958 None) = 25"
    by (simp_all add: guard_figures_of_def below_def)
  have "\<exists>d st. protect_active_session (quiet_env ''g1'' 0) ''acc'' ''q1'' ''r1'' 0 (seconds 600) 300 60
      session_store = (Inr d, st) \<and> bd_safe_sleep_reserved d \<and> bd_reserved_amount d = 25
      \<and> ws_quotes (repo_get st ''acc'') = ws_quotes session_wallet"
    by (simp add: protect_active_session_def quiet_retry [OF session_ok keeps_protect [where D = "{}"]]
        protect_active_session_attempt_def session_eval facts price Let_def guard_decision_def figures
        quiet_save [where st = session_store and acc = "''acc''", unfolded session_get])
  with that show thesis by blast
qed

theorem guarded_session_can_be_charged_witness:
  "\<exists>d st r. protect_active_session (quiet_env ''g1'' 0) ''acc'' ''q1'' ''r1'' 0 (seconds 600) 300 60
        session_store = (Inr d, st) \<and> bd_reserved_amount d = 25
     \<and> find_reservation (repo_get st ''acc'') ''r1'' = Some r
     \<and> recorded_within ''k10'' (ur_id r) 25 (quiet_env ''u2'' 9) ''acc'' st
         (capture_runtime_usage (quiet_env ''u2'' 9) ''acc'' ''q1'' (ur_id r) 0 (seconds 900) ''k10'' st)"
proof (rule session_guard)
  fix d st
  assume run: "protect_active_session (quiet_env ''g1'' 0) ''acc'' ''q1'' ''r1'' 0 (seconds 600) 300 60
      session_store = (Inr d, st)" and d: "bd_safe_sleep_reserved d" "bd_reserved_amount d = 25"
    and q: "ws_quotes (repo_get st ''acc'') = ws_quotes session_wallet"
  note ok = quiet_env_ok(1) [of _ "{''r1'', ''q1'', ''e1''}"]
  have g: "''g1'' \<notin> {''r1'', ''q1'', ''e1''}" by simp
  obtain r where r: "find_reservation (repo_get st ''acc'') ''r1'' = Some r"
    using protect_outcome [OF session_ok env_okD [OF ok [OF g]] run d(1)] by blast
  have "store_ok ({''r1'', ''q1'', ''e1''} \<union> uuids (quiet_env ''g1'' 0)) st"
    using protect_active_session_ok [OF session_ok ok [OF g], of 0 "''acc''"] run by (metis snd_conv)
  then have st: "store_ok {''r1'', ''q1'', ''e1'', ''g1''} st" by (simp add: quiet_env_ok insert_commute)
  have "left_alone r (repo_get st ''acc'') (quiet_env ''u2'' 9) ''acc'' st"
    using r find_reservation_Some [OF r] by (intro quiet_left_alone evolves_refl) simp
  moreover have "ceil_seconds (seconds 600) = 600" by (simp add: ceil_seconds_def time_units)
  ultimately have "recorded_within ''k10'' (ur_id r) (bd_reserved_amount d) (quiet_env ''u2'' 9) ''acc'' st
      (capture_runtime_usage (quiet_env ''u2'' 9) ''acc'' ''q1'' (ur_id r) 0 (seconds 900) ''k10'' st)"
    by (intro guarded_session_can_be_charged [OF session_ok ok [OF g] run d(1) r _ _ _ _ st quiet_env_ok(1)])
      (simp_all add: q session_wallet_def time_units)
  with run d(2) r show ?thesis by auto
qed

section \<open>Idempotent commands\<close>

lemma entry_with_key_Some:
  "entry_with_key w key = Some e \<Longrightarrow> e \<in> set (ws_entries w) \<and> le_idempotency_key e = key"
  by (auto simp: entry_with_key_def dest: find_Some_iff_mem)

lemma entry_with_key_version [simp]: "entry_with_key (w\<lparr>ws_version := v\<rparr>) key = entry_with_key w key"
  by (simp add: entry_with_key_def)

lemma entry_with_key_new:
  "entry_with_key w key = None \<Longrightarrow> le_idempotency_key e = key \<Longrightarrow>
     ws_entries w' = ws_entries w @ [e] \<Longrightarrow> entry_with_key w' key = Some e"
  by (simp add: entry_with_key_def find_append_None)

text \<open>The entry a keyed charge or credit returns is the one stored under its key.\<close>

lemma keyed_entry:
  assumes keeps: "keeps_wallet D body" and st: "store_ok U st" and rivals: "rivals_ok U env"
    and run: "billing_retry env i acc body msg st = (Inr e, st')"
    and ret: "\<And>i w e. body i w = Return e \<Longrightarrow> entry_with_key w key = Some e"
    and com: "\<And>i w w' e. body i w = Commit w' e \<Longrightarrow>
      entry_with_key w key = None \<and> ws_entries w' = ws_entries w @ [e] \<and> le_idempotency_key e = key"
  shows "entry_with_key (repo_get st' acc) key = Some e"
proof (rule billing_outcome [OF keeps st rivals run])
  fix a j assume "Inr e = Inr a" "body j (repo_get st' acc) = Return a"
  with ret show ?thesis by simp
next
  fix a j w' s1
  assume a: "Inr e = Inr a" and c: "body j (repo_get s1 acc) = Commit w' a"
    and w': "repo_get st' acc = w'\<lparr>ws_version := ws_version (repo_get s1 acc) + 1\<rparr>"
  from com [OF c] a show ?thesis
    unfolding w' entry_with_key_version by (intro entry_with_key_new) auto
qed simp_all

text \<open>A body that finds its key returns at once, whatever the other clients do.\<close>

lemma keyed_replay:
  assumes "\<And>i. body i (repo_get st acc) = Return e"
  shows "billing_retry env i acc body msg st = (Inr e, st)"
  by (simp add: billing_retry_def assms numeral_eq_Suc)

text \<open>
  C8. Charges and credits are idempotent: once \<open>credit_wallet\<close>, \<open>charge_monthly_storage\<close> or
  \<open>capture_reservation\<close> has succeeded, the same call (from any client, at any later time while
  the ledger entry is there) returns the same ledger entry and writes nothing.
\<close>

theorem keyed_commands_are_idempotent:
  assumes st: "store_ok U st" and env: "env_ok U env"
  shows "(credit_wallet env acc amount reference key st = (Inr e, st') \<longrightarrow>
        credit_wallet env' acc amount reference key st' = (Inr e, st'))
    \<and> (charge_monthly_storage env acc bytes rate month key st = (Inr e, st') \<longrightarrow>
        charge_monthly_storage env' acc bytes rate month key st' = (Inr e, st'))
    \<and> (capture_reservation env acc k amount key st = (Inr e, st') \<longrightarrow>
        capture_reservation env' acc k amount key st' = (Inr e, st'))"
proof (intro conjI impI)
  note rivals = env_okD [OF env]
  show "credit_wallet env' acc amount reference key st' = (Inr e, st')"
    if run: "credit_wallet env acc amount reference key st = (Inr e, st')"
  proof -
    obtain n where n: "positive_money amount = Inr n" "0 < n"
      and loop: "billing_retry env 0 acc (credit_wallet_attempt env acc n reference key)
        ''could not credit Wallet after concurrent retries'' st = (Inr e, st')"
      using run positive_money_pos
      by (auto simp: credit_wallet_def split: sum.splits)
    have "entry_with_key (repo_get st' acc) key = Some e"
      using keeps_credit [OF n(2)] st rivals loop
      by (rule keyed_entry) (auto simp: credit_wallet_attempt_def Let_def split: option.splits)
    then have "credit_wallet_attempt env' acc n reference key i (repo_get st' acc) = Return e" for i
      by (simp add: credit_wallet_attempt_def)
    from keyed_replay [where body = "credit_wallet_attempt env' acc n reference key", OF this] n show ?thesis by (simp add: credit_wallet_def)
  qed
  show "charge_monthly_storage env' acc bytes rate month key st' = (Inr e, st')"
    if run: "charge_monthly_storage env acc bytes rate month key st = (Inr e, st')"
  proof -
    obtain r n where n: "positive_money rate = Inr r" "prorate HalfUp r bytes (1024 ^ 3) = Inr n" "0 < n"
        "0 < bytes" "parses_year_month month"
      and loop: "billing_retry env 0 acc (charge_monthly_storage_attempt env acc n month key)
        ''could not charge storage after retries'' st = (Inr e, st')"
      using run by (auto simp: charge_monthly_storage_def not_le split: sum.splits if_splits)
    have "entry_with_key (repo_get st' acc) key = Some e"
      using keeps_storage [OF n(3)] st rivals loop
      by (rule keyed_entry)
        (auto simp: charge_monthly_storage_attempt_def Let_def split: option.splits if_splits)
    then have "charge_monthly_storage_attempt env' acc n month key i (repo_get st' acc) = Return e" for i
      by (simp add: charge_monthly_storage_attempt_def)
    from keyed_replay [where body = "charge_monthly_storage_attempt env' acc n month key", OF this] n show ?thesis by (simp add: charge_monthly_storage_def)
  qed
  show "capture_reservation env' acc k amount key st' = (Inr e, st')"
    if run: "capture_reservation env acc k amount key st = (Inr e, st')"
  proof -
    obtain n where n: "positive_money amount = Inr n" "0 < n"
      and loop: "billing_retry env 0 acc (capture_reservation_attempt env acc k n key)
        ''could not charge Wallet after concurrent retries'' st = (Inr e, st')"
      using run positive_money_pos by (auto simp: capture_reservation_def split: sum.splits)
    have "entry_with_key (repo_get st' acc) key = Some e"
      using keeps_capture [OF n(2)] st rivals loop
      by (rule keyed_entry)
        (auto simp: capture_reservation_attempt_def Let_def split: option.splits if_splits)
    then have "capture_reservation_attempt env' acc k n key i (repo_get st' acc) = Return e" for i
      by (simp add: capture_reservation_attempt_def)
    from keyed_replay [where body = "capture_reservation_attempt env' acc k n key", OF this] n show ?thesis by (simp add: capture_reservation_def)
  qed
qed


theorem keyed_commands_are_idempotent_witness:
  "let run = credit_wallet (quiet_env ''e1'' 0) ''acc'' (Dec 10 0) ''ref'' ''k1'' [] in
   balance (repo_get (snd run) ''acc'') = 1000
   \<and> credit_wallet (quiet_env ''e2'' 7) ''acc'' (Dec 10 0) ''ref'' ''k1'' (snd run) = run"
proof -
  let ?run = "credit_wallet (quiet_env ''e1'' 0) ''acc'' (Dec 10 0) ''ref'' ''k1'' []"
  have "fst ?run = Inr (projr (fst ?run))" by code_simp
  then have run: "?run = (Inr (projr (fst ?run)), snd ?run)" by (metis prod.collapse)
  have "credit_wallet (quiet_env ''e2'' 7) ''acc'' (Dec 10 0) ''ref'' ''k1'' (snd ?run)
      = (Inr (projr (fst ?run)), snd ?run)"
    using keyed_commands_are_idempotent [OF store_ok_empty quiet_env_ok(1)] run by blast
  moreover have "balance (repo_get (snd ?run) ''acc'') = 1000" by code_simp
  ultimately show ?thesis using run by (simp add: Let_def)
qed

section \<open>Credits for failed wakes\<close>

definition wake_entries :: "wallet_snapshot \<Rightarrow> string \<Rightarrow> ledger_entry list" where
  "wake_entries w usage_id =
     filter (\<lambda>e. le_entry_type e = WAKE_GUARANTEE \<and> le_reference e = usage_id) (ws_entries w)"

lemma distinct_map_filter_single:
  "distinct (map f xs) \<Longrightarrow> x \<in> set xs \<Longrightarrow> f x = k \<Longrightarrow> filter (\<lambda>y. f y = k) xs = [x]"
proof (induction xs)
  case (Cons a xs)
  show ?case
  proof (cases "f a = k")
    case True
    with Cons.prems have "a = x" by (auto simp: image_iff)
    moreover have "filter (\<lambda>y. f y = k) xs = []"
      using Cons.prems(1) True by (auto simp: filter_empty_conv image_iff)
    ultimately show ?thesis using True by simp
  qed (use Cons in auto)
qed simp

lemma wake_entries_single:
  assumes "wallet_ok w" and "e \<in> set (wake_entries w k)"
  shows "wake_entries w k = [e]"
proof -
  have "wake_entries w k = filter (\<lambda>e. le_reference e = k) (wake_guarantees (ws_entries w))"
    by (auto simp: wake_entries_def wake_guarantees_def intro: filter_cong)
  moreover have "e \<in> set (wake_guarantees (ws_entries w))" "le_reference e = k"
    using assms(2) by (auto simp: wake_entries_def wake_guarantees_def)
  ultimately show ?thesis
    using assms(1) by (simp add: wallet_ok_def ids_ok_def distinct_map_filter_single)
qed

text \<open>A Wallet with one charged session and one contribution waiting for its payment.\<close>

definition paying_wallet :: wallet_snapshot where
  "paying_wallet =
     \<lparr> ws_account_id = ''acc'', ws_entries = [], ws_reservations = [], ws_quotes = [],
       ws_usages =
         [\<lparr> ru_id = ''u1'', ru_account_id = ''acc'', ru_world_id = ''w'', ru_quote_id = ''q1'',
            ru_reservation_id = ''r1'', ru_billable_seconds = 750, ru_amount = 21,
            ru_runtime_started_at = 0, ru_runtime_released_at = seconds 750,
            ru_ledger_entry_id = ''e1'', ru_idempotency_key = ''k4'' \<rparr>],
       ws_contributions =
         [\<lparr> wc_id = ''c1'', wc_account_id = ''acc'', wc_payer_user_id = ''ana'',
            wc_package_id = ''p20'', wc_amount = 2000, wc_provider_product_id = ''prod'',
            wc_provider_checkout_id = Some ''bill_1'', wc_checkout_url = Some ''url'',
            wc_return_url = ''r'', wc_completion_url = ''c'', wc_status = PENDING,
            wc_idempotency_key = ''k'', wc_created_at = 0, wc_payment_method = None,
            wc_provider_refund_id = None \<rparr>],
       ws_payment_events = [], ws_balance_guards = [], ws_world_budgets = [],
       ws_world_budget_alerts = [], ws_version = 1 \<rparr>"

definition paying_store :: billing_store where
  "paying_store = [(''acc'', paying_wallet)]"

lemma paying_get: "repo_get paying_store ''acc'' = paying_wallet"
  by (simp add: repo_get_def paying_store_def)

lemma paying_ok: "store_ok {''u1'', ''c1''} paying_store"
  by (auto simp: store_ok_def repo_get_def paying_store_def paying_wallet_def empty_wallet_def
      wallet_ok_def ids_ok_def amounts_ok_def solvent_def wallet_ids_def balance_def reserved_def
      wake_guarantees_def)

lemma wake_guarantee_recorded:
  assumes st: "store_ok U st" and env: "env_ok U env"
    and run: "apply_wake_guarantee env acc usage_id False key st = (Inr e, st')"
  shows "e \<in> set (wake_entries (repo_get st' acc) usage_id)"
proof -
  have loop: "billing_retry env 0 acc (apply_wake_guarantee_attempt env acc usage_id key)
      ''could not apply Wake Guarantee after retries'' st = (Inr e, st')"
    using run by (simp add: apply_wake_guarantee_def)
  show ?thesis
  proof (rule billing_outcome [OF keeps_wake st env_okD [OF env] loop])
    fix a j assume "Inr e = Inr a"
      "apply_wake_guarantee_attempt env acc usage_id key j (repo_get st' acc) = Return a"
    then show ?thesis
      by (auto simp: apply_wake_guarantee_attempt_def wake_entries_def Let_def
          dest!: find_Some_iff_mem find_usage_Some split: option.splits)
  next
    fix a j w' s1 assume "Inr e = Inr a"
      "apply_wake_guarantee_attempt env acc usage_id key j (repo_get s1 acc) = Commit w' a"
      "repo_get st' acc = w'\<lparr>ws_version := ws_version (repo_get s1 acc) + 1\<rparr>"
    then show ?thesis
      by (auto simp: apply_wake_guarantee_attempt_def wake_entries_def Let_def
          dest!: find_usage_Some split: option.splits)
  qed simp_all
qed

text \<open>
  C9. A wake that never came online is given back once: when \<open>apply_wake_guarantee\<close> returns,
  the ledger holds exactly one wake guarantee for that usage, the one it returned, whoever else
  applied it before or meanwhile.
\<close>

theorem failed_wake_is_credited_once:
  assumes st: "store_ok U st" and env: "env_ok U env"
    and run: "apply_wake_guarantee env acc usage_id False key st = (Inr e, st')"
  shows "wake_entries (repo_get st' acc) usage_id = [e]"
proof -
  have "store_ok (U \<union> uuids env) st'"
    using apply_wake_guarantee_ok [OF st env, of acc usage_id False key] run by simp
  then have "wallet_ok (repo_get st' acc)" using store_ok_get(1) by blast
  then show ?thesis using wake_guarantee_recorded [OF assms] by (rule wake_entries_single)
qed

theorem failed_wake_is_credited_once_witness:
  "\<exists>e st. apply_wake_guarantee (quiet_env ''g1'' 0) ''acc'' ''u1'' False ''k5'' paying_store = (Inr e, st)
     \<and> le_amount e = 21 \<and> wake_entries (repo_get st ''acc'') ''u1'' = [e]"
proof -
  have "\<exists>e st. apply_wake_guarantee (quiet_env ''g1'' 0) ''acc'' ''u1'' False ''k5'' paying_store
      = (Inr e, st) \<and> le_amount e = 21"
    by (simp add: apply_wake_guarantee_def quiet_retry [OF paying_ok keeps_wake] paying_get
        apply_wake_guarantee_attempt_def find_usage_def paying_wallet_def Let_def)
  then show ?thesis
    using failed_wake_is_credited_once [OF paying_ok quiet_env_ok(1), of "''g1''" 0 "''acc''" "''u1''" "''k5''"]
    by auto
qed

section \<open>Payments\<close>

text \<open>
  A webhook payload that tells of a completed checkout: the event's id, the contribution and the
  provider's checkout it names, and the amount in cents that was asked for and paid. Whatever else
  it holds is free.
\<close>

definition completed_payment ::
    "(string, json) dict \<Rightarrow> string \<Rightarrow> string \<Rightarrow> string \<Rightarrow> money \<Rightarrow> bool" where
  "completed_payment payload event_id k checkout_id n \<longleftrightarrow>
     required_string payload ''id'' = Inr event_id
     \<and> required_string payload ''event'' = Inr ''checkout.completed''
     \<and> json_eq_int (json_get payload ''apiVersion'') 2
     \<and> (\<exists>data checkout. json_get payload ''data'' = JObj data \<and> json_get data ''checkout'' = JObj checkout
          \<and> required_string checkout ''externalId'' = Inr k \<and> required_string checkout ''id'' = Inr checkout_id
          \<and> cents_to_money (json_get checkout ''amount'') = Inr n
          \<and> cents_to_money (json_get checkout ''paidAmount'') = Inr n)"

text \<open>The contribution \<open>k\<close> waits for this payment, and the event has not been recorded.\<close>

definition awaits_payment :: "string \<Rightarrow> string \<Rightarrow> string \<Rightarrow> money \<Rightarrow> wallet_snapshot \<Rightarrow> bool" where
  "awaits_payment event_id k checkout_id n w \<longleftrightarrow> event_id \<notin> pe_id ` set (ws_payment_events w)
     \<and> (\<exists>c. find_contribution w k = Some c \<and> wc_status c = PENDING
          \<and> wc_provider_checkout_id c = Some checkout_id \<and> wc_amount c = n)"

text \<open>The event was recorded as \<open>p\<close> and the contribution credited, on top of the Wallet \<open>w\<close>.\<close>

definition payment_credited ::
    "string \<Rightarrow> string \<Rightarrow> money \<Rightarrow> processed_payment_event \<Rightarrow> wallet_snapshot \<Rightarrow> wallet_snapshot \<Rightarrow> bool" where
  "payment_credited event_id k n p w w' \<longleftrightarrow>
     pe_id p = event_id \<and> pe_contribution_id p = k
     \<and> ws_payment_events w' = ws_payment_events w @ [p]
     \<and> (\<exists>e. ws_entries w' = ws_entries w @ [e] \<and> le_entry_type e = CONTRIBUTION \<and> le_amount e = n
          \<and> le_reference e = k)
     \<and> balance w' = balance w + n \<and> ws_reservations w' = ws_reservations w
     \<and> (\<exists>c m. find_contribution w k = Some c
          \<and> find_contribution w' k = Some (c\<lparr>wc_status := COMPLETED, wc_payment_method := m\<rparr>))"

lemma completed_payment_run:
  assumes "completed_payment payload event_id k checkout_id n"
    and "repo_find_contribution st k = Some c"
  obtains data checkout where "process_payment_event env payload st
    = billing_retry env 0 (wc_account_id c) (process_payment_event_attempt env event_id
        ''checkout.completed'' k checkout data) ''could not process payment event after retries''
        (be_rival env 100 st)"
    "required_string checkout ''id'' = Inr checkout_id" "cents_to_money (json_get checkout ''amount'') = Inr n"
    "cents_to_money (json_get checkout ''paidAmount'') = Inr n"
  using assms by (auto simp: completed_payment_def process_payment_event_def)

lemma recorded_payment_is_replayed:
  assumes "completed_payment payload event_id k checkout_id n"
    and "repo_find_contribution st k = Some c" "wc_account_id c = acc"
    and "find (\<lambda>p. pe_id p = event_id) (ws_payment_events (repo_get (be_rival env 100 st) acc)) = Some p"
  shows "process_payment_event env payload st = (Inr p, be_rival env 100 st)"
  by (rule completed_payment_run [OF assms(1,2), of env])
    (simp add: assms(3) keyed_replay process_payment_event_attempt_def assms(4))

text \<open>
  C10. A paid checkout credits its contribution: when a webhook tells of the completed checkout of a
  contribution and every attempt finds the contribution pending with that checkout and amount, or the
  event recorded, then the event is processed unless a hundred attempts are lost to other clients;
  on the Wallet that the last attempt read and nobody saved meanwhile, either it is recorded already
  and nothing is written, or the balance grows by exactly the amount, by one entry that names the
  contribution, the contribution is COMPLETED and the event recorded. From then on, as long as the
  contribution is found under its Account, a redelivery, of any payload with that event id for the
  contribution, returns the recorded event and writes nothing, whatever happened to the Wallet.
\<close>

theorem paid_checkout_is_credited:
  assumes st: "store_ok U st" and env: "env_ok U env"
    and payload: "completed_payment payload event_id k checkout_id n"
    and located: "repo_find_contribution st k = Some c" "wc_account_id c = acc"
    and awaits: "\<forall>j < 100. let w = repo_get (others env j (be_rival env 100 st)) acc in
      awaits_payment event_id k checkout_id n w \<or> event_id \<in> pe_id ` set (ws_payment_events w)"
    and run: "process_payment_event env payload st = (res, st')"
  shows "res = Inl (ConcurrentBillingUpdate ''could not process payment event after retries'')
      \<and> ws_version (repo_get (be_rival env 100 st) acc) + 100 \<le> ws_version (repo_get st' acc)
    \<or> (\<exists>p. res = Inr p
        \<and> (\<exists>j < 100. let w = repo_get (others env j (be_rival env 100 st)) acc in
             st' = others env j (be_rival env 100 st) \<and> p \<in> set (ws_payment_events w) \<and> pe_id p = event_id
             \<or> awaits_payment event_id k checkout_id n w
               \<and> payment_credited event_id k n p w (repo_get st' acc))
        \<and> (\<forall>env2 st2 c2 payload2 checkout_id2 n2.
             evolves (repo_get st' acc) (repo_get (be_rival env2 100 st2) acc)
             \<longrightarrow> repo_find_contribution st2 k = Some c2 \<longrightarrow> wc_account_id c2 = acc
             \<longrightarrow> completed_payment payload2 event_id k checkout_id2 n2
             \<longrightarrow> process_payment_event env2 payload2 st2 = (Inr p, be_rival env2 100 st2)))"
proof (rule completed_payment_run [OF payload located(1), of env])
  fix data checkout
  let ?st = "be_rival env 100 st"
  let ?body = "process_payment_event_attempt env event_id ''checkout.completed'' k checkout data"
  let ?msg = "''could not process payment event after retries''"
  assume p: "process_payment_event env payload st = billing_retry env 0 (wc_account_id c) ?body ?msg ?st"
    and checkout: "required_string checkout ''id'' = Inr checkout_id"
      "cents_to_money (json_get checkout ''amount'') = Inr n"
      "cents_to_money (json_get checkout ''paidAmount'') = Inr n"
  have loop: "billing_retry env 0 acc ?body ?msg ?st = (res, st')" using p run located(2) by simp
  have replay: "process_payment_event env2 payload2 st2 = (Inr p, be_rival env2 100 st2)"
    if "find (\<lambda>p. pe_id p = event_id) (ws_payment_events (repo_get st' acc)) = Some p"
      "evolves (repo_get st' acc) (repo_get (be_rival env2 100 st2) acc)"
      "repo_find_contribution st2 k = Some c2" "wc_account_id c2 = acc"
      "completed_payment payload2 event_id k checkout_id2 n2" for p env2 st2 c2 payload2 checkout_id2 n2
    using that(1,2)
    by (intro recorded_payment_is_replayed [OF that(5,3,4)])
      (auto simp: evolves_def extends_def find_append_Some)
  show ?thesis
  proof (rule billing_run [OF keeps_payment rival_store_ok [OF env_okD [OF env] st] env_okD [OF env] loop])
    fix e j
    let ?w = "repo_get (others env j ?st) acc"
    assume "j < 100" "?body j ?w = Raise e"
    moreover have "awaits_payment event_id k checkout_id n ?w \<or> event_id \<in> pe_id ` set (ws_payment_events ?w)"
      using awaits \<open>j < 100\<close> by (simp add: Let_def)
    ultimately show ?thesis using checkout
      by (auto simp: process_payment_event_attempt_def awaits_payment_def complete_contribution_def
          find_None_iff Let_def split: option.splits)
  next
    fix p j
    let ?w = "repo_get (others env j ?st) acc"
    assume a: "res = Inr p" "j < 100" "st' = others env j ?st" and b: "?body j ?w = Return p"
    from b have f: "find (\<lambda>p. pe_id p = event_id) (ws_payment_events ?w) = Some p"
      by (auto simp: process_payment_event_attempt_def Let_def split: option.splits sum.splits if_splits prod.splits)
    then have "p \<in> set (ws_payment_events ?w) \<and> pe_id p = event_id" by (auto dest: find_Some_iff_mem)
    then have "\<exists>j < 100. let w = repo_get (others env j ?st) acc in
             st' = others env j ?st \<and> p \<in> set (ws_payment_events w) \<and> pe_id p = event_id
             \<or> awaits_payment event_id k checkout_id n w \<and> payment_credited event_id k n p w (repo_get st' acc)"
      using a by (intro exI [of _ j]) simp
    with replay f a show ?thesis by blast
  next
    fix p j w'
    let ?w = "repo_get (others env j ?st) acc"
    assume a: "res = Inr p" "j < 100" and b: "?body j ?w = Commit w' p"
      and get: "repo_get st' acc = w'\<lparr>ws_version := ws_version ?w + 1\<rparr>"
    from b have f: "find (\<lambda>p. pe_id p = event_id) (ws_payment_events ?w) = None"
      by (auto simp: process_payment_event_attempt_def split: option.splits)
    then have "event_id \<notin> pe_id ` set (ws_payment_events ?w)" by (auto simp: find_None_iff)
    then have aw: "awaits_payment event_id k checkout_id n ?w"
      using awaits a(2) by (auto simp: Let_def)
    then obtain c where c: "find_contribution ?w k = Some c" "wc_status c = PENDING"
        "wc_provider_checkout_id c = Some checkout_id" "wc_amount c = n"
      by (auto simp: awaits_payment_def)
    have k: "wc_id c = k" using find_contribution_Some [OF c(1)] by simp
    let ?c = "c\<lparr>wc_status := COMPLETED,
      wc_payment_method := payment_method_summary_of (json_get data ''payerInformation'')\<rparr>"
    let ?e = "new_entry (be_uuid env j 0) (wc_account_id c) CONTRIBUTION n k (''abacatepay:'' @ event_id)
      (be_clock env j 0)"
    have w': "w' = (put_contribution ?c k ?w) \<lparr> ws_entries := ws_entries ?w @ [?e],
        ws_payment_events := ws_payment_events ?w @ [p] \<rparr>"
      and pe: "pe_id p = event_id" "pe_contribution_id p = k"
      using b f c k checkout
      by (auto simp: process_payment_event_attempt_def complete_contribution_def Let_def)
    have "find_contribution w' k = Some ?c"
      using c(1) k by (simp add: w' find_contribution_def find_replace_where)
    then have "payment_credited event_id k n p ?w (repo_get st' acc)"
      using pe c(1) by (auto simp: payment_credited_def get w' balance_def find_contribution_def)
    then have "\<exists>j < 100. let w = repo_get (others env j ?st) acc in
             st' = others env j ?st \<and> p \<in> set (ws_payment_events w) \<and> pe_id p = event_id
             \<or> awaits_payment event_id k checkout_id n w \<and> payment_credited event_id k n p w (repo_get st' acc)"
      using a aw by (intro exI [of _ j]) simp
    moreover have "find (\<lambda>p. pe_id p = event_id) (ws_payment_events (repo_get st' acc)) = Some p"
      using f pe by (simp add: get w' find_append_None)
    ultimately show ?thesis using replay a by blast
  qed simp_all
qed


text \<open>The webhook of the checkout of the sample's contribution, with the summary of its payer.\<close>

definition paid_payload :: "(string, json) dict" where
  "paid_payload =
     [(''id'', JStr ''ev1''), (''event'', JStr ''checkout.completed''), (''apiVersion'', JInt 2),
      (''data'', JObj [(''checkout'', JObj
         [(''id'', JStr ''bill_1''), (''externalId'', JStr ''c1''),
          (''amount'', JInt 2000), (''paidAmount'', JInt 2000)]),
         (''payerInformation'', JObj [(''method'', JStr ''PIX'')])])]"

lemma paid_payload_completed: "completed_payment paid_payload ''ev1'' ''c1'' ''bill_1'' 2000"
  by (simp add: completed_payment_def paid_payload_def required_string_def json_get_def json_eq_int_def
      cents_to_money_def prec_def)

theorem paid_checkout_is_credited_witness:
  "\<exists>p st. process_payment_event (quiet_env ''x'' 3) paid_payload paying_store = (Inr p, st)
     \<and> payment_credited ''ev1'' ''c1'' 2000 p paying_wallet (repo_get st ''acc'')"
proof -
  let ?c = "hd (ws_contributions paying_wallet)"
  have c: "wc_account_id ?c = ''acc''" by (simp add: paying_wallet_def)
  have loc: "repo_find_contribution paying_store ''c1'' = Some ?c"
    by (simp add: repo_find_contribution_def paying_store_def paying_wallet_def)
  have aw: "awaits_payment ''ev1'' ''c1'' ''bill_1'' 2000 paying_wallet"
    by (simp add: awaits_payment_def find_contribution_def paying_wallet_def)
  have new: "ws_payment_events paying_wallet = []" by (simp add: paying_wallet_def)
  obtain res st where run: "process_payment_event (quiet_env ''x'' 3) paid_payload paying_store = (res, st)"
    by fastforce
  have "\<not> isl (fst (process_payment_event (quiet_env ''x'' 3) paid_payload paying_store))" by code_simp
  with run obtain p where "res = Inr p" by (cases res) auto
  then show ?thesis
    using paid_checkout_is_credited [OF paying_ok quiet_env_ok(1) paid_payload_completed loc c _ run]
      aw run new by (auto simp: Let_def paying_get)
qed

text \<open>
  C11. A reversal the Wallet cannot cover is forgotten by a second one. When a refund or
  dispute arrives for a completed contribution whose credit has been spent, the contribution
  goes to NEEDS_REVIEW and the Wallet is frozen; a second reversal event for the same checkout
  then marks it refunded (or disputed) and lifts the freeze without debiting anything, and a
  second completion event credits its amount a second time.
\<close>

theorem second_event_after_review_skips_the_ledger:
  assumes "wc_status c = COMPLETED" and "available < wc_amount c"
    and "kind \<in> {''checkout.refunded'', ''checkout.disputed''}" "kind' \<in> {''checkout.refunded'', ''checkout.disputed''}"
    and "cents_to_money (json_get checkout ''paidAmount'') = Inr (wc_amount c)"
    and "cents_to_money (json_get checkout ''amount'') = Inr (wc_amount c)"
  shows "let (c1, entries1) = reverse_contribution env i c kind ev1 entries available in
       wc_status c1 = NEEDS_REVIEW \<and> entries1 = entries
     \<and> (let (c2, entries2) = reverse_contribution env i c1 kind' ev2 entries1 0 in
           wc_status c2 \<in> {REFUNDED, DISPUTED} \<and> entries2 = entries)
     \<and> (\<exists>c2 e. complete_contribution env i c1 checkout data ev2 entries1 = Inr (c2, entries @ [e])
           \<and> wc_status c2 = COMPLETED \<and> le_amount e = wc_amount c)"
  using assms by (auto simp: reverse_contribution_def complete_contribution_def Let_def)

theorem second_event_after_review_skips_the_ledger_witness:
  "\<exists>c available. wc_status c = COMPLETED \<and> available < wc_amount c
     \<and> (let (c1, entries1) = reverse_contribution (quiet_env ''x'' 0) 0 c ''checkout.refunded'' ''ev1'' [] available in
          wc_status c1 = NEEDS_REVIEW \<and> entries1 = []
        \<and> (let (c2, entries2) = reverse_contribution (quiet_env ''x'' 0) 0 c1 ''checkout.refunded'' ''ev2'' entries1 0 in
              wc_status c2 \<in> {REFUNDED, DISPUTED} \<and> entries2 = [])
        \<and> (\<exists>c2 e. complete_contribution (quiet_env ''x'' 0) 0 c1
               [(''amount'', JInt 2000), (''paidAmount'', JInt 2000)] [] ''ev2'' entries1 = Inr (c2, [] @ [e])
              \<and> wc_status c2 = COMPLETED \<and> le_amount e = wc_amount c))"
proof -
  let ?c = "(hd (ws_contributions paying_wallet))\<lparr>wc_status := COMPLETED\<rparr>"
  have c: "wc_status ?c = COMPLETED" "0 < wc_amount ?c" "wc_amount ?c = 2000"
    by (simp_all add: paying_wallet_def)
  have m: "cents_to_money (json_get [(''amount'', JInt 2000), (''paidAmount'', JInt 2000)] k)
      = Inr (wc_amount ?c)" if "k \<in> {''amount'', ''paidAmount''}" for k
    using that c by (auto simp: cents_to_money_def json_get_def prec_def)
  show ?thesis
    using second_event_after_review_skips_the_ledger [OF c(1,2), of "''checkout.refunded''"
        "''checkout.refunded''" "[(''amount'', JInt 2000), (''paidAmount'', JInt 2000)]"
        "quiet_env ''x'' 0" 0 "''ev1''" "[]" "''ev2''" "[]"] c m
    by (intro exI [of _ ?c] exI [of _ 0]) auto
qed

section \<open>Amounts\<close>

lemma round_half_up: "round_digits HalfUp n k = (2 * n + 10 ^ k) div (2 * 10 ^ k)"
proof -
  define T :: nat where "T = 10 ^ k"
  have T: "0 < T" by (simp add: T_def)
  define q r where "q = n div T" and "r = n mod T"
  have n: "n = q * T + r" and r: "r < T" using T by (simp_all add: q_def r_def)
  have "2 * n + T = (2 * r + T) + q * (2 * T)" by (simp add: n algebra_simps)
  then have "(2 * n + T) div (2 * T) = q + (2 * r + T) div (2 * T)"
    using T by (simp only: div_mult_self1 mult_pos_pos zero_less_numeral neq0_conv)
  moreover have "(2 * r + T) div (2 * T) = (if T \<le> 2 * r then 1 else 0)"
    using r T by (auto simp: div_nat_eqI)
  ultimately show ?thesis
    by (simp add: round_digits_def Let_def flip: T_def q_def r_def)
qed

text \<open>
  Exactly the finite amounts that round half-up to at least one cent and fit in 28 digits
  are accepted as money. An infinity raises decimal.InvalidOperation, which is not a
  ValueError.
\<close>

theorem accepted_amounts:
  "positive_money d = Inr n \<longleftrightarrow>
     (\<exists>c e. d = Dec c e \<and> 0 < c \<and> 0 < n \<and> n < 10 ^ 28
        \<and> n = (if -2 \<le> e then c * 10 ^ nat (e + 2)
               else (2 * c + 10 ^ nat (-2 - e)) div (2 * 10 ^ nat (-2 - e))))"
proof (cases d)
  case (Dec c e)
  let ?m = "if -2 \<le> e then c * 10 ^ nat (e + 2)
      else (2 * c + 10 ^ nat (-2 - e)) div (2 * 10 ^ nat (-2 - e))"
  have cents: "int (to_cents HalfUp (nat \<bar>c\<bar>, e)) = ?m" if "0 < c"
    using that by (simp add: to_cents_def round_half_up zdiv_int)
  have "positive_money d = Inr n \<longleftrightarrow> 0 < c \<and> 0 < n \<and> n < 10 ^ 28 \<and> n = ?m"
  proof (cases "0 < c")
    case True
    have lim: "10 ^ prec \<le> to_cents HalfUp (nat \<bar>c\<bar>, e) \<longleftrightarrow> 10 ^ 28 \<le> ?m"
      unfolding cents [OF True, symmetric] by (simp add: prec_def)
    show ?thesis
      using True lim cents [OF True]
      by (auto simp: Dec positive_money_def quantize_cents_def Let_def not_le)
  qed (auto simp: Dec positive_money_def split: sum.splits)
  then show ?thesis using Dec by simp
qed (simp_all add: positive_money_def)

text \<open>The exception for an infinite amount.\<close>

lemma infinite_amount_raises: "positive_money (DInf b) = Inl InvalidOperation"
  by (simp add: positive_money_def)

end
