(* ===== verification/Effects.thy ===== *)
theory Effects
  imports Calendar
begin

text \<open>
  The control flow of an operation written as one function from a state to a result and the
  next state: going on only when a step succeeded (every exception leaves the operation with
  the state it had reached), \<open>next(generator)\<close>, and their case rules.
\<close>

text \<open>The rest \<open>f\<close> of the operation runs on the value of \<open>r\<close>; an exception ends it in \<open>st\<close>.\<close>

definition on_ok :: "'a result \<Rightarrow> 's \<Rightarrow> ('a \<Rightarrow> 'b result \<times> 's) \<Rightarrow> 'b result \<times> 's" where
  "on_ok r st f = (case r of Inl e \<Rightarrow> (Inl e, st) | Inr a \<Rightarrow> f a)"

text \<open>The same when the step itself changed the state.\<close>

definition and_then :: "'a result \<times> 's \<Rightarrow> ('a \<Rightarrow> 's \<Rightarrow> 'b result \<times> 's) \<Rightarrow> 'b result \<times> 's" where
  "and_then p f = on_ok (fst p) (snd p) (\<lambda>a. f a (snd p))"

text \<open>\<open>next(x for x in xs if P(x))\<close>.\<close>

definition next_where :: "('a \<Rightarrow> bool) \<Rightarrow> 'a list \<Rightarrow> 'a result" where
  "next_where P xs = (case find P xs of None \<Rightarrow> Inl StopIteration | Some x \<Rightarrow> Inr x)"

lemma on_ok_simps [simp]:
  "on_ok (Inl e) st f = (Inl e, st)"
  "on_ok (Inr a) st f = f a"
  by (simp_all add: on_ok_def)

lemma and_then_simps [simp]:
  "and_then (Inl e, s) f = (Inl e, s)"
  "and_then (Inr a, s) f = f a s"
  by (simp_all add: and_then_def)

lemma on_ok_InrE:
  assumes "on_ok r st f = (Inr b, st')"
  obtains a where "r = Inr a" and "f a = (Inr b, st')"
  using assms by (cases r) auto

text \<open>The two ways an operation built with \<^const>\<open>on_ok\<close> ends.\<close>

lemma on_okE:
  assumes "on_ok r st f = (q, st')"
  obtains (stopped) e where "r = Inl e" "q = Inl e" "st' = st"
  | (goes_on) a where "r = Inr a" "f a = (q, st')"
  using assms by (cases r) auto

lemma on_ok_state:
  "Q st \<Longrightarrow> (\<And>a. r = Inr a \<Longrightarrow> Q (snd (f a))) \<Longrightarrow> Q (snd (on_ok r st f))"
  by (cases r) auto

lemma next_where_Inr: "next_where P xs = Inr x \<longleftrightarrow> find P xs = Some x"
  by (auto simp: next_where_def split: option.splits)

lemma next_where_InrD: "next_where P xs = Inr x \<Longrightarrow> x \<in> set xs \<and> P x"
  by (auto simp: next_where_Inr dest: find_Some_iff_mem)

text \<open>How an operation that returned a value got there, as rewriting.\<close>

lemma on_ok_success:
  "on_ok r st f = (Inr b, st') \<longleftrightarrow> (\<exists>a. r = Inr a \<and> f a = (Inr b, st'))"
  by (cases r) auto

lemma if_success: "(if c then (Inl e, st) else p) = (Inr b, st') \<longleftrightarrow> \<not> c \<and> p = (Inr b, st')"
  by auto

lemma and_then_success:
  "and_then p f = (Inr b, st') \<longleftrightarrow> (\<exists>a s. p = (Inr a, s) \<and> f a s = (Inr b, st'))"
  by (cases p; cases "fst p") auto

lemmas success_simps = on_ok_success if_success

text \<open>\<open>if c: raise e\<close>.\<close>

definition check :: "bool \<Rightarrow> py_error \<Rightarrow> unit result" where
  "check ok e = (if ok then Inr () else Inl e)"

lemma check_Inr [simp]: "check ok e = Inr u \<longleftrightarrow> ok"
  by (simp add: check_def)

lemma check_Inl [simp]: "check ok e = Inl e' \<longleftrightarrow> \<not> ok \<and> e' = e"
  by (auto simp: check_def)

end
