(* ===== verification/AccountModel.thy ===== *)
theory AccountModel
  imports Effects
begin

text \<open>
  The data of the Accounts component (\<open>gamewake/accounts/model.py\<close>, \<open>policy.py\<close>,
  \<open>security.py\<close>, \<open>repository.py\<close>) and its access policy: which permissions a Membership's
  Role Assignment grants on the Account or on one World.
\<close>

section \<open>Data\<close>

datatype predefined_role = OWNER | MANAGER | PLAYER

datatype invitation_status = PENDING | ACCEPTED

datatype invitation_access = PLAY | CONSOLE

datatype identity_provider = DISCORD

record user =
  us_id :: string
  us_display_name :: string

record linked_identity =
  li_id :: string
  li_user_id :: string
  li_provider :: identity_provider
  li_provider_user_id :: string

record account =
  ac_id :: string
  ac_name :: string
  ac_discord_guild_id :: "string option"
  ac_discord_channel_id :: "string option"

record resource_scope =
  rs_account_id :: string
  rs_world_id :: "string option"

definition applies_to :: "resource_scope \<Rightarrow> string option \<Rightarrow> bool" where
  "applies_to scope world_id =
     (if rs_world_id scope = None then True
      else world_id \<noteq> None \<and> rs_world_id scope = world_id)"

record role_assignment =
  ra_id :: string
  ra_scope :: resource_scope
  ra_predefined_role :: "predefined_role option"
  ra_custom_role_id :: "string option"

text \<open>\<open>RoleAssignment(...)\<close> with its \<open>__post_init__\<close>.\<close>

definition mk_role_assignment ::
    "string \<Rightarrow> resource_scope \<Rightarrow> predefined_role option \<Rightarrow> string option \<Rightarrow> role_assignment result" where
  "mk_role_assignment i scope role custom =
     (if (role = None) = (custom = None)
      then Inl (ValueError ''a Role Assignment must reference exactly one Role'')
      else Inr \<lparr> ra_id = i, ra_scope = scope, ra_predefined_role = role, ra_custom_role_id = custom \<rparr>)"

text \<open>An Owner of the whole Account.\<close>

definition is_account_owner_assignment :: "role_assignment \<Rightarrow> bool" where
  "is_account_owner_assignment a \<longleftrightarrow>
     ra_predefined_role a = Some OWNER \<and> rs_world_id (ra_scope a) = None"

definition effective_role_assignment :: "role_assignment list \<Rightarrow> role_assignment option" where
  "effective_role_assignment assignments =
     (case find is_account_owner_assignment (rev assignments) of
        Some a \<Rightarrow> Some a
      | None \<Rightarrow> if assignments = [] then None else Some (last assignments))"

record membership =
  mb_id :: string
  mb_account_id :: string
  mb_user_id :: string
  mb_assignments :: "role_assignment list"

definition role_assignment_of :: "membership \<Rightarrow> role_assignment option" where
  "role_assignment_of m = effective_role_assignment (mb_assignments m)"

definition roles_of :: "membership \<Rightarrow> predefined_role set" where
  "roles_of m = (case role_assignment_of m of
      None \<Rightarrow> {}
    | Some a \<Rightarrow> (case ra_predefined_role a of None \<Rightarrow> {} | Some r \<Rightarrow> {r}))"

record invitation =
  iv_id :: string
  iv_account_id :: string
  iv_inviter_user_id :: string
  iv_invited_user_id :: "string option"
  iv_status :: invitation_status
  iv_access :: invitation_access
  iv_predefined_role :: "predefined_role option"
  iv_custom_role_id :: "string option"
  iv_world_id :: "string option"
  iv_expires_at :: "instant option"

text \<open>The checks of \<open>Invitation.__post_init__\<close>.\<close>

definition check_invitation :: "invitation \<Rightarrow> invitation result" where
  "check_invitation i =
     (if (iv_predefined_role i = None) = (iv_custom_role_id i = None)
      then Inl (ValueError ''an Invitation must grant exactly one Role'')
      else if iv_access i = PLAY
              \<and> (iv_predefined_role i \<noteq> Some PLAYER \<or> iv_custom_role_id i \<noteq> None)
      then Inl (ValueError ''play Invitations must grant the Player Role'')
      else Inr i)"

section \<open>Access policy\<close>

datatype permission =
    CREATE_WORLD | VIEW_WORLD | WAKE_WORLD | SLEEP_EMPTY_WORLD | EDIT_WORLD | RESTART_WORLD
  | UPDATE_WORLD | FORCE_SLEEP_WORLD | VIEW_LOGS | CREATE_BACKUP | RESTORE_BACKUP
  | MANAGE_MEMBERSHIPS | MANAGE_ROLES | MANAGE_INTEGRATIONS | MANAGE_WALLET
  | MANAGE_WORLD_BUDGET | MIGRATE_WORLD | EXPORT_WORLD | DELETE_WORLD | TRANSFER_OWNERSHIP
  | DELETE_ACCOUNT

record custom_role =
  cu_id :: string
  cu_account_id :: string
  cu_name :: string
  cu_permissions :: "permission set"

definition player_permissions :: "permission set" where
  "player_permissions = set [VIEW_WORLD, WAKE_WORLD, SLEEP_EMPTY_WORLD]"

definition manager_permissions :: "permission set" where
  "manager_permissions = player_permissions \<union>
     set [EDIT_WORLD, RESTART_WORLD, UPDATE_WORLD, FORCE_SLEEP_WORLD, VIEW_LOGS, CREATE_BACKUP,
       RESTORE_BACKUP]"

definition all_permissions :: "permission set" where
  "all_permissions = set
     [CREATE_WORLD, VIEW_WORLD, WAKE_WORLD, SLEEP_EMPTY_WORLD, EDIT_WORLD, RESTART_WORLD,
      UPDATE_WORLD, FORCE_SLEEP_WORLD, VIEW_LOGS, CREATE_BACKUP, RESTORE_BACKUP,
      MANAGE_MEMBERSHIPS, MANAGE_ROLES, MANAGE_INTEGRATIONS, MANAGE_WALLET,
      MANAGE_WORLD_BUDGET, MIGRATE_WORLD, EXPORT_WORLD, DELETE_WORLD, TRANSFER_OWNERSHIP,
      DELETE_ACCOUNT]"

fun predefined_role_permissions :: "predefined_role \<Rightarrow> permission set" where
  "predefined_role_permissions PLAYER = player_permissions"
| "predefined_role_permissions MANAGER = manager_permissions"
| "predefined_role_permissions OWNER = all_permissions"

text \<open>A custom Role that does not exist raises \<open>KeyError\<close>; of two with one id the last counts.\<close>

definition permissions_for ::
    "role_assignment list \<Rightarrow> custom_role list \<Rightarrow> string option \<Rightarrow> permission set result" where
  "permissions_for assignments custom_roles world_id =
     (case effective_role_assignment assignments of
        None \<Rightarrow> Inr {}
      | Some a \<Rightarrow>
          if \<not> applies_to (ra_scope a) world_id then Inr {}
          else (case ra_predefined_role a of
              Some r \<Rightarrow> Inr (predefined_role_permissions r)
            | None \<Rightarrow> (case find (\<lambda>r. Some (cu_id r) = ra_custom_role_id a) (rev custom_roles) of
                Some r \<Rightarrow> Inr (cu_permissions r)
              | None \<Rightarrow> Inl (KeyError (case ra_custom_role_id a of Some i \<Rightarrow> i | None \<Rightarrow> ''None'')))))"

section \<open>Security\<close>

datatype activity_action = MEMBERSHIP_REVOKED | OWNER_RECOVERED | ROLE_ASSIGNMENT_REVOKED

record activity_event =
  ae_id :: string
  ae_account_id :: string
  ae_actor_user_id :: string
  ae_action :: activity_action
  ae_subject_id :: string
  ae_occurred_at :: instant

record sensitive_action_confirmation =
  sc_actor_user_id :: string
  sc_reauthenticated_at :: instant
  sc_confirmed_resource_name :: string

section \<open>The Account aggregate\<close>

record account_snapshot =
  sn_account :: account
  sn_memberships :: "membership list"
  sn_invitations :: "invitation list"
  sn_custom_roles :: "custom_role list"
  sn_activity_events :: "activity_event list"
  sn_version :: nat

definition is_owner :: "membership \<Rightarrow> bool" where
  "is_owner m = (case role_assignment_of m of None \<Rightarrow> False | Some a \<Rightarrow> is_account_owner_assignment a)"

definition owner_count :: "account_snapshot \<Rightarrow> nat" where
  "owner_count s = length (filter is_owner (sn_memberships s))"

definition owner_user_ids :: "account_snapshot \<Rightarrow> string set" where
  "owner_user_ids s = mb_user_id ` set (filter is_owner (sn_memberships s))"

definition is_account_owner :: "account_snapshot \<Rightarrow> string \<Rightarrow> bool" where
  "is_account_owner s user_id \<longleftrightarrow> user_id \<in> owner_user_ids s"

definition member_of :: "account_snapshot \<Rightarrow> string \<Rightarrow> membership option" where
  "member_of s user_id = find (\<lambda>m. mb_user_id m = user_id) (sn_memberships s)"

definition authorize_in ::
    "account_snapshot \<Rightarrow> string \<Rightarrow> permission \<Rightarrow> string option \<Rightarrow> bool result" where
  "authorize_in s user_id p world_id =
     (case member_of s user_id of
        None \<Rightarrow> Inr False
      | Some m \<Rightarrow> (case permissions_for (mb_assignments m) (sn_custom_roles s) world_id of
          Inl e \<Rightarrow> Inl e | Inr ps \<Rightarrow> Inr (p \<in> ps)))"

text \<open>\<open>_verify_sensitive_confirmation\<close>: who, what, and within the last five minutes.\<close>

definition verify_sensitive_confirmation ::
    "instant \<Rightarrow> string \<Rightarrow> string \<Rightarrow> sensitive_action_confirmation option \<Rightarrow> unit result" where
  "verify_sensitive_confirmation now actor name confirmation =
     (let err = Inl (SensitiveActionConfirmationError
        ''the action requires recent reauthentication and exact resource confirmation'')
      in case confirmation of
           None \<Rightarrow> err
         | Some c \<Rightarrow>
             (let age = now - sc_reauthenticated_at c
              in if sc_actor_user_id c \<noteq> actor \<or> sc_confirmed_resource_name c \<noteq> name
                    \<or> age < 0 \<or> minutes 5 < age then err else Inr ()))"

definition ensure_role_replacement_preserves_owner ::
    "account_snapshot \<Rightarrow> membership \<Rightarrow> role_assignment \<Rightarrow> unit result" where
  "ensure_role_replacement_preserves_owner s m replacement =
     (if is_owner m \<and> \<not> is_account_owner_assignment replacement \<and> owner_count s = 1
      then Inl (LastOwnerRemovalError ''an account must retain at least one Owner'')
      else Inr ())"

end
