(* ===== verification/AccountStore.thy ===== *)
theory AccountStore
  imports AccountModel
begin

text \<open>
  The repositories of the Accounts component (\<open>gamewake/accounts/in_memory.py\<close>,
  \<open>recovery.py\<close>, the in-memory notifier of \<open>security.py\<close>) in one state, and the contract of a
  store whose aggregates carry a version that \<open>save\<close> compares and increments.
\<close>

section \<open>Versioned aggregates\<close>

locale versioned_store =
  fixes lookup :: "'s \<Rightarrow> 'k \<Rightarrow> 'v option"
    and save :: "'v \<Rightarrow> nat \<Rightarrow> 's \<Rightarrow> 's result"
    and version :: "'v \<Rightarrow> nat"
    and key :: "'v \<Rightarrow> 'k"
    and stored :: "'v \<Rightarrow> nat \<Rightarrow> 'v"
  assumes save_expected:
      "save v n s = Inr s' \<Longrightarrow> \<exists>current. lookup s (key v) = Some current \<and> version current = n"
    and lookup_save:
      "save v n s = Inr s' \<Longrightarrow> lookup s' k = (if k = key v then Some (stored v n) else lookup s k)"
    and version_stored: "version (stored v n) = Suc n"
begin

text \<open>One aggregate is saved over by other clients: its version grows, or nothing changed.\<close>

definition later :: "'s \<Rightarrow> 's \<Rightarrow> bool" where
  "later s s' \<longleftrightarrow> (\<forall>k v. lookup s k = Some v \<longrightarrow> (\<exists>v'. lookup s' k = Some v'
      \<and> version v \<le> version v' \<and> (version v' = version v \<longrightarrow> v' = v)))"

lemma later_refl: "later s s"
  by (simp add: later_def)

lemma laterE:
  assumes "later s s'" and "lookup s k = Some v"
  obtains v' where "lookup s' k = Some v'" "version v \<le> version v'"
    "version v' = version v \<Longrightarrow> v' = v"
  using assms unfolding later_def by blast

lemma later_trans:
  assumes ab: "later a b" and bc: "later b c" shows "later a c"
  unfolding later_def
proof (intro allI impI)
  fix k v assume v: "lookup a k = Some v"
  obtain v1 where v1: "lookup b k = Some v1" "version v \<le> version v1"
      "version v1 = version v \<Longrightarrow> v1 = v"
    using laterE [OF ab v] by metis
  obtain v2 where v2: "lookup c k = Some v2" "version v1 \<le> version v2"
      "version v2 = version v1 \<Longrightarrow> v2 = v1"
    using laterE [OF bc v1(1)] by metis
  have "v2 = v" if "version v2 = version v"
  proof -
    have "version v1 = version v" using that v1(2) v2(2) by simp
    then show ?thesis using v1(3) v2(3) that by simp
  qed
  with v1 v2 show "\<exists>v'. lookup c k = Some v' \<and> version v \<le> version v'
      \<and> (version v' = version v \<longrightarrow> v' = v)" by auto
qed

lemma later_save:
  assumes save: "save v n s = Inr s'" shows "later s s'"
proof -
  obtain c where c: "lookup s (key v) = Some c" "version c = n" using save_expected [OF save] by blast
  then show ?thesis
    unfolding later_def by (auto simp: lookup_save [OF save] version_stored)
qed

text \<open>
  A save that succeeds under the version that was read replaces exactly the aggregate that
  was read, and everything in between saw that aggregate too.
\<close>

lemma save_replaces_what_was_read:
  assumes read: "lookup s k = Some v" and mid: "later s s1" "later s1 s2"
    and save: "save v' (version v) s2 = Inr s'" and k: "key v' = k"
  shows "lookup s1 k = Some v" and "lookup s2 k = Some v"
proof -
  obtain c where c: "lookup s2 k = Some c" "version c = version v"
    using save_expected [OF save] k by blast
  obtain v1 where v1: "lookup s1 k = Some v1" "version v \<le> version v1"
      "version v1 = version v \<longrightarrow> v1 = v"
    using mid(1) read unfolding later_def by blast
  then obtain v2 where v2: "lookup s2 k = Some v2" "version v1 \<le> version v2"
      "version v2 = version v1 \<longrightarrow> v2 = v1"
    using mid(2) unfolding later_def by blast
  with c v1 have "version v1 = version v" "version v2 = version v1" by auto
  with v1 v2 show "lookup s1 k = Some v" and "lookup s2 k = Some v" by auto
qed

end

section \<open>The state\<close>

record accounts_state =
  as_snapshots :: "(string, account_snapshot) dict"
  as_users :: "(string, user) dict"
  as_identities :: "(identity_provider \<times> string, linked_identity) dict"
  as_recovery :: "(string, string \<times> string list) dict option"
  as_notifications :: "(string set \<times> activity_action \<times> string) list"

text \<open>\<open>as_recovery = None\<close> is \<open>NoOpRecoverySecretStore\<close>.\<close>

definition account_lookup :: "accounts_state \<Rightarrow> string \<Rightarrow> account_snapshot option" where
  "account_lookup st account_id = dict_get (as_snapshots st) account_id"

definition account_get :: "accounts_state \<Rightarrow> string \<Rightarrow> account_snapshot result" where
  "account_get st account_id =
     (case account_lookup st account_id of Some s \<Rightarrow> Inr s | None \<Rightarrow> Inl (KeyError account_id))"

definition find_by_discord_guild :: "accounts_state \<Rightarrow> string \<Rightarrow> account_snapshot option" where
  "find_by_discord_guild st guild_id =
     find (\<lambda>s. ac_discord_guild_id (sn_account s) = Some guild_id) (map snd (as_snapshots st))"

definition list_for_user :: "accounts_state \<Rightarrow> string \<Rightarrow> account_snapshot list" where
  "list_for_user st user_id =
     filter (\<lambda>s. list_ex (\<lambda>m. mb_user_id m = user_id) (sn_memberships s)) (map snd (as_snapshots st))"

definition guild_error :: py_error where
  "guild_error = DiscordGuildAlreadyLinkedError
     ''the Discord Guild is already linked to a GameWake Account''"

definition account_create :: "account \<Rightarrow> membership \<Rightarrow> accounts_state \<Rightarrow> accounts_state result" where
  "account_create account owner st =
     (case ac_discord_guild_id account of
        Some g \<Rightarrow> if find_by_discord_guild st g \<noteq> None then Inl guild_error
                  else Inr (st\<lparr>as_snapshots := dict_set (ac_id account)
                    \<lparr> sn_account = account, sn_memberships = [owner], sn_invitations = [],
                      sn_custom_roles = [], sn_activity_events = [], sn_version = 1 \<rparr>
                    (as_snapshots st)\<rparr>)
      | None \<Rightarrow> Inr (st\<lparr>as_snapshots := dict_set (ac_id account)
                    \<lparr> sn_account = account, sn_memberships = [owner], sn_invitations = [],
                      sn_custom_roles = [], sn_activity_events = [], sn_version = 1 \<rparr>
                    (as_snapshots st)\<rparr>))"

definition account_save :: "account_snapshot \<Rightarrow> nat \<Rightarrow> accounts_state \<Rightarrow> accounts_state result" where
  "account_save s expected_version st =
     (let account_id = ac_id (sn_account s)
      in case account_lookup st account_id of
           None \<Rightarrow> Inl (KeyError account_id)
         | Some current \<Rightarrow>
             if sn_version current \<noteq> expected_version
             then Inl (RuntimeError ''account was changed concurrently'')
             else if (case ac_discord_guild_id (sn_account s) of
                        None \<Rightarrow> False
                      | Some g \<Rightarrow> (case find_by_discord_guild st g of
                          None \<Rightarrow> False
                        | Some linked \<Rightarrow> ac_id (sn_account linked) \<noteq> account_id))
             then Inl guild_error
             else Inr (st\<lparr>as_snapshots := dict_set account_id (s\<lparr>sn_version := expected_version + 1\<rparr>)
                            (as_snapshots st)\<rparr>))"

lemma account_save_lookup:
  "account_save s n st = Inr st' \<Longrightarrow>
     account_lookup st' k = (if k = ac_id (sn_account s) then Some (s\<lparr>sn_version := n + 1\<rparr>)
                          else account_lookup st k)"
  by (auto simp: account_save_def account_lookup_def Let_def split: option.splits if_splits)

lemma account_save_expected:
  "account_save s n st = Inr st' \<Longrightarrow>
     \<exists>c. account_lookup st (ac_id (sn_account s)) = Some c \<and> sn_version c = n"
  by (auto simp: account_save_def Let_def split: option.splits if_splits)

interpretation accounts: versioned_store account_lookup account_save sn_version
    "\<lambda>s. ac_id (sn_account s)" "\<lambda>s n. s\<lparr>sn_version := n + 1\<rparr>"
  by unfold_locales (simp_all add: account_save_lookup account_save_expected)

section \<open>Identities and recovery secrets\<close>

definition find_user_by_identity ::
    "accounts_state \<Rightarrow> identity_provider \<Rightarrow> string \<Rightarrow> user option" where
  "find_user_by_identity st provider provider_user_id =
     (case dict_get (as_identities st) (provider, provider_user_id) of
        None \<Rightarrow> None
      | Some identity \<Rightarrow> dict_get (as_users st) (li_user_id identity))"

definition create_user :: "user \<Rightarrow> linked_identity \<Rightarrow> accounts_state \<Rightarrow> accounts_state" where
  "create_user u identity st =
     st\<lparr> as_users := dict_set (us_id u) u (as_users st),
         as_identities := dict_set (li_provider identity, li_provider_user_id identity) identity
           (as_identities st) \<rparr>"

definition replace_identity :: "linked_identity \<Rightarrow> accounts_state \<Rightarrow> accounts_state" where
  "replace_identity identity st =
     st\<lparr> as_identities := dict_set (li_provider identity, li_provider_user_id identity) identity
           (filter (\<lambda>(_, current). \<not> (li_user_id current = li_user_id identity
                                      \<and> li_provider current = li_provider identity))
             (as_identities st)) \<rparr>"

definition list_linked_identities_of :: "accounts_state \<Rightarrow> string \<Rightarrow> linked_identity list" where
  "list_linked_identities_of st user_id =
     filter (\<lambda>i. li_user_id i = user_id) (map snd (as_identities st))"

definition recovery_put :: "string \<Rightarrow> string \<Rightarrow> string list \<Rightarrow> accounts_state \<Rightarrow> accounts_state result" where
  "recovery_put owner_user_id verified_email hashes st =
     (case as_recovery st of
        None \<Rightarrow> Inl (RuntimeError ''an Owner Recovery secret store must be configured'')
      | Some d \<Rightarrow> Inr (st\<lparr>as_recovery := Some (dict_set owner_user_id (verified_email, hashes) d)\<rparr>))"

definition recovery_is_enabled :: "string \<Rightarrow> accounts_state \<Rightarrow> bool" where
  "recovery_is_enabled owner_user_id st =
     (case as_recovery st of None \<Rightarrow> False | Some d \<Rightarrow> dict_get d owner_user_id \<noteq> None)"

definition recovery_consume :: "string \<Rightarrow> string \<Rightarrow> accounts_state \<Rightarrow> bool \<times> accounts_state" where
  "recovery_consume owner_user_id hash st =
     (case as_recovery st of
        None \<Rightarrow> (False, st)
      | Some d \<Rightarrow> (case dict_get d owner_user_id of
          None \<Rightarrow> (False, st)
        | Some (email, hashes) \<Rightarrow>
            if hash \<notin> set hashes then (False, st)
            else (True, st\<lparr>as_recovery := Some (dict_set owner_user_id
                    (email, removeAll hash hashes) d)\<rparr>)))"

definition notify_owners ::
    "string set \<Rightarrow> activity_action \<Rightarrow> string \<Rightarrow> accounts_state \<Rightarrow> accounts_state" where
  "notify_owners owner_ids action subject_id st =
     st\<lparr>as_notifications := as_notifications st @ [(owner_ids, action, subject_id)]\<rparr>"

end
