(* ===== verification/AccountOps.thy ===== *)
theory AccountOps
  imports AccountStore
begin

text \<open>
  The operations of \<open>class Accounts\<close> (\<open>gamewake/accounts/service.py\<close>), in the order of the
  source. An operation is a function of the state; \<open>av_rival env k\<close> is what other clients do
  to the state before the \<open>k\<close>-th access after the first one, \<open>av_uuid env k\<close> the \<open>k\<close>-th
  \<open>uuid4()\<close>, \<open>av_token env k\<close> the \<open>k\<close>-th \<open>token_urlsafe(12)\<close>, \<open>av_clock env k\<close> the \<open>k\<close>-th
  reading of the clock and \<open>av_hash env\<close> the hexadecimal SHA-256 of a recovery code.
\<close>

record accounts_env =
  av_clock :: "nat \<Rightarrow> instant"
  av_uuid :: "nat \<Rightarrow> string"
  av_token :: "nat \<Rightarrow> string"
  av_hash :: "string \<Rightarrow> string"
  av_rival :: "nat \<Rightarrow> accounts_state \<Rightarrow> accounts_state"

section \<open>Shared steps\<close>

text \<open>\<open>Accounts.authorize\<close>: it reads the Account itself.\<close>

definition authorize ::
    "accounts_state \<Rightarrow> string \<Rightarrow> string \<Rightarrow> permission \<Rightarrow> string option \<Rightarrow> bool result" where
  "authorize st account_id user_id p world_id =
     (case account_get st account_id of
        Inl e \<Rightarrow> Inl e
      | Inr s \<Rightarrow> authorize_in s user_id p world_id)"

text \<open>\<open>if not self.authorize(...): raise PermissionDeniedError(msg)\<close> on the whole Account.\<close>

definition require_access ::
    "accounts_state \<Rightarrow> string \<Rightarrow> string \<Rightarrow> permission \<Rightarrow> string \<Rightarrow> unit result" where
  "require_access st account_id user_id p msg =
     (case authorize st account_id user_id p None of
        Inl e \<Rightarrow> Inl e
      | Inr ok \<Rightarrow> check ok (PermissionDeniedError msg))"

text \<open>The conditional write at the end of an operation, after the other clients' step \<open>k\<close>.\<close>

definition save_account ::
    "accounts_env \<Rightarrow> nat \<Rightarrow> account_snapshot \<Rightarrow> nat \<Rightarrow> 'a \<Rightarrow> accounts_state
     \<Rightarrow> 'a result \<times> accounts_state" where
  "save_account env k s expected_version a st =
     (let st1 = av_rival env k st
      in on_ok (account_save s expected_version st1) st1 (\<lambda>st2. (Inr a, st2)))"

definition put_membership :: "membership \<Rightarrow> string \<Rightarrow> account_snapshot \<Rightarrow> account_snapshot" where
  "put_membership m membership_id s =
     s\<lparr>sn_memberships := replace_where (\<lambda>x. mb_id x = membership_id) m (sn_memberships s)\<rparr>"

definition add_event :: "activity_event \<Rightarrow> account_snapshot \<Rightarrow> account_snapshot" where
  "add_event e s = s\<lparr>sn_activity_events := sn_activity_events s @ [e]\<rparr>"

section \<open>Users and identities\<close>

definition sign_in_with_discord ::
    "accounts_env \<Rightarrow> string \<Rightarrow> string \<Rightarrow> accounts_state \<Rightarrow> user \<times> accounts_state" where
  "sign_in_with_discord env discord_user_id display_name st =
     (case find_user_by_identity st DISCORD discord_user_id of
        Some existing \<Rightarrow> (existing, st)
      | None \<Rightarrow>
          (let user = \<lparr> us_id = av_uuid env 0, us_display_name = display_name \<rparr>;
               identity = \<lparr> li_id = av_uuid env 1, li_user_id = us_id user,
                 li_provider = DISCORD, li_provider_user_id = discord_user_id \<rparr>
           in (user, create_user user identity (av_rival env 0 st))))"

definition get_user :: "accounts_state \<Rightarrow> string \<Rightarrow> user option" where
  "get_user st user_id = dict_get (as_users st) user_id"

definition list_linked_identities ::
    "accounts_state \<Rightarrow> string \<Rightarrow> string \<Rightarrow> linked_identity list result" where
  "list_linked_identities st user_id viewer =
     (if viewer \<noteq> user_id
      then Inl (PermissionDeniedError ''Linked Identities are private to their User'')
      else Inr (list_linked_identities_of st user_id))"

section \<open>Owner Recovery\<close>

definition recovery_codes :: "accounts_env \<Rightarrow> string list" where
  "recovery_codes env = map (av_token env) [0..<8]"

definition enable_owner_recovery ::
    "accounts_env \<Rightarrow> string \<Rightarrow> string \<Rightarrow> string \<Rightarrow> accounts_state
     \<Rightarrow> string list result \<times> accounts_state" where
  "enable_owner_recovery env account_id owner_user_id verified_email st =
     on_ok (account_get st account_id) st (\<lambda>snapshot.
       if \<not> is_account_owner snapshot owner_user_id
       then (Inl (PermissionDeniedError ''Owner Recovery can be enabled only by an Owner''), st)
       else
         (let st1 = av_rival env 0 st
          in on_ok (recovery_put owner_user_id verified_email
                     (map (av_hash env) (recovery_codes env)) st1) st1
               (\<lambda>st2. (Inr (recovery_codes env), st2))))"

definition owner_recovery_ready :: "accounts_state \<Rightarrow> string \<Rightarrow> bool result" where
  "owner_recovery_ready st account_id =
     (case account_get st account_id of
        Inl e \<Rightarrow> Inl e
      | Inr snapshot \<Rightarrow>
          (let owners = remdups (map mb_user_id (filter is_owner (sn_memberships snapshot)))
           in Inr (1 < length owners
                   \<or> length owners = 1 \<and> recovery_is_enabled (hd owners) st)))"

text \<open>
  \<open>_replace_owner_discord_identity\<close>: the identity is replaced first, the Account is saved
  after, and the Owners of the snapshot are notified last.
\<close>

definition replace_owner_discord_identity ::
    "accounts_env \<Rightarrow> account_snapshot \<Rightarrow> string \<Rightarrow> string \<Rightarrow> string \<Rightarrow> accounts_state
     \<Rightarrow> unit result \<times> accounts_state" where
  "replace_owner_discord_identity env snapshot actor owner_user_id new_discord_user_id st =
     (let identity = \<lparr> li_id = av_uuid env 0, li_user_id = owner_user_id,
            li_provider = DISCORD, li_provider_user_id = new_discord_user_id \<rparr>;
          st1 = replace_identity identity (av_rival env 1 st);
          event = \<lparr> ae_id = av_uuid env 1, ae_account_id = ac_id (sn_account snapshot),
            ae_actor_user_id = actor, ae_action = OWNER_RECOVERED,
            ae_subject_id = owner_user_id, ae_occurred_at = av_clock env 1 \<rparr>;
          (r, st2) = save_account env 2 (add_event event snapshot) (sn_version snapshot) () st1
      in on_ok r st2 (\<lambda>_.
           (Inr (), notify_owners (owner_user_ids snapshot) OWNER_RECOVERED owner_user_id st2)))"

definition recover_owner_discord_identity ::
    "accounts_env \<Rightarrow> string \<Rightarrow> string \<Rightarrow> string \<Rightarrow> string \<Rightarrow> accounts_state
     \<Rightarrow> unit result \<times> accounts_state" where
  "recover_owner_discord_identity env account_id owner_user_id code new_discord_user_id st =
     on_ok (account_get st account_id) st (\<lambda>snapshot.
       if \<not> is_account_owner snapshot owner_user_id
       then (Inl (PermissionDeniedError ''Owner Recovery applies only to an Owner''), st)
       else
         (let (consumed, st1) = recovery_consume owner_user_id (av_hash env code) (av_rival env 0 st)
          in if \<not> consumed
             then (Inl (InvalidRecoveryCodeError
                     ''the recovery code is invalid or was already used''), st1)
             else replace_owner_discord_identity env snapshot owner_user_id owner_user_id
                    new_discord_user_id st1))"

definition recover_owner_discord_identity_by_co_owner ::
    "accounts_env \<Rightarrow> string \<Rightarrow> string \<Rightarrow> string \<Rightarrow> string
     \<Rightarrow> sensitive_action_confirmation \<Rightarrow> accounts_state \<Rightarrow> unit result \<times> accounts_state" where
  "recover_owner_discord_identity_by_co_owner env account_id actor lost new_discord_user_id
       confirmation st =
     on_ok (account_get st account_id) st (\<lambda>snapshot.
       if actor = lost \<or> \<not> is_account_owner snapshot actor \<or> \<not> is_account_owner snapshot lost
       then (Inl (PermissionDeniedError
               ''a different current Owner must authorize this recovery''), st)
       else on_ok (verify_sensitive_confirmation (av_clock env 0) actor
                     (ac_name (sn_account snapshot)) (Some confirmation)) st (\<lambda>_.
         replace_owner_discord_identity env snapshot actor lost new_discord_user_id st))"

section \<open>Accounts and the Discord Guild\<close>

definition create_account ::
    "accounts_env \<Rightarrow> string \<Rightarrow> string \<Rightarrow> string option \<Rightarrow> string option \<Rightarrow> accounts_state
     \<Rightarrow> account result \<times> accounts_state" where
  "create_account env name owner_user_id guild channel st =
     (let account = \<lparr> ac_id = av_uuid env 0, ac_name = name, ac_discord_guild_id = guild,
            ac_discord_channel_id = channel \<rparr>
      in on_ok (mk_role_assignment (av_uuid env 2)
                 \<lparr> rs_account_id = ac_id account, rs_world_id = None \<rparr> (Some OWNER) None) st
           (\<lambda>assignment.
             let owner = \<lparr> mb_id = av_uuid env 1, mb_account_id = ac_id account,
                   mb_user_id = owner_user_id, mb_assignments = [assignment] \<rparr>
             in on_ok (account_create account owner st) st (\<lambda>st1. (Inr account, st1))))"

definition find_account_by_discord_guild :: "accounts_state \<Rightarrow> string \<Rightarrow> account option" where
  "find_account_by_discord_guild st guild =
     map_option sn_account (find_by_discord_guild st guild)"

text \<open>\<open>str.isdigit\<close>, on ASCII text.\<close>

definition all_digits :: "string \<Rightarrow> bool" where
  "all_digits s \<longleftrightarrow> s \<noteq> [] \<and> list_all is_digit s"

definition configure_discord_guild ::
    "accounts_env \<Rightarrow> string \<Rightarrow> string \<Rightarrow> string \<Rightarrow> accounts_state
     \<Rightarrow> account result \<times> accounts_state" where
  "configure_discord_guild env account_id actor guild st =
     (if \<not> all_digits guild
      then (Inl (ValueError ''Discord Guild ID must contain only digits''), st)
      else on_ok (account_get st account_id) st (\<lambda>snapshot.
        let st1 = av_rival env 0 st
        in on_ok (require_access st1 account_id actor MANAGE_INTEGRATIONS
                   ''configuring Discord requires integration management permission'') st1 (\<lambda>_.
           let st2 = av_rival env 1 st1
           in if (case find_by_discord_guild st2 guild of None \<Rightarrow> False
                  | Some linked \<Rightarrow> ac_id (sn_account linked) \<noteq> account_id)
              then (Inl guild_error, st2)
              else if ac_discord_guild_id (sn_account snapshot) = Some guild
              then (Inr (sn_account snapshot), st2)
              else (let account = (sn_account snapshot)\<lparr>ac_discord_guild_id := Some guild\<rparr>
                    in save_account env 2 (snapshot\<lparr>sn_account := account\<rparr>) (sn_version snapshot)
                         account st2))))"

definition configure_discord_notification_channel ::
    "accounts_env \<Rightarrow> string \<Rightarrow> string \<Rightarrow> string \<Rightarrow> accounts_state
     \<Rightarrow> account result \<times> accounts_state" where
  "configure_discord_notification_channel env account_id actor channel st =
     (if channel = []
      then (Inl (ValueError ''Discord notification channel is required''), st)
      else on_ok (account_get st account_id) st (\<lambda>snapshot.
        let st1 = av_rival env 0 st
        in on_ok (require_access st1 account_id actor MANAGE_INTEGRATIONS
             ''configuring Discord notifications requires integration management permission'') st1
           (\<lambda>_.
             if ac_discord_channel_id (sn_account snapshot) = Some channel
             then (Inr (sn_account snapshot), st1)
             else (let account = (sn_account snapshot)\<lparr>ac_discord_channel_id := Some channel\<rparr>
                   in save_account env 1 (snapshot\<lparr>sn_account := account\<rparr>) (sn_version snapshot)
                        account st1))))"

section \<open>Listings\<close>

definition list_accounts :: "accounts_state \<Rightarrow> string \<Rightarrow> account list" where
  "list_accounts st user_id = map sn_account (list_for_user st user_id)"

definition visible_to_members ::
    "accounts_state \<Rightarrow> string \<Rightarrow> string \<Rightarrow> string \<Rightarrow> (account_snapshot \<Rightarrow> 'a) \<Rightarrow> 'a result" where
  "visible_to_members st account_id viewer msg f =
     (case account_get st account_id of
        Inl e \<Rightarrow> Inl e
      | Inr s \<Rightarrow> if \<not> list_ex (\<lambda>m. mb_user_id m = viewer) (sn_memberships s)
                then Inl (PermissionDeniedError msg) else Inr (f s))"

definition list_memberships :: "accounts_state \<Rightarrow> string \<Rightarrow> string \<Rightarrow> membership list result" where
  "list_memberships st account_id viewer = visible_to_members st account_id viewer
     ''memberships are visible only inside their account'' sn_memberships"

definition list_invitations ::
    "accounts_env \<Rightarrow> string \<Rightarrow> string \<Rightarrow> accounts_state \<Rightarrow> invitation list result" where
  "list_invitations env account_id viewer st =
     (case require_access st account_id viewer MANAGE_MEMBERSHIPS
             ''invitations require membership management permission'' of
        Inl e \<Rightarrow> Inl e
      | Inr _ \<Rightarrow> (case account_get (av_rival env 0 st) account_id of
          Inl e \<Rightarrow> Inl e | Inr s \<Rightarrow> Inr (sn_invitations s)))"

definition list_activity_events ::
    "accounts_state \<Rightarrow> string \<Rightarrow> string \<Rightarrow> activity_event list result" where
  "list_activity_events st account_id viewer = visible_to_members st account_id viewer
     ''activity is visible only to account members'' sn_activity_events"

definition list_custom_roles ::
    "accounts_state \<Rightarrow> string \<Rightarrow> string \<Rightarrow> custom_role list result" where
  "list_custom_roles st account_id viewer = visible_to_members st account_id viewer
     ''roles are visible only inside their account'' sn_custom_roles"

definition access_for ::
    "accounts_state \<Rightarrow> string \<Rightarrow> string \<Rightarrow> string option
     \<Rightarrow> (membership \<times> permission set) result" where
  "access_for st account_id user_id world_id =
     (case account_get st account_id of
        Inl e \<Rightarrow> Inl e
      | Inr s \<Rightarrow> (case member_of s user_id of
          None \<Rightarrow> Inl (PermissionDeniedError ''access is visible only inside the account'')
        | Some m \<Rightarrow> (case permissions_for (mb_assignments m) (sn_custom_roles s) world_id of
            Inl e \<Rightarrow> Inl e | Inr ps \<Rightarrow> Inr (m, ps))))"

end
