(* ===== verification/AccountAdmin.thy ===== *)
theory AccountAdmin
  imports AccountOps
begin

text \<open>
  The operations of \<open>class Accounts\<close> that administer access: Roles, Invitations and
  Memberships. The Role operations check the permission on one read of the Account and then
  read the Account again; the others read first, so that the save fails when anything changed
  in between.
\<close>

section \<open>Roles\<close>

definition create_custom_role ::
    "accounts_env \<Rightarrow> string \<Rightarrow> string \<Rightarrow> string \<Rightarrow> permission set
     \<Rightarrow> sensitive_action_confirmation option \<Rightarrow> accounts_state
     \<Rightarrow> custom_role result \<times> accounts_state" where
  "create_custom_role env account_id actor name ps confirmation st =
     on_ok (require_access st account_id actor MANAGE_ROLES
              ''creating roles requires role management permission'') st (\<lambda>_.
       let st1 = av_rival env 0 st
       in on_ok (account_get st1 account_id) st1 (\<lambda>snapshot.
            on_ok (verify_sensitive_confirmation (av_clock env 0) actor
                     (ac_name (sn_account snapshot)) confirmation) st1 (\<lambda>_.
              let role = \<lparr> cu_id = av_uuid env 0, cu_account_id = account_id, cu_name = name,
                    cu_permissions = ps \<rparr>
              in save_account env 1
                   (snapshot\<lparr>sn_custom_roles := sn_custom_roles snapshot @ [role]\<rparr>)
                   (sn_version snapshot) role st1)))"

definition assign_custom_role ::
    "accounts_env \<Rightarrow> string \<Rightarrow> string \<Rightarrow> string \<Rightarrow> string \<Rightarrow> string option
     \<Rightarrow> sensitive_action_confirmation option \<Rightarrow> accounts_state
     \<Rightarrow> membership result \<times> accounts_state" where
  "assign_custom_role env account_id actor membership_id custom_role_id world_id confirmation st =
     on_ok (require_access st account_id actor MANAGE_ROLES
              ''assigning roles requires role management permission'') st (\<lambda>_.
       let st1 = av_rival env 0 st
       in on_ok (account_get st1 account_id) st1 (\<lambda>snapshot.
            on_ok (verify_sensitive_confirmation (av_clock env 0) actor
                     (ac_name (sn_account snapshot)) confirmation) st1 (\<lambda>_.
            on_ok (next_where (\<lambda>r. cu_id r = custom_role_id) (sn_custom_roles snapshot)) st1
              (\<lambda>custom_role.
            on_ok (next_where (\<lambda>m. mb_id m = membership_id) (sn_memberships snapshot)) st1
              (\<lambda>membership.
            on_ok (mk_role_assignment (av_uuid env 0)
                     \<lparr> rs_account_id = cu_account_id custom_role, rs_world_id = world_id \<rparr>
                     None (Some (cu_id custom_role))) st1 (\<lambda>assignment.
            on_ok (ensure_role_replacement_preserves_owner snapshot membership assignment) st1
              (\<lambda>_.
              let updated = membership\<lparr>mb_assignments := [assignment]\<rparr>
              in save_account env 1 (put_membership updated membership_id snapshot)
                   (sn_version snapshot) updated st1)))))))"

definition assign_predefined_role ::
    "accounts_env \<Rightarrow> string \<Rightarrow> string \<Rightarrow> string \<Rightarrow> predefined_role \<Rightarrow> string option
     \<Rightarrow> sensitive_action_confirmation option \<Rightarrow> accounts_state
     \<Rightarrow> membership result \<times> accounts_state" where
  "assign_predefined_role env account_id actor membership_id role world_id confirmation st =
     on_ok (require_access st account_id actor MANAGE_ROLES
              ''assigning roles requires role management permission'') st (\<lambda>_.
       let st1 = av_rival env 0 st
       in on_ok (account_get st1 account_id) st1 (\<lambda>snapshot.
            on_ok (verify_sensitive_confirmation (av_clock env 0) actor
                     (ac_name (sn_account snapshot)) confirmation) st1 (\<lambda>_.
            on_ok (next_where (\<lambda>m. mb_id m = membership_id) (sn_memberships snapshot)) st1
              (\<lambda>membership.
            on_ok (mk_role_assignment (av_uuid env 0)
                     \<lparr> rs_account_id = account_id, rs_world_id = world_id \<rparr>
                     (Some role) None) st1 (\<lambda>assignment.
            on_ok (ensure_role_replacement_preserves_owner snapshot membership assignment) st1
              (\<lambda>_.
              let updated = membership\<lparr>mb_assignments := [assignment]\<rparr>
              in save_account env 1 (put_membership updated membership_id snapshot)
                   (sn_version snapshot) updated st1))))))"

definition remove_role_assignment ::
    "accounts_env \<Rightarrow> string \<Rightarrow> string \<Rightarrow> string \<Rightarrow> string
     \<Rightarrow> sensitive_action_confirmation option \<Rightarrow> accounts_state
     \<Rightarrow> membership result \<times> accounts_state" where
  "remove_role_assignment env account_id actor membership_id role_assignment_id confirmation st =
     on_ok (require_access st account_id actor MANAGE_ROLES
              ''removing roles requires role management permission'') st (\<lambda>_.
       let st1 = av_rival env 0 st
       in on_ok (account_get st1 account_id) st1 (\<lambda>snapshot.
            on_ok (verify_sensitive_confirmation (av_clock env 0) actor
                     (ac_name (sn_account snapshot)) confirmation) st1 (\<lambda>_.
            on_ok (next_where (\<lambda>m. mb_id m = membership_id) (sn_memberships snapshot)) st1
              (\<lambda>membership.
            on_ok (next_where (\<lambda>a. ra_id a = role_assignment_id) (mb_assignments membership)) st1
              (\<lambda>assignment.
              if role_assignment_of membership \<noteq> Some assignment
              then (Inl (ValueError ''the Role Assignment is no longer active''), st1)
              else if is_account_owner_assignment assignment \<and> owner_count snapshot = 1
              then (Inl (LastOwnerRemovalError ''an account must retain at least one Owner''), st1)
              else
                (let updated = membership\<lparr>mb_assignments := []\<rparr>;
                     event = \<lparr> ae_id = av_uuid env 0, ae_account_id = account_id,
                       ae_actor_user_id = actor, ae_action = ROLE_ASSIGNMENT_REVOKED,
                       ae_subject_id = role_assignment_id, ae_occurred_at = av_clock env 1 \<rparr>;
                     (r, st2) = save_account env 1
                       (add_event event (put_membership updated membership_id snapshot))
                       (sn_version snapshot) () st1
                 in on_ok r st2 (\<lambda>_. (Inr updated,
                      notify_owners (owner_user_ids snapshot) ROLE_ASSIGNMENT_REVOKED
                        role_assignment_id st2))))))))"

section \<open>Invitations\<close>

text \<open>The direct Invitation of user \<open>u\<close>, with the defaults of the class.\<close>

definition direct_invitation :: "string \<Rightarrow> string \<Rightarrow> string \<Rightarrow> string \<Rightarrow> invitation" where
  "direct_invitation i account_id inviter u =
     \<lparr> iv_id = i, iv_account_id = account_id, iv_inviter_user_id = inviter,
       iv_invited_user_id = Some u, iv_status = PENDING, iv_access = PLAY,
       iv_predefined_role = Some PLAYER, iv_custom_role_id = None, iv_world_id = None,
       iv_expires_at = None \<rparr>"

text \<open>The exception carries the users that are members already; here, as a list without repetitions.\<close>

definition invite_members ::
    "accounts_env \<Rightarrow> string \<Rightarrow> string \<Rightarrow> string list \<Rightarrow> accounts_state
     \<Rightarrow> invitation list result \<times> accounts_state" where
  "invite_members env account_id inviter invited st =
     on_ok (account_get st account_id) st (\<lambda>snapshot.
       let st1 = av_rival env 0 st
       in on_ok (require_access st1 account_id inviter MANAGE_MEMBERSHIPS
                  ''inviting members requires membership management permission'') st1 (\<lambda>_.
            let already = filter (\<lambda>u. u \<in> set invited)
                            (remdups (map mb_user_id (sn_memberships snapshot)))
            in if already \<noteq> [] then (Inl (ExistingMembershipInvitationError already), st1)
               else (let invitations = map (\<lambda>k. direct_invitation (av_uuid env k) account_id inviter
                           (invited ! k)) [0..<length invited]
                     in save_account env 1
                          (snapshot\<lparr>sn_invitations := sn_invitations snapshot @ invitations\<rparr>)
                          (sn_version snapshot) invitations st1)))"

definition create_invitation_link ::
    "accounts_env \<Rightarrow> string \<Rightarrow> string \<Rightarrow> predefined_role option \<Rightarrow> string option
     \<Rightarrow> string option \<Rightarrow> int \<Rightarrow> accounts_state \<Rightarrow> invitation result \<times> accounts_state" where
  "create_invitation_link env account_id inviter role custom_role_id world_id expires_in st =
     on_ok (account_get st account_id) st (\<lambda>snapshot.
       let st1 = av_rival env 0 st
       in on_ok (require_access st1 account_id inviter MANAGE_MEMBERSHIPS
              ''creating invitation links requires membership management permission'') st1 (\<lambda>_.
          if (role = None) = (custom_role_id = None)
          then (Inl (ValueError ''choose exactly one predefined or custom Role''), st1)
          else if role = Some OWNER
          then (Inl (ValueError ''Owner access cannot be granted through an Invitation link''), st1)
          else
            (let access = (if role = Some PLAYER \<and> custom_role_id = None then PLAY else CONSOLE);
                 st2 = (if access = CONSOLE then av_rival env 1 st1 else st1)
             in on_ok (if access = CONSOLE
                       then require_access st2 account_id inviter MANAGE_ROLES
                              ''console invitation links require role management permission''
                       else Inr ()) st2 (\<lambda>_.
                if custom_role_id \<noteq> None
                   \<and> \<not> list_ex (\<lambda>r. Some (cu_id r) = custom_role_id) (sn_custom_roles snapshot)
                then (Inl (ValueError ''the custom Role does not exist''), st2)
                else if expires_in \<le> 0 \<or> days 30 < expires_in
                then (Inl (ValueError ''Invitation expiry must be between one second and 30 days''), st2)
                else on_ok (check_invitation
                       \<lparr> iv_id = av_uuid env 0, iv_account_id = account_id,
                         iv_inviter_user_id = inviter, iv_invited_user_id = None,
                         iv_status = PENDING, iv_access = access, iv_predefined_role = role,
                         iv_custom_role_id = custom_role_id, iv_world_id = world_id,
                         iv_expires_at = Some (av_clock env 0 + expires_in) \<rparr>) st2 (\<lambda>invitation.
                     save_account env 2
                       (snapshot\<lparr>sn_invitations := sn_invitations snapshot @ [invitation]\<rparr>)
                       (sn_version snapshot) invitation st2)))))"

definition get_invitation ::
    "accounts_state \<Rightarrow> string \<Rightarrow> string \<Rightarrow> string \<Rightarrow> (account \<times> invitation) result" where
  "get_invitation st account_id invitation_id viewer =
     (case account_get st account_id of
        Inl e \<Rightarrow> Inl e
      | Inr snapshot \<Rightarrow>
          (case next_where (\<lambda>i. iv_id i = invitation_id) (sn_invitations snapshot) of
             Inl e \<Rightarrow> Inl e
           | Inr invitation \<Rightarrow>
               if iv_invited_user_id invitation \<noteq> None
                  \<and> iv_invited_user_id invitation \<noteq> Some viewer
               then Inl (PermissionDeniedError ''only the invited User can view this Invitation'')
               else Inr (sn_account snapshot, invitation)))"

definition accept_invitation ::
    "accounts_env \<Rightarrow> string \<Rightarrow> string \<Rightarrow> string \<Rightarrow> accounts_state
     \<Rightarrow> membership result \<times> accounts_state" where
  "accept_invitation env account_id invitation_id invited st =
     on_ok (account_get st account_id) st (\<lambda>snapshot.
     on_ok (next_where (\<lambda>i. iv_id i = invitation_id) (sn_invitations snapshot)) st (\<lambda>invitation.
       if iv_invited_user_id invitation \<noteq> Some invited \<and> iv_invited_user_id invitation \<noteq> None
       then (Inl (PermissionDeniedError ''only the invited User can accept this Invitation''), st)
       else if iv_status invitation \<noteq> PENDING
       then (Inl (ValueError ''the Invitation is no longer pending''), st)
       else if (case iv_expires_at invitation of None \<Rightarrow> False | Some t \<Rightarrow> t \<le> av_clock env 0)
       then (Inl (ValueError ''the Invitation has expired''), st)
       else
         (let accepted = invitation\<lparr>iv_status := ACCEPTED\<rparr>
          in on_ok (mk_role_assignment (av_uuid env 0)
                     \<lparr> rs_account_id = account_id, rs_world_id = iv_world_id invitation \<rparr>
                     (iv_predefined_role invitation) (iv_custom_role_id invitation)) st
               (\<lambda>assignment.
               case member_of snapshot invited of
                 Some _ \<Rightarrow>
                   (Inl (ValueError ''the User already has a Membership in this account''), st)
               | None \<Rightarrow>
                   (let membership = \<lparr> mb_id = av_uuid env 1, mb_account_id = account_id,
                          mb_user_id = invited, mb_assignments = [assignment] \<rparr>
                    in save_account env 0
                         (snapshot\<lparr> sn_memberships := sn_memberships snapshot @ [membership],
                                    sn_invitations := replace_where
                                      (\<lambda>i. iv_id i = iv_id invitation) accepted
                                      (sn_invitations snapshot) \<rparr>)
                         (sn_version snapshot) membership st)))))"

definition accept_pending_invitation ::
    "accounts_env \<Rightarrow> string \<Rightarrow> string \<Rightarrow> accounts_state
     \<Rightarrow> membership result \<times> accounts_state" where
  "accept_pending_invitation env account_id invited st =
     on_ok (account_get st account_id) st (\<lambda>snapshot.
       case find (\<lambda>i. iv_invited_user_id i = Some invited \<and> iv_status i = PENDING)
              (sn_invitations snapshot) of
         None \<Rightarrow> (Inl (ValueError ''nao existe convite pendente para voce neste servidor''), st)
       | Some invitation \<Rightarrow>
           accept_invitation env account_id (iv_id invitation) invited (av_rival env 1 st))"

section \<open>Memberships\<close>

definition remove_membership ::
    "accounts_env \<Rightarrow> string \<Rightarrow> string \<Rightarrow> string \<Rightarrow> sensitive_action_confirmation
     \<Rightarrow> accounts_state \<Rightarrow> unit result \<times> accounts_state" where
  "remove_membership env account_id membership_id actor confirmation st =
     on_ok (account_get st account_id) st (\<lambda>snapshot.
       let st1 = av_rival env 0 st
       in on_ok (require_access st1 account_id actor MANAGE_MEMBERSHIPS
                  ''revoking membership requires membership management permission'') st1 (\<lambda>_.
          on_ok (verify_sensitive_confirmation (av_clock env 0) actor
                   (ac_name (sn_account snapshot)) (Some confirmation)) st1 (\<lambda>_.
          on_ok (next_where (\<lambda>m. mb_id m = membership_id) (sn_memberships snapshot)) st1
            (\<lambda>membership.
            if OWNER \<in> roles_of membership \<and> owner_count snapshot = 1
            then (Inl (LastOwnerRemovalError ''an account must retain at least one Owner''), st1)
            else
              (let remaining = filter (\<lambda>m. mb_id m \<noteq> membership_id) (sn_memberships snapshot);
                   event = \<lparr> ae_id = av_uuid env 0, ae_account_id = account_id,
                     ae_actor_user_id = actor, ae_action = MEMBERSHIP_REVOKED,
                     ae_subject_id = membership_id, ae_occurred_at = av_clock env 1 \<rparr>;
                   owners = mb_user_id ` set (filter (\<lambda>m. OWNER \<in> roles_of m)
                     (sn_memberships snapshot));
                   (r, st2) = save_account env 1
                     (add_event event (snapshot\<lparr>sn_memberships := remaining\<rparr>))
                     (sn_version snapshot) () st1
               in on_ok r st2 (\<lambda>_.
                    (Inr (), notify_owners owners MEMBERSHIP_REVOKED membership_id st2)))))))"

end
