(* ===== verification/AccountSafety.thy ===== *)
theory AccountSafety
  imports AccountAdmin
begin

text \<open>
  The invariant of the Accounts component and its preservation. \<open>account_ok k s\<close> is what holds
  of one Account: at least one Owner of the whole Account, one Membership per User, at most one
  Role per Membership, references to custom Roles that exist, Invitations that never grant
  ownership. \<open>accounts_ok U st\<close> adds that no two Accounts share a Discord Guild, and names the
  identifiers in use. One lemma per way of changing a snapshot, one per operation.
\<close>

section \<open>The invariant\<close>

definition has_custom_role :: "account_snapshot \<Rightarrow> string option \<Rightarrow> bool" where
  "has_custom_role s custom \<longleftrightarrow> (\<forall>i. custom = Some i \<longrightarrow> i \<in> cu_id ` set (sn_custom_roles s))"

definition assignment_ok :: "string \<Rightarrow> account_snapshot \<Rightarrow> role_assignment \<Rightarrow> bool" where
  "assignment_ok k s a \<longleftrightarrow> rs_account_id (ra_scope a) = k
     \<and> (ra_predefined_role a = None) \<noteq> (ra_custom_role_id a = None)
     \<and> has_custom_role s (ra_custom_role_id a)"

definition member_ok :: "string \<Rightarrow> account_snapshot \<Rightarrow> membership \<Rightarrow> bool" where
  "member_ok k s m \<longleftrightarrow> mb_account_id m = k \<and> length (mb_assignments m) \<le> 1
     \<and> (\<forall>a \<in> set (mb_assignments m). assignment_ok k s a)"

definition invitation_ok :: "string \<Rightarrow> account_snapshot \<Rightarrow> invitation \<Rightarrow> bool" where
  "invitation_ok k s i \<longleftrightarrow> iv_account_id i = k \<and> check_invitation i = Inr i
     \<and> iv_predefined_role i \<noteq> Some OWNER \<and> has_custom_role s (iv_custom_role_id i)"

definition account_ok :: "string \<Rightarrow> account_snapshot \<Rightarrow> bool" where
  "account_ok k s \<longleftrightarrow> ac_id (sn_account s) = k
     \<and> distinct (map mb_id (sn_memberships s)) \<and> distinct (map mb_user_id (sn_memberships s))
     \<and> (\<forall>m \<in> set (sn_memberships s). member_ok k s m) \<and> 1 \<le> owner_count s
     \<and> distinct (map iv_id (sn_invitations s)) \<and> (\<forall>i \<in> set (sn_invitations s). invitation_ok k s i)
     \<and> distinct (map cu_id (sn_custom_roles s)) \<and> (\<forall>r \<in> set (sn_custom_roles s). cu_account_id r = k)"

definition account_ids :: "account_snapshot \<Rightarrow> string set" where
  "account_ids s = {ac_id (sn_account s)} \<union> mb_id ` set (sn_memberships s)
     \<union> iv_id ` set (sn_invitations s) \<union> cu_id ` set (sn_custom_roles s)"

definition guilds_unique :: "accounts_state \<Rightarrow> bool" where
  "guilds_unique st \<longleftrightarrow> (\<forall>k k' s s' g. account_lookup st k = Some s \<longrightarrow> account_lookup st k' = Some s'
     \<longrightarrow> ac_discord_guild_id (sn_account s) = Some g \<longrightarrow> ac_discord_guild_id (sn_account s') = Some g
     \<longrightarrow> k = k')"

definition accounts_ok :: "string set \<Rightarrow> accounts_state \<Rightarrow> bool" where
  "accounts_ok U st \<longleftrightarrow> distinct (map fst (as_snapshots st)) \<and> guilds_unique st
     \<and> (\<forall>k s. account_lookup st k = Some s \<longrightarrow> account_ok k s \<and> account_ids s \<subseteq> U)"

text \<open>What the environment of an operation promises.\<close>

definition account_rivals_ok :: "string set \<Rightarrow> accounts_env \<Rightarrow> bool" where
  "account_rivals_ok U env \<longleftrightarrow> (\<forall>V k st. U \<subseteq> V \<longrightarrow> accounts_ok V st \<longrightarrow>
     accounts_ok V (av_rival env k st) \<and> accounts.later st (av_rival env k st))"

definition accounts_env_ok :: "string set \<Rightarrow> accounts_env \<Rightarrow> bool" where
  "accounts_env_ok U env \<longleftrightarrow> account_rivals_ok U env \<and> inj (av_uuid env)
     \<and> (\<forall>k. av_uuid env k \<notin> U)"

lemma accounts_env_okD:
  "accounts_env_ok U env \<Longrightarrow> account_rivals_ok U env"
  "accounts_env_ok U env \<Longrightarrow> av_uuid env k \<notin> U"
  by (simp_all add: accounts_env_ok_def)

lemma accounts_ok_mono: "accounts_ok U st \<Longrightarrow> U \<subseteq> V \<Longrightarrow> accounts_ok V st"
  unfolding accounts_ok_def by blast

lemma account_rival_ok:
  "accounts_ok U st \<Longrightarrow> account_rivals_ok U env \<Longrightarrow> accounts_ok U (av_rival env k st)"
  "accounts_ok U st \<Longrightarrow> account_rivals_ok U env \<Longrightarrow> accounts.later st (av_rival env k st)"
  unfolding account_rivals_ok_def by blast+

lemma account_get_Inr [simp]: "account_get st k = Inr s \<longleftrightarrow> account_lookup st k = Some s"
  by (auto simp: account_get_def split: option.splits)

lemma accounts_okD:
  "accounts_ok U st \<Longrightarrow> account_lookup st k = Some s \<Longrightarrow> account_ok k s"
  "accounts_ok U st \<Longrightarrow> account_lookup st k = Some s \<Longrightarrow> account_ids s \<subseteq> U"
  by (auto simp: accounts_ok_def)

lemma account_version_irrelevant [simp]:
  "account_ok k (s\<lparr>sn_version := v\<rparr>) = account_ok k s"
  "account_ids (s\<lparr>sn_version := v\<rparr>) = account_ids s"
  by (simp_all add: account_ok_def account_ids_def member_ok_def assignment_ok_def invitation_ok_def
      has_custom_role_def owner_count_def)

section \<open>The repository keeps it\<close>

lemma lookup_in_snapshots:
  "s \<in> set (map snd (as_snapshots st)) \<Longrightarrow> distinct (map fst (as_snapshots st)) \<Longrightarrow>
     \<exists>k. account_lookup st k = Some s"
  unfolding account_lookup_def by (auto intro: map_of_is_SomeI)

lemma lookup_snd: "account_lookup st k = Some s \<Longrightarrow> s \<in> set (map snd (as_snapshots st))"
  unfolding account_lookup_def by (force dest: map_of_SomeD)

lemma guild_conflict:
  assumes ok: "accounts_ok U st" and other: "account_lookup st k = Some s"
    and g: "ac_discord_guild_id (sn_account s) = Some g"
  shows "find_by_discord_guild st g = Some s"
proof -
  have "find_by_discord_guild st g \<noteq> None"
  proof
    assume "find_by_discord_guild st g = None"
    from find_None_ball [OF this [unfolded find_by_discord_guild_def]] lookup_snd [OF other] g
    show False by blast
  qed
  then obtain t where t: "find_by_discord_guild st g = Some t" by blast
  then have "t \<in> set (map snd (as_snapshots st))" and tg: "ac_discord_guild_id (sn_account t) = Some g"
    unfolding find_by_discord_guild_def by (auto dest: find_Some_iff_mem)
  then obtain k' where "account_lookup st k' = Some t"
    using ok lookup_in_snapshots unfolding accounts_ok_def by blast
  with ok other g tg t show ?thesis unfolding accounts_ok_def guilds_unique_def by fastforce
qed

lemma account_save_ok:
  assumes ok: "accounts_ok U st" and s: "account_ok (ac_id (sn_account s)) s" "account_ids s \<subseteq> U"
    and save: "account_save s v st = Inr st'"
  shows "accounts_ok U st'"
proof -
  let ?k = "ac_id (sn_account s)"
  have "as_snapshots st' = dict_set ?k (s\<lparr>sn_version := v + 1\<rparr>) (as_snapshots st)"
    using save by (auto simp: account_save_def Let_def split: option.splits if_splits)
  then have d: "distinct (map fst (as_snapshots st'))"
    using ok by (simp add: accounts_ok_def distinct_update)
  have free: "ac_id (sn_account linked) = ?k"
    if "ac_discord_guild_id (sn_account s) = Some g" "find_by_discord_guild st g = Some linked"
    for g linked
    using save that by (auto simp: account_save_def Let_def split: option.splits if_splits)
  have clash: "k = ?k" if "account_lookup st k = Some t" "ac_discord_guild_id (sn_account t) = Some g"
    "ac_discord_guild_id (sn_account s) = Some g" for k t g
    using free [OF that(3) guild_conflict [OF ok that(1,2)]] accounts_okD(1) [OF ok that(1)]
    by (simp add: account_ok_def)
  have "guilds_unique st'"
    using ok clash unfolding guilds_unique_def accounts_ok_def account_save_lookup [OF save]
    by (auto split: if_splits)
  moreover have "\<forall>k t. account_lookup st' k = Some t \<longrightarrow> account_ok k t \<and> account_ids t \<subseteq> U"
    using ok s by (auto simp: account_save_lookup [OF save] accounts_ok_def split: if_splits)
  ultimately show ?thesis using d by (simp add: accounts_ok_def)
qed

lemma save_account_ok:
  assumes "accounts_ok U st" and "account_rivals_ok U env"
    and "account_ok (ac_id (sn_account s)) s" "account_ids s \<subseteq> U \<union> D"
  shows "accounts_ok (U \<union> D) (snd (save_account env k s v a st))"
proof -
  have st1: "accounts_ok (U \<union> D) (av_rival env k st)"
    by (rule accounts_ok_mono [OF account_rival_ok(1) [OF assms(1,2)]]) simp
  show ?thesis
    unfolding save_account_def Let_def
    by (rule on_ok_state) (use st1 account_save_ok [OF st1 assms(3,4)] in auto)
qed

text \<open>Changes outside the Accounts.\<close>

lemma accounts_ok_other [simp]:
  "accounts_ok U (create_user u i st) = accounts_ok U st"
  "accounts_ok U (replace_identity i st) = accounts_ok U st"
  "accounts_ok U (notify_owners os a x st) = accounts_ok U st"
  "accounts_ok U (st\<lparr>as_recovery := rec\<rparr>) = accounts_ok U st"
  by (simp_all add: accounts_ok_def guilds_unique_def account_lookup_def create_user_def
      replace_identity_def notify_owners_def)

section \<open>Changes of one Account\<close>

text \<open>Only the list of custom Roles matters to the references, and it only grows.\<close>

lemma has_custom_role_mono:
  "has_custom_role s c \<Longrightarrow> set (sn_custom_roles s) \<subseteq> set (sn_custom_roles s') \<Longrightarrow> has_custom_role s' c"
  unfolding has_custom_role_def by blast

lemma member_ok_mono:
  "member_ok k s m \<Longrightarrow> set (sn_custom_roles s) \<subseteq> set (sn_custom_roles s') \<Longrightarrow> member_ok k s' m"
  by (auto simp: member_ok_def assignment_ok_def elim: has_custom_role_mono)

lemma invitation_ok_mono:
  "invitation_ok k s i \<Longrightarrow> set (sn_custom_roles s) \<subseteq> set (sn_custom_roles s') \<Longrightarrow> invitation_ok k s' i"
  by (auto simp: invitation_ok_def elim: has_custom_role_mono)

lemma account_ok_cong:
  assumes "account_ok k s" and "ac_id (sn_account s') = k"
    and "sn_memberships s' = sn_memberships s" "sn_invitations s' = sn_invitations s"
      "sn_custom_roles s' = sn_custom_roles s"
  shows "account_ok k s'"
  using assms by (simp add: account_ok_def owner_count_def member_ok_def invitation_ok_def
      assignment_ok_def has_custom_role_def)

text \<open>The number of Owners as a sum, so that replacing one Membership is arithmetic.\<close>

definition owner_weight :: "membership \<Rightarrow> int" where
  "owner_weight m = (if is_owner m then 1 else 0)"

lemma owner_count_sum: "int (owner_count s) = sum_list (map owner_weight (sn_memberships s))"
proof -
  have "int (length (filter is_owner ms)) = sum_list (map owner_weight ms)" for ms
    by (induction ms) (simp_all add: owner_weight_def)
  then show ?thesis by (simp add: owner_count_def)
qed

lemma owner_count_put:
  assumes ok: "account_ok k s" and m: "find (\<lambda>x. mb_id x = i) (sn_memberships s) = Some m"
  shows "int (owner_count (put_membership m' i s))
       = int (owner_count s) - owner_weight m + owner_weight m'"
  using sum_list_replace_found [OF _ m, of owner_weight m'] ok
  by (simp add: owner_count_sum put_membership_def account_ok_def)

lemma single_assignment:
  "is_owner (m\<lparr>mb_assignments := [a]\<rparr>) = is_account_owner_assignment a"
  "\<not> is_owner (m\<lparr>mb_assignments := []\<rparr>)"
  by (simp_all add: is_owner_def role_assignment_of_def effective_role_assignment_def)

lemma put_membership_ok:
  assumes ok: "account_ok k s" and m: "find (\<lambda>x. mb_id x = i) (sn_memberships s) = Some m"
    and upd: "as = [] \<or> (\<exists>a. as = [a] \<and> assignment_ok k s a)"
    and owner: "is_owner m \<Longrightarrow> \<not> is_owner (m\<lparr>mb_assignments := as\<rparr>) \<Longrightarrow> owner_count s \<noteq> 1"
  shows "account_ok k (put_membership (m\<lparr>mb_assignments := as\<rparr>) i s)"
    and "account_ids (put_membership (m\<lparr>mb_assignments := as\<rparr>) i s) = account_ids s"
proof -
  let ?m = "m\<lparr>mb_assignments := as\<rparr>" and ?s = "put_membership (m\<lparr>mb_assignments := as\<rparr>) i s"
  have mem: "m \<in> set (sn_memberships s)" "mb_id m = i" using m by (auto dest: find_Some_iff_mem)
  have same: "x = m" if "x \<in> set (sn_memberships s)" "mb_id x = i" for x
    using that mem ok by (auto simp: account_ok_def distinct_map inj_on_def)
  have ids: "map mb_id (sn_memberships ?s) = map mb_id (sn_memberships s)"
    "map mb_user_id (sn_memberships ?s) = map mb_user_id (sn_memberships s)"
    unfolding put_membership_def using same by (auto intro!: map_replace_where simp: mem)
  have "member_ok k s ?m" using ok mem upd by (auto simp: account_ok_def member_ok_def)
  then have all: "\<forall>x \<in> set (sn_memberships ?s). member_ok k s x"
    using ok by (auto simp: put_membership_def account_ok_def intro: ball_replace_where [THEN bspec])
  have "1 \<le> owner_count ?s"
    using owner_count_put [OF ok m, of ?m] ok owner
    by (cases "is_owner m"; cases "is_owner ?m") (auto simp: owner_weight_def account_ok_def)
  with all ids ok show "account_ok k ?s"
    by (auto simp: account_ok_def put_membership_def member_ok_def assignment_ok_def invitation_ok_def
        has_custom_role_def)
  from arg_cong [OF ids(1), of set] show "account_ids ?s = account_ids s"
    by (simp add: account_ids_def) (simp add: put_membership_def)
qed

lemma remove_member_ok:
  assumes ok: "account_ok k s" and m: "find (\<lambda>x. mb_id x = i) (sn_memberships s) = Some m"
    and owner: "is_owner m \<Longrightarrow> owner_count s \<noteq> 1"
  shows "account_ok k (s\<lparr>sn_memberships := filter (\<lambda>x. mb_id x \<noteq> i) (sn_memberships s)\<rparr>)"
proof -
  let ?s = "s\<lparr>sn_memberships := filter (\<lambda>x. mb_id x \<noteq> i) (sn_memberships s)\<rparr>"
  have "distinct (map mb_id ms) \<Longrightarrow> find (\<lambda>x. mb_id x = i) ms = Some m \<Longrightarrow>
      length (filter is_owner (filter (\<lambda>x. mb_id x \<noteq> i) ms)) + (if is_owner m then 1 else 0)
      = length (filter is_owner ms)" for ms
  proof (induction ms)
    case (Cons x xs)
    show ?case
    proof (cases "mb_id x = i")
      case True
      with Cons.prems have "filter (\<lambda>x. mb_id x \<noteq> i) xs = xs" by (force simp: filter_id_conv image_iff)
      with True Cons.prems show ?thesis by simp
    qed (use Cons in \<open>auto split: if_splits\<close>)
  qed simp
  from this [OF _ m] ok owner have "1 \<le> owner_count ?s"
    by (auto simp: account_ok_def owner_count_def split: if_splits)
  with ok show ?thesis
    by (auto simp: account_ok_def distinct_map inj_on_def member_ok_def assignment_ok_def
        invitation_ok_def has_custom_role_def)
qed

lemma add_custom_role_ok:
  assumes ok: "account_ok k s" and new: "cu_account_id r = k" "cu_id r \<notin> account_ids s"
  shows "account_ok k (s\<lparr>sn_custom_roles := sn_custom_roles s @ [r]\<rparr>)"
proof -
  let ?s = "s\<lparr>sn_custom_roles := sn_custom_roles s @ [r]\<rparr>"
  have "\<forall>m \<in> set (sn_memberships s). member_ok k ?s m" "\<forall>i \<in> set (sn_invitations s). invitation_ok k ?s i"
    using ok member_ok_mono [of k s _ ?s] invitation_ok_mono [of k s _ ?s] by (auto simp: account_ok_def)
  with assms show ?thesis
    by (auto simp: account_ok_def account_ids_def owner_count_def)
qed

lemma add_invitations_ok:
  assumes ok: "account_ok k s" and new: "\<forall>i \<in> set is. invitation_ok k s i"
    and fresh: "distinct (map iv_id is)" "iv_id ` set is \<inter> account_ids s = {}"
  shows "account_ok k (s\<lparr>sn_invitations := sn_invitations s @ is\<rparr>)"
  using assms by (auto simp: account_ok_def account_ids_def owner_count_def member_ok_def
      assignment_ok_def invitation_ok_def has_custom_role_def)

lemma accept_ok:
  assumes ok: "account_ok k s" and i: "find (\<lambda>x. iv_id x = n) (sn_invitations s) = Some i"
    and new: "mb_account_id m = k" "mb_assignments m = [a]" "assignment_ok k s a"
    and free: "member_of s (mb_user_id m) = None" "mb_id m \<notin> account_ids s"
  shows "account_ok k (s\<lparr> sn_memberships := sn_memberships s @ [m],
      sn_invitations := replace_where (\<lambda>x. iv_id x = iv_id i) (i\<lparr>iv_status := ACCEPTED\<rparr>)
        (sn_invitations s) \<rparr>)"
    and "account_ids (s\<lparr> sn_memberships := sn_memberships s @ [m],
      sn_invitations := replace_where (\<lambda>x. iv_id x = iv_id i) (i\<lparr>iv_status := ACCEPTED\<rparr>)
        (sn_invitations s) \<rparr>) = insert (mb_id m) (account_ids s)"
proof -
  let ?is = "replace_where (\<lambda>x. iv_id x = iv_id i) (i\<lparr>iv_status := ACCEPTED\<rparr>) (sn_invitations s)"
  have mem: "i \<in> set (sn_invitations s)" using i by (auto dest: find_Some_iff_mem)
  have ids: "map iv_id ?is = map iv_id (sn_invitations s)" by (auto intro!: map_replace_where)
  have "invitation_ok k s i" using ok mem by (simp add: account_ok_def)
  then have "invitation_ok k s (i\<lparr>iv_status := ACCEPTED\<rparr>)"
    by (auto simp: invitation_ok_def check_invitation_def split: if_splits)
  then have "\<forall>x \<in> set ?is. invitation_ok k s x"
    using ok ball_replace_where [of "sn_invitations s" "invitation_ok k s"] by (simp add: account_ok_def)
  moreover have "member_ok k s m" using new by (simp add: member_ok_def)
  moreover have "mb_user_id m \<notin> mb_user_id ` set (sn_memberships s)"
    using find_None_ball [OF free(1) [unfolded member_of_def]] by auto
  ultimately show "account_ok k (s\<lparr>sn_memberships := sn_memberships s @ [m], sn_invitations := ?is\<rparr>)"
    using ok ids free(2)
    by (auto simp: account_ok_def account_ids_def owner_count_def member_ok_def assignment_ok_def
        invitation_ok_def has_custom_role_def)
  from arg_cong [OF ids, of set]
  show "account_ids (s\<lparr>sn_memberships := sn_memberships s @ [m], sn_invitations := ?is\<rparr>)
      = insert (mb_id m) (account_ids s)"
    by (auto simp: account_ids_def)
qed

end
