(* ===== verification/AccountInvariant.thy ===== *)
theory AccountInvariant
  imports AccountSafety
begin

text \<open>
  Every operation of \<open>Accounts\<close> keeps the invariant, under interference between its accesses;
  the component as a transition system (\<open>accounts_call\<close>, \<open>accounts_reach\<close>) and its reachable
  states.
\<close>

section \<open>Each operation\<close>

named_theorems account_call_ok \<open>each operation keeps the accounts well formed\<close>

definition account_uuids :: "accounts_env \<Rightarrow> string set" where
  "account_uuids env = range (av_uuid env)"

lemma accounts_ok_widen: "accounts_ok U st \<Longrightarrow> accounts_ok (U \<union> D) st"
  by (rule accounts_ok_mono) auto

text \<open>
  What an operation may use of its environment: the invariant holds after each step of the
  other clients, what it reads is well formed and knows none of its new identifiers.
\<close>

lemma read_fresh:
  "accounts_ok U st \<Longrightarrow> accounts_env_ok U env \<Longrightarrow> account_lookup st k = Some s \<Longrightarrow>
     av_uuid env n \<notin> account_ids s"
  unfolding accounts_env_ok_def accounts_ok_def by blast

lemma read_key: "accounts_ok U st \<Longrightarrow> account_lookup st k = Some s \<Longrightarrow> ac_id (sn_account s) = k"
  by (simp add: accounts_ok_def account_ok_def)

lemma rival_env_ok:
  "accounts_ok U st \<Longrightarrow> accounts_env_ok U env \<Longrightarrow> accounts_ok U (av_rival env k st)"
  by (simp add: account_rival_ok accounts_env_okD)

lemma save_new_ok:
  assumes "accounts_ok U st" and "accounts_env_ok U env"
    and "account_ok k s'" and "account_ids s' \<subseteq> account_ids s \<union> D"
    and "accounts_ok U st0" "account_lookup st0 k = Some s"
  shows "accounts_ok (U \<union> D) (snd (save_account env n s' v a st))"
proof (rule save_account_ok [OF assms(1) accounts_env_okD(1) [OF assms(2)]])
  show "account_ok (ac_id (sn_account s')) s'" using assms(3) by (simp add: account_ok_def)
  show "account_ids s' \<subseteq> U \<union> D" using assms(4) accounts_okD(2) [OF assms(5,6)] by blast
qed

text \<open>A save whose new snapshot differs in the account's own fields only.\<close>

lemma save_fields_ok:
  assumes "accounts_ok U st" and "accounts_env_ok U env"
    and "accounts_ok U st0" "account_get st0 k = Inr s"
    and "sn_account s = sn_account s' \<or> ac_id (sn_account s') = ac_id (sn_account s)"
      "sn_memberships s' = sn_memberships s"
      "sn_invitations s' = sn_invitations s" "sn_custom_roles s' = sn_custom_roles s"
  shows "accounts_ok (U \<union> D) (snd (save_account env n s' v a st))"
proof -
  have s: "account_lookup st0 k = Some s" using assms by simp
  have ok: "account_ok k s" by (rule accounts_okD(1) [OF assms(3) s])
  have "account_ok k s'" by (rule account_ok_cong [OF ok]) (use assms ok in \<open>auto simp: account_ok_def\<close>)
  moreover have "account_ids s' \<subseteq> account_ids s \<union> D"
    using assms ok by (auto simp: account_ids_def account_ok_def)
  ultimately show ?thesis by (rule save_new_ok [OF assms(1,2) _ _ assms(3) s])
qed

text \<open>The rules that walk through an operation.\<close>

lemma ok_leaf: "accounts_ok U st \<Longrightarrow> accounts_ok (U \<union> D) (snd (r, st))"
  by (simp add: accounts_ok_widen)

lemma ok_step:
  "accounts_ok U st \<Longrightarrow> (\<And>a. r = Inr a \<Longrightarrow> accounts_ok (U \<union> D) (snd (f a))) \<Longrightarrow>
     accounts_ok (U \<union> D) (snd (on_ok r st f))"
  by (rule on_ok_state) (auto intro: accounts_ok_widen)

lemma ok_if:
  "(c \<Longrightarrow> accounts_ok V (snd x)) \<Longrightarrow> (\<not> c \<Longrightarrow> accounts_ok V (snd y)) \<Longrightarrow>
     accounts_ok V (snd (if c then x else y))"
  by simp

lemma ok_if_state:
  "accounts_ok U x \<Longrightarrow> accounts_ok U y \<Longrightarrow> accounts_ok U (if c then x else y)"
  by simp

text \<open>A save followed by the notification of the Owners.\<close>

lemma ok_notified:
  "accounts_ok V (snd p) \<Longrightarrow>
     accounts_ok V (snd (case p of (r, st) \<Rightarrow>
       on_ok r st (\<lambda>x. (Inr b, notify_owners os a i st))))"
  by (cases p) (auto intro: on_ok_state)

lemmas op_intros = ok_leaf ok_step ok_if ok_if_state ok_notified rival_env_ok

lemma add_event_simps [simp]:
  "sn_account (add_event e s) = sn_account s" "sn_memberships (add_event e s) = sn_memberships s"
  "sn_invitations (add_event e s) = sn_invitations s"
  "sn_custom_roles (add_event e s) = sn_custom_roles s" "sn_version (add_event e s) = sn_version s"
  "account_ok k (add_event e s) = account_ok k s" "account_ids (add_event e s) = account_ids s"
  by (simp_all add: add_event_def account_ok_def account_ids_def owner_count_def member_ok_def
      invitation_ok_def assignment_ok_def has_custom_role_def)

lemma put_membership_simps [simp]:
  "sn_account (put_membership m i s) = sn_account s"
  "sn_version (put_membership m i s) = sn_version s"
  "sn_invitations (put_membership m i s) = sn_invitations s"
  "sn_custom_roles (put_membership m i s) = sn_custom_roles s"
  by (simp_all add: put_membership_def)

lemma sign_in_with_discord_ok [account_call_ok]:
  assumes "accounts_ok U st" and "accounts_env_ok U env"
  shows "accounts_ok (U \<union> account_uuids env) (snd (sign_in_with_discord env discord name st))"
proof -
  have "accounts_ok (U \<union> account_uuids env) (av_rival env 0 st)"
    by (intro accounts_ok_widen rival_env_ok assms)
  then show ?thesis
    using accounts_ok_widen [OF assms(1)] by (simp add: sign_in_with_discord_def Let_def split: option.splits)
qed

lemma enable_owner_recovery_ok [account_call_ok]:
  assumes "accounts_ok U st" and "accounts_env_ok U env"
  shows "accounts_ok (U \<union> account_uuids env) (snd (enable_owner_recovery env acc owner email st))"
proof -
  have "accounts_ok U st2" if "recovery_put u e hs (av_rival env 0 st) = Inr st2" for u e hs st2
    using that rival_env_ok [OF assms, of 0] by (auto simp: recovery_put_def split: option.splits)
  then show ?thesis
    using assms unfolding enable_owner_recovery_def Let_def by (intro op_intros)
qed

lemma replace_owner_discord_identity_ok:
  assumes st: "accounts_ok U st" and env: "accounts_env_ok U env"
    and s: "accounts_ok U st0" "account_get st0 k = Inr s"
  shows "accounts_ok (U \<union> D) (snd (replace_owner_discord_identity env s actor owner new st))"
proof -
  have "accounts_ok U (replace_identity i (av_rival env 1 st))" for i
    using rival_env_ok [OF st env] by simp
  then show ?thesis
    unfolding replace_owner_discord_identity_def Let_def
    by (intro ok_notified save_fields_ok [OF _ env s]) simp_all
qed

lemma recover_owner_discord_identity_ok [account_call_ok]:
  assumes st: "accounts_ok U st" and env: "accounts_env_ok U env"
  shows "accounts_ok (U \<union> account_uuids env)
    (snd (recover_owner_discord_identity env acc owner code new st))"
proof -
  let ?p = "recovery_consume owner (av_hash env code) (av_rival env 0 st)"
  have p: "accounts_ok U (snd ?p)"
    using rival_env_ok [OF st env, of 0] by (auto simp: recovery_consume_def split: option.splits)
  show ?thesis
    unfolding recover_owner_discord_identity_def Let_def case_prod_beta
    by (intro op_intros replace_owner_discord_identity_ok [OF _ env st] st p)
qed

lemma recover_by_co_owner_ok [account_call_ok]:
  assumes st: "accounts_ok U st" and env: "accounts_env_ok U env"
  shows "accounts_ok (U \<union> account_uuids env)
     (snd (recover_owner_discord_identity_by_co_owner env acc actor lost new c st))"
  unfolding recover_owner_discord_identity_by_co_owner_def
  by (intro op_intros replace_owner_discord_identity_ok [OF _ env st] st)

lemma create_account_ok [account_call_ok]:
  assumes st: "accounts_ok U st" and env: "accounts_env_ok U env"
  shows "accounts_ok (U \<union> account_uuids env) (snd (create_account env name owner guild channel st))"
proof -
  let ?V = "U \<union> account_uuids env" and ?i = "av_uuid env 0"
  have "accounts_ok ?V st'"
    if create: "account_create a m st = Inr st'" and a: "ac_id a = ?i"
      and m: "member_ok ?i s0 m" "mb_id m = av_uuid env 1" "is_owner m"
      and s0: "s0 = \<lparr> sn_account = a, sn_memberships = [m], sn_invitations = [],
        sn_custom_roles = [], sn_activity_events = [], sn_version = 1 \<rparr>" for a m s0 st'
  proof -
    have st': "as_snapshots st' = dict_set ?i s0 (as_snapshots st)"
      using create a s0 by (auto simp: account_create_def split: option.splits if_splits)
    then have look: "account_lookup st' k = (if k = ?i then Some s0 else account_lookup st k)" for k
      by (auto simp: account_lookup_def)
    have s0_ok: "account_ok ?i s0" "account_ids s0 \<subseteq> ?V"
      using a m s0 by (auto simp: account_ok_def account_ids_def owner_count_def account_uuids_def)
    have "find_by_discord_guild st g = None" if "ac_discord_guild_id a = Some g" for g
      using create that by (auto simp: account_create_def split: option.splits if_splits)
    then have "ac_discord_guild_id (sn_account s) \<noteq> Some g"
      if "ac_discord_guild_id a = Some g" "account_lookup st k = Some s" for s k g
      using guild_conflict [OF st that(2)] that by auto
    then have "guilds_unique st'"
      using st s0 unfolding guilds_unique_def accounts_ok_def look by (auto split: if_splits)
    moreover have "distinct (map fst (as_snapshots st'))"
      using st st' by (simp add: accounts_ok_def distinct_update)
    moreover have "\<forall>k s. account_lookup st' k = Some s \<longrightarrow> account_ok k s \<and> account_ids s \<subseteq> ?V"
      using st s0_ok by (auto simp: look accounts_ok_def)
    ultimately show ?thesis by (simp add: accounts_ok_def)
  qed
  note created = this
  show ?thesis
    unfolding create_account_def Let_def
    by (rule on_ok_state, rule accounts_ok_widen [OF st], rule on_ok_state, rule accounts_ok_widen [OF st])
      (auto intro!: created simp: mk_role_assignment_def member_ok_def assignment_ok_def
        has_custom_role_def is_owner_def role_assignment_of_def effective_role_assignment_def
        is_account_owner_assignment_def)
qed

lemma configure_discord_guild_ok [account_call_ok]:
  assumes st: "accounts_ok U st" and env: "accounts_env_ok U env"
  shows "accounts_ok (U \<union> account_uuids env) (snd (configure_discord_guild env acc actor guild st))"
  unfolding configure_discord_guild_def Let_def
  by (intro op_intros save_fields_ok [OF _ env st] st env) simp_all

lemma configure_discord_notification_channel_ok [account_call_ok]:
  assumes st: "accounts_ok U st" and env: "accounts_env_ok U env"
  shows "accounts_ok (U \<union> account_uuids env)
     (snd (configure_discord_notification_channel env acc actor channel st))"
  unfolding configure_discord_notification_channel_def Let_def
  by (intro op_intros save_fields_ok [OF _ env st] st env) simp_all

text \<open>The Role operations read the Account a second time, after the first rival step.\<close>

lemma mk_role_assignment_ok:
  "mk_role_assignment i \<lparr>rs_account_id = k, rs_world_id = world\<rparr> role custom = Inr a \<Longrightarrow>
     has_custom_role s custom \<Longrightarrow> assignment_ok k s a"
  by (auto simp: mk_role_assignment_def assignment_ok_def split: if_splits)

lemma preserved_owner:
  "ensure_role_replacement_preserves_owner s m a = Inr u \<Longrightarrow> is_owner m \<Longrightarrow>
     \<not> is_owner (m\<lparr>mb_assignments := [a]\<rparr>) \<Longrightarrow> owner_count s \<noteq> 1"
  by (simp add: ensure_role_replacement_preserves_owner_def single_assignment split: if_splits)

lemma create_custom_role_ok [account_call_ok]:
  assumes st: "accounts_ok U st" and env: "accounts_env_ok U env"
  shows "accounts_ok (U \<union> account_uuids env)
     (snd (create_custom_role env acc actor name ps c st))"
proof -
  let ?st1 = "av_rival env 0 st"
  have st1: "accounts_ok U ?st1" by (rule rival_env_ok [OF st env])
  have "accounts_ok (U \<union> account_uuids env) (snd (save_account env 1
      (s\<lparr>sn_custom_roles := sn_custom_roles s @ [\<lparr> cu_id = av_uuid env 0, cu_account_id = acc,
        cu_name = name, cu_permissions = ps \<rparr>]\<rparr>) (sn_version s) r ?st1))"
    if "account_get ?st1 acc = Inr s" for s r
  proof (rule save_new_ok [OF st1 env _ _ st1])
    show s: "account_lookup ?st1 acc = Some s" using that by simp
    show "account_ok acc (s\<lparr>sn_custom_roles := sn_custom_roles s @ [\<lparr> cu_id = av_uuid env 0,
        cu_account_id = acc, cu_name = name, cu_permissions = ps \<rparr>]\<rparr>)"
      by (rule add_custom_role_ok [OF accounts_okD(1) [OF st1 s]])
        (simp_all add: read_fresh [OF st1 env s])
  qed (auto simp: account_ids_def account_uuids_def)
  then show ?thesis
    unfolding create_custom_role_def Let_def by (intro op_intros st env)
qed

lemma save_role_ok:
  assumes st: "accounts_ok U st1" and env: "accounts_env_ok U env"
    and s: "account_get st1 acc = Inr s"
    and m: "next_where (\<lambda>m. mb_id m = i) (sn_memberships s) = Inr m"
    and upd: "as = [] \<or> (\<exists>a. as = [a] \<and> assignment_ok acc s a)"
    and owner: "is_owner m \<Longrightarrow> \<not> is_owner (m\<lparr>mb_assignments := as\<rparr>) \<Longrightarrow> owner_count s \<noteq> 1"
    and s': "s' = put_membership (m\<lparr>mb_assignments := as\<rparr>) i s
      \<or> s' = add_event e (put_membership (m\<lparr>mb_assignments := as\<rparr>) i s)"
  shows "accounts_ok (U \<union> D) (snd (save_account env n s' v r st1))"
proof -
  have look: "account_lookup st1 acc = Some s" using s by simp
  have find: "find (\<lambda>m. mb_id m = i) (sn_memberships s) = Some m"
    using m by (simp add: next_where_Inr)
  note put = put_membership_ok [OF accounts_okD(1) [OF st look] find upd owner]
  have "account_ok acc s'" using s' put(1) by (elim disjE) simp_all
  moreover have "account_ids s' = account_ids s" using s' put(2) by (elim disjE) simp_all
  then have "account_ids s' \<subseteq> account_ids s \<union> D" by blast
  ultimately show ?thesis by (rule save_new_ok [OF st env _ _ st look])
qed

lemma assign_custom_role_ok [account_call_ok]:
  assumes st: "accounts_ok U st" and env: "accounts_env_ok U env"
  shows "accounts_ok (U \<union> account_uuids env)
     (snd (assign_custom_role env acc actor member role world c st))"
proof -
  let ?st1 = "av_rival env 0 st"
  have st1: "accounts_ok U ?st1" by (rule rival_env_ok [OF st env])
  have a: "assignment_ok acc s a"
    if "account_get ?st1 acc = Inr s"
      and r: "next_where (\<lambda>r. cu_id r = role) (sn_custom_roles s) = Inr r"
      and a: "mk_role_assignment i \<lparr>rs_account_id = cu_account_id r, rs_world_id = w\<rparr> None
        (Some (cu_id r)) = Inr a" for s r i w a
  proof -
    have "account_ok acc s" using that(1) accounts_okD(1) [OF st1] by simp
    then have "cu_account_id r = acc" "has_custom_role s (Some (cu_id r))"
      using next_where_InrD [OF r] by (auto simp: account_ok_def has_custom_role_def)
    with a show ?thesis by (auto intro: mk_role_assignment_ok)
  qed
  show ?thesis
    unfolding assign_custom_role_def Let_def
    by (intro op_intros st env save_role_ok [OF st1 env, where as = "[_]"])
      (assumption | rule disjI2 exI conjI refl disjI1 a | erule (2) preserved_owner)+
qed

lemma assign_predefined_role_ok [account_call_ok]:
  assumes st: "accounts_ok U st" and env: "accounts_env_ok U env"
  shows "accounts_ok (U \<union> account_uuids env)
     (snd (assign_predefined_role env acc actor member role world c st))"
proof -
  let ?st1 = "av_rival env 0 st"
  have st1: "accounts_ok U ?st1" by (rule rival_env_ok [OF st env])
  have a: "assignment_ok acc s a"
    if "mk_role_assignment i \<lparr>rs_account_id = acc, rs_world_id = w\<rparr> (Some role) None = Inr a"
    for s i w a
    using that by (rule mk_role_assignment_ok) (simp add: has_custom_role_def)
  show ?thesis
    unfolding assign_predefined_role_def Let_def
    by (intro op_intros st env save_role_ok [OF st1 env, where as = "[_]"])
      (assumption | rule disjI2 exI conjI refl disjI1 a | erule (2) preserved_owner)+
qed

lemma remove_role_assignment_ok [account_call_ok]:
  assumes st: "accounts_ok U st" and env: "accounts_env_ok U env"
  shows "accounts_ok (U \<union> account_uuids env)
     (snd (remove_role_assignment env acc actor member role c st))"
proof -
  let ?st1 = "av_rival env 0 st"
  have st1: "accounts_ok U ?st1" by (rule rival_env_ok [OF st env])
  have owner: "owner_count s \<noteq> 1"
    if "is_owner m" "\<not> role_assignment_of m \<noteq> Some a"
      "\<not> (is_account_owner_assignment a \<and> owner_count s = 1)" for m a s
    using that by (simp add: is_owner_def)
  show ?thesis
    unfolding remove_role_assignment_def Let_def
    by (intro op_intros st env save_role_ok [OF st1 env, where as = "[]"])
      (assumption | (rule disjI1, rule refl) | (rule disjI2, rule refl) | (rule owner, assumption+))+
qed

text \<open>Invitations.\<close>

lemma save_invitations_ok:
  assumes st: "accounts_ok U st" and env: "accounts_env_ok U env"
    and st0: "accounts_ok U st0" and s: "account_get st0 acc = Inr s"
    and new: "\<forall>i \<in> set is. invitation_ok acc s i" "distinct (map iv_id is)"
      "iv_id ` set is \<subseteq> account_uuids env"
  shows "accounts_ok (U \<union> account_uuids env)
    (snd (save_account env n (s\<lparr>sn_invitations := sn_invitations s @ is\<rparr>) v a st))"
proof (rule save_new_ok [OF st env _ _ st0])
  show look: "account_lookup st0 acc = Some s" using s by simp
  have "iv_id ` set is \<inter> account_ids s = {}"
    using new(3) read_fresh [OF st0 env look] by (auto simp: account_uuids_def)
  then show "account_ok acc (s\<lparr>sn_invitations := sn_invitations s @ is\<rparr>)"
    by (rule add_invitations_ok [OF accounts_okD(1) [OF st0 look] new(1,2)])
  show "account_ids (s\<lparr>sn_invitations := sn_invitations s @ is\<rparr>) \<subseteq> account_ids s \<union> account_uuids env"
    using new(3) by (auto simp: account_ids_def)
qed

lemma invite_members_ok [account_call_ok]:
  assumes st: "accounts_ok U st" and env: "accounts_env_ok U env"
  shows "accounts_ok (U \<union> account_uuids env) (snd (invite_members env acc inviter invited st))"
proof -
  let ?is = "map (\<lambda>k. direct_invitation (av_uuid env k) acc inviter (invited ! k)) [0..<length invited]"
  have "inj (av_uuid env)" using env by (simp add: accounts_env_ok_def)
  then have "distinct (map iv_id ?is)" "iv_id ` set ?is \<subseteq> account_uuids env"
    "\<forall>i \<in> set ?is. invitation_ok acc s i" for s
    by (auto simp: distinct_map direct_invitation_def account_uuids_def invitation_ok_def
        check_invitation_def has_custom_role_def inj_def intro!: inj_onI)
  then show ?thesis
    unfolding invite_members_def Let_def
    by (intro op_intros st env save_invitations_ok [OF _ env st])
qed

lemma create_invitation_link_ok [account_call_ok]:
  assumes st: "accounts_ok U st" and env: "accounts_env_ok U env"
  shows "accounts_ok (U \<union> account_uuids env)
    (snd (create_invitation_link env acc inviter role custom world expires st))"
proof -
  have new: "invitation_ok acc s i" "iv_id i \<in> account_uuids env"
    if "\<not> role = Some OWNER"
      "\<not> (custom \<noteq> None \<and> \<not> list_ex (\<lambda>r. Some (cu_id r) = custom) (sn_custom_roles s))"
      "check_invitation \<lparr> iv_id = av_uuid env 0, iv_account_id = acc,
         iv_inviter_user_id = inviter, iv_invited_user_id = None, iv_status = PENDING,
         iv_access = access, iv_predefined_role = role, iv_custom_role_id = custom,
         iv_world_id = world, iv_expires_at = t \<rparr> = Inr i" for i s t access
  proof -
    from that(3) have i: "i = \<lparr> iv_id = av_uuid env 0, iv_account_id = acc,
         iv_inviter_user_id = inviter, iv_invited_user_id = None, iv_status = PENDING,
         iv_access = access, iv_predefined_role = role, iv_custom_role_id = custom,
         iv_world_id = world, iv_expires_at = t \<rparr>"
      by (auto simp: check_invitation_def split: if_splits)
    with that show "invitation_ok acc s i"
      by (auto simp: invitation_ok_def has_custom_role_def list_ex_iff)
    show "iv_id i \<in> account_uuids env" using i by (simp add: account_uuids_def)
  qed
  have st1: "accounts_ok U (av_rival env k st)" for k by (rule rival_env_ok [OF st env])
  show ?thesis
    unfolding create_invitation_link_def Let_def
    by (intro op_intros st env save_invitations_ok [OF _ env st]) (auto intro: new)
qed

lemma accept_invitation_ok [account_call_ok]:
  assumes st: "accounts_ok U st" and env: "accounts_env_ok U env"
  shows "accounts_ok (U \<union> account_uuids env) (snd (accept_invitation env acc i user st))"
proof -
  let ?V = "U \<union> account_uuids env"
  have save: "accounts_ok ?V (snd (save_account env 0
      (s\<lparr> sn_memberships := sn_memberships s @ [m], sn_invitations := replace_where
         (\<lambda>x. iv_id x = iv_id v) (v\<lparr>iv_status := ACCEPTED\<rparr>) (sn_invitations s) \<rparr>) n m st))"
    if s: "account_get st acc = Inr s"
      and v: "next_where (\<lambda>x. iv_id x = i) (sn_invitations s) = Inr v"
      and a: "mk_role_assignment (av_uuid env 0) \<lparr>rs_account_id = acc, rs_world_id = iv_world_id v\<rparr>
        (iv_predefined_role v) (iv_custom_role_id v) = Inr a"
      and free: "member_of s user = None"
      and m: "m = \<lparr> mb_id = av_uuid env 1, mb_account_id = acc, mb_user_id = user,
        mb_assignments = [a] \<rparr>" for s v a m n
  proof -
    have look: "account_lookup st acc = Some s" using s by simp
    note ok = accounts_okD(1) [OF st look]
    have find: "find (\<lambda>x. iv_id x = i) (sn_invitations s) = Some v"
      using v by (simp add: next_where_Inr)
    have "invitation_ok acc s v"
      using next_where_InrD [OF v] ok by (auto simp: account_ok_def)
    then have a_ok: "assignment_ok acc s a"
      using a by (auto simp: invitation_ok_def intro: mk_role_assignment_ok)
    have new: "mb_id m \<notin> account_ids s" "mb_id m \<in> account_uuids env"
      using m read_fresh [OF st env look] by (simp_all add: account_uuids_def)
    note acc = accept_ok [OF ok find, of m a]
    show ?thesis
      by (rule save_new_ok [OF st env acc(1) _ st look]) (use acc(2) m a_ok free new in auto)
  qed
  show ?thesis
    unfolding accept_invitation_def Let_def
    by (intro op_intros st env) (auto split: option.split intro: save accounts_ok_widen [OF st])
qed

lemma accept_pending_invitation_ok [account_call_ok]:
  assumes st: "accounts_ok U st" and env: "accounts_env_ok U env"
  shows "accounts_ok (U \<union> account_uuids env) (snd (accept_pending_invitation env acc user st))"
  unfolding accept_pending_invitation_def
  by (intro op_intros st env)
    (auto split: option.split
      intro: accounts_ok_widen [OF st] accept_invitation_ok [OF rival_env_ok [OF st env] env])

lemma remove_membership_ok [account_call_ok]:
  assumes st: "accounts_ok U st" and env: "accounts_env_ok U env"
  shows "accounts_ok (U \<union> account_uuids env) (snd (remove_membership env acc member actor c st))"
proof -
  have save: "accounts_ok (U \<union> account_uuids env) (snd (save_account env n
      (add_event e (s\<lparr>sn_memberships := filter (\<lambda>x. mb_id x \<noteq> member) (sn_memberships s)\<rparr>)) v r st1))"
    if s: "account_get st acc = Inr s"
      and m: "next_where (\<lambda>m. mb_id m = member) (sn_memberships s) = Inr m"
      and keep: "\<not> (OWNER \<in> roles_of m \<and> owner_count s = 1)" and st1: "accounts_ok U st1"
    for s m n e v r st1
  proof (rule save_new_ok [OF st1 env _ _ st])
    show look: "account_lookup st acc = Some s" using s by simp
    have "is_owner m \<Longrightarrow> OWNER \<in> roles_of m"
      by (auto simp: is_owner_def roles_of_def is_account_owner_assignment_def split: option.splits)
    then have "account_ok acc (s\<lparr>sn_memberships :=
        filter (\<lambda>x. mb_id x \<noteq> member) (sn_memberships s)\<rparr>)"
      using keep m by (intro remove_member_ok [OF accounts_okD(1) [OF st look]])
        (auto simp: next_where_Inr)
    then show "account_ok acc (add_event e (s\<lparr>sn_memberships :=
        filter (\<lambda>x. mb_id x \<noteq> member) (sn_memberships s)\<rparr>))" by simp
  qed (auto simp: account_ids_def)
  show ?thesis
    unfolding remove_membership_def Let_def
    by (intro op_intros st env save)
qed

section \<open>The component as a transition system\<close>

datatype accounts_call =
    Sign_in string string
  | Enable_owner_recovery string string string
  | Recover_identity string string string string
  | Recover_identity_by_co_owner string string string string sensitive_action_confirmation
  | Create_account string string "string option" "string option"
  | Configure_guild string string string
  | Configure_channel string string string
  | Create_custom_role string string string "permission set" "sensitive_action_confirmation option"
  | Assign_custom_role string string string string "string option"
      "sensitive_action_confirmation option"
  | Assign_predefined_role string string string predefined_role "string option"
      "sensitive_action_confirmation option"
  | Remove_role_assignment string string string string "sensitive_action_confirmation option"
  | Invite_members string string "string list"
  | Create_invitation_link string string "predefined_role option" "string option"
      "string option" int
  | Accept_invitation string string string
  | Accept_pending_invitation string string
  | Remove_membership string string string sensitive_action_confirmation

fun run_accounts_call :: "accounts_env \<Rightarrow> accounts_call \<Rightarrow> accounts_state \<Rightarrow> accounts_state" where
  "run_accounts_call env (Sign_in discord name) st = snd (sign_in_with_discord env discord name st)"
| "run_accounts_call env (Enable_owner_recovery acc owner email) st =
     snd (enable_owner_recovery env acc owner email st)"
| "run_accounts_call env (Recover_identity acc owner code new) st =
     snd (recover_owner_discord_identity env acc owner code new st)"
| "run_accounts_call env (Recover_identity_by_co_owner acc actor lost new c) st =
     snd (recover_owner_discord_identity_by_co_owner env acc actor lost new c st)"
| "run_accounts_call env (Create_account name owner guild channel) st =
     snd (create_account env name owner guild channel st)"
| "run_accounts_call env (Configure_guild acc actor guild) st =
     snd (configure_discord_guild env acc actor guild st)"
| "run_accounts_call env (Configure_channel acc actor channel) st =
     snd (configure_discord_notification_channel env acc actor channel st)"
| "run_accounts_call env (Create_custom_role acc actor name ps c) st =
     snd (create_custom_role env acc actor name ps c st)"
| "run_accounts_call env (Assign_custom_role acc actor m role world c) st =
     snd (assign_custom_role env acc actor m role world c st)"
| "run_accounts_call env (Assign_predefined_role acc actor m role world c) st =
     snd (assign_predefined_role env acc actor m role world c st)"
| "run_accounts_call env (Remove_role_assignment acc actor m a c) st =
     snd (remove_role_assignment env acc actor m a c st)"
| "run_accounts_call env (Invite_members acc inviter invited) st =
     snd (invite_members env acc inviter invited st)"
| "run_accounts_call env (Create_invitation_link acc inviter role custom world expires) st =
     snd (create_invitation_link env acc inviter role custom world expires st)"
| "run_accounts_call env (Accept_invitation acc i user) st =
     snd (accept_invitation env acc i user st)"
| "run_accounts_call env (Accept_pending_invitation acc user) st =
     snd (accept_pending_invitation env acc user st)"
| "run_accounts_call env (Remove_membership acc m actor c) st =
     snd (remove_membership env acc m actor c st)"

definition no_accounts :: "(string, string \<times> string list) dict option \<Rightarrow> accounts_state" where
  "no_accounts recovery = \<lparr> as_snapshots = [], as_users = [], as_identities = [],
     as_recovery = recovery, as_notifications = [] \<rparr>"

inductive accounts_reach :: "string set \<Rightarrow> accounts_state \<Rightarrow> bool" where
  accounts_start: "accounts_reach {} (no_accounts recovery)"
| accounts_call: "accounts_reach U st \<Longrightarrow> accounts_env_ok U env \<Longrightarrow>
     accounts_reach (U \<union> account_uuids env) (run_accounts_call env call st)"
| accounts_elsewhere: "accounts_reach U st \<Longrightarrow> U \<subseteq> V \<Longrightarrow> accounts_reach V st"

lemma run_accounts_call_ok:
  "accounts_ok U st \<Longrightarrow> accounts_env_ok U env \<Longrightarrow>
     accounts_ok (U \<union> account_uuids env) (run_accounts_call env call st)"
  by (cases call) (simp_all add: account_call_ok)

lemma no_accounts_ok: "accounts_ok {} (no_accounts recovery)"
  by (simp add: accounts_ok_def guilds_unique_def account_lookup_def no_accounts_def)

lemma accounts_reach_ok: "accounts_reach U st \<Longrightarrow> accounts_ok U st"
  by (induction rule: accounts_reach.induct) (auto intro: no_accounts_ok run_accounts_call_ok accounts_ok_mono)

end
