(* ===== verification/AccountHistory.thy ===== *)
theory AccountHistory
  imports AccountInvariant
begin

text \<open>
  How one Account may change over time, whatever operation runs: the activity log and the custom
  Roles only grow, an Invitation changes only from pending to accepted. Each operation lets every
  stored Account evolve this way, under interference by other clients that do the same.
\<close>

definition invitation_evolves :: "invitation \<Rightarrow> invitation \<Rightarrow> bool" where
  "invitation_evolves i i' \<longleftrightarrow> i' = i \<or> i' = i\<lparr>iv_status := ACCEPTED\<rparr>"

definition account_evolves :: "account_snapshot \<Rightarrow> account_snapshot \<Rightarrow> bool" where
  "account_evolves s s' \<longleftrightarrow> ac_id (sn_account s') = ac_id (sn_account s)
     \<and> ac_name (sn_account s') = ac_name (sn_account s)
     \<and> extends (sn_activity_events s') (sn_activity_events s)
     \<and> extends (sn_custom_roles s') (sn_custom_roles s)
     \<and> (\<exists>is. list_all2 invitation_evolves (sn_invitations s) is \<and> extends (sn_invitations s') is)"

definition accounts_evolve :: "accounts_state \<Rightarrow> accounts_state \<Rightarrow> bool" where
  "accounts_evolve st st' \<longleftrightarrow> (\<forall>k s. account_lookup st k = Some s \<longrightarrow>
     (\<exists>s'. account_lookup st' k = Some s' \<and> account_evolves s s'))"

lemma invitation_evolves_refl [simp]: "invitation_evolves i i"
  by (simp add: invitation_evolves_def)

lemma invitation_evolves_trans:
  "invitation_evolves a b \<Longrightarrow> invitation_evolves b c \<Longrightarrow> invitation_evolves a c"
  by (auto simp: invitation_evolves_def)

lemma account_evolvesI:
  assumes "ac_id (sn_account s') = ac_id (sn_account s)"
    "ac_name (sn_account s') = ac_name (sn_account s)"
    "extends (sn_activity_events s') (sn_activity_events s)"
    "extends (sn_custom_roles s') (sn_custom_roles s)"
    "sn_invitations s' = sn_invitations s @ new"
  shows "account_evolves s s'"
proof -
  have "list_all2 invitation_evolves (sn_invitations s) (sn_invitations s)"
    by (simp add: list_all2_refl)
  with assms show ?thesis unfolding account_evolves_def extends_def by blast
qed

lemma account_evolves_refl [simp]: "account_evolves s s"
  by (rule account_evolvesI [where new = "[]"]) simp_all

lemma account_evolves_trans:
  assumes "account_evolves a b" and "account_evolves b c" shows "account_evolves a c"
proof -
  obtain us ts where us: "list_all2 invitation_evolves (sn_invitations a) us"
      "sn_invitations b = us @ ts"
    using assms(1) by (auto simp: account_evolves_def extends_def)
  obtain vs rs where vs: "list_all2 invitation_evolves (sn_invitations b) vs"
      "sn_invitations c = vs @ rs"
    using assms(2) by (auto simp: account_evolves_def extends_def)
  obtain vs1 vs2 where v: "vs = vs1 @ vs2" "list_all2 invitation_evolves us vs1"
    using vs(1) us(2) by (auto simp: list_all2_append1)
  have "list_all2 invitation_evolves (sn_invitations a) vs1"
    by (rule list_all2_trans [OF _ us(1) v(2)]) (erule (1) invitation_evolves_trans)
  with v vs(2) have "\<exists>is. list_all2 invitation_evolves (sn_invitations a) is
      \<and> extends (sn_invitations c) is"
    by (auto simp: extends_def)
  with assms show ?thesis by (auto simp: account_evolves_def intro: extends_trans)
qed

lemma account_evolves_version [simp]:
  "account_evolves s (s'\<lparr>sn_version := v\<rparr>) = account_evolves s s'"
  by (simp add: account_evolves_def)

lemma accounts_evolve_refl [simp]: "accounts_evolve st st"
  unfolding accounts_evolve_def by (metis account_evolves_refl)

lemma accounts_evolve_trans:
  assumes ab: "accounts_evolve a b" and bc: "accounts_evolve b c" shows "accounts_evolve a c"
  unfolding accounts_evolve_def
proof (intro allI impI)
  fix k s assume "account_lookup a k = Some s"
  then obtain t where t: "account_lookup b k = Some t" "account_evolves s t"
    using ab unfolding accounts_evolve_def by blast
  then obtain u where "account_lookup c k = Some u" "account_evolves t u"
    using bc unfolding accounts_evolve_def by blast
  with t show "\<exists>s'. account_lookup c k = Some s' \<and> account_evolves s s'"
    using account_evolves_trans by blast
qed

section \<open>The rules that walk through an operation\<close>

text \<open>
  \<open>saw st0 st\<close>: since the read in \<open>st0\<close> only versioned saves have happened. All states of an
  operation evolve from the first; a save replaces the snapshot that was read.
\<close>

definition account_rivals_evolve :: "accounts_env \<Rightarrow> bool" where
  "account_rivals_evolve env \<longleftrightarrow> (\<forall>k st. accounts.later st (av_rival env k st)
     \<and> accounts_evolve st (av_rival env k st))"

definition saw :: "accounts_state \<Rightarrow> accounts_state \<Rightarrow> bool" where
  "saw st0 st \<longleftrightarrow> accounts.later st0 st \<and> accounts_evolve st0 st"

lemma saw_refl: "saw st st"
  by (simp add: saw_def accounts.later_refl)

lemma saw_rival: "account_rivals_evolve env \<Longrightarrow> saw st0 st \<Longrightarrow> saw st0 (av_rival env k st)"
  unfolding saw_def account_rivals_evolve_def
  using accounts.later_trans accounts_evolve_trans by blast

lemma saw_trans: "saw a b \<Longrightarrow> saw b c \<Longrightarrow> saw a c"
  unfolding saw_def using accounts.later_trans accounts_evolve_trans by blast

lemma saw_other:
  assumes "\<And>k. account_lookup st' k = account_lookup st k" and "saw st0 st"
  shows "saw st0 st'"
  using assms(2) unfolding saw_def accounts.later_def accounts_evolve_def by (simp add: assms(1))

lemma lookup_other [simp]:
  "account_lookup (create_user u i st) k = account_lookup st k"
  "account_lookup (replace_identity i st) k = account_lookup st k"
  "account_lookup (notify_owners os a x st) k = account_lookup st k"
  "account_lookup (snd (recovery_consume w h st)) k = account_lookup st k"
  by (simp_all add: account_lookup_def create_user_def replace_identity_def notify_owners_def
      recovery_consume_def split: option.split prod.split)

lemma saw_unchanged [simp]:
  "saw st0 st \<Longrightarrow> saw st0 (create_user u i st)"
  "saw st0 st \<Longrightarrow> saw st0 (replace_identity i st)"
  "saw st0 st \<Longrightarrow> saw st0 (notify_owners os a x st)"
  "saw st0 st \<Longrightarrow> saw st0 (snd (recovery_consume w h st))"
  by (auto elim: saw_other [rotated])

lemma save_evolves:
  assumes rivals: "account_rivals_evolve env" and st: "saw st0 st"
    and s: "account_lookup st0 k = Some s" "ac_id (sn_account s') = k" "account_evolves s s'"
  shows "saw st0 (snd (save_account env n s' (sn_version s) a st))"
proof -
  let ?st1 = "av_rival env n st"
  have st1: "saw st0 ?st1" by (rule saw_rival [OF rivals st])
  have "saw st0 st2" if save: "account_save s' (sn_version s) ?st1 = Inr st2" for st2
  proof -
    have same: "account_lookup ?st1 k = Some s"
      using accounts.save_replaces_what_was_read(1) [OF s(1) _ accounts.later_refl save s(2)]
        st1 by (simp add: saw_def)
    have "accounts_evolve ?st1 st2"
      unfolding accounts_evolve_def
      using same s(2,3) by (auto simp: account_save_lookup [OF save] intro: account_evolves_refl)
    moreover have "accounts.later ?st1 st2" by (rule accounts.later_save [OF save])
    ultimately show ?thesis using st1 by (auto intro: saw_trans simp: saw_def [of ?st1])
  qed
  with st1 show ?thesis unfolding save_account_def Let_def by (auto intro: on_ok_state)
qed

lemma walk_leaf: "saw st0 st \<Longrightarrow> saw st0 (snd (r, st))"
  by simp

lemma walk_step:
  "saw st0 st \<Longrightarrow> (\<And>a. r = Inr a \<Longrightarrow> saw st0 (snd (f a))) \<Longrightarrow> saw st0 (snd (on_ok r st f))"
  by (rule on_ok_state)

lemma walk_if:
  "(c \<Longrightarrow> saw st0 (snd x)) \<Longrightarrow> (\<not> c \<Longrightarrow> saw st0 (snd y)) \<Longrightarrow> saw st0 (snd (if c then x else y))"
  by simp

lemma walk_if_state: "saw st0 x \<Longrightarrow> saw st0 y \<Longrightarrow> saw st0 (if c then x else y)"
  by simp

lemma walk_notified:
  "saw st0 (snd p) \<Longrightarrow>
     saw st0 (snd (case p of (r, st) \<Rightarrow> on_ok r st (\<lambda>x. (Inr b, notify_owners os a i st))))"
  by (cases p) (auto intro: on_ok_state)

lemma walk_option:
  "(x = None \<Longrightarrow> saw st0 (snd a)) \<Longrightarrow> (\<And>y. x = Some y \<Longrightarrow> saw st0 (snd (f y))) \<Longrightarrow>
     saw st0 (snd (case x of None \<Rightarrow> a | Some y \<Rightarrow> f y))"
  by (cases x) simp_all

lemmas walk_intros = walk_leaf walk_step walk_if walk_if_state walk_notified walk_option

text \<open>A save of a change of what was read in \<open>st1\<close>, for an operation that started in \<open>st0\<close>.\<close>

lemma walk_save:
  assumes "account_rivals_evolve env" and "saw st0 st1" "saw st1 st" "accounts_ok U st1"
    and "account_get st1 k = Inr s" and evolves: "account_evolves s s'"
    and version: "v = sn_version s"
  shows "saw st0 (snd (save_account env n s' v a st))"
proof -
  have s: "account_lookup st1 k = Some s" using assms by simp
  have "ac_id (sn_account s') = k"
    using read_key [OF assms(4) s] evolves by (simp add: account_evolves_def)
  then show ?thesis
    unfolding version by (rule saw_trans [OF assms(2) save_evolves [OF assms(1,3) s _ evolves]])
qed

lemma evolves_put_membership: "account_evolves s (put_membership m i s)"
  by (rule account_evolvesI [where new = "[]"]) (simp_all add: put_membership_def)

lemma evolves_add_event: "account_evolves s s' \<Longrightarrow> account_evolves s (add_event e s')"
  by (auto simp: account_evolves_def add_event_def intro: extends_trans)

lemma evolves_fields:
  "ac_id a = ac_id (sn_account s) \<Longrightarrow> ac_name a = ac_name (sn_account s) \<Longrightarrow>
     account_evolves s (s\<lparr>sn_account := a\<rparr>)"
  "account_evolves s (s\<lparr>sn_memberships := ms\<rparr>)"
  "account_evolves s (s\<lparr>sn_custom_roles := sn_custom_roles s @ rs\<rparr>)"
  "account_evolves s (s\<lparr>sn_invitations := sn_invitations s @ vs\<rparr>)"
  by (auto intro: account_evolvesI [where new = "[]"] account_evolvesI)

lemma evolves_accept:
  assumes "account_ok k s" and "next_where (\<lambda>x. iv_id x = i) (sn_invitations s) = Inr v"
  shows "account_evolves s (s\<lparr> sn_memberships := ms, sn_invitations := replace_where
      (\<lambda>x. iv_id x = iv_id v) (v\<lparr>iv_status := ACCEPTED\<rparr>) (sn_invitations s) \<rparr>)"
proof -
  have v: "v \<in> set (sn_invitations s)" using next_where_InrD [OF assms(2)] by simp
  have inj: "inj_on iv_id (set (sn_invitations s))"
    using assms(1) by (simp add: account_ok_def distinct_map)
  have "set xs \<subseteq> set (sn_invitations s) \<Longrightarrow> list_all2 invitation_evolves xs
      (replace_where (\<lambda>x. iv_id x = iv_id v) (v\<lparr>iv_status := ACCEPTED\<rparr>) xs)" for xs
  proof (induction xs)
    case (Cons x xs)
    have "x = v" if "iv_id x = iv_id v" using Cons.prems v that inj_onD [OF inj that] by simp
    then have "invitation_evolves x (if iv_id x = iv_id v then v\<lparr>iv_status := ACCEPTED\<rparr> else x)"
      by (cases "x = v") (auto simp: invitation_evolves_def)
    then show ?case using Cons by simp
  qed simp
  then show ?thesis unfolding account_evolves_def by auto
qed

lemmas evolve_intros =
  evolves_put_membership evolves_add_event evolves_fields evolves_accept account_evolves_refl

section \<open>Each operation\<close>

named_theorems history_call \<open>each operation lets the accounts evolve\<close>

lemma walk_sign_in [history_call]:
  assumes "account_rivals_evolve env"
  shows "saw st (snd (sign_in_with_discord env discord name st))"
  using saw_rival [OF assms saw_refl, of st 0] saw_refl [of st]
  by (auto simp: sign_in_with_discord_def Let_def split: option.split)

lemma walk_enable_owner_recovery [history_call]:
  assumes rivals: "account_rivals_evolve env"
  shows "saw st (snd (enable_owner_recovery env acc owner email st))"
proof -
  have "saw st st2" if "recovery_put u e hs (av_rival env 0 st) = Inr st2" for u e hs st2
    by (rule saw_other [OF _ saw_rival [OF rivals saw_refl, of st 0]])
      (use that in \<open>auto simp: recovery_put_def account_lookup_def split: option.splits\<close>)
  then show ?thesis
    unfolding enable_owner_recovery_def Let_def
    by (intro walk_intros saw_refl saw_rival rivals)
qed

lemma walk_replace_identity:
  assumes "account_rivals_evolve env" and "accounts_ok U st0" "account_get st0 k = Inr s"
    and "saw st0 st"
  shows "saw st0 (snd (replace_owner_discord_identity env s actor owner new st))"
  unfolding replace_owner_discord_identity_def Let_def
  by (intro walk_intros walk_save [where k = k and ?st1.0 = st0] assms saw_refl saw_unchanged saw_rival)
    (assumption | rule refl assms evolve_intros)+

lemma walk_recover [history_call]:
  assumes rivals: "account_rivals_evolve env" and st: "accounts_ok U st"
  shows "saw st (snd (recover_owner_discord_identity env acc owner code new st))"
  unfolding recover_owner_discord_identity_def Let_def case_prod_beta
  by (intro walk_intros walk_replace_identity [where k = acc] saw_refl saw_unchanged saw_rival rivals)
    (assumption | rule st)+

lemma walk_recover_by_co_owner [history_call]:
  assumes rivals: "account_rivals_evolve env" and st: "accounts_ok U st"
  shows "saw st (snd (recover_owner_discord_identity_by_co_owner env acc actor lost new c st))"
  unfolding recover_owner_discord_identity_by_co_owner_def
  by (intro walk_intros walk_replace_identity [where k = acc] saw_refl rivals)
    (assumption | rule st)+

lemma walk_configure_guild [history_call]:
  assumes rivals: "account_rivals_evolve env" and st: "accounts_ok U st"
  shows "saw st (snd (configure_discord_guild env acc actor guild st))"
  unfolding configure_discord_guild_def Let_def
  by (intro walk_intros walk_save [where ?st1.0 = st and k = acc] saw_refl saw_rival rivals)
    ((assumption | rule refl st evolve_intros)+, simp_all)

lemma walk_configure_channel [history_call]:
  assumes rivals: "account_rivals_evolve env" and st: "accounts_ok U st"
  shows "saw st (snd (configure_discord_notification_channel env acc actor channel st))"
  unfolding configure_discord_notification_channel_def Let_def
  by (intro walk_intros walk_save [where ?st1.0 = st and k = acc] saw_refl saw_rival rivals)
    ((assumption | rule refl st evolve_intros)+, simp_all)

lemma walk_invite_members [history_call]:
  assumes rivals: "account_rivals_evolve env" and st: "accounts_ok U st"
  shows "saw st (snd (invite_members env acc inviter invited st))"
  unfolding invite_members_def Let_def
  by (intro walk_intros walk_save [where ?st1.0 = st and k = acc] saw_refl saw_rival rivals)
    (assumption | rule refl st evolve_intros)+

lemma walk_create_invitation_link [history_call]:
  assumes rivals: "account_rivals_evolve env" and st: "accounts_ok U st"
  shows "saw st (snd (create_invitation_link env acc inviter role custom world expires st))"
  unfolding create_invitation_link_def Let_def
  by (intro walk_intros walk_save [where ?st1.0 = st and k = acc] saw_refl saw_rival rivals)
    (assumption | rule refl st evolve_intros)+

lemma walk_accept_invitation [history_call]:
  assumes rivals: "account_rivals_evolve env" and st: "accounts_ok U st"
  shows "saw st (snd (accept_invitation env acc i user st))"
proof -
  have "account_evolves s (s\<lparr> sn_memberships := ms, sn_invitations := replace_where
      (\<lambda>x. iv_id x = iv_id v) (v\<lparr>iv_status := ACCEPTED\<rparr>) (sn_invitations s) \<rparr>)"
    if "account_get st acc = Inr s" "next_where (\<lambda>x. iv_id x = i) (sn_invitations s) = Inr v" for s v ms
    using that accounts_okD(1) [OF st] by (intro evolves_accept [where k = acc and i = i]) auto
  then show ?thesis
    unfolding accept_invitation_def Let_def
    by (intro walk_intros walk_save [where ?st1.0 = st and k = acc] saw_refl rivals)
      (assumption | rule refl st)+
qed

lemma walk_accept_pending_invitation [history_call]:
  assumes rivals: "account_rivals_evolve env" and st: "accounts_ok U st" and env: "accounts_env_ok U env"
  shows "saw st (snd (accept_pending_invitation env acc user st))"
  unfolding accept_pending_invitation_def
  by (intro walk_intros saw_refl
      saw_trans [OF saw_rival [OF rivals saw_refl] walk_accept_invitation [OF rivals rival_env_ok [OF st env]]])

lemma walk_remove_membership [history_call]:
  assumes rivals: "account_rivals_evolve env" and st: "accounts_ok U st"
  shows "saw st (snd (remove_membership env acc m actor c st))"
  unfolding remove_membership_def Let_def
  by (intro walk_intros walk_save [where ?st1.0 = st and k = acc] saw_refl saw_rival rivals)
    (assumption | rule refl st evolve_intros)+

lemma walk_role_operations [history_call]:
  assumes rivals: "account_rivals_evolve env" and st: "accounts_ok U st" and env: "accounts_env_ok U env"
  shows "saw st (snd (create_custom_role env acc actor name ps c st))"
    and "saw st (snd (assign_custom_role env acc actor member custom world c st))"
    and "saw st (snd (assign_predefined_role env acc actor member role world c st))"
    and "saw st (snd (remove_role_assignment env acc actor member assignment c st))"
proof -
  let ?st1 = "av_rival env 0 st"
  have st1: "accounts_ok U ?st1" "saw st ?st1"
    by (rule rival_env_ok [OF st env], rule saw_rival [OF rivals saw_refl])
  note save = walk_save [OF rivals st1(2) saw_refl st1(1)]
  show "saw st (snd (create_custom_role env acc actor name ps c st))"
    unfolding create_custom_role_def Let_def by (intro walk_intros save saw_refl st1) (assumption | rule refl evolve_intros)+
  show "saw st (snd (assign_custom_role env acc actor member custom world c st))"
    unfolding assign_custom_role_def Let_def by (intro walk_intros save saw_refl st1) (assumption | rule refl evolve_intros)+
  show "saw st (snd (assign_predefined_role env acc actor member role world c st))"
    unfolding assign_predefined_role_def Let_def by (intro walk_intros save saw_refl st1) (assumption | rule refl evolve_intros)+
  show "saw st (snd (remove_role_assignment env acc actor member assignment c st))"
    unfolding remove_role_assignment_def Let_def by (intro walk_intros save saw_refl st1) (assumption | rule refl evolve_intros)+
qed

lemma walk_create_account [history_call]:
  assumes st: "accounts_ok U st" and env: "accounts_env_ok U env"
  shows "saw st (snd (create_account env name owner guild channel st))"
proof -
  have fresh: "account_lookup st (av_uuid env 0) = None"
  proof (rule ccontr)
    assume "account_lookup st (av_uuid env 0) \<noteq> None"
    then obtain s where s: "account_lookup st (av_uuid env 0) = Some s" by blast
    with read_key [OF st s] read_fresh [OF st env s] show False by (auto simp: account_ids_def)
  qed
  have "saw st st'" if "account_create a m st = Inr st'" "ac_id a = av_uuid env 0" for a m st'
  proof -
    have same: "account_lookup st' k = Some s" if s: "account_lookup st k = Some s" for k s
      using \<open>account_create a m st = Inr st'\<close> \<open>ac_id a = av_uuid env 0\<close> s fresh
      by (auto simp: account_create_def account_lookup_def split: option.splits if_splits)
    then show ?thesis
      unfolding saw_def accounts.later_def accounts_evolve_def by auto
  qed
  then show ?thesis
    unfolding create_account_def Let_def by (intro walk_intros saw_refl) simp_all
qed

lemma run_accounts_call_saw:
  assumes "account_rivals_evolve env" and "accounts_ok U st" and "accounts_env_ok U env"
  shows "saw st (run_accounts_call env call st)"
  using assms by (cases call) (simp_all add: history_call)

end
