(* ===== verification/AccountProperties.thy ===== *)
theory AccountProperties
  imports AccountHistory
begin

text \<open>
  What Accounts guarantees of every state it can reach: ownership, access decisions, revocation,
  Invitations, Owner Recovery, Guild links. The witnesses run a small Account through the real
  operations.
\<close>

section \<open>A small reachable Account\<close>

definition quiet_accounts :: "char \<Rightarrow> instant \<Rightarrow> accounts_env" where
  "quiet_accounts c t = \<lparr> av_clock = (\<lambda>_. t), av_uuid = (\<lambda>k. c # replicate k CHR ''u''),
     av_token = (\<lambda>k. CHR ''t'' # replicate k CHR ''k''), av_hash = (\<lambda>s. CHR ''h'' # s),
     av_rival = (\<lambda>_ st. st) \<rparr>"

definition demo_calls :: "(char \<times> accounts_call) list" where
  "demo_calls = [(CHR ''a'', Create_account ''Guild'' ''olga'' (Some ''7'') None),
     (CHR ''b'', Create_invitation_link ''a'' ''olga'' (Some MANAGER) None (Some ''w1'') 1000000),
     (CHR ''c'', Accept_invitation ''a'' ''b'' ''mia''),
     (CHR ''d'', Enable_owner_recovery ''a'' ''olga'' ''olga@example.org'')]"

definition demo_run :: "nat \<Rightarrow> accounts_state" where
  "demo_run n = fold (\<lambda>(c, call) st. run_accounts_call (quiet_accounts c 0) call st)
     (take n demo_calls) (no_accounts (Some []))"

definition demo_ids :: "nat \<Rightarrow> string set" where
  "demo_ids n = {c # replicate k CHR ''u'' | c k. c \<in> set (take n ''abcd'')}"

lemma quiet_accounts_ok:
  assumes "\<forall>k. c # replicate k CHR ''u'' \<notin> U"
  shows "accounts_env_ok U (quiet_accounts c t)"
  using assms
  by (auto simp: accounts_env_ok_def quiet_accounts_def account_rivals_ok_def accounts.later_refl
      inj_def)

lemma quiet_accounts_evolve: "account_rivals_evolve (quiet_accounts c t)"
  by (simp add: account_rivals_evolve_def quiet_accounts_def accounts.later_refl)

lemma demo_step:
  assumes "accounts_reach (demo_ids n) (demo_run n)" and n: "n < 4"
  shows "accounts_reach (demo_ids (Suc n)) (demo_run (Suc n))"
proof -
  obtain c call where d: "demo_calls ! n = (c, call)" by fastforce
  have len: "n < length demo_calls" using n by (simp add: demo_calls_def)
  have c: "c = ''abcd'' ! n"
    using d n by (auto simp: demo_calls_def less_Suc_eq numeral_eq_Suc)
  have take: "take (Suc n) ''abcd'' = take n ''abcd'' @ [c]"
    unfolding c by (rule take_Suc_conv_app_nth) (use n in simp)
  have new: "c \<notin> set (take n ''abcd'')"
    unfolding c using n by (auto simp: less_Suc_eq numeral_eq_Suc)
  have run: "demo_run (Suc n) = run_accounts_call (quiet_accounts c 0) call (demo_run n)"
    by (simp add: demo_run_def take_Suc_conv_app_nth [OF len] d)
  have ids: "demo_ids (Suc n) = demo_ids n \<union> account_uuids (quiet_accounts c 0)"
    unfolding demo_ids_def take by (auto simp: account_uuids_def quiet_accounts_def)
  have "accounts_env_ok (demo_ids n) (quiet_accounts c 0)"
    by (rule quiet_accounts_ok) (use new in \<open>auto simp: demo_ids_def\<close>)
  then show ?thesis unfolding run ids by (rule accounts_call [OF assms(1)])
qed

lemma demo_reach: "n \<le> 4 \<Longrightarrow> accounts_reach (demo_ids n) (demo_run n)"
proof (induction n)
  case 0
  have "demo_ids 0 = {}" "demo_run 0 = no_accounts (Some [])"
    by (simp_all add: demo_ids_def demo_run_def)
  then show ?case by (simp add: accounts_start)
qed (simp add: demo_step)

lemma demo_env: "accounts_env_ok (demo_ids n) (quiet_accounts CHR ''z'' t)"
  by (rule quiet_accounts_ok) (auto simp: demo_ids_def dest!: in_set_takeD)

lemma authorize_lookup: "account_lookup st k = Some s \<Longrightarrow> authorize st k u p w = authorize_in s u p w"
  by (simp add: authorize_def account_get_def)

section \<open>Ownership\<close>

lemma member_of_member:
  assumes "account_ok k s" and "m \<in> set (sn_memberships s)"
  shows "member_of s (mb_user_id m) = Some m"
proof -
  have "member_of s (mb_user_id m) \<noteq> None"
    using assms(2) find_None_ball unfolding member_of_def by fastforce
  then obtain x where x: "member_of s (mb_user_id m) = Some x" by blast
  then have "x \<in> set (sn_memberships s)" "mb_user_id x = mb_user_id m"
    unfolding member_of_def by (auto dest: find_Some_iff_mem)
  with assms have "x = m" by (auto simp: account_ok_def distinct_map inj_on_def)
  with x show ?thesis by simp
qed

text \<open>
  C12. An Account always has an Owner: in every reachable state each Account has a Membership
  with the Owner Role on the whole Account, and that User is granted every permission on the
  Account and on each of its Worlds.
\<close>

theorem account_always_has_owner:
  assumes "accounts_reach U st" and "account_get st k = Inr s"
  shows "\<exists>m \<in> set (sn_memberships s). is_owner m
     \<and> (\<forall>p w. authorize st k (mb_user_id m) p w = Inr True)"
proof -
  have ok: "account_ok k s" using accounts_okD(1) [OF accounts_reach_ok [OF assms(1)]] assms(2) by simp
  then have "filter is_owner (sn_memberships s) \<noteq> []"
    by (auto simp: account_ok_def owner_count_def)
  then obtain m where m: "m \<in> set (sn_memberships s)" "is_owner m"
    by (auto simp: filter_empty_conv)
  then obtain a where a: "effective_role_assignment (mb_assignments m) = Some a"
      "is_account_owner_assignment a"
    by (auto simp: is_owner_def role_assignment_of_def split: option.splits)
  have "p \<in> all_permissions" for p by (cases p) (simp_all add: all_permissions_def)
  with a have "authorize st k (mb_user_id m) p w = Inr True" for p w
    using assms(2) member_of_member [OF ok m(1)]
    by (simp add: authorize_lookup authorize_in_def permissions_for_def applies_to_def
        is_account_owner_assignment_def)
  with m show ?thesis by blast
qed

lemma account_always_has_owner_witness:
  "\<exists>s. account_get (demo_run 3) ''a'' = Inr s \<and> (\<exists>m \<in> set (sn_memberships s). is_owner m
     \<and> (\<forall>p w. authorize (demo_run 3) ''a'' (mb_user_id m) p w = Inr True))"
proof -
  have "\<not> Option.is_none (account_lookup (demo_run 3) ''a'')" by code_simp
  then obtain s where "account_get (demo_run 3) ''a'' = Inr s"
    by (auto simp: account_get_def Option.is_none_def split: option.splits)
  then show ?thesis using account_always_has_owner [OF demo_reach, of 3 "''a''" s] by auto
qed

section \<open>Access decisions\<close>

definition granted :: "account_snapshot \<Rightarrow> role_assignment \<Rightarrow> permission set" where
  "granted s a = (case ra_predefined_role a of
      Some r \<Rightarrow> predefined_role_permissions r
    | None \<Rightarrow> \<Union> (cu_permissions ` {r \<in> set (sn_custom_roles s). ra_custom_role_id a = Some (cu_id r)}))"

lemma find_unique_role:
  assumes "account_ok k s" and "r \<in> set (sn_custom_roles s)"
  shows "find (\<lambda>x. Some (cu_id x) = Some (cu_id r)) (rev (sn_custom_roles s)) = Some r"
proof -
  have "find (\<lambda>x. Some (cu_id x) = Some (cu_id r)) (rev (sn_custom_roles s)) \<noteq> None"
    using assms(2) find_None_ball by fastforce
  then obtain x where x: "find (\<lambda>x. Some (cu_id x) = Some (cu_id r)) (rev (sn_custom_roles s)) = Some x"
    by blast
  then have "x \<in> set (sn_custom_roles s)" "cu_id x = cu_id r" by (auto dest: find_Some_iff_mem)
  with assms have "x = r" by (auto simp: account_ok_def distinct_map inj_on_def)
  with x show ?thesis by simp
qed

lemma permissions_of_assignment:
  assumes ok: "account_ok k s" and a: "assignment_ok k s a"
  shows "permissions_for [a] (sn_custom_roles s) w =
    Inr (if applies_to (ra_scope a) w then granted s a else {})"
proof -
  have eff: "effective_role_assignment [a] = Some a" by (simp add: effective_role_assignment_def)
  show ?thesis
  proof (cases "ra_predefined_role a")
    case None
    then obtain i where i: "ra_custom_role_id a = Some i" using a by (auto simp: assignment_ok_def)
    then obtain r where r: "r \<in> set (sn_custom_roles s)" "cu_id r = i"
      using a by (auto simp: assignment_ok_def has_custom_role_def)
    have "{x \<in> set (sn_custom_roles s). i = cu_id x} = {r}"
      using ok r by (auto simp: account_ok_def distinct_map inj_on_def)
    then show ?thesis
      using None i r find_unique_role [OF ok r(1)] eff by (simp add: permissions_for_def granted_def)
  qed (simp add: permissions_for_def granted_def eff)
qed

text \<open>
  C13. Access decisions: in every reachable state \<open>authorize\<close> answers without an exception, and
  answers yes exactly when the User has a Membership whose one Role covers the whole Account or
  the very World asked about and grants the permission. A Role on one World grants nothing on
  the Account or on another World.
\<close>

theorem access_is_exactly_the_assigned_role:
  assumes "accounts_reach U st" and "account_get st k = Inr s"
  shows "authorize st k u p w = Inr (\<exists>m \<in> set (sn_memberships s). mb_user_id m = u
    \<and> (\<exists>a. mb_assignments m = [a] \<and> (rs_world_id (ra_scope a) = None
            \<or> w \<noteq> None \<and> w = rs_world_id (ra_scope a)) \<and> p \<in> granted s a))"
proof -
  have look: "account_lookup st k = Some s" using assms(2) by simp
  have ok: "account_ok k s" by (rule accounts_okD(1) [OF accounts_reach_ok [OF assms(1)] look])
  show ?thesis
  proof (cases "member_of s u")
    case None
    then have "\<forall>m \<in> set (sn_memberships s). mb_user_id m \<noteq> u"
      unfolding member_of_def by (auto dest: find_None_ball)
    with None show ?thesis by (auto simp: authorize_lookup [OF look] authorize_in_def)
  next
    case (Some m)
    then have m: "m \<in> set (sn_memberships s)" "mb_user_id m = u"
      unfolding member_of_def by (auto dest: find_Some_iff_mem)
    have only: "x = m" if "x \<in> set (sn_memberships s)" "mb_user_id x = u" for x
      using member_of_member [OF ok that(1)] that(2) Some by simp
    have mem: "member_ok k s m" using ok m by (simp add: account_ok_def)
    have pick: "(\<exists>x \<in> set (sn_memberships s). mb_user_id x = u \<and> P x) = P m" for P
      using only m by blast
    show ?thesis
      unfolding pick
    proof (cases "mb_assignments m")
      case Nil
      with Some show "authorize st k u p w = Inr (\<exists>a. mb_assignments m = [a]
          \<and> (rs_world_id (ra_scope a) = None \<or> w \<noteq> None \<and> w = rs_world_id (ra_scope a))
          \<and> p \<in> granted s a)"
        by (simp add: authorize_lookup [OF look] authorize_in_def permissions_for_def
            effective_role_assignment_def)
    next
      case (Cons a as)
      with mem have a: "mb_assignments m = [a]" "assignment_ok k s a"
        by (simp_all add: member_ok_def)
      with Some permissions_of_assignment [OF ok a(2), of w]
      show "authorize st k u p w = Inr (\<exists>a. mb_assignments m = [a]
          \<and> (rs_world_id (ra_scope a) = None \<or> w \<noteq> None \<and> w = rs_world_id (ra_scope a))
          \<and> p \<in> granted s a)"
        by (simp add: authorize_lookup [OF look] authorize_in_def applies_to_def)
    qed
  qed
qed

lemma access_is_exactly_the_assigned_role_witness:
  "\<exists>s. account_get (demo_run 3) ''a'' = Inr s \<and>
     authorize (demo_run 3) ''a'' ''mia'' EDIT_WORLD (Some ''w1'') = Inr True \<and>
     authorize (demo_run 3) ''a'' ''mia'' EDIT_WORLD (Some ''w1'') =
       Inr (\<exists>m \<in> set (sn_memberships s). mb_user_id m = ''mia''
         \<and> (\<exists>a. mb_assignments m = [a] \<and> (rs_world_id (ra_scope a) = None
            \<or> Some ''w1'' \<noteq> None \<and> Some ''w1'' = rs_world_id (ra_scope a)) \<and> EDIT_WORLD \<in> granted s a))"
proof -
  have "\<not> Option.is_none (account_lookup (demo_run 3) ''a'')" by code_simp
  then obtain s where s: "account_get (demo_run 3) ''a'' = Inr s"
    by (auto simp: account_get_def Option.is_none_def split: option.splits)
  have "authorize (demo_run 3) ''a'' ''mia'' EDIT_WORLD (Some ''w1'') = Inr True" by code_simp
  with s access_is_exactly_the_assigned_role [OF demo_reach s, of "''mia''" EDIT_WORLD "Some ''w1''"]
  show ?thesis by auto
qed

section \<open>Revocation\<close>

lemma save_account_success:
  assumes "save_account env n s v a st = (Inr b, st')"
  shows "b = a" and "account_save s v (av_rival env n st) = Inr st'"
  using assms by (auto simp: save_account_def Let_def elim: on_ok_InrE)

lemma notified_success:
  assumes "(case save_account env n s v () st of (r, st2) \<Rightarrow>
      on_ok r st2 (\<lambda>_. (Inr b, notify_owners os x i st2))) = (Inr c, st')"
  obtains st2 where "account_save s v (av_rival env n st) = Inr st2" "st' = notify_owners os x i st2"
    "c = b"
proof -
  obtain r st2 where p: "save_account env n s v () st = (r, st2)" by fastforce
  with assms obtain u where "r = Inr u" "st' = notify_owners os x i st2" "c = b"
    by (cases r) auto
  with save_account_success [of env n s v "()" st u st2] p show ?thesis
    by (intro that) simp_all
qed

lemma require_access_Inr:
  assumes "require_access st k u p msg = Inr x" and "account_lookup st k = Some s"
  shows "authorize_in s u p None = Inr True"
  using assms by (auto simp: require_access_def authorize_lookup split: sum.splits)

text \<open>
  C14. Revocation: when \<open>remove_membership\<close> succeeds, the actor had the permission, and had
  confirmed the Account's exact name within five minutes, in the very version of the Account that
  was replaced; the removed User has no permission left on the Account or on any World; an Owner
  remains.
\<close>

theorem removed_member_loses_access:
  assumes "accounts_reach U st" and "accounts_env_ok U env"
    and "remove_membership env k i actor c st = (Inr (), st')"
  shows "\<exists>s m s'. account_lookup (av_rival env 1 (av_rival env 0 st)) k = Some s
    \<and> authorize_in s actor MANAGE_MEMBERSHIPS None = Inr True
    \<and> sc_actor_user_id c = actor \<and> sc_confirmed_resource_name c = ac_name (sn_account s)
    \<and> sc_reauthenticated_at c \<le> av_clock env 0
    \<and> av_clock env 0 \<le> sc_reauthenticated_at c + minutes 5
    \<and> m \<in> set (sn_memberships s) \<and> mb_id m = i
    \<and> account_get st' k = Inr s' \<and> sn_version s' = sn_version s + 1
    \<and> (\<forall>p w. authorize st' k (mb_user_id m) p w = Inr False)
    \<and> (\<exists>x \<in> set (sn_memberships s'). is_owner x)"
proof -
  note ok = accounts_reach_ok [OF assms(1)] and rivals = accounts_env_okD(1) [OF assms(2)]
  let ?st1 = "av_rival env 0 st" and ?st2 = "av_rival env 1 (av_rival env 0 st)"
  from assms(3) obtain s u m st3 where s: "account_lookup st k = Some s"
    and access: "require_access ?st1 k actor MANAGE_MEMBERSHIPS
      ''revoking membership requires membership management permission'' = Inr ()"
    and conf: "verify_sensitive_confirmation (av_clock env 0) actor (ac_name (sn_account s)) (Some c)
      = Inr u"
    and m: "next_where (\<lambda>m. mb_id m = i) (sn_memberships s) = Inr m"
    and save: "account_save (add_event \<lparr> ae_id = av_uuid env 0, ae_account_id = k,
        ae_actor_user_id = actor, ae_action = MEMBERSHIP_REVOKED, ae_subject_id = i,
        ae_occurred_at = av_clock env 1 \<rparr>
        (s\<lparr>sn_memberships := filter (\<lambda>m. mb_id m \<noteq> i) (sn_memberships s)\<rparr>)) (sn_version s) ?st2 = Inr st3"
    and st': "\<And>j. account_lookup st' j = account_lookup st3 j"
    unfolding remove_membership_def Let_def
    by (elim on_ok_InrE) (auto elim!: notified_success split: if_splits)
  have later: "accounts.later st ?st1" "accounts.later ?st1 ?st2"
    using account_rival_ok ok rivals by blast+
  have key: "ac_id (sn_account s) = k" by (rule read_key [OF ok s])
  have same: "account_lookup ?st1 k = Some s" "account_lookup ?st2 k = Some s"
    using accounts.save_replaces_what_was_read [OF s later] save key by auto
  let ?s' = "(add_event \<lparr> ae_id = av_uuid env 0, ae_account_id = k,
        ae_actor_user_id = actor, ae_action = MEMBERSHIP_REVOKED, ae_subject_id = i,
        ae_occurred_at = av_clock env 1 \<rparr>
        (s\<lparr>sn_memberships := filter (\<lambda>m. mb_id m \<noteq> i) (sn_memberships s)\<rparr>))\<lparr>sn_version := sn_version s + 1\<rparr>"
  have s': "account_lookup st' k = Some ?s'"
    by (simp add: st' account_save_lookup [OF save] key)
  have s_ok: "account_ok k s" by (rule accounts_okD(1) [OF ok s])
  have mem: "m \<in> set (sn_memberships s)" "mb_id m = i" using next_where_InrD [OF m] by auto
  have "member_of ?s' (mb_user_id m) = None"
    using mem s_ok by (auto simp: member_of_def account_ok_def distinct_map inj_on_def find_None_iff)
  then have "authorize st' k (mb_user_id m) p w = Inr False" for p w
    by (simp add: authorize_lookup [OF s'] authorize_in_def)
  moreover have "accounts_ok (U \<union> account_uuids env) st'"
    using remove_membership_ok [OF ok assms(2), of k i actor c] assms(3) by simp
  then have "account_ok k ?s'" using accounts_okD(1) s' by blast
  then have "filter is_owner (sn_memberships ?s') \<noteq> []" by (auto simp: account_ok_def owner_count_def)
  then have "\<exists>x \<in> set (sn_memberships ?s'). is_owner x" by (auto simp: filter_empty_conv)
  moreover have "sn_version ?s' = sn_version s + 1" by simp
  ultimately show ?thesis
    using same(2) mem s' require_access_Inr [OF access same(1)] conf
    by (intro exI [of _ s] exI [of _ m] exI [of _ ?s'] conjI)
      (auto simp: verify_sensitive_confirmation_def Let_def split: if_splits)
qed

lemma removed_member_loses_access_witness:
  "\<exists>m :: membership. mb_id m = ''cu'' \<and> (\<forall>p w. authorize (snd (remove_membership (quiet_accounts CHR ''z'' 100)
     ''a'' ''cu'' ''olga'' \<lparr> sc_actor_user_id = ''olga'', sc_reauthenticated_at = 50,
       sc_confirmed_resource_name = ''Guild'' \<rparr> (demo_run 3))) ''a'' (mb_user_id m) p w = Inr False)"
proof -
  let ?p = "remove_membership (quiet_accounts CHR ''z'' 100) ''a'' ''cu'' ''olga''
    \<lparr> sc_actor_user_id = ''olga'', sc_reauthenticated_at = 50,
      sc_confirmed_resource_name = ''Guild'' \<rparr> (demo_run 3)"
  have "fst ?p = Inr ()" by code_simp
  then have "?p = (Inr (), snd ?p)" by (metis prod.collapse)
  have "(3::nat) \<le> 4" by simp
  from removed_member_loses_access [OF demo_reach [OF this] demo_env \<open>?p = (Inr (), snd ?p)\<close>] show ?thesis
    by (elim exE conjE) (rule exI, rule conjI, assumption, assumption)
qed

definition demoted_admin_state :: accounts_state where
  "demoted_admin_state = snd (assign_predefined_role (quiet_accounts CHR ''e'' 0) ''a'' ''olga'' ''cu''
     OWNER None (Some \<lparr> sc_actor_user_id = ''olga'', sc_reauthenticated_at = 0,
       sc_confirmed_resource_name = ''Guild'' \<rparr>) (demo_run 3))"

definition demoting_env :: accounts_env where
  "demoting_env = (quiet_accounts CHR ''f'' 0)\<lparr>av_rival := (\<lambda>k st. if k = 0
     then snd (remove_role_assignment (quiet_accounts CHR ''g'' 0) ''a'' ''olga'' ''cu'' ''e''
       (Some \<lparr> sc_actor_user_id = ''olga'', sc_reauthenticated_at = 0,
         sc_confirmed_resource_name = ''Guild'' \<rparr>) st) else st)\<rparr>"

text \<open>
  C15. Creating a custom Role trusts its first read: when the Account is well formed in the state in
  which \<open>create_custom_role\<close> reads it and in the one in which it saves it, the operation succeeds exactly
  when the actor had the permission to manage Roles in the state before both, the confirmation names
  the Account as it was read and is fresh, and nobody saved the Account between the read and the save;
  then the Role is added to that very version. What the actor may do in the version that is read and
  replaced plays no part: an administrator who was demoted in between still creates the Role.
\<close>

theorem role_creation_trusts_the_first_read:
  fixes env st
  defines "st1 \<equiv> av_rival env 0 st"
  defines "st2 \<equiv> av_rival env 1 st1"
  assumes "accounts_ok U st1" and "accounts_ok U st2" and "accounts.later st1 st2"
  shows "create_custom_role env k actor name ps conf st = (Inr role, st') \<longleftrightarrow>
    role = \<lparr> cu_id = av_uuid env 0, cu_account_id = k, cu_name = name, cu_permissions = ps \<rparr>
    \<and> authorize st k actor MANAGE_ROLES None = Inr True
    \<and> (\<exists>s c. account_lookup st1 k = Some s \<and> account_lookup st2 k = Some s \<and> conf = Some c
        \<and> sc_actor_user_id c = actor \<and> sc_confirmed_resource_name c = ac_name (sn_account s)
        \<and> sc_reauthenticated_at c \<le> av_clock env 0 \<and> av_clock env 0 \<le> sc_reauthenticated_at c + minutes 5
        \<and> st' = st2\<lparr>as_snapshots := dict_set k (s\<lparr> sn_custom_roles := sn_custom_roles s @ [role],
             sn_version := sn_version s + 1 \<rparr>) (as_snapshots st2)\<rparr>)"
    (is "?run = (Inr role, st') \<longleftrightarrow> ?done")
proof
  assume run: "?run = (Inr role, st')"
  let ?r = "\<lparr> cu_id = av_uuid env 0, cu_account_id = k, cu_name = name, cu_permissions = ps \<rparr>"
  from run obtain s where access: "authorize st k actor MANAGE_ROLES None = Inr True"
    and s: "account_lookup st1 k = Some s"
    and conf: "verify_sensitive_confirmation (av_clock env 0) actor (ac_name (sn_account s)) conf = Inr ()"
    and save: "save_account env 1 (s\<lparr>sn_custom_roles := sn_custom_roles s @ [?r]\<rparr>) (sn_version s) ?r st1
      = (Inr role, st')"
    unfolding create_custom_role_def Let_def st1_def [symmetric]
    by (elim on_ok_InrE) (auto simp: require_access_def check_def split: sum.splits if_splits)
  have key: "ac_id (sn_account s) = k" by (rule read_key [OF assms(3) s])
  note saved = save_account_success [OF save]
  have "account_lookup st2 k = Some s"
    using accounts.save_replaces_what_was_read(1) [OF s assms(5) accounts.later_refl
      saved(2) [folded st2_def]] key by simp
  moreover have "st' = st2\<lparr>as_snapshots := dict_set k (s\<lparr> sn_custom_roles := sn_custom_roles s @ [?r],
      sn_version := sn_version s + 1 \<rparr>) (as_snapshots st2)\<rparr>"
    using saved(2) [folded st2_def] key calculation
    by (auto simp: account_save_def Let_def split: option.splits if_splits)
  ultimately show ?done
    using access s conf saved(1)
    by (auto simp: verify_sensitive_confirmation_def Let_def split: option.splits if_splits)
next
  assume d: ?done
  then obtain s c where s: "account_lookup st1 k = Some s" "account_lookup st2 k = Some s"
    and c: "conf = Some c" "sc_actor_user_id c = actor" "sc_confirmed_resource_name c = ac_name (sn_account s)"
      "sc_reauthenticated_at c \<le> av_clock env 0" "av_clock env 0 \<le> sc_reauthenticated_at c + minutes 5"
    and access: "authorize st k actor MANAGE_ROLES None = Inr True"
    and role: "role = \<lparr> cu_id = av_uuid env 0, cu_account_id = k, cu_name = name, cu_permissions = ps \<rparr>"
    and st': "st' = st2\<lparr>as_snapshots := dict_set k (s\<lparr> sn_custom_roles := sn_custom_roles s @ [role],
             sn_version := sn_version s + 1 \<rparr>) (as_snapshots st2)\<rparr>"
    by blast
  have key: "ac_id (sn_account s) = k" by (rule read_key [OF assms(3) s(1)])
  have "account_save (s\<lparr>sn_custom_roles := sn_custom_roles s @ [role]\<rparr>) (sn_version s) st2 = Inr st'"
    using s(2) key guild_conflict [OF assms(4) s(2)] st'
    by (auto simp: account_save_def Let_def split: option.splits)
  then show "?run = (Inr role, st')"
    using s c access role
    by (simp add: create_custom_role_def require_access_def check_def verify_sensitive_confirmation_def
        save_account_def account_get_def Let_def st1_def [symmetric] st2_def [unfolded One_nat_def, symmetric]
        on_ok_def)
qed

lemma role_creation_trusts_the_first_read_witness:
  "authorize (av_rival demoting_env 0 demoted_admin_state) ''a'' ''mia'' MANAGE_ROLES None = Inr False
   \<and> (\<exists>st'. create_custom_role demoting_env ''a'' ''mia'' ''Mods'' {MANAGE_WALLET}
       (Some \<lparr> sc_actor_user_id = ''mia'', sc_reauthenticated_at = 0,
         sc_confirmed_resource_name = ''Guild'' \<rparr>) demoted_admin_state
     = (Inr \<lparr> cu_id = ''f'', cu_account_id = ''a'', cu_name = ''Mods'', cu_permissions = {MANAGE_WALLET} \<rparr>, st'))"
proof -
  let ?st1 = "av_rival demoting_env 0 demoted_admin_state"
  have env: "accounts_env_ok (demo_ids n \<union> V) (quiet_accounts c 0)"
    if "c \<notin> set ''abcd''" "\<forall>x \<in> V. hd x \<noteq> c" for n V c
    using that by (intro quiet_accounts_ok) (auto simp: demo_ids_def dest!: in_set_takeD)
  have n: "(3 :: nat) \<le> 4" by simp
  have "accounts_ok (demo_ids 3 \<union> {}) (demo_run 3)" using accounts_reach_ok [OF demo_reach [OF n]] by simp
  from assign_predefined_role_ok [OF this env [of "CHR ''e''" "{}" 3]]
  have "accounts_ok (demo_ids 3 \<union> account_uuids (quiet_accounts CHR ''e'' 0)) demoted_admin_state"
    by (simp add: demoted_admin_state_def)
  from remove_role_assignment_ok [OF this env [of "CHR ''g''"]]
  have ok: "accounts_ok (demo_ids 3 \<union> account_uuids (quiet_accounts CHR ''e'' 0)
      \<union> account_uuids (quiet_accounts CHR ''g'' 0)) ?st1"
    by (auto simp: demoting_env_def account_uuids_def quiet_accounts_def)
  have same: "av_rival demoting_env 1 ?st1 = ?st1" by (simp add: demoting_env_def)
  have "map_option (\<lambda>s. ac_name (sn_account s)) (account_lookup ?st1 ''a'') = Some ''Guild''" by code_simp
  then obtain s where s: "account_lookup ?st1 ''a'' = Some s" "ac_name (sn_account s) = ''Guild''" by auto
  have who: "authorize demoted_admin_state ''a'' ''mia'' MANAGE_ROLES None = Inr True"
    "authorize ?st1 ''a'' ''mia'' MANAGE_ROLES None = Inr False" by code_simp+
  have clock: "av_clock demoting_env 0 = 0" "av_uuid demoting_env 0 = ''f''"
    by (simp_all add: demoting_env_def quiet_accounts_def)
  show ?thesis
    using role_creation_trusts_the_first_read [of _ demoting_env demoted_admin_state, unfolded same,
        OF ok ok accounts.later_refl, of "''a''" "''mia''" "''Mods''" "{MANAGE_WALLET}"] s who clock
    by (auto simp: time_units)
qed

end
