(* ===== verification/InvitationProperties.thy ===== *)
theory InvitationProperties
  imports AccountProperties
begin

text \<open>
  Invitations, the history of an Account, Guild links and Owner Recovery.
\<close>

section \<open>Later states\<close>

text \<open>
  \<open>accounts_leads U st V st'\<close>: any number of operations, each under interference that only adds
  to the history, lead from \<open>st\<close> to \<open>st'\<close>.
\<close>

inductive accounts_leads ::
    "string set \<Rightarrow> accounts_state \<Rightarrow> string set \<Rightarrow> accounts_state \<Rightarrow> bool" where
  leads_refl: "accounts_leads U st U st"
| leads_call: "accounts_leads U st V st1 \<Longrightarrow> accounts_env_ok V env \<Longrightarrow> account_rivals_evolve env \<Longrightarrow>
     accounts_leads U st (V \<union> account_uuids env) (run_accounts_call env call st1)"

lemma leads_ok:
  "accounts_leads U st V st' \<Longrightarrow> accounts_ok U st \<Longrightarrow> accounts_ok V st' \<and> saw st st'"
proof (induction rule: accounts_leads.induct)
  case (leads_refl U st)
  then show ?case by (simp add: saw_refl)
next
  case (leads_call U st V st1 env call)
  then show ?case
    using run_accounts_call_ok run_accounts_call_saw saw_trans by blast
qed

text \<open>
  C16. The history of an Account only grows: in every later state an Account still exists, under
  its name; its activity events and custom Roles are those it had, followed by new ones; its
  version has not decreased, and the same version means the same Account.
\<close>

theorem account_history_only_grows:
  assumes "accounts_reach U st" and "accounts_leads U st V st'" and "account_get st k = Inr s"
  shows "\<exists>s'. account_get st' k = Inr s' \<and> ac_name (sn_account s') = ac_name (sn_account s)
    \<and> extends (sn_activity_events s') (sn_activity_events s)
    \<and> extends (sn_custom_roles s') (sn_custom_roles s)
    \<and> sn_version s \<le> sn_version s' \<and> (sn_version s' = sn_version s \<longrightarrow> s' = s)"
proof -
  have look: "account_lookup st k = Some s" using assms(3) by simp
  have saw: "saw st st'" using leads_ok [OF assms(2) accounts_reach_ok [OF assms(1)]] by simp
  obtain s' where "account_lookup st' k = Some s'" "account_evolves s s'"
    using saw look unfolding saw_def accounts_evolve_def by blast
  moreover obtain v where "account_lookup st' k = Some v" "sn_version s \<le> sn_version v"
      "sn_version v = sn_version s \<Longrightarrow> v = s"
    using accounts.laterE [of st st' k s] saw look unfolding saw_def by blast
  ultimately show ?thesis by (auto simp: account_evolves_def)
qed

lemma account_history_only_grows_witness:
  "\<exists>s s'. account_get (demo_run 3) ''a'' = Inr s \<and> account_get (run_accounts_call
     (quiet_accounts CHR ''z'' 0) (Invite_members ''a'' ''olga'' [''leo'']) (demo_run 3)) ''a'' = Inr s'
     \<and> sn_version s \<le> sn_version s'"
proof -
  have "\<not> Option.is_none (account_lookup (demo_run 3) ''a'')" by code_simp
  then obtain s where s: "account_get (demo_run 3) ''a'' = Inr s"
    by (auto simp: account_get_def Option.is_none_def split: option.splits)
  have n: "(3::nat) \<le> 4" by simp
  show ?thesis
    using account_history_only_grows [OF demo_reach [OF n] leads_call [OF leads_refl demo_env
        quiet_accounts_evolve] s, of 0 "Invite_members ''a'' ''olga'' [''leo'']"] s by blast
qed

section \<open>Invitations\<close>

text \<open>What a successful \<open>accept_invitation\<close> did.\<close>

lemma accept_invitation_success:
  assumes "accept_invitation env k i u st = (Inr m, st')"
  obtains s v a where "account_lookup st k = Some s"
    "next_where (\<lambda>x. iv_id x = i) (sn_invitations s) = Inr v" "member_of s u = None"
    "iv_invited_user_id v = None \<or> iv_invited_user_id v = Some u" "iv_status v = PENDING"
    "\<not> (case iv_expires_at v of None \<Rightarrow> False | Some t \<Rightarrow> t \<le> av_clock env 0)"
    "mk_role_assignment (av_uuid env 0) \<lparr>rs_account_id = k, rs_world_id = iv_world_id v\<rparr>
        (iv_predefined_role v) (iv_custom_role_id v) = Inr a"
    "m = \<lparr> mb_id = av_uuid env 1, mb_account_id = k, mb_user_id = u, mb_assignments = [a] \<rparr>"
    "account_save (s\<lparr> sn_memberships := sn_memberships s @ [m],
        sn_invitations := replace_where (\<lambda>x. iv_id x = iv_id v) (v\<lparr>iv_status := ACCEPTED\<rparr>)
          (sn_invitations s) \<rparr>) (sn_version s) (av_rival env 0 st) = Inr st'"
proof -
  from assms obtain s v where s: "account_lookup st k = Some s"
    and v: "next_where (\<lambda>x. iv_id x = i) (sn_invitations s) = Inr v"
    and guards: "iv_invited_user_id v = None \<or> iv_invited_user_id v = Some u" "iv_status v = PENDING"
      "\<not> (case iv_expires_at v of None \<Rightarrow> False | Some t \<Rightarrow> t \<le> av_clock env 0)"
    and rest: "on_ok (mk_role_assignment (av_uuid env 0)
        \<lparr>rs_account_id = k, rs_world_id = iv_world_id v\<rparr> (iv_predefined_role v) (iv_custom_role_id v)) st
      (\<lambda>a. case member_of s u of
          None \<Rightarrow> save_account env 0 (s\<lparr> sn_memberships := sn_memberships s @
              [\<lparr> mb_id = av_uuid env 1, mb_account_id = k, mb_user_id = u, mb_assignments = [a] \<rparr>],
            sn_invitations := replace_where (\<lambda>x. iv_id x = iv_id v) (v\<lparr>iv_status := ACCEPTED\<rparr>)
              (sn_invitations s) \<rparr>) (sn_version s)
            \<lparr> mb_id = av_uuid env 1, mb_account_id = k, mb_user_id = u, mb_assignments = [a] \<rparr> st
        | Some _ \<Rightarrow> (Inl (ValueError ''the User already has a Membership in this account''), st))
      = (Inr m, st')"
    unfolding accept_invitation_def Let_def by (auto elim!: on_ok_InrE split: if_splits)
  from rest obtain a where a: "mk_role_assignment (av_uuid env 0)
        \<lparr>rs_account_id = k, rs_world_id = iv_world_id v\<rparr> (iv_predefined_role v) (iv_custom_role_id v) = Inr a"
    and free: "member_of s u = None"
    and save: "save_account env 0 (s\<lparr> sn_memberships := sn_memberships s @
              [\<lparr> mb_id = av_uuid env 1, mb_account_id = k, mb_user_id = u, mb_assignments = [a] \<rparr>],
            sn_invitations := replace_where (\<lambda>x. iv_id x = iv_id v) (v\<lparr>iv_status := ACCEPTED\<rparr>)
              (sn_invitations s) \<rparr>) (sn_version s)
            \<lparr> mb_id = av_uuid env 1, mb_account_id = k, mb_user_id = u, mb_assignments = [a] \<rparr> st
      = (Inr m, st')"
    by (elim on_ok_InrE) (auto split: option.splits)
  note saved = save_account_success [OF save]
  show thesis
    by (rule that [OF s v free guards a saved(1) saved(2) [folded saved(1)]])
qed

lemma list_all2_member: "list_all2 R xs ys \<Longrightarrow> x \<in> set xs \<Longrightarrow> \<exists>y \<in> set ys. R x y"
  by (induction rule: list_all2_induct) auto

text \<open>Once accepted, an Invitation is refused in every later state.\<close>

lemma used_invitation_is_refused:
  assumes ok: "accounts_ok U st'" and leads: "accounts_leads U st' V st2"
    and s: "account_lookup st' k = Some s" and v: "v \<in> set (sn_invitations s)" "iv_id v = i"
      "iv_status v = ACCEPTED"
  shows "\<exists>e. accept_invitation env2 k i u2 st2 = (Inl e, st2)"
proof -
  from leads_ok [OF leads ok] have ok2: "accounts_ok V st2" and saw: "saw st' st2" by auto
  obtain t where t: "account_lookup st2 k = Some t" and evolves: "account_evolves s t"
    using s saw unfolding saw_def accounts_evolve_def by blast
  obtain zs where zs: "list_all2 invitation_evolves (sn_invitations s) zs"
      "extends (sn_invitations t) zs"
    using evolves by (auto simp: account_evolves_def)
  have t_ok: "account_ok k t" by (rule accounts_okD(1) [OF ok2 t])
  obtain y where y: "y \<in> set zs" "invitation_evolves v y"
    using list_all2_member [OF zs(1) v(1)] by blast
  have y_i: "iv_id y = i" "iv_status y = ACCEPTED" "y \<in> set (sn_invitations t)"
    using y v zs(2) by (auto simp: invitation_evolves_def extends_def)
  have "find (\<lambda>x. iv_id x = i) (sn_invitations t) = Some y"
    using t_ok y_i by (intro find_unique) (simp_all add: account_ok_def)
  then have "next_where (\<lambda>x. iv_id x = i) (sn_invitations t) = Inr y" by (simp add: next_where_Inr)
  with y_i t show ?thesis by (auto simp: accept_invitation_def account_get_def)
qed

text \<open>
  C17. Accepting an Invitation: when \<open>accept_invitation\<close> succeeds, the Invitation was pending, not
  expired, open or addressed to that User, and the User was not a member, all in the very version
  of the Account that was replaced; the new Membership carries exactly the Role and the World of
  the Invitation, never the Owner Role, and the Invitation can never be accepted again, by
  anybody, in any later state.
\<close>

theorem invitation_grants_its_role_once:
  assumes "accounts_reach U st" and "accounts_env_ok U env"
    and "accept_invitation env k i u st = (Inr m, st')"
  shows "\<exists>s v a. account_lookup (av_rival env 0 st) k = Some s \<and> v \<in> set (sn_invitations s)
      \<and> iv_id v = i \<and> iv_status v = PENDING
      \<and> (iv_invited_user_id v = None \<or> iv_invited_user_id v = Some u)
      \<and> (\<forall>t. iv_expires_at v = Some t \<longrightarrow> av_clock env 0 < t) \<and> member_of s u = None
      \<and> mb_user_id m = u \<and> mb_assignments m = [a] \<and> rs_world_id (ra_scope a) = iv_world_id v
      \<and> ra_predefined_role a = iv_predefined_role v \<and> ra_custom_role_id a = iv_custom_role_id v
      \<and> ra_predefined_role a \<noteq> Some OWNER
      \<and> map_option sn_memberships (account_lookup st' k) = Some (sn_memberships s @ [m])
      \<and> (\<forall>V st2 env2 u2. accounts_leads (U \<union> account_uuids env) st' V st2 \<longrightarrow>
           (\<exists>e. accept_invitation env2 k i u2 st2 = (Inl e, st2)))"
proof -
  note ok = accounts_reach_ok [OF assms(1)] and rivals = accounts_env_okD(1) [OF assms(2)]
  let ?st1 = "av_rival env 0 st"
  obtain s v a where s: "account_lookup st k = Some s"
    and v: "next_where (\<lambda>x. iv_id x = i) (sn_invitations s) = Inr v"
    and guards: "member_of s u = None"
      "iv_invited_user_id v = None \<or> iv_invited_user_id v = Some u" "iv_status v = PENDING"
      "\<not> (case iv_expires_at v of None \<Rightarrow> False | Some t \<Rightarrow> t \<le> av_clock env 0)"
    and a: "mk_role_assignment (av_uuid env 0) \<lparr>rs_account_id = k, rs_world_id = iv_world_id v\<rparr>
        (iv_predefined_role v) (iv_custom_role_id v) = Inr a"
    and m: "m = \<lparr> mb_id = av_uuid env 1, mb_account_id = k, mb_user_id = u, mb_assignments = [a] \<rparr>"
    and save: "account_save (s\<lparr> sn_memberships := sn_memberships s @ [m],
        sn_invitations := replace_where (\<lambda>x. iv_id x = iv_id v) (v\<lparr>iv_status := ACCEPTED\<rparr>)
          (sn_invitations s) \<rparr>) (sn_version s) ?st1 = Inr st'"
    by (rule accept_invitation_success [OF assms(3)])
  let ?is = "replace_where (\<lambda>x. iv_id x = iv_id v) (v\<lparr>iv_status := ACCEPTED\<rparr>) (sn_invitations s)"
  have key: "ac_id (sn_account s) = k" by (rule read_key [OF ok s])
  have later: "accounts.later st ?st1" by (rule account_rival_ok(2) [OF ok rivals])
  have same: "account_lookup ?st1 k = Some s"
    using accounts.save_replaces_what_was_read(1) [OF s later accounts.later_refl save] key by simp
  have vmem: "v \<in> set (sn_invitations s)" "iv_id v = i" using next_where_InrD [OF v] by auto
  have "iv_predefined_role v \<noteq> Some OWNER"
    using accounts_okD(1) [OF ok s] vmem by (auto simp: account_ok_def invitation_ok_def)
  moreover have "ra_predefined_role a = iv_predefined_role v" "ra_custom_role_id a = iv_custom_role_id v"
      "rs_world_id (ra_scope a) = iv_world_id v"
    using a by (auto simp: mk_role_assignment_def split: if_splits)
  moreover have st': "account_lookup st' k = Some (s\<lparr> sn_memberships := sn_memberships s @ [m],
      sn_invitations := ?is, sn_version := sn_version s + 1 \<rparr>)"
    by (simp add: account_save_lookup [OF save] key)
  moreover have "\<exists>e. accept_invitation env2 k i u2 st2 = (Inl e, st2)"
    if "accounts_leads (U \<union> account_uuids env) st' V st2" for V st2 env2 u2
  proof (rule used_invitation_is_refused [OF _ that st'])
    show "accounts_ok (U \<union> account_uuids env) st'"
      using accept_invitation_ok [OF ok assms(2), of k i u] assms(3) by simp
    show "v\<lparr>iv_status := ACCEPTED\<rparr> \<in> set (sn_invitations (s\<lparr> sn_memberships := sn_memberships s @ [m],
        sn_invitations := ?is, sn_version := sn_version s + 1 \<rparr>))"
      using vmem by (force simp: replace_where_def)
  qed (use vmem in simp_all)
  moreover have "\<forall>t. iv_expires_at v = Some t \<longrightarrow> av_clock env 0 < t" using guards(4) by auto
  ultimately show ?thesis
    using same vmem guards(1-3) m
    by (intro exI [of _ s] exI [of _ v] exI [of _ a] conjI) simp_all
qed

lemma invitation_grants_its_role_once_witness:
  "fst (accept_invitation (quiet_accounts CHR ''z'' 0) ''a'' ''b'' ''mia'' (demo_run 2))
     = Inr \<lparr> mb_id = ''zu'', mb_account_id = ''a'', mb_user_id = ''mia'', mb_assignments =
         [\<lparr> ra_id = ''z'', ra_scope = \<lparr> rs_account_id = ''a'', rs_world_id = Some ''w1'' \<rparr>,
            ra_predefined_role = Some MANAGER, ra_custom_role_id = None \<rparr>] \<rparr>
   \<and> (\<exists>e. accept_invitation (quiet_accounts CHR ''y'' 0) ''a'' ''b'' ''leo''
       (snd (accept_invitation (quiet_accounts CHR ''z'' 0) ''a'' ''b'' ''mia'' (demo_run 2)))
       = (Inl e, snd (accept_invitation (quiet_accounts CHR ''z'' 0) ''a'' ''b'' ''mia'' (demo_run 2))))"
proof -
  let ?p = "accept_invitation (quiet_accounts CHR ''z'' 0) ''a'' ''b'' ''mia'' (demo_run 2)"
  let ?m = "\<lparr> mb_id = ''zu'', mb_account_id = ''a'', mb_user_id = ''mia'', mb_assignments =
         [\<lparr> ra_id = ''z'', ra_scope = \<lparr> rs_account_id = ''a'', rs_world_id = Some ''w1'' \<rparr>,
            ra_predefined_role = Some MANAGER, ra_custom_role_id = None \<rparr>] \<rparr>"
  have first: "fst ?p = Inr ?m" by code_simp
  then have run: "?p = (Inr ?m, snd ?p)" by (metis prod.collapse)
  have n: "(2::nat) \<le> 4" by simp
  from invitation_grants_its_role_once [OF demo_reach [OF n] demo_env run]
  have "\<forall>V st2 env2 u2. accounts_leads (demo_ids 2 \<union> account_uuids (quiet_accounts CHR ''z'' 0))
      (snd ?p) V st2 \<longrightarrow> (\<exists>e. accept_invitation env2 ''a'' ''b'' u2 st2 = (Inl e, st2))" by blast
  with leads_refl first show ?thesis by blast
qed

lemma check_invitation_Inr: "check_invitation i = Inr v \<Longrightarrow> v = i"
  by (auto simp: check_invitation_def split: if_splits)

text \<open>
  C18. Invitation links cannot escalate: when \<open>create_invitation_link\<close> succeeds, the inviter could
  manage memberships in the very version of the Account that was replaced; a link that grants more
  than the Player Role needed the permission to manage Roles there too; the link never grants the
  Owner Role, a custom Role it grants exists, and it expires within 30 days of the clock.
\<close>

theorem invitation_links_cannot_escalate:
  assumes "accounts_reach U st" and "accounts_env_ok U env"
    and "create_invitation_link env k inviter role custom world expires st = (Inr v, st')"
  shows "\<exists>s. account_lookup st k = Some s \<and> authorize_in s inviter MANAGE_MEMBERSHIPS None = Inr True
    \<and> (role = Some PLAYER \<and> custom = None \<or> authorize_in s inviter MANAGE_ROLES None = Inr True)
    \<and> iv_predefined_role v = role \<and> role \<noteq> Some OWNER \<and> iv_custom_role_id v = custom
    \<and> (\<forall>r. custom = Some r \<longrightarrow> r \<in> cu_id ` set (sn_custom_roles s)) \<and> iv_world_id v = world
    \<and> (\<exists>t. iv_expires_at v = Some t \<and> av_clock env 0 < t \<and> t \<le> av_clock env 0 + days 30)
    \<and> account_get st' k = Inr (s\<lparr> sn_invitations := sn_invitations s @ [v],
         sn_version := sn_version s + 1 \<rparr>)"
proof -
  note ok = accounts_reach_ok [OF assms(1)] and rivals = accounts_env_okD(1) [OF assms(2)]
  let ?st1 = "av_rival env 0 st"
  let ?access = "if role = Some PLAYER \<and> custom = None then PLAY else CONSOLE"
  let ?st2 = "if ?access = CONSOLE then av_rival env 1 ?st1 else ?st1"
  let ?v = "\<lparr> iv_id = av_uuid env 0, iv_account_id = k, iv_inviter_user_id = inviter,
    iv_invited_user_id = None, iv_status = PENDING, iv_access = ?access, iv_predefined_role = role,
    iv_custom_role_id = custom, iv_world_id = world, iv_expires_at = Some (av_clock env 0 + expires) \<rparr>"
  from assms(3) obtain s where s: "account_lookup st k = Some s"
    and access: "\<exists>u. require_access ?st1 k inviter MANAGE_MEMBERSHIPS
      ''creating invitation links requires membership management permission'' = Inr u"
    and role: "role \<noteq> Some OWNER"
    and console: "\<exists>u. (if ?access = CONSOLE then require_access ?st2 k inviter MANAGE_ROLES
      ''console invitation links require role management permission'' else Inr ()) = Inr u"
    and custom: "\<not> (custom \<noteq> None \<and> \<not> list_ex (\<lambda>r. Some (cu_id r) = custom) (sn_custom_roles s))"
    and time: "\<not> (expires \<le> 0 \<or> days 30 < expires)"
    and save: "\<exists>v'. check_invitation ?v = Inr v' \<and> save_account env 2
      (s\<lparr>sn_invitations := sn_invitations s @ [v']\<rparr>) (sn_version s) v' ?st2 = (Inr v, st')"
    unfolding create_invitation_link_def Let_def success_simps account_get_Inr
    by (elim exE conjE) (rule that; (assumption | intro exI conjI))
  from save obtain v' where v': "check_invitation ?v = Inr v'" and saved: "save_account env 2
      (s\<lparr>sn_invitations := sn_invitations s @ [v']\<rparr>) (sn_version s) v' ?st2 = (Inr v, st')"
    by blast
  have "v = v'" by (rule save_account_success(1) [OF saved])
  then have v: "v = ?v" using check_invitation_Inr [OF v'] by simp
  have save: "account_save (s\<lparr>sn_invitations := sn_invitations s @ [v]\<rparr>)
      (sn_version s) (av_rival env 2 ?st2) = Inr st'"
    unfolding \<open>v = v'\<close> by (rule save_account_success(2) [OF saved])
  have key: "ac_id (sn_account s) = k" by (rule read_key [OF ok s])
  have ok1: "accounts_ok U ?st1" and later1: "accounts.later st ?st1"
    by (rule account_rival_ok [OF ok rivals])+
  have ok2: "accounts_ok U ?st2" and later2: "accounts.later ?st1 ?st2"
    using account_rival_ok [OF ok1 rivals, of 1] ok1 accounts.later_refl by simp_all
  have later3: "accounts.later ?st2 (av_rival env 2 ?st2)"
    by (rule account_rival_ok [OF ok2 rivals])
  have same: "account_lookup ?st1 k = Some s" "account_lookup ?st2 k = Some s"
    using accounts.save_replaces_what_was_read(1) [OF s later1
        accounts.later_trans [OF later2 later3] save]
      accounts.save_replaces_what_was_read(1) [OF s accounts.later_trans [OF later1 later2]
        later3 save] key by simp_all
  have "authorize_in s inviter MANAGE_MEMBERSHIPS None = Inr True"
    using access require_access_Inr same(1) by blast
  moreover have "role = Some PLAYER \<and> custom = None \<or> authorize_in s inviter MANAGE_ROLES None = Inr True"
    using console require_access_Inr [OF _ same(2)] by (auto split: if_splits)
  moreover have "\<forall>r. custom = Some r \<longrightarrow> r \<in> cu_id ` set (sn_custom_roles s)"
    using custom by (auto simp: list_ex_iff)
  moreover have "account_get st' k = Inr (s\<lparr> sn_invitations := sn_invitations s @ [v],
         sn_version := sn_version s + 1 \<rparr>)"
    by (simp add: account_save_lookup [OF save] key)
  ultimately show ?thesis
    using s role time v by (intro exI [of _ s]) simp
qed

lemma invitation_links_cannot_escalate_witness:
  "let run = create_invitation_link (quiet_accounts CHR ''z'' 10) ''a'' ''olga'' (Some MANAGER) None
       None 50 (demo_run 3)
   in \<exists>v s t. fst run = Inr v \<and> account_lookup (demo_run 3) ''a'' = Some s
      \<and> authorize_in s ''olga'' MANAGE_ROLES None = Inr True
      \<and> iv_predefined_role v = Some MANAGER \<and> iv_expires_at v = Some t \<and> 10 < t \<and> t \<le> 10 + days 30
      \<and> account_get (snd run) ''a'' = Inr (s\<lparr> sn_invitations := sn_invitations s @ [v],
           sn_version := sn_version s + 1 \<rparr>)"
proof -
  let ?p = "create_invitation_link (quiet_accounts CHR ''z'' 10) ''a'' ''olga'' (Some MANAGER) None
    None 50 (demo_run 3)"
  have "\<not> isl (fst ?p)" by code_simp
  then obtain v where fst: "fst ?p = Inr v" by (cases "fst ?p") auto
  then have v: "?p = (Inr v, snd ?p)" by (metis prod.collapse)
  have n: "(3::nat) \<le> 4" by simp
  have clock: "av_clock (quiet_accounts CHR ''z'' 10) 0 = 10" by (simp add: quiet_accounts_def)
  from invitation_links_cannot_escalate [OF demo_reach [OF n] demo_env v, unfolded clock]
  show ?thesis using fst unfolding Let_def by auto
qed

section \<open>Guild links\<close>

text \<open>
  C19. A Discord Guild belongs to one Account: in every reachable state, looking an Account up by
  the Guild it is linked to finds that very Account.
\<close>

theorem guild_finds_its_account:
  assumes "accounts_reach U st" and "account_get st k = Inr s"
    and "ac_discord_guild_id (sn_account s) = Some g"
  shows "find_account_by_discord_guild st g = Some (sn_account s)"
  using guild_conflict [OF accounts_reach_ok [OF assms(1)] _ assms(3), of k] assms(2)
  by (simp add: find_account_by_discord_guild_def)

lemma guild_finds_its_account_witness:
  "find_account_by_discord_guild (demo_run 3) ''7'' = Some \<lparr> ac_id = ''a'', ac_name = ''Guild'',
     ac_discord_guild_id = Some ''7'', ac_discord_channel_id = None \<rparr>"
proof -
  let ?a = "\<lparr> ac_id = ''a'', ac_name = ''Guild'', ac_discord_guild_id = Some ''7'',
     ac_discord_channel_id = None \<rparr>"
  have acc: "map_option sn_account (account_lookup (demo_run 3) ''a'') = Some ?a" by code_simp
  then obtain s where s: "account_get (demo_run 3) ''a'' = Inr s" "sn_account s = ?a" by auto
  have n: "(3::nat) \<le> 4" by simp
  have g: "ac_discord_guild_id (sn_account s) = Some ''7''" using s(2) by simp
  from guild_finds_its_account [OF demo_reach [OF n] s(1) g] s(2) show ?thesis by simp
qed

section \<open>Owner Recovery\<close>

text \<open>Other clients that leave the identities alone.\<close>

definition rivals_leave_identities :: "accounts_env \<Rightarrow> bool" where
  "rivals_leave_identities env \<longleftrightarrow> (\<forall>k st. as_identities (av_rival env k st) = as_identities st)"

text \<open>
  \<open>spent owner h st\<close>: the owner has no unused recovery code with the hash \<open>h\<close>. A client that neither
  draws such a code nor lets others bring it back keeps it so.
\<close>

definition spent :: "string \<Rightarrow> string \<Rightarrow> accounts_state \<Rightarrow> bool" where
  "spent owner h st \<longleftrightarrow> (\<forall>d e hs. as_recovery st = Some d \<longrightarrow> dict_get d owner = Some (e, hs) \<longrightarrow> h \<notin> set hs)"

definition never_draws :: "string \<Rightarrow> string \<Rightarrow> accounts_env \<Rightarrow> bool" where
  "never_draws owner h env \<longleftrightarrow> h \<notin> av_hash env ` set (recovery_codes env)
     \<and> (\<forall>k st. spent owner h st \<longrightarrow> spent owner h (av_rival env k st))"

lemma account_save_identities:
  "account_save s v st = Inr st' \<Longrightarrow> as_identities st' = as_identities st \<and> as_recovery st' = as_recovery st"
  by (auto simp: account_save_def Let_def split: option.splits if_splits)

lemma only_updated:
  "\<forall>(_, x) \<in> set xs. \<not> P x \<Longrightarrow> P v \<Longrightarrow> filter P (map snd (dict_set k v xs)) = [v]"
proof (induction xs)
  case (Cons x xs)
  have "\<forall>(_, x) \<in> set xs. \<not> P x \<Longrightarrow> filter P (map snd xs) = []" by (auto simp: filter_empty_conv)
  with Cons show ?case by (cases x) auto
qed simp

lemma replace_identity_only:
  "list_linked_identities_of (replace_identity i st) (li_user_id i) = [i]"
proof -
  have "li_provider x = li_provider i" for x :: linked_identity
    by (cases "li_provider x"; cases "li_provider i") simp
  then show ?thesis
    unfolding list_linked_identities_of_def replace_identity_def by (simp add: only_updated)
qed

lemma replace_owner_identities:
  assumes "rivals_leave_identities env"
    and "replace_owner_discord_identity env s actor owner new st = (r, st')"
  shows "list_linked_identities_of st' owner = [\<lparr> li_id = av_uuid env 0, li_user_id = owner,
      li_provider = DISCORD, li_provider_user_id = new \<rparr>]"
proof -
  let ?i = "\<lparr> li_id = av_uuid env 0, li_user_id = owner, li_provider = DISCORD,
    li_provider_user_id = new \<rparr>"
  let ?st1 = "replace_identity ?i (av_rival env 1 st)"
  have "as_identities st' = as_identities ?st1"
    using assms account_save_identities
    by (auto simp: replace_owner_discord_identity_def save_account_def Let_def notify_owners_def
        rivals_leave_identities_def on_ok_def split: sum.splits)
  then have "list_linked_identities_of st' owner = list_linked_identities_of ?st1 owner"
    by (simp add: list_linked_identities_of_def)
  then show ?thesis using replace_identity_only [of ?i "av_rival env 1 st"] by simp
qed

section \<open>A recovery code stays spent\<close>

lemma spent_consume: "fst (recovery_consume owner h st) \<longleftrightarrow> \<not> spent owner h st"
  by (auto simp: recovery_consume_def spent_def split: option.split)

lemma spent_frame: "as_recovery st' = as_recovery st \<Longrightarrow> spent owner h st \<Longrightarrow> spent owner h st'"
  by (simp add: spent_def)

lemma spent_unchanged [simp]:
  "spent owner h (create_user u i st) = spent owner h st"
  "spent owner h (replace_identity i st) = spent owner h st"
  "spent owner h (notify_owners os a x st) = spent owner h st"
  by (simp_all add: spent_def create_user_def replace_identity_def notify_owners_def)

lemma consumed_is_spent:
  "recovery_consume owner h st = (True, st') \<Longrightarrow> spent owner h st'"
  by (auto simp: recovery_consume_def spent_def split: option.splits if_splits)

lemma spent_consumed: "spent owner h st \<Longrightarrow> spent owner h (snd (recovery_consume w g st))"
  by (auto simp: recovery_consume_def spent_def split: option.splits if_splits)

lemma spent_put:
  "h \<notin> set hs \<Longrightarrow> spent owner h st \<Longrightarrow> recovery_put w e hs st = Inr st' \<Longrightarrow> spent owner h st'"
  by (auto simp: recovery_put_def spent_def split: option.splits if_splits)

lemma spent_rival: "never_draws owner h env \<Longrightarrow> spent owner h st \<Longrightarrow> spent owner h (av_rival env k st)"
  by (simp add: never_draws_def)

lemma spent_leaf: "spent owner h st \<Longrightarrow> spent owner h (snd (r, st))"
  by simp

lemma spent_step:
  "spent owner h st \<Longrightarrow> (\<And>a. r = Inr a \<Longrightarrow> spent owner h (snd (f a))) \<Longrightarrow>
     spent owner h (snd (on_ok r st f))"
  by (rule on_ok_state)

lemma spent_if:
  "(c \<Longrightarrow> spent owner h (snd x)) \<Longrightarrow> (\<not> c \<Longrightarrow> spent owner h (snd y)) \<Longrightarrow>
     spent owner h (snd (if c then x else y))"
  by simp

lemma spent_if_state: "spent owner h x \<Longrightarrow> spent owner h y \<Longrightarrow> spent owner h (if c then x else y)"
  by simp

lemma spent_option:
  "(x = None \<Longrightarrow> spent owner h (snd a)) \<Longrightarrow> (\<And>y. x = Some y \<Longrightarrow> spent owner h (snd (f y))) \<Longrightarrow>
     spent owner h (snd (case x of None \<Rightarrow> a | Some y \<Rightarrow> f y))"
  by (cases x) simp_all

lemma spent_notified:
  "spent owner h (snd p) \<Longrightarrow>
     spent owner h (snd (case p of (r, st) \<Rightarrow> on_ok r st (\<lambda>x. (Inr b, notify_owners os a i st))))"
  by (cases p) (auto intro: on_ok_state)

lemma spent_save:
  "never_draws owner h env \<Longrightarrow> spent owner h st \<Longrightarrow> spent owner h (snd (save_account env n s v a st))"
  unfolding save_account_def Let_def
  by (intro spent_step spent_rival; assumption?)
    (auto dest: account_save_identities intro: spent_frame [rotated] spent_rival)

lemma spent_create: "account_create a m st = Inr st' \<Longrightarrow> spent owner h st \<Longrightarrow> spent owner h st'"
  by (auto simp: account_create_def spent_def split: option.splits if_splits)

lemmas spent_intros = spent_leaf spent_step spent_if spent_if_state spent_option spent_notified
  spent_save spent_rival spent_consumed

lemmas accounts_operations = enable_owner_recovery_def
  recover_owner_discord_identity_def recover_owner_discord_identity_by_co_owner_def
  replace_owner_discord_identity_def create_account_def configure_discord_guild_def
  configure_discord_notification_channel_def create_custom_role_def assign_custom_role_def
  assign_predefined_role_def remove_role_assignment_def invite_members_def create_invitation_link_def
  accept_invitation_def accept_pending_invitation_def remove_membership_def

lemma call_keeps_spent:
  assumes env: "never_draws owner h env" and st: "spent owner h st"
  shows "spent owner h (run_accounts_call env call st)"
proof (cases call)
  case (Sign_in discord name)
  then show ?thesis using st spent_rival [OF env st]
    by (auto simp: sign_in_with_discord_def Let_def split: option.split)
next
  case (Enable_owner_recovery acc o' email)
  have "h \<notin> set (map (av_hash env) (recovery_codes env))" using env by (auto simp: never_draws_def)
  from spent_put [OF this spent_rival [OF env st]] show ?thesis
    unfolding Enable_owner_recovery run_accounts_call.simps accounts_operations Let_def
    by (intro spent_intros env st; blast)
next
  case (Create_account name o' guild channel)
  show ?thesis using spent_create [OF _ st]
    unfolding Create_account run_accounts_call.simps accounts_operations Let_def
    by (intro spent_intros env st; blast)
qed (simp_all only: run_accounts_call.simps accounts_operations Let_def case_prod_beta,
    (intro spent_intros env st; simp)+)

lemma calls_keep_spent:
  "\<forall>(e, call) \<in> set calls. never_draws owner h e \<Longrightarrow> spent owner h st \<Longrightarrow>
     spent owner h (fold (\<lambda>(e, call). run_accounts_call e call) calls st)"
  by (induction calls arbitrary: st) (auto intro: call_keeps_spent)

lemma recovery_uses_the_code:
  assumes "recover_owner_discord_identity env k owner code new st = (r, st')"
    and "never_draws owner (av_hash env code) env" and "fst (recovery_consume owner (av_hash env code) (av_rival env 0 st))"
    and "account_get st k = Inr s" "is_account_owner s owner"
  shows "spent owner (av_hash env code) st'"
proof -
  obtain st1 where used: "recovery_consume owner (av_hash env code) (av_rival env 0 st) = (True, st1)"
    using assms(3) by (metis prod.collapse)
  then have "replace_owner_discord_identity env s owner owner new st1 = (r, st')"
    using assms(1,4,5) by (simp add: recover_owner_discord_identity_def Let_def)
  moreover have "spent owner (av_hash env code) (snd (replace_owner_discord_identity env s owner owner new st1))"
    unfolding replace_owner_discord_identity_def Let_def
    by (intro spent_intros assms(2); simp add: spent_rival [OF assms(2) consumed_is_spent [OF used]])
  ultimately show ?thesis by simp
qed

lemma spent_code_is_refused:
  assumes "spent owner (av_hash env code) st" and "never_draws owner (av_hash env code) env"
  shows "\<exists>e. fst (recover_owner_discord_identity env k owner code new st) = Inl e"
proof -
  have "\<not> fst (recovery_consume owner (av_hash env code) (av_rival env 0 st))"
    using spent_rival [OF assms(2,1)] by (simp add: spent_consume)
  then show ?thesis
    by (auto simp: recover_owner_discord_identity_def on_ok_def case_prod_beta Let_def split: sum.split)
qed

text \<open>
  C20. A recovery code works once: after a successful recovery the same code is refused for that
  Owner in every later state, whatever operations run in between, of which none draws that very
  code again, and whatever the other clients do, who do not bring it back; and when
  the other clients leave the identities alone during the recovery, the Owner's only Discord identity
  is the new one.
\<close>

theorem recovery_code_works_once:
  assumes run: "recover_owner_discord_identity env k owner code new st = (Inr (), st')"
    and env: "never_draws owner (av_hash env code) env"
    and calls: "\<forall>(e, call) \<in> set calls. never_draws owner (av_hash env code) e"
    and env2: "never_draws owner (av_hash env code) env2" "av_hash env2 = av_hash env"
  shows "(\<exists>e. fst (recover_owner_discord_identity env2 k2 owner code new2
        (fold (\<lambda>(e, call). run_accounts_call e call) calls st')) = Inl e)
    \<and> (rivals_leave_identities env \<longrightarrow> list_linked_identities st' owner owner =
        Inr [\<lparr> li_id = av_uuid env 0, li_user_id = owner, li_provider = DISCORD, li_provider_user_id = new \<rparr>])"
proof -
  let ?h = "av_hash env code"
  obtain s st1 where s: "account_get st k = Inr s" "is_account_owner s owner"
    and used: "recovery_consume owner ?h (av_rival env 0 st) = (True, st1)"
    and rest: "replace_owner_discord_identity env s owner owner new st1 = (Inr (), st')"
    using run
    by (cases "recovery_consume owner ?h (av_rival env 0 st)")
      (auto simp: recover_owner_discord_identity_def success_simps Let_def)
  have "spent owner ?h st'" using recovery_uses_the_code [OF run env _ s] used by simp
  from calls_keep_spent [OF calls this] have "\<exists>e. fst (recover_owner_discord_identity env2 k2 owner code new2
      (fold (\<lambda>(e, call). run_accounts_call e call) calls st')) = Inl e"
    using env2 by (intro spent_code_is_refused) simp_all
  with replace_owner_identities [OF _ rest] show ?thesis by (simp add: list_linked_identities_def)
qed

text \<open>A client whose codes are all different from those of the sample.\<close>

definition other_tokens :: "char \<Rightarrow> instant \<Rightarrow> accounts_env" where
  "other_tokens c t = (quiet_accounts c t)\<lparr>av_token := (\<lambda>k. CHR ''q'' # replicate k CHR ''k'')\<rparr>"

lemma other_tokens_simps:
  "never_draws owner ''htk'' (other_tokens c t)" "av_hash (other_tokens c t) = (\<lambda>s. CHR ''h'' # s)"
  by (auto simp: never_draws_def other_tokens_def quiet_accounts_def recovery_codes_def)

lemma recovery_code_works_once_witness:
  "let after = snd (recover_owner_discord_identity (other_tokens CHR ''z'' 5) ''a'' ''olga'' ''tk'' ''99'' (demo_run 4))
   in list_linked_identities after ''olga'' ''olga'' =
        Inr [\<lparr> li_id = ''z'', li_user_id = ''olga'', li_provider = DISCORD, li_provider_user_id = ''99'' \<rparr>]
    \<and> (\<exists>e. fst (recover_owner_discord_identity (other_tokens CHR ''y'' 6) ''a'' ''olga'' ''tk'' ''100''
         (run_accounts_call (other_tokens CHR ''x'' 5) (Enable_owner_recovery ''a'' ''olga'' ''o@example.org'') after))
       = Inl e)"
proof -
  let ?p = "recover_owner_discord_identity (other_tokens CHR ''z'' 5) ''a'' ''olga'' ''tk'' ''99'' (demo_run 4)"
  have "\<not> isl (fst ?p)" by code_simp
  then have "?p = (Inr (), snd ?p)" by (cases "fst ?p") (auto simp: prod_eq_iff)
  note once = recovery_code_works_once [OF this, where calls = "[(other_tokens CHR ''x'' 5,
      Enable_owner_recovery ''a'' ''olga'' ''o@example.org'')]" and ?env2.0 = "other_tokens CHR ''y'' 6"]
  have "rivals_leave_identities (other_tokens CHR ''z'' 5)" "av_uuid (other_tokens CHR ''z'' 5) 0 = ''z''"
    by (simp_all add: rivals_leave_identities_def other_tokens_def quiet_accounts_def)
  with once [of "''a''" "''100''"] show ?thesis by (simp add: other_tokens_simps Let_def)
qed

text \<open>A client that invites somebody right before the recovery saves the Account.\<close>

definition contended_env :: accounts_env where
  "contended_env = (other_tokens CHR ''y'' 5)\<lparr>av_rival := (\<lambda>k st. if k = 2
     then run_accounts_call (other_tokens CHR ''z'' 0) (Invite_members ''a'' ''olga'' [''leo'']) st
     else st)\<rparr>"

lemma contended_env_ok:
  "av_hash contended_env ''tk'' = ''htk''" "never_draws ''olga'' ''htk'' contended_env"
proof -
  show "av_hash contended_env ''tk'' = ''htk''" by (simp add: contended_env_def other_tokens_simps)
  have "spent ''olga'' ''htk'' (av_rival contended_env k st)" if "spent ''olga'' ''htk'' st" for k st
    unfolding contended_env_def using that call_keeps_spent [OF other_tokens_simps(1) that]
    by (cases "k = 2") (simp_all del: run_accounts_call.simps)
  moreover have "av_hash contended_env = av_hash (other_tokens CHR ''y'' 5)"
    "recovery_codes contended_env = recovery_codes (other_tokens CHR ''y'' 5)"
    by (simp_all add: contended_env_def recovery_codes_def)
  ultimately show "never_draws ''olga'' ''htk'' contended_env"
    using other_tokens_simps(1) [of "''olga''" "CHR ''y''" 5] unfolding never_draws_def by metis
qed

definition contended_recovery :: "unit result \<times> accounts_state" where
  "contended_recovery = recover_owner_discord_identity contended_env ''a'' ''olga'' ''tk'' ''99'' (demo_run 4)"

text \<open>
  C21. Owner Recovery is not atomic: a recovery that fails after its code was accepted has already
  used the code and replaced the Discord identity. All that an Owner could notice it by is missing:
  the state it leaves is the one that the other clients made of the replaced identity right before
  the save that failed, without the activity event and without the notification of the Owners.
\<close>

theorem failed_recovery_replaces_the_identity:
  assumes run: "recover_owner_discord_identity env k owner code new st = (Inl e, st')"
    and s: "account_get st k = Inr s" "is_account_owner s owner"
    and code: "fst (recovery_consume owner (av_hash env code) (av_rival env 0 st))"
    and env: "never_draws owner (av_hash env code) env"
  defines "i \<equiv> \<lparr> li_id = av_uuid env 0, li_user_id = owner, li_provider = DISCORD, li_provider_user_id = new \<rparr>"
  shows "st' = av_rival env 2 (replace_identity i
      (av_rival env 1 (snd (recovery_consume owner (av_hash env code) (av_rival env 0 st)))))
    \<and> \<not> fst (recovery_consume owner (av_hash env code) st')
    \<and> (rivals_leave_identities env \<longrightarrow> list_linked_identities_of st' owner = [i])"
proof -
  obtain st1 where used: "recovery_consume owner (av_hash env code) (av_rival env 0 st) = (True, st1)"
    using code by (metis prod.collapse)
  then have rest: "replace_owner_discord_identity env s owner owner new st1 = (Inl e, st')"
    using run s by (simp add: recover_owner_discord_identity_def Let_def)
  then have "st' = av_rival env 2 (replace_identity i (av_rival env 1 st1))"
    by (auto simp: replace_owner_discord_identity_def save_account_def Let_def on_ok_def i_def
        split: sum.splits)
  moreover have "spent owner (av_hash env code) st'" by (rule recovery_uses_the_code [OF run env code s])
  ultimately show ?thesis
    using replace_owner_identities [OF _ rest] used by (simp add: spent_consume i_def)
qed

lemma failed_recovery_replaces_the_identity_witness:
  "fst contended_recovery = Inl (RuntimeError ''account was changed concurrently'')
   \<and> \<not> fst (recovery_consume ''olga'' ''htk'' (snd contended_recovery))
   \<and> as_notifications (snd contended_recovery) = []"
proof -
  have failed: "fst contended_recovery = Inl (RuntimeError ''account was changed concurrently'')"
    "as_notifications (snd contended_recovery) = []" by code_simp+
  then have run: "recover_owner_discord_identity contended_env ''a'' ''olga'' ''tk'' ''99'' (demo_run 4)
      = (Inl (RuntimeError ''account was changed concurrently''), snd contended_recovery)"
    unfolding contended_recovery_def by (metis prod.collapse)
  have "map_option (\<lambda>s. is_account_owner s ''olga'') (account_lookup (demo_run 4) ''a'') = Some True" by code_simp
  then obtain s where s: "account_get (demo_run 4) ''a'' = Inr s" "is_account_owner s ''olga''" by auto
  have code: "fst (recovery_consume ''olga'' ''htk'' (demo_run 4))" by code_simp
  have same: "av_rival contended_env 0 (demo_run 4) = demo_run 4" by (simp add: contended_env_def)
  have "\<not> fst (recovery_consume ''olga'' ''htk'' (snd contended_recovery))"
    using failed_recovery_replaces_the_identity [OF run s, unfolded contended_env_ok(1) same] code
      contended_env_ok(2) by blast
  with failed show ?thesis by simp
qed

end
