(* ===== verification/Floats.thy ===== *)
theory Floats
  imports Prelude
begin

text \<open>
  Python's \<open>float\<close> as the source uses it: IEEE binary64 values, their exact order against
  integers, the correctly rounded conversion of an integer or a decimal text, and \<open>int(text)\<close>.
  A finite value is \<open>m * 2 ^ e\<close> with \<open>m\<close> odd, or both zero; the sign of a zero is not kept.
\<close>

datatype py_float = Flt int int | FInf bool | NaN

definition is_finite :: "py_float \<Rightarrow> bool" where
  "is_finite x = (case x of Flt _ _ \<Rightarrow> True | _ \<Rightarrow> False)"

text \<open>Comparison with an integer; a NaN is not ordered.\<close>

definition float_less_int :: "py_float \<Rightarrow> int \<Rightarrow> bool" where
  "float_less_int x n = (case x of
      Flt m e \<Rightarrow> (if 0 \<le> e then m * 2 ^ nat e < n else m < n * 2 ^ nat (- e))
    | FInf neg \<Rightarrow> neg
    | NaN \<Rightarrow> False)"

definition int_less_float :: "int \<Rightarrow> py_float \<Rightarrow> bool" where
  "int_less_float n x = (case x of
      Flt m e \<Rightarrow> (if 0 \<le> e then n < m * 2 ^ nat e else n * 2 ^ nat (- e) < m)
    | FInf neg \<Rightarrow> \<not> neg
    | NaN \<Rightarrow> False)"

definition float_le_int :: "py_float \<Rightarrow> int \<Rightarrow> bool" where
  "float_le_int x n = (case x of
      Flt m e \<Rightarrow> (if 0 \<le> e then m * 2 ^ nat e \<le> n else m \<le> n * 2 ^ nat (- e))
    | FInf neg \<Rightarrow> neg
    | NaN \<Rightarrow> False)"

lemma float_le_int_finite: "is_finite x \<Longrightarrow> float_le_int x n \<longleftrightarrow> \<not> int_less_float n x"
  by (auto simp: is_finite_def float_le_int_def int_less_float_def split: py_float.splits)

section \<open>Rounding\<close>

fun bits :: "nat \<Rightarrow> nat" where
  "bits n = (if n = 0 then 0 else Suc (bits (n div 2)))"

declare bits.simps [simp del]

definition quotient_half_even :: "nat \<Rightarrow> nat \<Rightarrow> nat" where
  "quotient_half_even a b = (let d = a div b; r = a mod b
     in if 2 * r < b \<or> 2 * r = b \<and> even d then d else d + 1)"

text \<open>\<open>m * 2 ^ e\<close> with an odd \<open>m\<close>.\<close>

function odd_part :: "int \<Rightarrow> int \<Rightarrow> py_float" where
  "odd_part m e = (if m = 0 then Flt 0 0 else if even m then odd_part (m div 2) (e + 1) else Flt m e)"
  by auto
termination
proof (relation "measure (\<lambda>(m, e). nat \<bar>m\<bar>)")
  fix m e :: int
  assume "m \<noteq> 0" "even m"
  then obtain k where "m = 2 * k" "k \<noteq> 0" by (auto elim: evenE)
  then show "((m div 2, e + 1), m, e) \<in> measure (\<lambda>(m, e). nat \<bar>m\<bar>)" by simp
qed simp

declare odd_part.simps [simp del]

text \<open>The double nearest to \<open>p / q\<close>, ties to even; \<open>None\<close> when it is out of range.\<close>

definition scaled_ratio :: "nat \<Rightarrow> nat \<Rightarrow> int \<Rightarrow> nat \<times> nat" where
  "scaled_ratio p q e = (if 0 \<le> e then (p, q * 2 ^ nat e) else (p * 2 ^ nat (- e), q))"

definition nearest_double :: "nat \<Rightarrow> nat \<Rightarrow> (nat \<times> int) option" where
  "nearest_double p q =
     (if p = 0 then Some (0, 0)
      else
        (let e0 = int (bits p) - int (bits q) - 53;
             e1 = (case scaled_ratio p q (e0 + 53) of (a, b) \<Rightarrow> if b \<le> a then e0 + 1 else e0);
             e = max e1 (- 1074);
             m = (case scaled_ratio p q e of (a, b) \<Rightarrow> quotient_half_even a b)
         in if 0 \<le> e \<and> 2 ^ 1024 \<le> m * 2 ^ nat e then None else Some (m, e)))"

definition signed_double :: "bool \<Rightarrow> nat \<Rightarrow> nat \<Rightarrow> py_float" where
  "signed_double neg p q = (case nearest_double p q of
      None \<Rightarrow> FInf neg
    | Some (m, e) \<Rightarrow> odd_part (if neg then - int m else int m) e)"

text \<open>\<open>float(n)\<close> of an integer.\<close>

definition float_of_int :: "int \<Rightarrow> py_float result" where
  "float_of_int n = (case signed_double (n < 0) (nat \<bar>n\<bar>) 1 of
      FInf _ \<Rightarrow> Inl (OverflowError ''int too large to convert to float'')
    | x \<Rightarrow> Inr x)"

section \<open>Texts\<close>

text \<open>Digits with single underscores between them, and the rest of the text.\<close>

definition skip_underscore :: "string \<Rightarrow> string" where
  "skip_underscore s = (case s of
      c # d # r \<Rightarrow> (if c = CHR ''_'' \<and> is_digit d then d # r else s)
    | _ \<Rightarrow> s)"

lemma skip_underscore_length: "length (skip_underscore s) \<le> length s"
  by (simp add: skip_underscore_def split: list.split)

function scan_digits :: "string \<Rightarrow> string \<times> string" where
  "scan_digits [] = ([], [])"
| "scan_digits (c # cs) =
     (if is_digit c then (case scan_digits (skip_underscore cs) of (ds, r) \<Rightarrow> (c # ds, r))
      else ([], c # cs))"
  by pat_completeness auto
termination
  by (relation "measure length") (auto simp: le_imp_less_Suc skip_underscore_length)

definition nat_of_digits :: "string \<Rightarrow> nat" where
  "nat_of_digits ds = foldl (\<lambda>n c. 10 * n + (of_char c - 48)) 0 ds"

definition split_sign :: "string \<Rightarrow> bool \<times> string" where
  "split_sign s = (case s of
      c # r \<Rightarrow> (if c = CHR ''-'' then (True, r) else if c = CHR ''+'' then (False, r) else (False, s))
    | [] \<Rightarrow> (False, []))"

text \<open>\<open>int(s)\<close>, with its limit of 4300 digits.\<close>

definition int_of_text :: "string \<Rightarrow> int option" where
  "int_of_text s =
     (case split_sign (strip s) of (neg, r) \<Rightarrow>
      case scan_digits r of (ds, rest) \<Rightarrow>
        if ds = [] \<or> rest \<noteq> [] \<or> 4300 < length ds then None
        else Some (if neg then - int (nat_of_digits ds) else int (nat_of_digits ds)))"

text \<open>The decimal part of \<open>float(s)\<close>: \<open>digits * 10 ^ exponent\<close>.\<close>

definition scan_decimal :: "string \<Rightarrow> (nat \<times> int) option" where
  "scan_decimal s =
     (case scan_digits s of (whole, r1) \<Rightarrow>
      case (if take 1 r1 = ''.'' then scan_digits (drop 1 r1) else ([], r1)) of (frac, r2) \<Rightarrow>
      if whole = [] \<and> frac = [] then None
      else
        (let n = nat_of_digits (whole @ frac); shift = - int (length frac)
         in if r2 = [] then Some (n, shift)
            else if hd r2 \<noteq> CHR ''e'' then None
            else (case split_sign (tl r2) of (neg, r3) \<Rightarrow>
                  case scan_digits r3 of (ds, r4) \<Rightarrow>
                    if ds = [] \<or> r4 \<noteq> [] then None
                    else (let x = int (nat_of_digits ds)
                          in Some (n, shift + (if neg then - x else x))))))"

definition float_of_text :: "string \<Rightarrow> py_float option" where
  "float_of_text s =
     (case split_sign (casefold (strip s)) of (neg, r) \<Rightarrow>
        if r \<in> set [''inf'', ''infinity''] then Some (FInf neg)
        else if r = ''nan'' then Some NaN
        else (case scan_decimal r of
            None \<Rightarrow> None
          | Some (n, k) \<Rightarrow> Some (if 0 \<le> k then signed_double neg (n * 10 ^ nat k) 1
                                else signed_double neg n (10 ^ nat (- k)))))"

end
