(* ===== verification/Settings.thy ===== *)
theory Settings
  imports Effects Floats "HOL-Library.Char_ord" "HOL-Library.List_Lexorder"
begin

text \<open>
  The Palworld settings catalog (\<open>shared/palworld_settings_catalog.py\<close>) and the Game Catalog
  that wraps it (\<open>gamewake/game_catalog/\<close>): the fields with their limits, the normalisation of
  one value and of a whole configuration. The explanatory texts of a field (Portuguese label,
  description, documentation link) are not modelled: no decision reads them.
\<close>

section \<open>Values\<close>

text \<open>What \<open>json.loads\<close> yields, with numbers as the Python objects they are.\<close>

datatype py_value =
    VNone
  | VBool bool
  | VInt int
  | VFloat py_float
  | VStr string
  | VList "py_value list"
  | VDict "(string \<times> py_value) list"

text \<open>\<open>ConfigurationValue = str | int | float | bool\<close>.\<close>

datatype config_value = CStr string | CInt int | CFloat py_float | CBool bool

fun to_py :: "config_value \<Rightarrow> py_value" where
  "to_py (CStr s) = VStr s"
| "to_py (CInt n) = VInt n"
| "to_py (CFloat x) = VFloat x"
| "to_py (CBool b) = VBool b"

text \<open>\<open>==\<close> of configuration values: numbers and booleans compare by value.\<close>

fun as_int :: "config_value \<Rightarrow> int option" where
  "as_int (CInt n) = Some n"
| "as_int (CBool b) = Some (if b then 1 else 0)"
| "as_int v = None"

definition float_eq_int :: "py_float \<Rightarrow> int \<Rightarrow> bool" where
  "float_eq_int x n \<longleftrightarrow> is_finite x \<and> \<not> float_less_int x n \<and> \<not> int_less_float n x"

definition config_eq :: "config_value \<Rightarrow> config_value \<Rightarrow> bool" where
  "config_eq v w = (case (v, w) of
      (CStr a, CStr b) \<Rightarrow> a = b
    | (CFloat x, CFloat y) \<Rightarrow> x = y \<and> x \<noteq> NaN
    | (CFloat x, _) \<Rightarrow> (case as_int w of Some n \<Rightarrow> float_eq_int x n | None \<Rightarrow> False)
    | (_, CFloat y) \<Rightarrow> (case as_int v of Some n \<Rightarrow> float_eq_int y n | None \<Rightarrow> False)
    | _ \<Rightarrow> as_int v \<noteq> None \<and> as_int v = as_int w)"

section \<open>Fields\<close>

record setting_field =
  sf_key :: string
  sf_ini_key :: string
  sf_label :: string
  sf_section :: string
  sf_value_type :: string
  sf_minimum :: "int option"
  sf_maximum :: "int option"
  sf_minimum_inclusive :: bool
  sf_max_length :: "nat option"
  sf_choices :: "string list"
  sf_allow_empty :: bool

definition setting ::
    "string \<Rightarrow> string \<Rightarrow> string \<Rightarrow> string \<Rightarrow> string \<Rightarrow> int option \<Rightarrow> int option \<Rightarrow> bool
     \<Rightarrow> nat option \<Rightarrow> string list \<Rightarrow> bool \<Rightarrow> setting_field" where
  "setting key ini label sect vtype lo hi incl len choices may_be_empty =
     \<lparr> sf_key = key, sf_ini_key = ini, sf_label = label, sf_section = sect, sf_value_type = vtype,
       sf_minimum = lo, sf_maximum = hi, sf_minimum_inclusive = incl, sf_max_length = len,
       sf_choices = choices, sf_allow_empty = may_be_empty \<rparr>"

definition server_fields :: "setting_field list" where
  "server_fields =
    [ setting ''server_name'' ''ServerName'' ''Server name'' ''Server'' ''string''
       None None False (Some 100) [] False,
      setting ''server_description'' ''ServerDescription'' ''Server description'' ''Server'' ''string''
       None None False (Some 500) [] True,
      setting ''max_players'' ''ServerPlayerMaxNum'' ''Maximum players'' ''Server'' ''integer''
       (Some 1) None False None [] False ]"

definition base_palbox_fields :: "setting_field list" where
  "base_palbox_fields =
    [ setting ''base_camp_worker_max_num'' ''BaseCampWorkerMaxNum'' ''Maximum base workers'' ''Base and Palbox'' ''integer''
       (Some 1) (Some 50) False None [] False,
      setting ''monster_farm_action_speed_rate'' ''MonsterFarmActionSpeedRate'' ''Ranch production speed'' ''Base and Palbox'' ''number''
       (Some 0) None False None [] False,
      setting ''allow_global_palbox_export'' ''bAllowGlobalPalboxExport'' ''Allow Global Palbox export'' ''Base and Palbox'' ''boolean''
       None None False None [''True'', ''False''] False,
      setting ''allow_global_palbox_import'' ''bAllowGlobalPalboxImport'' ''Allow Global Palbox import'' ''Base and Palbox'' ''boolean''
       None None False None [''True'', ''False''] False ]"

definition gameplay_fields :: "setting_field list" where
  "gameplay_fields =
    [ setting ''exp_rate'' ''ExpRate'' ''Experience rate'' ''Gameplay'' ''number''
       (Some 0) None False None [] False,
      setting ''collection_drop_rate'' ''CollectionDropRate'' ''Collection drop rate'' ''Gameplay'' ''number''
       (Some 0) None False None [] False,
      setting ''enemy_drop_item_rate'' ''EnemyDropItemRate'' ''Enemy drop item rate'' ''Gameplay'' ''number''
       (Some 0) None False None [] False,
      setting ''supply_drop_span'' ''SupplyDropSpan'' ''Meteorite and supply interval'' ''Gameplay'' ''integer''
       (Some 1) None False None [] False,
      setting ''pal_spawn_rate'' ''PalSpawnNumRate'' ''Pal spawn rate'' ''Gameplay'' ''number''
       (Some 0) None False None [] False,
      setting ''death_penalty'' ''DeathPenalty'' ''Death penalty'' ''Gameplay'' ''choice''
       None None False None [''None'', ''Item'', ''ItemAndEquipment'', ''All''] False,
      setting ''pal_auto_hp_regen_rate_in_sleep'' ''PalAutoHpRegeneRateInSleep'' ''Pal HP regeneration in Palbox'' ''Gameplay'' ''number''
       (Some 0) None False None [] False,
      setting ''pal_egg_default_hatching_time'' ''PalEggDefaultHatchingTime'' ''Huge Egg hatching time'' ''Gameplay'' ''number''
       (Some 0) None True None [] False ]"

definition damage_fields :: "setting_field list" where
  "damage_fields =
    [ setting ''pal_damage_attack_rate'' ''PalDamageRateAttack'' ''Pal attack damage rate'' ''Damage'' ''number''
       (Some 0) None False None [] False,
      setting ''pal_damage_defense_rate'' ''PalDamageRateDefense'' ''Pal received damage rate'' ''Damage'' ''number''
       (Some 0) None False None [] False,
      setting ''player_damage_attack_rate'' ''PlayerDamageRateAttack'' ''Player attack damage rate'' ''Damage'' ''number''
       (Some 0) None False None [] False,
      setting ''player_damage_defense_rate'' ''PlayerDamageRateDefense'' ''Player received damage rate'' ''Damage'' ''number''
       (Some 0) None False None [] False ]"

definition stamina_inventory_fields :: "setting_field list" where
  "stamina_inventory_fields =
    [ setting ''pal_stamina_decrease_rate'' ''PalStaminaDecreaceRate'' ''Pal stamina depletion rate'' ''Stamina and inventory'' ''number''
       (Some 0) None False None [] False,
      setting ''pal_stomach_decrease_rate'' ''PalStomachDecreaceRate'' ''Pal hunger depletion rate'' ''Stamina and inventory'' ''number''
       (Some 0) None False None [] False,
      setting ''player_stamina_decrease_rate'' ''PlayerStaminaDecreaceRate'' ''Player stamina depletion rate'' ''Stamina and inventory'' ''number''
       (Some 0) None False None [] False,
      setting ''item_weight_rate'' ''ItemWeightRate'' ''Item weight rate'' ''Stamina and inventory'' ''number''
       (Some 0) None False None [] False ]"

definition FIELDS :: "setting_field list" where
  "FIELDS = server_fields @ base_palbox_fields @ gameplay_fields @ damage_fields
     @ stamina_inventory_fields"

section \<open>One value\<close>

definition setting_error :: "setting_field \<Rightarrow> string \<Rightarrow> 'a result" where
  "setting_error f msg = Inl (SettingsValidationError (sf_label f @ msg))"

definition parse_string :: "setting_field \<Rightarrow> py_value \<Rightarrow> config_value result" where
  "parse_string f v = (case v of
      VStr s \<Rightarrow>
        (let parsed = (if sf_allow_empty f then s else strip s)
         in if parsed = [] \<and> \<not> sf_allow_empty f then setting_error f '' must not be empty''
            else (case sf_max_length f of
                None \<Rightarrow> Inr (CStr parsed)
              | Some n \<Rightarrow>
                  if n < length parsed
                  then setting_error f ('' must be at most '' @ show_nat n @ '' characters'')
                  else Inr (CStr parsed)))
    | _ \<Rightarrow> setting_error f '' must be text'')"

definition parse_choice :: "setting_field \<Rightarrow> py_value \<Rightarrow> config_value result" where
  "parse_choice f v =
     (let err = setting_error f ('' must be one of: '' @ join_comma (sf_choices f))
      in case v of
           VStr s \<Rightarrow> (case find (\<lambda>c. casefold c = casefold (strip s)) (rev (sf_choices f)) of
               Some c \<Rightarrow> Inr (CStr c)
             | None \<Rightarrow> err)
         | _ \<Rightarrow> err)"

definition parse_boolean :: "setting_field \<Rightarrow> py_value \<Rightarrow> config_value result" where
  "parse_boolean f v =
     (let err = setting_error f '' must be True or False''
      in case v of
           VBool b \<Rightarrow> Inr (CBool b)
         | VStr s \<Rightarrow>
             (let normalized = casefold (strip s)
              in if normalized = ''true'' then Inr (CBool True)
                 else if normalized = ''false'' then Inr (CBool False)
                 else err)
         | _ \<Rightarrow> err)"

definition parse_integer :: "setting_field \<Rightarrow> py_value \<Rightarrow> config_value result" where
  "parse_integer f v =
     (case (case v of
              VInt n \<Rightarrow> Inr n
            | VStr s \<Rightarrow> (case int_of_text s of
                Some n \<Rightarrow> Inr n
              | None \<Rightarrow> setting_error f '' must be a whole number'')
            | _ \<Rightarrow> setting_error f '' must be a whole number'') of
        Inl e \<Rightarrow> Inl e
      | Inr n \<Rightarrow>
          if (case sf_minimum f of None \<Rightarrow> False | Some lo \<Rightarrow> n < lo)
          then setting_error f ('' must be at least '' @ show_int (the (sf_minimum f)))
          else if (case sf_maximum f of None \<Rightarrow> False | Some hi \<Rightarrow> hi < n)
          then setting_error f ('' must be at most '' @ show_int (the (sf_maximum f)))
          else Inr (CInt n))"

definition replace_comma :: "string \<Rightarrow> string" where
  "replace_comma s = map (\<lambda>c. if c = CHR '','' then CHR ''.'' else c) s"

text \<open>An \<open>OverflowError\<close> of \<open>float(value)\<close> is not caught.\<close>

definition parse_number :: "setting_field \<Rightarrow> py_value \<Rightarrow> config_value result" where
  "parse_number f v =
     (case (case v of
              VInt n \<Rightarrow> float_of_int n
            | VFloat x \<Rightarrow> Inr x
            | VStr s \<Rightarrow> (case float_of_text (replace_comma (strip s)) of
                Some x \<Rightarrow> Inr x
              | None \<Rightarrow> setting_error f '' must be a number'')
            | _ \<Rightarrow> setting_error f '' must be a number'') of
        Inl e \<Rightarrow> Inl e
      | Inr x \<Rightarrow>
          if \<not> is_finite x then setting_error f '' must be a finite number''
          else if (case sf_minimum f of
                     None \<Rightarrow> False
                   | Some lo \<Rightarrow> if sf_minimum_inclusive f then float_less_int x lo
                               else float_le_int x lo)
          then setting_error f ('' must be ''
                 @ (if sf_minimum_inclusive f then ''at least'' else ''greater than'') @ '' ''
                 @ show_int (the (sf_minimum f)))
          else if (case sf_maximum f of None \<Rightarrow> False | Some hi \<Rightarrow> int_less_float hi x)
          then setting_error f ('' must be at most '' @ show_int (the (sf_maximum f)))
          else Inr (CFloat x))"

text \<open>\<open>SettingField.parse\<close>.\<close>

definition parse_setting :: "setting_field \<Rightarrow> py_value \<Rightarrow> config_value result" where
  "parse_setting f v =
     (if sf_value_type f = ''string'' then parse_string f v
      else if sf_value_type f = ''choice'' then parse_choice f v
      else if sf_value_type f = ''boolean'' then parse_boolean f v
      else if (case v of VBool _ \<Rightarrow> True | _ \<Rightarrow> False) then setting_error f '' must be a number''
      else if sf_value_type f = ''integer'' then parse_integer f v
      else if sf_value_type f = ''number'' then parse_number f v
      else Inl (RuntimeError (''unsupported field type: '' @ sf_value_type f)))"

section \<open>A configuration\<close>

fun collect :: "('a \<Rightarrow> 'b result) \<Rightarrow> 'a list \<Rightarrow> 'b list result" where
  "collect g [] = Inr []"
| "collect g (x # xs) = (case g x of
      Inl e \<Rightarrow> Inl e
    | Inr y \<Rightarrow> (case collect g xs of Inl e \<Rightarrow> Inl e | Inr ys \<Rightarrow> Inr (y # ys)))"

definition parse_entry :: "(string \<times> py_value) list \<Rightarrow> setting_field \<Rightarrow> (string \<times> config_value) result" where
  "parse_entry raw f = (case dict_get raw (sf_key f) of
      None \<Rightarrow> Inl (KeyError (sf_key f))
    | Some v \<Rightarrow> (case parse_setting f v of Inl e \<Rightarrow> Inl e | Inr c \<Rightarrow> Inr (sf_key f, c)))"

definition normalize_settings ::
    "py_value \<Rightarrow> bool \<Rightarrow> bool \<Rightarrow> (string, config_value) dict result" where
  "normalize_settings raw_settings require_all allow_extra = (case raw_settings of
      VDict raw \<Rightarrow>
        (let expected = map sf_key FIELDS; actual = map fst raw;
             missing = sort (filter (\<lambda>k. k \<notin> set actual) expected);
             extra = sort (remdups (filter (\<lambda>k. k \<notin> set expected) actual))
         in if require_all \<and> missing \<noteq> []
            then Inl (SettingsValidationError (''missing settings: '' @ join_comma missing))
            else if extra \<noteq> [] \<and> \<not> allow_extra
            then Inl (SettingsValidationError (''unknown settings: '' @ join_comma extra))
            else collect (parse_entry raw) (filter (\<lambda>f. sf_key f \<in> set actual) FIELDS))
    | _ \<Rightarrow> Inl (SettingsValidationError ''settings must be a JSON object''))"

section \<open>The Game Catalog\<close>

definition PALWORLD_DEFAULTS :: "(string, config_value) dict" where
  "PALWORLD_DEFAULTS =
    [ (''server_name'', CStr ''GameWake Palworld''),
      (''server_description'', CStr ''Persistent World powered by GameWake''),
      (''max_players'', CInt 16),
      (''base_camp_worker_max_num'', CInt 15),
      (''monster_farm_action_speed_rate'', CFloat (Flt 1 0)),
      (''allow_global_palbox_export'', CBool False),
      (''allow_global_palbox_import'', CBool False),
      (''exp_rate'', CFloat (Flt 1 0)),
      (''collection_drop_rate'', CFloat (Flt 1 0)),
      (''enemy_drop_item_rate'', CFloat (Flt 1 0)),
      (''supply_drop_span'', CInt 180),
      (''pal_spawn_rate'', CFloat (Flt 1 0)),
      (''death_penalty'', CStr ''Item''),
      (''pal_auto_hp_regen_rate_in_sleep'', CFloat (Flt 1 0)),
      (''pal_egg_default_hatching_time'', CFloat (Flt 9 3)),
      (''pal_damage_attack_rate'', CFloat (Flt 1 0)),
      (''pal_damage_defense_rate'', CFloat (Flt 1 0)),
      (''player_damage_attack_rate'', CFloat (Flt 1 0)),
      (''player_damage_defense_rate'', CFloat (Flt 1 0)),
      (''pal_stamina_decrease_rate'', CFloat (Flt 1 0)),
      (''pal_stomach_decrease_rate'', CFloat (Flt 1 0)),
      (''player_stamina_decrease_rate'', CFloat (Flt 1 0)),
      (''item_weight_rate'', CFloat (Flt 1 0)) ]"

record configuration_field =
  cf_key :: string
  cf_ini_key :: string
  cf_section :: string
  cf_value_type :: string
  cf_default :: config_value
  cf_restart_required :: bool
  cf_choices :: "string list"

record game_template =
  gt_id :: string
  gt_game_key :: string
  gt_version :: int
  gt_fields :: "configuration_field list"

definition PALWORLD_TEMPLATE :: game_template where
  "PALWORLD_TEMPLATE = \<lparr> gt_id = ''palworld:1'', gt_game_key = ''palworld'', gt_version = 1,
     gt_fields = map (\<lambda>f. \<lparr> cf_key = sf_key f, cf_ini_key = sf_ini_key f,
       cf_section = sf_section f, cf_value_type = sf_value_type f,
       cf_default = the (dict_get PALWORLD_DEFAULTS (sf_key f)), cf_restart_required = True,
       cf_choices = sf_choices f \<rparr>) FIELDS \<rparr>"

definition validate_palworld_configuration ::
    "py_value \<Rightarrow> bool \<Rightarrow> (string, config_value) dict result" where
  "validate_palworld_configuration values partial =
     (case normalize_settings values (\<not> partial) False of
        Inl (SettingsValidationError m) \<Rightarrow> Inl (GameConfigurationError m)
      | r \<Rightarrow> r)"

type_synonym game_catalog = "(string, game_template) dict"

definition with_palworld :: game_catalog where
  "with_palworld = [(gt_id PALWORLD_TEMPLATE, PALWORLD_TEMPLATE)]"

definition resolve :: "game_catalog \<Rightarrow> string \<Rightarrow> game_template result" where
  "resolve catalog template_id = (case dict_get catalog template_id of
      Some t \<Rightarrow> Inr t
    | None \<Rightarrow> Inl (KeyError (''unknown Game Template: '' @ template_id)))"

definition validate_configuration ::
    "game_catalog \<Rightarrow> string \<Rightarrow> py_value \<Rightarrow> bool \<Rightarrow> (string, config_value) dict result" where
  "validate_configuration catalog template_id values partial =
     (case resolve catalog template_id of
        Inl e \<Rightarrow> Inl e
      | Inr t \<Rightarrow>
          if gt_game_key t = ''palworld'' then validate_palworld_configuration values partial
          else Inl (GameConfigurationError
                 (''Game Template has no configuration validator: '' @ template_id)))"

text \<open>A configuration as the dictionary the validators read.\<close>

definition py_dict :: "(string, config_value) dict \<Rightarrow> py_value" where
  "py_dict entries = VDict (map (\<lambda>(k, v). (k, to_py v)) entries)"

end
