(* ===== verification/SettingsProperties.thy ===== *)
theory SettingsProperties
  imports Settings
begin

text \<open>
  What the Palworld settings catalog guarantees: accepted values lie within the limits of their
  field, normalising twice is normalising once, and the only other exception than
  \<open>SettingsValidationError\<close> is an integer too large for a float.
\<close>

section \<open>Fields\<close>

definition field_ok :: "setting_field \<Rightarrow> bool" where
  "field_ok f \<longleftrightarrow> sf_value_type f \<in> set [''string'', ''choice'', ''boolean'', ''integer'', ''number'']
     \<and> distinct (map casefold (sf_choices f)) \<and> (\<forall>c \<in> set (sf_choices f). strip c = c)"

lemma fields_ok: "\<forall>f \<in> set FIELDS. field_ok f"
  by code_simp

lemma fields_distinct: "distinct (map sf_key FIELDS)"
  by code_simp

text \<open>The values a field accepts.\<close>

definition setting_ok :: "setting_field \<Rightarrow> config_value \<Rightarrow> bool" where
  "setting_ok f c = (case c of
      CStr s \<Rightarrow>
        if sf_value_type f = ''choice'' then s \<in> set (sf_choices f)
        else sf_value_type f = ''string'' \<and> (sf_allow_empty f \<or> s \<noteq> [] \<and> strip s = s)
          \<and> (\<forall>n. sf_max_length f = Some n \<longrightarrow> length s \<le> n)
    | CBool _ \<Rightarrow> sf_value_type f = ''boolean''
    | CInt n \<Rightarrow> sf_value_type f = ''integer'' \<and> (\<forall>lo. sf_minimum f = Some lo \<longrightarrow> lo \<le> n)
        \<and> (\<forall>hi. sf_maximum f = Some hi \<longrightarrow> n \<le> hi)
    | CFloat x \<Rightarrow> sf_value_type f = ''number'' \<and> is_finite x
        \<and> (\<forall>lo. sf_minimum f = Some lo \<longrightarrow>
              (if sf_minimum_inclusive f then \<not> float_less_int x lo else int_less_float lo x))
        \<and> (\<forall>hi. sf_maximum f = Some hi \<longrightarrow> \<not> int_less_float hi x))"

lemma dropWhile_hd: "dropWhile P xs = [] \<or> \<not> P (hd (dropWhile P xs))"
  by (induction xs) auto

lemma dropWhile_rev_hd: "xs = [] \<or> \<not> P (hd xs) \<Longrightarrow> dropWhile P xs = xs"
  by (cases xs) auto

lemma strip_idem [simp]: "strip (strip s) = strip s"
proof -
  define u where "u = dropWhile is_space s"
  define v where "v = rev (dropWhile is_space (rev u))"
  have "u = [] \<or> \<not> is_space (hd u)" unfolding u_def by (rule dropWhile_hd)
  moreover have "u = v @ rev (takeWhile is_space (rev u))"
    unfolding v_def by (metis rev_append rev_rev_ident takeWhile_dropWhile_id)
  ultimately have "v = [] \<or> \<not> is_space (hd v)" by (metis append_is_Nil_conv hd_append2)
  then have 1: "dropWhile is_space v = v" by (rule dropWhile_rev_hd)
  have "rev v = [] \<or> \<not> is_space (hd (rev v))" unfolding v_def using dropWhile_hd [of is_space "rev u"] by simp
  then have "dropWhile is_space (rev v) = rev v" by (rule dropWhile_rev_hd)
  with 1 show ?thesis by (simp add: strip_def u_def [symmetric] v_def [symmetric])
qed

lemma parse_setting_ok:
  assumes "parse_setting f v = Inr c"
  shows "setting_ok f c"
proof (cases "sf_value_type f = ''string''")
  case True
  with assms show ?thesis
    by (auto simp: parse_setting_def parse_string_def setting_ok_def setting_error_def Let_def not_less
        split: py_value.splits if_splits option.splits)
next
  case not_string: False
  show ?thesis
  proof (cases "sf_value_type f = ''choice''")
    case True
    with assms not_string show ?thesis
      by (auto simp: parse_setting_def parse_choice_def setting_ok_def setting_error_def Let_def
          split: py_value.splits option.splits dest: find_Some_iff_mem)
  next
    case not_choice: False
    show ?thesis
    proof (cases "sf_value_type f = ''boolean''")
      case True
      with assms not_string not_choice show ?thesis
        by (auto simp: parse_setting_def parse_boolean_def setting_ok_def setting_error_def Let_def
            split: py_value.splits if_splits)
    next
      case not_boolean: False
      show ?thesis
      proof (cases "sf_value_type f = ''integer''")
        case True
        then have "parse_integer f v = Inr c"
          using assms not_string not_choice not_boolean
          by (auto simp: parse_setting_def setting_error_def split: if_splits)
        with True show ?thesis
          by (auto simp: parse_integer_def setting_ok_def setting_error_def not_less
              split: sum.splits if_splits)
      next
        case False
        then have "parse_number f v = Inr c" "sf_value_type f = ''number''"
          using assms not_string not_choice not_boolean
          by (auto simp: parse_setting_def setting_error_def split: if_splits)
        then show ?thesis
          by (auto simp: parse_number_def setting_ok_def setting_error_def float_le_int_finite
              split: sum.splits if_splits)
      qed
    qed
  qed
qed

text \<open>A value that is already normal is kept.\<close>

lemma parse_normal:
  assumes f: "field_ok f" and c: "setting_ok f c"
  shows "parse_setting f (to_py c) = Inr c"
proof (cases c)
  case (CStr s)
  show ?thesis
  proof (cases "sf_value_type f = ''choice''")
    case True
    with CStr c have s: "s \<in> set (sf_choices f)" by (simp add: setting_ok_def)
    with f have strip: "strip s = s" by (simp add: field_ok_def)
    have inj: "x = s" if "x \<in> set (sf_choices f)" "casefold x = casefold s" for x
      using f s that by (auto simp: field_ok_def distinct_map inj_on_def)
    have "find (\<lambda>x. casefold x = casefold s) (rev (sf_choices f)) = Some s"
    proof (cases "find (\<lambda>x. casefold x = casefold s) (rev (sf_choices f))")
      case None
      with s show ?thesis by (auto dest!: find_None_ball)
    next
      case (Some x)
      with inj show ?thesis by (auto dest: find_Some_iff_mem)
    qed
    with True CStr strip show ?thesis
      by (simp add: parse_setting_def parse_choice_def Let_def)
  next
    case False
    with CStr c show ?thesis
      by (auto simp: setting_ok_def parse_setting_def parse_string_def Let_def not_less [symmetric]
          split: option.split)
  qed
next
  case (CInt n)
  with c show ?thesis
    by (auto simp: setting_ok_def parse_setting_def parse_integer_def not_less [symmetric]
        split: option.split)
next
  case (CFloat x)
  with c show ?thesis
    by (auto simp: setting_ok_def parse_setting_def parse_number_def float_le_int_finite
        split: option.split)
next
  case (CBool b)
  with c show ?thesis
    by (simp add: setting_ok_def parse_setting_def parse_boolean_def Let_def)
qed

section \<open>Configurations\<close>

lemma collect_Inr:
  "collect g xs = Inr ys \<longleftrightarrow> list_all2 (\<lambda>x y. g x = Inr y) xs ys"
proof (induction xs arbitrary: ys)
  case (Cons x xs)
  show ?case
  proof (cases "collect g xs")
    case (Inl e)
    then have "\<not> list_all2 (\<lambda>x y. g x = Inr y) xs zs" for zs using Cons [of zs] by simp
    with Inl show ?thesis by (cases "g x") (auto simp: list_all2_Cons1)
  next
    case (Inr zs)
    then have "list_all2 (\<lambda>x y. g x = Inr y) xs ws \<longleftrightarrow> ws = zs" for ws using Cons [of ws] by auto
    with Inr show ?thesis by (cases "g x") (auto simp: list_all2_Cons1)
  qed
qed (simp add: eq_commute)

definition entries_ok :: "(string, config_value) dict \<Rightarrow> setting_field list \<Rightarrow> bool" where
  "entries_ok d fs \<longleftrightarrow> list_all2 (\<lambda>f (k, c). k = sf_key f \<and> setting_ok f c) fs d"

lemma entries_keys: "entries_ok d fs \<Longrightarrow> map fst d = map sf_key fs"
  unfolding entries_ok_def by (induction rule: list_all2_induct) auto

lemma normalize_Inr:
  assumes "normalize_settings raw all_keys extra = Inr d"
  obtains r where "raw = VDict r"
    "entries_ok d (filter (\<lambda>f. sf_key f \<in> fst ` set r) FIELDS)"
    "all_keys \<longrightarrow> set (map sf_key FIELDS) \<subseteq> fst ` set r"
proof (cases raw)
  case (VDict r)
  then have c: "collect (parse_entry r) (filter (\<lambda>f. sf_key f \<in> fst ` set r) FIELDS) = Inr d"
    and miss: "all_keys \<longrightarrow> sort (filter (\<lambda>k. k \<notin> fst ` set r) (map sf_key FIELDS)) = []"
    using assms by (auto simp: normalize_settings_def Let_def split: if_splits)
  have e: "k = sf_key f \<and> setting_ok f c" if "parse_entry r f = Inr (k, c)" for f k c
    using that by (auto simp: parse_entry_def split: option.splits sum.splits intro: parse_setting_ok)
  have "entries_ok d (filter (\<lambda>f. sf_key f \<in> fst ` set r) FIELDS)"
    using c unfolding collect_Inr entries_ok_def
    by (rule list_all2_mono) (use e in auto)
  moreover have "all_keys \<longrightarrow> set (map sf_key FIELDS) \<subseteq> fst ` set r"
  proof
    assume all_keys
    have "filter (\<lambda>k. k \<notin> fst ` set r) (map sf_key FIELDS) = []"
      using miss \<open>all_keys\<close> by (metis set_empty set_sort)
    then show "set (map sf_key FIELDS) \<subseteq> fst ` set r" by (auto simp: filter_empty_conv)
  qed
  ultimately show ?thesis using VDict by (intro that)
qed (use assms in \<open>simp_all add: normalize_settings_def\<close>)

text \<open>
  C22. Accepted settings are within limits: every entry of a normalised configuration belongs to a
  field of the catalog and respects its type, its length, its choices and its bounds; a rate is a
  finite number above its minimum; and when all settings are required none is missing.
\<close>

theorem normalized_settings_are_within_limits:
  assumes "normalize_settings raw all_keys extra = Inr d"
  shows "distinct (map fst d) \<and> (\<forall>(k, c) \<in> set d. \<exists>f \<in> set FIELDS. sf_key f = k \<and> setting_ok f c)
    \<and> (all_keys \<longrightarrow> map fst d = map sf_key FIELDS)"
proof -
  from assms obtain r where "raw = VDict r" and ok: "entries_ok d (filter (\<lambda>f. sf_key f \<in> fst ` set r) FIELDS)"
    and all: "all_keys \<longrightarrow> set (map sf_key FIELDS) \<subseteq> fst ` set r"
    by (rule normalize_Inr)
  have "(\<forall>(k, c) \<in> set xs. \<exists>f \<in> set fs. sf_key f = k \<and> setting_ok f c)" if "entries_ok xs fs" for xs fs
    using that unfolding entries_ok_def by (induction rule: list_all2_induct) auto
  from this [OF ok] have "\<forall>(k, c) \<in> set d. \<exists>f \<in> set FIELDS. sf_key f = k \<and> setting_ok f c"
    by fastforce
  moreover have "distinct (map fst d)"
    unfolding entries_keys [OF ok] using fields_distinct by (auto simp: distinct_map inj_on_def)
  moreover have "map fst d = map sf_key FIELDS" if all_keys
  proof -
    have "filter (\<lambda>f. sf_key f \<in> fst ` set r) FIELDS = FIELDS"
      using all that by (auto simp: filter_id_conv)
    with entries_keys [OF ok] show ?thesis by simp
  qed
  ultimately show ?thesis by blast
qed

lemma normalized_settings_are_within_limits_witness:
  "\<exists>d. normalize_settings (VDict [(''exp_rate'', VStr '' 1,5'')]) False False = Inr d
     \<and> (\<forall>(k, c) \<in> set d. \<exists>f \<in> set FIELDS. sf_key f = k \<and> setting_ok f c)"
proof -
  have run: "normalize_settings (VDict [(''exp_rate'', VStr '' 1,5'')]) False False
      = Inr [(''exp_rate'', CFloat (Flt 3 (- 1)))]" by code_simp
  from normalized_settings_are_within_limits [OF this] run show ?thesis by blast
qed

text \<open>
  Normalising is idempotent: a normalised configuration, sent through the validation again
  (as every edit of a World does with the stored values), comes back unchanged.
\<close>

theorem normalizing_twice_is_normalizing_once:
  assumes "normalize_settings raw all_keys extra = Inr d"
  shows "normalize_settings (py_dict d) all_keys False = Inr d"
proof -
  from assms obtain r where "raw = VDict r" and ok: "entries_ok d (filter (\<lambda>f. sf_key f \<in> fst ` set r) FIELDS)"
    and all: "all_keys \<longrightarrow> set (map sf_key FIELDS) \<subseteq> fst ` set r"
    by (rule normalize_Inr)
  let ?fs = "filter (\<lambda>f. sf_key f \<in> fst ` set r) FIELDS"
  have keys: "fst ` set d = sf_key ` set ?fs"
    using arg_cong [OF entries_keys [OF ok], of set] by (simp only: set_map)
  have d_get: "dict_get (map (\<lambda>(k, v). (k, to_py v)) d) k = map_option to_py (dict_get d k)" for k
    by (induction d) auto
  have dist: "distinct (map fst d)"
    unfolding entries_keys [OF ok] using fields_distinct by (auto simp: distinct_map inj_on_def)
  have same: "filter (\<lambda>f. sf_key f \<in> sf_key ` set ?fs) FIELDS = ?fs"
    using fields_distinct by (intro filter_cong) (auto simp: distinct_map inj_on_def)
  have entry: "parse_entry (map (\<lambda>(k, v). (k, to_py v)) d) f = Inr (k, c)"
    if "f \<in> set ?fs" "(k, c) \<in> set d" "k = sf_key f" "setting_ok f c" for f k c
  proof -
    have "dict_get d k = Some c" using dist that(2) by simp
    moreover have "field_ok f" using fields_ok that(1) by auto
    ultimately show ?thesis
      using that parse_normal by (simp add: parse_entry_def d_get)
  qed
  have "list_all2 (\<lambda>f y. parse_entry (map (\<lambda>(k, v). (k, to_py v)) d) f = Inr y) ?fs d"
    using ok unfolding entries_ok_def
    by (rule list.rel_mono_strong) (clarify, rule entry, assumption+, simp_all)
  then have "collect (parse_entry (map (\<lambda>(k, v). (k, to_py v)) d)) ?fs = Inr d"
    by (simp add: collect_Inr)
  moreover have "filter (\<lambda>k. k \<notin> sf_key ` set ?fs) (map sf_key FIELDS) = []" if all_keys
  proof -
    have "set ?fs = set FIELDS" using all that by auto
    then show ?thesis by (auto simp: filter_empty_conv simp del: set_filter)
  qed
  moreover have "filter (\<lambda>k. k \<notin> set (map sf_key FIELDS)) (map fst d) = []"
    unfolding entries_keys [OF ok] by (auto simp: filter_empty_conv)
  ultimately show ?thesis
    using same by (simp add: normalize_settings_def py_dict_def Let_def comp_def case_prod_beta keys
        del: set_filter)
qed

lemma normalizing_twice_is_normalizing_once_witness:
  "\<exists>d. normalize_settings (VDict [(''exp_rate'', VStr '' 1,5''), (''max_players'', VStr ''16'')]) False False = Inr d
     \<and> normalize_settings (py_dict d) False False = Inr d"
proof -
  have "normalize_settings (VDict [(''exp_rate'', VStr '' 1,5''), (''max_players'', VStr ''16'')]) False False
      = Inr [(''max_players'', CInt 16), (''exp_rate'', CFloat (Flt 3 (- 1)))]" by code_simp
  from normalizing_twice_is_normalizing_once [OF this] this show ?thesis by blast
qed

text \<open>The defaults of a new World are a complete, normal configuration.\<close>

lemma palworld_defaults_normal:
  "validate_configuration with_palworld ''palworld:1'' (py_dict PALWORLD_DEFAULTS) False
     = Inr PALWORLD_DEFAULTS"
  by code_simp

end
