(* ===== verification/WorldModel.thy ===== *)
theory WorldModel
  imports Settings AccountModel
begin

text \<open>
  The data of the Worlds component (\<open>gamewake/worlds/model.py\<close>): a World, its asynchronous
  operations with their status and phase, Backups, Exports and Configuration Revisions. The
  statuses of an operation carry the prefix \<open>OP_\<close>, since a World has statuses of the same name,
  and the phase \<open>online\<close>, which no code sets, is \<open>PHASE_ONLINE\<close>.
\<close>

datatype world_status =
  SLEEPING | WAKING | ONLINE | GOING_TO_SLEEP | NEEDS_ATTENTION | PENDING_DELETION

datatype backup_kind = AUTOMATIC | MANUAL | RESTORE_POINT | FINAL

datatype operation_type = WAKE | SLEEP | RECOVER

datatype operation_status =
  OP_PENDING | OP_RUNNING | OP_SUCCEEDED | OP_CANCELLED | OP_FAILED | OP_NEEDS_ATTENTION

datatype operation_phase =
    REQUESTED | PROVISIONING_RUNTIME | RESTORING_WORLD | APPLYING_CONFIGURATION | STARTING_GAME
  | CHECKING_GAME_HEALTH | PHASE_ONLINE | CHECKING_PLAYERS | SAVING_GAME | STOPPING_GAME
  | PERSISTING_WORLD | CREATING_BACKUP | RELEASING_RUNTIME | COMPLETE

record world =
  wd_id :: string
  wd_account_id :: string
  wd_name :: string
  wd_game_template_id :: string
  wd_region :: string
  wd_runtime_profile_id :: string
  wd_status :: world_status
  wd_runtime_id :: "string option"
  wd_runtime_reference :: "string option"
  wd_configuration_revision_id :: string
  wd_pending_configuration_revision_id :: "string option"
  wd_stored_state_id :: "string option"
  wd_stored_state_checksum :: "string option"
  wd_version :: nat
  wd_session_quote_id :: "string option"
  wd_usage_reservation_id :: "string option"
  wd_runtime_started_at :: "instant option"
  wd_empty_since :: "instant option"
  wd_deletion_scheduled_for :: "instant option"
  wd_final_backup_id :: "string option"
  wd_applied_data_operations :: "string list"
  wd_auto_sleep_minutes :: "int option"

record runtime =
  rt_id :: string
  rt_provider_reference :: string

record stored_world_state =
  ss_id :: string
  ss_checksum :: string
  ss_validated :: bool

record backup =
  bk_id :: string
  bk_account_id :: string
  bk_world_id :: string
  bk_state_id :: string
  bk_checksum :: string
  bk_kind :: backup_kind
  bk_size_bytes :: int
  bk_created_at :: "instant option"

record world_export_manifest =
  mf_format_version :: int
  mf_game_template_id :: string
  mf_configuration_revision_id :: string
  mf_configuration :: "(string, config_value) dict"
  mf_world_state_id :: string
  mf_world_state_checksum :: string

record world_export =
  ex_id :: string
  ex_account_id :: string
  ex_world_id :: string
  ex_download_url :: string
  ex_manifest :: world_export_manifest
  ex_created_at :: instant

record configuration_revision =
  cr_id :: string
  cr_account_id :: string
  cr_world_id :: string
  cr_game_template_id :: string
  cr_number :: nat
  cr_entries :: "(string, config_value) dict"
  cr_idempotency_key :: string
  cr_created_at :: instant
  cr_actor_user_id :: string
  cr_origin :: string

record configuration_change =
  cc_key :: string
  cc_current :: config_value
  cc_proposed :: config_value
  cc_restart_required :: bool

record configuration_change_preview =
  cp_world_id :: string
  cp_base_revision_id :: string
  cp_changes :: "configuration_change list"
  cp_proposed_entries :: "(string, config_value) dict"

record world_operation =
  wo_id :: string
  wo_account_id :: string
  wo_world_id :: string
  wo_operation_type :: operation_type
  wo_status :: operation_status
  wo_phase :: operation_phase
  wo_idempotency_key :: string
  wo_created_at :: instant
  wo_version :: nat
  wo_runtime_id :: "string option"
  wo_runtime_reference :: "string option"
  wo_force :: bool
  wo_stored_state_id :: "string option"
  wo_stored_state_checksum :: "string option"
  wo_backup_id :: "string option"
  wo_attempt_number :: nat
  wo_session_quote_id :: "string option"
  wo_usage_reservation_id :: "string option"
  wo_runtime_started_at :: "instant option"

text \<open>\<open>status in {PENDING, RUNNING}\<close>, and its complement in the worker's tests.\<close>

definition is_active :: "operation_status \<Rightarrow> bool" where
  "is_active s \<longleftrightarrow> s \<in> set [OP_PENDING, OP_RUNNING]"

definition is_terminal :: "operation_status \<Rightarrow> bool" where
  "is_terminal s \<longleftrightarrow> s \<in> set [OP_SUCCEEDED, OP_CANCELLED, OP_FAILED, OP_NEEDS_ATTENTION]"

lemma terminal_iff: "is_terminal s \<longleftrightarrow> \<not> is_active s"
  by (cases s) (simp_all add: is_active_def is_terminal_def)

end
