(* ===== verification/Lifecycle.thy ===== *)
theory Lifecycle
  imports WorldModel
begin

text \<open>
  The abstract specification of a World operation: which phase may follow which, for a wake, a
  safe sleep and an Automatic Recovery (\<open>docs/adr/0018\<close>, \<open>worlds/worker.py\<close>), how an
  operation ends, and how many phases are left at most. The theories after this one show that
  the service, the worker and the monitor move an operation along \<open>lifecycle\<close> only.
\<close>

type_synonym op_point = "operation_status \<times> operation_phase"

inductive next_phase :: "operation_type \<Rightarrow> operation_phase \<Rightarrow> operation_phase \<Rightarrow> bool" where
  wake_provision: "next_phase WAKE REQUESTED PROVISIONING_RUNTIME"
| wake_restore: "next_phase WAKE PROVISIONING_RUNTIME RESTORING_WORLD"
| wake_configure: "next_phase WAKE RESTORING_WORLD APPLYING_CONFIGURATION"
| wake_start: "next_phase WAKE APPLYING_CONFIGURATION STARTING_GAME"
| wake_check: "next_phase WAKE STARTING_GAME CHECKING_GAME_HEALTH"
| wake_stop: "next_phase WAKE CHECKING_GAME_HEALTH STOPPING_GAME"
| wake_release: "next_phase WAKE STOPPING_GAME RELEASING_RUNTIME"
| sleep_check: "next_phase SLEEP REQUESTED CHECKING_PLAYERS"
| sleep_save: "next_phase SLEEP CHECKING_PLAYERS SAVING_GAME"
| sleep_stop: "next_phase SLEEP SAVING_GAME STOPPING_GAME"
| sleep_persist: "next_phase SLEEP STOPPING_GAME PERSISTING_WORLD"
| sleep_backup: "next_phase SLEEP PERSISTING_WORLD CREATING_BACKUP"
| sleep_release: "next_phase SLEEP CREATING_BACKUP RELEASING_RUNTIME"
| recover_start: "next_phase RECOVER REQUESTED STARTING_GAME"
| recover_check: "next_phase RECOVER STARTING_GAME CHECKING_GAME_HEALTH"

code_pred next_phase .

inductive final_step ::
    "operation_type \<Rightarrow> operation_phase \<Rightarrow> operation_status \<Rightarrow> bool" where
  woken: "final_step WAKE CHECKING_GAME_HEALTH OP_SUCCEEDED"
| failed_wake: "final_step WAKE RELEASING_RUNTIME OP_NEEDS_ATTENTION"
| players_online: "final_step SLEEP CHECKING_PLAYERS OP_CANCELLED"
| asleep: "final_step SLEEP RELEASING_RUNTIME OP_SUCCEEDED"
| recovered: "final_step RECOVER CHECKING_GAME_HEALTH OP_SUCCEEDED"
| attempt_failed: "final_step RECOVER CHECKING_GAME_HEALTH OP_FAILED"
| recovery_exhausted: "final_step RECOVER CHECKING_GAME_HEALTH OP_NEEDS_ATTENTION"

code_pred final_step .

inductive lifecycle :: "operation_type \<Rightarrow> op_point \<Rightarrow> op_point \<Rightarrow> bool" where
  moves: "is_active s \<Longrightarrow> next_phase t p q \<Longrightarrow> lifecycle t (s, p) (OP_RUNNING, q)"
| finishes: "is_active s \<Longrightarrow> final_step t p s' \<Longrightarrow> lifecycle t (s, p) (s', COMPLETE)"
| gives_up: "is_active s \<Longrightarrow> lifecycle t (s, p) (OP_NEEDS_ATTENTION, p)"
| preflight_fails: "is_active s \<Longrightarrow> lifecycle t (s, p) (OP_FAILED, COMPLETE)"

inductive_cases next_phaseE: "next_phase t p q"
inductive_cases final_stepE: "final_step t p s"
inductive_cases lifecycleE: "lifecycle t a b"
inductive_simps next_phase_simps:
  "next_phase t REQUESTED q" "next_phase t PROVISIONING_RUNTIME q" "next_phase t RESTORING_WORLD q"
  "next_phase t APPLYING_CONFIGURATION q" "next_phase t STARTING_GAME q"
  "next_phase t CHECKING_GAME_HEALTH q" "next_phase t PHASE_ONLINE q"
  "next_phase t CHECKING_PLAYERS q" "next_phase t SAVING_GAME q" "next_phase t STOPPING_GAME q"
  "next_phase t PERSISTING_WORLD q" "next_phase t CREATING_BACKUP q"
  "next_phase t RELEASING_RUNTIME q" "next_phase t COMPLETE q"

definition point :: "world_operation \<Rightarrow> op_point" where
  "point x = (wo_status x, wo_phase x)"

text \<open>The phases left, at most.\<close>

fun phases_left :: "operation_type \<Rightarrow> operation_phase \<Rightarrow> nat" where
  "phases_left WAKE REQUESTED = 8"
| "phases_left WAKE PROVISIONING_RUNTIME = 7"
| "phases_left WAKE RESTORING_WORLD = 6"
| "phases_left WAKE APPLYING_CONFIGURATION = 5"
| "phases_left WAKE STARTING_GAME = 4"
| "phases_left WAKE CHECKING_GAME_HEALTH = 3"
| "phases_left WAKE STOPPING_GAME = 2"
| "phases_left SLEEP REQUESTED = 7"
| "phases_left SLEEP CHECKING_PLAYERS = 6"
| "phases_left SLEEP SAVING_GAME = 5"
| "phases_left SLEEP STOPPING_GAME = 4"
| "phases_left SLEEP PERSISTING_WORLD = 3"
| "phases_left SLEEP CREATING_BACKUP = 2"
| "phases_left RECOVER REQUESTED = 3"
| "phases_left RECOVER STARTING_GAME = 2"
| "phases_left t p = 1"

fun steps_left :: "operation_type \<Rightarrow> op_point \<Rightarrow> nat" where
  "steps_left t (s, p) = (if is_terminal s then 0 else phases_left t p)"

lemma status_simps [simp]:
  "is_active OP_PENDING" "is_active OP_RUNNING" "\<not> is_active OP_SUCCEEDED"
  "\<not> is_active OP_CANCELLED" "\<not> is_active OP_FAILED" "\<not> is_active OP_NEEDS_ATTENTION"
  by (simp_all add: is_active_def)

lemma phases_left_pos: "0 < phases_left t p"
  by (cases "(t, p)" rule: phases_left.cases) simp_all

lemma phases_left_le: "phases_left t p \<le> 8"
  by (cases "(t, p)" rule: phases_left.cases) simp_all

lemma phases_left_next: "next_phase t p q \<Longrightarrow> phases_left t q < phases_left t p"
  by (erule next_phaseE) simp_all

lemma final_step_terminal: "final_step t p s \<Longrightarrow> \<not> is_active s"
  by (erule final_stepE) simp_all

lemma lifecycle_decreases: "lifecycle t a b \<Longrightarrow> steps_left t b < steps_left t a"
  by (erule lifecycleE)
    (auto simp: terminal_iff phases_left_pos phases_left_next dest: final_step_terminal)

lemma lifecycle_from_active: "lifecycle t a b \<Longrightarrow> is_active (fst a)"
  by (erule lifecycleE) simp_all

lemma lifecycle_rtrancl_terminal:
  "(lifecycle t)\<^sup>*\<^sup>* a b \<Longrightarrow> \<not> is_active (fst a) \<Longrightarrow> b = a"
  by (induction rule: converse_rtranclp_induct) (auto dest: lifecycle_from_active)

lemma lifecycle_rtrancl_steps: "(lifecycle t)\<^sup>*\<^sup>* a b \<Longrightarrow> steps_left t b \<le> steps_left t a"
  by (induction rule: rtranclp_induct) (auto dest: lifecycle_decreases)

text \<open>The phases an operation can be in, and what it has recorded by then.\<close>

definition phase_of_type :: "operation_type \<Rightarrow> operation_phase \<Rightarrow> bool" where
  "phase_of_type t p \<longleftrightarrow> (case t of
      WAKE \<Rightarrow> p \<in> set [REQUESTED, PROVISIONING_RUNTIME, RESTORING_WORLD, APPLYING_CONFIGURATION,
        STARTING_GAME, CHECKING_GAME_HEALTH, STOPPING_GAME, RELEASING_RUNTIME, COMPLETE]
    | SLEEP \<Rightarrow> p \<in> set [REQUESTED, CHECKING_PLAYERS, SAVING_GAME, STOPPING_GAME, PERSISTING_WORLD,
        CREATING_BACKUP, RELEASING_RUNTIME, COMPLETE]
    | RECOVER \<Rightarrow> p \<in> set [REQUESTED, STARTING_GAME, CHECKING_GAME_HEALTH, COMPLETE])"

definition has_stored_state :: "world_operation \<Rightarrow> bool" where
  "has_stored_state x \<longleftrightarrow> wo_stored_state_id x \<noteq> None \<and> wo_stored_state_checksum x \<noteq> None"

definition operation_ok :: "world_operation \<Rightarrow> bool" where
  "operation_ok x \<longleftrightarrow> phase_of_type (wo_operation_type x) (wo_phase x)
     \<and> (is_active (wo_status x) \<longrightarrow> wo_phase x \<noteq> COMPLETE
          \<and> (wo_status x = OP_PENDING \<longleftrightarrow> wo_phase x = REQUESTED))
     \<and> (wo_status x \<in> set [OP_SUCCEEDED, OP_CANCELLED, OP_FAILED] \<longrightarrow> wo_phase x = COMPLETE)
     \<and> (wo_operation_type x = SLEEP \<longrightarrow>
          (wo_phase x = CREATING_BACKUP \<longrightarrow> has_stored_state x)
          \<and> (wo_phase x = RELEASING_RUNTIME \<or> wo_status x = OP_SUCCEEDED \<longrightarrow>
               has_stored_state x \<and> wo_backup_id x \<noteq> None))"

text \<open>How an operation may have changed since it was read.\<close>

definition same_request :: "world_operation \<Rightarrow> world_operation \<Rightarrow> bool" where
  "same_request x y \<longleftrightarrow> wo_id y = wo_id x \<and> wo_account_id y = wo_account_id x
     \<and> wo_world_id y = wo_world_id x \<and> wo_operation_type y = wo_operation_type x
     \<and> wo_idempotency_key y = wo_idempotency_key x \<and> wo_created_at y = wo_created_at x
     \<and> wo_force y = wo_force x \<and> wo_attempt_number y = wo_attempt_number x"

definition same_session :: "world_operation \<Rightarrow> world_operation \<Rightarrow> bool" where
  "same_session x y \<longleftrightarrow> wo_session_quote_id y = wo_session_quote_id x
     \<and> wo_usage_reservation_id y = wo_usage_reservation_id x"

definition operation_evolves :: "world_operation \<Rightarrow> world_operation \<Rightarrow> bool" where
  "operation_evolves x y \<longleftrightarrow> same_request x y \<and> wo_version x \<le> wo_version y
     \<and> (wo_version y = wo_version x \<longrightarrow> y = x)
     \<and> (lifecycle (wo_operation_type x))\<^sup>*\<^sup>* (point x) (point y)
     \<and> (wo_session_quote_id x \<noteq> None \<longrightarrow> same_session x y)"

lemma operation_evolves_refl [simp]: "operation_evolves x x"
  by (simp add: operation_evolves_def same_request_def same_session_def)

lemma operation_evolves_trans:
  assumes "operation_evolves x y" "operation_evolves y z" shows "operation_evolves x z"
proof -
  have "z = x" if "wo_version z = wo_version x"
    using assms that unfolding operation_evolves_def by (metis le_antisym)
  moreover have "(lifecycle (wo_operation_type x))\<^sup>*\<^sup>* (point x) (point z)"
    using assms unfolding operation_evolves_def same_request_def by (metis rtranclp_trans)
  ultimately show ?thesis using assms
    by (auto simp: operation_evolves_def same_request_def same_session_def)
qed

text \<open>One save by the service or the worker.\<close>

lemma operation_evolves_step:
  assumes "same_request x y" "wo_version y = wo_version x + 1"
    "point y = point x \<or> lifecycle (wo_operation_type x) (point x) (point y)"
    "wo_session_quote_id x \<noteq> None \<longrightarrow> same_session x y"
  shows "operation_evolves x y"
  using assms by (auto simp: operation_evolves_def)

text \<open>A terminal operation keeps its status and phase.\<close>

lemma evolves_terminal:
  "operation_evolves x y \<Longrightarrow> \<not> is_active (wo_status x) \<Longrightarrow> point y = point x"
  unfolding operation_evolves_def using lifecycle_rtrancl_terminal by (fastforce simp: point_def)

end
