(* ===== verification/WorldStore.thy ===== *)
theory WorldStore
  imports WorldModel AccountStore
begin

text \<open>
  The World repository (\<open>gamewake/worlds/in_memory.py\<close>): Worlds by account and id, operations and
  configuration revisions by id, the idempotency indexes of both, and the active operation of a
  World. A lock makes each of its calls atomic. Worlds and operations are saved under the version
  that was read; the interpretations of \<open>versioned_store\<close> at the end state what that gives.
\<close>

record world_store =
  st_worlds :: "(string \<times> string, world) dict"
  st_operations :: "(string, world_operation) dict"
  st_configurations :: "(string, configuration_revision) dict"
  st_configuration_idempotency :: "(string \<times> string, string) dict"
  st_idempotency :: "(string \<times> string, string) dict"
  st_active_operations :: "(string \<times> string, string) dict"

definition empty_world_store :: world_store where
  "empty_world_store = \<lparr> st_worlds = [], st_operations = [], st_configurations = [],
     st_configuration_idempotency = [], st_idempotency = [], st_active_operations = [] \<rparr>"

definition world_key :: "world \<Rightarrow> string \<times> string" where
  "world_key w = (wd_account_id w, wd_id w)"

text \<open>\<open>d[k]\<close>: a missing key raises.\<close>

definition dict_index :: "('k, 'v) dict \<Rightarrow> 'k \<Rightarrow> string \<Rightarrow> 'v result" where
  "dict_index d k shown = (case dict_get d k of Some v \<Rightarrow> Inr v | None \<Rightarrow> Inl (KeyError shown))"

abbreviation dict_del :: "'k \<Rightarrow> ('k, 'v) dict \<Rightarrow> ('k, 'v) dict" where
  "dict_del \<equiv> AList.delete"

definition create_world_in :: "world \<Rightarrow> configuration_revision \<Rightarrow> 's world_store_scheme \<Rightarrow> 's world_store_scheme" where
  "create_world_in w initial st =
     st\<lparr> st_worlds := dict_set (world_key w) w (st_worlds st),
         st_configurations := dict_set (cr_id initial) initial (st_configurations st) \<rparr>"

definition world_lookup :: "'s world_store_scheme \<Rightarrow> string \<times> string \<Rightarrow> world option" where
  "world_lookup st key = dict_get (st_worlds st) key"

definition world_get :: "'s world_store_scheme \<Rightarrow> string \<Rightarrow> string \<Rightarrow> world result" where
  "world_get st account_id world_id = dict_index (st_worlds st) (account_id, world_id) world_id"

definition list_worlds_of :: "'s world_store_scheme \<Rightarrow> string \<Rightarrow> world list" where
  "list_worlds_of st account_id =
     filter (\<lambda>w. wd_account_id w = account_id) (map snd (st_worlds st))"

definition world_conflict :: py_error where
  "world_conflict = RuntimeError ''World was changed concurrently''"

definition world_save :: "world \<Rightarrow> nat \<Rightarrow> 's world_store_scheme \<Rightarrow> 's world_store_scheme result" where
  "world_save w expected_version st =
     (case world_lookup st (world_key w) of
        None \<Rightarrow> Inl (KeyError (wd_id w))
      | Some current \<Rightarrow>
          if wd_version current \<noteq> expected_version then Inl world_conflict
          else Inr (st\<lparr>st_worlds := dict_set (world_key w) w (st_worlds st)\<rparr>))"

text \<open>The idempotency indexes keep their entries.\<close>

definition world_delete :: "string \<Rightarrow> string \<Rightarrow> 's world_store_scheme \<Rightarrow> 's world_store_scheme result" where
  "world_delete account_id world_id st =
     (case world_lookup st (account_id, world_id) of
        None \<Rightarrow> Inl (KeyError world_id)
      | Some _ \<Rightarrow> Inr (st\<lparr>
          st_worlds := dict_del (account_id, world_id) (st_worlds st),
          st_operations := filter (\<lambda>(_, x). \<not> (wo_account_id x = account_id \<and> wo_world_id x = world_id))
            (st_operations st),
          st_configurations := filter (\<lambda>(_, r). \<not> (cr_account_id r = account_id \<and> cr_world_id r = world_id))
            (st_configurations st),
          st_active_operations := dict_del (account_id, world_id) (st_active_operations st) \<rparr>))"

text \<open>
  \<open>begin_operation\<close>: the operation of a used key, or the one that is active, is returned instead
  of starting another.
\<close>

definition begin_operation ::
    "world \<Rightarrow> world_operation \<Rightarrow> nat \<Rightarrow> 's world_store_scheme \<Rightarrow> world_operation result \<times> 's world_store_scheme" where
  "begin_operation w x expected_world_version st =
     (let idempotency_key = (wo_account_id x, wo_idempotency_key x);
          key = (wo_account_id x, wo_world_id x);
          active = (case dict_get (st_active_operations st) key of
              None \<Rightarrow> Inr None
            | Some active_id \<Rightarrow> (case dict_index (st_operations st) active_id active_id of
                Inl e \<Rightarrow> Inl e
              | Inr y \<Rightarrow> Inr (if is_active (wo_status y) then Some y else None)));
          start = (case world_lookup st key of
              None \<Rightarrow> (Inl (KeyError (wo_world_id x)), st)
            | Some current \<Rightarrow>
                if wd_version current \<noteq> expected_world_version then (Inl world_conflict, st)
                else (Inr x, st\<lparr> st_worlds := dict_set key w (st_worlds st),
                  st_operations := dict_set (wo_id x) x (st_operations st),
                  st_idempotency := dict_set idempotency_key (wo_id x) (st_idempotency st),
                  st_active_operations := dict_set key (wo_id x) (st_active_operations st) \<rparr>))
      in case dict_get (st_idempotency st) idempotency_key of
           Some existing_id \<Rightarrow> (dict_index (st_operations st) existing_id existing_id, st)
         | None \<Rightarrow> (case active of
             Inl e \<Rightarrow> (Inl e, st)
           | Inr (Some y) \<Rightarrow> (Inr y, st)
           | Inr None \<Rightarrow> start))"

definition list_operations_of :: "'s world_store_scheme \<Rightarrow> string \<Rightarrow> string \<Rightarrow> world_operation list" where
  "list_operations_of st account_id world_id =
     filter (\<lambda>x. wo_account_id x = account_id \<and> wo_world_id x = world_id)
       (map snd (st_operations st))"

definition get_operation :: "'s world_store_scheme \<Rightarrow> string \<Rightarrow> string \<Rightarrow> world_operation result" where
  "get_operation st account_id operation_id =
     (case dict_index (st_operations st) operation_id operation_id of
        Inl e \<Rightarrow> Inl e
      | Inr x \<Rightarrow> if wo_account_id x \<noteq> account_id then Inl (KeyError operation_id) else Inr x)"

definition operation_conflict :: py_error where
  "operation_conflict = RuntimeError ''World Operation was changed concurrently''"

text \<open>
  \<open>save_operation\<close>: the operation and, when given with its version, the World, in one step. An
  operation that is no longer active stops being the active one of its World.
\<close>

definition save_operation ::
    "world_operation \<Rightarrow> nat \<Rightarrow> (world \<times> nat) option \<Rightarrow> 's world_store_scheme \<Rightarrow> 's world_store_scheme result" where
  "save_operation x expected_version with_world st =
     (case dict_get (st_operations st) (wo_id x) of
        None \<Rightarrow> Inl (KeyError (wo_id x))
      | Some current \<Rightarrow>
          if wo_version current \<noteq> expected_version then Inl operation_conflict
          else (case (case with_world of
                        None \<Rightarrow> Inr st
                      | Some (w, expected_world_version) \<Rightarrow> world_save w expected_world_version st) of
              Inl e \<Rightarrow> Inl e
            | Inr st1 \<Rightarrow>
                (let st2 = st1\<lparr>st_operations := dict_set (wo_id x) x (st_operations st1)\<rparr>;
                     key = (wo_account_id x, wo_world_id x)
                 in if \<not> is_active (wo_status x)
                       \<and> dict_get (st_active_operations st2) key = Some (wo_id x)
                    then Inr (st2\<lparr>st_active_operations := dict_del key (st_active_operations st2)\<rparr>)
                    else Inr st2)))"

definition get_configuration_of ::
    "'s world_store_scheme \<Rightarrow> string \<Rightarrow> string \<Rightarrow> string \<Rightarrow> configuration_revision result" where
  "get_configuration_of st account_id world_id revision_id =
     (case dict_index (st_configurations st) revision_id revision_id of
        Inl e \<Rightarrow> Inl e
      | Inr r \<Rightarrow> if cr_account_id r \<noteq> account_id \<or> cr_world_id r \<noteq> world_id
                then Inl (KeyError revision_id) else Inr r)"

definition append_configuration ::
    "world \<Rightarrow> configuration_revision \<Rightarrow> nat \<Rightarrow> 's world_store_scheme
     \<Rightarrow> configuration_revision result \<times> 's world_store_scheme" where
  "append_configuration w r expected_world_version st =
     (case dict_get (st_configuration_idempotency st) (cr_account_id r, cr_idempotency_key r) of
        Some existing_id \<Rightarrow> (dict_index (st_configurations st) existing_id existing_id, st)
      | None \<Rightarrow> (case world_save w expected_world_version st of
          Inl e \<Rightarrow> (Inl e, st)
        | Inr st1 \<Rightarrow> (Inr r, st1\<lparr>
            st_configurations := dict_set (cr_id r) r (st_configurations st1),
            st_configuration_idempotency := dict_set (cr_account_id r, cr_idempotency_key r) (cr_id r)
              (st_configuration_idempotency st1) \<rparr>)))"

end
