(* ===== verification/WorldOps.thy ===== *)
theory WorldOps
  imports WorldStore
begin

text \<open>
  The operations of \<open>class Worlds\<close> (\<open>gamewake/worlds/service.py\<close>), in the order of the source.
  \<open>wv_rival env k\<close> is what other clients do to the store before the \<open>k\<close>-th access after the
  first; \<open>wv_access env\<close> is the access control the service is given (Accounts, in the program),
  \<open>wv_storage env\<close> the storage gate, if one is configured.
\<close>

record storage_gate =
  sg_can_create_world :: "string \<Rightarrow> bool"
  sg_can_create_manual_backup :: "string \<Rightarrow> bool"
  sg_can_wake :: "string \<Rightarrow> bool"

record 's worlds_env =
  wv_clock :: "nat \<Rightarrow> instant"
  wv_uuid :: "nat \<Rightarrow> string"
  wv_rival :: "nat \<Rightarrow> 's world_store_scheme \<Rightarrow> 's world_store_scheme"
  wv_access :: "string \<Rightarrow> string \<Rightarrow> permission \<Rightarrow> string option \<Rightarrow> bool result"
  wv_storage :: "storage_gate option"
  wv_catalog :: game_catalog

definition require_permission ::
    "'s worlds_env \<Rightarrow> string \<Rightarrow> string \<Rightarrow> permission \<Rightarrow> string option \<Rightarrow> string \<Rightarrow> unit result" where
  "require_permission env account_id user_id p world_id msg =
     (case wv_access env account_id user_id p world_id of
        Inl e \<Rightarrow> Inl e
      | Inr ok \<Rightarrow> check ok (PermissionDeniedError msg))"

text \<open>\<open>if gate is not None and not gate.can_...(account_id): raise StorageBlockedError(msg)\<close>.\<close>

definition require_storage ::
    "'s worlds_env \<Rightarrow> (storage_gate \<Rightarrow> string \<Rightarrow> bool) \<Rightarrow> string \<Rightarrow> string \<Rightarrow> unit result" where
  "require_storage env allows account_id msg =
     (case wv_storage env of
        None \<Rightarrow> Inr ()
      | Some gate \<Rightarrow> check (allows gate account_id) (StorageBlockedError msg))"

section \<open>Worlds\<close>

definition create_world ::
    "'s worlds_env \<Rightarrow> string \<Rightarrow> string \<Rightarrow> string \<Rightarrow> string \<Rightarrow> string \<Rightarrow> string \<Rightarrow> 's world_store_scheme
     \<Rightarrow> world result \<times> 's world_store_scheme" where
  "create_world env account_id actor name template_id region profile st =
     on_ok (require_permission env account_id actor CREATE_WORLD None
              ''creating a World requires Owner permission'') st (\<lambda>_.
     on_ok (require_storage env sg_can_create_world account_id
              ''Storage Grace Period blocks new Worlds'') st (\<lambda>_.
     on_ok (resolve (wv_catalog env) template_id) st (\<lambda>template.
       let world_id = wv_uuid env 0;
           defaults = map (\<lambda>f. (cf_key f, cf_default f)) (gt_fields template)
       in on_ok (validate_configuration (wv_catalog env) template_id (py_dict defaults) False) st
            (\<lambda>entries.
            let initial = \<lparr> cr_id = wv_uuid env 1, cr_account_id = account_id,
                  cr_world_id = world_id, cr_game_template_id = template_id, cr_number = 1,
                  cr_entries = entries,
                  cr_idempotency_key = ''world:'' @ world_id @ '':initial-configuration'',
                  cr_created_at = wv_clock env 0, cr_actor_user_id = actor, cr_origin = ''system'' \<rparr>;
                w = \<lparr> wd_id = world_id, wd_account_id = account_id, wd_name = name,
                  wd_game_template_id = template_id, wd_region = region,
                  wd_runtime_profile_id = profile, wd_status = SLEEPING, wd_runtime_id = None,
                  wd_runtime_reference = None, wd_configuration_revision_id = cr_id initial,
                  wd_pending_configuration_revision_id = None, wd_stored_state_id = None,
                  wd_stored_state_checksum = None, wd_version = 1, wd_session_quote_id = None,
                  wd_usage_reservation_id = None, wd_runtime_started_at = None,
                  wd_empty_since = None, wd_deletion_scheduled_for = None,
                  wd_final_backup_id = None, wd_applied_data_operations = [],
                  wd_auto_sleep_minutes = Some 20 \<rparr>
            in (Inr w, create_world_in w initial st)))))"

definition get_world :: "'s worlds_env \<Rightarrow> string \<Rightarrow> string \<Rightarrow> string \<Rightarrow> 's world_store_scheme \<Rightarrow> world result" where
  "get_world env account_id world_id viewer st =
     (case require_permission env account_id viewer VIEW_WORLD (Some world_id)
             ''the User cannot view this World'' of
        Inl e \<Rightarrow> Inl e
      | Inr _ \<Rightarrow> world_get st account_id world_id)"

fun filter_visible :: "(world \<Rightarrow> bool result) \<Rightarrow> world list \<Rightarrow> world list result" where
  "filter_visible visible [] = Inr []"
| "filter_visible visible (w # ws) = (case visible w of
      Inl e \<Rightarrow> Inl e
    | Inr b \<Rightarrow> (case filter_visible visible ws of
        Inl e \<Rightarrow> Inl e
      | Inr vs \<Rightarrow> Inr (if b then w # vs else vs)))"

definition list_worlds :: "'s worlds_env \<Rightarrow> string \<Rightarrow> string \<Rightarrow> 's world_store_scheme \<Rightarrow> world list result" where
  "list_worlds env account_id viewer st =
     filter_visible (\<lambda>w. wv_access env account_id viewer VIEW_WORLD (Some (wd_id w)))
       (list_worlds_of st account_id)"

definition update_runtime_settings ::
    "'s worlds_env \<Rightarrow> string \<Rightarrow> string \<Rightarrow> string \<Rightarrow> int option \<Rightarrow> 's world_store_scheme
     \<Rightarrow> world result \<times> 's world_store_scheme" where
  "update_runtime_settings env account_id world_id actor auto_sleep_minutes st =
     (if auto_sleep_minutes \<notin> set [None, Some 10, Some 20, Some 30, Some 60]
      then (Inl (ValueError ''Auto Sleep must be 10, 20, 30, 60 minutes, or off''), st)
      else on_ok (require_permission env account_id actor EDIT_WORLD (Some world_id)
                   ''editing World settings requires Manager permission'') st (\<lambda>_.
           on_ok (world_get st account_id world_id) st (\<lambda>w.
             let updated = w\<lparr> wd_auto_sleep_minutes := auto_sleep_minutes,
                   wd_version := wd_version w + 1 \<rparr>;
                 st1 = wv_rival env 0 st
             in on_ok (world_save updated (wd_version w) st1) st1 (\<lambda>st2. (Inr updated, st2)))))"

section \<open>Configuration\<close>

definition get_configuration ::
    "'s worlds_env \<Rightarrow> string \<Rightarrow> string \<Rightarrow> string \<Rightarrow> 's world_store_scheme \<Rightarrow> configuration_revision result" where
  "get_configuration env account_id world_id viewer st =
     (case get_world env account_id world_id viewer st of
        Inl e \<Rightarrow> Inl e
      | Inr w \<Rightarrow> get_configuration_of (wv_rival env 0 st) account_id world_id
                  (wd_configuration_revision_id w))"

text \<open>\<open>pending or current\<close>: an empty identifier counts as none.\<close>

definition latest_revision_id :: "world \<Rightarrow> string" where
  "latest_revision_id w = (case wd_pending_configuration_revision_id w of
      Some p \<Rightarrow> if p = [] then wd_configuration_revision_id w else p
    | None \<Rightarrow> wd_configuration_revision_id w)"

definition get_effective_configuration ::
    "'s worlds_env \<Rightarrow> string \<Rightarrow> string \<Rightarrow> string \<Rightarrow> 's world_store_scheme \<Rightarrow> configuration_revision result" where
  "get_effective_configuration env account_id world_id viewer st =
     (case get_world env account_id world_id viewer st of
        Inl e \<Rightarrow> Inl e
      | Inr w \<Rightarrow> get_configuration_of (wv_rival env 0 st) account_id world_id (latest_revision_id w))"

text \<open>\<open>{**base, **changes}\<close>.\<close>

definition merge_entries ::
    "(string, config_value) dict \<Rightarrow> (string, config_value) dict \<Rightarrow> (string, config_value) dict" where
  "merge_entries base changes = foldl (\<lambda>d (k, v). dict_set k v d) base changes"

definition change_of ::
    "(string, config_value) dict \<Rightarrow> configuration_field list \<Rightarrow> string \<times> config_value
     \<Rightarrow> configuration_change list result" where
  "change_of base template_fields entry = (case entry of (key, v) \<Rightarrow>
     (case dict_index base key key of
        Inl e \<Rightarrow> Inl e
      | Inr current \<Rightarrow>
          if config_eq v current then Inr []
          else (case dict_index (map (\<lambda>f. (cf_key f, f)) (rev template_fields)) key key of
              Inl e \<Rightarrow> Inl e
            | Inr f \<Rightarrow> Inr [\<lparr> cc_key = key, cc_current = current, cc_proposed = v,
                cc_restart_required = cf_restart_required f \<rparr>])))"

text \<open>\<open>preview_configuration_change\<close>; it only reads, \<open>st0\<close> and \<open>st1\<close> being the two states read.\<close>

definition preview_in ::
    "'s worlds_env \<Rightarrow> string \<Rightarrow> string \<Rightarrow> string \<Rightarrow> py_value \<Rightarrow> 's world_store_scheme \<Rightarrow> 's world_store_scheme
     \<Rightarrow> configuration_change_preview result" where
  "preview_in env account_id world_id actor changes st0 st1 =
     (case require_permission env account_id actor EDIT_WORLD (Some world_id)
             ''the User cannot edit this World'' of
        Inl e \<Rightarrow> Inl e
      | Inr _ \<Rightarrow> (case world_get st0 account_id world_id of
          Inl e \<Rightarrow> Inl e
        | Inr w \<Rightarrow> (case get_configuration_of st1 account_id world_id (latest_revision_id w) of
            Inl e \<Rightarrow> Inl e
          | Inr base \<Rightarrow>
          (case validate_configuration (wv_catalog env) (wd_game_template_id w) changes True of
            Inl e \<Rightarrow> Inl e
          | Inr normalized \<Rightarrow>
          (case validate_configuration (wv_catalog env) (wd_game_template_id w)
                  (py_dict (merge_entries (cr_entries base) normalized)) False of
            Inl e \<Rightarrow> Inl e
          | Inr validated \<Rightarrow>
          (case resolve (wv_catalog env) (wd_game_template_id w) of
            Inl e \<Rightarrow> Inl e
          | Inr template \<Rightarrow>
          (case collect (change_of (cr_entries base) (gt_fields template)) normalized of
            Inl e \<Rightarrow> Inl e
          | Inr diff \<Rightarrow> Inr \<lparr> cp_world_id = world_id, cp_base_revision_id = cr_id base,
              cp_changes = concat diff, cp_proposed_entries = validated \<rparr>)))))))"

definition preview_configuration_change ::
    "'s worlds_env \<Rightarrow> string \<Rightarrow> string \<Rightarrow> string \<Rightarrow> py_value \<Rightarrow> 's world_store_scheme
     \<Rightarrow> configuration_change_preview result" where
  "preview_configuration_change env account_id world_id actor changes st =
     preview_in env account_id world_id actor changes st (wv_rival env 0 st)"

definition edited_revision ::
    "'s worlds_env \<Rightarrow> world \<Rightarrow> configuration_revision \<Rightarrow> configuration_change_preview \<Rightarrow> string
     \<Rightarrow> string \<Rightarrow> string \<Rightarrow> string \<Rightarrow> string \<Rightarrow> configuration_revision" where
  "edited_revision env w base preview account_id world_id actor key origin =
     \<lparr> cr_id = wv_uuid env 0, cr_account_id = account_id,
       cr_world_id = world_id, cr_game_template_id = wd_game_template_id w,
       cr_number = cr_number base + 1, cr_entries = cp_proposed_entries preview,
       cr_idempotency_key = key, cr_created_at = wv_clock env 0,
       cr_actor_user_id = actor, cr_origin = origin \<rparr>"

definition update_configuration ::
    "'s worlds_env \<Rightarrow> string \<Rightarrow> string \<Rightarrow> string \<Rightarrow> py_value \<Rightarrow> string \<Rightarrow> string
     \<Rightarrow> 's world_store_scheme \<Rightarrow> configuration_revision result \<times> 's world_store_scheme" where
  "update_configuration env account_id world_id actor changes key origin st =
     (let st1 = wv_rival env 0 st
      in on_ok (preview_in env account_id world_id actor changes st st1) st1 (\<lambda>preview.
         let st2 = wv_rival env 1 st1
         in on_ok (world_get st2 account_id world_id) st2 (\<lambda>w.
            let st3 = wv_rival env 2 st2
            in on_ok (get_configuration_of st3 account_id world_id (cp_base_revision_id preview)) st3
                 (\<lambda>base.
                 let revision = edited_revision env w base preview account_id world_id actor key origin
                 in append_configuration
                      (w\<lparr> wd_pending_configuration_revision_id := Some (cr_id revision),
                          wd_version := wd_version w + 1 \<rparr>)
                      revision (wd_version w) (wv_rival env 3 st3)))))"

section \<open>Operations on the Runtime\<close>

definition new_operation ::
    "string \<Rightarrow> string \<Rightarrow> string \<Rightarrow> operation_type \<Rightarrow> string \<Rightarrow> instant \<Rightarrow> world_operation" where
  "new_operation i account_id world_id kind key created =
     \<lparr> wo_id = i, wo_account_id = account_id, wo_world_id = world_id, wo_operation_type = kind,
       wo_status = OP_PENDING, wo_phase = REQUESTED, wo_idempotency_key = key,
       wo_created_at = created, wo_version = 1, wo_runtime_id = None,
       wo_runtime_reference = None, wo_force = False, wo_stored_state_id = None,
       wo_stored_state_checksum = None, wo_backup_id = None, wo_attempt_number = 0,
       wo_session_quote_id = None, wo_usage_reservation_id = None,
       wo_runtime_started_at = None \<rparr>"

definition request_wake ::
    "'s worlds_env \<Rightarrow> string \<Rightarrow> string \<Rightarrow> string \<Rightarrow> string \<Rightarrow> 's world_store_scheme
     \<Rightarrow> world_operation result \<times> 's world_store_scheme" where
  "request_wake env account_id world_id actor key st =
     on_ok (require_permission env account_id actor WAKE_WORLD (Some world_id)
              ''the User cannot wake this World'') st (\<lambda>_.
     on_ok (require_storage env sg_can_wake account_id
              ''unfunded storage excess blocks waking Worlds'') st (\<lambda>_.
     on_ok (world_get st account_id world_id) st (\<lambda>w.
       begin_operation
         (w\<lparr> wd_status := WAKING, wd_empty_since := None, wd_version := wd_version w + 1 \<rparr>)
         (new_operation (wv_uuid env 0) account_id world_id WAKE key (wv_clock env 0))
         (wd_version w) (wv_rival env 0 st))))"

text \<open>A lost race is settled by reading the operation once more.\<close>

definition attach_billing_session ::
    "'s worlds_env \<Rightarrow> string \<Rightarrow> string \<Rightarrow> string \<Rightarrow> string \<Rightarrow> 's world_store_scheme
     \<Rightarrow> world_operation result \<times> 's world_store_scheme" where
  "attach_billing_session env account_id operation_id quote_id reservation_id st =
     on_ok (get_operation st account_id operation_id) st (\<lambda>x.
       if wo_operation_type x \<noteq> WAKE
       then (Inl (ValueError ''billing session can be attached only to a wake operation''), st)
       else if wo_session_quote_id x \<noteq> None
       then if wo_session_quote_id x = Some quote_id \<and> wo_usage_reservation_id x = Some reservation_id
            then (Inr x, st)
            else (Inl (ValueError ''wake operation already has a different billing session''), st)
       else if wo_phase x \<noteq> REQUESTED
       then (Inl (ValueError ''billing must be reserved before wake dispatch''), st)
       else
         (let st1 = wv_rival env 0 st
          in on_ok (world_get st1 account_id (wo_world_id x)) st1 (\<lambda>w.
             let attached = x\<lparr> wo_session_quote_id := Some quote_id,
                   wo_usage_reservation_id := Some reservation_id, wo_version := wo_version x + 1 \<rparr>;
                 session_world = w\<lparr> wd_session_quote_id := Some quote_id,
                   wd_usage_reservation_id := Some reservation_id, wd_version := wd_version w + 1 \<rparr>;
                 st2 = wv_rival env 1 st1
             in case save_operation attached (wo_version x) (Some (session_world, wd_version w)) st2 of
                  Inr st3 \<Rightarrow> (Inr attached, st3)
                | Inl (RuntimeError m) \<Rightarrow>
                    (let st3 = wv_rival env 2 st2
                     in on_ok (get_operation st3 account_id operation_id) st3 (\<lambda>current.
                        if wo_session_quote_id current = Some quote_id
                           \<and> wo_usage_reservation_id current = Some reservation_id
                        then (Inr current, st3) else (Inl (RuntimeError m), st3)))
                | Inl e \<Rightarrow> (Inl e, st2))))"

definition fail_wake_preflight ::
    "'s worlds_env \<Rightarrow> string \<Rightarrow> string \<Rightarrow> 's world_store_scheme \<Rightarrow> world_operation result \<times> 's world_store_scheme" where
  "fail_wake_preflight env account_id operation_id st =
     on_ok (get_operation st account_id operation_id) st (\<lambda>x.
       if \<not> is_active (wo_status x) then (Inr x, st)
       else
         (let st1 = wv_rival env 0 st
          in on_ok (world_get st1 account_id (wo_world_id x)) st1 (\<lambda>w.
             let failed = x\<lparr> wo_status := OP_FAILED, wo_phase := COMPLETE,
                   wo_version := wo_version x + 1 \<rparr>;
                 sleeping = w\<lparr> wd_status := SLEEPING, wd_session_quote_id := None,
                   wd_usage_reservation_id := None, wd_runtime_started_at := None,
                   wd_version := wd_version w + 1 \<rparr>;
                 st2 = wv_rival env 1 st1
             in on_ok (save_operation failed (wo_version x) (Some (sleeping, wd_version w)) st2) st2
                  (\<lambda>st3. (Inr failed, st3)))))"

text \<open>The Sleep Operation of a World, as requested by a User or by the session monitor.\<close>

definition sleep_operation :: "string \<Rightarrow> world \<Rightarrow> string \<Rightarrow> string \<Rightarrow> string \<Rightarrow> instant \<Rightarrow> bool \<Rightarrow> world_operation" where
  "sleep_operation i w account_id world_id key created forced =
     (new_operation i account_id world_id SLEEP key created)\<lparr>
       wo_runtime_id := wd_runtime_id w, wo_runtime_reference := wd_runtime_reference w,
       wo_force := forced, wo_session_quote_id := wd_session_quote_id w,
       wo_usage_reservation_id := wd_usage_reservation_id w,
       wo_runtime_started_at := wd_runtime_started_at w \<rparr>"

definition request_sleep ::
    "'s worlds_env \<Rightarrow> string \<Rightarrow> string \<Rightarrow> string \<Rightarrow> string \<Rightarrow> bool \<Rightarrow> 's world_store_scheme
     \<Rightarrow> world_operation result \<times> 's world_store_scheme" where
  "request_sleep env account_id world_id actor key forced st =
     on_ok (require_permission env account_id actor
              (if forced then FORCE_SLEEP_WORLD else SLEEP_EMPTY_WORLD) (Some world_id)
              ''the User cannot sleep this World'') st (\<lambda>_.
     on_ok (world_get st account_id world_id) st (\<lambda>w.
       if wd_status w \<noteq> ONLINE
       then (Inl (ValueError ''only an Online World can begin safe sleep''), st)
       else begin_operation
         (w\<lparr> wd_status := GOING_TO_SLEEP, wd_version := wd_version w + 1 \<rparr>)
         (sleep_operation (wv_uuid env 0) w account_id world_id key (wv_clock env 0) forced)
         (wd_version w) (wv_rival env 0 st)))"

definition request_automatic_recovery ::
    "'s worlds_env \<Rightarrow> string \<Rightarrow> string \<Rightarrow> instant \<Rightarrow> string \<Rightarrow> 's world_store_scheme
     \<Rightarrow> world_operation option result \<times> 's world_store_scheme" where
  "request_automatic_recovery env account_id world_id detected_at key st =
     on_ok (world_get st account_id world_id) st (\<lambda>w.
       let st1 = wv_rival env 0 st;
           recent = filter (\<lambda>x. wo_operation_type x = RECOVER
               \<and> detected_at - minutes 15 \<le> wo_created_at x)
             (list_operations_of st1 account_id world_id)
       in if 3 \<le> length recent \<or> wd_status w = NEEDS_ATTENTION then (Inr None, st1)
          else if wd_status w \<notin> set [ONLINE, WAKING]
          then (Inl (ValueError ''Automatic Recovery requires an active Runtime session''), st1)
          else
            (let x = (new_operation (wv_uuid env 0) account_id world_id RECOVER key detected_at)\<lparr>
                   wo_runtime_id := wd_runtime_id w, wo_runtime_reference := wd_runtime_reference w,
                   wo_attempt_number := length recent + 1 \<rparr>;
                 (r, st2) = begin_operation
                   (w\<lparr> wd_status := WAKING, wd_version := wd_version w + 1 \<rparr>) x (wd_version w)
                   (wv_rival env 1 st1)
             in on_ok r st2 (\<lambda>y. (Inr (Some y), st2))))"

definition list_operations ::
    "'s worlds_env \<Rightarrow> string \<Rightarrow> string \<Rightarrow> string \<Rightarrow> 's world_store_scheme \<Rightarrow> world_operation list result" where
  "list_operations env account_id world_id viewer st =
     (case require_permission env account_id viewer VIEW_WORLD (Some world_id)
             ''the User cannot view this World's operations'' of
        Inl e \<Rightarrow> Inl e
      | Inr _ \<Rightarrow> Inr (list_operations_of st account_id world_id))"

end
