(* ===== verification/WorldProviders.thy ===== *)
theory WorldProviders
  imports WorldOps
begin

text \<open>
  What the Worlds component drives: the runtime provider, the state store, the game templates,
  the usage recorder and the archive (the protocols of \<open>worlds/contracts.py\<close>), each a function
  on a state \<open>'p\<close> of its own. The state of an operation that uses them extends the World
  repository by that state, \<open>ws_providers\<close>, and by \<open>ws_log\<close>, which records every call made to a
  provider with its outcome, in order; so the operations of \<open>class Worlds\<close> and the other clients of
  an environment act on the same state.
\<close>

datatype effect =
    Provisioned string string "runtime result"
  | Released runtime string "unit result"
  | Restored string runtime string "unit result"
  | Configured string runtime string "unit result"
  | Started string runtime string "unit result"
  | HealthChecked string runtime "bool result"
  | PlayersCounted string runtime "int result"
  | GameSaved string runtime string "unit result"
  | GameStopped string runtime string "unit result"
  | Persisted string runtime string "stored_world_state result"
  | BackedUp string stored_world_state string "backup result"
  | SessionProtected string instant "bool option result"
  | SessionCancelled string "unit result"
  | UsageRecorded string instant bool "unit result"
  | ManualBackup string stored_world_state string "backup result"
  | RestorePoint string stored_world_state string "backup result"
  | FinalBackup string stored_world_state string "backup result"
  | BackupsListed string "backup list result"
  | BackupRestored string backup string "stored_world_state result"
  | ExportCreated string stored_world_state string "world_export result"
  | DataDeleted string string string "unit result"

record 'p worker_state = world_store +
  ws_providers :: 'p
  ws_log :: "effect list"

text \<open>The protocols \<open>GameTemplate\<close> and \<open>RuntimeUsageRecorder\<close>, over a state \<open>'p\<close>.\<close>

record 'p game_driver =
  gd_apply_configuration :: "world \<Rightarrow> runtime \<Rightarrow> string \<Rightarrow> 'p \<Rightarrow> unit result \<times> 'p"
  gd_start :: "world \<Rightarrow> runtime \<Rightarrow> string \<Rightarrow> 'p \<Rightarrow> unit result \<times> 'p"
  gd_is_healthy :: "world \<Rightarrow> runtime \<Rightarrow> 'p \<Rightarrow> bool result \<times> 'p"
  gd_player_count :: "world \<Rightarrow> runtime \<Rightarrow> 'p \<Rightarrow> int result \<times> 'p"
  gd_save :: "world \<Rightarrow> runtime \<Rightarrow> string \<Rightarrow> 'p \<Rightarrow> unit result \<times> 'p"
  gd_stop :: "world \<Rightarrow> runtime \<Rightarrow> string \<Rightarrow> 'p \<Rightarrow> unit result \<times> 'p"

text \<open>\<open>protect\<close> returns \<open>None\<close> or a decision with its \<open>should_sleep\<close>.\<close>

record 'p usage_recorder =
  ur_protect :: "world \<Rightarrow> instant \<Rightarrow> 'p \<Rightarrow> bool option result \<times> 'p"
  ur_cancel :: "world_operation \<Rightarrow> 'p \<Rightarrow> unit result \<times> 'p"
  ur_record_release :: "world_operation \<Rightarrow> instant \<Rightarrow> bool \<Rightarrow> 'p \<Rightarrow> unit result \<times> 'p"

text \<open>The protocol \<open>WorldArchiveStore\<close>.\<close>

record 'p archive_store =
  ar_create_automatic :: "world \<Rightarrow> stored_world_state \<Rightarrow> string \<Rightarrow> 'p \<Rightarrow> backup result \<times> 'p"
  ar_create_manual :: "world \<Rightarrow> stored_world_state \<Rightarrow> string \<Rightarrow> 'p \<Rightarrow> backup result \<times> 'p"
  ar_create_restore_point :: "world \<Rightarrow> stored_world_state \<Rightarrow> string \<Rightarrow> 'p \<Rightarrow> backup result \<times> 'p"
  ar_create_final :: "world \<Rightarrow> stored_world_state \<Rightarrow> string \<Rightarrow> 'p \<Rightarrow> backup result \<times> 'p"
  ar_list_backups :: "string \<Rightarrow> string \<Rightarrow> 'p \<Rightarrow> backup list result \<times> 'p"
  ar_restore :: "world \<Rightarrow> backup \<Rightarrow> string \<Rightarrow> 'p \<Rightarrow> stored_world_state result \<times> 'p"
  ar_create_export :: "world \<Rightarrow> stored_world_state \<Rightarrow> configuration_revision \<Rightarrow> string \<Rightarrow> 'p
    \<Rightarrow> world_export result \<times> 'p"
  ar_delete_world_data :: "string \<Rightarrow> string \<Rightarrow> string \<Rightarrow> 'p \<Rightarrow> unit result \<times> 'p"

definition perform ::
    "('p \<Rightarrow> 'a result \<times> 'p) \<Rightarrow> ('a result \<Rightarrow> effect) \<Rightarrow> 'p worker_state
     \<Rightarrow> 'a result \<times> 'p worker_state" where
  "perform call logged s = (case call (ws_providers s) of
      (r, p) \<Rightarrow> (r, s\<lparr> ws_providers := p, ws_log := ws_log s @ [logged r] \<rparr>))"

lemma perform_simps [simp]:
  "fst (perform call logged s) = fst (call (ws_providers s))"
  "ws_providers (snd (perform call logged s)) = snd (call (ws_providers s))"
  "ws_log (snd (perform call logged s)) = ws_log s @ [logged (fst (call (ws_providers s)))]"
  by (simp_all add: perform_def split_beta)

end
