(* ===== verification/WorldSafety.thy ===== *)
theory WorldSafety
  imports Lifecycle WorldProviders SettingsProperties
begin

text \<open>
  The invariant of the World repository and what other clients may have done to it between two
  accesses. \<open>worlds_ok U s\<close>: every active operation is the one its World points to, in step with
  the World's status and Runtime; every operation is in a phase of its kind with what that phase
  has recorded; every World's Configuration Revisions exist and hold valid settings; \<open>U\<close> holds
  the identifiers in use. \<open>worlds_later U s s'\<close>: a World of the same version is unchanged, an
  operation moved along its lifecycle only, and what was deleted stays deleted.
\<close>

section \<open>Aggregates saved under the version that was read\<close>

locale optimistic_store =
  fixes lookup :: "'s \<Rightarrow> 'k \<Rightarrow> 'v option"
    and save :: "'v \<Rightarrow> nat \<Rightarrow> 's \<Rightarrow> 's result"
    and version :: "'v \<Rightarrow> nat"
    and key :: "'v \<Rightarrow> 'k"
  assumes save_expected:
      "save v n s = Inr s' \<Longrightarrow> \<exists>current. lookup s (key v) = Some current \<and> version current = n"
    and lookup_save:
      "save v n s = Inr s' \<Longrightarrow> lookup s' k = (if k = key v then Some v else lookup s k)"
begin

text \<open>\<open>v\<close> was read under \<open>k\<close> in an earlier state.\<close>

definition held :: "'k \<Rightarrow> 'v \<Rightarrow> 's \<Rightarrow> bool" where
  "held k v s \<longleftrightarrow> (\<forall>v'. lookup s k = Some v' \<longrightarrow>
     version v \<le> version v' \<and> (version v' = version v \<longrightarrow> v' = v))"

text \<open>What clients that save this way, and delete, do to the keys \<open>K\<close>.\<close>

definition kept :: "'k set \<Rightarrow> 's \<Rightarrow> 's \<Rightarrow> bool" where
  "kept K s s' \<longleftrightarrow> (\<forall>k \<in> K. case lookup s k of
      None \<Rightarrow> lookup s' k = None | Some v \<Rightarrow> held k v s')"

lemma held_read: "lookup s k = Some v \<Longrightarrow> held k v s"
  by (simp add: held_def)

lemma kept_refl: "kept K s s"
  by (auto simp: kept_def held_def split: option.splits)

lemma held_kept:
  assumes v: "held k v s" and kept: "kept K s s'" and k: "k \<in> K" shows "held k v s'"
proof (cases "lookup s k")
  case None
  then have "lookup s' k = None" using kept k by (auto simp: kept_def)
  then show ?thesis by (simp add: held_def)
next
  case (Some u)
  then have u: "version v \<le> version u" "version u = version v \<Longrightarrow> u = v" and h: "held k u s'"
    using v kept k by (auto simp: held_def kept_def)
  show ?thesis unfolding held_def
  proof (intro allI impI)
    fix u' assume "lookup s' k = Some u'"
    then have u': "version u \<le> version u'" "version u' = version u \<Longrightarrow> u' = u"
      using h by (auto simp: held_def)
    then show "version v \<le> version u' \<and> (version u' = version v \<longrightarrow> u' = v)"
      using u by (metis le_antisym le_trans)
  qed
qed

lemma kept_trans: "kept K a b \<Longrightarrow> kept K b c \<Longrightarrow> kept K a c"
  unfolding kept_def [of K a c]
proof
  fix k assume ab: "kept K a b" and bc: "kept K b c" and k: "k \<in> K"
  show "case lookup a k of None \<Rightarrow> lookup c k = None | Some v \<Rightarrow> held k v c"
  proof (cases "lookup a k")
    case None
    then have "lookup b k = None" using ab k by (auto simp: kept_def)
    then have "lookup c k = None" using bc k by (auto simp: kept_def)
    with None show ?thesis by simp
  next
    case (Some v)
    then have "held k v b" using ab k by (auto simp: kept_def)
    then show ?thesis using held_kept [OF _ bc k] Some by simp
  qed
qed

text \<open>A save that succeeds under the version that was read replaces what was read.\<close>

lemma held_save:
  "held (key v') v s \<Longrightarrow> save v' (version v) s = Inr s' \<Longrightarrow> lookup s (key v') = Some v"
  using save_expected unfolding held_def by blast

lemma kept_save:
  assumes "save v n s = Inr s'" "n < version v" shows "kept K s s'"
proof -
  obtain c where "lookup s (key v) = Some c" "version c = n" using save_expected [OF assms(1)] by blast
  then show ?thesis using lookup_save [OF assms(1)] assms(2)
    by (auto simp: kept_def held_def split: option.splits)
qed

end

definition operation_lookup :: "'s world_store_scheme \<Rightarrow> string \<Rightarrow> world_operation option" where
  "operation_lookup s i = dict_get (st_operations s) i"

lemma world_save_expected:
  "world_save w n s = Inr s' \<Longrightarrow> \<exists>c. world_lookup s (world_key w) = Some c \<and> wd_version c = n"
  by (auto simp: world_save_def split: option.splits if_splits)

lemma world_save_lookup:
  "world_save w n s = Inr s' \<Longrightarrow>
     world_lookup s' k = (if k = world_key w then Some w else world_lookup s k)"
  by (auto simp: world_save_def world_lookup_def split: option.splits if_splits)

interpretation saved_worlds: optimistic_store world_lookup world_save wd_version world_key
  by unfold_locales (simp_all add: world_save_expected world_save_lookup)

lemma save_operation_alone:
  "save_operation x n None s = Inr s' \<Longrightarrow>
     \<exists>c. operation_lookup s (wo_id x) = Some c \<and> wo_version c = n"
  "save_operation x n None s = Inr s' \<Longrightarrow>
     operation_lookup s' k = (if k = wo_id x then Some x else operation_lookup s k)"
  by (auto simp: save_operation_def operation_lookup_def Let_def split: option.splits if_splits)

interpretation saved_operations: optimistic_store operation_lookup "\<lambda>x n. save_operation x n None"
    wo_version wo_id
  by unfold_locales (simp_all add: save_operation_alone)

section \<open>The invariant\<close>

definition operation_key :: "world_operation \<Rightarrow> string \<times> string" where
  "operation_key x = (wo_account_id x, wo_world_id x)"

definition active_lookup :: "'s world_store_scheme \<Rightarrow> string \<times> string \<Rightarrow> string option" where
  "active_lookup s k = dict_get (st_active_operations s) k"

definition revision_lookup :: "'s world_store_scheme \<Rightarrow> string \<Rightarrow> configuration_revision option" where
  "revision_lookup s i = dict_get (st_configurations s) i"

definition bound :: "world \<Rightarrow> bool" where
  "bound w \<longleftrightarrow> wd_runtime_id w \<noteq> None \<and> wd_runtime_reference w \<noteq> None"

text \<open>An active operation and its World: the status, and the Runtime once there is one.\<close>

definition linked :: "world \<Rightarrow> world_operation \<Rightarrow> bool" where
  "linked w x \<longleftrightarrow> wd_status w = (if wo_operation_type x = SLEEP then GOING_TO_SLEEP else WAKING)
     \<and> (wo_operation_type x \<noteq> WAKE \<or> wo_phase x \<notin> set [REQUESTED, PROVISIONING_RUNTIME] \<longrightarrow>
          bound w \<and> wo_runtime_id x = wd_runtime_id w
          \<and> wo_runtime_reference x = wd_runtime_reference w)"

definition valid_entries :: "(string, config_value) dict \<Rightarrow> bool" where
  "valid_entries es \<longleftrightarrow> entries_ok es FIELDS"

definition revision_of :: "'s world_store_scheme \<Rightarrow> string \<times> string \<Rightarrow> string \<Rightarrow> bool" where
  "revision_of s k i \<longleftrightarrow> (\<exists>r. revision_lookup s i = Some r \<and> (cr_account_id r, cr_world_id r) = k)"

definition world_ok :: "'s world_store_scheme \<Rightarrow> world \<Rightarrow> bool" where
  "world_ok s w \<longleftrightarrow> wd_game_template_id w = gt_id PALWORLD_TEMPLATE
     \<and> revision_of s (world_key w) (wd_configuration_revision_id w)
     \<and> (\<forall>p. wd_pending_configuration_revision_id w = Some p \<longrightarrow> revision_of s (world_key w) p)
     \<and> (wd_status w = ONLINE \<longrightarrow> bound w)
     \<and> (active_lookup s (world_key w) = None \<longrightarrow>
          wd_status w \<noteq> GOING_TO_SLEEP \<and> (wd_status w = WAKING \<longrightarrow> bound w))"

definition operations_indexed :: "'s world_store_scheme \<Rightarrow> bool" where
  "operations_indexed s \<longleftrightarrow>
     (\<forall>i x. operation_lookup s i = Some x \<longrightarrow> is_active (wo_status x) \<longrightarrow>
        active_lookup s (operation_key x) = Some i)
     \<and> (\<forall>k i. active_lookup s k = Some i \<longrightarrow> (\<exists>x w. operation_lookup s i = Some x
        \<and> operation_key x = k \<and> is_active (wo_status x) \<and> world_lookup s k = Some w \<and> linked w x))"

definition distinct_keys :: "'s world_store_scheme \<Rightarrow> bool" where
  "distinct_keys s \<longleftrightarrow> distinct (map fst (st_operations s)) \<and> distinct (map fst (st_configurations s))"

definition worlds_ok :: "string set \<Rightarrow> 's world_store_scheme \<Rightarrow> bool" where
  "worlds_ok U s \<longleftrightarrow> distinct_keys s \<and> operations_indexed s
     \<and> (\<forall>k w. world_lookup s k = Some w \<longrightarrow> world_key w = k \<and> wd_id w \<in> U \<and> world_ok s w)
     \<and> (\<forall>i x. operation_lookup s i = Some x \<longrightarrow> wo_id x = i \<and> i \<in> U \<and> operation_ok x)
     \<and> (\<forall>i r. revision_lookup s i = Some r \<longrightarrow>
          cr_id r = i \<and> i \<in> U \<and> cr_world_id r \<in> U \<and> valid_entries (cr_entries r))"

definition operations_evolve :: "string set \<Rightarrow> 's world_store_scheme \<Rightarrow> 's world_store_scheme \<Rightarrow> bool" where
  "operations_evolve U s s' \<longleftrightarrow> (\<forall>i \<in> U. case operation_lookup s i of
      None \<Rightarrow> operation_lookup s' i = None
    | Some x \<Rightarrow> (\<forall>y. operation_lookup s' i = Some y \<longrightarrow> operation_evolves x y))"

text \<open>A World gets a new operation only together with a new version.\<close>

definition operations_begun :: "string set \<Rightarrow> 's world_store_scheme \<Rightarrow> 's world_store_scheme \<Rightarrow> bool" where
  "operations_begun U s s' \<longleftrightarrow> (\<forall>k w i y. snd k \<in> U \<longrightarrow> world_lookup s k = Some w \<longrightarrow>
     world_lookup s' k = Some w \<longrightarrow> operation_lookup s' i = Some y \<longrightarrow> operation_key y = k \<longrightarrow>
     (\<exists>x. operation_lookup s i = Some x \<and> operation_key x = k))"

definition worlds_later :: "string set \<Rightarrow> 's world_store_scheme \<Rightarrow> 's world_store_scheme \<Rightarrow> bool" where
  "worlds_later U s s' \<longleftrightarrow> saved_worlds.kept {k. snd k \<in> U} s s'
     \<and> operations_evolve U s s' \<and> operations_begun U s s'"

text \<open>What a call gives: the invariant with its new identifiers, and a later state.\<close>

definition worlds_step ::
    "string set \<Rightarrow> string set \<Rightarrow> 's world_store_scheme \<Rightarrow> 's world_store_scheme \<Rightarrow> bool" where
  "worlds_step U N s s' \<longleftrightarrow> worlds_ok (U \<union> N) s' \<and> worlds_later U s s'"

definition worlds_rivals_ok ::
    "string set \<Rightarrow> (nat \<Rightarrow> 's world_store_scheme \<Rightarrow> 's world_store_scheme) \<Rightarrow> bool" where
  "worlds_rivals_ok U rival \<longleftrightarrow> (\<forall>V k s. U \<subseteq> V \<longrightarrow> worlds_ok V s \<longrightarrow>
     worlds_ok V (rival k s) \<and> worlds_later V s (rival k s))"

lemma worlds_rivalD:
  "worlds_rivals_ok U rival \<Longrightarrow> worlds_ok U s \<Longrightarrow> worlds_ok U (rival k s)"
  "worlds_rivals_ok U rival \<Longrightarrow> worlds_ok U s \<Longrightarrow> worlds_later U s (rival k s)"
  unfolding worlds_rivals_ok_def by blast+

lemma operations_evolve_refl: "operations_evolve U s s"
  by (auto simp: operations_evolve_def split: option.splits)

lemma operations_evolve_trans:
  assumes ab: "operations_evolve U a b" and bc: "operations_evolve U b c"
  shows "operations_evolve U a c"
  unfolding operations_evolve_def
proof
  fix i assume i: "i \<in> U"
  show "case operation_lookup a i of None \<Rightarrow> operation_lookup c i = None
    | Some x \<Rightarrow> \<forall>z. operation_lookup c i = Some z \<longrightarrow> operation_evolves x z"
  proof (cases "operation_lookup b i")
    case None
    then have "operation_lookup c i = None" using bc i by (auto simp: operations_evolve_def)
    then show ?thesis by (simp split: option.split)
  next
    case (Some y)
    then have bz: "operation_lookup c i = Some z \<Longrightarrow> operation_evolves y z" for z
      using bc i by (auto simp: operations_evolve_def)
    show ?thesis
    proof (cases "operation_lookup a i")
      case None
      then show ?thesis using ab i Some by (auto simp: operations_evolve_def)
    next
      case (Some x)
      then have "operation_evolves x y"
        using ab i \<open>operation_lookup b i = Some y\<close> by (auto simp: operations_evolve_def)
      then show ?thesis using bz Some by (auto intro: operation_evolves_trans)
    qed
  qed
qed

lemma operations_begun_trans:
  assumes kept: "saved_worlds.kept {k. snd k \<in> U} a b" "saved_worlds.kept {k. snd k \<in> U} b c"
    and ops: "operations_begun U a b" "operations_begun U b c"
  shows "operations_begun U a c"
  unfolding operations_begun_def
proof (intro allI impI)
  fix k w i y
  assume k: "snd k \<in> U" and w: "world_lookup a k = Some w" "world_lookup c k = Some w"
    and y: "operation_lookup c i = Some y" "operation_key y = k"
  have "world_lookup b k \<noteq> None"
    using kept(2) k w(2) by (cases k) (force simp: saved_worlds.kept_def split: option.splits)
  then obtain u where u: "world_lookup b k = Some u" by blast
  have "saved_worlds.held k w b"
    using saved_worlds.held_kept [OF saved_worlds.held_read [of a, OF w(1)] kept(1)] k by simp
  moreover have "saved_worlds.held k u c"
    using saved_worlds.held_kept [OF saved_worlds.held_read [of b, OF u] kept(2)] k by simp
  ultimately have u: "world_lookup b k = Some w" using u w(2) by (force simp: saved_worlds.held_def)
  then obtain x where "operation_lookup b i = Some x" "operation_key x = k"
    using ops(2) k w(2) y unfolding operations_begun_def by blast
  then show "\<exists>x. operation_lookup a i = Some x \<and> operation_key x = k"
    using ops(1) k w(1) u unfolding operations_begun_def by blast
qed

lemma worlds_later_refl [simp]: "worlds_later U s s"
  by (simp add: worlds_later_def saved_worlds.kept_refl operations_evolve_refl operations_begun_def)

lemma worlds_later_trans: "worlds_later U a b \<Longrightarrow> worlds_later U b c \<Longrightarrow> worlds_later U a c"
  unfolding worlds_later_def
  by (blast intro: saved_worlds.kept_trans operations_evolve_trans operations_begun_trans)

lemma worlds_ok_mono: "worlds_ok U s \<Longrightarrow> U \<subseteq> V \<Longrightarrow> worlds_ok V s"
  unfolding worlds_ok_def by blast

lemma worlds_okD:
  "worlds_ok U s \<Longrightarrow> world_lookup s k = Some w \<Longrightarrow> world_key w = k"
  "worlds_ok U s \<Longrightarrow> world_lookup s k = Some w \<Longrightarrow> wd_id w \<in> U"
  "worlds_ok U s \<Longrightarrow> world_lookup s k = Some w \<Longrightarrow> world_ok s w"
  "worlds_ok U s \<Longrightarrow> operation_lookup s i = Some x \<Longrightarrow> wo_id x = i"
  "worlds_ok U s \<Longrightarrow> operation_lookup s i = Some x \<Longrightarrow> i \<in> U"
  "worlds_ok U s \<Longrightarrow> operation_lookup s i = Some x \<Longrightarrow> operation_ok x"
  "worlds_ok U s \<Longrightarrow> operation_lookup s i = Some x \<Longrightarrow> is_active (wo_status x) \<Longrightarrow>
     active_lookup s (operation_key x) = Some i"
  "worlds_ok U s \<Longrightarrow> revision_lookup s j = Some r \<Longrightarrow> cr_id r = j"
  "worlds_ok U s \<Longrightarrow> revision_lookup s j = Some r \<Longrightarrow> valid_entries (cr_entries r)"
  unfolding worlds_ok_def operations_indexed_def by blast+

lemma worlds_ok_parts:
  "worlds_ok U s \<Longrightarrow> distinct_keys s"
  "worlds_ok U s \<Longrightarrow> revision_lookup s j = Some r \<Longrightarrow> j \<in> U \<and> cr_world_id r \<in> U"
  unfolding worlds_ok_def by blast+

lemma worlds_okI:
  assumes "distinct_keys s" and "operations_indexed s"
    and "\<And>k w. world_lookup s k = Some w \<Longrightarrow> world_key w = k \<and> wd_id w \<in> U \<and> world_ok s w"
    and "\<And>i x. operation_lookup s i = Some x \<Longrightarrow> wo_id x = i \<and> i \<in> U \<and> operation_ok x"
    and "\<And>i r. revision_lookup s i = Some r \<Longrightarrow>
      cr_id r = i \<and> i \<in> U \<and> cr_world_id r \<in> U \<and> valid_entries (cr_entries r)"
  shows "worlds_ok U s"
  unfolding worlds_ok_def using assms by blast

lemma operations_indexedI:
  assumes "\<And>i x. operation_lookup s i = Some x \<Longrightarrow> is_active (wo_status x) \<Longrightarrow>
      active_lookup s (operation_key x) = Some i"
    and "\<And>k i. active_lookup s k = Some i \<Longrightarrow> \<exists>x w. operation_lookup s i = Some x
      \<and> operation_key x = k \<and> is_active (wo_status x) \<and> world_lookup s k = Some w \<and> linked w x"
  shows "operations_indexed s"
  using assms by (simp add: operations_indexed_def)

lemma activeE:
  assumes "worlds_ok U s" and "active_lookup s k = Some i"
  obtains x w where "operation_lookup s i = Some x" "operation_key x = k" "is_active (wo_status x)"
    "world_lookup s k = Some w" "linked w x"
  using assms unfolding worlds_ok_def operations_indexed_def by blast

lemma active_linked:
  assumes "worlds_ok U s" "operation_lookup s i = Some x" "is_active (wo_status x)"
    and "world_lookup s (operation_key x) = Some w"
  shows "linked w x"
  using activeE [OF assms(1) worlds_okD(7) [OF assms(1-3)]] assms(2,4) by fastforce

lemma world_get_Inr [simp]: "world_get s a i = Inr w \<longleftrightarrow> world_lookup s (a, i) = Some w"
  by (auto simp: world_get_def dict_index_def world_lookup_def split: option.splits)

lemma get_operation_Inr [simp]:
  "get_operation s a i = Inr x \<longleftrightarrow> operation_lookup s i = Some x \<and> wo_account_id x = a"
  by (auto simp: get_operation_def dict_index_def operation_lookup_def split: option.splits if_splits)

lemma get_configuration_of_Inr [simp]:
  "get_configuration_of s a i j = Inr r \<longleftrightarrow>
     revision_lookup s j = Some r \<and> cr_account_id r = a \<and> cr_world_id r = i"
  by (auto simp: get_configuration_of_def dict_index_def revision_lookup_def
      split: option.splits if_splits)

section \<open>The repository keeps it\<close>

lemma world_save_state:
  "world_save w n s = Inr s' \<Longrightarrow> s' = s\<lparr>st_worlds := dict_set (world_key w) w (st_worlds s)\<rparr>"
  by (auto simp: world_save_def split: option.splits if_splits)

lemma lookup_updates [simp]:
  "world_lookup (s\<lparr>st_operations := a\<rparr>) = world_lookup s"
  "world_lookup (s\<lparr>st_idempotency := b\<rparr>) = world_lookup s"
  "world_lookup (s\<lparr>st_active_operations := c\<rparr>) = world_lookup s"
  "world_lookup (s\<lparr>st_configurations := d\<rparr>) = world_lookup s"
  "world_lookup (s\<lparr>st_configuration_idempotency := b\<rparr>) = world_lookup s"
  "operation_lookup (s\<lparr>st_worlds := e\<rparr>) = operation_lookup s"
  "operation_lookup (s\<lparr>st_idempotency := b\<rparr>) = operation_lookup s"
  "operation_lookup (s\<lparr>st_active_operations := c\<rparr>) = operation_lookup s"
  "operation_lookup (s\<lparr>st_configurations := d\<rparr>) = operation_lookup s"
  "operation_lookup (s\<lparr>st_configuration_idempotency := b\<rparr>) = operation_lookup s"
  "active_lookup (s\<lparr>st_worlds := e\<rparr>) = active_lookup s"
  "active_lookup (s\<lparr>st_operations := a\<rparr>) = active_lookup s"
  "active_lookup (s\<lparr>st_idempotency := b\<rparr>) = active_lookup s"
  "active_lookup (s\<lparr>st_configurations := d\<rparr>) = active_lookup s"
  "active_lookup (s\<lparr>st_configuration_idempotency := b\<rparr>) = active_lookup s"
  "revision_lookup (s\<lparr>st_worlds := e\<rparr>) = revision_lookup s"
  "revision_lookup (s\<lparr>st_operations := a\<rparr>) = revision_lookup s"
  "revision_lookup (s\<lparr>st_idempotency := b\<rparr>) = revision_lookup s"
  "revision_lookup (s\<lparr>st_active_operations := c\<rparr>) = revision_lookup s"
  "revision_lookup (s\<lparr>st_configuration_idempotency := b\<rparr>) = revision_lookup s"
  by (simp_all add: fun_eq_iff world_lookup_def operation_lookup_def active_lookup_def
      revision_lookup_def)

lemma lookup_dict_set:
  "world_lookup (s\<lparr>st_worlds := dict_set k w (st_worlds s)\<rparr>) = (world_lookup s)(k \<mapsto> w)"
  "operation_lookup (s\<lparr>st_operations := dict_set i x (st_operations s)\<rparr>)
     = (operation_lookup s)(i \<mapsto> x)"
  "active_lookup (s\<lparr>st_active_operations := dict_set k i (st_active_operations s)\<rparr>)
     = (active_lookup s)(k \<mapsto> i)"
  "active_lookup (s\<lparr>st_active_operations := dict_del k (st_active_operations s)\<rparr>)
     = (active_lookup s)(k := None)"
  "revision_lookup (s\<lparr>st_configurations := dict_set i r (st_configurations s)\<rparr>)
     = (revision_lookup s)(i \<mapsto> r)"
  by (auto simp: fun_eq_iff world_lookup_def operation_lookup_def active_lookup_def
      revision_lookup_def delete_conv')

text \<open>A step whose Worlds, operations and revisions are given as maps.\<close>

lemma world_ok_cong:
  assumes "world_ok s w" "revision_lookup s \<subseteq>\<^sub>m revision_lookup s'"
    "active_lookup s (world_key w) = active_lookup s' (world_key w)"
  shows "world_ok s' w"
proof -
  have "revision_of s k i \<Longrightarrow> revision_of s' k i" for k i
    using assms(2) unfolding revision_of_def map_le_def by (metis domI)
  with assms show ?thesis by (auto simp: world_ok_def)
qed

lemma save_world_step_ok:
  assumes ok: "worlds_ok U s" and held: "saved_worlds.held k w s" and k: "world_key w' = k"
    and save: "world_save w' (wd_version w) s = Inr s'" and v: "wd_version w' = wd_version w + 1"
    and w': "world_ok s w \<Longrightarrow> world_ok s w'" "\<And>x. linked w x \<Longrightarrow> linked w' x"
  shows "worlds_step U N s s'"
proof -
  have current: "world_lookup s k = Some w"
    using saved_worlds.held_save [OF _ save] held k by simp
  have s': "s' = s\<lparr>st_worlds := dict_set k w' (st_worlds s)\<rparr>"
    using world_save_state [OF save] k by simp
  have worlds: "world_lookup s' = (world_lookup s)(k \<mapsto> w')" by (simp add: s' lookup_dict_set)
  have same: "operation_lookup s' = operation_lookup s" "active_lookup s' = active_lookup s"
    "revision_lookup s' = revision_lookup s" "distinct_keys s' = distinct_keys s"
    by (simp_all add: s' distinct_keys_def)
  have world_ok': "world_ok s u \<Longrightarrow> world_ok s' u" for u
    by (erule world_ok_cong) (simp_all add: same)
  have ids: "wd_id w' = wd_id w" using k worlds_okD(1) [OF ok current] by (auto simp: world_key_def)
  have "worlds_ok U s'"
  proof (rule worlds_okI)
    show "operations_indexed s'"
    proof (rule operations_indexedI, unfold same)
      fix j i assume "active_lookup s j = Some i"
      then obtain x u where x: "operation_lookup s i = Some x" "operation_key x = j"
        "is_active (wo_status x)" and u: "world_lookup s j = Some u" "linked u x"
        by (rule activeE [OF ok])
      have "\<exists>u'. world_lookup s' j = Some u' \<and> linked u' x"
        using u w'(2) current by (cases "j = k") (simp_all add: worlds)
      with x show "\<exists>x u. operation_lookup s i = Some x \<and> operation_key x = j
          \<and> is_active (wo_status x) \<and> world_lookup s' j = Some u \<and> linked u x" by blast
    qed (rule worlds_okD(7) [OF ok])
    fix j u assume u: "world_lookup s' j = Some u"
    show "world_key u = j \<and> wd_id u \<in> U \<and> world_ok s' u"
    proof (cases "j = k")
      case True
      then have "u = w'" using u by (simp add: worlds)
      then show ?thesis
        using True k ids world_ok' [OF w'(1)] worlds_okD(2,3) [OF ok current] by simp
    next
      case False
      then have "world_lookup s j = Some u" using u by (simp add: worlds)
      then show ?thesis using world_ok' worlds_okD(1-3) [OF ok] by blast
    qed
  next
    fix i x assume "operation_lookup s' i = Some x"
    then show "wo_id x = i \<and> i \<in> U \<and> operation_ok x"
      using worlds_okD(4-6) [OF ok] by (simp add: same)
  next
    fix i r assume "revision_lookup s' i = Some r"
    then show "cr_id r = i \<and> i \<in> U \<and> cr_world_id r \<in> U \<and> valid_entries (cr_entries r)"
      using worlds_okD(8,9) [OF ok] worlds_ok_parts(2) [OF ok] by (simp add: same)
  qed (simp add: same worlds_ok_parts(1) [OF ok])
  moreover have "saved_worlds.kept K s s'" for K
    by (rule saved_worlds.kept_save [OF save]) (simp add: v)
  moreover have "operations_evolve U s s'"
    by (auto simp: operations_evolve_def same split: option.splits)
  moreover have "operations_begun U s s'" by (simp add: operations_begun_def same)
  ultimately show ?thesis
    by (auto simp: worlds_step_def worlds_later_def intro: worlds_ok_mono)
qed

end
