(* ===== verification/WorldRepository.thy ===== *)
theory WorldRepository
  imports WorldSafety
begin

text \<open>
  Each call of the World repository that changes it preserves \<open>worlds_ok\<close> and leads to a later
  state, given what its caller read before and what it writes.
\<close>

section \<open>A World with one of its operations\<close>

lemma put_operation_ok:
  assumes ok: "worlds_ok U s" and UV: "U \<subseteq> V" and cur: "world_lookup s k = Some w"
    and worlds: "world_lookup s' = (world_lookup s)(k \<mapsto> w')"
    and ops: "operation_lookup s' = (operation_lookup s)(i \<mapsto> x)"
    and active: "active_lookup s' = (active_lookup s)(k := (if is_active (wo_status x) then Some i else None))"
    and revs: "revision_lookup s' = revision_lookup s"
    and dist: "distinct_keys s'"
    and x: "wo_id x = i" "operation_key x = k" "operation_ok x" "i \<in> V"
    and before: "active_lookup s k \<in> {None, Some i}"
      "\<And>y. operation_lookup s i = Some y \<Longrightarrow> operation_key y = k"
    and w': "world_key w' = k" "world_ok s' w'" "is_active (wo_status x) \<Longrightarrow> linked w' x"
  shows "worlds_ok V s'"
proof (rule worlds_okI)
  show "operations_indexed s'"
  proof (rule operations_indexedI)
    fix j y assume y: "operation_lookup s' j = Some y" "is_active (wo_status y)"
    show "active_lookup s' (operation_key y) = Some j"
    proof (cases "j = i")
      case True
      then show ?thesis using y x by (simp add: ops active)
    next
      case False
      then have "active_lookup s (operation_key y) = Some j"
        using y worlds_okD(7) [OF ok] by (simp add: ops)
      then show ?thesis using False before(1) by (auto simp: active)
    qed
  next
    fix j h assume a: "active_lookup s' j = Some h"
    show "\<exists>y u. operation_lookup s' h = Some y \<and> operation_key y = j \<and> is_active (wo_status y)
        \<and> world_lookup s' j = Some u \<and> linked u y"
    proof (cases "j = k")
      case True
      then have "is_active (wo_status x)" "h = i" using a by (simp_all add: active split: if_splits)
      then show ?thesis using True x w'(3) by (simp add: ops worlds)
    next
      case False
      then have "active_lookup s j = Some h" using a by (simp add: active)
      then obtain y u where y: "operation_lookup s h = Some y" "operation_key y = j"
        "is_active (wo_status y)" "world_lookup s j = Some u" "linked u y" by (rule activeE [OF ok])
      then have "h \<noteq> i" using before(2) False by blast
      then show ?thesis using y False by (simp add: ops worlds)
    qed
  qed
  fix j u assume u: "world_lookup s' j = Some u"
  show "world_key u = j \<and> wd_id u \<in> V \<and> world_ok s' u"
  proof (cases "j = k")
    case True
    then have "u = w'" using u by (simp add: worlds)
    moreover have "wd_id w' = wd_id w"
      using w'(1) worlds_okD(1) [OF ok cur] by (auto simp: world_key_def)
    ultimately show ?thesis using True w'(1,2) worlds_okD(2) [OF ok cur] UV by auto
  next
    case False
    then have u: "world_lookup s j = Some u" using u by (simp add: worlds)
    have "world_ok s' u"
      by (rule world_ok_cong [OF worlds_okD(3) [OF ok u]])
        (use False worlds_okD(1) [OF ok u] in \<open>simp_all add: revs active\<close>)
    then show ?thesis using worlds_okD(1,2) [OF ok u] UV by blast
  qed
next
  fix j y assume y: "operation_lookup s' j = Some y"
  show "wo_id y = j \<and> j \<in> V \<and> operation_ok y"
  proof (cases "j = i")
    case True
    then show ?thesis using y x by (simp add: ops)
  next
    case False
    then have y: "operation_lookup s j = Some y" using y by (simp add: ops)
    show ?thesis using worlds_okD(4-6) [OF ok y] UV by blast
  qed
next
  fix j r assume "revision_lookup s' j = Some r"
  then have r: "revision_lookup s j = Some r" by (simp add: revs)
  show "cr_id r = j \<and> j \<in> V \<and> cr_world_id r \<in> V \<and> valid_entries (cr_entries r)"
    using worlds_okD(8,9) [OF ok r] worlds_ok_parts(2) [OF ok r] UV by blast
qed (rule dist)

lemma kept_put:
  assumes "world_lookup s' = (world_lookup s)(k \<mapsto> w')" "world_lookup s k = Some w"
    and "wd_version w < wd_version w' \<or> w' = w"
  shows "saved_worlds.kept K s s'"
  using assms by (auto simp: saved_worlds.kept_def saved_worlds.held_def split: option.splits)

lemma evolve_put:
  assumes "operation_lookup s' = (operation_lookup s)(i \<mapsto> x)"
    and "i \<in> U \<Longrightarrow> \<exists>y. operation_lookup s i = Some y \<and> operation_evolves y x"
  shows "operations_evolve U s s'"
  using assms by (auto simp: operations_evolve_def split: option.splits)

lemma begun_put:
  assumes "operation_lookup s' = (operation_lookup s)(i \<mapsto> x)"
    and "\<exists>y. operation_lookup s i = Some y \<and> operation_key y = operation_key x"
  shows "operations_begun U s s'"
  using assms by (auto simp: operations_begun_def)

section \<open>Beginning an operation\<close>

text \<open>The three ways \<open>begin_operation\<close> ends without an exception.\<close>

lemma begin_operation_cases:
  assumes ok: "worlds_ok U s"
  obtains (raises) e where "begin_operation w x n s = (Inl e, s)"
  | (joins) i y where "operation_lookup s i = Some y" "begin_operation w x n s = (Inr y, s)"
      "dict_get (st_idempotency s) (wo_account_id x, wo_idempotency_key x) = Some i
       \<or> active_lookup s (operation_key x) = Some i \<and> is_active (wo_status y)"
  | (begins) c where "world_lookup s (operation_key x) = Some c" "wd_version c = n"
      "dict_get (st_idempotency s) (wo_account_id x, wo_idempotency_key x) = None"
      "active_lookup s (operation_key x) = None"
      "begin_operation w x n s = (Inr x, s\<lparr> st_worlds := dict_set (operation_key x) w (st_worlds s),
         st_operations := dict_set (wo_id x) x (st_operations s),
         st_idempotency := dict_set (wo_account_id x, wo_idempotency_key x) (wo_id x)
           (st_idempotency s),
         st_active_operations := dict_set (operation_key x) (wo_id x) (st_active_operations s) \<rparr>)"
proof (cases "dict_get (st_idempotency s) (wo_account_id x, wo_idempotency_key x)")
  case (Some i)
  show ?thesis
  proof (cases "operation_lookup s i")
    case None
    then show ?thesis using raises Some
      by (simp add: begin_operation_def Let_def dict_index_def operation_lookup_def)
  next
    case (Some y)
    then show ?thesis
      using joins \<open>dict_get (st_idempotency s) (wo_account_id x, wo_idempotency_key x) = Some i\<close>
      by (simp add: begin_operation_def Let_def dict_index_def operation_lookup_def)
  qed
next
  case new: None
  show ?thesis
  proof (cases "active_lookup s (operation_key x)")
    case (Some i)
    then obtain y u where y: "operation_lookup s i = Some y" "is_active (wo_status y)"
      by (rule activeE [OF ok])
    have "begin_operation w x n s = (Inr y, s)"
      using new Some y by (simp add: begin_operation_def Let_def dict_index_def operation_lookup_def
          active_lookup_def operation_key_def)
    then show ?thesis using joins y Some by blast
  next
    case None
    show ?thesis
    proof (cases "world_lookup s (operation_key x)")
      case none: None
      then show ?thesis using raises new None
        by (simp add: begin_operation_def Let_def active_lookup_def operation_key_def)
    next
      case (Some c)
      then have run: "begin_operation w x n s = (if wd_version c \<noteq> n then (Inl world_conflict, s)
          else (Inr x, s\<lparr> st_worlds := dict_set (operation_key x) w (st_worlds s),
         st_operations := dict_set (wo_id x) x (st_operations s),
         st_idempotency := dict_set (wo_account_id x, wo_idempotency_key x) (wo_id x)
           (st_idempotency s),
         st_active_operations := dict_set (operation_key x) (wo_id x) (st_active_operations s) \<rparr>))"
        using new None by (simp add: begin_operation_def Let_def active_lookup_def operation_key_def)
      show ?thesis
      proof (cases "wd_version c = n")
        case True
        then show ?thesis using begins [OF Some True new None] run by simp
      next
        case False
        then show ?thesis using raises [of world_conflict] run by simp
      qed
    qed
  qed
qed

lemma begin_operation_ok:
  assumes ok: "worlds_ok U s" and held: "saved_worlds.held k w s"
    and x: "wo_id x \<in> N" "wo_id x \<notin> U" "operation_key x = k" "wo_status x = OP_PENDING"
      "operation_ok x"
    and w': "world_key w = k \<Longrightarrow> world_key w' = k" "wd_version w' = wd_version w + 1"
      "world_ok s w \<Longrightarrow> active_lookup s (world_key w) = None \<Longrightarrow> world_lookup s k = Some w \<Longrightarrow>
        wd_status w' = (if wo_operation_type x = SLEEP then GOING_TO_SLEEP else WAKING) \<and> linked w' x"
      "wd_game_template_id w' = wd_game_template_id w"
      "wd_configuration_revision_id w' = wd_configuration_revision_id w"
      "wd_pending_configuration_revision_id w' = wd_pending_configuration_revision_id w"
  shows "worlds_step U N s (snd (begin_operation w' x (wd_version w) s))"
  using ok
proof (cases rule: begin_operation_cases [of U s w' x "wd_version w"])
  case (begins c)
  let ?s = "snd (begin_operation w' x (wd_version w) s)"
  have cur: "world_lookup s k = Some w"
    using begins(1,2) held x(3) by (auto simp: saved_worlds.held_def)
  note key = worlds_okD(1) [OF ok cur]
  note none = begins(4) [unfolded x(3)]
  have link: "linked w' x" "wd_status w' = (if wo_operation_type x = SLEEP then GOING_TO_SLEEP else WAKING)"
    using w'(3) [OF worlds_okD(3) [OF ok cur] _ cur] none key by simp_all
  have new: "operation_lookup s (wo_id x) = None"
    using worlds_okD(5) [OF ok] x(2) by (meson not_None_eq)
  have maps: "world_lookup ?s = (world_lookup s)(k \<mapsto> w')"
    "operation_lookup ?s = (operation_lookup s)(wo_id x \<mapsto> x)"
    "active_lookup ?s = (active_lookup s)(k \<mapsto> wo_id x)" "revision_lookup ?s = revision_lookup s"
    using begins(5) x(3)
    by (auto simp: fun_eq_iff world_lookup_def operation_lookup_def active_lookup_def
        revision_lookup_def)
  have "world_ok ?s w'"
    using worlds_okD(3) [OF ok cur] link(2) w'(1,4-6) key
    by (auto simp: world_ok_def revision_of_def maps split: if_splits)
  then have "worlds_ok (U \<union> N) ?s"
    by (intro put_operation_ok [OF ok _ cur maps(1,2)])
      (use maps x w'(1) link(1) none new key worlds_ok_parts(1) [OF ok] begins(5) in
        \<open>auto simp: distinct_keys_def distinct_update\<close>)
  moreover have "worlds_later U s ?s"
    unfolding worlds_later_def
  proof (intro conjI kept_put [OF maps(1) cur] evolve_put [OF maps(2)])
    show "operations_begun U s ?s"
      unfolding operations_begun_def maps
      using cur w'(2) x(3) by (auto split: if_splits)
  qed (use x(2) w'(2) in auto)
  ultimately show ?thesis by (simp add: worlds_step_def)
qed (use ok in \<open>auto simp: worlds_step_def intro: worlds_ok_mono\<close>)

section \<open>Saving an operation\<close>

lemma save_operation_state:
  assumes "save_operation x n (Some (w, m)) s = Inr s'"
  shows "\<exists>c. operation_lookup s (wo_id x) = Some c \<and> wo_version c = n"
    and "\<exists>c. world_lookup s (world_key w) = Some c \<and> wd_version c = m"
    and "world_lookup s' = (world_lookup s)(world_key w \<mapsto> w)"
    and "operation_lookup s' = (operation_lookup s)(wo_id x \<mapsto> x)"
    and "active_lookup s' = (if \<not> is_active (wo_status x)
        \<and> active_lookup s (operation_key x) = Some (wo_id x)
      then (active_lookup s)(operation_key x := None) else active_lookup s)"
    and "revision_lookup s' = revision_lookup s"
    and "distinct_keys s \<Longrightarrow> distinct_keys s'"
proof -
  obtain c s1 where c: "dict_get (st_operations s) (wo_id x) = Some c" "wo_version c = n"
    and s1: "world_save w m s = Inr s1"
    and s': "s' = (let s2 = s1\<lparr>st_operations := dict_set (wo_id x) x (st_operations s1)\<rparr>;
        k = (wo_account_id x, wo_world_id x)
      in if \<not> is_active (wo_status x) \<and> dict_get (st_active_operations s2) k = Some (wo_id x)
         then s2\<lparr>st_active_operations := dict_del k (st_active_operations s2)\<rparr> else s2)"
    using assms by (auto simp: save_operation_def Let_def split: option.splits sum.splits if_splits)
  show "\<exists>c. operation_lookup s (wo_id x) = Some c \<and> wo_version c = n"
    using c by (simp add: operation_lookup_def)
  show "\<exists>c. world_lookup s (world_key w) = Some c \<and> wd_version c = m"
    by (rule world_save_expected [OF s1])
  note eqs = s' world_save_state [OF s1]
  show "world_lookup s' = (world_lookup s)(world_key w \<mapsto> w)"
    and "operation_lookup s' = (operation_lookup s)(wo_id x \<mapsto> x)"
    and "revision_lookup s' = revision_lookup s"
    and "distinct_keys s \<Longrightarrow> distinct_keys s'"
    and "active_lookup s' = (if \<not> is_active (wo_status x)
        \<and> active_lookup s (operation_key x) = Some (wo_id x)
      then (active_lookup s)(operation_key x := None) else active_lookup s)"
    by (auto simp: eqs Let_def fun_eq_iff world_lookup_def operation_lookup_def active_lookup_def
        revision_lookup_def operation_key_def delete_conv' distinct_keys_def distinct_update)
qed

lemma save_operation_None_state:
  assumes "save_operation x n None s = Inr s'" and "is_active (wo_status x)"
  shows "s' = s\<lparr>st_operations := dict_set (wo_id x) x (st_operations s)\<rparr>"
  using assms by (auto simp: save_operation_def Let_def split: option.splits if_splits)

lemma save_operation_ok:
  assumes ok: "worlds_ok U s"
    and held: "saved_worlds.held k w s" "saved_operations.held i x s"
    and read: "is_active (wo_status x)" "operation_key x = k" "wo_id x = i" "world_key w = k"
    and save: "save_operation x' (wo_version x) (Some (w', wd_version w)) s = Inr s'"
    and w': "world_key w' = k" "wd_version w' = wd_version w + 1"
    and x': "same_request x x'" "wo_version x' = wo_version x + 1"
      "operation_ok x \<Longrightarrow> point x' = point x \<or> lifecycle (wo_operation_type x) (point x) (point x')"
      "wo_session_quote_id x \<noteq> None \<longrightarrow> same_session x x'"
    and new: "operation_ok x \<Longrightarrow> linked w x \<Longrightarrow> operation_ok x'
        \<and> (is_active (wo_status x') \<longrightarrow> linked w' x')
        \<and> (wd_status w' = ONLINE \<longrightarrow> bound w')
        \<and> (\<not> is_active (wo_status x') \<longrightarrow> wd_status w' \<noteq> GOING_TO_SLEEP
             \<and> (wd_status w' = WAKING \<longrightarrow> bound w'))"
    and conf: "wd_game_template_id w' = wd_game_template_id w"
      "wd_configuration_revision_id w' = wd_configuration_revision_id w
       \<or> wd_pending_configuration_revision_id w = Some (wd_configuration_revision_id w')"
      "wd_pending_configuration_revision_id w' = wd_pending_configuration_revision_id w
       \<or> wd_pending_configuration_revision_id w' = None"
  shows "worlds_step U N s s'"
proof -
  note st = save_operation_state [OF save]
  have ids: "wo_id x' = i" "operation_key x' = k"
    using x'(1) read(2,3) by (auto simp: same_request_def operation_key_def)
  have cur: "world_lookup s k = Some w" "operation_lookup s i = Some x"
    using st(1,2) held w'(1) ids
    by (auto simp: saved_worlds.held_def saved_operations.held_def)
  have active: "active_lookup s k = Some i" using worlds_okD(7) [OF ok cur(2) read(1)] read(2) by simp
  note link = active_linked [OF ok cur(2) read(1)]
  have new: "operation_ok x'" "is_active (wo_status x') \<Longrightarrow> linked w' x'"
      "wd_status w' = ONLINE \<Longrightarrow> bound w'"
      "\<not> is_active (wo_status x') \<Longrightarrow> wd_status w' \<noteq> GOING_TO_SLEEP \<and> (wd_status w' = WAKING \<longrightarrow> bound w')"
    using new [OF worlds_okD(6) [OF ok cur(2)] link] cur(1) read(2) by blast+
  have maps: "world_lookup s' = (world_lookup s)(k \<mapsto> w')"
    "operation_lookup s' = (operation_lookup s)(i \<mapsto> x')"
    "active_lookup s' = (active_lookup s)(k := (if is_active (wo_status x') then Some i else None))"
    "revision_lookup s' = revision_lookup s"
    using st ids w'(1) active by (auto simp: fun_eq_iff)
  have wok: "world_ok s' w'"
    using worlds_okD(3) [OF ok cur(1)] conf new(3,4) w'(1) worlds_okD(1) [OF ok cur(1)]
    unfolding world_ok_def revision_of_def maps by auto
  have "worlds_ok U s'"
    by (rule put_operation_ok [OF ok subset_refl cur(1) maps _ ids new(1) _ _ _ w'(1) wok])
      (use st(7) worlds_ok_parts(1) [OF ok] worlds_okD(5) [OF ok cur(2)] active new(2) cur(2) read(2)
        in \<open>auto simp: distinct_keys_def distinct_update\<close>)
  moreover have "operation_evolves x x'"
    by (rule operation_evolves_step [OF x'(1,2) x'(3) [OF worlds_okD(6) [OF ok cur(2)]] x'(4)])
  then have "worlds_later U s s'"
    unfolding worlds_later_def
    by (intro conjI kept_put [OF maps(1) cur(1)] evolve_put [OF maps(2)] begun_put [OF maps(2)])
      (use cur(2) w'(2) ids read(2) in auto)
  ultimately show ?thesis by (auto simp: worlds_step_def intro: worlds_ok_mono)
qed

lemma save_operation_alone_ok:
  assumes ok: "worlds_ok U s" and held: "saved_operations.held i x s"
    and read: "is_active (wo_status x)" "wo_id x = i"
    and save: "save_operation x' (wo_version x) None s = Inr s'"
    and x': "same_request x x'" "wo_version x' = wo_version x + 1"
      "operation_ok x \<Longrightarrow> lifecycle (wo_operation_type x) (point x) (point x')" "same_session x x'"
      "is_active (wo_status x')"
    and new: "\<And>w. operation_ok x \<Longrightarrow> linked w x \<Longrightarrow> operation_ok x' \<and> linked w x'"
  shows "worlds_step U N s s'"
proof -
  let ?k = "operation_key x"
  have ids: "wo_id x' = i" "operation_key x' = ?k"
    using x'(1) read(2) by (auto simp: same_request_def operation_key_def)
  have cur: "operation_lookup s i = Some x"
    using save_operation_alone(1) [OF save] held ids(1) by (auto simp: saved_operations.held_def)
  have active: "active_lookup s ?k = Some i" by (rule worlds_okD(7) [OF ok cur read(1)])
  then obtain y w where "operation_lookup s i = Some y" "world_lookup s ?k = Some w" "linked w y"
    by (rule activeE [OF ok])
  then have w: "world_lookup s ?k = Some w" "linked w x" using cur by simp_all
  have new: "operation_ok x'" "linked w x'" using new [OF worlds_okD(6) [OF ok cur] w(2)] by simp_all
  have s': "s' = s\<lparr>st_operations := dict_set i x' (st_operations s)\<rparr>"
    using save_operation_None_state [OF save x'(5)] ids by simp
  have maps: "world_lookup s' = (world_lookup s)(?k \<mapsto> w)"
    "operation_lookup s' = (operation_lookup s)(i \<mapsto> x')"
    "active_lookup s' = (active_lookup s)(?k := (if is_active (wo_status x') then Some i else None))"
    "revision_lookup s' = revision_lookup s"
    using w active x'(5) by (auto simp: s' lookup_dict_set fun_eq_iff)
  have wok: "world_ok s' w"
    using worlds_okD(3) [OF ok w(1)] by (rule world_ok_cong) (auto simp: s')
  have "worlds_ok U s'"
    by (rule put_operation_ok [OF ok subset_refl w(1) maps _ ids new(1) _ _ _ _ wok])
      (use s' worlds_ok_parts(1) [OF ok] worlds_okD(5) [OF ok cur] active new(2) cur
        worlds_okD(1) [OF ok w(1)] in \<open>auto simp: distinct_keys_def distinct_update\<close>)
  moreover have "operation_evolves x x'"
    by (rule operation_evolves_step [OF x'(1,2)])
      (use x'(3) [OF worlds_okD(6) [OF ok cur]] x'(4) in auto)
  then have "worlds_later U s s'"
    unfolding worlds_later_def
    by (intro conjI kept_put [OF maps(1) w(1)] evolve_put [OF maps(2)] begun_put [OF maps(2)])
      (use cur ids in auto)
  ultimately show ?thesis by (auto simp: worlds_step_def intro: worlds_ok_mono)
qed

text \<open>An operation that is over changes without its World's active operation noticing.\<close>

lemma put_inactive_ok:
  assumes ok: "worlds_ok U s" and x: "operation_lookup s i = Some x" "\<not> is_active (wo_status x)"
    and x': "same_request x x'" "wo_version x' = wo_version x + 1" "point x' = point x"
      "wo_session_quote_id x \<noteq> None \<longrightarrow> same_session x x'" "operation_ok x'"
  shows "worlds_step U N s (s\<lparr>st_operations := dict_set i x' (st_operations s)\<rparr>)"
proof -
  let ?s = "s\<lparr>st_operations := dict_set i x' (st_operations s)\<rparr>"
  have ops: "operation_lookup ?s = (operation_lookup s)(i \<mapsto> x')" by (simp add: lookup_dict_set)
  have off: "\<not> is_active (wo_status x')" and i: "wo_id x' = i"
    using x(2) x'(1,3) worlds_okD(4) [OF ok x(1)] by (auto simp: point_def same_request_def)
  have "worlds_ok U ?s"
  proof (rule worlds_okI)
    show "distinct_keys ?s"
      using worlds_ok_parts(1) [OF ok] by (simp add: distinct_keys_def distinct_update)
    show "operations_indexed ?s"
    proof (rule operations_indexedI)
      fix j y assume "operation_lookup ?s j = Some y" "is_active (wo_status y)"
      then show "active_lookup ?s (operation_key y) = Some j"
        using off worlds_okD(7) [OF ok] by (auto simp: ops split: if_splits)
    next
      fix k h assume "active_lookup ?s k = Some h"
      then have h: "active_lookup s k = Some h" by simp
      from activeE [OF ok h] obtain y u where y: "operation_lookup s h = Some y"
        "operation_key y = k" "is_active (wo_status y)" "world_lookup s k = Some u" "linked u y" .
      then have "h \<noteq> i" using x by auto
      then show "\<exists>x w. operation_lookup ?s h = Some x \<and> operation_key x = k
          \<and> is_active (wo_status x) \<and> world_lookup ?s k = Some w \<and> linked w x"
        using y by (simp add: ops)
    qed
    fix k w assume "world_lookup ?s k = Some w"
    then have w: "world_lookup s k = Some w" by simp
    have "world_ok ?s w" by (rule world_ok_cong [OF worlds_okD(3) [OF ok w]]) simp_all
    then show "world_key w = k \<and> wd_id w \<in> U \<and> world_ok ?s w"
      using worlds_okD(1,2) [OF ok w] by simp
  next
    fix j y assume "operation_lookup ?s j = Some y"
    then show "wo_id y = j \<and> j \<in> U \<and> operation_ok y"
      using i x'(5) worlds_okD(4-6) [OF ok] worlds_okD(5) [OF ok x(1)]
      by (auto simp: ops split: if_splits)
  next
    fix j r assume "revision_lookup ?s j = Some r"
    then have r: "revision_lookup s j = Some r" by simp
    show "cr_id r = j \<and> j \<in> U \<and> cr_world_id r \<in> U \<and> valid_entries (cr_entries r)"
      using worlds_okD(8,9) [OF ok r] worlds_ok_parts(2) [OF ok r] by blast
  qed
  moreover have "operation_evolves x x'" by (rule operation_evolves_step) (use x' in auto)
  then have "operations_evolve U s ?s" by (intro evolve_put [OF ops]) (use x in auto)
  moreover have "operations_begun U s ?s"
    by (rule begun_put [OF ops]) (use x x'(1) in \<open>auto simp: same_request_def operation_key_def\<close>)
  moreover have "saved_worlds.kept K s ?s" for K
    by (auto simp: saved_worlds.kept_def saved_worlds.held_def split: option.splits)
  ultimately show ?thesis by (auto simp: worlds_step_def worlds_later_def intro: worlds_ok_mono)
qed

lemma save_operation_inactive:
  assumes "save_operation x n (Some (w, m)) s = Inr s'" and "\<not> is_active (wo_status x)"
    and "active_lookup s (operation_key x) \<noteq> Some (wo_id x)"
  shows "\<exists>s1. world_save w m s = Inr s1
    \<and> s' = s1\<lparr>st_operations := dict_set (wo_id x) x (st_operations s1)\<rparr>"
proof -
  obtain s1 where s1: "world_save w m s = Inr s1"
    using assms(1) by (auto simp: save_operation_def split: option.splits sum.splits if_splits)
  then show ?thesis using assms
    by (auto simp: save_operation_def Let_def world_save_state [OF s1] active_lookup_def
        operation_key_def split: option.splits if_splits)
qed

section \<open>Worlds and their Configuration Revisions\<close>

lemma put_revision_ok:
  assumes ok: "worlds_ok U s" and UV: "U \<subseteq> V"
    and worlds: "world_lookup s' = (world_lookup s)(k \<mapsto> w)"
    and revs: "revision_lookup s' = (revision_lookup s)(i \<mapsto> r)"
    and same: "operation_lookup s' = operation_lookup s" "active_lookup s' = active_lookup s"
      "distinct_keys s'"
    and r: "cr_id r = i" "i \<notin> U" "i \<in> V" "(cr_account_id r, cr_world_id r) = k"
      "valid_entries (cr_entries r)"
    and w: "world_key w = k" "wd_id w \<in> V" "world_ok s' w"
      "\<And>u x. world_lookup s k = Some u \<Longrightarrow> linked u x \<Longrightarrow> linked w x"
  shows "worlds_ok V s'"
proof (rule worlds_okI)
  have more: "revision_lookup s \<subseteq>\<^sub>m revision_lookup s'"
    using r(2) worlds_ok_parts(2) [OF ok] unfolding revs map_le_def
    by (metis domD fun_upd_other)
  show "operations_indexed s'"
  proof (rule operations_indexedI, unfold same)
    fix j h assume "active_lookup s j = Some h"
    then obtain x u where x: "operation_lookup s h = Some x" "operation_key x = j"
      "is_active (wo_status x)" and u: "world_lookup s j = Some u" "linked u x"
      by (rule activeE [OF ok])
    have "\<exists>u'. world_lookup s' j = Some u' \<and> linked u' x"
      using u w(4) by (cases "j = k") (simp_all add: worlds)
    with x show "\<exists>x u. operation_lookup s h = Some x \<and> operation_key x = j
        \<and> is_active (wo_status x) \<and> world_lookup s' j = Some u \<and> linked u x" by blast
  qed (rule worlds_okD(7) [OF ok])
  fix j u assume u: "world_lookup s' j = Some u"
  show "world_key u = j \<and> wd_id u \<in> V \<and> world_ok s' u"
  proof (cases "j = k")
    case True
    then show ?thesis using u w by (simp add: worlds)
  next
    case False
    then have u: "world_lookup s j = Some u" using u by (simp add: worlds)
    have "world_ok s' u"
      by (rule world_ok_cong [OF worlds_okD(3) [OF ok u] more]) (simp add: same)
    then show ?thesis using worlds_okD(1,2) [OF ok u] UV by blast
  qed
next
  fix j y assume "operation_lookup s' j = Some y"
  then have y: "operation_lookup s j = Some y" by (simp add: same)
  show "wo_id y = j \<and> j \<in> V \<and> operation_ok y" using worlds_okD(4-6) [OF ok y] UV by blast
next
  fix j q assume q: "revision_lookup s' j = Some q"
  show "cr_id q = j \<and> j \<in> V \<and> cr_world_id q \<in> V \<and> valid_entries (cr_entries q)"
  proof (cases "j = i")
    case True
    then show ?thesis using q r w(1,2) by (auto simp: revs world_key_def)
  next
    case False
    then have q: "revision_lookup s j = Some q" using q by (simp add: revs)
    show ?thesis using worlds_okD(8,9) [OF ok q] worlds_ok_parts(2) [OF ok q] UV by blast
  qed
qed (rule same(3))

lemma operations_evolve_same:
  "operation_lookup s' = operation_lookup s \<Longrightarrow> operations_evolve U s s' \<and> operations_begun U s s'"
  by (auto simp: operations_evolve_def operations_begun_def split: option.splits)

lemma create_world_ok:
  assumes ok: "worlds_ok U s" and ids: "wd_id w \<in> N" "wd_id w \<notin> U" "cr_id r \<in> N" "cr_id r \<notin> U"
    and r: "cr_account_id r = wd_account_id w" "cr_world_id r = wd_id w"
      "valid_entries (cr_entries r)"
    and w: "wd_status w = SLEEPING" "wd_game_template_id w = gt_id PALWORLD_TEMPLATE"
      "wd_configuration_revision_id w = cr_id r" "wd_pending_configuration_revision_id w = None"
  shows "worlds_step U N s (create_world_in w r s)"
proof -
  let ?s = "create_world_in w r s" and ?k = "world_key w"
  have maps: "world_lookup ?s = (world_lookup s)(?k \<mapsto> w)"
    "revision_lookup ?s = (revision_lookup s)(cr_id r \<mapsto> r)"
    "operation_lookup ?s = operation_lookup s" "active_lookup ?s = active_lookup s"
    "distinct_keys ?s"
    using worlds_ok_parts(1) [OF ok]
    by (simp_all add: create_world_in_def lookup_dict_set fun_eq_iff world_lookup_def
        revision_lookup_def operation_lookup_def active_lookup_def distinct_keys_def distinct_update)
  have none: "world_lookup s ?k = None"
    using worlds_okD(1,2) [OF ok] ids(2) by (metis not_None_eq world_key_def prod.inject)
  have "world_ok ?s w"
    using w r(1,2) by (auto simp: world_ok_def revision_of_def maps world_key_def)
  then have "worlds_ok (U \<union> N) ?s"
    by (intro put_revision_ok [OF ok _ maps]) (use ids r none in \<open>auto simp: world_key_def\<close>)
  moreover have "saved_worlds.kept {k. snd k \<in> U} s ?s"
    using ids(2) by (auto simp: saved_worlds.kept_def saved_worlds.held_def maps world_key_def
        split: option.splits)
  ultimately show ?thesis
    by (simp add: worlds_step_def worlds_later_def operations_evolve_same maps)
qed

lemma append_configuration_ok:
  assumes ok: "worlds_ok U s" and held: "saved_worlds.held k w s"
    and r: "cr_id r \<in> N" "cr_id r \<notin> U" "(cr_account_id r, cr_world_id r) = k"
      "valid_entries (cr_entries r)"
    and key: "world_key w = k"
  shows "worlds_step U N s (snd (append_configuration
    (w\<lparr> wd_pending_configuration_revision_id := Some (cr_id r), wd_version := wd_version w + 1 \<rparr>)
    r (wd_version w) s))" (is "worlds_step U N s (snd (append_configuration ?w r ?v s))")
proof (cases "dict_get (st_configuration_idempotency s) (cr_account_id r, cr_idempotency_key r)")
  case (Some i)
  then show ?thesis using ok
    by (auto simp: append_configuration_def worlds_step_def intro: worlds_ok_mono)
next
  case new: None
  show ?thesis
  proof (cases "world_save ?w ?v s")
    case (Inl e)
    then show ?thesis using ok new
      by (auto simp: append_configuration_def worlds_step_def intro: worlds_ok_mono)
  next
    case (Inr s1)
    have key': "world_key ?w = k" using key by (simp add: world_key_def)
    have cur: "world_lookup s k = Some w"
      using saved_worlds.held_save [OF _ Inr] held key' by simp
    obtain s2 where run: "snd (append_configuration ?w r ?v s) = s2" by blast
    have maps: "world_lookup s2 = (world_lookup s)(k \<mapsto> ?w)"
      "revision_lookup s2 = (revision_lookup s)(cr_id r \<mapsto> r)"
      "operation_lookup s2 = operation_lookup s" "active_lookup s2 = active_lookup s"
      "distinct_keys s2"
      using new Inr world_save_state [OF Inr] key' worlds_ok_parts(1) [OF ok]
      by (auto simp: append_configuration_def fun_eq_iff world_lookup_def revision_lookup_def
          operation_lookup_def active_lookup_def distinct_keys_def distinct_update
          simp flip: run)
    have "revision_of s2 k j" if "revision_of s k j" for j
      using that r(2) worlds_ok_parts(2) [OF ok] by (auto simp: revision_of_def maps)
    moreover have "revision_of s2 k (cr_id r)" using r(3) by (simp add: revision_of_def maps)
    ultimately have "world_ok s2 ?w"
      using worlds_okD(3) [OF ok cur] key key' by (auto simp: world_ok_def maps bound_def)
    moreover have "wd_id ?w \<in> U" using worlds_okD(2) [OF ok cur] by simp
    ultimately have "worlds_ok (U \<union> N) s2"
      by (intro put_revision_ok [OF ok _ maps])
        (use r key' cur in \<open>auto simp: linked_def bound_def\<close>)
    moreover have "saved_worlds.kept K s s2" for K
      by (rule kept_put [OF maps(1) cur]) simp
    ultimately show ?thesis
      unfolding run by (simp add: worlds_step_def worlds_later_def operations_evolve_same maps)
  qed
qed

section \<open>Deletion\<close>

lemma map_of_filter_distinct:
  assumes "distinct (map fst d)"
  shows "map_of (filter (\<lambda>(k, v). P v) d) k = Some v \<longleftrightarrow> map_of d k = Some v \<and> P v"
  using assms by (auto simp: distinct_map_filter)

lemma world_delete_ok:
  assumes ok: "worlds_ok U s" and del: "world_delete a i s = Inr s'"
  shows "worlds_step U N s s'"
proof -
  let ?k = "(a, i)"
  have s': "s' = s\<lparr>
      st_worlds := dict_del ?k (st_worlds s),
      st_operations := filter (\<lambda>(_, x). \<not> (wo_account_id x = a \<and> wo_world_id x = i)) (st_operations s),
      st_configurations := filter (\<lambda>(_, r). \<not> (cr_account_id r = a \<and> cr_world_id r = i))
        (st_configurations s),
      st_active_operations := dict_del ?k (st_active_operations s) \<rparr>"
    using del by (auto simp: world_delete_def split: option.splits)
  note dist = worlds_ok_parts(1) [OF ok, unfolded distinct_keys_def]
  have maps: "world_lookup s' = (world_lookup s)(?k := None)"
    "active_lookup s' = (active_lookup s)(?k := None)"
    "\<And>j x. operation_lookup s' j = Some x \<longleftrightarrow> operation_lookup s j = Some x \<and> operation_key x \<noteq> ?k"
    "\<And>j r. revision_lookup s' j = Some r
       \<longleftrightarrow> revision_lookup s j = Some r \<and> (cr_account_id r, cr_world_id r) \<noteq> ?k"
    using map_of_filter_distinct [OF dist [THEN conjunct1]]
      map_of_filter_distinct [OF dist [THEN conjunct2]]
    by (auto simp: s' world_lookup_def active_lookup_def operation_lookup_def fun_eq_iff
        revision_lookup_def delete_conv' operation_key_def
        simp del: map_of_eq_Some_iff Some_eq_map_of_iff)
  have "worlds_ok U s'"
  proof (rule worlds_okI)
    show "distinct_keys s'" using dist by (simp add: s' distinct_keys_def distinct_map_filter)
    show "operations_indexed s'"
    proof (rule operations_indexedI)
      fix j x assume "operation_lookup s' j = Some x" "is_active (wo_status x)"
      then show "active_lookup s' (operation_key x) = Some j"
        using worlds_okD(7) [OF ok] by (simp add: maps)
    next
      fix j h assume "active_lookup s' j = Some h"
      then have j: "j \<noteq> ?k" "active_lookup s j = Some h" by (auto simp: maps split: if_splits)
      from activeE [OF ok j(2)] obtain x u where "operation_lookup s h = Some x" "operation_key x = j"
        "is_active (wo_status x)" "world_lookup s j = Some u" "linked u x" .
      then show "\<exists>x w. operation_lookup s' h = Some x \<and> operation_key x = j
          \<and> is_active (wo_status x) \<and> world_lookup s' j = Some w \<and> linked w x"
        using j(1) by (auto simp: maps)
    qed
    fix k w assume "world_lookup s' k = Some w"
    then have k: "k \<noteq> ?k" "world_lookup s k = Some w" by (auto simp: maps split: if_splits)
    have "revision_of s k j \<Longrightarrow> revision_of s' k j" for j
      using k(1) by (auto simp: revision_of_def maps)
    then show "world_key w = k \<and> wd_id w \<in> U \<and> world_ok s' w"
      using worlds_okD(1-3) [OF ok k(2)] k(1) by (auto simp: world_ok_def maps)
  next
    fix j x assume "operation_lookup s' j = Some x"
    then have x: "operation_lookup s j = Some x" by (simp add: maps)
    show "wo_id x = j \<and> j \<in> U \<and> operation_ok x" using worlds_okD(4-6) [OF ok x] by blast
  next
    fix j r assume "revision_lookup s' j = Some r"
    then have r: "revision_lookup s j = Some r" by (simp add: maps)
    show "cr_id r = j \<and> j \<in> U \<and> cr_world_id r \<in> U \<and> valid_entries (cr_entries r)"
      using worlds_okD(8,9) [OF ok r] worlds_ok_parts(2) [OF ok r] by blast
  qed
  moreover have "saved_worlds.kept K s s'" for K
    by (auto simp: saved_worlds.kept_def saved_worlds.held_def maps(1) split: option.splits)
  moreover have "operations_evolve U s s'"
    by (auto simp: operations_evolve_def maps(3) split: option.splits)
      (metis maps(3) not_None_eq)
  moreover have "operations_begun U s s'" by (auto simp: operations_begun_def maps(3))
  ultimately show ?thesis by (auto simp: worlds_step_def worlds_later_def intro: worlds_ok_mono)
qed

end
