(* ===== verification/WorldInvariant.thy ===== *)
theory WorldInvariant
  imports WorldRepository
begin

text \<open>
  Every operation of \<open>class Worlds\<close> preserves \<open>worlds_ok\<close> and leads to a later state, whatever the
  other clients do in between that is itself such a step.
\<close>

named_theorems world_call_ok \<open>one lemma per operation\<close>

definition worlds_uuids :: "'s worlds_env \<Rightarrow> string set" where
  "worlds_uuids env = range (wv_uuid env)"

definition worlds_env_ok :: "string set \<Rightarrow> 's worlds_env \<Rightarrow> bool" where
  "worlds_env_ok U env \<longleftrightarrow> worlds_rivals_ok U (wv_rival env) \<and> inj (wv_uuid env)
     \<and> worlds_uuids env \<inter> U = {} \<and> wv_catalog env = with_palworld"

lemma worlds_env_okD:
  "worlds_env_ok U env \<Longrightarrow> worlds_rivals_ok U (wv_rival env)"
  "worlds_env_ok U env \<Longrightarrow> wv_uuid env k \<notin> U"
  "worlds_env_ok U env \<Longrightarrow> wv_catalog env = with_palworld"
  by (auto simp: worlds_env_ok_def worlds_uuids_def)

lemma worlds_uuid_in [simp]: "wv_uuid env k \<in> worlds_uuids env"
  by (simp add: worlds_uuids_def)

section \<open>Walking through an operation\<close>

lemma step_same: "worlds_ok U s \<Longrightarrow> worlds_step U N s s"
  by (auto simp: worlds_step_def intro: worlds_ok_mono)

lemma step_leaf: "worlds_ok U s \<Longrightarrow> worlds_step U N s (snd (r, s))"
  by (simp add: step_same)

lemma step_on_ok:
  "worlds_ok U s \<Longrightarrow> (\<And>a. r = Inr a \<Longrightarrow> worlds_step U N s (snd (f a))) \<Longrightarrow>
     worlds_step U N s (snd (on_ok r s f))"
  by (cases r) (auto intro: step_same)

lemma step_if:
  "(c \<Longrightarrow> worlds_step U N s (snd p)) \<Longrightarrow> (\<not> c \<Longrightarrow> worlds_step U N s (snd q)) \<Longrightarrow>
     worlds_step U N s (snd (if c then p else q))"
  by simp

lemma step_later:
  "worlds_later U s s1 \<Longrightarrow> worlds_step U N s1 s2 \<Longrightarrow> worlds_step U N s s2"
  by (auto simp: worlds_step_def intro: worlds_later_trans)

lemma step_rival:
  "worlds_ok U s \<Longrightarrow> worlds_rivals_ok U rival \<Longrightarrow>
     (worlds_ok U (rival k s) \<Longrightarrow> worlds_later U s (rival k s) \<Longrightarrow> worlds_step U N (rival k s) s2) \<Longrightarrow>
     worlds_step U N s s2"
  by (blast dest: worlds_rivalD intro: step_later)

lemmas step_intros = step_leaf step_on_ok step_if

text \<open>What was read is still there, or has a greater version.\<close>

lemma held_world:
  assumes "worlds_ok U s" "world_lookup s k = Some w" "worlds_later U s s'"
  shows "saved_worlds.held k w s'"
proof (rule saved_worlds.held_kept [OF saved_worlds.held_read [of s, OF assms(2)]])
  show "saved_worlds.kept {k. snd k \<in> U} s s'" using assms(3) by (simp add: worlds_later_def)
  show "k \<in> {k. snd k \<in> U}"
    using worlds_okD(1,2) [OF assms(1,2)] by (auto simp: world_key_def)
qed

lemma held_operation:
  assumes "worlds_ok U s" "operation_lookup s i = Some x" "worlds_later U s s'"
  shows "saved_operations.held i x s'"
  unfolding saved_operations.held_def
proof (intro allI impI)
  fix y assume "operation_lookup s' i = Some y"
  then have "operation_evolves x y"
    using assms(2,3) worlds_okD(5) [OF assms(1,2)]
    by (auto simp: worlds_later_def operations_evolve_def)
  then show "wo_version x \<le> wo_version y \<and> (wo_version y = wo_version x \<longrightarrow> y = x)"
    by (simp add: operation_evolves_def)
qed

lemma read_world:
  "worlds_ok U s \<Longrightarrow> world_lookup s (a, i) = Some w \<Longrightarrow>
     wd_account_id w = a \<and> wd_id w = i \<and> world_key w = (a, i) \<and> i \<in> U"
  using worlds_okD(1,2) [of U s "(a, i)" w] by (auto simp: world_key_def)

section \<open>Worlds and configurations\<close>

lemma valid_palworld:
  assumes "validate_configuration with_palworld t v False = Inr es" shows "valid_entries es"
proof -
  have "normalize_settings v True False = Inr es"
    using assms by (auto simp: validate_configuration_def resolve_def with_palworld_def
        PALWORLD_TEMPLATE_def validate_palworld_configuration_def
        split: if_splits sum.splits py_error.splits)
  then obtain r where "v = VDict r" and r: "entries_ok es (filter (\<lambda>f. sf_key f \<in> fst ` set r) FIELDS)"
    "True \<longrightarrow> set (map sf_key FIELDS) \<subseteq> fst ` set r" by (rule normalize_Inr)
  from r(2) have "filter (\<lambda>f. sf_key f \<in> fst ` set r) FIELDS = FIELDS"
    by (auto simp: filter_id_conv)
  with r(1) show ?thesis by (simp only: valid_entries_def)
qed

lemma create_world_call_ok [world_call_ok]:
  assumes s: "worlds_ok U s" and env: "worlds_env_ok U env"
  shows "worlds_step U (worlds_uuids env) s
    (snd (create_world env acc actor name tid region profile s))"
proof -
  have tid: "tid = gt_id PALWORLD_TEMPLATE" if "resolve with_palworld tid = Inr t" for t
    using that by (auto simp: resolve_def with_palworld_def split: if_splits)
  show ?thesis
    unfolding create_world_def Let_def worlds_env_okD(3) [OF env]
    apply (intro step_on_ok s)
    subgoal premises p for u v t entries
      unfolding snd_conv
      by (rule create_world_ok [OF s])
        (simp_all add: worlds_env_okD(2) [OF env] tid [OF p(3)] valid_palworld [OF p(4)])
    done
qed

lemma update_runtime_settings_ok [world_call_ok]:
  assumes s: "worlds_ok U s" and env: "worlds_env_ok U env"
  shows "worlds_step U N s (snd (update_runtime_settings env acc i actor m s))"
  unfolding update_runtime_settings_def Let_def
  apply (intro step_intros s)
  subgoal premises p for u w
  proof (rule step_rival [OF s worlds_env_okD(1) [OF env], of 0])
    have w: "world_lookup s (acc, i) = Some w" using p by simp
    let ?s = "wv_rival env 0 s" and ?w = "w\<lparr> wd_auto_sleep_minutes := m, wd_version := wd_version w + 1 \<rparr>"
    assume ok: "worlds_ok U ?s" and later: "worlds_later U s ?s"
    have "worlds_step U N ?s s2" if "world_save ?w (wd_version w) ?s = Inr s2" for s2
      by (rule save_world_step_ok [OF ok held_world [OF s w later] _ that])
        (use read_world [OF s w] in \<open>auto simp: world_key_def world_ok_def linked_def bound_def\<close>)
    then show "worlds_step U N ?s (snd (on_ok (world_save ?w (wd_version w) ?s) ?s (\<lambda>s2. (Inr ?w, s2))))"
      by (cases "world_save ?w (wd_version w) ?s") (auto intro: step_same [OF ok])
  qed
  done

lemma update_configuration_ok [world_call_ok]:
  assumes s: "worlds_ok U s" and env: "worlds_env_ok U env"
  shows "worlds_step U (worlds_uuids env) s
    (snd (update_configuration env acc i actor changes key origin s))"
  unfolding update_configuration_def Let_def
  apply (rule step_rival [OF s worlds_env_okD(1) [OF env], of 0], rule step_on_ok, assumption)
  subgoal premises p for preview
    apply (rule step_rival [OF p(1) worlds_env_okD(1) [OF env], of 1], rule step_on_ok, assumption)
    subgoal premises q for w
      apply (rule step_rival [OF q(1) worlds_env_okD(1) [OF env], of 2], rule step_on_ok, assumption)
      subgoal premises r for base
      proof (rule step_rival [OF r(1) worlds_env_okD(1) [OF env], of 3])
        let ?s2 = "wv_rival env 1 (wv_rival env 0 s)"
        let ?s4 = "wv_rival env 3 (wv_rival env 2 ?s2)"
        assume ok: "worlds_ok U ?s4" and later: "worlds_later U (wv_rival env 2 ?s2) ?s4"
        have w: "world_lookup ?s2 (acc, i) = Some w" using q(3) by simp
        have "valid_entries (cp_proposed_entries preview)"
          using p(3) worlds_env_okD(3) [OF env]
          by (auto simp: preview_in_def split: sum.splits intro: valid_palworld)
        then show "worlds_step U (worlds_uuids env) ?s4 (snd (append_configuration
            (w\<lparr> wd_pending_configuration_revision_id :=
                  Some (cr_id (edited_revision env w base preview acc i actor key origin)),
                wd_version := wd_version w + 1 \<rparr>)
            (edited_revision env w base preview acc i actor key origin) (wd_version w) ?s4))"
          by (intro append_configuration_ok [OF ok held_world [OF q(1) w worlds_later_trans [OF r(2) later]]])
            (use read_world [OF q(1) w] worlds_env_okD(2) [OF env] in
              \<open>simp_all add: edited_revision_def world_key_def\<close>)
      qed
      done
    done
  done

section \<open>Operations on the Runtime\<close>

lemma request_wake_ok [world_call_ok]:
  assumes s: "worlds_ok U s" and env: "worlds_env_ok U env"
  shows "worlds_step U (worlds_uuids env) s (snd (request_wake env acc i actor key s))"
  unfolding request_wake_def
  apply (intro step_on_ok s)
  subgoal premises p for u v w
  proof (rule step_rival [OF s worlds_env_okD(1) [OF env], of 0])
    have w: "world_lookup s (acc, i) = Some w" using p by simp
    let ?s = "wv_rival env 0 s"
    assume ok: "worlds_ok U ?s" and later: "worlds_later U s ?s"
    show "worlds_step U (worlds_uuids env) ?s (snd (begin_operation
        (w\<lparr> wd_status := WAKING, wd_empty_since := None, wd_version := wd_version w + 1 \<rparr>)
        (new_operation (wv_uuid env 0) acc i WAKE key (wv_clock env 0)) (wd_version w) ?s))"
      by (rule begin_operation_ok [OF ok held_world [OF s w later]])
        (use worlds_env_okD(2) [OF env] in \<open>simp_all add: new_operation_def operation_key_def
          world_key_def linked_def operation_ok_def phase_of_type_def\<close>)
  qed
  done

lemma session_irrelevant [simp]:
  "operation_ok (x\<lparr> wo_session_quote_id := q, wo_usage_reservation_id := r, wo_version := v \<rparr>)
     = operation_ok x"
  "linked (w\<lparr> wd_session_quote_id := q, wd_usage_reservation_id := r, wd_version := v' \<rparr>)
     (x\<lparr> wo_session_quote_id := q, wo_usage_reservation_id := r, wo_version := v \<rparr>) = linked w x"
  by (simp_all add: operation_ok_def has_stored_state_def linked_def bound_def)

lemma attach_saved_ok:
  assumes ok: "worlds_ok U s"
    and held: "saved_worlds.held k w s" "saved_operations.held i x s"
    and read: "operation_key x = k" "wo_id x = i" "world_key w = k" "wo_session_quote_id x = None"
    and save: "save_operation x' (wo_version x) (Some (w', wd_version w)) s = Inr s'"
    and x': "x' = x\<lparr> wo_session_quote_id := Some q, wo_usage_reservation_id := Some r,
        wo_version := wo_version x + 1 \<rparr>"
    and w': "w' = w\<lparr> wd_session_quote_id := Some q, wd_usage_reservation_id := Some r,
        wd_version := wd_version w + 1 \<rparr>"
  shows "worlds_step U N s s'"
proof (cases "is_active (wo_status x)")
  case True
  show ?thesis
    by (rule save_operation_ok [OF ok held True read(1-3) save])
      (use read True in \<open>auto simp: x' w' world_key_def same_request_def point_def linked_def
        bound_def simp del: One_nat_def split: if_splits\<close>)
next
  case False
  note st = save_operation_state [OF save]
  have keys: "wo_id x' = i" "operation_key x' = k" "world_key w' = k" "\<not> is_active (wo_status x')"
    using x' w' read False by (auto simp: operation_key_def world_key_def)
  have x: "operation_lookup s i = Some x"
    using st(1) held(2) keys by (auto simp: saved_operations.held_def)
  have "active_lookup s k \<noteq> Some i" using activeE [OF ok] x False by (metis option.inject)
  then obtain s1 where s1: "world_save w' (wd_version w) s = Inr s1"
    and s': "s' = s1\<lparr>st_operations := dict_set i x' (st_operations s1)\<rparr>"
    using save_operation_inactive [OF save keys(4)] keys by auto
  have step: "worlds_step U {} s s1"
    by (rule save_world_step_ok [OF ok held(1) keys(3) s1])
      (auto simp: w' world_ok_def linked_def bound_def world_key_def)
  then have ok1: "worlds_ok U s1" and later: "worlds_later U s s1" by (simp_all add: worlds_step_def)
  have x1: "operation_lookup s1 i = Some x" using x world_save_state [OF s1] by simp
  have "operation_ok x'"
    using worlds_okD(6) [OF ok x] x' by (simp add: operation_ok_def has_stored_state_def)
  then have "worlds_step U N s1 s'"
    unfolding s' using put_inactive_ok [OF ok1 x1 False, of x'] read(4)
    by (simp add: x' same_request_def point_def)
  then show ?thesis by (rule step_later [OF later])
qed

lemma attach_billing_session_ok [world_call_ok]:
  assumes s: "worlds_ok U s" and env: "worlds_env_ok U env"
  shows "worlds_step U N s (snd (attach_billing_session env acc i q r s))"
  unfolding attach_billing_session_def Let_def
  apply (intro step_on_ok step_if step_leaf s)
  subgoal premises p for x
    apply (rule step_rival [OF s worlds_env_okD(1) [OF env], of 0], rule step_on_ok, assumption)
    subgoal premises p1 for w
    proof (rule step_rival [OF p1(1) worlds_env_okD(1) [OF env], of 1])
      let ?s1 = "wv_rival env 0 s" let ?s = "wv_rival env 1 ?s1"
      let ?x = "x\<lparr> wo_session_quote_id := Some q, wo_usage_reservation_id := Some r,
        wo_version := wo_version x + 1 \<rparr>"
      let ?w = "w\<lparr> wd_session_quote_id := Some q, wd_usage_reservation_id := Some r,
        wd_version := wd_version w + 1 \<rparr>"
      assume ok: "worlds_ok U ?s" and later: "worlds_later U ?s1 ?s"
      have x: "operation_lookup s i = Some x" "wo_account_id x = acc" using p by simp_all
      have w: "world_lookup ?s1 (acc, wo_world_id x) = Some w" using p1 by simp
      have saved: "worlds_step U N ?s s'"
        if "save_operation ?x (wo_version x) (Some (?w, wd_version w)) ?s = Inr s'" for s'
        by (rule attach_saved_ok [OF ok held_world [OF p1(1) w later]
              held_operation [OF s x(1) worlds_later_trans [OF p1(2) later]] _ _ _ _ that refl refl])
          (use x p worlds_okD(4) [OF s x(1)] read_world [OF p1(1) w] in
            \<open>auto simp: operation_key_def\<close>)
      have "worlds_step U N ?s (wv_rival env 2 ?s)"
        using worlds_rivalD [OF worlds_env_okD(1) [OF env] ok, of 2]
        by (auto simp: worlds_step_def intro: worlds_ok_mono)
      then show "worlds_step U N ?s (snd (case save_operation ?x (wo_version x)
            (Some (?w, wd_version w)) ?s of
          Inl (RuntimeError m) \<Rightarrow> on_ok (get_operation (wv_rival env 2 ?s) acc i) (wv_rival env 2 ?s)
            (\<lambda>current. if wo_session_quote_id current = Some q \<and> wo_usage_reservation_id current = Some r
              then (Inr current, wv_rival env 2 ?s) else (Inl (RuntimeError m), wv_rival env 2 ?s))
        | Inl e \<Rightarrow> (Inl e, ?s)
        | Inr st3 \<Rightarrow> (Inr ?x, st3)))"
        using step_same [OF ok, of N] saved
        by (auto split: sum.split py_error.split simp del: One_nat_def
            intro!: on_ok_state [where Q = "worlds_step U N ?s"])
    qed
    done
  done

lemma fail_wake_preflight_ok [world_call_ok]:
  assumes s: "worlds_ok U s" and env: "worlds_env_ok U env"
  shows "worlds_step U N s (snd (fail_wake_preflight env acc i s))"
  unfolding fail_wake_preflight_def Let_def
  apply (intro step_on_ok step_if step_leaf s)
  subgoal premises p for x
    apply (rule step_rival [OF s worlds_env_okD(1) [OF env], of 0], rule step_on_ok, assumption)
    subgoal premises p1 for w
    proof (rule step_rival [OF p1(1) worlds_env_okD(1) [OF env], of 1], rule step_on_ok, assumption)
      let ?s1 = "wv_rival env 0 s" let ?s = "wv_rival env 1 ?s1"
      let ?x = "x\<lparr> wo_status := OP_FAILED, wo_phase := COMPLETE, wo_version := wo_version x + 1 \<rparr>"
      let ?w = "w\<lparr> wd_status := SLEEPING, wd_session_quote_id := None,
        wd_usage_reservation_id := None, wd_runtime_started_at := None,
        wd_version := wd_version w + 1 \<rparr>"
      fix s' assume ok: "worlds_ok U ?s" and later: "worlds_later U ?s1 ?s"
        and save: "save_operation ?x (wo_version x) (Some (?w, wd_version w)) ?s = Inr s'"
      have x: "operation_lookup s i = Some x" "wo_account_id x = acc" "is_active (wo_status x)"
        using p by simp_all
      have w: "world_lookup ?s1 (acc, wo_world_id x) = Some w" using p1 by simp
      have "worlds_step U N ?s s'"
        by (rule save_operation_ok [OF ok held_world [OF p1(1) w later]
              held_operation [OF s x(1) worlds_later_trans [OF p1(2) later]] x(3) _ _ _ save])
          (use x worlds_okD(4) [OF s x(1)] read_world [OF p1(1) w] in
            \<open>auto simp: operation_key_def world_key_def same_request_def same_session_def point_def
              operation_ok_def phase_of_type_def preflight_fails simp del: One_nat_def
              split: operation_type.splits\<close>)
      then show "worlds_step U N ?s (snd (Inr ?x, s'))" by simp
    qed
    done
  done

lemma sleep_operation_begins_ok:
  assumes ok: "worlds_ok U s" and held: "saved_worlds.held (acc, i) w s"
    and w: "wd_status w = ONLINE" and ids: "u \<in> N" "u \<notin> U"
  shows "worlds_step U N s (snd (begin_operation
      (w\<lparr> wd_status := GOING_TO_SLEEP, wd_empty_since := e, wd_version := wd_version w + 1 \<rparr>)
      (sleep_operation u w acc i key created forced) (wd_version w) s))"
  by (rule begin_operation_ok [OF ok held])
    (use w ids in \<open>auto simp: sleep_operation_def new_operation_def operation_key_def world_key_def
      linked_def bound_def operation_ok_def phase_of_type_def world_ok_def simp del: One_nat_def\<close>)

lemma request_sleep_ok [world_call_ok]:
  assumes s: "worlds_ok U s" and env: "worlds_env_ok U env"
  shows "worlds_step U (worlds_uuids env) s (snd (request_sleep env acc i actor key forced s))"
  unfolding request_sleep_def
  apply (intro step_on_ok step_if step_leaf s)
  subgoal premises p for u w
  proof (rule step_rival [OF s worlds_env_okD(1) [OF env], of 0])
    have w: "world_lookup s (acc, i) = Some w" using p by simp
    let ?s = "wv_rival env 0 s"
    assume ok: "worlds_ok U ?s" and later: "worlds_later U s ?s"
    have same: "w\<lparr> wd_status := GOING_TO_SLEEP, wd_version := wd_version w + 1 \<rparr>
      = w\<lparr> wd_status := GOING_TO_SLEEP, wd_empty_since := wd_empty_since w,
          wd_version := wd_version w + 1 \<rparr>" by simp
    show "worlds_step U (worlds_uuids env) ?s (snd (begin_operation
        (w\<lparr> wd_status := GOING_TO_SLEEP, wd_version := wd_version w + 1 \<rparr>)
        (sleep_operation (wv_uuid env 0) w acc i key (wv_clock env 0) forced) (wd_version w) ?s))"
      unfolding same
      by (rule sleep_operation_begins_ok [OF ok held_world [OF s w later]])
        (use p worlds_env_okD(2) [OF env] in simp_all)
  qed
  done

lemma step_and_then:
  "worlds_step U N s (snd p) \<Longrightarrow> (\<And>a s'. snd (f a s') = s') \<Longrightarrow> worlds_step U N s (snd (and_then p f))"
  by (cases p; cases "fst p") auto

lemma request_automatic_recovery_ok [world_call_ok]:
  assumes s: "worlds_ok U s" and env: "worlds_env_ok U env"
  shows "worlds_step U (worlds_uuids env) s
    (snd (request_automatic_recovery env acc i at key s))"
  unfolding request_automatic_recovery_def Let_def split_beta
  apply (rule step_on_ok [OF s])
  apply (rule step_rival [OF s worlds_env_okD(1) [OF env], of 0])
  apply (intro step_if step_leaf, assumption+)
  subgoal premises p for w
  proof (rule step_rival [OF p(2) worlds_env_okD(1) [OF env], of 1])
    let ?s1 = "wv_rival env 0 s" let ?s = "wv_rival env 1 ?s1"
    let ?recent = "filter (\<lambda>x. wo_operation_type x = RECOVER \<and> at - minutes 15 \<le> wo_created_at x)
      (list_operations_of ?s1 acc i)"
    let ?x = "(new_operation (wv_uuid env 0) acc i RECOVER key at)\<lparr> wo_runtime_id := wd_runtime_id w,
      wo_runtime_reference := wd_runtime_reference w, wo_attempt_number := length ?recent + 1 \<rparr>"
    let ?p = "begin_operation (w\<lparr> wd_status := WAKING, wd_version := wd_version w + 1 \<rparr>) ?x
      (wd_version w) ?s"
    have w: "world_lookup s (acc, i) = Some w" using p by simp
    assume ok: "worlds_ok U ?s" and later: "worlds_later U ?s1 ?s"
    have "worlds_step U (worlds_uuids env) ?s (snd ?p)"
      by (rule begin_operation_ok [OF ok held_world [OF s w worlds_later_trans [OF p(3) later]]])
        (use p worlds_env_okD(2) [OF env] in \<open>auto simp: new_operation_def operation_key_def
          world_key_def linked_def bound_def operation_ok_def phase_of_type_def world_ok_def
          simp del: One_nat_def\<close>)
    then show "worlds_step U (worlds_uuids env) ?s
        (snd (on_ok (fst ?p) (snd ?p) (\<lambda>y. (Inr (Some y), snd ?p))))"
      by (cases "fst ?p") simp_all
  qed
  done

end
