(* ===== verification/WorldWorker.thy ===== *)
theory WorldWorker
  imports WorldProviders
begin

text \<open>
  \<open>class WorldOperationWorker\<close> (\<open>gamewake/worlds/worker.py\<close>): it advances one operation of a
  World by one persisted phase at a time. \<open>wk_rival env k\<close> is what other clients do before the
  \<open>k\<close>-th access to the repository after the first.
\<close>

record 'p worker_env =
  wk_provision :: "world \<Rightarrow> string \<Rightarrow> 'p \<Rightarrow> runtime result \<times> 'p"
  wk_release :: "runtime \<Rightarrow> string \<Rightarrow> 'p \<Rightarrow> unit result \<times> 'p"
  wk_restore :: "world \<Rightarrow> runtime \<Rightarrow> string \<Rightarrow> 'p \<Rightarrow> unit result \<times> 'p"
  wk_persist :: "world \<Rightarrow> runtime \<Rightarrow> string \<Rightarrow> 'p \<Rightarrow> stored_world_state result \<times> 'p"
  wk_resolve :: "string \<Rightarrow> 'p game_driver result"
  wk_backup :: "(world \<Rightarrow> stored_world_state \<Rightarrow> string \<Rightarrow> 'p \<Rightarrow> backup result \<times> 'p) option"
  wk_usage :: "'p usage_recorder option"
  wk_clock :: "nat \<Rightarrow> instant"
  wk_uuid :: string
  wk_rival :: "nat \<Rightarrow> 'p worker_state \<Rightarrow> 'p worker_state"


section \<open>Steps\<close>

text \<open>\<open>repository.save_operation(...)\<close> and \<open>return\<close> of what was saved.\<close>

definition save_step ::
    "'p worker_env \<Rightarrow> world_operation \<Rightarrow> nat \<Rightarrow> (world \<times> nat) option \<Rightarrow> 'p worker_state
     \<Rightarrow> world_operation result \<times> 'p worker_state" where
  "save_step env x expected with_world s =
     (let s1 = wk_rival env 1 s
      in on_ok (save_operation x expected with_world s1) s1 (\<lambda>s2. (Inr x, s2)))"

definition move_to_phase ::
    "'p worker_env \<Rightarrow> world_operation \<Rightarrow> operation_phase \<Rightarrow> 'p worker_state
     \<Rightarrow> world_operation result \<times> 'p worker_state" where
  "move_to_phase env x phase =
     save_step env (x\<lparr> wo_status := OP_RUNNING, wo_phase := phase, wo_version := wo_version x + 1 \<rparr>)
       (wo_version x) None"

definition needs_attention ::
    "'p worker_env \<Rightarrow> world_operation \<Rightarrow> world \<Rightarrow> 'p worker_state
     \<Rightarrow> world_operation result \<times> 'p worker_state" where
  "needs_attention env x w =
     save_step env (x\<lparr> wo_status := OP_NEEDS_ATTENTION, wo_version := wo_version x + 1 \<rparr>)
       (wo_version x)
       (Some (w\<lparr> wd_status := NEEDS_ATTENTION, wd_version := wd_version w + 1 \<rparr>, wd_version w))"

definition runtime_for :: "world_operation \<Rightarrow> runtime result" where
  "runtime_for x = (case (wo_runtime_id x, wo_runtime_reference x) of
      (Some i, Some r) \<Rightarrow> Inr \<lparr> rt_id = i, rt_provider_reference = r \<rparr>
    | _ \<Rightarrow> Inl (RuntimeError ''the operation has no persisted Runtime''))"

definition stored_state_for :: "world_operation \<Rightarrow> stored_world_state result" where
  "stored_state_for x = (case (wo_stored_state_id x, wo_stored_state_checksum x) of
      (Some i, Some c) \<Rightarrow> Inr \<lparr> ss_id = i, ss_checksum = c, ss_validated = True \<rparr>
    | _ \<Rightarrow> Inl (RuntimeError ''the operation has no validated stored state''))"

definition effect_key :: "world_operation \<Rightarrow> string \<Rightarrow> string" where
  "effect_key x effect_name = wo_id x @ '':'' @ effect_name"

definition phase_value :: "operation_phase \<Rightarrow> string" where
  "phase_value p = (case p of
      REQUESTED \<Rightarrow> ''requested'' | PROVISIONING_RUNTIME \<Rightarrow> ''provisioning_runtime''
    | RESTORING_WORLD \<Rightarrow> ''restoring_world''
    | APPLYING_CONFIGURATION \<Rightarrow> ''applying_configuration'' | STARTING_GAME \<Rightarrow> ''starting_game''
    | CHECKING_GAME_HEALTH \<Rightarrow> ''checking_game_health'' | PHASE_ONLINE \<Rightarrow> ''online''
    | CHECKING_PLAYERS \<Rightarrow> ''checking_players'' | SAVING_GAME \<Rightarrow> ''saving_game''
    | STOPPING_GAME \<Rightarrow> ''stopping_game'' | PERSISTING_WORLD \<Rightarrow> ''persisting_world''
    | CREATING_BACKUP \<Rightarrow> ''creating_backup'' | RELEASING_RUNTIME \<Rightarrow> ''releasing_runtime''
    | COMPLETE \<Rightarrow> ''complete'')"

text \<open>\<open>if self._usage_recorder is not None: self._usage_recorder.record_release(...)\<close>.\<close>

definition record_release ::
    "'p worker_env \<Rightarrow> world_operation \<Rightarrow> bool \<Rightarrow> 'p worker_state \<Rightarrow> unit result \<times> 'p worker_state" where
  "record_release env x reached_online s = (case wk_usage env of
      None \<Rightarrow> (Inr (), s)
    | Some recorder \<Rightarrow> perform (ur_record_release recorder x (wk_clock env 0) reached_online)
        (UsageRecorded (wo_id x) (wk_clock env 0) reached_online) s)"

text \<open>The World after its Runtime is gone and its session is closed, needing attention.\<close>

definition released_for_attention :: "world \<Rightarrow> world" where
  "released_for_attention w =
     w\<lparr> wd_status := NEEDS_ATTENTION, wd_runtime_id := None, wd_runtime_reference := None,
        wd_session_quote_id := None, wd_usage_reservation_id := None,
        wd_runtime_started_at := None, wd_version := wd_version w + 1 \<rparr>"

section \<open>Waking\<close>

definition provision_runtime ::
    "'p worker_env \<Rightarrow> world_operation \<Rightarrow> world \<Rightarrow> 'p worker_state
     \<Rightarrow> world_operation result \<times> 'p worker_state" where
  "provision_runtime env x w s =
     and_then (perform (wk_provision env w (effect_key x ''provision''))
         (Provisioned (wd_id w) (effect_key x ''provision'')) s) (\<lambda>rt s1.
       let started = wk_clock env 0
       in save_step env
            (x\<lparr> wo_phase := RESTORING_WORLD, wo_runtime_id := Some (rt_id rt),
               wo_runtime_reference := Some (rt_provider_reference rt),
               wo_runtime_started_at := Some started, wo_version := wo_version x + 1 \<rparr>)
            (wo_version x)
            (Some (w\<lparr> wd_runtime_id := Some (rt_id rt),
               wd_runtime_reference := Some (rt_provider_reference rt),
               wd_runtime_started_at := Some started, wd_version := wd_version w + 1 \<rparr>,
               wd_version w)) s1)"

definition apply_configuration_step ::
    "'p worker_env \<Rightarrow> 'p game_driver \<Rightarrow> world_operation \<Rightarrow> world \<Rightarrow> runtime \<Rightarrow> 'p worker_state
     \<Rightarrow> world_operation result \<times> 'p worker_state" where
  "apply_configuration_step env d x w rt s =
     and_then (perform (gd_apply_configuration d w rt (effect_key x ''configure''))
         (Configured (wd_id w) rt (effect_key x ''configure'')) s) (\<lambda>_ s1.
       case wd_pending_configuration_revision_id w of
         None \<Rightarrow> move_to_phase env x STARTING_GAME s1
       | Some pending \<Rightarrow> save_step env
           (x\<lparr> wo_status := OP_RUNNING, wo_phase := STARTING_GAME, wo_version := wo_version x + 1 \<rparr>)
           (wo_version x)
           (Some (w\<lparr> wd_configuration_revision_id := pending,
              wd_pending_configuration_revision_id := None, wd_version := wd_version w + 1 \<rparr>,
              wd_version w)) s1)"

definition check_wake_health ::
    "'p worker_env \<Rightarrow> 'p game_driver \<Rightarrow> world_operation \<Rightarrow> world \<Rightarrow> runtime \<Rightarrow> 'p worker_state
     \<Rightarrow> world_operation result \<times> 'p worker_state" where
  "check_wake_health env d x w rt s =
     and_then (perform (gd_is_healthy d w rt) (HealthChecked (wd_id w) rt) s) (\<lambda>healthy s1.
       if \<not> healthy then move_to_phase env x STOPPING_GAME s1
       else save_step env
         (x\<lparr> wo_status := OP_SUCCEEDED, wo_phase := COMPLETE, wo_version := wo_version x + 1 \<rparr>)
         (wo_version x)
         (Some (w\<lparr> wd_status := ONLINE, wd_empty_since := None, wd_version := wd_version w + 1 \<rparr>,
           wd_version w)) s1)"

definition release_failed_wake ::
    "'p worker_env \<Rightarrow> world_operation \<Rightarrow> world \<Rightarrow> runtime \<Rightarrow> 'p worker_state
     \<Rightarrow> world_operation result \<times> 'p worker_state" where
  "release_failed_wake env x w rt s =
     and_then (perform (wk_release env rt (effect_key x ''failed-wake-release''))
         (Released rt (effect_key x ''failed-wake-release'')) s) (\<lambda>_ s1.
     and_then (record_release env x False s1) (\<lambda>_ s2.
       save_step env
         (x\<lparr> wo_status := OP_NEEDS_ATTENTION, wo_phase := COMPLETE, wo_version := wo_version x + 1 \<rparr>)
         (wo_version x) (Some (released_for_attention w, wd_version w)) s2))"

definition advance_wake ::
    "'p worker_env \<Rightarrow> 'p game_driver \<Rightarrow> world_operation \<Rightarrow> world \<Rightarrow> 'p worker_state
     \<Rightarrow> world_operation result \<times> 'p worker_state" where
  "advance_wake env d x w s =
     (if wo_phase x = REQUESTED then move_to_phase env x PROVISIONING_RUNTIME s
      else if wo_phase x = PROVISIONING_RUNTIME then provision_runtime env x w s
      else on_ok (runtime_for x) s (\<lambda>rt. case wo_phase x of
          RESTORING_WORLD \<Rightarrow>
            and_then (perform (wk_restore env w rt (effect_key x ''restore''))
                (Restored (wd_id w) rt (effect_key x ''restore'')) s)
              (\<lambda>_. move_to_phase env x APPLYING_CONFIGURATION)
        | APPLYING_CONFIGURATION \<Rightarrow> apply_configuration_step env d x w rt s
        | STARTING_GAME \<Rightarrow>
            and_then (perform (gd_start d w rt (effect_key x ''start''))
                (Started (wd_id w) rt (effect_key x ''start'')) s)
              (\<lambda>_. move_to_phase env x CHECKING_GAME_HEALTH)
        | CHECKING_GAME_HEALTH \<Rightarrow> check_wake_health env d x w rt s
        | STOPPING_GAME \<Rightarrow>
            and_then (perform (gd_stop d w rt (effect_key x ''failed-wake-stop''))
                (GameStopped (wd_id w) rt (effect_key x ''failed-wake-stop'')) s)
              (\<lambda>_. move_to_phase env x RELEASING_RUNTIME)
        | RELEASING_RUNTIME \<Rightarrow> release_failed_wake env x w rt s
        | p \<Rightarrow> (Inl (RuntimeError (''unsupported operation phase: '' @ phase_value p)), s)))"

section \<open>Safe sleep\<close>

definition check_players ::
    "'p worker_env \<Rightarrow> 'p game_driver \<Rightarrow> world_operation \<Rightarrow> world \<Rightarrow> runtime \<Rightarrow> 'p worker_state
     \<Rightarrow> world_operation result \<times> 'p worker_state" where
  "check_players env d x w rt s =
     and_then (perform (gd_player_count d w rt) (PlayersCounted (wd_id w) rt) s) (\<lambda>n s1.
       if 0 < n \<and> \<not> wo_force x
       then save_step env
         (x\<lparr> wo_status := OP_CANCELLED, wo_phase := COMPLETE, wo_version := wo_version x + 1 \<rparr>)
         (wo_version x)
         (Some (w\<lparr> wd_status := ONLINE, wd_empty_since := None, wd_version := wd_version w + 1 \<rparr>,
           wd_version w)) s1
       else move_to_phase env x SAVING_GAME s1)"

definition persist_world ::
    "'p worker_env \<Rightarrow> world_operation \<Rightarrow> world \<Rightarrow> runtime \<Rightarrow> 'p worker_state
     \<Rightarrow> world_operation result \<times> 'p worker_state" where
  "persist_world env x w rt s =
     and_then (perform (wk_persist env w rt (effect_key x ''persist''))
         (Persisted (wd_id w) rt (effect_key x ''persist'')) s) (\<lambda>state s1.
       if \<not> ss_validated state then needs_attention env x w s1
       else save_step env
         (x\<lparr> wo_phase := CREATING_BACKUP, wo_stored_state_id := Some (ss_id state),
            wo_stored_state_checksum := Some (ss_checksum state), wo_version := wo_version x + 1 \<rparr>)
         (wo_version x) None s1)"

definition create_sleep_backup ::
    "'p worker_env \<Rightarrow> world_operation \<Rightarrow> world \<Rightarrow> 'p worker_state
     \<Rightarrow> world_operation result \<times> 'p worker_state" where
  "create_sleep_backup env x w s = (case wk_backup env of
      None \<Rightarrow> (Inl (RuntimeError ''safe sleep requires a Backup Store''), s)
    | Some create_automatic \<Rightarrow>
        on_ok (stored_state_for x) s (\<lambda>state.
        and_then (perform (create_automatic w state (effect_key x ''backup''))
            (BackedUp (wd_id w) state (effect_key x ''backup'')) s) (\<lambda>b.
          save_step env
            (x\<lparr> wo_phase := RELEASING_RUNTIME, wo_backup_id := Some (bk_id b),
               wo_version := wo_version x + 1 \<rparr>)
            (wo_version x) None)))"

definition release_sleeping ::
    "'p worker_env \<Rightarrow> world_operation \<Rightarrow> world \<Rightarrow> runtime \<Rightarrow> 'p worker_state
     \<Rightarrow> world_operation result \<times> 'p worker_state" where
  "release_sleeping env x w rt s =
     and_then (perform (wk_release env rt (effect_key x ''release''))
         (Released rt (effect_key x ''release'')) s) (\<lambda>_ s1.
     and_then (record_release env x True s1) (\<lambda>_ s2.
       save_step env
         (x\<lparr> wo_status := OP_SUCCEEDED, wo_phase := COMPLETE, wo_version := wo_version x + 1 \<rparr>)
         (wo_version x)
         (Some (w\<lparr> wd_status := SLEEPING, wd_runtime_id := None, wd_runtime_reference := None,
            wd_stored_state_id := wo_stored_state_id x,
            wd_stored_state_checksum := wo_stored_state_checksum x, wd_session_quote_id := None,
            wd_usage_reservation_id := None, wd_runtime_started_at := None,
            wd_empty_since := None, wd_version := wd_version w + 1 \<rparr>, wd_version w)) s2))"

definition advance_sleep ::
    "'p worker_env \<Rightarrow> 'p game_driver \<Rightarrow> world_operation \<Rightarrow> world \<Rightarrow> 'p worker_state
     \<Rightarrow> world_operation result \<times> 'p worker_state" where
  "advance_sleep env d x w s =
     on_ok (runtime_for x) s (\<lambda>rt. case wo_phase x of
        REQUESTED \<Rightarrow> move_to_phase env x CHECKING_PLAYERS s
      | CHECKING_PLAYERS \<Rightarrow> check_players env d x w rt s
      | SAVING_GAME \<Rightarrow>
          and_then (perform (gd_save d w rt (effect_key x ''save''))
              (GameSaved (wd_id w) rt (effect_key x ''save'')) s)
            (\<lambda>_. move_to_phase env x STOPPING_GAME)
      | STOPPING_GAME \<Rightarrow>
          and_then (perform (gd_stop d w rt (effect_key x ''stop''))
              (GameStopped (wd_id w) rt (effect_key x ''stop'')) s)
            (\<lambda>_. move_to_phase env x PERSISTING_WORLD)
      | PERSISTING_WORLD \<Rightarrow> persist_world env x w rt s
      | CREATING_BACKUP \<Rightarrow> create_sleep_backup env x w s
      | RELEASING_RUNTIME \<Rightarrow> release_sleeping env x w rt s
      | p \<Rightarrow> (Inl (RuntimeError (''unsupported sleep phase: '' @ phase_value p)), s))"

section \<open>Automatic Recovery\<close>

definition check_recovery_health ::
    "'p worker_env \<Rightarrow> 'p game_driver \<Rightarrow> world_operation \<Rightarrow> world \<Rightarrow> runtime \<Rightarrow> 'p worker_state
     \<Rightarrow> world_operation result \<times> 'p worker_state" where
  "check_recovery_health env d x w rt s =
     and_then (perform (gd_is_healthy d w rt) (HealthChecked (wd_id w) rt) s) (\<lambda>healthy.
       let exhausted = 3 \<le> wo_attempt_number x
       in save_step env
         (x\<lparr> wo_status := (if healthy then OP_SUCCEEDED
              else if exhausted then OP_NEEDS_ATTENTION else OP_FAILED),
            wo_phase := COMPLETE, wo_version := wo_version x + 1 \<rparr>)
         (wo_version x)
         (Some (w\<lparr> wd_status := (if healthy then ONLINE
              else if exhausted then NEEDS_ATTENTION else WAKING),
            wd_version := wd_version w + 1 \<rparr>, wd_version w)))"

definition advance_recovery ::
    "'p worker_env \<Rightarrow> 'p game_driver \<Rightarrow> world_operation \<Rightarrow> world \<Rightarrow> 'p worker_state
     \<Rightarrow> world_operation result \<times> 'p worker_state" where
  "advance_recovery env d x w s =
     on_ok (runtime_for x) s (\<lambda>rt. case wo_phase x of
        REQUESTED \<Rightarrow> move_to_phase env x STARTING_GAME s
      | STARTING_GAME \<Rightarrow>
          and_then (perform (gd_start d w rt (effect_key x ''restart''))
              (Started (wd_id w) rt (effect_key x ''restart'')) s)
            (\<lambda>_. move_to_phase env x CHECKING_GAME_HEALTH)
      | CHECKING_GAME_HEALTH \<Rightarrow> check_recovery_health env d x w rt s
      | p \<Rightarrow> (Inl (RuntimeError (''unsupported recovery phase: '' @ phase_value p)), s))"

section \<open>The worker\<close>

definition advance ::
    "'p worker_env \<Rightarrow> string \<Rightarrow> string \<Rightarrow> 'p worker_state
     \<Rightarrow> world_operation result \<times> 'p worker_state" where
  "advance env account_id operation_id s =
     on_ok (get_operation s account_id operation_id) s (\<lambda>x.
       if is_terminal (wo_status x) then (Inr x, s)
       else
         (let s1 = wk_rival env 0 s
          in on_ok (world_get s1 account_id (wo_world_id x)) s1 (\<lambda>w.
             on_ok (wk_resolve env (wd_game_template_id w)) s1 (\<lambda>d.
               case wo_operation_type x of
                 SLEEP \<Rightarrow> advance_sleep env d x w s1
               | RECOVER \<Rightarrow> advance_recovery env d x w s1
               | WAKE \<Rightarrow> advance_wake env d x w s1))))"

text \<open>
  \<open>while True\<close>: \<open>None\<close> means that the loop does not return. Pass \<open>k\<close> happens in the environment
  \<open>envs k\<close>, with other clients before and after its \<open>advance\<close>.
\<close>

partial_function (option) run_to_completion ::
    "(nat \<Rightarrow> 'p worker_env) \<Rightarrow> nat \<Rightarrow> string \<Rightarrow> string \<Rightarrow> 'p worker_state
     \<Rightarrow> (world_operation result \<times> 'p worker_state) option" where
  "run_to_completion envs k account_id operation_id s =
     (case get_operation s account_id operation_id of
        Inl e \<Rightarrow> Some (Inl e, s)
      | Inr x \<Rightarrow>
          if is_terminal (wo_status x) then Some (Inr x, s)
          else
            (let p = advance (envs k) account_id operation_id (wk_rival (envs k) 2 s)
             in case fst p of
                  Inl e \<Rightarrow> Some (Inl e, snd p)
                | Inr _ \<Rightarrow> run_to_completion envs (Suc k) account_id operation_id
                    (wk_rival (envs k) 3 (snd p))))"

definition mark_wake_failed ::
    "'p worker_env \<Rightarrow> world_operation \<Rightarrow> world \<Rightarrow> 'p worker_state
     \<Rightarrow> world_operation result \<times> 'p worker_state" where
  "mark_wake_failed env x w s =
     and_then
       (if wo_runtime_id x \<noteq> None \<and> wo_runtime_reference x \<noteq> None
        then on_ok (runtime_for x) s (\<lambda>rt.
               and_then (perform (wk_release env rt (effect_key x ''failure-cleanup''))
                   (Released rt (effect_key x ''failure-cleanup'')) s)
                 (\<lambda>_. record_release env x False))
        else (case wk_usage env of
            None \<Rightarrow> (Inr (), s)
          | Some recorder \<Rightarrow> perform (ur_cancel recorder x) (SessionCancelled (wo_id x)) s))
       (\<lambda>_. save_step env
          (x\<lparr> wo_status := OP_NEEDS_ATTENTION, wo_version := wo_version x + 1 \<rparr>)
          (wo_version x) (Some (released_for_attention w, wd_version w)))"

definition mark_needs_attention ::
    "'p worker_env \<Rightarrow> string \<Rightarrow> string \<Rightarrow> 'p worker_state
     \<Rightarrow> world_operation result \<times> 'p worker_state" where
  "mark_needs_attention env account_id operation_id s =
     on_ok (get_operation s account_id operation_id) s (\<lambda>x.
       if is_terminal (wo_status x) then (Inr x, s)
       else
         (let s1 = wk_rival env 0 s
          in on_ok (world_get s1 account_id (wo_world_id x)) s1 (\<lambda>w.
               if wo_operation_type x = WAKE then mark_wake_failed env x w s1
               else needs_attention env x w s1)))"

section \<open>The session monitor\<close>

definition monitor_key :: "world \<Rightarrow> string \<Rightarrow> instant \<Rightarrow> string" where
  "monitor_key w reason observed =
     ''monitor:'' @ wd_id w @ '':'' @ reason @ '':'' @ show_int (observed div 60000000)"

text \<open>The end of \<open>monitor_session\<close>, once the players are counted and the balance is decided.\<close>

definition settle_session ::
    "'p worker_env \<Rightarrow> string \<Rightarrow> world \<Rightarrow> instant \<Rightarrow> int option \<Rightarrow> instant option \<Rightarrow> bool
     \<Rightarrow> 'p worker_state \<Rightarrow> world_operation option result \<times> 'p worker_state" where
  "settle_session env account_id w observed idle empty_since balance_requires_sleep s =
     (let idle_requires_sleep = (case (idle, empty_since) of
            (Some m, Some since) \<Rightarrow> minutes m \<le> observed - since
          | _ \<Rightarrow> False);
          s1 = wk_rival env 1 s
      in if \<not> balance_requires_sleep \<and> \<not> idle_requires_sleep
         then
           (if empty_since = wd_empty_since w then (Inr None, s)
            else on_ok (world_save (w\<lparr> wd_empty_since := empty_since,
                    wd_version := wd_version w + 1 \<rparr>) (wd_version w) s1) s1
                   (\<lambda>s2. (Inr None, s2)))
         else
           (let reason = (if balance_requires_sleep then ''balance'' else ''idle'');
                p = begin_operation
                  (w\<lparr> wd_status := GOING_TO_SLEEP, wd_empty_since := empty_since,
                     wd_version := wd_version w + 1 \<rparr>)
                  (sleep_operation (wk_uuid env) w account_id (wd_id w)
                     (monitor_key w reason observed) observed balance_requires_sleep)
                  (wd_version w) s1
            in and_then p (\<lambda>x s2. (Inr (Some x), s2))))"

definition monitor_session ::
    "'p worker_env \<Rightarrow> string \<Rightarrow> string \<Rightarrow> instant option \<Rightarrow> int option \<Rightarrow> 'p worker_state
     \<Rightarrow> world_operation option result \<times> 'p worker_state" where
  "monitor_session env account_id world_id observed_at idle_minutes s =
     (let observed = (case observed_at of Some t \<Rightarrow> t | None \<Rightarrow> wk_clock env 0)
      in on_ok (world_get s account_id world_id) s (\<lambda>w.
         let idle = (case idle_minutes of None \<Rightarrow> wd_auto_sleep_minutes w | Some m \<Rightarrow> Some m)
         in if (case idle of None \<Rightarrow> False | Some m \<Rightarrow> m \<le> 0)
            then (Inl (ValueError ''idle minutes must be positive''), s)
            else if wd_status w \<noteq> ONLINE then (Inr None, s)
            else
              (let rt = \<lparr> rt_id = (case wd_runtime_id w of Some i \<Rightarrow> i | None \<Rightarrow> []),
                     rt_provider_reference =
                       (case wd_runtime_reference w of Some r \<Rightarrow> r | None \<Rightarrow> []) \<rparr>
               in if rt_id rt = [] \<or> rt_provider_reference rt = []
                  then (Inl (RuntimeError ''Online World does not have an active Runtime''), s)
                  else on_ok (wk_resolve env (wd_game_template_id w)) s (\<lambda>d.
                    and_then (perform (gd_player_count d w rt) (PlayersCounted (wd_id w) rt) s)
                      (\<lambda>players s1.
                         let empty_since = (if players = 0
                               then (case wd_empty_since w of Some t \<Rightarrow> Some t | None \<Rightarrow> Some observed)
                               else None)
                         in and_then
                              (case wk_usage env of
                                 None \<Rightarrow> (Inr None, s1)
                               | Some recorder \<Rightarrow> perform (ur_protect recorder w observed)
                                   (SessionProtected (wd_id w) observed) s1)
                              (\<lambda>decision. settle_session env account_id w observed idle empty_since
                                 (decision = Some True)))))))"

end
