(* ===== verification/WorldData.thy ===== *)
theory WorldData
  imports WorldProviders
begin

text \<open>
  \<open>class WorldData\<close> (\<open>gamewake/worlds/data.py\<close>): Backups, restores, Exports and the deletion of a
  World, over the World repository and an archive store.
\<close>

record 'p data_env =
  da_access :: "string \<Rightarrow> string \<Rightarrow> permission \<Rightarrow> string option \<Rightarrow> bool result"
  da_archive :: "'p archive_store"
  da_clock :: "nat \<Rightarrow> instant"
  da_storage :: "storage_gate option"
  da_rival :: "nat \<Rightarrow> 'p worker_state \<Rightarrow> 'p worker_state"

definition permission_value :: "permission \<Rightarrow> string" where
  "permission_value p = (case p of
      CREATE_WORLD \<Rightarrow> ''world:create'' | VIEW_WORLD \<Rightarrow> ''world:view''
    | WAKE_WORLD \<Rightarrow> ''world:wake'' | SLEEP_EMPTY_WORLD \<Rightarrow> ''world:sleep_when_empty''
    | EDIT_WORLD \<Rightarrow> ''world:edit'' | RESTART_WORLD \<Rightarrow> ''world:restart''
    | UPDATE_WORLD \<Rightarrow> ''world:update'' | FORCE_SLEEP_WORLD \<Rightarrow> ''world:force_sleep''
    | VIEW_LOGS \<Rightarrow> ''world:logs:view'' | CREATE_BACKUP \<Rightarrow> ''backup:create''
    | RESTORE_BACKUP \<Rightarrow> ''backup:restore'' | MANAGE_MEMBERSHIPS \<Rightarrow> ''membership:manage''
    | MANAGE_ROLES \<Rightarrow> ''role:manage'' | MANAGE_INTEGRATIONS \<Rightarrow> ''integration:manage''
    | MANAGE_WALLET \<Rightarrow> ''wallet:manage'' | MANAGE_WORLD_BUDGET \<Rightarrow> ''world:budget:manage''
    | MIGRATE_WORLD \<Rightarrow> ''world:migrate'' | EXPORT_WORLD \<Rightarrow> ''world:export''
    | DELETE_WORLD \<Rightarrow> ''world:delete'' | TRANSFER_OWNERSHIP \<Rightarrow> ''account:ownership:transfer''
    | DELETE_ACCOUNT \<Rightarrow> ''account:delete'')"

definition require_data_permission ::
    "'p data_env \<Rightarrow> string \<Rightarrow> string \<Rightarrow> string \<Rightarrow> permission \<Rightarrow> unit result" where
  "require_data_permission env account_id world_id user_id p =
     (case da_access env account_id user_id p (Some world_id) of
        Inl e \<Rightarrow> Inl e
      | Inr ok \<Rightarrow> check ok (PermissionDeniedError (''the User lacks '' @ permission_value p)))"

definition require_sleeping :: "world \<Rightarrow> unit result" where
  "require_sleeping w = check (wd_status w = SLEEPING)
     (ValueError ''World data mutation requires a Sleeping World'')"

definition stored_state :: "world \<Rightarrow> stored_world_state result" where
  "stored_state w = (case (wd_stored_state_id w, wd_stored_state_checksum w) of
      (Some i, Some c) \<Rightarrow> Inr \<lparr> ss_id = i, ss_checksum = c, ss_validated = True \<rparr>
    | _ \<Rightarrow> Inl (ValueError ''World has no validated stored state''))"

definition verify_deletion_confirmation ::
    "'p data_env \<Rightarrow> world \<Rightarrow> string \<Rightarrow> sensitive_action_confirmation option \<Rightarrow> unit result" where
  "verify_deletion_confirmation env w actor confirmation =
     (let err = SensitiveActionConfirmationError
            ''World deletion requires recent reauthentication and exact name confirmation''
      in case confirmation of
           None \<Rightarrow> Inl err
         | Some c \<Rightarrow>
             (let age = da_clock env 0 - sc_reauthenticated_at c
              in check (\<not> (sc_actor_user_id c \<noteq> actor \<or> sc_confirmed_resource_name c \<noteq> wd_name w
                          \<or> age < 0 \<or> minutes 5 < age)) err))"

text \<open>\<open>repository.save(...)\<close> and \<open>return\<close> of what was saved.\<close>

definition save_world_step ::
    "'p data_env \<Rightarrow> nat \<Rightarrow> world \<Rightarrow> nat \<Rightarrow> 'p worker_state \<Rightarrow> world result \<times> 'p worker_state" where
  "save_world_step env k w expected s =
     (let s1 = da_rival env k s
      in on_ok (world_save w expected s1) s1 (\<lambda>s2. (Inr w, s2)))"

section \<open>Backups and Exports\<close>

definition list_backups ::
    "'p data_env \<Rightarrow> string \<Rightarrow> string \<Rightarrow> string \<Rightarrow> 'p worker_state
     \<Rightarrow> backup list result \<times> 'p worker_state" where
  "list_backups env account_id world_id viewer s =
     on_ok (require_data_permission env account_id world_id viewer VIEW_WORLD) s (\<lambda>_.
       perform (ar_list_backups (da_archive env) account_id world_id) (BackupsListed world_id) s)"

definition create_manual_backup ::
    "'p data_env \<Rightarrow> string \<Rightarrow> string \<Rightarrow> string \<Rightarrow> string \<Rightarrow> 'p worker_state
     \<Rightarrow> backup result \<times> 'p worker_state" where
  "create_manual_backup env account_id world_id actor key s =
     on_ok (require_data_permission env account_id world_id actor CREATE_BACKUP) s (\<lambda>_.
     on_ok (case da_storage env of
              None \<Rightarrow> Inr ()
            | Some gate \<Rightarrow> check (sg_can_create_manual_backup gate account_id)
                (StorageBlockedError ''Storage Grace Period blocks manual Backups'')) s (\<lambda>_.
     on_ok (world_get s account_id world_id) s (\<lambda>w.
     on_ok (require_sleeping w) s (\<lambda>_.
     on_ok (stored_state w) s (\<lambda>state.
       perform (ar_create_manual (da_archive env) w state key)
         (ManualBackup world_id state key) s)))))"

definition restore_backup ::
    "'p data_env \<Rightarrow> string \<Rightarrow> string \<Rightarrow> string \<Rightarrow> string \<Rightarrow> string \<Rightarrow> 'p worker_state
     \<Rightarrow> world result \<times> 'p worker_state" where
  "restore_backup env account_id world_id backup_id actor key s =
     on_ok (require_data_permission env account_id world_id actor RESTORE_BACKUP) s (\<lambda>_.
     on_ok (world_get s account_id world_id) s (\<lambda>w.
     on_ok (require_sleeping w) s (\<lambda>_.
       if key \<in> set (wd_applied_data_operations w) then (Inr w, s)
       else
         and_then (perform (ar_list_backups (da_archive env) account_id world_id)
             (BackupsListed world_id) s) (\<lambda>backups s1.
         on_ok (next_where (\<lambda>b. bk_id b = backup_id) backups) s1 (\<lambda>b.
         on_ok (stored_state w) s1 (\<lambda>state.
         and_then (perform
             (ar_create_restore_point (da_archive env) w state (key @ '':restore-point''))
             (RestorePoint world_id state (key @ '':restore-point'')) s1) (\<lambda>_ s2.
         and_then (perform (ar_restore (da_archive env) w b (key @ '':restore''))
             (BackupRestored world_id b (key @ '':restore'')) s2) (\<lambda>restored s3.
           if \<not> ss_validated restored
           then (Inl (ValueError ''restored World state did not validate''), s3)
           else save_world_step env 0
             (w\<lparr> wd_stored_state_id := Some (ss_id restored),
                wd_stored_state_checksum := Some (ss_checksum restored),
                wd_applied_data_operations := wd_applied_data_operations w @ [key],
                wd_version := wd_version w + 1 \<rparr>)
             (wd_version w) s3))))))))"

definition create_export ::
    "'p data_env \<Rightarrow> string \<Rightarrow> string \<Rightarrow> string \<Rightarrow> string \<Rightarrow> 'p worker_state
     \<Rightarrow> world_export result \<times> 'p worker_state" where
  "create_export env account_id world_id actor key s =
     on_ok (require_data_permission env account_id world_id actor EXPORT_WORLD) s (\<lambda>_.
     on_ok (world_get s account_id world_id) s (\<lambda>w.
       let s1 = da_rival env 0 s
       in on_ok (get_configuration_of s1 account_id world_id (wd_configuration_revision_id w)) s1
            (\<lambda>configuration.
          on_ok (stored_state w) s1 (\<lambda>state.
            perform (ar_create_export (da_archive env) w state configuration key)
              (ExportCreated world_id state key) s1))))"

section \<open>Deletion\<close>

definition schedule_deletion ::
    "'p data_env \<Rightarrow> string \<Rightarrow> string \<Rightarrow> string \<Rightarrow> sensitive_action_confirmation option \<Rightarrow> string
     \<Rightarrow> 'p worker_state \<Rightarrow> world result \<times> 'p worker_state" where
  "schedule_deletion env account_id world_id actor confirmation key s =
     on_ok (require_data_permission env account_id world_id actor DELETE_WORLD) s (\<lambda>_.
     on_ok (world_get s account_id world_id) s (\<lambda>w.
     on_ok (verify_deletion_confirmation env w actor confirmation) s (\<lambda>_.
       if wd_status w = PENDING_DELETION then (Inr w, s)
       else
         on_ok (require_sleeping w) s (\<lambda>_.
         on_ok (stored_state w) s (\<lambda>state.
         and_then (perform (ar_create_final (da_archive env) w state (key @ '':final-backup''))
             (FinalBackup world_id state (key @ '':final-backup'')) s) (\<lambda>b s1.
           save_world_step env 0
             (w\<lparr> wd_status := PENDING_DELETION,
                wd_deletion_scheduled_for := Some (da_clock env 1 + days 7),
                wd_final_backup_id := Some (bk_id b), wd_version := wd_version w + 1 \<rparr>)
             (wd_version w) s1))))))"

definition cancel_deletion ::
    "'p data_env \<Rightarrow> string \<Rightarrow> string \<Rightarrow> string \<Rightarrow> 'p worker_state
     \<Rightarrow> world result \<times> 'p worker_state" where
  "cancel_deletion env account_id world_id actor s =
     on_ok (require_data_permission env account_id world_id actor DELETE_WORLD) s (\<lambda>_.
     on_ok (world_get s account_id world_id) s (\<lambda>w.
       if wd_status w \<noteq> PENDING_DELETION
       then (Inl (ValueError ''World is not pending deletion''), s)
       else save_world_step env 0
         (w\<lparr> wd_status := SLEEPING, wd_deletion_scheduled_for := None,
            wd_final_backup_id := None, wd_version := wd_version w + 1 \<rparr>)
         (wd_version w) s))"

definition purge_due_deletion ::
    "'p data_env \<Rightarrow> string \<Rightarrow> string \<Rightarrow> instant \<Rightarrow> 'p worker_state
     \<Rightarrow> bool result \<times> 'p worker_state" where
  "purge_due_deletion env account_id world_id observed_at s =
     on_ok (world_get s account_id world_id) s (\<lambda>w.
       if wd_status w \<noteq> PENDING_DELETION
          \<or> (case wd_deletion_scheduled_for w of None \<Rightarrow> True | Some due \<Rightarrow> observed_at < due)
       then (Inr False, s)
       else
         (let key = ''world:'' @ world_id @ '':purge''
          in and_then (perform (ar_delete_world_data (da_archive env) account_id world_id key)
              (DataDeleted account_id world_id key) s) (\<lambda>_ s1.
            let s2 = da_rival env 0 s1
            in on_ok (world_delete account_id world_id s2) s2 (\<lambda>s3. (Inr True, s3)))))"

end
