(* ===== verification/WorkerInvariant.thy ===== *)
theory WorkerInvariant
  imports WorldInvariant WorldWorker WorldData
begin

text \<open>
  The worker, the session monitor and \<open>class WorldData\<close> preserve \<open>worlds_ok\<close> and lead to later
  states: every save moves an operation along its lifecycle, together with its World.
\<close>

section \<open>Providers do not touch the repository\<close>

lemma providers_lookups [simp]:
  "world_lookup (s\<lparr>ws_providers := p\<rparr>) = world_lookup s"
  "world_lookup (s\<lparr>ws_log := l\<rparr>) = world_lookup s"
  "operation_lookup (s\<lparr>ws_providers := p\<rparr>) = operation_lookup s"
  "operation_lookup (s\<lparr>ws_log := l\<rparr>) = operation_lookup s"
  "active_lookup (s\<lparr>ws_providers := p\<rparr>) = active_lookup s"
  "active_lookup (s\<lparr>ws_log := l\<rparr>) = active_lookup s"
  "revision_lookup (s\<lparr>ws_providers := p\<rparr>) = revision_lookup s"
  "revision_lookup (s\<lparr>ws_log := l\<rparr>) = revision_lookup s"
  by (simp_all add: fun_eq_iff world_lookup_def operation_lookup_def active_lookup_def
      revision_lookup_def)

lemma perform_lookups [simp]:
  "world_lookup (snd (perform c l s)) = world_lookup s"
  "operation_lookup (snd (perform c l s)) = operation_lookup s"
  "active_lookup (snd (perform c l s)) = active_lookup s"
  "revision_lookup (snd (perform c l s)) = revision_lookup s"
  "distinct_keys (snd (perform c l s)) = distinct_keys s"
  by (simp_all add: perform_def split_beta distinct_keys_def)

lemma worlds_ok_perform [simp]: "worlds_ok U (snd (perform c l s)) = worlds_ok U s"
  by (simp add: worlds_ok_def world_ok_def revision_of_def operations_indexed_def)

lemma worlds_later_perform [simp]: "worlds_later U s (snd (perform c l s))"
  by (auto simp: worlds_later_def saved_worlds.kept_def saved_worlds.held_def operations_evolve_def
      operations_begun_def split: option.splits)

lemma held_perform [simp]:
  "saved_worlds.held k w (snd (perform c l s)) = saved_worlds.held k w s"
  "saved_operations.held i x (snd (perform c l s)) = saved_operations.held i x s"
  by (simp_all add: saved_worlds.held_def saved_operations.held_def)

section \<open>What an operation of the worker has read\<close>

definition in_hand :: "string set \<Rightarrow> world_operation \<Rightarrow> world \<Rightarrow> 'p worker_state \<Rightarrow> bool" where
  "in_hand U x w s \<longleftrightarrow> worlds_ok U s \<and> saved_operations.held (wo_id x) x s \<and> wo_id x \<in> U
     \<and> saved_worlds.held (operation_key x) w s \<and> world_key w = operation_key x \<and> wd_id w \<in> U
     \<and> is_active (wo_status x)"

lemma in_hand_perform [simp]: "in_hand U x w (snd (perform c l s)) = in_hand U x w s"
  by (simp add: in_hand_def)

lemma in_hand_later:
  "in_hand U x w s \<Longrightarrow> worlds_ok U s' \<Longrightarrow> worlds_later U s s' \<Longrightarrow> in_hand U x w s'"
  unfolding in_hand_def worlds_later_def
proof (elim conjE, intro conjI)
  assume h: "saved_operations.held (wo_id x) x s" "wo_id x \<in> U" "operations_evolve U s s'"
  have "saved_operations.kept U s s'"
    using h(3) by (auto simp: operations_evolve_def saved_operations.kept_def
        saved_operations.held_def operation_evolves_def split: option.splits)
  then show "saved_operations.held (wo_id x) x s'" by (rule saved_operations.held_kept [OF h(1) _ h(2)])
next
  assume h: "saved_worlds.held (operation_key x) w s" "saved_worlds.kept {k. snd k \<in> U} s s'"
    "world_key w = operation_key x" "wd_id w \<in> U"
  then have "operation_key x \<in> {k. snd k \<in> U}"
    by (metis mem_Collect_eq snd_conv world_key_def)
  then show "saved_worlds.held (operation_key x) w s'"
    by (rule saved_worlds.held_kept [OF h(1,2)])
qed

lemma in_handD:
  "in_hand U x w s \<Longrightarrow> worlds_ok U s"
  "in_hand U x w s \<Longrightarrow> is_active (wo_status x)"
  by (simp_all add: in_hand_def)

lemmas in_hand_ok = in_handD(1)

lemma running:
  "operation_ok x \<Longrightarrow> is_active (wo_status x) \<Longrightarrow> wo_phase x \<noteq> REQUESTED \<Longrightarrow>
     wo_status x = OP_RUNNING"
  by (auto simp: operation_ok_def is_active_def)

definition worker_env_ok :: "string set \<Rightarrow> 'p worker_env \<Rightarrow> bool" where
  "worker_env_ok U env \<longleftrightarrow> worlds_rivals_ok U (wk_rival env) \<and> wk_uuid env \<notin> U"

lemma worker_env_okD: "worker_env_ok U env \<Longrightarrow> worlds_rivals_ok U (wk_rival env)"
  by (simp add: worker_env_ok_def)

lemma step_perform:
  assumes "worlds_ok U s" and "\<And>a. worlds_step U N (snd (perform c l s)) (snd (f a (snd (perform c l s))))"
  shows "worlds_step U N s (snd (and_then (perform c l s) f))"
proof (cases "fst (perform c l s)")
  case (Inl e)
  then have "snd (and_then (perform c l s) f) = snd (perform c l s)" by (simp add: and_then_def)
  moreover have "worlds_step U N s (snd (perform c l s))"
    by (rule step_later [OF worlds_later_perform step_same]) (simp add: assms(1))
  ultimately show ?thesis by simp
next
  case (Inr a)
  then have "and_then (perform c l s) f = f a (snd (perform c l s))" by (simp add: and_then_def)
  then show ?thesis using step_later [OF worlds_later_perform assms(2) [of a]] by simp
qed

lemma step_perform_hand:
  assumes "in_hand U x w s"
    and "\<And>a s'. in_hand U x w s' \<Longrightarrow> worlds_step U N s' (snd (f a s'))"
  shows "worlds_step U N s (snd (and_then (perform c l s) f))"
  by (rule step_perform [OF in_hand_ok [OF assms(1)]]) (simp add: assms)

text \<open>One save of the worker: of the operation with its World, and of the operation alone.\<close>

lemma save_step_both:
  assumes env: "worker_env_ok U env" and hand: "in_hand U x w s"
    and w': "world_key w' = world_key w" "wd_version w' = wd_version w + 1"
    and x': "same_request x x'" "wo_version x' = wo_version x + 1"
      "operation_ok x \<Longrightarrow> point x' = point x \<or> lifecycle (wo_operation_type x) (point x) (point x')"
      "wo_session_quote_id x \<noteq> None \<longrightarrow> same_session x x'"
    and new: "operation_ok x \<Longrightarrow> linked w x \<Longrightarrow> operation_ok x'
        \<and> (is_active (wo_status x') \<longrightarrow> linked w' x')
        \<and> (wd_status w' = ONLINE \<longrightarrow> bound w')
        \<and> (\<not> is_active (wo_status x') \<longrightarrow> wd_status w' \<noteq> GOING_TO_SLEEP
             \<and> (wd_status w' = WAKING \<longrightarrow> bound w'))"
    and conf: "wd_game_template_id w' = wd_game_template_id w"
      "wd_configuration_revision_id w' = wd_configuration_revision_id w
       \<or> wd_pending_configuration_revision_id w = Some (wd_configuration_revision_id w')"
      "wd_pending_configuration_revision_id w' = wd_pending_configuration_revision_id w
       \<or> wd_pending_configuration_revision_id w' = None"
  shows "worlds_step U N s (snd (save_step env x' (wo_version x) (Some (w', wd_version w)) s))"
  unfolding save_step_def Let_def
proof (rule step_rival [OF in_hand_ok [OF hand] worker_env_okD [OF env], of 1],
    rule step_on_ok, assumption, unfold snd_conv)
  let ?s = "wk_rival env 1 s"
  fix s' assume ok: "worlds_ok U ?s" and later: "worlds_later U s ?s"
    and save: "save_operation x' (wo_version x) (Some (w', wd_version w)) ?s = Inr s'"
  have hand: "in_hand U x w ?s" by (rule in_hand_later [OF hand ok later])
  show "worlds_step U N ?s s'"
    by (rule save_operation_ok [OF ok _ _ _ refl refl _ save _ w'(2) x' new conf])
      (use hand w'(1) in \<open>simp_all add: in_hand_def\<close>)
qed

lemma save_step_operation:
  assumes env: "worker_env_ok U env" and hand: "in_hand U x w s"
    and x': "same_request x x'" "wo_version x' = wo_version x + 1"
      "operation_ok x \<Longrightarrow> lifecycle (wo_operation_type x) (point x) (point x')" "same_session x x'"
      "is_active (wo_status x')"
    and new: "\<And>w. operation_ok x \<Longrightarrow> linked w x \<Longrightarrow> operation_ok x' \<and> linked w x'"
  shows "worlds_step U N s (snd (save_step env x' (wo_version x) None s))"
  unfolding save_step_def Let_def
proof (rule step_rival [OF in_hand_ok [OF hand] worker_env_okD [OF env], of 1],
    rule step_on_ok, assumption, unfold snd_conv)
  let ?s = "wk_rival env 1 s"
  fix s' assume ok: "worlds_ok U ?s" and later: "worlds_later U s ?s"
    and save: "save_operation x' (wo_version x) None ?s = Inr s'"
  have hand: "in_hand U x w ?s" by (rule in_hand_later [OF hand ok later])
  show "worlds_step U N ?s s'"
    by (rule save_operation_alone_ok [OF ok _ _ refl save x' new])
      (use hand in \<open>simp_all add: in_hand_def\<close>)
qed

lemmas saved_simps = same_request_def same_session_def point_def operation_ok_def phase_of_type_def
  has_stored_state_def linked_def bound_def world_key_def released_for_attention_def

lemma move_to_phase_ok:
  assumes env: "worker_env_ok U env" and hand: "in_hand U x w s"
    and succ: "next_phase (wo_operation_type x) (wo_phase x) q"
    and q: "q \<noteq> CREATING_BACKUP" "q = RELEASING_RUNTIME \<Longrightarrow> wo_operation_type x = WAKE"
    and rt: "wo_operation_type x = WAKE \<Longrightarrow> wo_phase x \<noteq> PROVISIONING_RUNTIME"
  shows "worlds_step U N s (snd (move_to_phase env x q s))"
  unfolding move_to_phase_def
proof (rule save_step_operation [OF env hand])
  let ?x = "x\<lparr>wo_status := OP_RUNNING, wo_phase := q, wo_version := wo_version x + 1\<rparr>"
  show "lifecycle (wo_operation_type x) (point x) (point ?x)"
    using hand succ by (auto simp: point_def in_hand_def intro: moves)
  fix v assume x: "operation_ok x" "linked v x"
  from succ show "operation_ok ?x \<and> linked v ?x"
    by cases (use x q rt in \<open>simp_all add: saved_simps\<close>)
qed (simp_all add: same_request_def same_session_def)


section \<open>The phases\<close>

lemmas along = lifecycle.intros next_phase.intros final_step.intros

lemma provision_runtime_ok:
  assumes env: "worker_env_ok U env" and hand: "in_hand U x w s"
    and x: "wo_operation_type x = WAKE" "wo_phase x = PROVISIONING_RUNTIME"
  shows "worlds_step U N s (snd (provision_runtime env x w s))"
proof -
  have "operation_ok x \<Longrightarrow> wo_status x = OP_RUNNING"
    by (rule running) (use in_handD(2) [OF hand] x in simp_all)
  then show ?thesis
    unfolding provision_runtime_def Let_def
    by (intro step_perform save_step_both [OF env, where x = x and w = w])
      (use hand x in \<open>auto simp: in_handD along point_def
        same_request_def same_session_def world_key_def operation_ok_def phase_of_type_def
        linked_def bound_def simp del: One_nat_def\<close>)
qed

lemma apply_configuration_step_ok:
  fixes env :: "'p worker_env"
  assumes env: "worker_env_ok U env" and hand: "in_hand U x w s"
    and x: "wo_operation_type x = WAKE" "wo_phase x = APPLYING_CONFIGURATION"
  shows "worlds_step U N s (snd (apply_configuration_step env d x w rt s))"
  unfolding apply_configuration_step_def
proof (rule step_perform_hand [OF hand])
  fix a and s' :: "'p worker_state" assume hand: "in_hand U x w s'"
  show "worlds_step U N s' (snd (case wd_pending_configuration_revision_id w of
      None \<Rightarrow> move_to_phase env x STARTING_GAME s'
    | Some pending \<Rightarrow> save_step env
        (x\<lparr> wo_status := OP_RUNNING, wo_phase := STARTING_GAME, wo_version := wo_version x + 1 \<rparr>)
        (wo_version x)
        (Some (w\<lparr> wd_configuration_revision_id := pending,
           wd_pending_configuration_revision_id := None, wd_version := wd_version w + 1 \<rparr>,
           wd_version w)) s'))"
  proof (cases "wd_pending_configuration_revision_id w")
    case None
    then show ?thesis
      using move_to_phase_ok [OF env hand, of STARTING_GAME N] x by (simp add: along)
  next
    case (Some pending)
    show ?thesis
      unfolding Some option.case
      by (intro save_step_both [OF env hand])
        (use in_handD [OF hand] x Some in \<open>auto simp: saved_simps along simp del: One_nat_def\<close>)
  qed
qed

lemma check_wake_health_ok:
  fixes env :: "'p worker_env"
  assumes env: "worker_env_ok U env" and hand: "in_hand U x w s"
    and x: "wo_operation_type x = WAKE" "wo_phase x = CHECKING_GAME_HEALTH"
  shows "worlds_step U N s (snd (check_wake_health env d x w rt s))"
  unfolding check_wake_health_def
proof (intro step_perform_hand [OF hand] step_if)
  fix s' :: "'p worker_state" assume hand: "in_hand U x w s'"
  show "worlds_step U N s' (snd (move_to_phase env x STOPPING_GAME s'))"
    by (rule move_to_phase_ok [OF env hand]) (simp_all add: x along)
  show "worlds_step U N s' (snd (save_step env
      (x\<lparr> wo_status := OP_SUCCEEDED, wo_phase := COMPLETE, wo_version := wo_version x + 1 \<rparr>)
      (wo_version x)
      (Some (w\<lparr> wd_status := ONLINE, wd_empty_since := None, wd_version := wd_version w + 1 \<rparr>,
        wd_version w)) s'))"
    by (intro save_step_both [OF env hand])
      (use in_handD [OF hand] x in \<open>auto simp: saved_simps along simp del: One_nat_def\<close>)
qed

lemma record_release_hand:
  "in_hand U x w s \<Longrightarrow> in_hand U x w (snd (record_release env y b s))"
  by (simp add: record_release_def split: option.split)

lemma step_record_release:
  assumes "in_hand U x w s" and "\<And>a s'. in_hand U x w s' \<Longrightarrow> worlds_step U N s' (snd (f a s'))"
  shows "worlds_step U N s (snd (and_then (record_release env y b s) f))"
  using assms step_perform_hand [OF assms(1), where f = f]
  by (cases "wk_usage env") (simp_all add: record_release_def)

lemma released_ok:
  assumes env: "worker_env_ok U env" and hand: "in_hand U x w s" and x: "wo_operation_type x = WAKE"
    and p: "p = wo_phase x \<or> wo_phase x = RELEASING_RUNTIME \<and> p = COMPLETE"
  shows "worlds_step U N s (snd (save_step env
    (x\<lparr> wo_status := OP_NEEDS_ATTENTION, wo_phase := p, wo_version := wo_version x + 1 \<rparr>)
    (wo_version x) (Some (released_for_attention w, wd_version w)) s))"
proof (rule save_step_both [OF env hand], goal_cases)
  case 5
  then show ?case using p x in_handD(2) [OF hand] by (auto simp: point_def along)
qed (use p x in \<open>auto simp: saved_simps simp del: One_nat_def\<close>)

lemma needs_attention_ok:
  assumes env: "worker_env_ok U env" and hand: "in_hand U x w s"
  shows "worlds_step U N s (snd (needs_attention env x w s))"
  unfolding needs_attention_def
proof (rule save_step_both [OF env hand], goal_cases)
  case 5
  then show ?case using in_handD(2) [OF hand] by (auto simp: point_def along)
next
  case 7
  then show ?case using in_handD(2) [OF hand] by (simp add: operation_ok_def has_stored_state_def)
qed (simp_all add: same_request_def same_session_def world_key_def)

lemma advance_wake_ok:
  fixes env :: "'p worker_env"
  assumes env: "worker_env_ok U env" and hand: "in_hand U x w s" and x: "wo_operation_type x = WAKE"
  shows "worlds_step U N s (snd (advance_wake env d x w s))"
proof -
  have moved: "worlds_step U N s' (snd (move_to_phase env x q s'))"
    if "in_hand U x w s'" "next_phase WAKE (wo_phase x) q" "wo_phase x \<noteq> PROVISIONING_RUNTIME"
      "q \<noteq> CREATING_BACKUP" for s' q
    by (rule move_to_phase_ok [OF env that(1)]) (use that x in simp_all)
  have released: "worlds_step U N s' (snd (release_failed_wake env x w rt s'))"
    if "in_hand U x w s'" "wo_phase x = RELEASING_RUNTIME" for s' rt
    unfolding release_failed_wake_def
    by (intro step_perform_hand [OF that(1)] step_record_release released_ok [OF env])
      (use that x in auto)
  show ?thesis
    unfolding advance_wake_def
    by (intro step_if step_on_ok)
      (use hand x in \<open>auto intro!: step_perform_hand [OF hand] moved released
        provision_runtime_ok [OF env] apply_configuration_step_ok [OF env]
        check_wake_health_ok [OF env] intro: along step_same
        simp: in_hand_ok split: operation_phase.split\<close>)
qed

lemma check_players_ok:
  fixes env :: "'p worker_env"
  assumes env: "worker_env_ok U env" and hand: "in_hand U x w s"
    and x: "wo_operation_type x = SLEEP" "wo_phase x = CHECKING_PLAYERS"
  shows "worlds_step U N s (snd (check_players env d x w rt s))"
  unfolding check_players_def
proof (intro step_perform_hand [OF hand] step_if)
  fix s' :: "'p worker_state" assume hand: "in_hand U x w s'"
  show "worlds_step U N s' (snd (move_to_phase env x SAVING_GAME s'))"
    by (rule move_to_phase_ok [OF env hand]) (simp_all add: x along)
  show "worlds_step U N s' (snd (save_step env
      (x\<lparr> wo_status := OP_CANCELLED, wo_phase := COMPLETE, wo_version := wo_version x + 1 \<rparr>)
      (wo_version x)
      (Some (w\<lparr> wd_status := ONLINE, wd_empty_since := None, wd_version := wd_version w + 1 \<rparr>,
        wd_version w)) s'))"
    by (intro save_step_both [OF env hand])
      (use in_handD [OF hand] x in \<open>auto simp: saved_simps along simp del: One_nat_def\<close>)
qed

lemma persist_world_ok:
  fixes env :: "'p worker_env"
  assumes env: "worker_env_ok U env" and hand: "in_hand U x w s"
    and x: "wo_operation_type x = SLEEP" "wo_phase x = PERSISTING_WORLD"
  shows "worlds_step U N s (snd (persist_world env x w rt s))"
  unfolding persist_world_def
proof (intro step_perform_hand [OF hand] step_if needs_attention_ok [OF env])
  fix state and s' :: "'p worker_state" assume hand: "in_hand U x w s'"
  have "operation_ok x \<Longrightarrow> wo_status x = OP_RUNNING"
    by (rule running) (use in_handD(2) [OF hand] x in simp_all)
  then show "worlds_step U N s' (snd (save_step env
      (x\<lparr> wo_phase := CREATING_BACKUP, wo_stored_state_id := Some (ss_id state),
         wo_stored_state_checksum := Some (ss_checksum state), wo_version := wo_version x + 1 \<rparr>)
      (wo_version x) None s'))"
    by (intro save_step_operation [OF env hand])
      (use in_handD(2) [OF hand] x in \<open>auto simp: saved_simps along simp del: One_nat_def\<close>)
qed

lemma create_sleep_backup_ok:
  fixes env :: "'p worker_env"
  assumes env: "worker_env_ok U env" and hand: "in_hand U x w s"
    and x: "wo_operation_type x = SLEEP" "wo_phase x = CREATING_BACKUP"
  shows "worlds_step U N s (snd (create_sleep_backup env x w s))"
proof (cases "wk_backup env")
  case None
  then show ?thesis by (simp add: create_sleep_backup_def step_same in_handD(1) [OF hand])
next
  case (Some create_automatic)
  show ?thesis
    unfolding create_sleep_backup_def Some option.case
  proof (intro step_on_ok step_perform_hand [OF hand] in_handD(1) [OF hand])
    fix b and s' :: "'p worker_state" assume hand: "in_hand U x w s'"
    have "operation_ok x \<Longrightarrow> wo_status x = OP_RUNNING"
      by (rule running) (use in_handD(2) [OF hand] x in simp_all)
    then show "worlds_step U N s' (snd (save_step env
        (x\<lparr> wo_phase := RELEASING_RUNTIME, wo_backup_id := Some (bk_id b),
           wo_version := wo_version x + 1 \<rparr>) (wo_version x) None s'))"
      by (intro save_step_operation [OF env hand])
        (use in_handD(2) [OF hand] x in \<open>auto simp: saved_simps along simp del: One_nat_def\<close>)
  qed
qed

lemma release_sleeping_ok:
  fixes env :: "'p worker_env"
  assumes env: "worker_env_ok U env" and hand: "in_hand U x w s"
    and x: "wo_operation_type x = SLEEP" "wo_phase x = RELEASING_RUNTIME"
  shows "worlds_step U N s (snd (release_sleeping env x w rt s))"
  unfolding release_sleeping_def
proof (intro step_perform_hand [OF hand] step_record_release, assumption)
  fix s' :: "'p worker_state" assume hand: "in_hand U x w s'"
  show "worlds_step U N s' (snd (save_step env
      (x\<lparr> wo_status := OP_SUCCEEDED, wo_phase := COMPLETE, wo_version := wo_version x + 1 \<rparr>)
      (wo_version x)
      (Some (w\<lparr> wd_status := SLEEPING, wd_runtime_id := None, wd_runtime_reference := None,
         wd_stored_state_id := wo_stored_state_id x,
         wd_stored_state_checksum := wo_stored_state_checksum x, wd_session_quote_id := None,
         wd_usage_reservation_id := None, wd_runtime_started_at := None,
         wd_empty_since := None, wd_version := wd_version w + 1 \<rparr>, wd_version w)) s'))"
    by (intro save_step_both [OF env hand])
      (use in_handD(2) [OF hand] x in \<open>auto simp: saved_simps along simp del: One_nat_def\<close>)
qed

lemma advance_sleep_ok:
  fixes env :: "'p worker_env"
  assumes env: "worker_env_ok U env" and hand: "in_hand U x w s" and x: "wo_operation_type x = SLEEP"
  shows "worlds_step U N s (snd (advance_sleep env d x w s))"
proof -
  have moved: "worlds_step U N s' (snd (move_to_phase env x q s'))"
    if "in_hand U x w s'" "next_phase SLEEP (wo_phase x) q"
      "q \<noteq> CREATING_BACKUP" "q \<noteq> RELEASING_RUNTIME" for s' q
    by (rule move_to_phase_ok [OF env that(1)]) (use that x in simp_all)
  show ?thesis
    unfolding advance_sleep_def
    by (intro step_on_ok)
      (use hand x in \<open>auto intro!: step_perform_hand [OF hand] moved check_players_ok [OF env]
        persist_world_ok [OF env] create_sleep_backup_ok [OF env] release_sleeping_ok [OF env]
        intro: along step_same simp: in_hand_ok split: operation_phase.split\<close>)
qed

lemma check_recovery_health_ok:
  fixes env :: "'p worker_env"
  assumes env: "worker_env_ok U env" and hand: "in_hand U x w s"
    and x: "wo_operation_type x = RECOVER" "wo_phase x = CHECKING_GAME_HEALTH"
  shows "worlds_step U N s (snd (check_recovery_health env d x w rt s))"
  unfolding check_recovery_health_def Let_def
proof (rule step_perform_hand [OF hand])
  fix healthy and s' :: "'p worker_state" assume hand: "in_hand U x w s'"
  show "worlds_step U N s' (snd (save_step env
      (x\<lparr> wo_status := (if healthy then OP_SUCCEEDED
              else if 3 \<le> wo_attempt_number x then OP_NEEDS_ATTENTION else OP_FAILED),
            wo_phase := COMPLETE, wo_version := wo_version x + 1 \<rparr>)
         (wo_version x)
         (Some (w\<lparr> wd_status := (if healthy then ONLINE
              else if 3 \<le> wo_attempt_number x then NEEDS_ATTENTION else WAKING),
            wd_version := wd_version w + 1 \<rparr>, wd_version w)) s'))"
    by (intro save_step_both [OF env hand])
      (use in_handD(2) [OF hand] x in \<open>auto simp: saved_simps along simp del: One_nat_def\<close>)
qed

lemma advance_recovery_ok:
  fixes env :: "'p worker_env"
  assumes env: "worker_env_ok U env" and hand: "in_hand U x w s" and x: "wo_operation_type x = RECOVER"
  shows "worlds_step U N s (snd (advance_recovery env d x w s))"
proof -
  have moved: "worlds_step U N s' (snd (move_to_phase env x q s'))"
    if "in_hand U x w s'" "next_phase RECOVER (wo_phase x) q"
      "q \<noteq> CREATING_BACKUP" "q \<noteq> RELEASING_RUNTIME" for s' q
    by (rule move_to_phase_ok [OF env that(1)]) (use that x in simp_all)
  show ?thesis
    unfolding advance_recovery_def
    by (intro step_on_ok)
      (use hand x in \<open>auto intro!: step_perform_hand [OF hand] moved check_recovery_health_ok [OF env]
        intro: along step_same simp: in_hand_ok split: operation_phase.split\<close>)
qed

section \<open>The worker and the monitor\<close>

lemma in_hand_read:
  assumes s: "worlds_ok U s" and env: "worker_env_ok U env"
    and x: "get_operation s acc i = Inr x" "\<not> is_terminal (wo_status x)"
    and w: "world_get (wk_rival env 0 s) acc (wo_world_id x) = Inr w"
  shows "in_hand U x w (wk_rival env 0 s)" and "worlds_later U s (wk_rival env 0 s)"
proof -
  note r = worlds_rivalD [OF worker_env_okD [OF env] s, of 0]
  show "worlds_later U s (wk_rival env 0 s)" by (rule r(2))
  have x': "operation_lookup s i = Some x" "wo_account_id x = acc" using x by simp_all
  have w': "world_lookup (wk_rival env 0 s) (acc, wo_world_id x) = Some w" using w by simp
  have "wo_id x = i" by (rule worlds_okD(4) [OF s x'(1)])
  then show "in_hand U x w (wk_rival env 0 s)"
    using r(1) held_operation [OF s x'(1) r(2)] worlds_okD(5) [OF s x'(1)] x(2) x'(2)
      saved_worlds.held_read [of "wk_rival env 0 s", OF w'] read_world [OF r(1) w']
    by (simp add: in_hand_def operation_key_def terminal_iff)
qed

lemma advance_ok [world_call_ok]:
  assumes s: "worlds_ok U s" and env: "worker_env_ok U env"
  shows "worlds_step U N s (snd (advance env acc i s))"
  unfolding advance_def Let_def
  apply (intro step_on_ok step_if step_leaf s)
  subgoal premises p for x
    apply (rule step_rival [OF s worker_env_okD [OF env], of 0])
    apply (intro step_on_ok, assumption+)
    subgoal premises q for w d
      using in_hand_read [OF s env p q(3)]
      by (cases "wo_operation_type x")
        (simp_all add: advance_wake_ok [OF env] advance_sleep_ok [OF env] advance_recovery_ok [OF env])
    done
  done

text \<open>The two ways a failed wake is cleaned up.\<close>

lemma mark_wake_failed_unbound:
  "runtime_for x = Inl e \<Longrightarrow> mark_wake_failed env x w s = and_then
     (case wk_usage env of
        None \<Rightarrow> (Inr (), s)
      | Some recorder \<Rightarrow> perform (ur_cancel recorder x) (SessionCancelled (wo_id x)) s)
     (\<lambda>_. save_step env (x\<lparr> wo_status := OP_NEEDS_ATTENTION, wo_version := wo_version x + 1 \<rparr>)
        (wo_version x) (Some (released_for_attention w, wd_version w)))"
  by (auto simp: mark_wake_failed_def runtime_for_def split: option.splits)

lemma mark_wake_failed_bound:
  "runtime_for x = Inr rt \<Longrightarrow> mark_wake_failed env x w s = and_then
     (perform (wk_release env rt (effect_key x ''failure-cleanup''))
        (Released rt (effect_key x ''failure-cleanup'')) s) (\<lambda>_ s1.
     and_then (record_release env x False s1)
     (\<lambda>_. save_step env (x\<lparr> wo_status := OP_NEEDS_ATTENTION, wo_version := wo_version x + 1 \<rparr>)
        (wo_version x) (Some (released_for_attention w, wd_version w))))"
  by (auto simp: mark_wake_failed_def runtime_for_def and_then_def on_ok_def
      split: option.splits sum.split)

lemma mark_wake_failed_ok:
  fixes env :: "'p worker_env"
  assumes env: "worker_env_ok U env" and hand: "in_hand U x w s" and x: "wo_operation_type x = WAKE"
  shows "worlds_step U N s (snd (mark_wake_failed env x w s))"
proof -
  have last: "worlds_step U N s' (snd (save_step env
      (x\<lparr> wo_status := OP_NEEDS_ATTENTION, wo_version := wo_version x + 1 \<rparr>)
      (wo_version x) (Some (released_for_attention w, wd_version w)) s'))"
    if "in_hand U x w s'" for s'
    using released_ok [OF env that x, of "wo_phase x" N] by simp
  show ?thesis
  proof (cases "runtime_for x")
    case (Inl e)
    show ?thesis
      unfolding mark_wake_failed_unbound [OF Inl]
      by (cases "wk_usage env")
        (auto intro!: last hand step_perform_hand [OF hand] simp del: One_nat_def)
  next
    case (Inr rt)
    show ?thesis
      unfolding mark_wake_failed_bound [OF Inr]
      by (intro step_perform_hand [OF hand] step_record_release last)
  qed
qed

lemma mark_needs_attention_ok [world_call_ok]:
  assumes s: "worlds_ok U s" and env: "worker_env_ok U env"
  shows "worlds_step U N s (snd (mark_needs_attention env acc i s))"
  unfolding mark_needs_attention_def Let_def
  apply (intro step_on_ok step_if step_leaf s)
  subgoal premises p for x
    apply (rule step_rival [OF s worker_env_okD [OF env], of 0])
    apply (intro step_on_ok, assumption+)
    subgoal premises q for w
      using in_hand_read [OF s env p q(3)]
      by (simp add: mark_wake_failed_ok [OF env] needs_attention_ok [OF env])
    done
  done

definition reads_world :: "string set \<Rightarrow> string \<times> string \<Rightarrow> world \<Rightarrow> 'p worker_state \<Rightarrow> bool" where
  "reads_world U k w s \<longleftrightarrow> worlds_ok U s \<and> saved_worlds.held k w s \<and> world_key w = k \<and> wd_id w \<in> U"

lemma reads_world_perform [simp]: "reads_world U k w (snd (perform c l s)) = reads_world U k w s"
  by (simp add: reads_world_def)

lemma reads_world_get:
  "worlds_ok U s \<Longrightarrow> world_get s a i = Inr w \<Longrightarrow> reads_world U (a, i) w s"
  using worlds_okD(1,2) [of U s "(a, i)" w]
  by (simp add: reads_world_def saved_worlds.held_read)

lemma reads_world_later:
  assumes "reads_world U k w s" "worlds_ok U s'" "worlds_later U s s'"
  shows "reads_world U k w s'"
proof -
  have k: "k \<in> {k. snd k \<in> U}" using assms(1) by (auto simp: reads_world_def world_key_def)
  have "saved_worlds.held k w s'"
    using assms saved_worlds.held_kept [of k w s "{k. snd k \<in> U}" s'] k
    by (simp add: reads_world_def worlds_later_def)
  then show ?thesis using assms by (simp add: reads_world_def)
qed

lemma step_perform_reads:
  assumes "reads_world U k w s"
    and "\<And>a s'. reads_world U k w s' \<Longrightarrow> worlds_step U N s' (snd (f a s'))"
  shows "worlds_step U N s (snd (and_then (perform c l s) f))"
proof (rule step_perform)
  show "worlds_ok U s" using assms(1) by (simp add: reads_world_def)
qed (simp add: assms)

lemma settle_session_ok:
  assumes env: "worker_env_ok U env" and hand: "reads_world U (acc, i) w s" and w: "wd_status w = ONLINE"
  shows "worlds_step U {wk_uuid env} s (snd (settle_session env acc w t idle e b s))"
proof -
  let ?s = "wk_rival env 1 s" and ?w = "w\<lparr> wd_empty_since := e, wd_version := wd_version w + 1 \<rparr>"
  have ok: "worlds_ok U s" and id: "wd_id w = i" and key: "world_key w = (acc, i)"
    using hand by (auto simp: reads_world_def world_key_def)
  note r = worlds_rivalD [OF worker_env_okD [OF env] ok, of 1]
  have hand: "reads_world U (acc, i) w ?s" by (rule reads_world_later [OF hand r])
  have new: "wk_uuid env \<notin> U" using env by (simp add: worker_env_ok_def)
  have "worlds_step U {wk_uuid env} ?s s'" if "world_save ?w (wd_version w) ?s = Inr s'" for s'
    by (rule save_world_step_ok [OF r(1) _ _ that])
      (use hand in \<open>auto simp: reads_world_def world_key_def world_ok_def linked_def bound_def\<close>)
  then have saved: "worlds_step U {wk_uuid env} ?s (snd (on_ok (world_save ?w (wd_version w) ?s) ?s
      (\<lambda>s2. (Inr None, s2))))"
    by (intro step_on_ok r(1)) simp
  have begun: "worlds_step U {wk_uuid env} ?s (snd (begin_operation
      (w\<lparr> wd_status := GOING_TO_SLEEP, wd_empty_since := e, wd_version := wd_version w + 1 \<rparr>)
      (sleep_operation (wk_uuid env) w acc i key t b) (wd_version w) ?s))" for key
    by (rule sleep_operation_begins_ok [OF r(1)]) (use hand w new in \<open>simp_all add: reads_world_def\<close>)
  have tail: "worlds_step U {wk_uuid env} ?s (snd (and_then p (\<lambda>x s2. (Inr (Some x), s2))))"
    if "worlds_step U {wk_uuid env} ?s (snd p)" for p :: "world_operation result \<times> 'a worker_state"
    using that by (cases p; cases "fst p") auto
  then show ?thesis
    unfolding settle_session_def Let_def id
    by (intro step_if step_leaf ok step_later [OF r(2)] saved tail begun)
qed

lemma monitor_session_ok [world_call_ok]:
  assumes s: "worlds_ok U s" and env: "worker_env_ok U env"
  shows "worlds_step U {wk_uuid env} s (snd (monitor_session env acc i t m s))"
  unfolding monitor_session_def Let_def
  apply (intro step_on_ok step_if step_leaf s)
  subgoal premises p for w d
    apply (rule step_perform_reads [OF reads_world_get [OF s p(1)]])
    subgoal premises q for n s1
      by (cases "wk_usage env")
        (use p q in \<open>auto intro!: step_perform_reads [OF q] settle_session_ok [OF env]\<close>)
    done
  done

section \<open>World data\<close>

definition data_env_ok :: "string set \<Rightarrow> 'p data_env \<Rightarrow> bool" where
  "data_env_ok U env \<longleftrightarrow> worlds_rivals_ok U (da_rival env)"

lemma save_world_data_ok:
  fixes env :: "'p data_env"
  assumes env: "data_env_ok U env" and hand: "reads_world U k w s"
    and w': "world_key w' = world_key w" "wd_version w' = wd_version w + 1"
      "\<And>s :: 'p worker_state. world_ok s w \<Longrightarrow> world_ok s w'" "\<And>x. linked w x \<Longrightarrow> linked w' x"
  shows "worlds_step U N s (snd (save_world_step env n w' (wd_version w) s))"
proof -
  have ok: "worlds_ok U s" using hand by (simp add: reads_world_def)
  note r = worlds_rivalD [OF env [unfolded data_env_ok_def] ok, of n]
  have hand: "reads_world U k w (da_rival env n s)" by (rule reads_world_later [OF hand r])
  have "worlds_step U N (da_rival env n s) s'"
    if "world_save w' (wd_version w) (da_rival env n s) = Inr s'" for s'
    by (rule save_world_step_ok [OF r(1) _ _ that w'(2-4)])
      (use hand w'(1) in \<open>simp_all add: reads_world_def\<close>)
  then show ?thesis
    unfolding save_world_step_def Let_def by (intro step_later [OF r(2)] step_on_ok r(1)) simp
qed

lemma restore_backup_ok [world_call_ok]:
  assumes s: "worlds_ok U s" and env: "data_env_ok U env"
  shows "worlds_step U N s (snd (restore_backup env acc i b actor key s))"
  unfolding restore_backup_def
  apply (intro step_on_ok step_if step_leaf s)
  subgoal premises p for u w v
    by (intro step_perform_reads [OF reads_world_get [OF s p(2)]] step_on_ok step_if step_leaf
        step_perform_reads save_world_data_ok [OF env])
      (use p in \<open>auto simp: reads_world_def world_key_def world_ok_def linked_def bound_def
         require_sleeping_def intro: worlds_ok_mono\<close>)
  done

lemma schedule_deletion_ok [world_call_ok]:
  assumes s: "worlds_ok U s" and env: "data_env_ok U env"
  shows "worlds_step U N s (snd (schedule_deletion env acc i actor c key s))"
  unfolding schedule_deletion_def
  apply (intro step_on_ok step_if step_leaf s)
  subgoal premises p for u w v v' state
    by (intro step_perform_reads [OF reads_world_get [OF s p(2)]] save_world_data_ok [OF env])
      (use p in \<open>auto simp: world_key_def require_sleeping_def world_ok_def linked_def
        bound_def split: if_splits\<close>)
  done

lemma cancel_deletion_ok [world_call_ok]:
  assumes s: "worlds_ok U s" and env: "data_env_ok U env"
  shows "worlds_step U N s (snd (cancel_deletion env acc i actor s))"
  unfolding cancel_deletion_def
  apply (intro step_on_ok step_if step_leaf s)
  subgoal premises p for u w
    by (rule save_world_data_ok [OF env reads_world_get [OF s p(2)]])
      (use p in \<open>auto simp: world_key_def world_ok_def linked_def bound_def split: if_splits\<close>)
  done

lemma purge_due_deletion_ok [world_call_ok]:
  assumes s: "worlds_ok U s" and env: "data_env_ok U env"
  shows "worlds_step U N s (snd (purge_due_deletion env acc i t s))"
  unfolding purge_due_deletion_def Let_def
  apply (intro step_on_ok step_if step_leaf s)
  subgoal premises p for w
    apply (rule step_perform_reads [OF reads_world_get [OF s p(1)]])
    subgoal premises q for a s1
    proof -
      have ok: "worlds_ok U s1" using q by (simp add: reads_world_def)
      note r = worlds_rivalD [OF env [unfolded data_env_ok_def] ok, of 0]
      show ?thesis
        by (intro step_later [OF r(2)] step_on_ok r(1)) (simp add: world_delete_ok [OF r(1)])
    qed
    done
  done

lemma data_reads_ok [world_call_ok]:
  assumes s: "worlds_ok U s" and env: "data_env_ok U env"
  shows "worlds_step U N s (snd (list_backups env acc i actor s))"
    and "worlds_step U N s (snd (create_manual_backup env acc i actor key s))"
    and "worlds_step U N s (snd (create_export env acc i actor key s))"
proof -
  have last: "worlds_step U N s1 (snd (perform c l s1))" if "worlds_ok U s1" for c l s1
    by (rule step_later [OF worlds_later_perform step_same]) (simp add: that)
  note r = worlds_rivalD [OF env [unfolded data_env_ok_def] s, of 0]
  show "worlds_step U N s (snd (list_backups env acc i actor s))"
    unfolding list_backups_def by (intro step_on_ok last s)
  show "worlds_step U N s (snd (create_manual_backup env acc i actor key s))"
    unfolding create_manual_backup_def by (intro step_on_ok last s)
  show "worlds_step U N s (snd (create_export env acc i actor key s))"
    unfolding create_export_def Let_def
    by (rule step_on_ok [OF s], rule step_on_ok [OF s], rule step_later [OF r(2)])
      (intro step_on_ok last r(1))
qed

end
