(* ===== verification/Archive.thy ===== *)
theory Archive
  imports WorldProviders
begin

text \<open>
  The in-memory archive (\<open>gamewake/worlds/archive.py\<close>): Backups and Exports with their
  idempotency indexes. \<open>uuid4\<close> and the clock are arguments of the operations that use them.
\<close>

record archive =
  am_state_sizes :: "(string, int) dict"
  am_backups :: "(string, backup) dict"
  am_backup_idempotency :: "(string, string) dict"
  am_exports :: "(string, world_export) dict"
  am_export_idempotency :: "(string, string) dict"
  am_deleted_worlds :: "(string \<times> string) set"

definition empty_archive :: "(string, int) dict \<Rightarrow> archive" where
  "empty_archive sizes = \<lparr> am_state_sizes = sizes, am_backups = [], am_backup_idempotency = [],
     am_exports = [], am_export_idempotency = [], am_deleted_worlds = {} \<rparr>"

definition state_size :: "archive \<Rightarrow> string \<Rightarrow> int" where
  "state_size a i = (case dict_get (am_state_sizes a) i of Some n \<Rightarrow> n | None \<Rightarrow> 0)"

definition create_backup ::
    "string \<Rightarrow> instant \<Rightarrow> backup_kind \<Rightarrow> world \<Rightarrow> stored_world_state \<Rightarrow> string \<Rightarrow> archive
     \<Rightarrow> backup result \<times> archive" where
  "create_backup new_id at_time kind w state key a =
     (case dict_get (am_backup_idempotency a) key of
        Some existing_id \<Rightarrow> (dict_index (am_backups a) existing_id existing_id, a)
      | None \<Rightarrow>
          if \<not> ss_validated state
          then (Inl (ValueError ''Backup requires a validated World state''), a)
          else
            (let b = \<lparr> bk_id = new_id, bk_account_id = wd_account_id w, bk_world_id = wd_id w,
                   bk_state_id = ss_id state, bk_checksum = ss_checksum state, bk_kind = kind,
                   bk_size_bytes = state_size a (ss_id state), bk_created_at = Some at_time \<rparr>
             in (Inr b, a\<lparr> am_backups := dict_set new_id b (am_backups a),
                  am_backup_idempotency := dict_set key new_id (am_backup_idempotency a) \<rparr>)))"

text \<open>\<open>backup.created_at or datetime.min\<close>, the sort key.\<close>

definition backup_time :: "backup \<Rightarrow> instant" where
  "backup_time b = (case bk_created_at b of Some t \<Rightarrow> t | None \<Rightarrow> seconds (- 62135596800))"

definition list_backups_of :: "archive \<Rightarrow> string \<Rightarrow> string \<Rightarrow> backup list" where
  "list_backups_of a account_id world_id =
     sort_key backup_time (filter (\<lambda>b. bk_account_id b = account_id \<and> bk_world_id b = world_id)
       (map snd (am_backups a)))"

definition restore_from :: "world \<Rightarrow> backup \<Rightarrow> stored_world_state result" where
  "restore_from w b =
     (if bk_account_id b \<noteq> wd_account_id w \<or> bk_world_id b \<noteq> wd_id w then Inl (KeyError (bk_id b))
      else Inr \<lparr> ss_id = bk_state_id b, ss_checksum = bk_checksum b, ss_validated = True \<rparr>)"

definition create_export_in ::
    "string \<Rightarrow> instant \<Rightarrow> world \<Rightarrow> stored_world_state \<Rightarrow> configuration_revision \<Rightarrow> string \<Rightarrow> archive
     \<Rightarrow> world_export result \<times> archive" where
  "create_export_in new_id at_time w state configuration key a =
     (case dict_get (am_export_idempotency a) key of
        Some existing_id \<Rightarrow> (dict_index (am_exports a) existing_id existing_id, a)
      | None \<Rightarrow>
          (let x = \<lparr> ex_id = new_id, ex_account_id = wd_account_id w, ex_world_id = wd_id w,
                 ex_download_url = ''memory://exports/'' @ new_id @ ''.zip'',
                 ex_manifest = \<lparr> mf_format_version = 1,
                   mf_game_template_id = wd_game_template_id w,
                   mf_configuration_revision_id = cr_id configuration,
                   mf_configuration = cr_entries configuration,
                   mf_world_state_id = ss_id state,
                   mf_world_state_checksum = ss_checksum state \<rparr>,
                 ex_created_at = at_time \<rparr>
           in (Inr x, a\<lparr> am_exports := dict_set new_id x (am_exports a),
                am_export_idempotency := dict_set key new_id (am_export_idempotency a) \<rparr>)))"

text \<open>The idempotency index keeps the entries of the deleted Backups.\<close>

definition delete_data_of :: "string \<Rightarrow> string \<Rightarrow> archive \<Rightarrow> archive" where
  "delete_data_of account_id world_id a = a\<lparr>
     am_backups := filter (\<lambda>(_, b). bk_account_id b \<noteq> account_id \<or> bk_world_id b \<noteq> world_id)
       (am_backups a),
     am_deleted_worlds := insert (account_id, world_id) (am_deleted_worlds a) \<rparr>"

definition was_world_deleted :: "archive \<Rightarrow> string \<Rightarrow> string \<Rightarrow> bool" where
  "was_world_deleted a account_id world_id \<longleftrightarrow> (account_id, world_id) \<in> am_deleted_worlds a"

section \<open>Storage\<close>

definition active_world_ids :: "world list \<Rightarrow> string list" where
  "active_world_ids worlds = map wd_id (filter (\<lambda>w. wd_status w \<noteq> PENDING_DELETION) worlds)"

definition storage_usage :: "archive \<Rightarrow> string \<Rightarrow> world list \<Rightarrow> int" where
  "storage_usage a account_id worlds =
     (let active = active_world_ids worlds
      in sum_list (map (\<lambda>w. case wd_stored_state_id w of Some i \<Rightarrow> state_size a i | None \<Rightarrow> 0)
           (filter (\<lambda>w. wd_id w \<in> set active \<and> wd_stored_state_id w \<noteq> None) worlds))
       + sum_list (map bk_size_bytes
           (filter (\<lambda>b. bk_account_id b = account_id \<and> bk_world_id b \<in> set active)
             (map snd (am_backups a)))))"

definition prune_candidates :: "archive \<Rightarrow> string \<Rightarrow> world list \<Rightarrow> backup list" where
  "prune_candidates a account_id worlds =
     sort_key backup_time (filter (\<lambda>b. bk_account_id b = account_id
         \<and> bk_world_id b \<in> set (active_world_ids worlds) \<and> bk_kind b = AUTOMATIC)
       (map snd (am_backups a)))"

text \<open>The candidates the loop deletes: as many as it takes to free the bytes.\<close>

fun take_until_freed :: "int \<Rightarrow> int \<Rightarrow> backup list \<Rightarrow> backup list" where
  "take_until_freed freed bytes_to_free [] = []"
| "take_until_freed freed bytes_to_free (b # bs) =
     (if bytes_to_free \<le> freed then []
      else b # take_until_freed (freed + bk_size_bytes b) bytes_to_free bs)"

definition prune_oldest_automatic ::
    "string \<Rightarrow> world list \<Rightarrow> int \<Rightarrow> archive \<Rightarrow> backup list \<times> archive" where
  "prune_oldest_automatic account_id worlds bytes_to_free a =
     (let pruned = take_until_freed 0 bytes_to_free (prune_candidates a account_id worlds)
      in (pruned, a\<lparr> am_backups := foldl (\<lambda>d b. dict_del (bk_id b) d) (am_backups a) pruned \<rparr>))"

section \<open>The archive as a provider\<close>

definition in_memory_archive :: "string \<Rightarrow> instant \<Rightarrow> archive archive_store" where
  "in_memory_archive new_id at_time = \<lparr>
     ar_create_automatic = create_backup new_id at_time AUTOMATIC,
     ar_create_manual = create_backup new_id at_time MANUAL,
     ar_create_restore_point = create_backup new_id at_time RESTORE_POINT,
     ar_create_final = create_backup new_id at_time FINAL,
     ar_list_backups = (\<lambda>account_id world_id a. (Inr (list_backups_of a account_id world_id), a)),
     ar_restore = (\<lambda>w b key a. (restore_from w b, a)),
     ar_create_export = create_export_in new_id at_time,
     ar_delete_world_data = (\<lambda>account_id world_id key a.
       (Inr (), delete_data_of account_id world_id a)) \<rparr>"

end
