(* ===== verification/WorldSystem.thy ===== *)
theory WorldSystem
  imports WorkerInvariant Archive
begin

text \<open>
  The Worlds component as a transition system: the states reached by calls of \<open>class Worlds\<close>, of
  the worker, the session monitor and \<open>class WorldData\<close>, from an empty repository, with other
  clients interleaved at every access to it. The invariant holds in every reachable state, and a
  state is followed by later ones only.
\<close>

text \<open>The calls that change the state, with their environments.\<close>

type_synonym 'p service_env = "('p, unit) worker_state_ext worlds_env"

datatype 'p world_call =
    Create_world "'p service_env" string string string string string string
  | Update_runtime_settings "'p service_env" string string string "int option"
  | Update_configuration "'p service_env" string string string py_value string string
  | Request_wake "'p service_env" string string string string
  | Attach_billing_session "'p service_env" string string string string
  | Fail_wake_preflight "'p service_env" string string
  | Request_sleep "'p service_env" string string string string bool
  | Request_automatic_recovery "'p service_env" string string instant string
  | Advance "'p worker_env" string string
  | Mark_needs_attention "'p worker_env" string string
  | Monitor_session "'p worker_env" string string "instant option" "int option"
  | List_backups "'p data_env" string string string
  | Create_manual_backup "'p data_env" string string string string
  | Restore_backup "'p data_env" string string string string string
  | Create_export "'p data_env" string string string string
  | Schedule_deletion "'p data_env" string string string "sensitive_action_confirmation option" string
  | Cancel_deletion "'p data_env" string string string
  | Purge_due_deletion "'p data_env" string string instant

fun run_world_call :: "'p world_call \<Rightarrow> 'p worker_state \<Rightarrow> 'p worker_state" where
  "run_world_call (Create_world env a u n t r p) s = snd (create_world env a u n t r p s)"
| "run_world_call (Update_runtime_settings env a i u m) s =
     snd (update_runtime_settings env a i u m s)"
| "run_world_call (Update_configuration env a i u c k og) s =
     snd (update_configuration env a i u c k og s)"
| "run_world_call (Request_wake env a i u k) s = snd (request_wake env a i u k s)"
| "run_world_call (Attach_billing_session env a i q r) s = snd (attach_billing_session env a i q r s)"
| "run_world_call (Fail_wake_preflight env a i) s = snd (fail_wake_preflight env a i s)"
| "run_world_call (Request_sleep env a i u k f) s = snd (request_sleep env a i u k f s)"
| "run_world_call (Request_automatic_recovery env a i t k) s =
     snd (request_automatic_recovery env a i t k s)"
| "run_world_call (Advance w a i) s = snd (advance w a i s)"
| "run_world_call (Mark_needs_attention w a i) s = snd (mark_needs_attention w a i s)"
| "run_world_call (Monitor_session w a i t m) s = snd (monitor_session w a i t m s)"
| "run_world_call (List_backups d a i u) s = snd (list_backups d a i u s)"
| "run_world_call (Create_manual_backup d a i u k) s = snd (create_manual_backup d a i u k s)"
| "run_world_call (Restore_backup d a i b u k) s = snd (restore_backup d a i b u k s)"
| "run_world_call (Create_export d a i u k) s = snd (create_export d a i u k s)"
| "run_world_call (Schedule_deletion d a i u c k) s = snd (schedule_deletion d a i u c k s)"
| "run_world_call (Cancel_deletion d a i u) s = snd (cancel_deletion d a i u s)"
| "run_world_call (Purge_due_deletion d a i t) s = snd (purge_due_deletion d a i t s)"

text \<open>The identifiers a call may create, and what its environment promises.\<close>

fun call_ids :: "'p world_call \<Rightarrow> string set" where
  "call_ids (Create_world env a u n t r p) = worlds_uuids env"
| "call_ids (Update_configuration env a i u c k og) = worlds_uuids env"
| "call_ids (Request_wake env a i u k) = worlds_uuids env"
| "call_ids (Request_sleep env a i u k f) = worlds_uuids env"
| "call_ids (Request_automatic_recovery env a i t k) = worlds_uuids env"
| "call_ids (Monitor_session w a i t m) = {wk_uuid w}"
| "call_ids c = {}"

fun call_env_ok :: "string set \<Rightarrow> 'p world_call \<Rightarrow> bool" where
  "call_env_ok U (Create_world env a u n t r p) = worlds_env_ok U env"
| "call_env_ok U (Update_runtime_settings env a i u m) = worlds_env_ok U env"
| "call_env_ok U (Update_configuration env a i u c k og) = worlds_env_ok U env"
| "call_env_ok U (Request_wake env a i u k) = worlds_env_ok U env"
| "call_env_ok U (Attach_billing_session env a i q r) = worlds_env_ok U env"
| "call_env_ok U (Fail_wake_preflight env a i) = worlds_env_ok U env"
| "call_env_ok U (Request_sleep env a i u k f) = worlds_env_ok U env"
| "call_env_ok U (Request_automatic_recovery env a i t k) = worlds_env_ok U env"
| "call_env_ok U (Advance w a i) = worker_env_ok U w"
| "call_env_ok U (Mark_needs_attention w a i) = worker_env_ok U w"
| "call_env_ok U (Monitor_session w a i t m) = worker_env_ok U w"
| "call_env_ok U (List_backups d a i u) = data_env_ok U d"
| "call_env_ok U (Create_manual_backup d a i u k) = data_env_ok U d"
| "call_env_ok U (Restore_backup d a i b u k) = data_env_ok U d"
| "call_env_ok U (Create_export d a i u k) = data_env_ok U d"
| "call_env_ok U (Schedule_deletion d a i u c k) = data_env_ok U d"
| "call_env_ok U (Cancel_deletion d a i u) = data_env_ok U d"
| "call_env_ok U (Purge_due_deletion d a i t) = data_env_ok U d"

lemma run_world_call_ok:
  "worlds_ok U s \<Longrightarrow> call_env_ok U c \<Longrightarrow> worlds_step U (call_ids c) s (run_world_call c s)"
  by (cases c) (simp_all only: run_world_call.simps call_ids.simps call_env_ok.simps world_call_ok)

definition no_worlds :: "'p \<Rightarrow> 'p worker_state" where
  "no_worlds p = \<lparr> st_worlds = [], st_operations = [], st_configurations = [],
     st_configuration_idempotency = [], st_idempotency = [], st_active_operations = [],
     ws_providers = p, ws_log = [] \<rparr>"

inductive worlds_reach :: "string set \<Rightarrow> 'p worker_state \<Rightarrow> bool" where
  start: "worlds_reach {} (no_worlds p)"
| call: "worlds_reach U s \<Longrightarrow> call_env_ok U c \<Longrightarrow> worlds_reach (U \<union> call_ids c) (run_world_call c s)"

inductive worlds_leads :: "string set \<Rightarrow> 'p worker_state \<Rightarrow> string set \<Rightarrow> 'p worker_state \<Rightarrow> bool" where
  now: "worlds_leads U s U s"
| after: "worlds_leads U s V s1 \<Longrightarrow> call_env_ok V c \<Longrightarrow>
     worlds_leads U s (V \<union> call_ids c) (run_world_call c s1)"

lemma no_worlds_ok: "worlds_ok U (no_worlds p)"
  by (rule worlds_okI) (auto simp: no_worlds_def distinct_keys_def operations_indexed_def
      world_lookup_def operation_lookup_def active_lookup_def revision_lookup_def)

lemma worlds_reach_ok: "worlds_reach U s \<Longrightarrow> worlds_ok U s"
proof (induction rule: worlds_reach.induct)
  case (call U s c)
  then show ?case using run_world_call_ok by (auto simp: worlds_step_def)
qed (rule no_worlds_ok)

lemma worlds_later_mono: "worlds_later V s s' \<Longrightarrow> U \<subseteq> V \<Longrightarrow> worlds_later U s s'"
  by (auto simp: worlds_later_def saved_worlds.kept_def operations_evolve_def operations_begun_def)

lemma worlds_leads_later:
  "worlds_leads U s V s' \<Longrightarrow> worlds_ok U s \<Longrightarrow> U \<subseteq> V \<and> worlds_ok V s' \<and> worlds_later U s s'"
proof (induction rule: worlds_leads.induct)
  case (after U s V s1 c)
  then have IH: "U \<subseteq> V" "worlds_ok V s1" "worlds_later U s s1" by simp_all
  have "worlds_step V (call_ids c) s1 (run_world_call c s1)"
    by (rule run_world_call_ok [OF IH(2) after.hyps(2)])
  then have "worlds_ok (V \<union> call_ids c) (run_world_call c s1)"
    and "worlds_later V s1 (run_world_call c s1)"
    by (simp_all add: worlds_step_def)
  moreover from this(2) have "worlds_later U s1 (run_world_call c s1)"
    by (rule worlds_later_mono [OF _ IH(1)])
  ultimately show ?case using IH(1) worlds_later_trans [OF IH(3)] by blast
qed simp

section \<open>The operations of one World\<close>

lemma list_operations_of_iff:
  assumes "worlds_ok U s"
  shows "x \<in> set (list_operations_of s a i) \<longleftrightarrow>
     operation_lookup s (wo_id x) = Some x \<and> operation_key x = (a, i)"
proof -
  have "distinct (map fst (st_operations s))"
    using worlds_ok_parts(1) [OF assms] by (simp add: distinct_keys_def)
  then have "(k, x) \<in> set (st_operations s) \<longleftrightarrow> operation_lookup s k = Some x" for k
    by (simp add: operation_lookup_def)
  moreover have "x \<in> snd ` set (st_operations s) \<longleftrightarrow> (\<exists>k. (k, x) \<in> set (st_operations s))"
    by force
  ultimately have "x \<in> snd ` set (st_operations s) \<longleftrightarrow> operation_lookup s (wo_id x) = Some x"
    using worlds_okD(4) [OF assms] by blast
  then show ?thesis by (auto simp: list_operations_of_def operation_key_def)
qed

lemma list_operations_of_distinct:
  assumes "worlds_ok U s" shows "distinct (map wo_id (list_operations_of s a i))"
proof -
  have d: "distinct (map fst (st_operations s))"
    using worlds_ok_parts(1) [OF assms] by (simp add: distinct_keys_def)
  have "wo_id (snd p) = fst p" if "p \<in> set (st_operations s)" for p
    using d that worlds_okD(4) [OF assms, of "fst p" "snd p"] by (simp add: operation_lookup_def)
  then have "map wo_id (map snd (st_operations s)) = map fst (st_operations s)" by simp
  with d have "distinct (map wo_id (map snd (st_operations s)))" by argo
  then show ?thesis unfolding list_operations_of_def by (rule distinct_map_filter)
qed

lemma length_le_by_key:
  "distinct (map f xs) \<Longrightarrow> f ` set xs \<subseteq> f ` set ys \<Longrightarrow> length xs \<le> length ys"
  by (metis card_length card_mono distinct_card finite_set image_set length_map order_trans)

text \<open>A World of the same version since: no operation of it was begun in between.\<close>

lemma unchanged_world:
  assumes later: "worlds_later U a b" "worlds_later U b c" and k: "snd k \<in> U"
    and w: "world_lookup a k = Some w" and c: "world_lookup c k = Some v" "wd_version v = wd_version w"
  shows "v = w" and "world_lookup b k = Some w"
proof -
  have kept: "saved_worlds.kept {k. snd k \<in> U} a b" "saved_worlds.kept {k. snd k \<in> U} b c"
    using later by (simp_all add: worlds_later_def)
  have "world_lookup b k \<noteq> None"
    using kept(2) k c(1) by (cases k) (force simp: saved_worlds.kept_def split: option.splits)
  then obtain u where u: "world_lookup b k = Some u" by blast
  have "saved_worlds.held k w b" "saved_worlds.held k w c" "saved_worlds.held k u c"
    using saved_worlds.held_kept [OF saved_worlds.held_read [of a, OF w] kept(1)]
      saved_worlds.held_kept [OF saved_worlds.held_read [of b, OF u] kept(2)]
      saved_worlds.held_kept [OF saved_worlds.held_kept [OF saved_worlds.held_read [of a, OF w] kept(1)] kept(2)] k
    by simp_all
  then show "v = w" "world_lookup b k = Some w"
    using u c by (force simp: saved_worlds.held_def)+
qed

lemma begun_earlier:
  assumes ok: "worlds_ok U b" "worlds_ok U c" and later: "worlds_later U b c"
    and k: "k = (acc, i)" "i \<in> U" "world_lookup b k = Some w" "world_lookup c k = Some w"
    and y: "y \<in> set (list_operations_of c acc i)"
  obtains x where "x \<in> set (list_operations_of b acc i)" "wo_id x = wo_id y" "same_request x y"
proof -
  have y': "operation_lookup c (wo_id y) = Some y" "operation_key y = k"
    using y k by (simp_all add: list_operations_of_iff [OF ok(2)])
  moreover have "operations_begun U b c" "operations_evolve U b c"
    using later by (simp_all add: worlds_later_def)
  ultimately obtain x where x: "operation_lookup b (wo_id y) = Some x" "operation_key x = k"
    using k unfolding operations_begun_def by (metis snd_conv)
  have id: "wo_id x = wo_id y" by (rule worlds_okD(4) [OF ok(1) x(1)])
  have "operation_evolves x y"
    using \<open>operations_evolve U b c\<close> worlds_okD(5) [OF ok(1) x(1)] x(1) y'(1)
    by (force simp: operations_evolve_def)
  then have "same_request x y" by (simp add: operation_evolves_def)
  moreover have "x \<in> set (list_operations_of b acc i)"
    using x id k by (simp add: list_operations_of_iff [OF ok(1)])
  ultimately show thesis using that id by blast
qed

end
