(* ===== verification/SafeSleep.thy ===== *)
theory SafeSleep
  imports WorldSystem
begin

text \<open>
  The Recovery Guarantee (\<open>docs/adr/0006\<close>): a safe sleep releases the Runtime only after the
  state of the World was persisted, validated and backed up. \<open>secured log i\<close> says that the log
  shows this, in this order, for operation \<open>i\<close>; \<open>safe_log\<close> is the invariant over the log of
  provider calls and the operations that every call keeps.
\<close>

section \<open>The evidence in the log\<close>

definition secured :: "effect list \<Rightarrow> string \<Rightarrow> bool" where
  "secured log i \<longleftrightarrow> (\<exists>p q u w rt st v st' b.
     log = p @ Persisted w rt (i @ '':persist'') (Inr st) # q
             @ BackedUp v st' (i @ '':backup'') (Inr b) # u
     \<and> ss_validated st \<and> ss_id st' = ss_id st \<and> ss_checksum st' = ss_checksum st)"

definition persisted_in :: "effect list \<Rightarrow> world_operation \<Rightarrow> bool" where
  "persisted_in log x \<longleftrightarrow> (\<exists>w rt st. Persisted w rt (wo_id x @ '':persist'') (Inr st) \<in> set log
     \<and> ss_validated st \<and> wo_stored_state_id x = Some (ss_id st)
     \<and> wo_stored_state_checksum x = Some (ss_checksum st))"

definition evidence :: "effect list \<Rightarrow> world_operation \<Rightarrow> bool" where
  "evidence log x \<longleftrightarrow> wo_operation_type x = SLEEP \<longrightarrow>
     (wo_phase x = CREATING_BACKUP \<longrightarrow> persisted_in log x)
     \<and> (wo_phase x = RELEASING_RUNTIME \<or> wo_status x = OP_SUCCEEDED \<longrightarrow>
          persisted_in log x \<and> secured log (wo_id x))"

definition releases_secured :: "effect list \<Rightarrow> bool" where
  "releases_secured log \<longleftrightarrow> (\<forall>p rt i r u. log = p @ Released rt (i @ '':release'') r # u \<longrightarrow> secured p i)"

definition safe_log :: "'p worker_state \<Rightarrow> bool" where
  "safe_log s \<longleftrightarrow> releases_secured (ws_log s)
     \<and> (\<forall>i x. operation_lookup s i = Some x \<longrightarrow> evidence (ws_log s) x)"

lemma secured_append: "secured log i \<Longrightarrow> secured (log @ l) i"
proof -
  assume "secured log i"
  then obtain p q u w rt st v st' b where h:
    "log = p @ Persisted w rt (i @ '':persist'') (Inr st) # q
             @ BackedUp v st' (i @ '':backup'') (Inr b) # u"
    "ss_validated st" "ss_id st' = ss_id st" "ss_checksum st' = ss_checksum st"
    unfolding secured_def by blast
  from h(1) have "log @ l = p @ Persisted w rt (i @ '':persist'') (Inr st) # q
             @ BackedUp v st' (i @ '':backup'') (Inr b) # (u @ l)" by simp
  with h(2-4) show "secured (log @ l) i" unfolding secured_def by blast
qed

lemma persisted_append: "persisted_in log x \<Longrightarrow> persisted_in (log @ l) x"
  by (auto simp: persisted_in_def)

lemma evidence_append: "evidence log x \<Longrightarrow> evidence (log @ l) x"
  by (auto simp: evidence_def secured_append persisted_append)

lemma persisted_then_backed_up:
  assumes "persisted_in log x" "wo_stored_state_id x = Some (ss_id st)"
    "wo_stored_state_checksum x = Some (ss_checksum st)"
  shows "secured (log @ [BackedUp v st (wo_id x @ '':backup'') (Inr b)]) (wo_id x)"
proof -
  obtain w rt st0 where m: "Persisted w rt (wo_id x @ '':persist'') (Inr st0) \<in> set log"
    and st0: "ss_validated st0" "ss_id st = ss_id st0" "ss_checksum st = ss_checksum st0"
    using assms by (auto simp: persisted_in_def)
  obtain p q where "log = p @ Persisted w rt (wo_id x @ '':persist'') (Inr st0) # q"
    using split_list [OF m] by blast
  then have "log @ [BackedUp v st (wo_id x @ '':backup'') (Inr b)]
    = p @ Persisted w rt (wo_id x @ '':persist'') (Inr st0) # q
      @ BackedUp v st (wo_id x @ '':backup'') (Inr b) # []" by simp
  with st0 show ?thesis unfolding secured_def by blast
qed

lemma releases_secured_snoc:
  assumes "releases_secured log" and "\<And>rt i r. e = Released rt (i @ '':release'') r \<Longrightarrow> secured log i"
  shows "releases_secured (log @ [e])"
  unfolding releases_secured_def
proof (intro allI impI)
  fix p rt i r u assume split: "log @ [e] = p @ Released rt (i @ '':release'') r # u"
  show "secured p i"
  proof (cases u rule: rev_cases)
    case Nil
    then show ?thesis using split assms(2) by simp
  next
    case (snoc v d)
    then have "log = p @ Released rt (i @ '':release'') r # v" using split by simp
    then show ?thesis using assms(1) unfolding releases_secured_def by blast
  qed
qed

section \<open>Keeping it\<close>

definition log_rivals_ok :: "string set \<Rightarrow> (nat \<Rightarrow> 'p worker_state \<Rightarrow> 'p worker_state) \<Rightarrow> bool" where
  "log_rivals_ok U rival \<longleftrightarrow> (\<forall>V k s. U \<subseteq> V \<longrightarrow> worlds_ok V s \<longrightarrow> safe_log s \<longrightarrow>
     safe_log (rival k s) \<and> (\<exists>l. ws_log (rival k s) = ws_log s @ l))"

lemma log_rivalsD:
  "log_rivals_ok U rival \<Longrightarrow> worlds_ok U s \<Longrightarrow> safe_log s \<Longrightarrow> safe_log (rival k s)"
  unfolding log_rivals_ok_def by blast

lemma safe_write:
  assumes "safe_log s" and "ws_log s' = ws_log s"
    and "\<And>i y. operation_lookup s' i = Some y \<Longrightarrow> operation_lookup s i = Some y \<or> evidence (ws_log s) y"
  shows "safe_log s'"
  using assms unfolding safe_log_def by metis

lemma safe_perform:
  assumes "safe_log s" and "\<And>r rt i r'. l r = Released rt (i @ '':release'') r' \<Longrightarrow> secured (ws_log s) i"
  shows "safe_log (snd (perform c l s))"
  using assms by (auto simp: safe_log_def intro: releases_secured_snoc evidence_append)

lemma safe_perform_other:
  "safe_log s \<Longrightarrow> (\<And>r rt k r'. l r \<noteq> Released rt k r') \<Longrightarrow> safe_log (snd (perform c l s))"
  by (rule safe_perform) simp_all

lemma safe_on_ok: "safe_log s \<Longrightarrow> (\<And>a. r = Inr a \<Longrightarrow> safe_log (snd (f a))) \<Longrightarrow> safe_log (snd (on_ok r s f))"
  by (cases r) auto

lemma safe_if: "(c \<Longrightarrow> safe_log (snd p)) \<Longrightarrow> (\<not> c \<Longrightarrow> safe_log (snd q)) \<Longrightarrow> safe_log (snd (if c then p else q))"
  by simp

lemma safe_leaf: "safe_log s \<Longrightarrow> safe_log (snd (r, s))"
  by simp

lemma safe_and_then:
  "safe_log (snd p) \<Longrightarrow> (\<And>a. fst p = Inr a \<Longrightarrow> safe_log (snd (f a (snd p)))) \<Longrightarrow>
     safe_log (snd (and_then p f))"
  unfolding and_then_def by (rule safe_on_ok)

lemma safe_rival:
  assumes "worlds_ok U s" "safe_log s" "worlds_rivals_ok U rival" "log_rivals_ok U rival"
    and "worlds_ok U (rival k s) \<Longrightarrow> worlds_later U s (rival k s) \<Longrightarrow> safe_log (rival k s) \<Longrightarrow>
      (\<exists>l. ws_log (rival k s) = ws_log s @ l) \<Longrightarrow> safe_log s2"
  shows "safe_log s2"
  using assms(5) worlds_rivalD [OF assms(3,1), of k] assms(1,2,4) unfolding log_rivals_ok_def by blast

lemmas safe_intros = safe_leaf safe_on_ok safe_if

section \<open>The writes of the repository\<close>

lemma safe_world_save:
  assumes s: "safe_log s" and save: "world_save w n s = Inr s'" shows "safe_log s'"
  by (rule safe_write [OF s]) (simp_all add: world_save_state [OF save])

lemma safe_create: "safe_log s \<Longrightarrow> safe_log (create_world_in w r s)"
  by (erule safe_write) (simp_all add: create_world_in_def operation_lookup_def)

lemma safe_append:
  assumes s: "safe_log s" shows "safe_log (snd (append_configuration w r n s))"
proof (cases "world_save w n s")
  case (Inl e)
  then show ?thesis using s by (simp add: append_configuration_def split: option.split)
next
  case (Inr s1)
  have "safe_log (s1\<lparr> st_configurations := a, st_configuration_idempotency := b \<rparr>)" for a b
    by (rule safe_write [OF safe_world_save [OF s Inr]]) simp_all
  then show ?thesis using s Inr by (simp add: append_configuration_def split: option.split)
qed

lemma safe_delete: "worlds_ok U s \<Longrightarrow> safe_log s \<Longrightarrow> world_delete a i s = Inr s' \<Longrightarrow> safe_log s'"
proof -
  assume ok: "worlds_ok U s" and s: "safe_log s" and del: "world_delete a i s = Inr s'"
  have s': "st_operations s' = filter (\<lambda>(_, x). \<not> (wo_account_id x = a \<and> wo_world_id x = i)) (st_operations s)"
    using del by (auto simp: world_delete_def split: option.splits)
  have "operation_lookup s j = Some y" if "operation_lookup s' j = Some y" for j y
  proof -
    have "(j, y) \<in> set (st_operations s)"
      using that map_of_SomeD [of "st_operations s'" j y] by (simp add: operation_lookup_def s')
    then show ?thesis
      using worlds_ok_parts(1) [OF ok] by (simp add: operation_lookup_def distinct_keys_def)
  qed
  then have "operation_lookup s j = Some y \<or> evidence (ws_log s) y"
    if "operation_lookup s' j = Some y" for j y using that by blast
  moreover have "ws_log s' = ws_log s" using del by (auto simp: world_delete_def split: option.splits)
  ultimately show "safe_log s'" by (intro safe_write [OF s])
qed

lemma safe_begin:
  assumes ok: "worlds_ok U s" and s: "safe_log s" and x: "wo_phase x = REQUESTED" "wo_status x = OP_PENDING"
  shows "safe_log (snd (begin_operation w x n s))"
  using ok
proof (cases rule: begin_operation_cases [of U s w x n])
  case (begins c)
  have "evidence (ws_log s) x" by (simp add: evidence_def x)
  moreover have "operation_lookup (snd (begin_operation w x n s)) = (operation_lookup s)(wo_id x \<mapsto> x)"
    "ws_log (snd (begin_operation w x n s)) = ws_log s"
    using begins(5) by (simp_all add: fun_eq_iff operation_lookup_def)
  ultimately show ?thesis by (intro safe_write [OF s]) (simp_all split: if_splits)
qed (use s in simp_all)

lemma safe_save_operation:
  assumes s: "safe_log s" and save: "save_operation x n ww s = Inr s'" and x: "evidence (ws_log s) x"
  shows "safe_log s'"
proof -
  have "ws_log s' = ws_log s \<and> (\<forall>i. operation_lookup s' i = (if i = wo_id x then Some x else operation_lookup s i))"
    using save by (cases ww) (auto simp: save_operation_def Let_def operation_lookup_def
        dest!: world_save_state split: option.splits sum.splits if_splits)
  with x show ?thesis by (intro safe_write [OF s]) (auto split: if_splits)
qed

section \<open>The service\<close>

lemma service_safe:
  assumes ok: "worlds_ok U s" and s: "safe_log s" and env: "worlds_env_ok U env"
    and log: "log_rivals_ok U (wv_rival env)"
  shows "safe_log (snd (create_world env a u n t r p s))"
    and "safe_log (snd (update_runtime_settings env a i u m s))"
    and "safe_log (snd (update_configuration env a i u c k og s))"
    and "safe_log (snd (request_wake env a i u k s))"
    and "safe_log (snd (request_sleep env a i u k f s))"
    and "safe_log (snd (request_automatic_recovery env a i at k s))"
proof -
  note rival = safe_rival [OF _ _ worlds_env_okD(1) [OF env] log]
  show "safe_log (snd (create_world env a u n t r p s))"
    unfolding create_world_def Let_def by (intro safe_intros s) (simp add: safe_create s)
  show "safe_log (snd (update_runtime_settings env a i u m s))"
    unfolding update_runtime_settings_def Let_def
    apply (rule safe_if, rule safe_leaf [OF s], rule safe_on_ok [OF s], rule safe_on_ok [OF s])
    apply (rule rival [OF ok s, of 0], rule safe_on_ok, assumption)
    apply (simp add: safe_world_save)
    done
  show "safe_log (snd (update_configuration env a i u c k og s))"
    unfolding update_configuration_def Let_def
    apply (rule rival [OF ok s, of 0], rule safe_on_ok, assumption)
    apply (erule (1) rival [of _ 1], rule safe_on_ok, assumption)
    apply (erule (1) rival [of _ 2], rule safe_on_ok, assumption)
    apply (erule (1) rival [of _ 3], rule safe_append, assumption)
    done
  show "safe_log (snd (request_wake env a i u k s))"
    unfolding request_wake_def
    apply (intro safe_on_ok s)
    apply (rule rival [OF ok s, of 0], erule (1) safe_begin)
    apply (simp_all add: new_operation_def)
    done
  show "safe_log (snd (request_sleep env a i u k f s))"
    unfolding request_sleep_def
    apply (intro safe_intros s)
    apply (rule rival [OF ok s, of 0], erule (1) safe_begin)
    apply (simp_all add: sleep_operation_def new_operation_def)
    done
  show "safe_log (snd (request_automatic_recovery env a i at k s))"
    unfolding request_automatic_recovery_def Let_def split_beta
    apply (rule safe_on_ok [OF s], rule rival [OF ok s, of 0], intro safe_if safe_leaf, assumption+)
    apply (erule (1) rival [of _ 1])
    subgoal for w
      by (rule on_ok_state [where Q = safe_log])
        (auto intro!: safe_begin simp: new_operation_def)
    done
qed

lemma evidence_session [simp]:
  "evidence log (x\<lparr> wo_session_quote_id := q, wo_usage_reservation_id := r, wo_version := v \<rparr>)
     = evidence log x"
  by (simp add: evidence_def persisted_in_def)

lemma evidence_longer: "evidence log x \<Longrightarrow> \<exists>l. log' = log @ l \<Longrightarrow> evidence log' x"
  using evidence_append by blast

lemma evidence_read: "safe_log s \<Longrightarrow> operation_lookup s i = Some x \<Longrightarrow> evidence (ws_log s) x"
  by (auto simp: safe_log_def)

lemma billing_safe:
  assumes ok: "worlds_ok U s" and s: "safe_log s" and env: "worlds_env_ok U env"
    and log: "log_rivals_ok U (wv_rival env)"
  shows "safe_log (snd (attach_billing_session env a i q r s))"
    and "safe_log (snd (fail_wake_preflight env a i s))"
proof -
  note rival = safe_rival [OF _ _ worlds_env_okD(1) [OF env] log]
  show "safe_log (snd (attach_billing_session env a i q r s))"
    unfolding attach_billing_session_def Let_def
    apply (rule safe_on_ok [OF s], rule safe_if, rule safe_leaf [OF s])
    apply (rule safe_if, rule safe_if, rule safe_leaf [OF s], rule safe_leaf [OF s])
    apply (rule safe_if, rule safe_leaf [OF s])
    subgoal premises p for x
      apply (rule rival [OF ok s, of 0], rule safe_on_ok, assumption)
      apply (erule (1) rival [of _ 1])
      subgoal premises q for w
      proof -
        let ?s1 = "wv_rival env 0 s" let ?s = "wv_rival env 1 ?s1"
        have x: "operation_lookup s i = Some x" using p by simp
        have "\<exists>l. ws_log ?s1 = ws_log s @ l" "\<exists>l. ws_log ?s = ws_log ?s1 @ l" by (rule q)+
        then have e: "evidence (ws_log ?s) x"
          using evidence_longer [OF evidence_longer [OF evidence_read [OF s x]]] by simp
        have now: "worlds_ok U ?s" "safe_log ?s" by (rule q)+
        then have after: "safe_log (wv_rival env 2 ?s)" by (rule log_rivalsD [OF log])
        let ?y = "x\<lparr> wo_session_quote_id := Some q, wo_usage_reservation_id := Some r,
          wo_version := wo_version x + 1 \<rparr>"
        have saved: "safe_log s'" if "save_operation ?y n ww ?s = Inr s'" for n ww s'
          by (rule safe_save_operation [OF now(2) that]) (simp add: e del: One_nat_def)
        have again: "safe_log (snd (on_ok p' (wv_rival env 2 ?s) (\<lambda>c. if f c then (h c, wv_rival env 2 ?s)
            else (h' c, wv_rival env 2 ?s))))"
          for p' :: "world_operation result" and f h and h' :: "_ \<Rightarrow> world_operation result"
          by (intro safe_intros after)
        show ?thesis
          by (auto simp: now(2) saved again split: sum.split py_error.split simp del: One_nat_def)
      qed
      done
    done
  show "safe_log (snd (fail_wake_preflight env a i s))"
    unfolding fail_wake_preflight_def Let_def
    apply (rule safe_on_ok [OF s], rule safe_if, rule safe_leaf [OF s])
    apply (rule rival [OF ok s, of 0], rule safe_on_ok, assumption)
    apply (erule (1) rival [of _ 1], rule safe_on_ok, assumption)
    apply (simp add: safe_save_operation evidence_def)
    done
qed

section \<open>The worker\<close>

lemma release_keys [simp]:
  "x @ '':failed-wake-release'' \<noteq> i @ '':release''" "x @ '':failure-cleanup'' \<noteq> i @ '':release''"
  by (auto dest!: arg_cong [of _ _ rev])

lemma safe_perform_then:
  assumes "worlds_ok U s" "safe_log s"
    and "\<And>r rt i r'. l r = Released rt (i @ '':release'') r' \<Longrightarrow> secured (ws_log s) i"
    and "\<And>a s'. worlds_ok U s' \<Longrightarrow> safe_log s' \<Longrightarrow> ws_log s' = ws_log s @ [l (Inr a)] \<Longrightarrow>
      safe_log (snd (f a s'))"
  shows "safe_log (snd (and_then (perform c l s) f))"
proof (rule safe_and_then)
  show safe: "safe_log (snd (perform c l s))" by (rule safe_perform [OF assms(2,3)])
  fix a assume "fst (perform c l s) = Inr a"
  then show "safe_log (snd (f a (snd (perform c l s))))"
    using assms(1) safe by (intro assms(4)) simp_all
qed

lemma safe_save_step:
  assumes ok: "worlds_ok U s" and s: "safe_log s" and env: "worker_env_ok U env"
    and log: "log_rivals_ok U (wk_rival env)" and x: "evidence (ws_log s) x"
  shows "safe_log (snd (save_step env x n ww s))"
  unfolding save_step_def Let_def
proof (rule safe_rival [OF ok s worker_env_okD [OF env] log, of 1], rule safe_on_ok, assumption,
    unfold snd_conv)
  fix s' assume "safe_log (wk_rival env 1 s)" "\<exists>l. ws_log (wk_rival env 1 s) = ws_log s @ l"
    and "save_operation x n ww (wk_rival env 1 s) = Inr s'"
  then show "safe_log s'" using x by (blast intro: safe_save_operation evidence_longer)
qed

lemma safe_record_release_then:
  assumes ok: "worlds_ok U s" "safe_log s"
    and f: "\<And>s'. worlds_ok U s' \<Longrightarrow> safe_log s' \<Longrightarrow> \<exists>l. ws_log s' = ws_log s @ l \<Longrightarrow>
      safe_log (snd (f () s'))"
  shows "safe_log (snd (and_then (record_release env x b s) f))"
proof (cases "wk_usage env")
  case None
  then show ?thesis using f [OF ok] by (simp add: record_release_def)
next
  case (Some u)
  show ?thesis
    unfolding record_release_def Some option.case
    by (rule safe_perform_then [OF ok]) (simp_all add: f)
qed

lemmas phase_defs = move_to_phase_def needs_attention_def provision_runtime_def
  apply_configuration_step_def check_wake_health_def check_players_def check_recovery_health_def

lemma worker_phases_safe:
  assumes ok: "worlds_ok U s" and s: "safe_log s" and env: "worker_env_ok U env"
    and log: "log_rivals_ok U (wk_rival env)"
  shows "q \<noteq> CREATING_BACKUP \<Longrightarrow> q \<noteq> RELEASING_RUNTIME \<or> wo_operation_type x = WAKE \<Longrightarrow>
      safe_log (snd (move_to_phase env x q s))"
    and "evidence (ws_log s) x \<Longrightarrow> safe_log (snd (needs_attention env x w s))"
  unfolding move_to_phase_def needs_attention_def
  by (rule safe_save_step [OF ok s env log], force simp: evidence_def persisted_in_def)+

lemma advance_wake_safe:
  fixes env :: "'p worker_env"
  assumes ok: "worlds_ok U s" and s: "safe_log s" and env: "worker_env_ok U env"
    and log: "log_rivals_ok U (wk_rival env)" and x: "wo_operation_type x = WAKE"
  shows "safe_log (snd (advance_wake env d x w s))"
proof -
  have e: "wo_operation_type y = WAKE \<Longrightarrow> evidence l y" for l y by (simp add: evidence_def)
  have moved: "safe_log (snd (move_to_phase env x q s'))" if "worlds_ok U s'" "safe_log s'" for s' q
    unfolding move_to_phase_def by (rule safe_save_step [OF that env log]) (simp add: e x)
  note then_save = safe_perform_then [OF ok s] safe_save_step [OF _ _ env log] e moved
  show ?thesis
    unfolding advance_wake_def
    by (intro safe_if safe_on_ok s)
      (auto simp: provision_runtime_def apply_configuration_step_def check_wake_health_def
        release_failed_wake_def effect_key_def Let_def ok s x
        split: operation_phase.split option.split intro!: then_save safe_record_release_then)
qed

lemma runtime_for_stored: "stored_state_for x = Inr st \<Longrightarrow>
    wo_stored_state_id x = Some (ss_id st) \<and> wo_stored_state_checksum x = Some (ss_checksum st)"
  by (auto simp: stored_state_for_def split: option.splits)

lemma advance_sleep_safe:
  fixes env :: "'p worker_env"
  assumes ok: "worlds_ok U s" and s: "safe_log s" and env: "worker_env_ok U env"
    and log: "log_rivals_ok U (wk_rival env)" and x: "wo_operation_type x = SLEEP" "is_active (wo_status x)"
    and e: "evidence (ws_log s) x"
  shows "safe_log (snd (advance_sleep env d x w s))"
proof -
  note save = safe_save_step [OF _ _ env log]
  have moved: "safe_log (snd (move_to_phase env x q s'))"
    if "worlds_ok U s'" "safe_log s'" "q \<notin> {CREATING_BACKUP, RELEASING_RUNTIME}" for s' q
    using worker_phases_safe(1) [OF that(1,2) env log] that(3) by auto
  have players: "safe_log (snd (check_players env d x w rt s))" for rt
    unfolding check_players_def
    by (rule safe_perform_then [OF ok s])
      (auto intro!: save moved simp: evidence_def)
  have persist: "safe_log (snd (persist_world env x w rt s))" if p: "wo_phase x = PERSISTING_WORLD" for rt
    unfolding persist_world_def
  proof (rule safe_perform_then [OF ok s])
    fix state and s' :: "'p worker_state"
    assume s': "worlds_ok U s'" "safe_log s'" and l: "ws_log s' = ws_log s
      @ [Persisted (wd_id w) rt (effect_key x ''persist'') (Inr state)]"
    have "evidence (ws_log s') x" using l evidence_append [OF e] by simp
    moreover have "evidence (ws_log s') (x\<lparr> wo_phase := CREATING_BACKUP,
        wo_stored_state_id := Some (ss_id state), wo_stored_state_checksum := Some (ss_checksum state),
        wo_version := wo_version x + 1 \<rparr>)" if "ss_validated state"
      using l x(2) that by (auto simp: evidence_def persisted_in_def effect_key_def)
    ultimately show "safe_log (snd (if \<not> ss_validated state then needs_attention env x w s'
      else save_step env (x\<lparr> wo_phase := CREATING_BACKUP, wo_stored_state_id := Some (ss_id state),
            wo_stored_state_checksum := Some (ss_checksum state), wo_version := wo_version x + 1 \<rparr>)
         (wo_version x) None s'))"
      by (auto intro: save [OF s'] worker_phases_safe(2) [OF s' env log] simp del: One_nat_def)
  qed simp
  have backup: "safe_log (snd (create_sleep_backup env x w s))" if p: "wo_phase x = CREATING_BACKUP"
  proof (cases "wk_backup env")
    case None
    then show ?thesis by (simp add: create_sleep_backup_def s)
  next
    case (Some create_automatic)
    show ?thesis
      unfolding create_sleep_backup_def Some option.case
    proof (rule safe_on_ok [OF s], rule safe_perform_then [OF ok s])
      fix state b and s' :: "'p worker_state"
      assume st: "stored_state_for x = Inr state" and s': "worlds_ok U s'" "safe_log s'"
        and l: "ws_log s' = ws_log s @ [BackedUp (wd_id w) state (effect_key x ''backup'') (Inr b)]"
      have "persisted_in (ws_log s) x" using e x(1) p by (simp add: evidence_def)
      then have "secured (ws_log s') (wo_id x)" "persisted_in (ws_log s') x"
        using persisted_then_backed_up [of "ws_log s" x state] runtime_for_stored [OF st] l
        by (simp_all add: effect_key_def persisted_append)
      then have "evidence (ws_log s') (x\<lparr> wo_phase := RELEASING_RUNTIME, wo_backup_id := Some (bk_id b),
          wo_version := wo_version x + 1 \<rparr>)"
        by (simp add: evidence_def persisted_in_def)
      then show "safe_log (snd (save_step env (x\<lparr> wo_phase := RELEASING_RUNTIME,
          wo_backup_id := Some (bk_id b), wo_version := wo_version x + 1 \<rparr>) (wo_version x) None s'))"
        by (rule save [OF s'])
    qed simp
  qed
  have release: "safe_log (snd (release_sleeping env x w rt s))" if p: "wo_phase x = RELEASING_RUNTIME" for rt
    unfolding release_sleeping_def
  proof (rule safe_perform_then [OF ok s])
    have sec: "secured (ws_log s) (wo_id x)" using e x(1) p by (simp add: evidence_def)
    fix r rt' i r'
    assume "Released rt (effect_key x ''release'') r = Released rt' (i @ '':release'') r'"
    then have "i = wo_id x" by (simp add: effect_key_def)
    then show "secured (ws_log s) i" using sec by simp
  next
    fix a and s' :: "'p worker_state" assume s': "worlds_ok U s'" "safe_log s'"
      and l: "ws_log s' = ws_log s @ [Released rt (effect_key x ''release'') (Inr a)]"
    show "safe_log (snd (and_then (record_release env x True s') (\<lambda>_ s2. save_step env
        (x\<lparr> wo_status := OP_SUCCEEDED, wo_phase := COMPLETE, wo_version := wo_version x + 1 \<rparr>)
         (wo_version x)
         (Some (w\<lparr> wd_status := SLEEPING, wd_runtime_id := None, wd_runtime_reference := None,
            wd_stored_state_id := wo_stored_state_id x,
            wd_stored_state_checksum := wo_stored_state_checksum x, wd_session_quote_id := None,
            wd_usage_reservation_id := None, wd_runtime_started_at := None,
            wd_empty_since := None, wd_version := wd_version w + 1 \<rparr>, wd_version w)) s2)))"
    proof (intro safe_record_release_then [OF s'] save)
      fix s2 :: "'p worker_state" assume later: "\<exists>l. ws_log s2 = ws_log s' @ l"
      have "persisted_in (ws_log s) x" "secured (ws_log s) (wo_id x)"
        using e x(1) p by (simp_all add: evidence_def)
      then have "persisted_in (ws_log s2) x" "secured (ws_log s2) (wo_id x)"
        using later l by (auto intro: persisted_append secured_append)
      then show "evidence (ws_log s2)
          (x\<lparr> wo_status := OP_SUCCEEDED, wo_phase := COMPLETE, wo_version := wo_version x + 1 \<rparr>)"
        by (simp add: evidence_def persisted_in_def)
    qed assumption+
  qed
  show ?thesis
    unfolding advance_sleep_def
    by (intro safe_on_ok s)
      (auto intro!: safe_perform_then [OF ok s] moved players persist backup release
        simp: s ok split: operation_phase.split)
qed

lemma advance_recovery_safe:
  fixes env :: "'p worker_env"
  assumes ok: "worlds_ok U s" and s: "safe_log s" and env: "worker_env_ok U env"
    and log: "log_rivals_ok U (wk_rival env)" and x: "wo_operation_type x = RECOVER"
  shows "safe_log (snd (advance_recovery env d x w s))"
proof -
  have e: "wo_operation_type y = RECOVER \<Longrightarrow> evidence l y" for l y by (simp add: evidence_def)
  have moved: "safe_log (snd (move_to_phase env x q s'))" if "worlds_ok U s'" "safe_log s'" for s' q
    unfolding move_to_phase_def by (rule safe_save_step [OF that env log]) (simp add: e x)
  note then_save = safe_perform_then [OF ok s] safe_save_step [OF _ _ env log] e moved
  show ?thesis
    unfolding advance_recovery_def
    by (intro safe_on_ok s)
      (auto simp: check_recovery_health_def Let_def ok s x split: operation_phase.split
        intro!: then_save)
qed

lemma worker_read_safe:
  assumes ok: "worlds_ok U s" and s: "safe_log s" and env: "worker_env_ok U env"
    and log: "log_rivals_ok U (wk_rival env)" and x: "get_operation s acc i = Inr x"
    and f: "\<And>s1. worlds_ok U s1 \<Longrightarrow> safe_log s1 \<Longrightarrow> evidence (ws_log s1) x \<Longrightarrow> safe_log (snd (f s1))"
  shows "safe_log (snd (f (wk_rival env 0 s)))"
proof (rule safe_rival [OF ok s worker_env_okD [OF env] log, of 0])
  have "operation_lookup s i = Some x" using x by simp
  then have "evidence (ws_log s) x" by (rule evidence_read [OF s])
  then show "safe_log (snd (f (wk_rival env 0 s)))"
    if "worlds_ok U (wk_rival env 0 s)" "safe_log (wk_rival env 0 s)"
      "\<exists>l. ws_log (wk_rival env 0 s) = ws_log s @ l"
    using that by (intro f) (blast intro: evidence_longer)+
qed

lemma worker_safe:
  fixes env :: "'p worker_env"
  assumes ok: "worlds_ok U s" and s: "safe_log s" and env: "worker_env_ok U env"
    and log: "log_rivals_ok U (wk_rival env)"
  shows "safe_log (snd (advance env a i s))"
    and "safe_log (snd (mark_needs_attention env a i s))"
proof -
  show "safe_log (snd (advance env a i s))"
    unfolding advance_def Let_def
  proof (intro safe_on_ok [OF s] safe_if safe_leaf [OF s])
    fix x assume x: "get_operation s a i = Inr x" "\<not> is_terminal (wo_status x)"
    show "safe_log (snd (on_ok (world_get (wk_rival env 0 s) a (wo_world_id x)) (wk_rival env 0 s)
      (\<lambda>w. on_ok (wk_resolve env (wd_game_template_id w)) (wk_rival env 0 s)
        (\<lambda>d. case wo_operation_type x of WAKE \<Rightarrow> advance_wake env d x w (wk_rival env 0 s)
          | SLEEP \<Rightarrow> advance_sleep env d x w (wk_rival env 0 s)
          | RECOVER \<Rightarrow> advance_recovery env d x w (wk_rival env 0 s)))))"
      by (rule worker_read_safe [OF ok s env log x(1)])
        (use x(2) in \<open>auto intro!: safe_on_ok advance_wake_safe [OF _ _ env log]
          advance_sleep_safe [OF _ _ env log] advance_recovery_safe [OF _ _ env log]
          simp: terminal_iff split: operation_type.split\<close>)
  qed
  show "safe_log (snd (mark_needs_attention env a i s))"
    unfolding mark_needs_attention_def Let_def
  proof (intro safe_on_ok [OF s] safe_if safe_leaf [OF s])
    fix x assume x: "get_operation s a i = Inr x" "\<not> is_terminal (wo_status x)"
    have failed: "safe_log (snd (mark_wake_failed env x w s1))"
      if s1: "worlds_ok U s1" "safe_log s1" and t: "wo_operation_type x = WAKE" for w s1
    proof -
      have last: "safe_log (snd (save_step env
          (x\<lparr> wo_status := OP_NEEDS_ATTENTION, wo_version := wo_version x + 1 \<rparr>) n ww s'))"
        if "worlds_ok U s'" "safe_log s'" for n ww s'
        by (rule safe_save_step [OF that env log]) (simp add: evidence_def t)
      show ?thesis
      proof (cases "runtime_for x")
        case (Inl e)
        show ?thesis
          unfolding mark_wake_failed_unbound [OF Inl]
          by (cases "wk_usage env")
            (auto intro!: last s1 safe_perform_then [OF s1] simp del: One_nat_def)
      next
        case (Inr rt)
        show ?thesis
          unfolding mark_wake_failed_bound [OF Inr]
          by (intro safe_perform_then [OF s1] safe_record_release_then last)
            (auto simp: effect_key_def)
      qed
    qed
    show "safe_log (snd (on_ok (world_get (wk_rival env 0 s) a (wo_world_id x)) (wk_rival env 0 s)
      (\<lambda>w. if wo_operation_type x = WAKE then mark_wake_failed env x w (wk_rival env 0 s)
        else needs_attention env x w (wk_rival env 0 s))))"
      by (rule worker_read_safe [OF ok s env log x(1)])
        (auto intro!: safe_on_ok failed worker_phases_safe(2) [OF _ _ env log])
  qed
qed


lemma safe_perform_pair: "safe_log s \<Longrightarrow> (\<And>r rt k r'. l r \<noteq> Released rt k r') \<Longrightarrow>
    perform c l s = (res, s') \<Longrightarrow> safe_log s'"
  using safe_perform_other [of s l c] by simp

lemma settle_session_safe:
  fixes env :: "'p worker_env"
  assumes ok: "worlds_ok U s" and s: "safe_log s" and env: "worker_env_ok U env"
    and log: "log_rivals_ok U (wk_rival env)"
  shows "safe_log (snd (settle_session env acc w t idle e b s))"
proof -
  let ?s1 = "wk_rival env 1 s"
  have now: "worlds_ok U ?s1" "safe_log ?s1"
    using worlds_rivalD [OF worker_env_okD [OF env] ok, of 1] log_rivalsD [OF log ok s] by simp_all
  have saved: "safe_log s'" if "world_save w' n ?s1 = Inr s'" for w' n s'
    by (rule safe_world_save [OF now(2) that])
  have begun: "safe_log (snd (begin_operation w' (sleep_operation u w a i k t f) n ?s1))" for w' u a i k t f n
    by (rule safe_begin [OF now]) (simp_all add: sleep_operation_def new_operation_def)
  show ?thesis
    unfolding settle_session_def Let_def
    by (intro safe_if safe_on_ok safe_and_then safe_leaf s now(2) begun) (erule saved)
qed

lemma monitor_session_safe:
  fixes env :: "'p worker_env"
  assumes ok: "worlds_ok U s" and s: "safe_log s" and env: "worker_env_ok U env"
    and log: "log_rivals_ok U (wk_rival env)"
  shows "safe_log (snd (monitor_session env acc i t m s))"
proof -
  note settle = settle_session_safe [OF _ _ env log]
  have protect: "safe_log (snd (and_then (case wk_usage env of None \<Rightarrow> (Inr None, s1)
        | Some recorder \<Rightarrow> perform (ur_protect recorder w t) (SessionProtected (wd_id w) t) s1)
      (\<lambda>d. settle_session env acc w t idle e (d = Some True))))"
    if s1: "worlds_ok U s1" "safe_log s1" for w t s1 idle e
  proof (cases "wk_usage env")
    case None
    then show ?thesis by (simp add: settle [OF s1])
  next
    case (Some u)
    show ?thesis
      unfolding Some option.case by (rule safe_perform_then [OF s1]) (simp_all add: settle)
  qed
  show ?thesis
    unfolding monitor_session_def Let_def
    apply (intro safe_if safe_on_ok safe_leaf s)
    apply (rule safe_perform_then [OF ok s], simp)
    apply (erule (1) protect)
    done
qed

section \<open>World data\<close>

lemma save_world_step_safe:
  assumes ok: "worlds_ok U s" and s: "safe_log s" and env: "data_env_ok U env"
    and log: "log_rivals_ok U (da_rival env)"
  shows "safe_log (snd (save_world_step env k w n s))"
  unfolding save_world_step_def Let_def
  by (rule safe_on_ok [OF log_rivalsD [OF log ok s]], unfold snd_conv)
    (erule safe_world_save [OF log_rivalsD [OF log ok s]])

lemma data_safe:
  fixes env :: "'p data_env"
  assumes ok: "worlds_ok U s" and s: "safe_log s" and env: "data_env_ok U env"
    and log: "log_rivals_ok U (da_rival env)"
  shows "safe_log (snd (list_backups env a i u s))"
    and "safe_log (snd (create_manual_backup env a i u k s))"
    and "safe_log (snd (restore_backup env a i b u k s))"
    and "safe_log (snd (create_export env a i u k s))"
    and "safe_log (snd (schedule_deletion env a i u c k s))"
    and "safe_log (snd (cancel_deletion env a i u s))"
    and "safe_log (snd (purge_due_deletion env a i t s))"
proof -
  note saved = save_world_step_safe [OF _ _ env log]
  note log_rivalsD [OF log ok s, of 0]
  note now = this worlds_rivalD(1) [OF env [unfolded data_env_ok_def] ok, of 0]
  show "safe_log (snd (list_backups env a i u s))"
    unfolding list_backups_def by (rule safe_on_ok [OF s], rule safe_perform_other [OF s], simp)
  show "safe_log (snd (create_manual_backup env a i u k s))"
    unfolding create_manual_backup_def
    by (intro safe_on_ok s) (rule safe_perform_other [OF s], simp)
  show "safe_log (snd (restore_backup env a i b u k s))"
    unfolding restore_backup_def
    apply (intro safe_intros s)
    apply (rule safe_perform_then [OF ok s], simp)
    apply (intro safe_on_ok, assumption, assumption)
    apply (erule (1) safe_perform_then, simp)
    apply (erule (1) safe_perform_then, simp)
    apply (intro safe_if safe_leaf, assumption)
    apply (erule (1) saved)
    done
  show "safe_log (snd (create_export env a i u k s))"
    unfolding create_export_def Let_def
    by (intro safe_on_ok s now(1)) (rule safe_perform_other [OF now(1)], simp)
  show "safe_log (snd (schedule_deletion env a i u c k s))"
    unfolding schedule_deletion_def
    apply (intro safe_intros s)
    apply (rule safe_perform_then [OF ok s], simp)
    apply (erule (1) saved)
    done
  show "safe_log (snd (cancel_deletion env a i u s))"
    unfolding cancel_deletion_def by (intro safe_intros s) (rule saved [OF ok s])
  show "safe_log (snd (purge_due_deletion env a i t s))"
    unfolding purge_due_deletion_def Let_def
    apply (intro safe_intros s)
    apply (rule safe_perform_then [OF ok s], simp)
    subgoal premises p for w v s1
    proof -
      have s2: "worlds_ok U (da_rival env 0 s1)" "safe_log (da_rival env 0 s1)"
        using worlds_rivalD(1) [OF env [unfolded data_env_ok_def] p(3)] log_rivalsD [OF log p(3,4)]
        by simp_all
      show ?thesis
        by (intro safe_on_ok s2(2)) (simp add: safe_delete [OF s2])
    qed
    done
qed

section \<open>The whole component\<close>

fun call_rival :: "'p world_call \<Rightarrow> nat \<Rightarrow> 'p worker_state \<Rightarrow> 'p worker_state" where
  "call_rival (Create_world env a u n t r p) = wv_rival env"
| "call_rival (Update_runtime_settings env a i u m) = wv_rival env"
| "call_rival (Update_configuration env a i u c k og) = wv_rival env"
| "call_rival (Request_wake env a i u k) = wv_rival env"
| "call_rival (Attach_billing_session env a i q r) = wv_rival env"
| "call_rival (Fail_wake_preflight env a i) = wv_rival env"
| "call_rival (Request_sleep env a i u k f) = wv_rival env"
| "call_rival (Request_automatic_recovery env a i t k) = wv_rival env"
| "call_rival (Advance w a i) = wk_rival w"
| "call_rival (Mark_needs_attention w a i) = wk_rival w"
| "call_rival (Monitor_session w a i t m) = wk_rival w"
| "call_rival (List_backups d a i u) = da_rival d"
| "call_rival (Create_manual_backup d a i u k) = da_rival d"
| "call_rival (Restore_backup d a i b u k) = da_rival d"
| "call_rival (Create_export d a i u k) = da_rival d"
| "call_rival (Schedule_deletion d a i u c k) = da_rival d"
| "call_rival (Cancel_deletion d a i u) = da_rival d"
| "call_rival (Purge_due_deletion d a i t) = da_rival d"

lemma run_world_call_safe:
  "worlds_ok U s \<Longrightarrow> safe_log s \<Longrightarrow> call_env_ok U c \<Longrightarrow> log_rivals_ok U (call_rival c) \<Longrightarrow>
     safe_log (run_world_call c s)"
  by (cases c) (simp_all only: run_world_call.simps call_env_ok.simps call_rival.simps
      service_safe billing_safe worker_safe monitor_session_safe data_safe)

text \<open>The runs in which the other clients keep the Recovery Guarantee too.\<close>

inductive guarded_reach :: "string set \<Rightarrow> 'p worker_state \<Rightarrow> bool" where
  start: "guarded_reach {} (no_worlds p)"
| call: "guarded_reach U s \<Longrightarrow> call_env_ok U c \<Longrightarrow> log_rivals_ok U (call_rival c) \<Longrightarrow>
     guarded_reach (U \<union> call_ids c) (run_world_call c s)"

lemma guarded_reach_reach: "guarded_reach U s \<Longrightarrow> worlds_reach U s"
  by (induction rule: guarded_reach.induct) (auto intro: worlds_reach.intros)

lemma guarded_reach_safe: "guarded_reach U s \<Longrightarrow> safe_log s"
proof (induction rule: guarded_reach.induct)
  case (start p)
  show ?case
    by (simp add: safe_log_def releases_secured_def no_worlds_def operation_lookup_def)
next
  case (call U s c)
  show ?case
    by (rule run_world_call_safe [OF worlds_reach_ok [OF guarded_reach_reach [OF call.hyps(1)]]
          call.IH call.hyps(2,3)])
qed

end
