(* ===== verification/WorldRun.thy ===== *)
theory WorldRun
  imports SafeSleep
begin

text \<open>
  A concrete run of the Worlds component: one World is created, woken, played on and put to
  sleep again, with providers that succeed and no other client. The properties of the component
  are applied at its states.
\<close>

definition calm_env :: "char \<Rightarrow> instant \<Rightarrow> unit service_env" where
  "calm_env c t = \<lparr> wv_clock = (\<lambda>_. t), wv_uuid = (\<lambda>k. c # replicate k CHR ''0''),
     wv_rival = (\<lambda>_ s. s), wv_access = (\<lambda>_ _ _ _. Inr True), wv_storage = None,
     wv_catalog = with_palworld \<rparr>"

definition quiet_driver :: "unit game_driver" where
  "quiet_driver = \<lparr> gd_apply_configuration = (\<lambda>_ _ _ p. (Inr (), p)),
     gd_start = (\<lambda>_ _ _ p. (Inr (), p)), gd_is_healthy = (\<lambda>_ _ p. (Inr True, p)),
     gd_player_count = (\<lambda>_ _ p. (Inr 0, p)), gd_save = (\<lambda>_ _ _ p. (Inr (), p)),
     gd_stop = (\<lambda>_ _ _ p. (Inr (), p)) \<rparr>"

definition quiet_backup :: "world \<Rightarrow> stored_world_state \<Rightarrow> string \<Rightarrow> backup" where
  "quiet_backup w st key = \<lparr> bk_id = key, bk_account_id = wd_account_id w, bk_world_id = wd_id w,
     bk_state_id = ss_id st, bk_checksum = ss_checksum st, bk_kind = AUTOMATIC,
     bk_size_bytes = 0, bk_created_at = None \<rparr>"

definition quiet_worker :: "char \<Rightarrow> instant \<Rightarrow> unit worker_env" where
  "quiet_worker c t = \<lparr>
     wk_provision = (\<lambda>_ _ p. (Inr \<lparr> rt_id = ''rt'', rt_provider_reference = ''host'' \<rparr>, p)),
     wk_release = (\<lambda>_ _ p. (Inr (), p)), wk_restore = (\<lambda>_ _ _ p. (Inr (), p)),
     wk_persist = (\<lambda>_ _ _ p. (Inr \<lparr> ss_id = ''st'', ss_checksum = ''sum'', ss_validated = True \<rparr>, p)),
     wk_resolve = (\<lambda>_. Inr quiet_driver), wk_backup = Some (\<lambda>w st k p. (Inr (quiet_backup w st k), p)),
     wk_usage = None, wk_clock = (\<lambda>_. t), wk_uuid = [c], wk_rival = (\<lambda>_ s. s) \<rparr>"

fun run_calls :: "'p world_call list \<Rightarrow> 'p worker_state \<Rightarrow> 'p worker_state" where
  "run_calls [] s = s"
| "run_calls (c # cs) s = run_calls cs (run_world_call c s)"

definition creation :: "unit world_call" where
  "creation = Create_world (calm_env CHR ''w'' 0) ''acc'' ''owner'' ''Isle'' ''palworld:1'' ''br'' ''small''"

definition wake_request :: "unit world_call" where
  "wake_request = Request_wake (calm_env CHR ''a'' 1) ''acc'' ''w'' ''owner'' ''k1''"

definition sleep_request :: "unit world_call" where
  "sleep_request = Request_sleep (calm_env CHR ''b'' 2) ''acc'' ''w'' ''owner'' ''k2'' False"

definition advancing :: "string \<Rightarrow> unit world_call" where
  "advancing i = Advance (quiet_worker CHR ''m'' 3) ''acc'' i"

definition created :: "unit worker_state" where
  "created = run_calls [creation] (no_worlds ())"

definition online :: "unit worker_state" where
  "online = run_calls (wake_request # replicate 6 (advancing ''a'')) created"

definition asleep_again :: "unit worker_state" where
  "asleep_again = run_calls (sleep_request # replicate 7 (advancing ''b'')) online"

text \<open>Reading a result by the part of it that is of interest.\<close>

lemma map_sum_Inr: "map_sum id f r = Inr c \<Longrightarrow> \<exists>x. r = Inr x \<and> f x = c"
  by (cases r) auto

section \<open>Its states are reachable\<close>

fun calls_allowed :: "string set \<Rightarrow> 'p world_call list \<Rightarrow> bool" where
  "calls_allowed U [] = True"
| "calls_allowed U (c # cs) \<longleftrightarrow> call_env_ok U c \<and> log_rivals_ok U (call_rival c)
     \<and> calls_allowed (U \<union> call_ids c) cs"

fun calls_ids :: "string set \<Rightarrow> 'p world_call list \<Rightarrow> string set" where
  "calls_ids U [] = U"
| "calls_ids U (c # cs) = calls_ids (U \<union> call_ids c) cs"

lemma guarded_run:
  "guarded_reach U s \<Longrightarrow> calls_allowed U cs \<Longrightarrow> guarded_reach (calls_ids U cs) (run_calls cs s)"
  by (induction cs arbitrary: U s) (auto intro: guarded_reach.call)

lemma run_calls_append: "run_calls (cs @ ds) s = run_calls ds (run_calls cs s)"
  by (induction cs arbitrary: s) simp_all

lemma calls_allowed_append:
  "calls_allowed U (cs @ ds) \<longleftrightarrow> calls_allowed U cs \<and> calls_allowed (calls_ids U cs) ds"
  by (induction cs arbitrary: U) simp_all

lemma calls_ids_append: "calls_ids U (cs @ ds) = calls_ids (calls_ids U cs) ds"
  by (induction cs arbitrary: U) simp_all

lemma leads_run_from:
  "worlds_leads U0 s0 U s \<Longrightarrow> calls_allowed U cs \<Longrightarrow>
     worlds_leads U0 s0 (calls_ids U cs) (run_calls cs s)"
  by (induction cs arbitrary: U s) (auto intro: worlds_leads.after)

lemmas leads_run = leads_run_from [OF worlds_leads.now]

lemma quiet_rivals [simp]: "worlds_rivals_ok U (\<lambda>_ s. s)" "log_rivals_ok U (\<lambda>_ s. s)"
  by (simp_all add: worlds_rivals_ok_def log_rivals_ok_def)

lemma inj_tagged: "inj (\<lambda>k. c # replicate k d)"
  by (simp add: inj_def)

lemma quiet_worker_simps [simp]:
  "wk_uuid (quiet_worker c t) = [c]" "wk_rival (quiet_worker c t) = (\<lambda>_ s. s)"
  by (simp_all add: quiet_worker_def)

lemma calm_env_simps [simp]:
  "worlds_uuids (calm_env c t) = range (\<lambda>k. c # replicate k CHR ''0'')"
  "wv_rival (calm_env c t) = (\<lambda>_ s. s)"
  by (simp_all add: calm_env_def worlds_uuids_def)

lemma calm_env_ok: "(\<And>i. i \<in> U \<Longrightarrow> hd i \<noteq> c) \<Longrightarrow> worlds_env_ok U (calm_env c t)"
  by (force simp: worlds_env_ok_def worlds_uuids_def calm_env_def inj_tagged)

lemma quiet_worker_ok: "(\<And>i. i \<in> U \<Longrightarrow> hd i \<noteq> c) \<Longrightarrow> worker_env_ok U (quiet_worker c t)"
  by (force simp: worker_env_ok_def quiet_worker_def)

lemma quiet_calls:
  "call_ids creation = range (\<lambda>k. CHR ''w'' # replicate k CHR ''0'')"
  "call_ids wake_request = range (\<lambda>k. CHR ''a'' # replicate k CHR ''0'')"
  "call_ids sleep_request = range (\<lambda>k. CHR ''b'' # replicate k CHR ''0'')"
  "call_ids (advancing i) = {}"
  "call_env_ok U creation = worlds_env_ok U (calm_env CHR ''w'' 0)"
  "call_env_ok U wake_request = worlds_env_ok U (calm_env CHR ''a'' 1)"
  "call_env_ok U sleep_request = worlds_env_ok U (calm_env CHR ''b'' 2)"
  "call_env_ok U (advancing i) = worker_env_ok U (quiet_worker CHR ''m'' 3)"
  "log_rivals_ok U (call_rival creation)" "log_rivals_ok U (call_rival wake_request)"
  "log_rivals_ok U (call_rival sleep_request)" "log_rivals_ok U (call_rival (advancing i))"
  by (simp_all add: creation_def wake_request_def sleep_request_def advancing_def)

definition creation_ids :: "string set" where
  "creation_ids = calls_ids {} [creation]"

definition online_ids :: "string set" where
  "online_ids = calls_ids creation_ids (wake_request # replicate 6 (advancing ''a''))"

lemma creation_allowed: "calls_allowed {} [creation]"
  by (auto simp: quiet_calls intro: calm_env_ok)

lemma advancing_allowed:
  assumes "\<And>u. u \<in> U \<Longrightarrow> hd u \<noteq> CHR ''m''"
  shows "calls_allowed U (replicate n (advancing i))" and "calls_ids U (replicate n (advancing i)) = U"
  using assms by (induction n) (auto simp: quiet_calls quiet_worker_ok)

lemma creation_ids_hd: "u \<in> creation_ids \<Longrightarrow> hd u = CHR ''w''"
  by (auto simp: creation_ids_def quiet_calls)

lemma wake_allowed: "calls_allowed creation_ids (wake_request # replicate 6 (advancing ''a''))"
  by (auto simp: quiet_calls intro!: calm_env_ok advancing_allowed dest: creation_ids_hd)

lemma online_ids_hd: "u \<in> online_ids \<Longrightarrow> hd u \<in> {CHR ''w'', CHR ''a''}"
proof -
  have "online_ids = creation_ids \<union> call_ids wake_request"
    unfolding online_ids_def calls_ids.simps
    by (rule advancing_allowed(2)) (auto simp: quiet_calls dest: creation_ids_hd)
  then show "u \<in> online_ids \<Longrightarrow> hd u \<in> {CHR ''w'', CHR ''a''}"
    by (auto simp: quiet_calls dest: creation_ids_hd)
qed

lemma sleep_allowed: "calls_allowed online_ids (sleep_request # replicate 7 (advancing ''b''))"
  by (auto simp: quiet_calls intro!: calm_env_ok advancing_allowed dest!: online_ids_hd)

lemma created_reach: "guarded_reach creation_ids created"
  unfolding created_def creation_ids_def
  by (rule guarded_run [OF guarded_reach.start creation_allowed])

lemma online_reach: "guarded_reach online_ids online"
  unfolding online_def online_ids_def by (rule guarded_run [OF created_reach wake_allowed])

lemma asleep_again_reach:
  "guarded_reach (calls_ids online_ids (sleep_request # replicate 7 (advancing ''b''))) asleep_again"
  unfolding asleep_again_def by (rule guarded_run [OF online_reach sleep_allowed])

end
