(* ===== verification/WorldProperties.thy ===== *)
theory WorldProperties
  imports WorldRun
begin

text \<open>
  The properties of the Worlds component: the Recovery Guarantee of a safe sleep, one operation at
  a time, the lifecycle of an operation, and the configurations that are stored.
\<close>

section \<open>The Recovery Guarantee\<close>

text \<open>
  C23. Safe sleep (docs/adr/0006): in every run, whatever the providers answer and whatever other
  clients do between two accesses as long as they keep the log sound, the Runtime of a Sleep
  Operation is released only after that operation persisted the World, the stored state was
  validated, and that very state, by identifier and checksum, was backed up.
\<close>

theorem sleep_releases_only_what_is_backed_up:
  assumes "guarded_reach U s" and "ws_log s = p @ Released rt (i @ '':release'') r # u"
  shows "\<exists>p1 p2 p3 w rt' state v backed b.
     p = p1 @ Persisted w rt' (i @ '':persist'') (Inr state) # p2
           @ BackedUp v backed (i @ '':backup'') (Inr b) # p3
     \<and> ss_validated state \<and> ss_id backed = ss_id state \<and> ss_checksum backed = ss_checksum state"
proof -
  have "secured p i"
    using guarded_reach_safe [OF assms(1)] assms(2) unfolding safe_log_def releases_secured_def by blast
  then show ?thesis unfolding secured_def by blast
qed

lemma sleep_releases_only_what_is_backed_up_witness:
  "\<exists>rt r p. ws_log asleep_again = p @ [Released rt (''b'' @ '':release'') r]
     \<and> (\<exists>p1 p2 p3 w rt' state v backed b.
     p = p1 @ Persisted w rt' (''b'' @ '':persist'') (Inr state) # p2
           @ BackedUp v backed (''b'' @ '':backup'') (Inr b) # p3
     \<and> ss_validated state \<and> ss_id backed = ss_id state \<and> ss_checksum backed = ss_checksum state)"
proof -
  let ?rt = "\<lparr> rt_id = ''rt'', rt_provider_reference = ''host'' \<rparr>"
  have "drop 10 (ws_log asleep_again) = [Released ?rt (''b'' @ '':release'') (Inr ())]" by code_simp
  then have log: "ws_log asleep_again
      = take 10 (ws_log asleep_again) @ [Released ?rt (''b'' @ '':release'') (Inr ())]"
    using append_take_drop_id [of 10 "ws_log asleep_again"] by simp
  show ?thesis using sleep_releases_only_what_is_backed_up [OF asleep_again_reach log] log by blast
qed

section \<open>One operation at a time\<close>

lemma distinct_all_equal: "distinct xs \<Longrightarrow> (\<And>x y. x \<in> set xs \<Longrightarrow> y \<in> set xs \<Longrightarrow> x = y) \<Longrightarrow> length xs \<le> 1"
  by (metis card_le_Suc0_iff_eq distinct_card finite_set One_nat_def)

text \<open>
  C24. In every reachable state at most one operation of a World is active, and it is in step with
  its World: the World exists, is Waking or, for a sleep, Going to sleep, and from the moment there
  is a Runtime the World and the operation hold the same one.
\<close>

theorem one_active_operation_per_world:
  assumes "worlds_reach U s"
  shows "length (filter (\<lambda>x. is_active (wo_status x)) (list_operations_of s a i)) \<le> 1
     \<and> (\<forall>x \<in> set (list_operations_of s a i). is_active (wo_status x) \<longrightarrow>
          (\<exists>w. world_get s a i = Inr w
             \<and> wd_status w = (if wo_operation_type x = SLEEP then GOING_TO_SLEEP else WAKING)
             \<and> (wo_operation_type x \<noteq> WAKE \<or> wo_phase x \<notin> {REQUESTED, PROVISIONING_RUNTIME} \<longrightarrow>
                  wd_runtime_id w \<noteq> None \<and> wo_runtime_id x = wd_runtime_id w
                  \<and> wo_runtime_reference x = wd_runtime_reference w)))"
proof
  have ok: "worlds_ok U s" by (rule worlds_reach_ok [OF assms])
  note mem = list_operations_of_iff [OF ok]
  show "length (filter (\<lambda>x. is_active (wo_status x)) (list_operations_of s a i)) \<le> 1"
  proof (rule distinct_all_equal)
    show "distinct (filter (\<lambda>x. is_active (wo_status x)) (list_operations_of s a i))"
      using list_operations_of_distinct [OF ok, of a i] by (simp add: distinct_map)
    fix x y
    assume "x \<in> set (filter (\<lambda>x. is_active (wo_status x)) (list_operations_of s a i))"
      and "y \<in> set (filter (\<lambda>x. is_active (wo_status x)) (list_operations_of s a i))"
    then have xy: "operation_lookup s (wo_id x) = Some x" "operation_lookup s (wo_id y) = Some y"
      "is_active (wo_status x)" "is_active (wo_status y)" "operation_key x = operation_key y"
      by (simp_all add: mem)
    have "active_lookup s (operation_key x) = Some (wo_id x)"
      "active_lookup s (operation_key y) = Some (wo_id y)"
      by (rule worlds_okD(7) [OF ok], rule xy, rule xy)+
    then show "x = y" using xy by simp
  qed
  show "\<forall>x \<in> set (list_operations_of s a i). is_active (wo_status x) \<longrightarrow>
          (\<exists>w. world_get s a i = Inr w
             \<and> wd_status w = (if wo_operation_type x = SLEEP then GOING_TO_SLEEP else WAKING)
             \<and> (wo_operation_type x \<noteq> WAKE \<or> wo_phase x \<notin> {REQUESTED, PROVISIONING_RUNTIME} \<longrightarrow>
                  wd_runtime_id w \<noteq> None \<and> wo_runtime_id x = wd_runtime_id w
                  \<and> wo_runtime_reference x = wd_runtime_reference w))"
  proof (intro ballI impI)
    fix x assume "x \<in> set (list_operations_of s a i)" and act: "is_active (wo_status x)"
    then have x: "operation_lookup s (wo_id x) = Some x" "operation_key x = (a, i)"
      by (simp_all add: mem)
    then have "active_lookup s (a, i) = Some (wo_id x)" using worlds_okD(7) [OF ok x(1) act] by simp
    then obtain w where w: "world_lookup s (a, i) = Some w" "linked w x"
      using activeE [OF ok] x by (metis option.inject)
    then show "\<exists>w. world_get s a i = Inr w
             \<and> wd_status w = (if wo_operation_type x = SLEEP then GOING_TO_SLEEP else WAKING)
             \<and> (wo_operation_type x \<noteq> WAKE \<or> wo_phase x \<notin> {REQUESTED, PROVISIONING_RUNTIME} \<longrightarrow>
                  wd_runtime_id w \<noteq> None \<and> wo_runtime_id x = wd_runtime_id w
                  \<and> wo_runtime_reference x = wd_runtime_reference w)"
      by (intro exI [of _ w]) (auto simp: linked_def bound_def)
  qed
qed

lemma one_active_operation_per_world_witness:
  "length (filter (\<lambda>x. is_active (wo_status x)) (list_operations_of online ''acc'' ''w'')) \<le> 1
     \<and> list_operations_of online ''acc'' ''w'' \<noteq> []"
proof
  show "length (filter (\<lambda>x. is_active (wo_status x)) (list_operations_of online ''acc'' ''w'')) \<le> 1"
    using one_active_operation_per_world [OF guarded_reach_reach [OF online_reach]] by blast
  show "list_operations_of online ''acc'' ''w'' \<noteq> []" by code_simp
qed

section \<open>The lifecycle of an operation\<close>

text \<open>
  C25. Refinement of the specified lifecycle: from a reachable state to any later one, an operation
  moves by transitions of \<open>lifecycle\<close> only, so an operation that has ended stays as it ended; what
  was requested never changes, the version tells whether anything changed, and a billing session
  that was attached is never replaced.
\<close>

theorem operations_follow_the_lifecycle:
  assumes "worlds_reach U s" and "worlds_leads U s V s'"
    and "get_operation s a i = Inr x" and "get_operation s' a i = Inr y"
  shows "(lifecycle (wo_operation_type x))\<^sup>*\<^sup>* (wo_status x, wo_phase x) (wo_status y, wo_phase y)
     \<and> (is_terminal (wo_status x) \<longrightarrow> wo_status y = wo_status x \<and> wo_phase y = wo_phase x)
     \<and> same_request x y \<and> wo_version x \<le> wo_version y \<and> (wo_version y = wo_version x \<longrightarrow> y = x)
     \<and> (wo_session_quote_id x \<noteq> None \<longrightarrow> same_session x y)"
proof -
  have ok: "worlds_ok U s" by (rule worlds_reach_ok [OF assms(1)])
  have x: "operation_lookup s i = Some x" and y: "operation_lookup s' i = Some y"
    using assms(3,4) by simp_all
  have "worlds_later U s s'" using worlds_leads_later [OF assms(2) ok] by blast
  then have e: "operation_evolves x y"
    using worlds_okD(5) [OF ok x] x y by (force simp: worlds_later_def operations_evolve_def)
  moreover have "is_terminal (wo_status x) \<longrightarrow> point y = point x"
    using evolves_terminal [OF e] by (simp add: terminal_iff)
  ultimately show ?thesis by (simp add: operation_evolves_def point_def)
qed

lemma operations_follow_the_lifecycle_witness:
  "\<exists>x y. get_operation (run_calls [wake_request] created) ''acc'' ''a'' = Inr x
     \<and> get_operation online ''acc'' ''a'' = Inr y
     \<and> (lifecycle WAKE)\<^sup>*\<^sup>* (OP_PENDING, REQUESTED) (OP_SUCCEEDED, COMPLETE)"
proof -
  let ?s = "run_calls [wake_request] created" and ?V = "calls_ids creation_ids [wake_request]"
  have cs: "wake_request # replicate 6 (advancing ''a'') = [wake_request] @ replicate 6 (advancing ''a'')"
    by simp
  have ok: "calls_allowed creation_ids [wake_request]"
    "calls_allowed ?V (replicate 6 (advancing ''a''))"
    using wake_allowed unfolding cs calls_allowed_append by blast+
  have r: "worlds_reach ?V ?s" by (rule guarded_reach_reach [OF guarded_run [OF created_reach ok(1)]])
  have l: "worlds_leads ?V ?s (calls_ids ?V (replicate 6 (advancing ''a''))) online"
    using leads_run [OF ok(2), of ?s] by (simp add: online_def)
  have "map_sum id (\<lambda>x. (wo_operation_type x, wo_status x, wo_phase x))
      (get_operation ?s ''acc'' ''a'') = Inr (WAKE, OP_PENDING, REQUESTED)"
    and "map_sum id (\<lambda>x. (wo_status x, wo_phase x))
      (get_operation online ''acc'' ''a'') = Inr (OP_SUCCEEDED, COMPLETE)" by code_simp+
  then obtain x y where "get_operation ?s ''acc'' ''a'' = Inr x" "get_operation online ''acc'' ''a'' = Inr y"
    and "wo_operation_type x = WAKE" "wo_status x = OP_PENDING" "wo_phase x = REQUESTED"
    and "wo_status y = OP_SUCCEEDED" "wo_phase y = COMPLETE"
    by (force dest!: map_sum_Inr simp del: get_operation_Inr)
  with operations_follow_the_lifecycle [OF r l] show ?thesis by metis
qed

section \<open>Configurations\<close>

text \<open>
  C26. Whatever settings were sent in, in every reachable state the Configuration Revision a World
  runs with, and the one it runs with next, exist, belong to the World, and hold a value for every
  Palworld setting, of its type and within its limits.
\<close>

theorem stored_configurations_are_valid:
  assumes "worlds_reach U s" and "world_get s a i = Inr w"
    and "j \<in> {wd_configuration_revision_id w, latest_revision_id w}"
  shows "\<exists>r. get_configuration_of s a i j = Inr r \<and> entries_ok (cr_entries r) FIELDS"
proof -
  have ok: "worlds_ok U s" by (rule worlds_reach_ok [OF assms(1)])
  have w: "world_lookup s (a, i) = Some w" using assms(2) by simp
  have "world_key w = (a, i)" "world_ok s w"
    using worlds_okD(1) [OF ok w] worlds_okD(3) [OF ok w] .
  then have "revision_of s (a, i) j"
    using assms(3) by (auto simp: world_ok_def latest_revision_id_def split: option.splits if_splits)
  then obtain r where "revision_lookup s j = Some r" "cr_account_id r = a" "cr_world_id r = i"
    by (auto simp: revision_of_def)
  then show ?thesis using worlds_okD(9) [OF ok] by (auto simp: valid_entries_def)
qed

lemma stored_configurations_are_valid_witness:
  "\<exists>r. get_configuration_of online ''acc'' ''w'' ''w0'' = Inr r \<and> entries_ok (cr_entries r) FIELDS"
proof -
  have "map_sum id wd_configuration_revision_id (world_get online ''acc'' ''w'') = Inr ''w0''" by code_simp
  then obtain w where w: "world_get online ''acc'' ''w'' = Inr w" and j: "wd_configuration_revision_id w = ''w0''"
    by (blast dest: map_sum_Inr)
  show ?thesis
    by (rule stored_configurations_are_valid [OF guarded_reach_reach [OF online_reach] w]) (simp add: j)
qed

end
