(* ===== verification/WorkerProperties.thy ===== *)
theory WorkerProperties
  imports WorldRun
begin

text \<open>
  Progress of the worker: a call of \<open>advance\<close> that returns has stored the operation it returns,
  one transition of the lifecycle further. With the phases that are left, this bounds the passes
  of \<open>run_to_completion\<close>, whatever other clients do in between.
\<close>

definition advances :: "world_operation \<Rightarrow> world_operation result \<times> 'p worker_state \<Rightarrow> bool" where
  "advances x p \<longleftrightarrow> (\<forall>y. fst p = Inr y \<longrightarrow> operation_lookup (snd p) (wo_id x) = Some y
     \<and> lifecycle (wo_operation_type x) (point x) (point y) \<and> wo_operation_type y = wo_operation_type x)"

lemma advances_error [simp]: "advances x (Inl e, s)"
  by (simp add: advances_def)

lemma advances_on_ok: "(\<And>a. r = Inr a \<Longrightarrow> advances x (f a)) \<Longrightarrow> advances x (on_ok r s f)"
  by (cases r) simp_all

lemma advances_and_then: "(\<And>a s'. advances x (f a s')) \<Longrightarrow> advances x (and_then p f)"
  unfolding and_then_def by (rule advances_on_ok)

lemma advances_if: "(c \<Longrightarrow> advances x p) \<Longrightarrow> (\<not> c \<Longrightarrow> advances x q) \<Longrightarrow> advances x (if c then p else q)"
  by simp

lemma save_operation_stored:
  "save_operation y n ww s = Inr s' \<Longrightarrow> operation_lookup s' (wo_id y) = Some y"
  by (cases ww) (auto simp: save_operation_def Let_def operation_lookup_def
      dest!: world_save_state split: option.splits sum.splits if_splits)

lemma advances_save:
  assumes "wo_id y = wo_id x" "wo_operation_type y = wo_operation_type x"
    and "lifecycle (wo_operation_type x) (point x) (wo_status y, wo_phase y)"
  shows "advances x (save_step env y n ww s)"
  using assms unfolding save_step_def Let_def
  by (intro advances_on_ok) (auto simp: advances_def point_def dest!: save_operation_stored)

lemma advances_move:
  "is_active (wo_status x) \<Longrightarrow> next_phase (wo_operation_type x) (wo_phase x) q \<Longrightarrow>
     advances x (move_to_phase env x q s)"
  unfolding move_to_phase_def by (rule advances_save) (simp_all add: point_def lifecycle.moves)

lemma advances_attention:
  "is_active (wo_status x) \<Longrightarrow> advances x (needs_attention env x w s)"
  unfolding needs_attention_def by (rule advances_save) (simp_all add: point_def lifecycle.gives_up)

lemma running_past_request: "operation_ok x \<Longrightarrow> is_active (wo_status x) \<Longrightarrow> wo_phase x \<noteq> REQUESTED \<Longrightarrow>
    wo_status x = OP_RUNNING"
  by (cases "wo_status x") (auto simp: operation_ok_def)

lemma advances_wake:
  assumes "operation_ok x" "is_active (wo_status x)" "wo_operation_type x = WAKE"
  shows "advances x (advance_wake env d x w s)"
  unfolding advance_wake_def
  using assms running_past_request [OF assms(1,2)]
  by (intro advances_if advances_on_ok)
    (auto simp: provision_runtime_def apply_configuration_step_def check_wake_health_def
      release_failed_wake_def next_phase_simps final_step.simps lifecycle.simps point_def Let_def
      split: operation_phase.split option.split
      intro!: advances_and_then advances_move advances_save)

lemma advances_sleep:
  assumes "operation_ok x" "is_active (wo_status x)" "wo_operation_type x = SLEEP"
  shows "advances x (advance_sleep env d x w s)"
  unfolding advance_sleep_def
  using assms running_past_request [OF assms(1,2)]
  by (intro advances_on_ok)
    (auto simp: check_players_def persist_world_def create_sleep_backup_def release_sleeping_def
      next_phase_simps final_step.simps lifecycle.simps point_def
      split: operation_phase.split option.split
      intro!: advances_and_then advances_on_ok advances_move advances_save advances_attention)

lemma advances_recovery:
  assumes "operation_ok x" "is_active (wo_status x)" "wo_operation_type x = RECOVER"
  shows "advances x (advance_recovery env d x w s)"
  unfolding advance_recovery_def
  using assms
  by (intro advances_on_ok)
    (auto simp: check_recovery_health_def next_phase_simps final_step.simps lifecycle.simps
      point_def Let_def split: operation_phase.split
      intro!: advances_and_then advances_move advances_save)

lemma advance_progress:
  assumes s: "worlds_ok U s" and x: "get_operation s a i = Inr x" and act: "is_active (wo_status x)"
  shows "advances x (advance env a i s)"
proof -
  have x': "operation_lookup s i = Some x" using x by simp
  have ok: "operation_ok x" by (rule worlds_okD(6) [OF s x'])
  show ?thesis
    unfolding advance_def x on_ok_simps Let_def using act
    by (auto simp: terminal_iff intro!: advances_on_ok advances_wake [OF ok] advances_sleep [OF ok]
        advances_recovery [OF ok] split: operation_type.split)
qed

section \<open>The loop ends\<close>

text \<open>The steps an operation still has, at most; none if it is gone.\<close>

definition steps_of :: "'s world_store_scheme \<Rightarrow> string \<Rightarrow> nat" where
  "steps_of s i = (case operation_lookup s i of
      None \<Rightarrow> 0 | Some x \<Rightarrow> steps_left (wo_operation_type x) (point x))"

lemma steps_of_le: "steps_of s i \<le> 8"
  using phases_left_le by (auto simp: steps_of_def point_def split: option.split)

lemma steps_of_later:
  assumes ok: "worlds_ok U s" and later: "worlds_later U s s'" and x: "operation_lookup s i = Some x"
  shows "steps_of s' i \<le> steps_of s i"
proof (cases "operation_lookup s' i")
  case (Some y)
  have "operation_evolves x y"
    using later Some x worlds_okD(5) [OF ok x] by (force simp: worlds_later_def operations_evolve_def)
  then show ?thesis
    using Some x lifecycle_rtrancl_steps [of "wo_operation_type x" "point x" "point y"]
    by (simp add: steps_of_def operation_evolves_def same_request_def)
qed (simp add: steps_of_def)

lemma later_gone:
  assumes "worlds_later U s s'" "i \<in> U" "operation_lookup s i = None"
  shows "operation_lookup s' i = None"
  using assms by (force simp: worlds_later_def operations_evolve_def)

text \<open>One pass that goes on leaves fewer steps, unless the operation has ended.\<close>

lemma pass_decreases:
  assumes s: "worlds_ok U s" and env: "worker_env_ok U env" and x: "get_operation s a i = Inr x"
    and y: "fst (advance env a i (wk_rival env 2 s)) = Inr y"
  shows "steps_of (wk_rival env 3 (snd (advance env a i (wk_rival env 2 s)))) i \<le> steps_of s i - 1"
proof -
  let ?s = "wk_rival env 2 s"
  let ?p = "advance env a i ?s"
  have x': "operation_lookup s i = Some x" using x by simp
  note rivals = worker_env_okD [OF env]
  have s1: "worlds_ok U ?s" and le: "steps_of ?s i \<le> steps_of s i"
    using worlds_rivalD [OF rivals s, of 2] steps_of_later [OF s _ x'] by blast+
  obtain z where z: "get_operation ?s a i = Inr z"
    using y by (cases "get_operation ?s a i") (simp_all add: advance_def)
  then have z': "operation_lookup ?s i = Some z" by simp
  have s2: "worlds_ok U (snd ?p)"
    using advance_ok [OF s1 env, of "{}" a i] by (simp add: worlds_step_def)
  have last: "steps_of (wk_rival env 3 (snd ?p)) i \<le> steps_of (snd ?p) i"
    if "operation_lookup (snd ?p) i = Some y'" for y'
    using worlds_rivalD(2) [OF rivals s2, of 3] steps_of_later [OF s2 _ that] by blast
  have i: "wo_id z = i" by (rule worlds_okD(4) [OF s1 z'])
  show ?thesis
  proof (cases "is_active (wo_status z)")
    case True
    have "advances z ?p" by (rule advance_progress [OF s1 z True])
    then have st: "operation_lookup (snd ?p) i = Some y"
      and "lifecycle (wo_operation_type z) (point z) (point y)" "wo_operation_type y = wo_operation_type z"
      using y i by (simp_all add: advances_def)
    then have "steps_of (snd ?p) i < steps_of ?s i"
      using z' lifecycle_decreases by (simp add: steps_of_def)
    then show ?thesis using last [OF st] le by linarith
  next
    case False
    then have "?p = (Inr z, ?s)" using z by (simp add: advance_def terminal_iff del: get_operation_Inr)
    moreover have "steps_of ?s i = 0" using False z' by (simp add: steps_of_def point_def terminal_iff)
    ultimately show ?thesis using last [of z] z' by simp
  qed
qed

lemma run_to_completion_total:
  assumes "worlds_ok U s" "\<And>k. worker_env_ok U (envs k)" "steps_of s i \<le> n"
  shows "\<exists>r s'. run_to_completion envs k a i s = Some (r, s')
     \<and> (\<forall>y. r = Inr y \<longrightarrow> get_operation s' a i = Inr y \<and> is_terminal (wo_status y))"
  using assms
proof (induction n arbitrary: s k)
  case 0
  have "is_terminal (wo_status x)" if "get_operation s a i = Inr x" for x
    using 0(3) that phases_left_pos [of "wo_operation_type x" "wo_phase x"]
    by (auto simp: steps_of_def point_def split: if_splits)
  then show ?case
    by (subst run_to_completion.simps) (auto split: sum.split simp del: get_operation_Inr)
next
  case (Suc n)
  let ?s = "wk_rival (envs k) 2 s"
  let ?p = "advance (envs k) a i ?s"
  note env = Suc.prems(2) [of k]
  note rivals = worker_env_okD [OF env]
  show ?case
  proof (cases "get_operation s a i")
    case (Inl e)
    then show ?thesis by (subst run_to_completion.simps) simp
  next
    case (Inr x)
    show ?thesis
    proof (cases "is_terminal (wo_status x) \<or> (\<exists>e. fst ?p = Inl e)")
      case True
      then show ?thesis using Inr
        by (subst run_to_completion.simps) (auto simp: Let_def simp del: get_operation_Inr)
    next
      case False
      then obtain y where y: "fst ?p = Inr y" and t: "\<not> is_terminal (wo_status x)"
        by (cases "fst ?p") auto
      have "worlds_ok U (snd ?p)"
        using advance_ok [OF worlds_rivalD(1) [OF rivals Suc.prems(1)] env, of "{}" 2 a i]
        by (simp add: worlds_step_def)
      then have ok: "worlds_ok U (wk_rival (envs k) 3 (snd ?p))" by (rule worlds_rivalD(1) [OF rivals])
      have "steps_of (wk_rival (envs k) 3 (snd ?p)) i \<le> n"
        using pass_decreases [OF Suc.prems(1) env Inr y] Suc.prems(3) by linarith
      from Suc.IH [OF ok Suc.prems(2) this]
      show ?thesis using Inr t y
        by (subst run_to_completion.simps) (simp add: Let_def del: get_operation_Inr)
    qed
  qed
qed

section \<open>The properties\<close>


text \<open>
  The properties of the worker and of Automatic Recovery: the loop that runs an operation ends,
  and a World is not restarted more than three times in fifteen minutes.
\<close>

text \<open>
  C27. Termination: in every reachable state \<open>run_to_completion\<close> returns or raises, whatever the
  providers answer and whatever other clients do to the repository before, between and inside the
  passes of the loop (each pass has an environment of its own); what it returns is the operation
  as it is stored, and it has ended.
\<close>

theorem run_to_completion_terminates:
  assumes "worlds_reach U s" and "\<And>k. worker_env_ok U (envs k)"
  shows "\<exists>r s'. run_to_completion envs 0 a i s = Some (r, s')
     \<and> (\<forall>x. r = Inr x \<longrightarrow> get_operation s' a i = Inr x \<and> is_terminal (wo_status x))"
  by (rule run_to_completion_total [OF worlds_reach_ok [OF assms(1)] assms(2) order_refl])

lemma run_to_completion_terminates_witness:
  "\<exists>r s'. run_to_completion (\<lambda>_. quiet_worker CHR ''m'' 3) 0 ''acc'' ''a''
       (run_calls [wake_request] created) = Some (r, s')
     \<and> (\<forall>x. r = Inr x \<longrightarrow> get_operation s' ''acc'' ''a'' = Inr x \<and> is_terminal (wo_status x))"
proof -
  have "calls_allowed creation_ids [wake_request]" using wake_allowed by simp
  then have "worlds_reach (calls_ids creation_ids [wake_request]) (run_calls [wake_request] created)"
    by (intro guarded_reach_reach guarded_run created_reach)
  moreover have "worker_env_ok (calls_ids creation_ids [wake_request]) (quiet_worker CHR ''m'' 3)"
    by (rule quiet_worker_ok) (auto simp: quiet_calls dest: creation_ids_hd)
  ultimately show ?thesis by (rule run_to_completion_terminates)
qed

section \<open>Automatic Recovery\<close>

abbreviation recoveries :: "'s world_store_scheme \<Rightarrow> string \<Rightarrow> string \<Rightarrow> instant \<Rightarrow> world_operation list" where
  "recoveries s a i since \<equiv> filter (\<lambda>x. wo_operation_type x = RECOVER \<and> since \<le> wo_created_at x)
     (list_operations_of s a i)"

lemma recoveries_not_more:
  assumes ok: "worlds_ok U b" "worlds_ok U c" and later: "worlds_later U b c"
    and w: "i \<in> U" "world_lookup b (acc, i) = Some w" "world_lookup c (acc, i) = Some w"
  shows "wo_id ` set (recoveries c acc i t) \<subseteq> wo_id ` set (recoveries b acc i t)"
proof
  fix j assume "j \<in> wo_id ` set (recoveries c acc i t)"
  then obtain y where y: "y \<in> set (list_operations_of c acc i)" "wo_id y = j"
    "wo_operation_type y = RECOVER" "t \<le> wo_created_at y" by auto
  obtain x where "x \<in> set (list_operations_of b acc i)" "wo_id x = wo_id y" "same_request x y"
    by (rule begun_earlier [OF ok later refl w y(1)])
  then show "j \<in> wo_id ` set (recoveries b acc i t)"
    using y by (force simp: same_request_def image_iff)
qed

lemma snd_dict_set: "snd ` set (dict_set k v d) \<subseteq> insert v (snd ` set d)"
  by (induction d) auto

lemma recoveries_begin:
  assumes ok: "worlds_ok U c" and x: "operation_key x = (acc, i)" "operation_lookup c (wo_id x) = None"
    and s': "begin_operation w x n c = (Inr x, s')"
  shows "wo_id ` set (recoveries s' acc i t) \<subseteq> insert (wo_id x) (wo_id ` set (recoveries c acc i t))"
  using ok
proof (cases rule: begin_operation_cases [of U c w x n])
  case (begins d)
  have "set (list_operations_of s' acc i) \<subseteq> insert x (set (list_operations_of c acc i))"
    using s' begins(5) subsetD [OF snd_dict_set [of "wo_id x" x "st_operations c"]]
    by (fastforce simp: list_operations_of_def)
  then show ?thesis by auto
qed (use x s' in auto)

text \<open>
  C28. Automatic Recovery is bounded (docs/adr/0018): a call that begins a new recovery numbers it
  with at most three, and afterwards the World has no more recoveries of the last fifteen minutes
  than that number, even when other clients run between the count and the begin.
\<close>

theorem recoveries_are_bounded:
  assumes "worlds_reach U s" and "worlds_env_ok U env"
    and "request_automatic_recovery env a i detected k s = (Inr (Some x), s')"
    and "operation_lookup (wv_rival env 1 (wv_rival env 0 s)) (wo_id x) = None"
  shows "length (recoveries s' a i (detected - minutes 15)) \<le> wo_attempt_number x
     \<and> wo_attempt_number x \<le> 3"
proof -
  let ?s1 = "wv_rival env 0 s" let ?s2 = "wv_rival env 1 ?s1"
  let ?t = "detected - minutes 15"
  have ok: "worlds_ok U s" by (rule worlds_reach_ok [OF assms(1)])
  note rivals = worlds_env_okD(1) [OF assms(2)]
  have ok1: "worlds_ok U ?s1" "worlds_later U s ?s1" by (rule worlds_rivalD [OF rivals ok])+
  have ok2: "worlds_ok U ?s2" "worlds_later U ?s1 ?s2" by (rule worlds_rivalD [OF rivals ok1(1)])+
  obtain w where w: "world_lookup s (a, i) = Some w"
    using assms(3) by (auto simp: request_automatic_recovery_def on_ok_success)
  define z where "z = (new_operation (wv_uuid env 0) a i RECOVER k detected)\<lparr>
     wo_runtime_id := wd_runtime_id w, wo_runtime_reference := wd_runtime_reference w,
     wo_attempt_number := length (recoveries ?s1 a i ?t) + 1 \<rparr>"
  have lim: "length (recoveries ?s1 a i ?t) < 3"
    and begun: "begin_operation (w\<lparr> wd_status := WAKING, wd_version := wd_version w + 1 \<rparr>) z
      (wd_version w) ?s2 = (Inr x, s')"
    using assms(3) w by (auto simp: request_automatic_recovery_def z_def Let_def split_beta
        on_ok_success intro: prod_eqI split: if_splits)
  from ok2(1) have "x = z \<and> (\<exists>v. world_lookup ?s2 (a, i) = Some v \<and> wd_version v = wd_version w)"
  proof (cases rule: begin_operation_cases [of U ?s2
      "w\<lparr> wd_status := WAKING, wd_version := wd_version w + 1 \<rparr>" z "wd_version w"])
    case (joins j y)
    then have "operation_lookup ?s2 (wo_id x) = Some x" using begun worlds_okD(4) [OF ok2(1)] by simp
    then show ?thesis using assms(4) by simp
  qed (use begun in \<open>auto simp: z_def operation_key_def new_operation_def\<close>)
  then obtain v where x: "x = z" and v: "world_lookup ?s2 (a, i) = Some v" "wd_version v = wd_version w"
    by blast
  have i: "snd (a, i) \<in> U" using worlds_okD(1,2) [OF ok w] by (simp add: world_key_def)
  note same = unchanged_world [OF ok1(2) ok2(2) i w v]
  have key: "operation_key z = (a, i)" by (simp add: z_def operation_key_def new_operation_def)
  have "wo_id ` set (recoveries s' a i ?t) \<subseteq> insert (wo_id z) (wo_id ` set (recoveries ?s2 a i ?t))"
    using recoveries_begin [OF ok2(1) key] assms(4) begun x by blast
  also have "\<dots> \<subseteq> insert (wo_id z) (wo_id ` set (recoveries ?s1 a i ?t))"
    using recoveries_not_more [OF ok1(1) ok2(1) ok2(2) _ same(2), of ?t] i v(1) same(1) by auto
  finally have sub: "wo_id ` set (recoveries s' a i ?t) \<subseteq> wo_id ` set (z # recoveries ?s1 a i ?t)"
    by simp
  have "worlds_ok (U \<union> worlds_uuids env) s'"
    using request_automatic_recovery_ok [OF ok assms(2), of a i detected k] assms(3)
    by (simp add: worlds_step_def)
  then have "distinct (map wo_id (recoveries s' a i ?t))"
    by (rule distinct_map_filter [OF list_operations_of_distinct])
  from length_le_by_key [OF this sub] lim show ?thesis by (simp add: x z_def)
qed

lemma recoveries_are_bounded_witness:
  "\<exists>x s'. request_automatic_recovery (calm_env CHR ''r'' 5) ''acc'' ''w'' 5 ''k3'' online = (Inr (Some x), s')
     \<and> length (recoveries s' ''acc'' ''w'' (5 - minutes 15)) \<le> wo_attempt_number x
     \<and> wo_attempt_number x \<le> 3"
proof -
  let ?p = "request_automatic_recovery (calm_env CHR ''r'' 5) ''acc'' ''w'' 5 ''k3'' online"
  have "map_sum id (map_option wo_id) (fst ?p) = Inr (Some ''r'')" by code_simp
  then obtain x s' where x: "?p = (Inr (Some x), s')" "wo_id x = ''r''"
    by (cases ?p) (auto dest!: map_sum_Inr)
  have env: "worlds_env_ok online_ids (calm_env CHR ''r'' 5)"
    by (rule calm_env_ok) (auto dest: online_ids_hd)
  have "operation_lookup online ''r'' = None" by code_simp
  then have new: "operation_lookup (wv_rival (calm_env CHR ''r'' 5) 1
      (wv_rival (calm_env CHR ''r'' 5) 0 online)) (wo_id x) = None"
    by (simp add: x(2))
  show ?thesis
    using recoveries_are_bounded [OF guarded_reach_reach [OF online_reach] env x(1) new] x(1) by blast
qed

end
