(* ===== verification/ConfigurationProperties.thy ===== *)
theory ConfigurationProperties
  imports WorldRun
begin

text \<open>
  What an edit of the configuration does (\<open>Worlds.update_configuration\<close>): merging the accepted
  changes over the stored entries and normalising again keeps every other entry.
\<close>

lemma dict_get_merge:
  "distinct (map fst changes) \<Longrightarrow> dict_get (merge_entries base changes) k =
     (case dict_get changes k of Some v \<Rightarrow> Some v | None \<Rightarrow> dict_get base k)"
  unfolding merge_entries_def
proof (induction changes arbitrary: base)
  case (Cons c cs)
  obtain x v where c: "c = (x, v)" by (cases c)
  have "dict_get cs x = None" using Cons.prems c by (simp add: map_of_eq_None_iff)
  then show ?case using Cons c by (auto split: option.split)
qed simp

lemma dict_get_py: "dict_get (map (\<lambda>(k, v). (k, to_py v)) d) k = map_option to_py (dict_get d k)"
  by (induction d) auto

text \<open>A dictionary of normal values comes back with the same values.\<close>

lemma entries_get:
  "entries_ok d fs \<Longrightarrow> f \<in> set fs \<Longrightarrow> distinct (map sf_key fs) \<Longrightarrow>
     \<exists>c. dict_get d (sf_key f) = Some c \<and> setting_ok f c"
  unfolding entries_ok_def
  by (induction rule: list_all2_induct) (auto, metis imageI)

lemma normalize_keeps:
  assumes d': "normalize_settings (py_dict d) True False = Inr d'"
    and ok: "\<And>f c. f \<in> set FIELDS \<Longrightarrow> dict_get d (sf_key f) = Some c \<Longrightarrow> setting_ok f c"
    and f: "f \<in> set FIELDS"
  shows "dict_get d' (sf_key f) = dict_get d (sf_key f)"
proof -
  let ?raw = "map (\<lambda>(k, v). (k, to_py v)) d"
  have missing: "sort (filter (\<lambda>k. k \<notin> set (map fst ?raw)) (map sf_key FIELDS)) = []"
    and c: "collect (parse_entry ?raw) (filter (\<lambda>f. sf_key f \<in> set (map fst ?raw)) FIELDS) = Inr d'"
    using d' by (auto simp: normalize_settings_def py_dict_def Let_def split: if_splits)
  from missing have "filter (\<lambda>k. k \<notin> set (map fst ?raw)) (map sf_key FIELDS) = []"
    by (metis set_empty set_sort)
  then have "filter (\<lambda>f. sf_key f \<in> set (map fst ?raw)) FIELDS = FIELDS"
    by (auto simp: filter_id_conv filter_empty_conv)
  then have all: "list_all2 (\<lambda>f y. parse_entry ?raw f = Inr y) FIELDS d'"
    using c by (simp only: collect_Inr)
  have entry: "y = (sf_key f, the (dict_get d (sf_key f)))" "dict_get d (sf_key f) \<noteq> None"
    if fy: "f \<in> set FIELDS" "parse_entry ?raw f = Inr y" for f y
  proof -
    obtain c where c: "dict_get d (sf_key f) = Some c"
      using fy(2) by (auto simp: parse_entry_def dict_get_py split: option.splits)
    have "parse_setting f (to_py c) = Inr c"
      using parse_normal ok fy(1) c fields_ok by blast
    then show "y = (sf_key f, the (dict_get d (sf_key f)))" "dict_get d (sf_key f) \<noteq> None"
      using fy(2) c by (auto simp: parse_entry_def dict_get_py split: sum.splits)
  qed
  have "list_all2 (\<lambda>f y. f \<in> set FIELDS \<and> y = (sf_key f, the (dict_get d (sf_key f)))
      \<and> dict_get d (sf_key f) \<noteq> None) FIELDS d'"
    using all by (rule list.rel_mono_strong) (use entry in blast)
  then have "d' = map (\<lambda>f. (sf_key f, the (dict_get d (sf_key f)))) FIELDS"
    and "dict_get d (sf_key f) \<noteq> None"
    using f by (auto simp: list_all2_conv_all_nth in_set_conv_nth list_eq_iff_nth_eq)
  moreover have "dict_get (map (\<lambda>f. (sf_key f, the (dict_get d (sf_key f)))) FIELDS) (sf_key f)
      = Some (the (dict_get d (sf_key f)))"
    using fields_distinct f by (intro map_of_is_SomeI) (auto simp: comp_def)
  ultimately show ?thesis by auto
qed


text \<open>An accepted set of changes names distinct settings, with values that are normal.\<close>

lemma accepted_changes:
  assumes "validate_configuration with_palworld t v partial = Inr es"
  shows "distinct (map fst es)"
    and "f \<in> set FIELDS \<Longrightarrow> dict_get es (sf_key f) = Some c \<Longrightarrow> setting_ok f c"
    and "normalize_settings v (\<not> partial) False = Inr es"
proof -
  show n: "normalize_settings v (\<not> partial) False = Inr es"
    using assms by (auto simp: validate_configuration_def resolve_def with_palworld_def
        PALWORLD_TEMPLATE_def validate_palworld_configuration_def
        split: if_splits sum.splits py_error.splits)
  then obtain r :: "(string \<times> py_value) list" where ok: "entries_ok es (filter (\<lambda>f. sf_key f \<in> fst ` set r) FIELDS)"
    by (rule normalize_Inr)
  let ?fs = "filter (\<lambda>f. sf_key f \<in> fst ` set r) FIELDS"
  have dist: "distinct (map sf_key ?fs)" using fields_distinct by (rule distinct_map_filter)
  then show "distinct (map fst es)" by (simp only: entries_keys [OF ok])
  assume f: "f \<in> set FIELDS" and c: "dict_get es (sf_key f) = Some c"
  have "sf_key f \<in> fst ` set es" using c by (force dest: map_of_SomeD)
  then have "sf_key f \<in> sf_key ` set ?fs"
    using arg_cong [OF entries_keys [OF ok], of set] by (simp only: set_map)
  then obtain g where g: "g \<in> set ?fs" "sf_key g = sf_key f" by (metis imageE)
  then have "g = f" using f fields_distinct by (auto simp: distinct_map inj_on_def)
  then show "setting_ok f c" using entries_get [OF ok g(1) dist] c by auto
qed

text \<open>\<open>preview_in\<close> and \<open>update_configuration\<close> when they succeed.\<close>

lemma preview_in_Inr:
  assumes "preview_in env a i actor changes s s1 = Inr p" and "wv_catalog env = with_palworld"
  obtains w base asked where "world_get s a i = Inr w"
    "get_configuration_of s1 a i (latest_revision_id w) = Inr base"
    "validate_configuration with_palworld (wd_game_template_id w) changes True = Inr asked"
    "validate_configuration with_palworld (wd_game_template_id w)
       (py_dict (merge_entries (cr_entries base) asked)) False = Inr (cp_proposed_entries p)"
    "cp_base_revision_id p = cr_id base"
  using assms that unfolding preview_in_def
  by (auto split: sum.splits simp del: world_get_Inr get_configuration_of_Inr)

lemma merged_entries:
  assumes "validate_configuration with_palworld t changes True = Inr asked"
    and "validate_configuration with_palworld t (py_dict (merge_entries es asked)) False = Inr merged"
    and "valid_entries es"
  shows "dict_get merged k = (case dict_get asked k of Some v \<Rightarrow> Some v | None \<Rightarrow> dict_get es k)"
proof (cases "k \<in> sf_key ` set FIELDS")
  case True
  then obtain f where f: "f \<in> set FIELDS" "k = sf_key f" by auto
  note merge = dict_get_merge [OF accepted_changes(1) [OF assms(1)], of es]
  have es: "setting_ok g c" if g: "g \<in> set FIELDS" "dict_get es (sf_key g) = Some c" for g c
    using entries_get [OF assms(3) [unfolded valid_entries_def] g(1) fields_distinct] g(2) by auto
  have ok: "setting_ok g c"
    if "g \<in> set FIELDS" "dict_get (merge_entries es asked) (sf_key g) = Some c" for g c
    using that es accepted_changes(2) [OF assms(1)] by (auto simp: merge split: option.splits)
  have "normalize_settings (py_dict (merge_entries es asked)) True False = Inr merged"
    using accepted_changes(3) [OF assms(2)] by simp
  from normalize_keeps [OF this ok f(1)] show ?thesis unfolding f(2) by (simp only: merge)
next
  case False
  have keys: "dict_get d k = None" if v: "validate_configuration with_palworld t v p = Inr d" for v p d
  proof -
    obtain r :: "(string \<times> py_value) list" where ok: "entries_ok d (filter (\<lambda>f. sf_key f \<in> fst ` set r) FIELDS)"
      using accepted_changes(3) [OF v] by (rule normalize_Inr)
    show ?thesis using False entries_keys [OF ok, THEN arg_cong, of set]
      by (auto simp: map_of_eq_None_iff)
  qed
  have "dict_get es k = None"
    using False entries_keys [OF assms(3) [unfolded valid_entries_def], THEN arg_cong, of set]
    by (simp add: map_of_eq_None_iff)
  then show ?thesis using keys [OF assms(1)] keys [OF assms(2)] by simp
qed

section \<open>The properties\<close>


text \<open>
  What an edit of a World's configuration promises to its user, and the edit that is lost when two
  edits overlap.
\<close>

text \<open>
  The four moments of \<open>update_configuration\<close> after its first read, with what other clients did before
  each: it reads the revision to base the edit on, the World, that revision again, and appends.
\<close>

fun edit_state :: "'s worlds_env \<Rightarrow> nat \<Rightarrow> 's world_store_scheme \<Rightarrow> 's world_store_scheme" where
  "edit_state env 0 s = wv_rival env 0 s"
| "edit_state env (Suc n) s = wv_rival env (Suc n) (edit_state env n s)"

text \<open>
  C29. An accepted edit, whatever other clients do meanwhile, either returns the revision that its
  idempotency key had been used for and writes nothing, or stores a new revision. The User may edit the
  World; in the new revision exactly the settings asked for have their new, normalised values
  and every other setting keeps the value of the revision it is based on, the latest one of the World
  as it was first read, and it is numbered after that one. The World in which it is stored is the
  one of the second read, which nobody saved since; it goes on running with the configuration it has,
  and the new revision is the one it runs with next. (An edit that another client stores between the
  two reads of the World is not part of the base, and so is lost: \<open>an_edit_is_lost\<close>.)
\<close>

theorem edit_changes_only_what_was_asked:
  assumes "worlds_reach U s" and "worlds_env_ok U env" and "wv_uuid env 0 \<noteq> []"
    and "update_configuration env a i actor changes k origin s = (Inr r, s')"
  shows "(\<exists>j. dict_get (st_configuration_idempotency (edit_state env 3 s)) (a, k) = Some j
        \<and> dict_get (st_configurations (edit_state env 3 s)) j = Some r \<and> s' = edit_state env 3 s)
    \<or> (\<exists>w base asked w2 base2 w'. world_get s a i = Inr w
     \<and> require_permission env a actor EDIT_WORLD (Some i) ''the User cannot edit this World'' = Inr ()
     \<and> get_configuration_of (edit_state env 0 s) a i (latest_revision_id w) = Inr base
     \<and> validate_configuration with_palworld (wd_game_template_id w) changes True = Inr asked
     \<and> (\<forall>x. dict_get (cr_entries r) x =
          (case dict_get asked x of Some v \<Rightarrow> Some v | None \<Rightarrow> dict_get (cr_entries base) x))
     \<and> get_configuration_of (edit_state env 2 s) a i (cr_id base) = Inr base2
     \<and> cr_number r = cr_number base2 + 1
     \<and> world_get (edit_state env 1 s) a i = Inr w2 \<and> world_get (edit_state env 3 s) a i = Inr w2
     \<and> world_get s' a i = Inr w' \<and> wd_version w' = wd_version w2 + 1
     \<and> wd_configuration_revision_id w' = wd_configuration_revision_id w2
     \<and> get_configuration_of s' a i (latest_revision_id w') = Inr r)"
proof -
  let ?s1 = "edit_state env 0 s" and ?s2 = "edit_state env 1 s" and ?s3 = "edit_state env 2 s"
    and ?s4 = "edit_state env 3 s"
  have ok: "worlds_ok U s" by (rule worlds_reach_ok [OF assms(1)])
  note rival = worlds_rivalD [OF worlds_env_okD(1) [OF assms(2)]]
  have oks: "worlds_ok U (edit_state env n s)" for n
    by (induction n) (simp_all add: rival ok)
  have later: "worlds_later U (edit_state env n s) (edit_state env (Suc n) s)" for n
    by (simp add: rival oks)
  have chain: "?s2 = wv_rival env 1 ?s1" "?s3 = wv_rival env 2 ?s2" "?s4 = wv_rival env 3 ?s3"
    by (simp_all add: numeral_eq_Suc)
  obtain p w2 base2 where p: "preview_in env a i actor changes s ?s1 = Inr p"
    and w2: "world_get ?s2 a i = Inr w2"
    and base2: "get_configuration_of ?s3 a i (cp_base_revision_id p) = Inr base2"
    and append: "append_configuration
      (w2\<lparr> wd_pending_configuration_revision_id := Some (wv_uuid env 0), wd_version := wd_version w2 + 1 \<rparr>)
      (edited_revision env w2 base2 p a i actor k origin) (wd_version w2) ?s4 = (Inr r, s')"
    using assms(4) unfolding update_configuration_def Let_def on_ok_success chain
    by (auto simp: edited_revision_def simp del: get_configuration_of_Inr world_get_Inr)
  let ?w = "w2\<lparr> wd_pending_configuration_revision_id := Some (wv_uuid env 0), wd_version := wd_version w2 + 1 \<rparr>"
  let ?r = "edited_revision env w2 base2 p a i actor k origin"
  show ?thesis
  proof (cases "dict_get (st_configuration_idempotency ?s4) (a, k)")
    case (Some j)
    then show ?thesis using append
      by (auto simp: append_configuration_def edited_revision_def dict_index_def split: option.splits)
  next
    case None
    obtain w base asked where w: "world_get s a i = Inr w"
      and base: "get_configuration_of ?s1 a i (latest_revision_id w) = Inr base"
      and asked: "validate_configuration with_palworld (wd_game_template_id w) changes True = Inr asked"
      and merged: "validate_configuration with_palworld (wd_game_template_id w)
        (py_dict (merge_entries (cr_entries base) asked)) False = Inr (cp_proposed_entries p)"
      and id: "cp_base_revision_id p = cr_id base"
      by (rule preview_in_Inr [OF p worlds_env_okD(3) [OF assms(2)]])
    have allowed: "require_permission env a actor EDIT_WORLD (Some i) ''the User cannot edit this World'' = Inr ()"
      using p by (auto simp: preview_in_def split: sum.splits)
    have rev: "revision_lookup ?s1 (latest_revision_id w) = Some base" using base by simp
    have entries: "dict_get (cp_proposed_entries p) x =
        (case dict_get asked x of Some u \<Rightarrow> Some u | None \<Rightarrow> dict_get (cr_entries base) x)" for x
      by (rule merged_entries [OF asked merged worlds_okD(9) [OF oks rev]])
    obtain s1 where s1: "world_save ?w (wd_version w2) ?s4 = Inr s1" and r: "r = ?r"
      and s': "s' = s1\<lparr> st_configurations := dict_set (cr_id r) r (st_configurations s1),
          st_configuration_idempotency := dict_set (a, k) (cr_id r) (st_configuration_idempotency s1) \<rparr>"
      using append None
      by (auto simp: append_configuration_def edited_revision_def split: sum.splits)
    have look: "world_lookup ?s2 (a, i) = Some w2" using w2 by simp
    have key: "world_key ?w = (a, i)" using worlds_okD(1) [OF oks look] by (simp add: world_key_def)
    have "worlds_later U ?s2 ?s4"
      using later [of 1] later [of 2] worlds_later_trans by (simp add: numeral_eq_Suc)
    from held_world [OF oks look this] have "world_lookup ?s4 (a, i) = Some w2"
      using saved_worlds.held_save [OF _ s1] key by simp
    moreover have "world_lookup s1 (a, i) = Some ?w" using world_save_lookup [OF s1, of "(a, i)"] key by simp
    then have "world_get s' a i = Inr ?w" by (simp add: s' world_lookup_def)
    moreover have "latest_revision_id ?w = cr_id r"
      using assms(3) by (simp add: latest_revision_id_def r edited_revision_def split: list.split)
    moreover have "get_configuration_of s' a i (cr_id r) = Inr r"
      by (simp add: s' revision_lookup_def) (simp add: r edited_revision_def)
    ultimately show ?thesis
      using w allowed base asked entries base2 [unfolded id] w2
      by (intro disjI2 exI [of _ w] exI [of _ base] exI [of _ asked] exI [of _ w2] exI [of _ base2]
          exI [of _ ?w]) (simp_all add: r edited_revision_def)
  qed
qed

definition day_edit :: py_value where
  "day_edit = VDict [(''exp_rate'', VStr ''1,5'')]"

definition night_edit :: py_value where
  "night_edit = VDict [(''max_players'', VStr ''8'')]"

lemma edit_changes_only_what_was_asked_witness:
  "\<exists>r s' base asked w'. update_configuration (calm_env CHR ''c'' 1) ''acc'' ''w'' ''owner'' day_edit ''k5'' ''web'' created
       = (Inr r, s')
     \<and> get_configuration_of created ''acc'' ''w'' ''w0'' = Inr base
     \<and> validate_configuration with_palworld ''palworld:1'' day_edit True = Inr asked
     \<and> (\<forall>x. dict_get (cr_entries r) x =
          (case dict_get asked x of Some v \<Rightarrow> Some v | None \<Rightarrow> dict_get (cr_entries base) x))
     \<and> world_get s' ''acc'' ''w'' = Inr w'
     \<and> get_configuration_of s' ''acc'' ''w'' (latest_revision_id w') = Inr r"
proof -
  let ?env = "calm_env CHR ''c'' 1"
  let ?p = "update_configuration ?env ''acc'' ''w'' ''owner'' day_edit ''k5'' ''web'' created"
  have "map_sum id cr_number (fst ?p) = Inr 2" by code_simp
  then obtain r s' where p: "?p = (Inr r, s')"
    by (cases ?p) (auto dest!: map_sum_Inr)
  have "map_sum id (\<lambda>w. (latest_revision_id w, wd_game_template_id w)) (world_get created ''acc'' ''w'')
      = Inr (''w0'', ''palworld:1'')" by code_simp
  then obtain w where w: "world_get created ''acc'' ''w'' = Inr w"
    "latest_revision_id w = ''w0''" "wd_game_template_id w = ''palworld:1''"
    by (auto dest!: map_sum_Inr simp del: world_get_Inr)
  have env: "worlds_env_ok creation_ids ?env"
    by (rule calm_env_ok) (auto dest: creation_ids_hd)
  have new: "dict_get (st_configuration_idempotency created) (''acc'', ''k5'') = None" by code_simp
  have "wv_uuid ?env 0 \<noteq> []" by (simp add: calm_env_def)
  then show ?thesis
    using edit_changes_only_what_was_asked [OF guarded_reach_reach [OF created_reach] env _ p] w p new
    by (auto simp: numeral_eq_Suc)
qed

section \<open>A lost edit\<close>

text \<open>
  \<open>update_configuration\<close> reads the World again after it computed the merged entries, so the version
  it saves under does not protect the revision the entries were based on: another edit that is
  stored in between is silently undone by the next one, under the same revision number.
\<close>

definition overtaken_env :: "unit service_env" where
  "overtaken_env = (calm_env CHR ''e'' 2)\<lparr> wv_rival := (\<lambda>k s. if k = 1
     then snd (update_configuration (calm_env CHR ''c'' 1) ''acc'' ''w'' ''owner'' day_edit ''k5'' ''web'' s)
     else s) \<rparr>"

definition twice_edited :: "unit worker_state" where
  "twice_edited = snd (update_configuration overtaken_env ''acc'' ''w'' ''admin'' night_edit ''k6'' ''web'' created)"

lemma an_edit_is_lost:
  "(\<lambda>s. (map (\<lambda>(i, r). (i, cr_number r, dict_get (cr_entries r) ''exp_rate'',
        dict_get (cr_entries r) ''max_players'')) (st_configurations s),
      map (\<lambda>(_, w). wd_pending_configuration_revision_id w) (st_worlds s))) twice_edited
     = ([(''w0'', 1, Some (CFloat (Flt 1 0)), Some (CInt 16)),
         (''c'', 2, Some (CFloat (Flt 3 (- 1))), Some (CInt 16)),
         (''e'', 2, Some (CFloat (Flt 1 0)), Some (CInt 8))],
        [Some ''e''])"
  by code_simp

end
