(* ===== verification/Application.thy ===== *)
theory Application
  imports AccountAdmin BalanceGuard Payments WorldData WorldWorker
begin

text \<open>
  \<open>class GameWakeApplication\<close> (\<open>gamewake/control_plane/application.py\<close>): the use cases over
  Accounts, Worlds, World data and Billing together. The state puts the three stores side by side;
  the access control that Worlds and World data are given is \<open>Accounts.authorize\<close> on the Accounts
  of the same state. \<open>ax_rival env k\<close> is what other clients do before the \<open>k\<close>-th call to a
  component after the first; inside a component's operation its own environment says so. What the
  program only calls (connection details, the password manager, the dispatcher of operations)
  acts on the providers' state.
\<close>

record connection_details =
  cd_host :: string
  cd_port :: int
  cd_password :: "string option"

record password_settings =
  pw_mode :: string

record 'p password_manager =
  pm_get :: "world \<Rightarrow> 'p \<Rightarrow> password_settings result \<times> 'p"
  pm_configure :: "world \<Rightarrow> string \<Rightarrow> string option \<Rightarrow> 'p \<Rightarrow> password_settings result \<times> 'p"

text \<open>\<open>ap_dispatched\<close> records the operations handed to the dispatcher, in order.\<close>

record 'p app_state =
  ap_accounts :: accounts_state
  ap_worlds :: "'p worker_state"
  ap_billing :: billing_store
  ap_dispatched :: "(string \<times> string) list"

record 'p app_env =
  ax_accounts :: "nat \<Rightarrow> accounts_env"
  ax_worlds :: "nat \<Rightarrow> ('p, unit) worker_state_ext worlds_env"
  ax_data :: "'p data_env option"
  ax_billing :: "nat \<Rightarrow> billing_env"
  ax_payments :: "payment_provider option"
  ax_packages :: "(string, contribution_package) dict"
  ax_catalog :: game_catalog
  ax_connection :: "(world \<Rightarrow> string \<Rightarrow> 'p \<Rightarrow> connection_details result \<times> 'p) option"
  ax_passwords :: "'p password_manager option"
  ax_dispatcher :: "(string \<Rightarrow> string \<Rightarrow> 'p \<Rightarrow> unit result \<times> 'p) option"
  ax_rates :: "(string, decimal) dict"
  ax_rival :: "nat \<Rightarrow> 'p app_state \<Rightarrow> 'p app_state"

section \<open>Calls to the components\<close>

definition on_accounts ::
    "(accounts_state \<Rightarrow> 'a result \<times> accounts_state) \<Rightarrow> 'p app_state \<Rightarrow> 'a result \<times> 'p app_state" where
  "on_accounts f s = (case f (ap_accounts s) of (r, a) \<Rightarrow> (r, s\<lparr> ap_accounts := a \<rparr>))"

definition on_worlds ::
    "('p worker_state \<Rightarrow> 'a result \<times> 'p worker_state) \<Rightarrow> 'p app_state \<Rightarrow> 'a result \<times> 'p app_state" where
  "on_worlds f s = (case f (ap_worlds s) of (r, w) \<Rightarrow> (r, s\<lparr> ap_worlds := w \<rparr>))"

definition on_billing ::
    "(billing_store \<Rightarrow> 'a result \<times> billing_store) \<Rightarrow> 'p app_state \<Rightarrow> 'a result \<times> 'p app_state" where
  "on_billing f s = (case f (ap_billing s) of (r, b) \<Rightarrow> (r, s\<lparr> ap_billing := b \<rparr>))"

definition ask :: "('p app_state \<Rightarrow> 'a result) \<Rightarrow> 'p app_state \<Rightarrow> 'a result \<times> 'p app_state" where
  "ask f s = (f s, s)"

text \<open>A call to a provider outside the program.\<close>

definition outside ::
    "('p \<Rightarrow> 'a result \<times> 'p) \<Rightarrow> 'p app_state \<Rightarrow> 'a result \<times> 'p app_state" where
  "outside f s = (case f (ws_providers (ap_worlds s)) of
      (r, p) \<Rightarrow> (r, s\<lparr> ap_worlds := (ap_worlds s)\<lparr> ws_providers := p \<rparr> \<rparr>))"

text \<open>Worlds and World data ask \<open>Accounts.authorize\<close>.\<close>

definition worlds_env_in ::
    "'p app_env \<Rightarrow> nat \<Rightarrow> 'p app_state \<Rightarrow> ('p, unit) worker_state_ext worlds_env" where
  "worlds_env_in env k s = (ax_worlds env k)\<lparr> wv_access := authorize (ap_accounts s) \<rparr>"

definition data_env_in :: "'p app_env \<Rightarrow> 'p app_state \<Rightarrow> 'p data_env result" where
  "data_env_in env s = (case ax_data env of
      None \<Rightarrow> Inl (ValueError ''World data operations are not configured'')
    | Some d \<Rightarrow> Inr (d\<lparr> da_access := authorize (ap_accounts s) \<rparr>))"

definition app_get_world ::
    "'p app_env \<Rightarrow> nat \<Rightarrow> string \<Rightarrow> string \<Rightarrow> string \<Rightarrow> 'p app_state \<Rightarrow> world result" where
  "app_get_world env k account_id world_id viewer s =
     get_world (worlds_env_in env k s) account_id world_id viewer (ap_worlds s)"

text \<open>\<open>if not self.accounts.authorize(...): raise PermissionError(msg)\<close>.\<close>

definition app_require ::
    "'p app_state \<Rightarrow> string \<Rightarrow> string \<Rightarrow> permission \<Rightarrow> string \<Rightarrow> string \<Rightarrow> unit result" where
  "app_require s account_id user_id p world_id msg =
     (case authorize (ap_accounts s) account_id user_id p (Some world_id) of
        Inl e \<Rightarrow> Inl e
      | Inr ok \<Rightarrow> check ok (PermissionError msg))"

definition app_data ::
    "'p app_env \<Rightarrow> ('p data_env \<Rightarrow> 'p worker_state \<Rightarrow> 'a result \<times> 'p worker_state)
     \<Rightarrow> 'p app_state \<Rightarrow> 'a result \<times> 'p app_state" where
  "app_data env f s = on_ok (data_env_in env s) s (\<lambda>d. on_worlds (f d) s)"

section \<open>Discord\<close>

definition app_sign_in ::
    "'p app_env \<Rightarrow> nat \<Rightarrow> string \<Rightarrow> string \<Rightarrow> 'p app_state \<Rightarrow> user result \<times> 'p app_state" where
  "app_sign_in env k discord_user_id display_name =
     on_accounts (\<lambda>a. case sign_in_with_discord (ax_accounts env k) discord_user_id display_name a of
       (u, a') \<Rightarrow> (Inr u, a'))"

definition resolve_discord_principal ::
    "'p app_env \<Rightarrow> string \<Rightarrow> string \<Rightarrow> string \<Rightarrow> 'p app_state
     \<Rightarrow> (account \<times> user) result \<times> 'p app_state" where
  "resolve_discord_principal env guild discord_user_id display_name s =
     and_then (app_sign_in env 0 discord_user_id display_name s) (\<lambda>u s1.
       let s2 = ax_rival env 0 s1
       in case find_account_by_discord_guild (ap_accounts s2) guild of
            None \<Rightarrow> (Inl (KeyError guild), s2)
          | Some a \<Rightarrow> (Inr (a, u), s2))"

definition start_discord_account ::
    "'p app_env \<Rightarrow> string \<Rightarrow> string \<Rightarrow> string \<Rightarrow> string option \<Rightarrow> 'p app_state
     \<Rightarrow> (account \<times> user) result \<times> 'p app_state" where
  "start_discord_account env guild discord_user_id display_name channel s =
     and_then (app_sign_in env 0 discord_user_id display_name s) (\<lambda>u s1.
       let s2 = ax_rival env 0 s1; s3 = ax_rival env 1 s2
       in case find_account_by_discord_guild (ap_accounts s2) guild of
            None \<Rightarrow>
              and_then (on_accounts (create_account (ax_accounts env 1)
                  (''Grupo de '' @ display_name) (us_id u) (Some guild) channel) s3)
                (\<lambda>a s4. (Inr (a, u), s4))
          | Some a \<Rightarrow> (case channel of
                None \<Rightarrow> (Inr (a, u), s2)
              | Some c \<Rightarrow>
                  and_then (on_accounts (configure_discord_notification_channel (ax_accounts env 1)
                      (ac_id a) (us_id u) c) s3)
                    (\<lambda>a' s4. (Inr (a', u), s4))))"

text \<open>The friends sign in one after the other; \<open>k\<close> counts the calls.\<close>

fun sign_in_friends ::
    "'p app_env \<Rightarrow> nat \<Rightarrow> (string \<times> string) list \<Rightarrow> 'p app_state
     \<Rightarrow> (string \<times> string) list result \<times> 'p app_state" where
  "sign_in_friends env k [] s = (Inr [], s)"
| "sign_in_friends env k ((discord_user_id, display_name) # friends) s =
     and_then (app_sign_in env k discord_user_id display_name s) (\<lambda>u s1.
     and_then (sign_in_friends env (Suc k) friends (ax_rival env k s1)) (\<lambda>rest s2.
       (Inr ((us_id u, display_name) # rest), s2)))"

definition join_names :: "string list \<Rightarrow> string" where
  "join_names names = (if length names = 1 then hd names
     else join_comma (butlast names) @ '' e '' @ last names)"

text \<open>\<open>names[-1]\<close> of no names raises \<open>IndexError\<close>; the error names at least one friend.\<close>

definition already_members :: "string list \<Rightarrow> string" where
  "already_members names =
     join_names names @ (if length names = 1 then '' ja faz'' else '' ja fazem'')
       @ '' parte deste grupo''"

definition invite_friends ::
    "'p app_env \<Rightarrow> nat \<Rightarrow> string \<Rightarrow> string \<Rightarrow> string list \<Rightarrow> 'p app_state
     \<Rightarrow> invitation list result \<times> 'p app_state" where
  "invite_friends env k account_id actor user_ids =
     on_accounts (invite_members (ax_accounts env k) account_id actor user_ids)"

definition invite_discord_friends ::
    "'p app_env \<Rightarrow> string \<Rightarrow> string \<Rightarrow> (string \<times> string) list \<Rightarrow> 'p app_state
     \<Rightarrow> invitation list result \<times> 'p app_state" where
  "invite_discord_friends env account_id actor friends s =
     and_then (sign_in_friends env 0 friends s) (\<lambda>resolved s1.
       case invite_friends env (length friends) account_id actor (map fst resolved) s1 of
         (Inl (ExistingMembershipInvitationError ids), s2) \<Rightarrow>
           (Inl (ValueError (already_members
              (map snd (filter (\<lambda>(i, _). i \<in> set ids) resolved)))), s2)
       | p \<Rightarrow> p)"

section \<open>Accounts\<close>

text \<open>
  The use cases that only pass on to \<open>class Accounts\<close>, one call each.
\<close>

definition app_create_account ::
    "'p app_env \<Rightarrow> string \<Rightarrow> string \<Rightarrow> string option \<Rightarrow> 'p app_state \<Rightarrow> account result \<times> 'p app_state" where
  "app_create_account env actor name guild =
     on_accounts (create_account (ax_accounts env 0) name actor guild None)"

definition app_configure_discord_guild ::
    "'p app_env \<Rightarrow> string \<Rightarrow> string \<Rightarrow> string \<Rightarrow> 'p app_state \<Rightarrow> account result \<times> 'p app_state" where
  "app_configure_discord_guild env account_id actor guild =
     on_accounts (configure_discord_guild (ax_accounts env 0) account_id actor guild)"

definition app_enable_owner_recovery ::
    "'p app_env \<Rightarrow> string \<Rightarrow> string \<Rightarrow> string \<Rightarrow> 'p app_state
     \<Rightarrow> string list result \<times> 'p app_state" where
  "app_enable_owner_recovery env account_id owner email =
     on_accounts (enable_owner_recovery (ax_accounts env 0) account_id owner email)"

definition app_list_accounts :: "string \<Rightarrow> 'p app_state \<Rightarrow> account list" where
  "app_list_accounts viewer s = list_accounts (ap_accounts s) viewer"

definition account_access ::
    "string \<Rightarrow> string \<Rightarrow> string option \<Rightarrow> 'p app_state \<Rightarrow> (membership \<times> permission set) result" where
  "account_access account_id viewer world_id s = access_for (ap_accounts s) account_id viewer world_id"

definition app_list_memberships :: "string \<Rightarrow> string \<Rightarrow> 'p app_state \<Rightarrow> membership list result" where
  "app_list_memberships account_id viewer s = list_memberships (ap_accounts s) account_id viewer"

definition app_list_custom_roles :: "string \<Rightarrow> string \<Rightarrow> 'p app_state \<Rightarrow> custom_role list result" where
  "app_list_custom_roles account_id viewer s = list_custom_roles (ap_accounts s) account_id viewer"

definition app_create_custom_role ::
    "'p app_env \<Rightarrow> string \<Rightarrow> string \<Rightarrow> string \<Rightarrow> permission set \<Rightarrow> sensitive_action_confirmation
     \<Rightarrow> 'p app_state \<Rightarrow> custom_role result \<times> 'p app_state" where
  "app_create_custom_role env account_id actor name ps c =
     on_accounts (create_custom_role (ax_accounts env 0) account_id actor name ps (Some c))"

definition app_assign_custom_role ::
    "'p app_env \<Rightarrow> string \<Rightarrow> string \<Rightarrow> string \<Rightarrow> string \<Rightarrow> string option
     \<Rightarrow> sensitive_action_confirmation \<Rightarrow> 'p app_state \<Rightarrow> membership result \<times> 'p app_state" where
  "app_assign_custom_role env account_id actor membership_id role_id world_id c =
     on_accounts (assign_custom_role (ax_accounts env 0) account_id actor membership_id role_id
       world_id (Some c))"

definition app_assign_predefined_role ::
    "'p app_env \<Rightarrow> string \<Rightarrow> string \<Rightarrow> string \<Rightarrow> predefined_role \<Rightarrow> string option
     \<Rightarrow> sensitive_action_confirmation \<Rightarrow> 'p app_state \<Rightarrow> membership result \<times> 'p app_state" where
  "app_assign_predefined_role env account_id actor membership_id role world_id c =
     on_accounts (assign_predefined_role (ax_accounts env 0) account_id actor membership_id role
       world_id (Some c))"

definition app_remove_role_assignment ::
    "'p app_env \<Rightarrow> string \<Rightarrow> string \<Rightarrow> string \<Rightarrow> string \<Rightarrow> sensitive_action_confirmation
     \<Rightarrow> 'p app_state \<Rightarrow> membership result \<times> 'p app_state" where
  "app_remove_role_assignment env account_id actor membership_id assignment_id c =
     on_accounts (remove_role_assignment (ax_accounts env 0) account_id actor membership_id
       assignment_id (Some c))"

definition app_remove_membership ::
    "'p app_env \<Rightarrow> string \<Rightarrow> string \<Rightarrow> string \<Rightarrow> sensitive_action_confirmation
     \<Rightarrow> 'p app_state \<Rightarrow> unit result \<times> 'p app_state" where
  "app_remove_membership env account_id actor membership_id c =
     on_accounts (remove_membership (ax_accounts env 0) account_id membership_id actor c)"

definition app_list_activity :: "string \<Rightarrow> string \<Rightarrow> 'p app_state \<Rightarrow> activity_event list result" where
  "app_list_activity account_id viewer s = list_activity_events (ap_accounts s) account_id viewer"

text \<open>The lifetime of a link is the default of \<open>Accounts.create_invitation_link\<close>.\<close>

definition app_create_invitation_link ::
    "'p app_env \<Rightarrow> string \<Rightarrow> string \<Rightarrow> predefined_role option \<Rightarrow> string option \<Rightarrow> string option
     \<Rightarrow> 'p app_state \<Rightarrow> invitation result \<times> 'p app_state" where
  "app_create_invitation_link env account_id actor role role_id world_id =
     on_accounts (create_invitation_link (ax_accounts env 0) account_id actor role role_id world_id
       (days 7))"

definition app_get_invitation ::
    "string \<Rightarrow> string \<Rightarrow> string \<Rightarrow> 'p app_state \<Rightarrow> (account \<times> invitation) result" where
  "app_get_invitation account_id invitation_id viewer s =
     get_invitation (ap_accounts s) account_id invitation_id viewer"

definition app_accept_invitation ::
    "'p app_env \<Rightarrow> string \<Rightarrow> string \<Rightarrow> string \<Rightarrow> 'p app_state \<Rightarrow> membership result \<times> 'p app_state" where
  "app_accept_invitation env account_id invitation_id user =
     on_accounts (accept_invitation (ax_accounts env 0) account_id invitation_id user)"

definition app_accept_pending_invitation ::
    "'p app_env \<Rightarrow> string \<Rightarrow> string \<Rightarrow> 'p app_state \<Rightarrow> membership result \<times> 'p app_state" where
  "app_accept_pending_invitation env account_id user =
     on_accounts (accept_pending_invitation (ax_accounts env 0) account_id user)"

section \<open>Worlds\<close>

definition app_create_world ::
    "'p app_env \<Rightarrow> string \<Rightarrow> string \<Rightarrow> string \<Rightarrow> string \<Rightarrow> string \<Rightarrow> string \<Rightarrow> 'p app_state
     \<Rightarrow> world result \<times> 'p app_state" where
  "app_create_world env account_id actor name template_id region profile s =
     on_worlds (create_world (worlds_env_in env 0 s) account_id actor name template_id region profile) s"

definition app_list_worlds ::
    "'p app_env \<Rightarrow> string \<Rightarrow> string \<Rightarrow> 'p app_state \<Rightarrow> world list result" where
  "app_list_worlds env account_id viewer s =
     list_worlds (worlds_env_in env 0 s) account_id viewer (ap_worlds s)"

definition update_world_settings ::
    "'p app_env \<Rightarrow> string \<Rightarrow> string \<Rightarrow> string \<Rightarrow> int option \<Rightarrow> 'p app_state
     \<Rightarrow> world result \<times> 'p app_state" where
  "update_world_settings env account_id world_id actor auto_sleep_minutes s =
     on_worlds (update_runtime_settings (worlds_env_in env 0 s) account_id world_id actor
       auto_sleep_minutes) s"

section \<open>Billing\<close>

definition app_get_wallet ::
    "'p app_env \<Rightarrow> string \<Rightarrow> string \<Rightarrow> 'p app_state \<Rightarrow> wallet result \<times> 'p app_state" where
  "app_get_wallet env account_id viewer s =
     on_ok (list_memberships (ap_accounts s) account_id viewer) s (\<lambda>_.
       let s1 = ax_rival env 0 s in (Inr (get_wallet account_id (ap_billing s1)), s1))"

definition get_world_budget ::
    "'p app_env \<Rightarrow> string \<Rightarrow> string \<Rightarrow> string \<Rightarrow> 'p app_state
     \<Rightarrow> world_budget_status option result \<times> 'p app_state" where
  "get_world_budget env account_id world_id viewer s =
     on_ok (app_get_world env 0 account_id world_id viewer s) s (\<lambda>_.
       ask (\<lambda>s1. get_world_budget_status (ax_billing env 0) account_id world_id None (ap_billing s1))
         (ax_rival env 0 s))"

definition app_set_world_budget ::
    "'p app_env \<Rightarrow> string \<Rightarrow> string \<Rightarrow> string \<Rightarrow> decimal \<Rightarrow> string \<Rightarrow> 'p app_state
     \<Rightarrow> world_budget_status result \<times> 'p app_state" where
  "app_set_world_budget env account_id world_id actor limit key s =
     on_ok (app_get_world env 0 account_id world_id actor s) s (\<lambda>_.
     let s1 = ax_rival env 0 s
     in on_ok (app_require s1 account_id actor MANAGE_WORLD_BUDGET world_id
            ''changing a World Budget requires Owner permission'') s1 (\<lambda>_.
        and_then (on_billing (set_world_budget (ax_billing env 0) account_id world_id limit key)
            (ax_rival env 1 s1)) (\<lambda>_ s2.
          let s3 = ax_rival env 2 s2
          in on_ok (get_world_budget_status (ax_billing env 1) account_id world_id None (ap_billing s3))
               s3 (\<lambda>status. case status of
                 None \<Rightarrow> (Inl (RuntimeError ''World Budget was not persisted''), s3)
               | Some st \<Rightarrow> (Inr st, s3)))))"

definition app_create_contribution ::
    "'p app_env \<Rightarrow> string \<Rightarrow> string \<Rightarrow> string \<Rightarrow> string \<Rightarrow> string \<Rightarrow> string \<Rightarrow> string option
     \<Rightarrow> 'p app_state \<Rightarrow> wallet_contribution result \<times> 'p app_state" where
  "app_create_contribution env account_id payer package_id return_url completion_url key email s =
     on_ok (list_memberships (ap_accounts s) account_id payer) s (\<lambda>_.
     let s1 = ax_rival env 0 s
     in on_ok (owner_recovery_ready (ap_accounts s1) account_id) s1 (\<lambda>ready.
        if \<not> ready
        then (Inl (PermissionError
               ''Owner Recovery must be ready before the account can accept payments''), s1)
        else (let s2 = ax_rival env 1 s1
              in on_billing (create_contribution (ax_billing env 0) (ax_payments env)
                   (ax_packages env) account_id payer package_id return_url completion_url key
                   (map_option us_display_name (get_user (ap_accounts s2) payer)) email)
                   (ax_rival env 2 s2))))"

definition app_reconcile_contribution ::
    "'p app_env \<Rightarrow> string \<Rightarrow> string \<Rightarrow> string \<Rightarrow> 'p app_state
     \<Rightarrow> wallet_contribution result \<times> 'p app_state" where
  "app_reconcile_contribution env account_id contribution_id payer s =
     on_ok (list_memberships (ap_accounts s) account_id payer) s (\<lambda>_.
     let s1 = ax_rival env 0 s
     in on_ok (get_contribution account_id contribution_id payer (ap_billing s1)) s1 (\<lambda>c.
        if wc_payer_user_id c \<noteq> payer
        then (Inl (PermissionError ''only the payer can reconcile this contribution''), s1)
        else on_billing (reconcile_contribution (ax_billing env 0) (ax_payments env) account_id
               contribution_id) (ax_rival env 1 s1)))"

section \<open>Waking a World\<close>

text \<open>
  \<open>request_wake\<close> begins the operation, then pays for it: a Session Quote, a reservation of its
  minimum and the two attached to the operation. \<open>fund_wake\<close> is the body of the \<open>try\<close>; it also
  tells which reservation was made by the time it ended. \<open>abandon_wake\<close> is the \<open>except\<close> branch.
\<close>

definition dispatch ::
    "'p app_env \<Rightarrow> string \<Rightarrow> world_operation \<Rightarrow> 'p app_state
     \<Rightarrow> world_operation result \<times> 'p app_state" where
  "dispatch env account_id x s = (case ax_dispatcher env of
      None \<Rightarrow> (Inr x, s)
    | Some start \<Rightarrow>
        and_then (outside (start account_id (wo_id x))
            (s\<lparr> ap_dispatched := ap_dispatched s @ [(account_id, wo_id x)] \<rparr>)) (\<lambda>_ s1. (Inr x, s1)))"

definition fund_wake ::
    "'p app_env \<Rightarrow> string \<Rightarrow> string \<Rightarrow> string \<Rightarrow> string \<Rightarrow> decimal \<Rightarrow> world_operation \<Rightarrow> 'p app_state
     \<Rightarrow> world_operation result \<times> usage_reservation option \<times> 'p app_state" where
  "fund_wake env account_id world_id actor key rate x s =
     (case app_get_world env 2 account_id world_id actor s of
        Inl e \<Rightarrow> (Inl e, None, s)
      | Inr w \<Rightarrow>
     (case on_billing (create_session_quote (ax_billing env 0) account_id (wd_id w)
              (wd_runtime_profile_id w) rate (key @ '':quote'')) (ax_rival env 2 s) of
        (Inl e, s1) \<Rightarrow> (Inl e, None, s1)
      | (Inr q, s1) \<Rightarrow>
     (case on_billing (reserve_for_wake (ax_billing env 1) account_id (sq_id q)
              (key @ '':reservation'')) (ax_rival env 3 s1) of
        (Inl e, s2) \<Rightarrow> (Inl e, None, s2)
      | (Inr r, s2) \<Rightarrow>
     (case on_worlds (attach_billing_session (ax_worlds env 3) account_id (wo_id x) (sq_id q)
              (ur_id r)) (ax_rival env 4 s2) of
        (p, s3) \<Rightarrow> (p, Some r, s3)))))"

definition abandon_wake ::
    "'p app_env \<Rightarrow> string \<Rightarrow> world_operation \<Rightarrow> usage_reservation option \<Rightarrow> py_error \<Rightarrow> 'p app_state
     \<Rightarrow> world_operation result \<times> 'p app_state" where
  "abandon_wake env account_id x reservation e s =
     and_then (case reservation of
         None \<Rightarrow> (Inr None, s)
       | Some r \<Rightarrow> and_then (on_billing (release_reservation (ax_billing env 2) account_id (ur_id r))
             (ax_rival env 5 s)) (\<lambda>y s1. (Inr (Some y), s1))) (\<lambda>_ s1.
     and_then (on_worlds (fail_wake_preflight (ax_worlds env 4) account_id (wo_id x))
         (ax_rival env 6 s1)) (\<lambda>_ s2. (Inl e, s2)))"

definition app_request_wake ::
    "'p app_env \<Rightarrow> string \<Rightarrow> string \<Rightarrow> string \<Rightarrow> string \<Rightarrow> 'p app_state
     \<Rightarrow> world_operation result \<times> 'p app_state" where
  "app_request_wake env account_id world_id actor key s =
     and_then (on_worlds (request_wake (worlds_env_in env 0 s) account_id world_id actor key) s)
       (\<lambda>x s0. let s1 = ax_rival env 0 s0
        in on_ok (app_get_world env 1 account_id world_id actor s1) s1 (\<lambda>w.
           let rate = dict_get (ax_rates env) (wd_runtime_profile_id w);
               unfunded = (wo_session_quote_id x = None)
           in case rate of
                Some hourly \<Rightarrow>
                  if wo_idempotency_key x \<noteq> key \<and> unfunded then (Inr x, s1)
                  else if unfunded
                  then (case fund_wake env account_id world_id actor key hourly x (ax_rival env 1 s1) of
                          (Inr y, _, s2) \<Rightarrow> dispatch env account_id y (ax_rival env 7 s2)
                        | (Inl e, reservation, s2) \<Rightarrow> abandon_wake env account_id x reservation e s2)
                  else dispatch env account_id x (ax_rival env 7 s1)
              | None \<Rightarrow> dispatch env account_id x (ax_rival env 7 s1)))"

definition app_request_sleep ::
    "'p app_env \<Rightarrow> string \<Rightarrow> string \<Rightarrow> string \<Rightarrow> string \<Rightarrow> bool \<Rightarrow> 'p app_state
     \<Rightarrow> world_operation result \<times> 'p app_state" where
  "app_request_sleep env account_id world_id actor key forced s =
     and_then (on_worlds (request_sleep (worlds_env_in env 0 s) account_id world_id actor key forced) s)
       (\<lambda>x s1. dispatch env account_id x (ax_rival env 0 s1))"

text \<open>
  \<open>wake_estimate\<close>: the price of 25 minutes, rounded up, and the hourly rate, rounded half-even,
  as text. A quiet NaN stays one; an infinity or a signalling NaN raises.
\<close>

definition half_even_cents :: "nat \<times> int \<Rightarrow> money result" where
  "half_even_cents a =
     (let c = (if -2 \<le> snd a then fst a * 10 ^ nat (snd a + 2) else half_even (fst a) (nat (-2 - snd a)))
      in if 10 ^ prec \<le> c then Inl InvalidOperation else Inr (int c))"

definition show_cents :: "bool \<Rightarrow> money \<Rightarrow> string" where
  "show_cents negative c =
     (if negative then ''-'' else []) @ show_int (c div 100) @ ''.'' @ zero_pad 2 (nat (c mod 100))"

definition show_rounded :: "(nat \<times> int \<Rightarrow> money result) \<Rightarrow> decimal \<Rightarrow> string result" where
  "show_rounded round d = (case d of
      DNaN \<Rightarrow> Inr ''NaN''
    | DSNaN \<Rightarrow> Inl InvalidOperation
    | DInf _ \<Rightarrow> Inl InvalidOperation
    | Dec c e \<Rightarrow> (case round (nat \<bar>c\<bar>, e) of
        Inl err \<Rightarrow> Inl err
      | Inr n \<Rightarrow> Inr (show_cents (c < 0) n)))"

record estimate =
  es_currency :: string
  es_hourly_rate :: string
  es_minimum_reservation :: string
  es_reserved_minutes :: int

definition wake_estimate ::
    "'p app_env \<Rightarrow> string \<Rightarrow> string \<Rightarrow> string \<Rightarrow> 'p app_state \<Rightarrow> estimate result" where
  "wake_estimate env account_id world_id viewer s =
     (case app_get_world env 0 account_id world_id viewer s of
        Inl e \<Rightarrow> Inl e
      | Inr w \<Rightarrow>
     (case dict_get (ax_rates env) (wd_runtime_profile_id w) of
        None \<Rightarrow> Inl (ValueError ''Runtime Profile pricing is not configured'')
      | Some rate \<Rightarrow>
     (case show_rounded (\<lambda>a. quantize_cents Up (dec_quot (dec_mul a (25, 0)) (60, 0))) rate of
        Inl e \<Rightarrow> Inl e
      | Inr minimum \<Rightarrow>
     (case show_rounded half_even_cents rate of
        Inl e \<Rightarrow> Inl e
      | Inr hourly \<Rightarrow> Inr \<lparr> es_currency = ''BRL'', es_hourly_rate = hourly,
          es_minimum_reservation = minimum, es_reserved_minutes = 25 \<rparr>))))"

section \<open>Connection and password\<close>

definition app_connection_details ::
    "'p app_env \<Rightarrow> string \<Rightarrow> string \<Rightarrow> string \<Rightarrow> 'p app_state
     \<Rightarrow> connection_details result \<times> 'p app_state" where
  "app_connection_details env account_id world_id viewer s =
     on_ok (app_get_world env 0 account_id world_id viewer s) s (\<lambda>w.
       if wd_status w \<noteq> ONLINE
       then (Inl (ValueError ''Connection Details are available only while the World is Online''), s)
       else case ax_connection env of
         None \<Rightarrow> (Inl (ValueError ''Connection Details are not configured''), s)
       | Some issue \<Rightarrow> outside (issue w viewer) s)"

definition with_passwords ::
    "'p app_env \<Rightarrow> string \<Rightarrow> string \<Rightarrow> string \<Rightarrow> string
     \<Rightarrow> ('p password_manager \<Rightarrow> world \<Rightarrow> 'p \<Rightarrow> password_settings result \<times> 'p) \<Rightarrow> 'p app_state
     \<Rightarrow> password_settings result \<times> 'p app_state" where
  "with_passwords env account_id world_id user msg f s =
     on_ok (app_get_world env 0 account_id world_id user s) s (\<lambda>w.
     let s1 = ax_rival env 0 s
     in on_ok (app_require s1 account_id user EDIT_WORLD world_id msg) s1 (\<lambda>_.
        case ax_passwords env of
          None \<Rightarrow> (Inl (ValueError ''World password management is not configured''), s1)
        | Some m \<Rightarrow> outside (f m w) s1))"

definition world_password_settings ::
    "'p app_env \<Rightarrow> string \<Rightarrow> string \<Rightarrow> string \<Rightarrow> 'p app_state
     \<Rightarrow> password_settings result \<times> 'p app_state" where
  "world_password_settings env account_id world_id viewer =
     with_passwords env account_id world_id viewer
       ''viewing World password settings requires Manager permission'' pm_get"

definition update_world_password_settings ::
    "'p app_env \<Rightarrow> string \<Rightarrow> string \<Rightarrow> string \<Rightarrow> string \<Rightarrow> string option \<Rightarrow> 'p app_state
     \<Rightarrow> password_settings result \<times> 'p app_state" where
  "update_world_password_settings env account_id world_id actor mode password =
     with_passwords env account_id world_id actor
       ''editing World password settings requires Manager permission''
       (\<lambda>m w. pm_configure m w mode password)"

section \<open>Configuration, Backups and deletion\<close>

definition configuration_schema ::
    "'p app_env \<Rightarrow> string \<Rightarrow> string \<Rightarrow> string \<Rightarrow> 'p app_state \<Rightarrow> game_template result" where
  "configuration_schema env account_id world_id viewer s =
     (case app_get_world env 0 account_id world_id viewer s of
        Inl e \<Rightarrow> Inl e
      | Inr w \<Rightarrow> resolve (ax_catalog env) (wd_game_template_id w))"

definition effective_configuration ::
    "'p app_env \<Rightarrow> string \<Rightarrow> string \<Rightarrow> string \<Rightarrow> 'p app_state \<Rightarrow> configuration_revision result" where
  "effective_configuration env account_id world_id viewer s =
     get_effective_configuration (worlds_env_in env 0 s) account_id world_id viewer (ap_worlds s)"

definition app_update_configuration ::
    "'p app_env \<Rightarrow> string \<Rightarrow> string \<Rightarrow> string \<Rightarrow> py_value \<Rightarrow> string \<Rightarrow> string \<Rightarrow> 'p app_state
     \<Rightarrow> (world \<times> configuration_revision) result \<times> 'p app_state" where
  "app_update_configuration env account_id world_id actor changes key origin s =
     and_then (on_worlds (update_configuration (worlds_env_in env 0 s) account_id world_id actor
         changes key origin) s) (\<lambda>revision s1.
       let s2 = ax_rival env 0 s1
       in on_ok (app_get_world env 1 account_id world_id actor s2) s2 (\<lambda>w. (Inr (w, revision), s2)))"

definition app_list_backups ::
    "'p app_env \<Rightarrow> string \<Rightarrow> string \<Rightarrow> string \<Rightarrow> 'p app_state \<Rightarrow> backup list result \<times> 'p app_state" where
  "app_list_backups env account_id world_id viewer =
     app_data env (\<lambda>d. list_backups d account_id world_id viewer)"

definition app_create_manual_backup ::
    "'p app_env \<Rightarrow> string \<Rightarrow> string \<Rightarrow> string \<Rightarrow> string \<Rightarrow> 'p app_state \<Rightarrow> backup result \<times> 'p app_state" where
  "app_create_manual_backup env account_id world_id actor key =
     app_data env (\<lambda>d. create_manual_backup d account_id world_id actor key)"

definition app_restore_backup ::
    "'p app_env \<Rightarrow> string \<Rightarrow> string \<Rightarrow> string \<Rightarrow> string \<Rightarrow> string \<Rightarrow> 'p app_state
     \<Rightarrow> world result \<times> 'p app_state" where
  "app_restore_backup env account_id world_id backup_id actor key =
     app_data env (\<lambda>d. restore_backup d account_id world_id backup_id actor key)"

definition create_world_export ::
    "'p app_env \<Rightarrow> string \<Rightarrow> string \<Rightarrow> string \<Rightarrow> string \<Rightarrow> 'p app_state
     \<Rightarrow> world_export result \<times> 'p app_state" where
  "create_world_export env account_id world_id actor key =
     app_data env (\<lambda>d. create_export d account_id world_id actor key)"

definition schedule_world_deletion ::
    "'p app_env \<Rightarrow> string \<Rightarrow> string \<Rightarrow> string \<Rightarrow> sensitive_action_confirmation \<Rightarrow> string \<Rightarrow> 'p app_state
     \<Rightarrow> world result \<times> 'p app_state" where
  "schedule_world_deletion env account_id world_id actor c key =
     app_data env (\<lambda>d. schedule_deletion d account_id world_id actor (Some c) key)"

definition cancel_world_deletion ::
    "'p app_env \<Rightarrow> string \<Rightarrow> string \<Rightarrow> string \<Rightarrow> 'p app_state \<Rightarrow> world result \<times> 'p app_state" where
  "cancel_world_deletion env account_id world_id actor =
     app_data env (\<lambda>d. cancel_deletion d account_id world_id actor)"

end
