(* ===== verification/ApiViews.thy ===== *)
theory ApiViews
  imports Application
begin

text \<open>
  The JSON payloads of \<open>class GameWakeApi\<close> (\<open>gamewake/control_plane/api.py\<close>). The view of a game
  template carries the template itself: its explanatory texts are not modelled.
\<close>

type_synonym json_object = "(string \<times> py_value) list"

definition or_null :: "('a \<Rightarrow> py_value) \<Rightarrow> 'a option \<Rightarrow> py_value" where
  "or_null f x = (case x of None \<Rightarrow> VNone | Some a \<Rightarrow> f a)"

definition strings :: "string list \<Rightarrow> py_value" where
  "strings xs = VList (map VStr xs)"

definition money_text :: "money \<Rightarrow> string" where
  "money_text n = show_cents (n < 0) \<bar>n\<bar>"

section \<open>The values of the enumerations\<close>

definition role_value :: "predefined_role \<Rightarrow> string" where
  "role_value r = (case r of OWNER \<Rightarrow> ''owner'' | MANAGER \<Rightarrow> ''manager'' | PLAYER \<Rightarrow> ''player'')"

definition invitation_status_value :: "invitation_status \<Rightarrow> string" where
  "invitation_status_value x =
     (case x of AccountModel.PENDING \<Rightarrow> ''pending'' | ACCEPTED \<Rightarrow> ''accepted'')"

definition invitation_access_value :: "invitation_access \<Rightarrow> string" where
  "invitation_access_value x = (case x of PLAY \<Rightarrow> ''play'' | CONSOLE \<Rightarrow> ''console'')"

definition activity_value :: "activity_action \<Rightarrow> string" where
  "activity_value x = (case x of MEMBERSHIP_REVOKED \<Rightarrow> ''membership.revoked''
    | OWNER_RECOVERED \<Rightarrow> ''owner.recovered'' | ROLE_ASSIGNMENT_REVOKED \<Rightarrow> ''role_assignment.revoked'')"

definition world_status_value :: "world_status \<Rightarrow> string" where
  "world_status_value x = (case x of SLEEPING \<Rightarrow> ''sleeping'' | WAKING \<Rightarrow> ''waking''
    | ONLINE \<Rightarrow> ''online'' | GOING_TO_SLEEP \<Rightarrow> ''going_to_sleep''
    | NEEDS_ATTENTION \<Rightarrow> ''needs_attention'' | PENDING_DELETION \<Rightarrow> ''pending_deletion'')"

definition backup_kind_value :: "backup_kind \<Rightarrow> string" where
  "backup_kind_value x = (case x of AUTOMATIC \<Rightarrow> ''automatic'' | MANUAL \<Rightarrow> ''manual''
    | RESTORE_POINT \<Rightarrow> ''restore_point'' | FINAL \<Rightarrow> ''final'')"

definition operation_type_value :: "operation_type \<Rightarrow> string" where
  "operation_type_value x = (case x of WAKE \<Rightarrow> ''wake'' | SLEEP \<Rightarrow> ''sleep'' | RECOVER \<Rightarrow> ''recover'')"

definition operation_status_value :: "operation_status \<Rightarrow> string" where
  "operation_status_value x = (case x of OP_PENDING \<Rightarrow> ''pending'' | OP_RUNNING \<Rightarrow> ''running''
    | OP_SUCCEEDED \<Rightarrow> ''succeeded'' | OP_CANCELLED \<Rightarrow> ''cancelled'' | OP_FAILED \<Rightarrow> ''failed''
    | OP_NEEDS_ATTENTION \<Rightarrow> ''needs_attention'')"

definition entry_type_value :: "ledger_entry_type \<Rightarrow> string" where
  "entry_type_value x = (case x of CONTRIBUTION \<Rightarrow> ''contribution'' | RUNTIME_CHARGE \<Rightarrow> ''runtime_charge''
    | STORAGE_CHARGE \<Rightarrow> ''storage_charge'' | WAKE_GUARANTEE \<Rightarrow> ''wake_guarantee''
    | AVAILABILITY_CREDIT \<Rightarrow> ''availability_credit'' | SUPPORT_CREDIT \<Rightarrow> ''support_credit''
    | REFUND \<Rightarrow> ''refund'' | DISPUTE \<Rightarrow> ''dispute'')"

definition contribution_status_value :: "contribution_status \<Rightarrow> string" where
  "contribution_status_value x = (case x of CREATING_CHECKOUT \<Rightarrow> ''creating_checkout''
    | Wallet.PENDING \<Rightarrow> ''pending'' | COMPLETED \<Rightarrow> ''completed''
    | REFUND_REQUESTED \<Rightarrow> ''refund_requested'' | REFUNDED \<Rightarrow> ''refunded''
    | DISPUTED \<Rightarrow> ''disputed'' | NEEDS_REVIEW \<Rightarrow> ''needs_review'')"

text \<open>\<open>sorted(permission.value for permission in permissions)\<close>.\<close>

definition permission_list :: "permission list" where
  "permission_list =
     [CREATE_WORLD, VIEW_WORLD, WAKE_WORLD, SLEEP_EMPTY_WORLD, EDIT_WORLD, RESTART_WORLD,
      UPDATE_WORLD, FORCE_SLEEP_WORLD, VIEW_LOGS, CREATE_BACKUP, RESTORE_BACKUP,
      MANAGE_MEMBERSHIPS, MANAGE_ROLES, MANAGE_INTEGRATIONS, MANAGE_WALLET,
      MANAGE_WORLD_BUDGET, MIGRATE_WORLD, EXPORT_WORLD, DELETE_WORLD, TRANSFER_OWNERSHIP,
      DELETE_ACCOUNT]"

definition sorted_permissions :: "permission set \<Rightarrow> py_value" where
  "sorted_permissions ps = strings (sort (map permission_value (filter (\<lambda>p. p \<in> ps) permission_list)))"

section \<open>The payloads\<close>

text \<open>\<open>predefined_role.value\<close>, or \<open>str(custom_role_id)\<close>.\<close>

definition assignment_name :: "role_assignment \<Rightarrow> string" where
  "assignment_name a = (case ra_predefined_role a of
      Some r \<Rightarrow> role_value r
    | None \<Rightarrow> (case ra_custom_role_id a of Some i \<Rightarrow> i | None \<Rightarrow> ''None''))"

definition account_view :: "account \<Rightarrow> (membership \<times> permission set) option \<Rightarrow> py_value" where
  "account_view a access = VDict
     ([(''id'', VStr (ac_id a)), (''name'', VStr (ac_name a)),
       (''discordGuildId'', or_null VStr (ac_discord_guild_id a)),
       (''discordChannelConfigured'', VBool (ac_discord_channel_id a \<noteq> None))]
      @ (case access of None \<Rightarrow> [] | Some (m, ps) \<Rightarrow>
          [(''access'', VDict [
             (''roles'', strings (sort (map assignment_name (mb_assignments m)))),
             (''permissions'', sorted_permissions ps)])]))"

definition invitation_object :: "invitation \<Rightarrow> json_object" where
  "invitation_object i =
     [(''id'', VStr (iv_id i)), (''accountId'', VStr (iv_account_id i)),
      (''invitedUserId'', or_null VStr (iv_invited_user_id i)),
      (''status'', VStr (invitation_status_value (iv_status i))),
      (''access'', VStr (invitation_access_value (iv_access i))),
      (''predefinedRole'', or_null (VStr \<circ> role_value) (iv_predefined_role i)),
      (''customRoleId'', or_null VStr (iv_custom_role_id i)),
      (''worldId'', or_null VStr (iv_world_id i)),
      (''expiresAt'', or_null (VStr \<circ> isoformat) (iv_expires_at i))]"

definition world_object :: "world \<Rightarrow> json_object" where
  "world_object w =
     [(''id'', VStr (wd_id w)), (''accountId'', VStr (wd_account_id w)), (''name'', VStr (wd_name w)),
      (''gameTemplateId'', VStr (wd_game_template_id w)), (''region'', VStr (wd_region w)),
      (''runtimeProfileId'', VStr (wd_runtime_profile_id w)),
      (''status'', VStr (world_status_value (wd_status w))),
      (''configurationRevisionId'', VStr (wd_configuration_revision_id w)),
      (''pendingConfigurationRevisionId'', or_null VStr (wd_pending_configuration_revision_id w)),
      (''storedStateId'', or_null VStr (wd_stored_state_id w)),
      (''autoSleepMinutes'', or_null VInt (wd_auto_sleep_minutes w)),
      (''deletionScheduledFor'', or_null (VStr \<circ> isoformat) (wd_deletion_scheduled_for w))]"

definition membership_view :: "membership \<Rightarrow> py_value" where
  "membership_view m = VDict
     [(''id'', VStr (mb_id m)), (''accountId'', VStr (mb_account_id m)), (''userId'', VStr (mb_user_id m)),
      (''roles'', VList (case role_assignment_of m of None \<Rightarrow> [] | Some a \<Rightarrow>
         [VDict [(''id'', VStr (ra_id a)),
           (''role'', (case ra_predefined_role a of
               Some r \<Rightarrow> VStr (role_value r) | None \<Rightarrow> or_null VStr (ra_custom_role_id a))),
           (''kind'', VStr (if ra_predefined_role a \<noteq> None then ''predefined'' else ''custom'')),
           (''worldId'', or_null VStr (rs_world_id (ra_scope a)))]]))]"

definition custom_role_view :: "custom_role \<Rightarrow> py_value" where
  "custom_role_view r = VDict
     [(''id'', VStr (cu_id r)), (''accountId'', VStr (cu_account_id r)), (''name'', VStr (cu_name r)),
      (''permissions'', sorted_permissions (cu_permissions r))]"

definition activity_view :: "activity_event \<Rightarrow> py_value" where
  "activity_view e = VDict
     [(''id'', VStr (ae_id e)), (''actorUserId'', VStr (ae_actor_user_id e)),
      (''action'', VStr (activity_value (ae_action e))), (''subjectId'', VStr (ae_subject_id e)),
      (''occurredAt'', VStr (isoformat (ae_occurred_at e)))]"

definition backup_view :: "backup \<Rightarrow> py_value" where
  "backup_view b = VDict
     [(''id'', VStr (bk_id b)), (''kind'', VStr (backup_kind_value (bk_kind b))),
      (''sizeBytes'', VInt (bk_size_bytes b)), (''checksumVerified'', VBool (bk_checksum b \<noteq> [])),
      (''createdAt'', or_null (VStr \<circ> isoformat) (bk_created_at b))]"

definition export_view :: "world_export \<Rightarrow> py_value" where
  "export_view x = VDict
     [(''id'', VStr (ex_id x)), (''downloadUrl'', VStr (ex_download_url x)),
      (''createdAt'', VStr (isoformat (ex_created_at x))),
      (''formatVersion'', VInt (mf_format_version (ex_manifest x)))]"

definition revision_view :: "configuration_revision \<Rightarrow> py_value" where
  "revision_view r = VDict
     [(''id'', VStr (cr_id r)), (''number'', VInt (int (cr_number r))),
      (''values'', py_dict (cr_entries r)), (''actorUserId'', VStr (cr_actor_user_id r)),
      (''origin'', VStr (cr_origin r)), (''createdAt'', VStr (isoformat (cr_created_at r)))]"

definition operation_view :: "world_operation \<Rightarrow> py_value" where
  "operation_view x = VDict
     [(''id'', VStr (wo_id x)), (''accountId'', VStr (wo_account_id x)), (''worldId'', VStr (wo_world_id x)),
      (''type'', VStr (operation_type_value (wo_operation_type x))),
      (''status'', VStr (operation_status_value (wo_status x))),
      (''phase'', VStr (phase_value (wo_phase x))), (''createdAt'', VStr (isoformat (wo_created_at x)))]"

definition wallet_view :: "wallet \<Rightarrow> py_value" where
  "wallet_view w = VDict
     [(''accountId'', VStr (wa_account_id w)), (''currency'', VStr (wa_currency w)),
      (''balance'', VStr (money_text (wa_balance w))),
      (''availableBalance'', VStr (money_text (wa_available_balance w))),
      (''statement'', VList (map (\<lambda>e. VDict
         [(''id'', VStr (le_id e)), (''type'', VStr (entry_type_value (le_entry_type e))),
          (''amount'', VStr (money_text (le_amount e))), (''reference'', VStr (le_reference e)),
          (''occurredAt'', VStr (isoformat (le_occurred_at e)))]) (wa_statement w)))]"

definition world_budget_view :: "world_budget_status option \<Rightarrow> py_value" where
  "world_budget_view b = or_null (\<lambda>b. VDict
     [(''worldId'', VStr (bs_world_id b)), (''period'', VStr (bs_period b)),
      (''monthlyLimit'', VStr (money_text (bs_monthly_limit b))), (''spent'', VStr (money_text (bs_spent b))),
      (''reserved'', VStr (money_text (bs_reserved b))), (''committed'', VStr (money_text (bs_committed b))),
      (''percentage'', VStr (money_text (bs_percentage b))), (''wakeAllowed'', VBool (bs_wake_allowed b))]) b"

definition contribution_view :: "wallet_contribution \<Rightarrow> py_value" where
  "contribution_view c = VDict
     [(''id'', VStr (wc_id c)), (''accountId'', VStr (wc_account_id c)), (''packageId'', VStr (wc_package_id c)),
      (''amount'', VStr (money_text (wc_amount c))),
      (''status'', VStr (contribution_status_value (wc_status c))),
      (''checkoutUrl'', or_null VStr (wc_checkout_url c)), (''createdAt'', VStr (isoformat (wc_created_at c)))]"

definition connection_view :: "connection_details \<Rightarrow> py_value" where
  "connection_view c = VDict
     [(''host'', VStr (cd_host c)), (''port'', VInt (cd_port c)), (''password'', or_null VStr (cd_password c))]"

definition estimate_view :: "estimate \<Rightarrow> py_value" where
  "estimate_view e = VDict
     [(''currency'', VStr (es_currency e)), (''hourlyRate'', VStr (es_hourly_rate e)),
      (''minimumReservation'', VStr (es_minimum_reservation e)),
      (''reservedMinutes'', VInt (es_reserved_minutes e))]"

end
