(* ===== verification/DecimalText.thy ===== *)
theory DecimalText
  imports Settings Decimals
begin

text \<open>
  \<open>Decimal(str(value))\<close> of a JSON value, as the API reads an amount of money: the text of a
  decimal number, and of a float the shortest decimal number that reads back as the same double.
\<close>

definition decimal_of_text :: "string \<Rightarrow> decimal option" where
  "decimal_of_text s =
     (case split_sign (casefold (filter (\<lambda>c. c \<noteq> CHR ''_'') (strip s))) of (neg, r) \<Rightarrow>
        if r \<in> set [''inf'', ''infinity''] then Some (DInf neg)
        else if take 3 r = ''nan'' \<and> list_all is_digit (drop 3 r) then Some DNaN
        else if take 4 r = ''snan'' \<and> list_all is_digit (drop 4 r) then Some DSNaN
        else (case scan_decimal r of
            None \<Rightarrow> None
          | Some (n, k) \<Rightarrow> Some (Dec (if neg then - int n else int n) k)))"

text \<open>The two decimal numbers of \<open>n\<close> digits around \<open>p / q\<close>, the nearer one first.\<close>

definition candidates :: "nat \<Rightarrow> nat \<Rightarrow> nat \<Rightarrow> (nat \<times> int) list" where
  "candidates p q n =
     (let j0 = int (ndigits p) - int (ndigits q);
          reaches = (\<lambda>j. if 0 \<le> j then q * 10 ^ nat j \<le> p else q \<le> p * 10 ^ nat (- j));
          j = (if reaches j0 then j0 else j0 - 1);
          shift = j - int n + 1;
          (a, b) = (if 0 \<le> shift then (p, q * 10 ^ nat shift) else (p * 10 ^ nat (- shift), q));
          d = a div b
      in if 2 * (a mod b) \<le> b then [(d, shift), (d + 1, shift)] else [(d + 1, shift), (d, shift)])"

definition reads_as :: "py_float \<Rightarrow> nat \<times> int \<Rightarrow> bool" where
  "reads_as x c = (case c of (n, k) \<Rightarrow>
     (if 0 \<le> k then signed_double False (n * 10 ^ nat k) 1 else signed_double False n (10 ^ nat (- k))) = x)"

definition decimal_of_float :: "py_float \<Rightarrow> decimal" where
  "decimal_of_float x = (case x of
      FInf neg \<Rightarrow> DInf neg
    | NaN \<Rightarrow> DNaN
    | Flt m e \<Rightarrow>
        if m = 0 then Dec 0 (-1)
        else
          (let (p, q) = scaled_ratio (nat \<bar>m\<bar>) 1 (- e)
           in case find (reads_as (Flt \<bar>m\<bar> e)) (concat (map (candidates p q) [1..<18])) of
                None \<Rightarrow> DNaN
              | Some (n, k) \<Rightarrow> Dec (if m < 0 then - int n else int n) k))"

end
