(* ===== verification/Api.thy ===== *)
theory Api
  imports ApiViews DecimalText
begin

text \<open>
  \<open>class GameWakeApi\<close> (\<open>gamewake/control_plane/api.py\<close>): reading a request, the routes, and the
  response an exception becomes. An exception that \<open>handle\<close> does not catch is the \<open>Inl\<close> of its
  result. \<open>ax_rival env\<close> from index 20 on are the other clients' steps between the use cases of one
  request.
\<close>

record api_request =
  rq_method :: string
  rq_path :: string
  rq_user_id :: string
  rq_body :: json_object
  rq_authenticated_at :: "instant option"
  rq_verified_email :: "string option"

datatype api_body = Payload json_object | TemplateBody game_template

record api_response =
  rs_status :: int
  rs_body :: api_body

definition respond :: "int \<Rightarrow> json_object \<Rightarrow> 's \<Rightarrow> api_response result \<times> 's" where
  "respond status body s = (Inr \<lparr> rs_status = status, rs_body = Payload body \<rparr>, s)"

section \<open>Reading the request\<close>

text \<open>\<open>body.get(key)\<close>.\<close>

definition body_get :: "json_object \<Rightarrow> string \<Rightarrow> py_value" where
  "body_get body key = (case dict_get body key of None \<Rightarrow> VNone | Some v \<Rightarrow> v)"

definition api_required_string :: "json_object \<Rightarrow> string \<Rightarrow> string result" where
  "api_required_string body key = (case body_get body key of
      VStr s \<Rightarrow> if s = [] then Inl (ValueError (key @ '' is required'')) else Inr s
    | _ \<Rightarrow> Inl (ValueError (key @ '' is required'')))"

definition optional_string :: "json_object \<Rightarrow> string \<Rightarrow> string option result" where
  "optional_string body key = (case body_get body key of
      VNone \<Rightarrow> Inr None
    | VStr s \<Rightarrow> if s = [] then Inl (ValueError (key @ '' must be a non-empty string'')) else Inr (Some s)
    | _ \<Rightarrow> Inl (ValueError (key @ '' must be a non-empty string'')))"

definition api_decimal :: "json_object \<Rightarrow> string \<Rightarrow> decimal result" where
  "api_decimal body key =
     (let err = ValueError (key @ '' must be a decimal value'')
      in case body_get body key of
           VStr s \<Rightarrow> (case decimal_of_text s of None \<Rightarrow> Inl err | Some d \<Rightarrow> Inr d)
         | VInt n \<Rightarrow>
             if 4300 < ndigits (nat \<bar>n\<bar>)
             then Inl (ValueError ''Exceeds the limit (4300 digits) for integer string conversion'')
             else Inr (Dec n 0)
         | VFloat x \<Rightarrow> Inr (decimal_of_float x)
         | _ \<Rightarrow> Inl err)"

definition sensitive_confirmation :: "api_request \<Rightarrow> string \<Rightarrow> sensitive_action_confirmation result" where
  "sensitive_confirmation rq action = (case rq_authenticated_at rq of
      None \<Rightarrow> Inl (SensitiveActionConfirmationError (action @ '' requires recent Discord authentication''))
    | Some t \<Rightarrow> (case api_required_string (rq_body rq) ''confirmedResourceName'' of
        Inl e \<Rightarrow> Inl e
      | Inr n \<Rightarrow> Inr \<lparr> sc_actor_user_id = rq_user_id rq, sc_reauthenticated_at = t,
          sc_confirmed_resource_name = n \<rparr>))"

text \<open>\<open>Permission(str(value))\<close> and \<open>PredefinedRole(value)\<close>; the value in the message is not quoted here.\<close>

definition permission_of :: "py_value \<Rightarrow> permission result" where
  "permission_of v = (case v of
      VStr s \<Rightarrow> (case find (\<lambda>p. permission_value p = s) permission_list of
          Some p \<Rightarrow> Inr p
        | None \<Rightarrow> Inl (ValueError (s @ '' is not a valid Permission'')))
    | _ \<Rightarrow> Inl (ValueError ''not a valid Permission''))"

definition predefined_role_of :: "string \<Rightarrow> predefined_role result" where
  "predefined_role_of s = (case find (\<lambda>r. role_value r = s) [OWNER, MANAGER, PLAYER] of
      Some r \<Rightarrow> Inr r | None \<Rightarrow> Inl (ValueError (s @ '' is not a valid PredefinedRole'')))"

text \<open>\<open>tuple(part for part in path.strip("/").split("/") if part)\<close>.\<close>

definition path_parts :: "string \<Rightarrow> string list" where
  "path_parts path = filter (\<lambda>p. p \<noteq> []) (split_on CHR ''/'' path)"

section \<open>Errors\<close>

text \<open>\<open>str(error)\<close>.\<close>

fun error_text :: "py_error \<Rightarrow> string" where
  "error_text (ValueError m) = m"
| "error_text (TypeError m) = m"
| "error_text (PermissionError m) = m"
| "error_text (PermissionDeniedError m) = m"
| "error_text (InsufficientFundsError m) = m"
| "error_text (WorldBudgetExceeded m) = m"
| "error_text (DiscordGuildAlreadyLinkedError m) = m"
| "error_text (ExistingMembershipInvitationError ids) =
     ''pelo menos um jogador convidado ja faz parte deste grupo''"
| "error_text (InvalidRecoveryCodeError m) = m"
| "error_text (StorageBlockedError m) = m"
| "error_text (SettingsValidationError m) = m"
| "error_text (GameConfigurationError m) = m"
| "error_text (RuntimeError m) = m"
| "error_text (ConcurrentBillingUpdate m) = m"
| "error_text (PaymentProviderError m) = m"
| "error_text (LastOwnerRemovalError m) = m"
| "error_text (SensitiveActionConfirmationError m) = m"
| "error_text (OverflowError m) = m"
| "error_text (KeyError m) = m"
| "error_text e = []"

definition error_payload :: "int \<Rightarrow> string \<Rightarrow> string \<Rightarrow> api_response" where
  "error_payload status code message = \<lparr> rs_status = status,
     rs_body = Payload [(''error'', VDict [(''code'', VStr code), (''message'', VStr message)])] \<rparr>"

text \<open>The \<open>except\<close> clauses, in their order and with the classes' ancestors.\<close>

definition api_error :: "py_error \<Rightarrow> api_response result" where
  "api_error e = (case e of
      SensitiveActionConfirmationError _ \<Rightarrow> Inr (error_payload 403 ''recent_authentication_required''
        ''Renove seu login Discord e confirme o nome do grupo para continuar.'')
    | PermissionDeniedError _ \<Rightarrow> Inr (error_payload 403 ''forbidden'' (error_text e))
    | PermissionError _ \<Rightarrow> Inr (error_payload 403 ''forbidden'' (error_text e))
    | InvalidRecoveryCodeError _ \<Rightarrow> Inr (error_payload 403 ''forbidden'' (error_text e))
    | LastOwnerRemovalError _ \<Rightarrow> Inr (error_payload 409 ''last_owner_required''
        ''Defina outro Owner antes de remover ou trocar esta Role.'')
    | KeyError _ \<Rightarrow> Inr (error_payload 404 ''not_found'' ''Not found'')
    | TypeError _ \<Rightarrow> Inr (error_payload 400 ''invalid_request'' (error_text e))
    | ValueError _ \<Rightarrow> Inr (error_payload 400 ''invalid_request'' (error_text e))
    | InsufficientFundsError _ \<Rightarrow> Inr (error_payload 400 ''invalid_request'' (error_text e))
    | WorldBudgetExceeded _ \<Rightarrow> Inr (error_payload 400 ''invalid_request'' (error_text e))
    | DiscordGuildAlreadyLinkedError _ \<Rightarrow> Inr (error_payload 400 ''invalid_request'' (error_text e))
    | ExistingMembershipInvitationError _ \<Rightarrow> Inr (error_payload 400 ''invalid_request'' (error_text e))
    | StorageBlockedError _ \<Rightarrow> Inr (error_payload 400 ''invalid_request'' (error_text e))
    | SettingsValidationError _ \<Rightarrow> Inr (error_payload 400 ''invalid_request'' (error_text e))
    | GameConfigurationError _ \<Rightarrow> Inr (error_payload 400 ''invalid_request'' (error_text e))
    | _ \<Rightarrow> Inl e)"

section \<open>Routes\<close>

text \<open>\<open>GET /api/v1/me/accounts\<close>: every Account with the User's access to it.\<close>

fun account_views ::
    "'p app_env \<Rightarrow> string \<Rightarrow> nat \<Rightarrow> account list \<Rightarrow> 'p app_state
     \<Rightarrow> py_value list result \<times> 'p app_state" where
  "account_views env user k [] s = (Inr [], s)"
| "account_views env user k (a # as) s =
     (let s1 = ax_rival env k s
      in on_ok (account_access (ac_id a) user None s1) s1 (\<lambda>access.
         and_then (account_views env user (Suc k) as s1) (\<lambda>vs s2.
           (Inr (account_view a (Some access) # vs), s2))))"

definition my_accounts :: "'p app_env \<Rightarrow> api_request \<Rightarrow> 'p app_state \<Rightarrow> api_response result \<times> 'p app_state" where
  "my_accounts env rq s =
     and_then (account_views env (rq_user_id rq) 20 (app_list_accounts (rq_user_id rq) s) s)
       (\<lambda>vs. respond 200 [(''accounts'', VList vs)])"

text \<open>\<open>POST /api/v1/accounts\<close>, with Owner Recovery when the session has a verified email.\<close>

definition create_account_route ::
    "'p app_env \<Rightarrow> api_request \<Rightarrow> 'p app_state \<Rightarrow> api_response result \<times> 'p app_state" where
  "create_account_route env rq s =
     on_ok (api_required_string (rq_body rq) ''name'') s (\<lambda>name.
     on_ok (optional_string (rq_body rq) ''discordGuildId'') s (\<lambda>guild.
     and_then (app_create_account env (rq_user_id rq) name guild s) (\<lambda>a s1.
       case rq_verified_email rq of
         None \<Rightarrow> respond 201 [(''account'', account_view a None), (''ownerRecovery'', VNone)] s1
       | Some email \<Rightarrow>
           and_then (on_accounts (enable_owner_recovery (ax_accounts env 1) (ac_id a) (rq_user_id rq)
               email) (ax_rival env 20 s1))
             (\<lambda>codes. respond 201 [(''account'', account_view a None),
                (''ownerRecovery'', VDict [(''verifiedEmail'', VStr email), (''codes'', strings codes)])]))))"

definition create_role_route ::
    "'p app_env \<Rightarrow> api_request \<Rightarrow> string \<Rightarrow> 'p app_state \<Rightarrow> api_response result \<times> 'p app_state" where
  "create_role_route env rq acc s =
     (case rq_authenticated_at rq of
        None \<Rightarrow> (Inl (SensitiveActionConfirmationError
                  ''creating roles requires recent Discord authentication''), s)
      | Some t \<Rightarrow> (case body_get (rq_body rq) ''permissions'' of
          VList raw \<Rightarrow>
            if raw = [] then (Inl (ValueError ''permissions must contain at least one permission''), s)
            else
              on_ok (api_required_string (rq_body rq) ''name'') s (\<lambda>name.
              on_ok (collect permission_of raw) s (\<lambda>ps.
              on_ok (sensitive_confirmation rq ''creating roles'') s (\<lambda>c.
              and_then (app_create_custom_role env acc (rq_user_id rq) name (set ps) c s)
                (\<lambda>r. respond 201 [(''role'', custom_role_view r)]))))
        | _ \<Rightarrow> (Inl (ValueError ''permissions must contain at least one permission''), s)))"

definition assign_role_route ::
    "'p app_env \<Rightarrow> api_request \<Rightarrow> string \<Rightarrow> string \<Rightarrow> 'p app_state
     \<Rightarrow> api_response result \<times> 'p app_state" where
  "assign_role_route env rq acc membership_id s =
     on_ok (sensitive_confirmation rq ''assigning roles'') s (\<lambda>c.
     on_ok (optional_string (rq_body rq) ''customRoleId'') s (\<lambda>custom.
     on_ok (optional_string (rq_body rq) ''predefinedRole'') s (\<lambda>predefined.
       if (custom = None) = (predefined = None)
       then (Inl (ValueError ''choose exactly one predefinedRole or customRoleId''), s)
       else and_then
         (case custom of
            Some role_id \<Rightarrow>
              on_ok (optional_string (rq_body rq) ''worldId'') s (\<lambda>w.
                app_assign_custom_role env acc (rq_user_id rq) membership_id role_id w c s)
          | None \<Rightarrow>
              on_ok (predefined_role_of (case predefined of Some r \<Rightarrow> r | None \<Rightarrow> [])) s (\<lambda>r.
              on_ok (optional_string (rq_body rq) ''worldId'') s (\<lambda>w.
                app_assign_predefined_role env acc (rq_user_id rq) membership_id r w c s)))
         (\<lambda>m. respond 200 [(''membership'', membership_view m)]))))"

definition contribution_route ::
    "'p app_env \<Rightarrow> api_request \<Rightarrow> string \<Rightarrow> 'p app_state \<Rightarrow> api_response result \<times> 'p app_state" where
  "contribution_route env rq acc s =
     on_ok (api_required_string (rq_body rq) ''packageId'') s (\<lambda>package.
     on_ok (api_required_string (rq_body rq) ''returnUrl'') s (\<lambda>return_url.
     on_ok (api_required_string (rq_body rq) ''completionUrl'') s (\<lambda>completion_url.
     on_ok (api_required_string (rq_body rq) ''idempotencyKey'') s (\<lambda>key.
     and_then (app_create_contribution env acc (rq_user_id rq) package return_url completion_url key
         (rq_verified_email rq) s)
       (\<lambda>c. respond 201 [(''contribution'', contribution_view c)])))))"

text \<open>A non-empty list of non-empty strings.\<close>

definition user_ids_of :: "py_value \<Rightarrow> string list result" where
  "user_ids_of v =
     (let err = Inl (ValueError ''invitedUserIds must contain at least one User ID'')
      in case v of
           VList xs \<Rightarrow>
             (let ids = concat (map (\<lambda>x. case x of VStr i \<Rightarrow> if i = [] then [] else [i] | _ \<Rightarrow> []) xs)
              in if xs = [] \<or> length ids \<noteq> length xs then err else Inr ids)
         | _ \<Rightarrow> err)"

definition invite_route ::
    "'p app_env \<Rightarrow> api_request \<Rightarrow> string \<Rightarrow> 'p app_state \<Rightarrow> api_response result \<times> 'p app_state" where
  "invite_route env rq acc s =
     on_ok (user_ids_of (body_get (rq_body rq) ''invitedUserIds'')) s (\<lambda>ids.
     and_then (invite_friends env 0 acc (rq_user_id rq) ids s)
       (\<lambda>is. respond 201 [(''invitations'', VList (map (VDict \<circ> invitation_object) is))]))"

definition link_role ::
    "api_request \<Rightarrow> string \<Rightarrow> string option \<Rightarrow> string option \<Rightarrow> predefined_role option result" where
  "link_role rq access custom predefined =
     (if access = ''play''
      then (if custom \<noteq> None \<or> predefined \<notin> set [None, Some ''player'']
            then Inl (ValueError ''play access always grants the Player Role'') else Inr (Some PLAYER))
      else if rq_authenticated_at rq = None
      then Inl (SensitiveActionConfirmationError
             ''console invitation links require recent Discord authentication'')
      else if (custom = None) = (predefined = None)
      then Inl (ValueError ''choose exactly one predefinedRole or customRoleId'')
      else if predefined = Some ''player''
      then Inl (ValueError ''console access requires a Moderator or custom Role'')
      else (case predefined of
          None \<Rightarrow> Inr None
        | Some p \<Rightarrow> (case predefined_role_of p of Inl e \<Rightarrow> Inl e | Inr r \<Rightarrow> Inr (Some r))))"

definition invitation_link_route ::
    "'p app_env \<Rightarrow> api_request \<Rightarrow> string \<Rightarrow> 'p app_state \<Rightarrow> api_response result \<times> 'p app_state" where
  "invitation_link_route env rq acc s =
     on_ok (api_required_string (rq_body rq) ''access'') s (\<lambda>access.
     if access \<notin> set [''play'', ''console'']
     then (Inl (ValueError ''access must be play or console''), s)
     else
     on_ok (optional_string (rq_body rq) ''customRoleId'') s (\<lambda>custom.
     on_ok (optional_string (rq_body rq) ''predefinedRole'') s (\<lambda>predefined.
     on_ok (link_role rq access custom predefined) s (\<lambda>role.
     on_ok (optional_string (rq_body rq) ''worldId'') s (\<lambda>w.
     and_then (app_create_invitation_link env acc (rq_user_id rq) role custom w s)
       (\<lambda>i. respond 201 [(''invitation'', VDict (invitation_object i))]))))))"

definition create_world_route ::
    "'p app_env \<Rightarrow> api_request \<Rightarrow> string \<Rightarrow> 'p app_state \<Rightarrow> api_response result \<times> 'p app_state" where
  "create_world_route env rq acc s =
     on_ok (api_required_string (rq_body rq) ''name'') s (\<lambda>name.
     on_ok (api_required_string (rq_body rq) ''gameTemplateId'') s (\<lambda>template.
     on_ok (api_required_string (rq_body rq) ''region'') s (\<lambda>region.
     on_ok (api_required_string (rq_body rq) ''runtimeProfileId'') s (\<lambda>profile.
     and_then (app_create_world env acc (rq_user_id rq) name template region profile s)
       (\<lambda>w. respond 201 [(''world'', VDict (world_object w))])))))"

text \<open>Every visible World with the User's permissions in it.\<close>

fun world_views ::
    "'p app_env \<Rightarrow> string \<Rightarrow> string \<Rightarrow> nat \<Rightarrow> world list \<Rightarrow> 'p app_state
     \<Rightarrow> py_value list result \<times> 'p app_state" where
  "world_views env acc user k [] s = (Inr [], s)"
| "world_views env acc user k (w # ws) s =
     (let s1 = ax_rival env k s
      in on_ok (account_access acc user (Some (wd_id w)) s1) s1 (\<lambda>access.
         and_then (world_views env acc user (Suc k) ws s1) (\<lambda>vs s2.
           (Inr (VDict (world_object w @ [(''permissions'', sorted_permissions (snd access))]) # vs), s2))))"

definition list_worlds_route ::
    "'p app_env \<Rightarrow> api_request \<Rightarrow> string \<Rightarrow> 'p app_state \<Rightarrow> api_response result \<times> 'p app_state" where
  "list_worlds_route env rq acc s =
     on_ok (app_list_worlds env acc (rq_user_id rq) s) s (\<lambda>ws.
     and_then (world_views env acc (rq_user_id rq) 20 ws s)
       (\<lambda>vs. respond 200 [(''worlds'', VList vs)]))"

definition with_key ::
    "api_request \<Rightarrow> 'p app_state \<Rightarrow> (string \<Rightarrow> api_response result \<times> 'p app_state)
     \<Rightarrow> api_response result \<times> 'p app_state" where
  "with_key rq s f = on_ok (api_required_string (rq_body rq) ''idempotencyKey'') s f"

definition settings_route ::
    "'p app_env \<Rightarrow> api_request \<Rightarrow> string \<Rightarrow> string \<Rightarrow> 'p app_state
     \<Rightarrow> api_response result \<times> 'p app_state" where
  "settings_route env rq acc i s =
     on_ok (case body_get (rq_body rq) ''autoSleepMinutes'' of
         VNone \<Rightarrow> Inr None
       | VInt n \<Rightarrow> Inr (Some n)
       | _ \<Rightarrow> Inl (ValueError ''autoSleepMinutes must be an integer or null'')) s (\<lambda>m.
     and_then (update_world_settings env acc i (rq_user_id rq) m s)
       (\<lambda>w. respond 200 [(''world'', VDict (world_object w))]))"

definition set_budget_route ::
    "'p app_env \<Rightarrow> api_request \<Rightarrow> string \<Rightarrow> string \<Rightarrow> 'p app_state
     \<Rightarrow> api_response result \<times> 'p app_state" where
  "set_budget_route env rq acc i s =
     on_ok (api_decimal (rq_body rq) ''monthlyLimit'') s (\<lambda>limit.
     with_key rq s (\<lambda>key.
     and_then (app_set_world_budget env acc i (rq_user_id rq) limit key s)
       (\<lambda>b. respond 200 [(''budget'', world_budget_view (Some b))])))"

definition operations_route ::
    "'p app_env \<Rightarrow> api_request \<Rightarrow> string \<Rightarrow> string \<Rightarrow> 'p app_state
     \<Rightarrow> api_response result \<times> 'p app_state" where
  "operations_route env rq acc i s =
     on_ok (list_operations (worlds_env_in env 0 s) acc i (rq_user_id rq) (ap_worlds s)) s
       (\<lambda>xs. respond 200 [(''operations'', VList (map operation_view xs))] s)"

definition password_view :: "password_settings \<Rightarrow> py_value" where
  "password_view p = VDict [(''mode'', VStr (pw_mode p))]"

definition update_password_route ::
    "'p app_env \<Rightarrow> api_request \<Rightarrow> string \<Rightarrow> string \<Rightarrow> 'p app_state
     \<Rightarrow> api_response result \<times> 'p app_state" where
  "update_password_route env rq acc i s =
     on_ok (api_required_string (rq_body rq) ''mode'') s (\<lambda>mode.
     on_ok (optional_string (rq_body rq) ''password'') s (\<lambda>password.
     and_then (update_world_password_settings env acc i (rq_user_id rq) mode password s)
       (\<lambda>p. respond 200 [(''password'', password_view p)])))"

definition delete_world_route ::
    "'p app_env \<Rightarrow> api_request \<Rightarrow> string \<Rightarrow> string \<Rightarrow> 'p app_state
     \<Rightarrow> api_response result \<times> 'p app_state" where
  "delete_world_route env rq acc i s =
     on_ok (sensitive_confirmation rq ''deleting a World'') s (\<lambda>c.
     with_key rq s (\<lambda>key.
     and_then (schedule_world_deletion env acc i (rq_user_id rq) c key s)
       (\<lambda>w. respond 202 [(''world'', VDict (world_object w))])))"

definition update_configuration_route ::
    "'p app_env \<Rightarrow> api_request \<Rightarrow> string \<Rightarrow> string \<Rightarrow> 'p app_state
     \<Rightarrow> api_response result \<times> 'p app_state" where
  "update_configuration_route env rq acc i s =
     with_key rq s (\<lambda>key.
     and_then (app_update_configuration env acc i (rq_user_id rq) (body_get (rq_body rq) ''changes'')
         key ''web'' s)
       (\<lambda>(w, r). respond 200 [(''world'', VDict (world_object w)), (''revision'', revision_view r)]))"

text \<open>The routes under \<open>/api/v1/accounts/<account>/worlds/<world>\<close>; \<open>rest\<close> is \<open>parts[6:]\<close>.\<close>

definition world_routes ::
    "'p app_env \<Rightarrow> api_request \<Rightarrow> string \<Rightarrow> string \<Rightarrow> string list \<Rightarrow> 'p app_state
     \<Rightarrow> api_response result \<times> 'p app_state" where
  "world_routes env rq acc i rest s =
     (let method = rq_method rq; user = rq_user_id rq
      in if method = ''PATCH'' \<and> rest = [''settings''] then settings_route env rq acc i s
      else if method = ''GET'' \<and> rest = [''budget''] then
        and_then (get_world_budget env acc i user s) (\<lambda>b. respond 200 [(''budget'', world_budget_view b)])
      else if method = ''PUT'' \<and> rest = [''budget''] then set_budget_route env rq acc i s
      else if method = ''GET'' \<and> rest = [''wake'', ''estimate''] then
        on_ok (wake_estimate env acc i user s) s (\<lambda>e. respond 200 [(''estimate'', estimate_view e)] s)
      else if method = ''POST'' \<and> rest = [''wake''] then
        with_key rq s (\<lambda>key. and_then (app_request_wake env acc i user key s)
          (\<lambda>x. respond 202 [(''operation'', operation_view x)]))
      else if method = ''POST'' \<and> rest = [''sleep''] then
        with_key rq s (\<lambda>key. and_then (app_request_sleep env acc i user key
            (body_get (rq_body rq) ''force'' = VBool True) s)
          (\<lambda>x. respond 202 [(''operation'', operation_view x)]))
      else if method = ''GET'' \<and> rest = [''operations''] then operations_route env rq acc i s
      else if method = ''GET'' \<and> rest = [''connection''] then
        and_then (app_connection_details env acc i user s)
          (\<lambda>c. respond 200 [(''connection'', connection_view c)])
      else if method = ''GET'' \<and> rest = [''access'', ''password''] then
        and_then (world_password_settings env acc i user s)
          (\<lambda>p. respond 200 [(''password'', password_view p)])
      else if method = ''PATCH'' \<and> rest = [''access'', ''password''] then
        update_password_route env rq acc i s
      else if method = ''GET'' \<and> rest = [''configuration'', ''schema''] then
        on_ok (configuration_schema env acc i user s) s
          (\<lambda>t. (Inr \<lparr> rs_status = 200, rs_body = TemplateBody t \<rparr>, s))
      else if method = ''GET'' \<and> rest = [''configuration''] then
        on_ok (effective_configuration env acc i user s) s
          (\<lambda>r. respond 200 [(''revision'', revision_view r)] s)
      else if method = ''GET'' \<and> rest = [''backups''] then
        and_then (app_list_backups env acc i user s)
          (\<lambda>bs. respond 200 [(''backups'', VList (map backup_view bs))])
      else if method = ''POST'' \<and> rest = [''backups''] then
        with_key rq s (\<lambda>key. and_then (app_create_manual_backup env acc i user key s)
          (\<lambda>b. respond 201 [(''backup'', backup_view b)]))
      else if method = ''POST'' \<and> length rest = 3 \<and> rest ! 0 = ''backups'' \<and> rest ! 2 = ''restore'' then
        with_key rq s (\<lambda>key. and_then (app_restore_backup env acc i (rest ! 1) user key s)
          (\<lambda>w. respond 200 [(''world'', VDict (world_object w))]))
      else if method = ''POST'' \<and> rest = [''exports''] then
        with_key rq s (\<lambda>key. and_then (create_world_export env acc i user key s)
          (\<lambda>x. respond 201 [(''export'', export_view x)]))
      else if method = ''DELETE'' \<and> rest = [] then delete_world_route env rq acc i s
      else if method = ''POST'' \<and> rest = [''deletion'', ''cancel''] then
        and_then (cancel_world_deletion env acc i user s)
          (\<lambda>w. respond 200 [(''world'', VDict (world_object w))])
      else if method = ''PATCH'' \<and> rest = [''configuration''] then
        update_configuration_route env rq acc i s
      else (Inl (KeyError (rq_path rq)), s))"

text \<open>The routes under \<open>/api/v1/accounts/<account>\<close>; \<open>rest\<close> is \<open>parts[4:]\<close>.\<close>

definition account_routes ::
    "'p app_env \<Rightarrow> api_request \<Rightarrow> string \<Rightarrow> string list \<Rightarrow> 'p app_state
     \<Rightarrow> api_response result \<times> 'p app_state" where
  "account_routes env rq acc rest s =
     (let method = rq_method rq; user = rq_user_id rq
      in if method = ''GET'' \<and> rest = [''memberships''] then
        on_ok (app_list_memberships acc user s) s
          (\<lambda>ms. respond 200 [(''memberships'', VList (map membership_view ms))] s)
      else if method = ''GET'' \<and> rest = [''roles''] then
        on_ok (app_list_custom_roles acc user s) s
          (\<lambda>rs. respond 200 [(''predefinedRoles'', strings [''owner'', ''manager'', ''player'']),
             (''customRoles'', VList (map custom_role_view rs)),
             (''permissions'', sorted_permissions (set permission_list))] s)
      else if method = ''POST'' \<and> rest = [''roles''] then create_role_route env rq acc s
      else if method = ''POST'' \<and> length rest = 3 \<and> rest ! 0 = ''memberships'' \<and> rest ! 2 = ''roles'' then
        assign_role_route env rq acc (rest ! 1) s
      else if method = ''DELETE'' \<and> length rest = 4 \<and> rest ! 0 = ''memberships'' \<and> rest ! 2 = ''roles'' then
        on_ok (sensitive_confirmation rq ''removing roles'') s (\<lambda>c.
          and_then (app_remove_role_assignment env acc user (rest ! 1) (rest ! 3) c s)
            (\<lambda>m. respond 200 [(''membership'', membership_view m)]))
      else if method = ''DELETE'' \<and> length rest = 2 \<and> rest ! 0 = ''memberships'' then
        on_ok (sensitive_confirmation rq ''removing a member'') s (\<lambda>c.
          and_then (app_remove_membership env acc user (rest ! 1) c s)
            (\<lambda>_. respond 200 [(''removed'', VBool True)]))
      else if method = ''GET'' \<and> rest = [''activity''] then
        on_ok (app_list_activity acc user s) s
          (\<lambda>es. respond 200 [(''events'', VList (map activity_view es))] s)
      else if method = ''GET'' \<and> rest = [''wallet''] then
        and_then (app_get_wallet env acc user s) (\<lambda>w. respond 200 [(''wallet'', wallet_view w)])
      else if method = ''POST'' \<and> rest = [''wallet'', ''contributions''] then
        contribution_route env rq acc s
      else if method = ''POST'' \<and> length rest = 4 \<and> take 2 rest = [''wallet'', ''contributions'']
              \<and> rest ! 3 = ''reconcile'' then
        and_then (app_reconcile_contribution env acc (rest ! 2) user s)
          (\<lambda>c. respond 200 [(''contribution'', contribution_view c)])
      else if method = ''POST'' \<and> rest = [''invitations''] then invite_route env rq acc s
      else if method = ''POST'' \<and> rest = [''invitation-links''] then invitation_link_route env rq acc s
      else if method = ''GET'' \<and> length rest = 2 \<and> rest ! 0 = ''invitations'' then
        on_ok (app_get_invitation acc (rest ! 1) user s) s
          (\<lambda>(a, i). respond 200 [(''invitation'', VDict (invitation_object i
              @ [(''accountName'', VStr (ac_name a))]))] s)
      else if method = ''POST'' \<and> length rest = 3 \<and> rest ! 0 = ''invitations'' \<and> rest ! 2 = ''accept'' then
        and_then (app_accept_invitation env acc (rest ! 1) user s)
          (\<lambda>m. respond 200 [(''membership'', membership_view m)])
      else if method = ''POST'' \<and> rest = [''worlds''] then create_world_route env rq acc s
      else if method = ''GET'' \<and> rest = [''worlds''] then list_worlds_route env rq acc s
      else if length rest < 2 \<or> rest ! 0 \<noteq> ''worlds'' then (Inl (KeyError (rq_path rq)), s)
      else world_routes env rq acc (rest ! 1) (drop 2 rest) s)"

definition dispatch_request ::
    "'p app_env \<Rightarrow> api_request \<Rightarrow> 'p app_state \<Rightarrow> api_response result \<times> 'p app_state" where
  "dispatch_request env rq s =
     (let parts = path_parts (rq_path rq)
      in if rq_method rq = ''GET'' \<and> parts = [''api'', ''v1'', ''me'', ''accounts''] then my_accounts env rq s
      else if take 3 parts \<noteq> [''api'', ''v1'', ''accounts''] then (Inl (KeyError (rq_path rq)), s)
      else if rq_method rq = ''POST'' \<and> length parts = 3 then create_account_route env rq s
      else if length parts < 4 then (Inl (KeyError (rq_path rq)), s)
      else account_routes env rq (parts ! 3) (drop 4 parts) s)"

definition handle ::
    "'p app_env \<Rightarrow> api_request \<Rightarrow> 'p app_state \<Rightarrow> api_response result \<times> 'p app_state" where
  "handle env rq s = (case dispatch_request env rq s of
      (Inl e, s') \<Rightarrow> (api_error e, s')
    | (Inr r, s') \<Rightarrow> (Inr r, s'))"

end
