(* ===== verification/ApiAccess.thy ===== *)
theory ApiAccess
  imports Api
begin

text \<open>
  What a User who is not a member of an Account gets from the routes under it. \<open>denied Q p\<close> says of
  a result and state that it is an exception, in a state that still has \<open>Q\<close>; \<open>rivals_keep env Q\<close> that
  the other clients' steps keep \<open>Q\<close>. The rules of \<open>denials\<close> follow the control flow of the routes.
\<close>

definition outsider :: "accounts_state \<Rightarrow> string \<Rightarrow> string \<Rightarrow> bool" where
  "outsider st acc user \<longleftrightarrow> (case account_get st acc of Inl _ \<Rightarrow> True | Inr s \<Rightarrow> member_of s user = None)"

definition rivals_keep :: "'p app_env \<Rightarrow> ('p app_state \<Rightarrow> bool) \<Rightarrow> bool" where
  "rivals_keep env Q \<longleftrightarrow> (\<forall>s k n. Q s \<longrightarrow> Q (ax_rival env k s)
     \<and> Q (s\<lparr> ap_accounts := av_rival (ax_accounts env k) n (ap_accounts s) \<rparr>)
     \<and> Q (s\<lparr> ap_worlds := wv_rival (ax_worlds env k) n (ap_worlds s) \<rparr>))"

definition denied :: "('s \<Rightarrow> bool) \<Rightarrow> 'a result \<times> 's \<Rightarrow> bool" where
  "denied Q p \<longleftrightarrow> Q (snd p) \<and> (\<exists>e. fst p = Inl e)"

named_theorems denials

lemma denied_Inl [denials]: "Q s \<Longrightarrow> denied Q (Inl e, s)"
  by (simp add: denied_def)

lemma denied_on_ok [denials]:
  "Q s \<Longrightarrow> (\<And>a. r = Inr a \<Longrightarrow> denied Q (f a)) \<Longrightarrow> denied Q (on_ok r s f)"
  by (cases r) (simp_all add: denied_def)

lemma denied_never: "Q s \<Longrightarrow> (\<And>a. r \<noteq> Inr a) \<Longrightarrow> denied Q (on_ok r s f)"
  by (rule denied_on_ok) blast+

lemma denied_and_then [denials]: "denied Q p \<Longrightarrow> denied Q (and_then p f)"
  by (cases p) (auto simp: denied_def)

lemma denied_if [denials]: "(c \<Longrightarrow> denied Q p) \<Longrightarrow> (\<not> c \<Longrightarrow> denied Q q) \<Longrightarrow> denied Q (if c then p else q)"
  by simp

section \<open>The access control\<close>

lemma outsider_lacks:
  assumes "outsider st acc user"
  shows "authorize st acc user p w \<noteq> Inr True"
  using assms by (auto simp: outsider_def authorize_def authorize_in_def split: sum.splits)

lemma outsider_sees:
  assumes "outsider st acc user"
  shows "visible_to_members st acc user msg f \<noteq> Inr x"
  using assms by (auto simp: outsider_def visible_to_members_def member_of_def list_ex_iff find_None_iff
      split: sum.splits if_splits)

lemma outsider_access: "outsider st acc user \<Longrightarrow> access_for st acc user w \<noteq> Inr x"
  by (auto simp: outsider_def access_for_def split: sum.splits)

lemma outsider_owner: "outsider st acc user \<Longrightarrow> require_access st acc user p msg \<noteq> Inr x"
  using outsider_lacks [of st acc user p None]
  by (auto simp: require_access_def split: sum.splits)

lemma outsider_permission:
  "outsider (ap_accounts s) acc user \<Longrightarrow>
     require_permission (worlds_env_in env k s) acc user p w msg \<noteq> Inr x"
  using outsider_lacks [of "ap_accounts s" acc user p w]
  by (auto simp: require_permission_def worlds_env_in_def split: sum.splits)

lemma outsider_data:
  "outsider (ap_accounts s) acc user \<Longrightarrow> data_env_in env s = Inr d \<Longrightarrow>
     require_data_permission d acc i user p \<noteq> Inr x"
  using outsider_lacks [of "ap_accounts s" acc user p "Some i"]
  by (auto simp: require_data_permission_def data_env_in_def split: sum.splits option.splits)

lemma outsider_world: "outsider (ap_accounts s) acc user \<Longrightarrow> app_get_world env k acc i user s \<noteq> Inr x"
  using outsider_permission [of s acc user env k VIEW_WORLD "Some i"]
  by (auto simp: app_get_world_def get_world_def split: sum.splits)

lemma outsider_worlds:
  assumes "outsider (ap_accounts s) acc user" and "app_list_worlds env acc user s = Inr ws"
  shows "ws = []"
proof -
  have "filter_visible (\<lambda>w. authorize (ap_accounts s) acc user VIEW_WORLD (Some (wd_id w))) xs = Inr vs
      \<Longrightarrow> vs = []" for xs vs
  proof (induction xs arbitrary: vs)
    case (Cons w xs)
    then show ?case using outsider_lacks [OF assms(1), of VIEW_WORLD "Some (wd_id w)"]
      by (auto split: sum.splits if_splits)
  qed simp
  then show ?thesis using assms(2) by (simp add: app_list_worlds_def list_worlds_def worlds_env_in_def)
qed

section \<open>The operations of the components\<close>

text \<open>\<open>P\<close> holds of the Accounts' state whatever the other clients do, and the User stays outside.\<close>

definition kept_out :: "(nat \<Rightarrow> accounts_state \<Rightarrow> accounts_state) \<Rightarrow> (accounts_state \<Rightarrow> bool) \<Rightarrow> string \<Rightarrow> string \<Rightarrow> bool" where
  "kept_out rival P acc user \<longleftrightarrow> (\<forall>a. P a \<longrightarrow> outsider a acc user \<and> (\<forall>n. P (rival n a)))"

lemma kept_outD:
  assumes "kept_out rival P acc user" and "P a"
  shows "outsider a acc user" and "P (rival n a)" and "outsider (rival n a) acc user"
  using assms by (auto simp: kept_out_def)

text \<open>An operation that asks for a permission first, or after one step of the other clients.\<close>

lemma denied_require:
  assumes "kept_out rival P acc user" and "P a"
  shows "denied P (on_ok (require_access a acc user p msg) a f)"
    and "denied P (on_ok (require_access (rival n a) acc user p msg) (rival n a) f)"
  using kept_outD [OF assms] outsider_owner assms(2) by (auto intro: denied_on_ok)

lemma account_operations_denied:
  assumes out: "kept_out (av_rival env) P acc user" and P: "P a"
  shows "denied P (create_custom_role env acc user name ps c a)"
    and "denied P (assign_custom_role env acc user m role w c a)"
    and "denied P (assign_predefined_role env acc user m r w c a)"
    and "denied P (remove_role_assignment env acc user m j c a)"
    and "denied P (invite_members env acc user ids a)"
    and "denied P (create_invitation_link env acc user pr cr w t a)"
    and "denied P (remove_membership env acc m user sc a)"
  unfolding create_custom_role_def assign_custom_role_def assign_predefined_role_def
    remove_role_assignment_def invite_members_def create_invitation_link_def remove_membership_def Let_def
  by (rule denied_require [OF out P] denied_on_ok P)+

lemma world_operations_denied:
  assumes out: "\<And>p w msg x. require_permission env acc user p w msg \<noteq> Inr x"
    and P: "P s" "\<And>t n. P t \<Longrightarrow> P (wv_rival env n t)"
  shows "denied P (create_world env acc user name template region profile s)"
    and "denied P (update_runtime_settings env acc i user m s)"
    and "denied P (request_wake env acc i user key s)"
    and "denied P (request_sleep env acc i user key forced s)"
    and "denied P (update_configuration env acc i user changes key origin s)"
    and "list_operations env acc i user s \<noteq> Inr xs"
    and "get_effective_configuration env acc i user s \<noteq> Inr r"
proof -
  have stop: "denied P (on_ok (require_permission env acc user p w msg) t f)" if "P t" for p w msg t and f :: "unit \<Rightarrow> 'z result \<times> _"
    using out [of p w msg] that by (auto intro: denied_on_ok)
  show "denied P (create_world env acc user name template region profile s)"
    and "denied P (request_wake env acc i user key s)"
    and "denied P (request_sleep env acc i user key forced s)"
    by (simp_all add: create_world_def request_wake_def request_sleep_def stop P)
  show "denied P (update_runtime_settings env acc i user m s)"
    by (simp add: update_runtime_settings_def stop P denied_Inl)
  have "preview_in env acc i user changes s t \<noteq> Inr x" for t x
    using out by (auto simp: preview_in_def split: sum.splits)
  then show "denied P (update_configuration env acc i user changes key origin s)"
    by (auto simp: update_configuration_def Let_def intro: denied_on_ok P)
  show "list_operations env acc i user s \<noteq> Inr xs"
    using out by (auto simp: list_operations_def split: sum.splits)
  show "get_effective_configuration env acc i user s \<noteq> Inr r"
    using out by (auto simp: get_effective_configuration_def get_world_def split: sum.splits)
qed

lemma data_operations_denied:
  assumes out: "\<And>p x. require_data_permission d acc i user p \<noteq> Inr x" and P: "P s"
  shows "denied P (list_backups d acc i user s)"
    and "denied P (create_manual_backup d acc i user key s)"
    and "denied P (restore_backup d acc i b user key s)"
    and "denied P (create_export d acc i user key s)"
    and "denied P (schedule_deletion d acc i user c key s)"
    and "denied P (cancel_deletion d acc i user s)"
proof -
  have stop: "denied P (on_ok (require_data_permission d acc i user p) s f)" for p and f :: "unit \<Rightarrow> 'z result \<times> _"
    using out [of p] P by (auto intro: denied_on_ok)
  show "denied P (list_backups d acc i user s)" by (simp add: list_backups_def stop)
  show "denied P (create_manual_backup d acc i user key s)" by (simp add: create_manual_backup_def stop)
  show "denied P (restore_backup d acc i b user key s)" by (simp add: restore_backup_def stop)
  show "denied P (create_export d acc i user key s)" by (simp add: create_export_def stop)
  show "denied P (schedule_deletion d acc i user c key s)" by (simp add: schedule_deletion_def stop)
  show "denied P (cancel_deletion d acc i user s)" by (simp add: cancel_deletion_def stop)
qed

section \<open>The use cases and routes\<close>

text \<open>\<open>Q\<close> is kept by the other clients, and leaves the User outside the Account.\<close>

definition shut_out :: "'p app_env \<Rightarrow> ('p app_state \<Rightarrow> bool) \<Rightarrow> string \<Rightarrow> string \<Rightarrow> bool" where
  "shut_out env Q acc user \<longleftrightarrow>
     rivals_keep env Q \<and> (\<forall>s. Q s \<longrightarrow> outsider (ap_accounts s) acc user)"

lemma denied_on_accounts:
  assumes "shut_out env Q acc user" and "Q s"
    and "\<And>P. kept_out (av_rival (ax_accounts env k)) P acc user \<Longrightarrow> P (ap_accounts s) \<Longrightarrow>
           denied P (f (ap_accounts s))"
  shows "denied Q (on_accounts f s)"
proof -
  have "Q (s\<lparr> ap_accounts := av_rival (ax_accounts env k) n a \<rparr>)" if "Q (s\<lparr> ap_accounts := a \<rparr>)" for a n
    using assms(1) that by (force simp: shut_out_def rivals_keep_def)
  moreover have "outsider a acc user" if "Q (s\<lparr> ap_accounts := a \<rparr>)" for a
    using assms(1) that by (force simp: shut_out_def)
  ultimately have "denied (\<lambda>a. Q (s\<lparr> ap_accounts := a \<rparr>)) (f (ap_accounts s))"
    using assms(2) by (intro assms(3)) (simp_all add: kept_out_def)
  then show ?thesis by (auto simp: denied_def on_accounts_def split: prod.splits)
qed

lemma denied_on_worlds:
  assumes "shut_out env Q acc user" and "Q s"
    and "\<And>P. P (ap_worlds s) \<Longrightarrow> (\<And>w n. P w \<Longrightarrow> P (wv_rival (ax_worlds env k) n w)) \<Longrightarrow>
           denied P (f (ap_worlds s))"
  shows "denied Q (on_worlds f s)"
proof -
  have "Q (s\<lparr> ap_worlds := wv_rival (ax_worlds env k) n w \<rparr>)" if "Q (s\<lparr> ap_worlds := w \<rparr>)" for w n
    using assms(1) that by (force simp: shut_out_def rivals_keep_def)
  then have "denied (\<lambda>w. Q (s\<lparr> ap_worlds := w \<rparr>)) (f (ap_worlds s))"
    using assms(2) by (intro assms(3)) simp_all
  then show ?thesis by (auto simp: denied_def on_worlds_def split: prod.splits)
qed

lemma denied_data:
  assumes "shut_out env Q acc user" and "Q s"
    and "\<And>d P. (\<And>p x. require_data_permission d acc i user p \<noteq> Inr x) \<Longrightarrow> P (ap_worlds s) \<Longrightarrow>
           denied P (f d (ap_worlds s))"
  shows "denied Q (app_data env f s)"
proof (cases "data_env_in env s")
  case (Inr d)
  have "require_data_permission d acc i user p \<noteq> Inr x" for p x
    using assms(1,2) Inr outsider_data by (fastforce simp: shut_out_def)
  then have "denied (\<lambda>w. Q (s\<lparr> ap_worlds := w \<rparr>)) (f d (ap_worlds s))"
    using assms(2) by (intro assms(3)) simp_all
  then show ?thesis using Inr by (auto simp: app_data_def denied_def on_worlds_def split: prod.splits)
qed (use assms(2) in \<open>simp add: app_data_def denied_Inl\<close>)

lemma shut_outD:
  assumes "shut_out env Q acc user" and "Q s"
  shows "app_get_world env k acc i user s \<noteq> Inr w"
    and "visible_to_members (ap_accounts s) acc user msg f \<noteq> Inr x"
    and "require_permission (worlds_env_in env k s) acc user p v msg \<noteq> Inr u"
    and "list_memberships (ap_accounts s) acc user \<noteq> Inr ms"
proof -
  have "outsider (ap_accounts s) acc user" using assms by (simp add: shut_out_def)
  then show "app_get_world env k acc i user s \<noteq> Inr w"
    and "visible_to_members (ap_accounts s) acc user msg f \<noteq> Inr x"
    and "require_permission (worlds_env_in env k s) acc user p v msg \<noteq> Inr u"
    and "list_memberships (ap_accounts s) acc user \<noteq> Inr ms"
    unfolding list_memberships_def by (rule outsider_world outsider_sees outsider_permission)+
qed

lemma app_accounts_denied:
  assumes out: "shut_out env Q acc user" and Q: "Q s"
  shows "denied Q (app_create_custom_role env acc user name ps c s)"
    and "denied Q (app_assign_custom_role env acc user m role w c s)"
    and "denied Q (app_assign_predefined_role env acc user m r w c s)"
    and "denied Q (app_remove_role_assignment env acc user m j c s)"
    and "denied Q (invite_friends env k acc user ids s)"
    and "denied Q (app_create_invitation_link env acc user pr cr w s)"
    and "denied Q (app_remove_membership env acc user m c s)"
  unfolding app_create_custom_role_def app_assign_custom_role_def app_assign_predefined_role_def
    app_remove_role_assignment_def invite_friends_def app_create_invitation_link_def
    app_remove_membership_def
  by (rule denied_on_accounts [OF out Q], rule account_operations_denied, assumption, assumption)+

lemma app_worlds_denied:
  assumes out: "shut_out env Q acc user" and Q: "Q s"
  shows "denied Q (app_create_world env acc user name template region profile s)"
    and "denied Q (update_world_settings env acc i user m s)"
    and "denied Q (app_request_wake env acc i user key s)"
    and "denied Q (app_request_sleep env acc i user key forced s)"
    and "denied Q (app_update_configuration env acc i user changes key origin s)"
  unfolding app_create_world_def update_world_settings_def app_request_wake_def
    app_request_sleep_def app_update_configuration_def
  by (rule denied_and_then denied_on_worlds [OF out Q] world_operations_denied
      shut_outD(3) [OF out Q] | assumption | simp add: worlds_env_in_def)+

lemma app_data_denied:
  assumes out: "shut_out env Q acc user" and Q: "Q s"
  shows "denied Q (app_list_backups env acc i user s)"
    and "denied Q (app_create_manual_backup env acc i user key s)"
    and "denied Q (app_restore_backup env acc i b user key s)"
    and "denied Q (create_world_export env acc i user key s)"
    and "denied Q (schedule_world_deletion env acc i user c key s)"
    and "denied Q (cancel_world_deletion env acc i user s)"
  unfolding app_list_backups_def app_create_manual_backup_def app_restore_backup_def
    create_world_export_def schedule_world_deletion_def cancel_world_deletion_def
  by (rule denied_data [OF out Q], rule data_operations_denied, assumption, assumption)+

lemma app_billing_denied:
  assumes out: "shut_out env Q acc user" and Q: "Q s"
  shows "denied Q (app_get_wallet env acc user s)"
    and "denied Q (get_world_budget env acc i user s)"
    and "denied Q (app_set_world_budget env acc i user limit key s)"
    and "denied Q (app_create_contribution env acc user package ret done key email s)"
    and "denied Q (app_reconcile_contribution env acc c user s)"
  unfolding app_get_wallet_def get_world_budget_def app_set_world_budget_def
    app_create_contribution_def app_reconcile_contribution_def
  by (rule denied_never [where Q = Q, OF Q], rule shut_outD [OF out Q])+

lemma app_readings_denied:
  assumes out: "shut_out env Q acc user" and Q: "Q s"
  shows "denied Q (app_connection_details env acc i user s)"
    and "denied Q (world_password_settings env acc i user s)"
    and "denied Q (update_world_password_settings env acc i user mode pw s)"
    and "wake_estimate env acc i user s \<noteq> Inr e"
    and "configuration_schema env acc i user s \<noteq> Inr t"
    and "effective_configuration env acc i user s \<noteq> Inr r"
    and "list_operations (worlds_env_in env 0 s) acc i user (ap_worlds s) \<noteq> Inr xs"
    and "app_list_memberships acc user s \<noteq> Inr ms"
    and "app_list_custom_roles acc user s \<noteq> Inr rs"
    and "app_list_activity acc user s \<noteq> Inr es"
proof -
  note no_world = shut_outD(1) [OF out Q]
  show "denied Q (app_connection_details env acc i user s)"
    and "denied Q (world_password_settings env acc i user s)"
    and "denied Q (update_world_password_settings env acc i user mode pw s)"
    using no_world Q
    by (auto simp: app_connection_details_def world_password_settings_def
        update_world_password_settings_def with_passwords_def intro: denied_on_ok)
  show "wake_estimate env acc i user s \<noteq> Inr e" and "configuration_schema env acc i user s \<noteq> Inr t"
    using no_world by (auto simp: wake_estimate_def configuration_schema_def split: sum.splits)
  show "effective_configuration env acc i user s \<noteq> Inr r"
    using shut_outD(3) [OF out Q] 
    by (auto simp: effective_configuration_def get_effective_configuration_def get_world_def split: sum.splits)
  show "list_operations (worlds_env_in env 0 s) acc i user (ap_worlds s) \<noteq> Inr xs"
    using shut_outD(3) [OF out Q] by (auto simp: list_operations_def split: sum.splits)
  show "app_list_memberships acc user s \<noteq> Inr ms" and "app_list_custom_roles acc user s \<noteq> Inr rs"
    and "app_list_activity acc user s \<noteq> Inr es"
    using shut_outD(2) [OF out Q]
    by (simp_all add: app_list_memberships_def list_memberships_def app_list_custom_roles_def
        list_custom_roles_def app_list_activity_def list_activity_events_def)
qed

text \<open>An answer that is an exception, or the empty list of Worlds.\<close>

definition refused :: "('p app_state \<Rightarrow> bool) \<Rightarrow> api_response result \<times> 'p app_state \<Rightarrow> bool" where
  "refused Q p \<longleftrightarrow> Q (snd p) \<and> (\<forall>x. fst p = Inr x \<longrightarrow>
     x = \<lparr> rs_status = 200, rs_body = Payload [(''worlds'', VList [])] \<rparr>)"

lemma refused_denied: "denied Q p \<Longrightarrow> refused Q p"
  by (auto simp: denied_def refused_def)

lemma world_routes_denied:
  assumes out: "shut_out env Q acc (rq_user_id rq)" and Q: "Q s"
  shows "denied Q (world_routes env rq acc i rest s)"
  unfolding world_routes_def settings_route_def set_budget_route_def operations_route_def
    update_password_route_def delete_world_route_def update_configuration_route_def with_key_def Let_def
  by ((rule denied_never [where Q = Q, OF Q], rule app_readings_denied [OF out Q])
    | rule app_readings_denied [OF out Q] denied_if denied_Inl [where Q = Q, OF Q] denied_and_then app_worlds_denied [OF out Q]
      app_data_denied [OF out Q] app_billing_denied [OF out Q] denied_on_ok [where Q = Q, OF Q])+

lemma form_routes_denied:
  assumes out: "shut_out env Q acc (rq_user_id rq)" and Q: "Q s"
  shows "denied Q (create_role_route env rq acc s)"
    and "denied Q (assign_role_route env rq acc m s)"
    and "denied Q (contribution_route env rq acc s)"
    and "denied Q (invite_route env rq acc s)"
    and "denied Q (invitation_link_route env rq acc s)"
    and "denied Q (create_world_route env rq acc s)"
proof -
  note steps = denied_if denied_Inl [where Q = Q, OF Q] denied_and_then denied_on_ok [where Q = Q, OF Q]
    app_worlds_denied [OF out Q] app_accounts_denied [OF out Q] app_billing_denied [OF out Q]
  show "denied Q (create_role_route env rq acc s)"
  proof (cases "rq_authenticated_at rq")
    case (Some t)
    then show ?thesis
      by (cases "body_get (rq_body rq) ''permissions''") (simp_all add: create_role_route_def denied_Inl Q, intro conjI impI, (rule steps)+)
  qed (simp add: create_role_route_def denied_Inl Q)
  have role: "denied Q (case custom of
            Some r \<Rightarrow> on_ok (optional_string (rq_body rq) ''worldId'') s (\<lambda>w.
                app_assign_custom_role env acc (rq_user_id rq) m r w c s)
          | None \<Rightarrow> on_ok (predefined_role_of (case pr of Some r \<Rightarrow> r | None \<Rightarrow> [])) s (\<lambda>r.
              on_ok (optional_string (rq_body rq) ''worldId'') s (\<lambda>w.
                app_assign_predefined_role env acc (rq_user_id rq) m r w c s)))" for custom pr c
    by (cases custom) (simp_all, (rule steps)+)
  show "denied Q (assign_role_route env rq acc m s)"
    unfolding assign_role_route_def by (rule steps role)+
  show "denied Q (contribution_route env rq acc s)" unfolding contribution_route_def by (rule steps)+
  show "denied Q (invite_route env rq acc s)" unfolding invite_route_def by (rule steps)+
  show "denied Q (invitation_link_route env rq acc s)" unfolding invitation_link_route_def by (rule steps)+
  show "denied Q (create_world_route env rq acc s)" unfolding create_world_route_def by (rule steps)+
qed

lemma account_routes_refused:
  assumes out: "shut_out env Q acc (rq_user_id rq)" and Q: "Q s"
    and "\<not> (rq_method rq = ''GET'' \<and> length rest = 2 \<and> rest ! 0 = ''invitations'')"
    and "\<not> (rq_method rq = ''POST'' \<and> length rest = 3 \<and> rest ! 0 = ''invitations'' \<and> rest ! 2 = ''accept'')"
  shows "refused Q (account_routes env rq acc rest s)"
proof -
  have worlds: "refused Q (list_worlds_route env rq acc s)"
  proof (cases "app_list_worlds env acc (rq_user_id rq) s")
    case (Inr ws)
    moreover have "outsider (ap_accounts s) acc (rq_user_id rq)" using out Q by (simp add: shut_out_def)
    ultimately have "ws = []" by (rule outsider_worlds [rotated])
    then show ?thesis using Inr Q by (simp add: list_worlds_route_def refused_def respond_def)
  qed (simp add: list_worlds_route_def refused_def Q)
  have pick: "refused Q (if c then p else q)" if "c \<Longrightarrow> refused Q p" and "\<not> c \<Longrightarrow> refused Q q" for c p q
    using that by simp
  have no_view: "refused Q p"
    if "rq_method rq = ''GET'' \<and> length rest = 2 \<and> rest ! 0 = ''invitations''" for p
    using that assms(3) by simp
  have no_acceptance: "refused Q p"
    if "rq_method rq = ''POST'' \<and> length rest = 3 \<and> rest ! 0 = ''invitations'' \<and> rest ! 2 = ''accept''" for p
    using that assms(4) by simp
  show ?thesis
    unfolding account_routes_def Let_def
    by (rule pick worlds | (rule no_view, assumption) | (rule no_acceptance, assumption) | (rule refused_denied,
         ((rule denied_never [where Q = Q, OF Q], rule app_readings_denied [OF out Q])
          | rule form_routes_denied [OF out Q] world_routes_denied [OF out Q] denied_Inl [where Q = Q, OF Q]
              denied_and_then app_accounts_denied [OF out Q] app_billing_denied [OF out Q]
              denied_on_ok [where Q = Q, OF Q])+))+
qed

end
