(* ===== verification/ApplicationRun.thy ===== *)
theory ApplicationRun
  imports ApiAccess WorldRun
begin

text \<open>
  A concrete application: the Account \<open>acc\<close> of its Owner \<open>owner\<close>, with the World of
  \<^theory_text>\<open>WorldRun\<close>, one price and no other client. The properties of the control plane are
  applied to it.
\<close>

definition group_env :: "accounts_env" where
  "group_env = \<lparr> av_clock = (\<lambda>_. 0), av_uuid = (\<lambda>k. if k = 0 then ''acc'' else CHR ''u'' # replicate k CHR ''0''),
     av_token = (\<lambda>k. CHR ''t'' # replicate k CHR ''k''), av_hash = (\<lambda>s. CHR ''h'' # s),
     av_rival = (\<lambda>_ st. st) \<rparr>"

definition group_accounts :: accounts_state where
  "group_accounts = snd (create_account group_env ''Guild'' ''owner'' None None
     \<lparr> as_snapshots = [], as_users = [], as_identities = [], as_recovery = Some [],
       as_notifications = [] \<rparr>)"

definition calm_billing :: "char \<Rightarrow> nat \<Rightarrow> billing_env" where
  "calm_billing c k = \<lparr> be_clock = (\<lambda>_ _. 10), be_uuid = (\<lambda>_ _. c # replicate k CHR ''0''),
     be_rival = (\<lambda>_ st. st) \<rparr>"

text \<open>The dispatcher accepts every operation; an hour costs 1.20.\<close>

definition calm_app :: "char \<Rightarrow> unit app_env" where
  "calm_app c = \<lparr> ax_accounts = (\<lambda>_. group_env), ax_worlds = (\<lambda>_. calm_env c 10), ax_data = None,
     ax_billing = calm_billing c, ax_payments = None, ax_packages = [], ax_catalog = with_palworld,
     ax_connection = None, ax_passwords = None, ax_dispatcher = Some (\<lambda>_ _ p. (Inr (), p)),
     ax_rates = [(''small'', Dec 120 (-2))], ax_rival = (\<lambda>_ s. s) \<rparr>"

definition app_with :: "unit worker_state \<Rightarrow> billing_store \<Rightarrow> unit app_state" where
  "app_with w b = \<lparr> ap_accounts = group_accounts, ap_worlds = w, ap_billing = b, ap_dispatched = [] \<rparr>"

lemma calm_app_simps [simp]:
  "ax_accounts (calm_app c) k = group_env" "ax_worlds (calm_app c) k = calm_env c 10"
  "ax_billing (calm_app c) = calm_billing c" "ax_rates (calm_app c) = [(''small'', Dec 120 (-2))]"
  "ax_dispatcher (calm_app c) = Some (\<lambda>_ _ p. (Inr (), p))" "ax_rival (calm_app c) k s = s"
  by (simp_all add: calm_app_def)

lemma app_with_simps [simp]:
  "ap_accounts (app_with w b) = group_accounts" "ap_worlds (app_with w b) = w" "ap_billing (app_with w b) = b"
  by (simp_all add: app_with_def)

text \<open>A Wallet with that many cents.\<close>

definition funded :: "int \<Rightarrow> billing_store" where
  "funded c = snd (credit_wallet (calm_billing CHR ''g'' 0) ''acc'' (decimal_of_cents c) ''gift'' ''gift'' [])"

definition request :: "string \<Rightarrow> string \<Rightarrow> string \<Rightarrow> json_object \<Rightarrow> api_request" where
  "request method path user body = \<lparr> rq_method = method, rq_path = path, rq_user_id = user,
     rq_body = body, rq_authenticated_at = None, rq_verified_email = None \<rparr>"

definition wake_by :: "string \<Rightarrow> api_request" where
  "wake_by user = request ''POST'' ''/api/v1/accounts/acc/worlds/w/wake'' user [(''idempotencyKey'', VStr ''k9'')]"

end
