(* ===== verification/WakeFunding.thy ===== *)
theory WakeFunding
  imports Application BillingSafety SafeSleep
begin

text \<open>
  The steps of \<open>GameWakeApplication.request_wake\<close> when no other client runs: how the Session Quote
  and the reservation change the Wallet, and how beginning, attaching and failing the operation
  change the World.
\<close>

section \<open>The Wallet\<close>

lemma calm_rivals: "(\<And>n b. be_rival env n b = b) \<Longrightarrow> rivals_ok U env"
  by (simp add: rivals_ok_def wallets.saves_refl)

lemma cents_read_back: "positive_money (decimal_of_cents c) = Inr n \<Longrightarrow> n = c"
  by (auto simp: positive_money_def quantize_cents_def to_cents_def Let_def split: if_splits)

lemma uuid_unused: "uuids env \<inter> B = {} \<Longrightarrow> be_uuid env i k \<notin> B"
  by (auto simp: uuids_def)

lemma quote_calm:
  assumes ok: "store_ok B b" and calm: "\<And>n b. be_rival env n b = b" and fresh: "uuids env \<inter> B = {}"
    and new: "find (\<lambda>q. sq_idempotency_key q = key) (ws_quotes (repo_get b a)) = None"
    and run: "create_session_quote env a i p h key b = (r, b')"
  obtains (rejected) e where "positive_money h = Inl e" "r = Inl e" "b' = b"
  | (quoted) q v where "positive_money h = Inr (sq_hourly_rate q)" "r = Inr q"
      "sq_world_id q = i" "sq_expires_at q = be_clock env 0 0 + minutes 15" "store_ok (B \<union> uuids env) b'"
      "repo_get b' a = (repo_get b a)\<lparr> ws_quotes := ws_quotes (repo_get b a) @ [q], ws_version := v \<rparr>"
      "find_quote (repo_get b' a) (sq_id q) = Some q"
proof (cases "positive_money h")
  case (Inr rate)
  note keeps = keeps_create_session_quote [OF positive_money_pos [OF Inr]]
  define q where "q = \<lparr> sq_id = be_uuid env 0 0, sq_account_id = a, sq_world_id = i,
    sq_runtime_profile_id = p, sq_hourly_rate = rate, sq_idempotency_key = key,
    sq_created_at = be_clock env 0 0, sq_expires_at = be_clock env 0 0 + minutes 15 \<rparr>"
  let ?w = "(repo_get b a)\<lparr> ws_quotes := ws_quotes (repo_get b a) @ [q] \<rparr>"
  have eq: "(r, b') = (Inr q, projr (repo_save ?w (ws_version (repo_get b a)) b))"
    using run Inr new by (simp add: create_session_quote_def calm_retry [OF ok keeps calm]
        create_session_quote_attempt_def q_def Let_def)
  then have get: "repo_get b' a = ?w\<lparr> ws_version := ws_version (repo_get b a) + 1 \<rparr>"
    using quiet_save [of ?w a b] store_ok_get(3) [OF ok, of a] by simp
  have "sq_id x \<in> B" if "x \<in> set (ws_quotes (repo_get b a))" for x
    using that store_ok_get(2) [OF ok, of a] by (auto simp: wallet_ids_def)
  moreover have "sq_id q \<notin> B" using uuid_unused [OF fresh] by (simp add: q_def)
  ultimately have "sq_id x \<noteq> sq_id q" if "x \<in> set (ws_quotes (repo_get b a))" for x
    using that by metis
  then have "find_quote (repo_get b' a) (sq_id q) = Some q"
    by (simp add: get find_quote_def find_append_None find_None_iff)
  moreover have "store_ok (B \<union> uuids env) b'"
    using billing_retry_ok [OF keeps ok calm_rivals [OF calm] fresh] run Inr
    by (simp add: create_session_quote_def)
  moreover have "positive_money h = Inr (sq_hourly_rate q)" "sq_world_id q = i"
    "sq_expires_at q = be_clock env 0 0 + minutes 15" using Inr by (simp_all add: q_def)
  moreover have "r = Inr q" using eq by simp
  ultimately show thesis using get by (intro quoted [of q "ws_version (repo_get b a) + 1"]) simp_all
qed (use run rejected in \<open>auto simp: create_session_quote_def\<close>)

text \<open>When 25 minutes at a rate can be reserved: the Wallet and the World Budget allow it, in time.\<close>

definition reservable :: "billing_env \<Rightarrow> string \<Rightarrow> string \<Rightarrow> money \<Rightarrow> instant \<Rightarrow> billing_store \<Rightarrow> bool" where
  "reservable env a i rate expires b = (case prorate Up rate (25 * 60) 3600 of
      Inl _ \<Rightarrow> False
    | Inr n \<Rightarrow> 0 < n \<and> n \<le> available_balance (repo_get b a)
        \<and> \<not> below (world_budget_available (repo_get b a) i (be_clock env 0 0)) n
        \<and> be_clock env 0 9 \<le> expires)"

lemma prorate_bound: "prorate m rate n d = Inr c \<Longrightarrow> c < 10 ^ prec"
  by (auto simp: prorate_def quantize_cents_def Let_def split: if_splits)

lemma reserve_calm:
  assumes ok: "store_ok B b" and calm: "\<And>n b. be_rival env n b = b" and fresh: "uuids env \<inter> B = {}"
    and new: "find (\<lambda>r. ur_idempotency_key r = key) (ws_reservations (repo_get b a)) = None"
    and quote: "find_quote (repo_get b a) k = Some q"
    and run: "reserve_for_wake env a k key b = (r, b')"
  obtains (rejected) e where "\<not> reservable env a (sq_world_id q) (sq_hourly_rate q) (sq_expires_at q) b"
      "r = Inl e" "b' = b"
  | (reserved) u v where "reservable env a (sq_world_id q) (sq_hourly_rate q) (sq_expires_at q) b" "prorate Up (sq_hourly_rate q) (25 * 60) 3600 = Inr (ur_amount u)" "r = Inr u"
      "ur_status u = ACTIVE" "0 < ur_amount u" "ur_amount u \<le> available_balance (repo_get b a)"
      "find_reservation (repo_get b' a) (ur_id u) = Some u"
      "repo_get b' a = (repo_get b a)\<lparr> ws_reservations := ws_reservations (repo_get b a) @ [u],
         ws_version := v \<rparr>"
proof -
  let ?w = "repo_get b a" and ?can = "reservable env a (sq_world_id q) (sq_hourly_rate q) (sq_expires_at q) b"
  show thesis
  proof (cases ?can)
    case True
    obtain n where n: "prorate Up (sq_hourly_rate q) (25 * 60) 3600 = Inr n" "0 < n" "n \<le> available_balance ?w"
        "\<not> below (world_budget_available ?w (sq_world_id q) (be_clock env 0 0)) n"
        "be_clock env 0 9 \<le> sq_expires_at q"
      using True by (auto simp: reservable_def split: sum.splits)
    have m: "positive_money (decimal_of_cents n) = Inr n"
      using positive_money_cents [OF n(2) prorate_bound [OF n(1)]] .
    have run': "reserve env a (decimal_of_cents n) (''wake:'' @ sq_world_id q) key (Some (sq_id q))
        (Some (sq_world_id q)) b = (r, b')"
      using run quote n(1,5) by (simp add: reserve_for_wake_def calm)
    note keeps = keeps_reserve [OF n(2)]
    define u where "u = \<lparr> ur_id = be_uuid env 0 0, ur_account_id = a, ur_amount = n,
      ur_purpose = ''wake:'' @ sq_world_id q, ur_idempotency_key = key, ur_status = ACTIVE,
      ur_created_at = be_clock env 0 1, ur_quote_id = Some (sq_id q), ur_world_id = Some (sq_world_id q) \<rparr>"
    let ?w' = "?w\<lparr> ws_reservations := ws_reservations ?w @ [u] \<rparr>"
    have eq: "(r, b') = (Inr u, projr (repo_save ?w' (ws_version ?w) b))" "n \<le> available_balance ?w"
      using run' m new n(3,4)
      by (simp_all add: reserve_def calm_retry [OF ok keeps calm] reserve_attempt_def u_def Let_def)
    then have get: "repo_get b' a = ?w'\<lparr> ws_version := ws_version ?w + 1 \<rparr>"
      using quiet_save [of ?w' a b] store_ok_get(3) [OF ok, of a] by simp
    have "ur_id x \<in> B" if "x \<in> set (ws_reservations ?w)" for x
      using that store_ok_get(2) [OF ok, of a] by (auto simp: wallet_ids_def)
    moreover have "ur_id u \<notin> B" using uuid_unused [OF fresh] by (simp add: u_def)
    ultimately have "ur_id x \<noteq> ur_id u" if "x \<in> set (ws_reservations ?w)" for x
      using that by metis
    then have "find_reservation (repo_get b' a) (ur_id u) = Some u"
      by (simp add: get find_reservation_def find_append_None find_None_iff)
    moreover have "ur_amount u = n" "ur_status u = ACTIVE" "0 < ur_amount u"
      using n(2) by (simp_all add: u_def)
    moreover have "r = Inr u" using eq by simp
    ultimately show thesis
      using get n(1) eq(2) True by (intro reserved [of u "ws_version ?w + 1"]) simp_all
  next
    case False
    have "\<exists>e. (r, b') = (Inl e, b)"
    proof (cases "sq_expires_at q < be_clock env 0 9")
      case early: False
      show ?thesis
      proof (cases "prorate Up (sq_hourly_rate q) (25 * 60) 3600")
        case (Inr n)
        show ?thesis
        proof (cases "positive_money (decimal_of_cents n)")
          case (Inl e)
          then show ?thesis using run quote early Inr by (auto simp: reserve_for_wake_def reserve_def calm)
        next
          case m: (Inr m)
          have n: "m = n" "0 < n" using cents_read_back [OF m] positive_money_pos [OF m] by simp_all
          then show ?thesis
            using run quote early Inr m False new
            by (auto simp: reserve_for_wake_def reserve_def reservable_def reserve_attempt_def calm Let_def
                calm_retry [OF ok keeps_reserve [OF n(2)] calm] split: if_splits)
        qed
      qed (use run quote early in \<open>auto simp: reserve_for_wake_def\<close>)
    qed (use run quote in \<open>auto simp: reserve_for_wake_def\<close>)
    then show thesis using rejected False by blast
  qed
qed

section \<open>The World\<close>

lemma sleeping_idle:
  assumes ok: "worlds_ok U s" and w: "world_lookup s k = Some w" "wd_status w = SLEEPING"
  shows "active_lookup s k = None"
proof (rule ccontr)
  assume "active_lookup s k \<noteq> None"
  then obtain j where "active_lookup s k = Some j" by auto
  then obtain y v where "world_lookup s k = Some v" "linked v y" by (rule activeE [OF ok])
  then show False using w by (auto simp: linked_def split: if_splits)
qed

text \<open>A new wake begins when no operation of the World is active, whatever the World's status.\<close>

lemma wake_calm:
  assumes ok: "worlds_ok U s" and calm: "\<And>n t. wv_rival env n t = t"
    and may: "wv_access env a user WAKE_WORLD (Some i) = Inr True"
      "case wv_storage env of None \<Rightarrow> True | Some gate \<Rightarrow> sg_can_wake gate a"
    and w: "world_lookup s (a, i) = Some w" and idle: "active_lookup s (a, i) = None"
    and new: "dict_get (st_idempotency s) (a, key) = None"
    and run: "request_wake env a i user key s = (r, s')"
  obtains x w' where "r = Inr x" "wo_account_id x = a" "wo_world_id x = i" "wo_status x = OP_PENDING"
    "wo_phase x = REQUESTED" "wo_operation_type x = WAKE" "wo_session_quote_id x = None"
    "wo_idempotency_key x = key" "wo_id x = wv_uuid env 0"
    "operation_lookup s' (wo_id x) = Some x" "active_lookup s' (a, i) = Some (wo_id x)"
    "world_lookup s' (a, i) = Some w'" "world_key w' = (a, i)" "wd_status w' = WAKING"
    "wd_runtime_profile_id w' = wd_runtime_profile_id w" "wd_runtime_id w' = wd_runtime_id w"
    "dict_get (st_idempotency s') (a, key) = Some (wo_id x)" "world_store.more s' = world_store.more s"
proof -
  define x where "x = new_operation (wv_uuid env 0) a i WAKE key (wv_clock env 0)"
  define w' where "w' = w\<lparr> wd_status := WAKING, wd_empty_since := None, wd_version := wd_version w + 1 \<rparr>"
  have key: "world_key w = (a, i)" using worlds_okD(1) [OF ok w] .
  have "request_wake env a i user key s = begin_operation w' x (wd_version w) s"
    using may w by (auto simp: request_wake_def require_permission_def require_storage_def check_def
        x_def w'_def calm split: option.splits simp del: world_get_Inr
        simp: world_get_Inr [THEN iffD2])
  also have "begin_operation w' x (wd_version w) s = (Inr x, s\<lparr> st_worlds := dict_set (a, i) w' (st_worlds s),
         st_operations := dict_set (wo_id x) x (st_operations s),
         st_idempotency := dict_set (a, key) (wo_id x) (st_idempotency s),
         st_active_operations := dict_set (a, i) (wo_id x) (st_active_operations s) \<rparr>)"
    using w idle new
    by (simp add: begin_operation_def Let_def active_lookup_def x_def new_operation_def)
  finally have eq: "r = Inr x" "s' = s\<lparr> st_worlds := dict_set (a, i) w' (st_worlds s),
         st_operations := dict_set (wo_id x) x (st_operations s),
         st_idempotency := dict_set (a, key) (wo_id x) (st_idempotency s),
         st_active_operations := dict_set (a, i) (wo_id x) (st_active_operations s) \<rparr>"
    using run by simp_all
  have "operation_lookup s' (wo_id x) = Some x" "active_lookup s' (a, i) = Some (wo_id x)"
    "world_lookup s' (a, i) = Some w'" "dict_get (st_idempotency s') (a, key) = Some (wo_id x)"
    "world_store.more s' = world_store.more s"
    by (simp_all add: eq(2) operation_lookup_def active_lookup_def world_lookup_def)
  then show thesis
    using that [of x w'] eq(1) key by (simp add: x_def w'_def new_operation_def world_key_def)
qed

lemma save_operation_frame:
  "save_operation x n m s = Inr t \<Longrightarrow> st_idempotency t = st_idempotency s \<and> world_store.more t = world_store.more s"
  by (auto simp: save_operation_def world_save_def Let_def split: option.splits sum.splits if_splits)

lemma attach_calm:
  assumes calm: "\<And>n t. wv_rival env n t = t"
    and x: "operation_lookup s (wo_id x) = Some x" "wo_account_id x = a" "wo_world_id x = i"
      "wo_operation_type x = WAKE" "wo_session_quote_id x = None" "wo_phase x = REQUESTED"
    and w: "world_lookup s (a, i) = Some w" "world_key w = (a, i)"
    and run: "attach_billing_session env a (wo_id x) q v s = (r, s')"
  obtains x' where "r = Inr x'" "x' = x\<lparr> wo_session_quote_id := Some q,
      wo_usage_reservation_id := Some v, wo_version := wo_version x + 1 \<rparr>"
    "operation_lookup s' (wo_id x) = Some x'"
    "world_lookup s' (a, i) = Some (w\<lparr> wd_session_quote_id := Some q,
       wd_usage_reservation_id := Some v, wd_version := wd_version w + 1 \<rparr>)"
    "st_idempotency s' = st_idempotency s" "world_store.more s' = world_store.more s"
proof -
  let ?x = "x\<lparr> wo_session_quote_id := Some q, wo_usage_reservation_id := Some v, wo_version := wo_version x + 1 \<rparr>"
  let ?w = "w\<lparr> wd_session_quote_id := Some q, wd_usage_reservation_id := Some v, wd_version := wd_version w + 1 \<rparr>"
  have "\<exists>t. save_operation ?x (wo_version x) (Some (?w, wd_version w)) s = Inr t"
    using x(1) w
    by (simp add: save_operation_def operation_lookup_def world_save_def world_key_def Let_def)
  then obtain t where t: "save_operation ?x (wo_version x) (Some (?w, wd_version w)) s = Inr t" ..
  have "get_operation s a (wo_id x) = Inr x" "world_get s a i = Inr w" using x w by simp_all
  then have "attach_billing_session env a (wo_id x) q v s = (Inr ?x, t)"
    using x t unfolding attach_billing_session_def calm Let_def
    by (simp del: get_operation_Inr world_get_Inr One_nat_def)
  then show thesis
    using that run save_operation_state(3,4) [OF t] save_operation_frame [OF t] w(2)
    by (auto simp: world_key_def)
qed

lemma preflight_failure_calm:
  assumes calm: "\<And>n t. wv_rival env n t = t"
    and x: "operation_lookup s (wo_id x) = Some x" "wo_account_id x = a" "wo_world_id x = i"
      "wo_status x = OP_PENDING"
    and w: "world_lookup s (a, i) = Some w" "world_key w = (a, i)"
    and active: "active_lookup s (a, i) = Some (wo_id x)"
    and run: "fail_wake_preflight env a (wo_id x) s = (r, s')"
  obtains x' w' where "r = Inr x'" "operation_lookup s' (wo_id x) = Some x'" "wo_status x' = OP_FAILED"
    "world_lookup s' (a, i) = Some w'" "wd_status w' = SLEEPING" "wd_usage_reservation_id w' = None"
    "wd_runtime_id w' = wd_runtime_id w" "active_lookup s' (a, i) = None"
proof -
  let ?x = "x\<lparr> wo_status := OP_FAILED, wo_phase := COMPLETE, wo_version := wo_version x + 1 \<rparr>"
  let ?w = "w\<lparr> wd_status := SLEEPING, wd_session_quote_id := None, wd_usage_reservation_id := None,
     wd_runtime_started_at := None, wd_version := wd_version w + 1 \<rparr>"
  have "\<exists>t. save_operation ?x (wo_version x) (Some (?w, wd_version w)) s = Inr t"
    using x(1) w
    by (simp add: save_operation_def operation_lookup_def world_save_def world_key_def Let_def)
  then obtain t where t: "save_operation ?x (wo_version x) (Some (?w, wd_version w)) s = Inr t" ..
  have "get_operation s a (wo_id x) = Inr x" "world_get s a i = Inr w" using x w by simp_all
  then have "fail_wake_preflight env a (wo_id x) s = (Inr ?x, t)"
    using x t unfolding fail_wake_preflight_def calm Let_def
    by (simp add: is_active_def del: get_operation_Inr world_get_Inr One_nat_def)
  moreover have "operation_lookup t (wo_id x) = Some ?x" "world_lookup t (a, i) = Some ?w"
    "active_lookup t (a, i) = None"
    using save_operation_state(3-5) [OF t] w(2) x active
    by (auto simp: world_key_def operation_key_def is_active_def)
  ultimately show thesis using that [of ?x ?w] run by simp
qed

section \<open>The use case\<close>

definition undisturbed :: "'p app_env \<Rightarrow> bool" where
  "undisturbed env \<longleftrightarrow> (\<forall>k s. ax_rival env k s = s)
     \<and> (\<forall>k n w. wv_rival (ax_worlds env k) n w = w)
     \<and> (\<forall>k n b. be_rival (ax_billing env k) n b = b)"

lemma undisturbedD:
  assumes "undisturbed env"
  shows "ax_rival env k s = s" and "wv_rival (ax_worlds env k) n w = w"
    and "wv_rival (worlds_env_in env k s) n w = w" and "be_rival (ax_billing env k) n b = b"
  using assms by (simp_all add: undisturbed_def worlds_env_in_def)

lemma providers_irrelevant [simp]:
  "world_lookup (w\<lparr>ws_providers := p\<rparr>) = world_lookup w"
  "operation_lookup (w\<lparr>ws_providers := p\<rparr>) = operation_lookup w"
  by (simp_all add: fun_eq_iff world_lookup_def operation_lookup_def)

lemma same_providers: "world_store.more t = world_store.more s \<Longrightarrow> ws_providers t = ws_providers s"
  by (cases s; cases t) simp

text \<open>
  Who may wake: a member with the permissions to wake and to view the World, in an Account that the
  storage policy, where one is configured, lets wake.
\<close>

definition may_wake :: "'p app_env \<Rightarrow> string \<Rightarrow> string \<Rightarrow> string \<Rightarrow> 'p app_state \<Rightarrow> bool" where
  "may_wake env a i user s \<longleftrightarrow> authorize (ap_accounts s) a user WAKE_WORLD (Some i) = Inr True
     \<and> authorize (ap_accounts s) a user VIEW_WORLD (Some i) = Inr True
     \<and> (case wv_storage (ax_worlds env 0) of None \<Rightarrow> True | Some gate \<Rightarrow> sg_can_wake gate a)"

lemma may_wake_env:
  assumes "may_wake env a i user s"
  shows "wv_access (worlds_env_in env 0 s) a user WAKE_WORLD (Some i) = Inr True"
    "case wv_storage (worlds_env_in env 0 s) of None \<Rightarrow> True | Some gate \<Rightarrow> sg_can_wake gate a"
  using assms by (simp_all add: may_wake_def worlds_env_in_def)

text \<open>
  The operation was handed to the dispatcher, once, where there is one, and the request has its
  outcome: the operation, or what the dispatcher raised.
\<close>

definition dispatch_outcome ::
    "'p app_env \<Rightarrow> string \<Rightarrow> world_operation \<Rightarrow> 'p app_state \<Rightarrow> world_operation result \<Rightarrow> 'p app_state \<Rightarrow> bool" where
  "dispatch_outcome env a x s r s' \<longleftrightarrow> (case ax_dispatcher env of
      None \<Rightarrow> r = Inr x \<and> ap_dispatched s' = ap_dispatched s
    | Some start \<Rightarrow> r = map_sum id (\<lambda>_. x) (fst (start a (wo_id x) (ws_providers (ap_worlds s))))
        \<and> ap_dispatched s' = ap_dispatched s @ [(a, wo_id x)])"

lemma dispatch_run:
  assumes "dispatch env a x t = (r, s')" and "ap_dispatched t = ap_dispatched s"
    and "ws_providers (ap_worlds t) = ws_providers (ap_worlds s)"
  obtains p where "dispatch_outcome env a x s r s'" "ap_billing s' = ap_billing t" "ap_accounts s' = ap_accounts t"
    "ap_worlds s' = (ap_worlds t)\<lparr> ws_providers := p \<rparr>"
proof (cases "ax_dispatcher env")
  case None
  then have "dispatch_outcome env a x s r s' \<and> s' = t" using assms by (simp add: dispatch_def dispatch_outcome_def)
  then show thesis using that [of "ws_providers (ap_worlds t)"] by auto
next
  case (Some start)
  obtain q p where qp: "start a (wo_id x) (ws_providers (ap_worlds s)) = (q, p)" by fastforce
  then show thesis using that [of p] Some assms
    by (cases q) (auto simp: dispatch_def dispatch_outcome_def outside_def)
qed

text \<open>
  When a wake can be paid for: the quote of the hourly rate, made by the first call to Billing, is
  valid and lets the second one reserve 25 minutes.
\<close>

definition fundable :: "'p app_env \<Rightarrow> string \<Rightarrow> string \<Rightarrow> decimal \<Rightarrow> billing_store \<Rightarrow> bool" where
  "fundable env a i h b = (case positive_money h of
      Inl _ \<Rightarrow> False
    | Inr rate \<Rightarrow> reservable (ax_billing env 1) a i rate (be_clock (ax_billing env 0) 0 0 + minutes 15) b)"

text \<open>Either the wake is funded, or nothing is held.\<close>

lemma fund_calm:
  assumes calm: "undisturbed env" and ok: "store_ok B (ap_billing s)"
    and fresh: "(uuids (ax_billing env 0) \<union> uuids (ax_billing env 1)) \<inter> B = {}"
      "uuids (ax_billing env 0) \<inter> uuids (ax_billing env 1) = {}"
    and see: "app_get_world env 2 a i user s = Inr w" "wd_id w = i"
    and x: "operation_lookup (ap_worlds s) (wo_id x) = Some x" "wo_account_id x = a" "wo_world_id x = i"
      "wo_operation_type x = WAKE" "wo_session_quote_id x = None" "wo_phase x = REQUESTED"
    and w: "world_lookup (ap_worlds s) (a, i) = Some w" "world_key w = (a, i)"
    and new: "find (\<lambda>q. sq_idempotency_key q = key @ '':quote'') (ws_quotes (repo_get (ap_billing s) a)) = None"
      "find (\<lambda>r. ur_idempotency_key r = key @ '':reservation'') (ws_reservations (repo_get (ap_billing s) a)) = None"
    and run: "fund_wake env a i user key h x s = (r, v, s')"
  obtains (rejected) e where "\<not> fundable env a i h (ap_billing s)" "r = Inl e" "v = None" "ap_worlds s' = ap_worlds s"
      "ap_dispatched s' = ap_dispatched s" "ap_accounts s' = ap_accounts s"
      "ws_reservations (repo_get (ap_billing s') a) = ws_reservations (repo_get (ap_billing s) a)"
      "available_balance (repo_get (ap_billing s') a) = available_balance (repo_get (ap_billing s) a)"
  | (funded) y u rate where "fundable env a i h (ap_billing s)" "r = Inr y" "wo_id y = wo_id x" "wo_account_id y = a"
      "wo_usage_reservation_id y = Some (ur_id u)"
      "operation_lookup (ap_worlds s') (wo_id y) = Some y"
      "\<exists>w'. world_lookup (ap_worlds s') (a, i) = Some w' \<and> wd_status w' = wd_status w
         \<and> wd_usage_reservation_id w' = Some (ur_id u)"
      "ap_dispatched s' = ap_dispatched s"
      "positive_money h = Inr rate" "prorate Up rate (25 * 60) 3600 = Inr (ur_amount u)"
      "find_reservation (repo_get (ap_billing s') a) (ur_id u) = Some u" "ur_status u = ACTIVE"
      "ur_amount u \<le> available_balance (repo_get (ap_billing s) a)"
      "available_balance (repo_get (ap_billing s') a)
         = available_balance (repo_get (ap_billing s) a) - ur_amount u"
      "ap_accounts s' = ap_accounts s" "st_idempotency (ap_worlds s') = st_idempotency (ap_worlds s)"
      "ws_providers (ap_worlds s') = ws_providers (ap_worlds s)" "wo_session_quote_id y \<noteq> None"
proof -
  note quiet = undisturbedD [OF calm]
  obtain r1 b1 where quote: "create_session_quote (ax_billing env 0) a i (wd_runtime_profile_id w) h
      (key @ '':quote'') (ap_billing s) = (r1, b1)" by fastforce
  have "uuids (ax_billing env 0) \<inter> B = {}" using fresh by blast
  from ok quiet(4) this new(1) quote show thesis
  proof (cases rule: quote_calm)
    case (rejected e)
    then show thesis
      using run see quote that(1) [of e] by (auto simp: fund_wake_def on_billing_def quiet(1) fundable_def)
  next
    case (quoted q n)
    let ?s1 = "s\<lparr> ap_billing := b1 \<rparr>"
    obtain r2 b2 where reserve: "reserve_for_wake (ax_billing env 1) a (sq_id q) (key @ '':reservation'') b1
        = (r2, b2)" by fastforce
    have fresh1: "uuids (ax_billing env 1) \<inter> (B \<union> uuids (ax_billing env 0)) = {}" using fresh by blast
    have new1: "find (\<lambda>r. ur_idempotency_key r = key @ '':reservation'') (ws_reservations (repo_get b1 a)) = None"
      using new(2) quoted(6) by simp
    have same: "available_balance (repo_get b1 a) = available_balance (repo_get (ap_billing s) a)"
      by (simp add: quoted(6) available_balance_def balance_def reserved_def under_review_def)
    moreover have "world_budget_available (repo_get b1 a) j t = world_budget_available (repo_get (ap_billing s) a) j t"
      for j t
    proof -
      have "world_budget_spent (repo_get b1 a) j t = world_budget_spent (repo_get (ap_billing s) a) j t"
        "world_budget_reserved (repo_get b1 a) j = world_budget_reserved (repo_get (ap_billing s) a) j"
        "find_world_budget (repo_get b1 a) j = find_world_budget (repo_get (ap_billing s) a) j"
        by (simp_all add: quoted(6) world_budget_spent_def world_budget_reserved_def usage_credits_def
            find_world_budget_def)
      then show ?thesis unfolding world_budget_available_def by presburger
    qed
    ultimately have fundable: "fundable env a i h (ap_billing s) =
        reservable (ax_billing env 1) a (sq_world_id q) (sq_hourly_rate q) (sq_expires_at q) b1"
      using quoted(1,3,4) by (simp add: fundable_def reservable_def split: sum.splits)
    from quoted(5) quiet(4) fresh1 new1 quoted(7) reserve show thesis
    proof (cases rule: reserve_calm)
      case (rejected e)
      then show thesis
        using run see quote quoted(2,6) reserve same fundable that(1) [of e]
        by (auto simp: fund_wake_def on_billing_def quiet(1))
    next
      case (reserved u m)
      obtain r3 w3 where attach: "attach_billing_session (ax_worlds env 3) a (wo_id x) (sq_id q) (ur_id u)
          (ap_worlds s) = (r3, w3)" by fastforce
      from quiet(2) x w attach show thesis
      proof (cases rule: attach_calm)
        case (1 x')
        have run': "r = Inr x'" "s' = s\<lparr> ap_billing := b2, ap_worlds := w3 \<rparr>"
          using run see quote quoted(2) reserve reserved(3) attach 1(1)
          by (auto simp: fund_wake_def on_billing_def on_worlds_def quiet(1))
        have "available_balance (repo_get b2 a) = available_balance (repo_get b1 a) - ur_amount u"
          using reserved(4-6)
          by (auto simp: reserved(8) available_balance_def balance_def reserved_def under_review_def
              active_amount_def split: if_splits)
        then show thesis
          using that(2) [of x' u "sq_hourly_rate q"] run' 1 quoted(1) reserved x(2) same fundable
            same_providers [OF 1(6)] by simp
      qed
    qed
  qed
qed

text \<open>
  The whole use case on a World without an active operation. It begins the operation; then a profile
  with a price is funded and dispatched, or undone, and one without is dispatched. The World
  keeps the Runtime it is bound to.
\<close>

lemma wake_begun:
  assumes calm: "undisturbed env" and ok: "worlds_ok U (ap_worlds s)" and may: "may_wake env a i user s"
    and w: "world_lookup (ap_worlds s) (a, i) = Some w" "active_lookup (ap_worlds s) (a, i) = None"
    and new: "dict_get (st_idempotency (ap_worlds s)) (a, key) = None"
  obtains x w' w0 where "request_wake (worlds_env_in env 0 s) a i user key (ap_worlds s) = (Inr x, w0)"
    "wo_account_id x = a" "wo_world_id x = i" "wo_status x = OP_PENDING"
    "wo_phase x = REQUESTED" "wo_operation_type x = WAKE" "wo_session_quote_id x = None"
    "wo_idempotency_key x = key" "operation_lookup w0 (wo_id x) = Some x" "active_lookup w0 (a, i) = Some (wo_id x)"
    "world_lookup w0 (a, i) = Some w'" "world_key w' = (a, i)" "wd_status w' = WAKING"
    "wd_runtime_profile_id w' = wd_runtime_profile_id w" "wd_runtime_id w' = wd_runtime_id w"
    "dict_get (st_idempotency w0) (a, key) = Some (wo_id x)" "ws_providers w0 = ws_providers (ap_worlds s)"
    "\<And>k. app_get_world env k a i user (s\<lparr> ap_worlds := w0 \<rparr>) = Inr w'"
proof -
  note quiet = undisturbedD [OF calm]
  obtain r0 w0 where wake: "request_wake (worlds_env_in env 0 s) a i user key (ap_worlds s) = (r0, w0)" by fastforce
  from ok(1) quiet(3) may_wake_env [OF may] w new wake show thesis
  proof (cases rule: wake_calm)
    case (1 x w')
    have "app_get_world env k a i user (s\<lparr> ap_worlds := w0 \<rparr>) = Inr w'" for k
      using may 1(12)
      by (simp add: may_wake_def app_get_world_def get_world_def require_permission_def worlds_env_in_def check_def)
    then show thesis using that [of x w0 w'] wake 1 same_providers [OF 1(18)] by simp
  qed
qed

lemma app_wake_calm:
  assumes calm: "undisturbed env" and ok: "worlds_ok U (ap_worlds s)" "store_ok B (ap_billing s)"
    and fresh: "(uuids (ax_billing env 0) \<union> uuids (ax_billing env 1)) \<inter> B = {}"
      "uuids (ax_billing env 0) \<inter> uuids (ax_billing env 1) = {}"
    and may: "may_wake env a i user s"
    and w: "world_lookup (ap_worlds s) (a, i) = Some w" "active_lookup (ap_worlds s) (a, i) = None"
    and rate: "dict_get (ax_rates env) (wd_runtime_profile_id w) = Some h"
    and new: "dict_get (st_idempotency (ap_worlds s)) (a, key) = None"
      "find (\<lambda>q. sq_idempotency_key q = key @ '':quote'') (ws_quotes (repo_get (ap_billing s) a)) = None"
      "find (\<lambda>r. ur_idempotency_key r = key @ '':reservation'') (ws_reservations (repo_get (ap_billing s) a)) = None"
    and run: "app_request_wake env a i user key s = (r, s')"
  obtains (undone) e w' where "\<not> fundable env a i h (ap_billing s)" "r = Inl e" "ap_dispatched s' = ap_dispatched s"
      "ws_reservations (repo_get (ap_billing s') a) = ws_reservations (repo_get (ap_billing s) a)"
      "available_balance (repo_get (ap_billing s') a) = available_balance (repo_get (ap_billing s) a)"
      "world_lookup (ap_worlds s') (a, i) = Some w'" "wd_status w' = SLEEPING"
      "wd_usage_reservation_id w' = None" "wd_runtime_id w' = wd_runtime_id w"
      "active_lookup (ap_worlds s') (a, i) = None"
  | (funded) x u w' rate where "fundable env a i h (ap_billing s)" "dispatch_outcome env a x s r s'"
      "ap_accounts s' = ap_accounts s"
      "operation_lookup (ap_worlds s') (wo_id x) = Some x" "wo_account_id x = a"
      "wo_usage_reservation_id x = Some (ur_id u)" "wo_session_quote_id x \<noteq> None"
      "dict_get (st_idempotency (ap_worlds s')) (a, key) = Some (wo_id x)"
      "positive_money h = Inr rate" "prorate Up rate (25 * 60) 3600 = Inr (ur_amount u)"
      "find_reservation (repo_get (ap_billing s') a) (ur_id u) = Some u" "ur_status u = ACTIVE"
      "ur_amount u \<le> available_balance (repo_get (ap_billing s) a)"
      "available_balance (repo_get (ap_billing s') a)
         = available_balance (repo_get (ap_billing s) a) - ur_amount u"
      "world_lookup (ap_worlds s') (a, i) = Some w'" "wd_status w' = WAKING"
      "wd_usage_reservation_id w' = Some (ur_id u)"
proof (rule wake_begun [OF calm ok(1) may w new(1)])
  note quiet = undisturbedD [OF calm]
  fix x w1 w0
  assume 1: "request_wake (worlds_env_in env 0 s) a i user key (ap_worlds s) = (Inr x, w0)"
    "wo_account_id x = a" "wo_world_id x = i" "wo_status x = OP_PENDING"
    "wo_phase x = REQUESTED" "wo_operation_type x = WAKE" "wo_session_quote_id x = None"
    "wo_idempotency_key x = key" "operation_lookup w0 (wo_id x) = Some x" "active_lookup w0 (a, i) = Some (wo_id x)"
    "world_lookup w0 (a, i) = Some w1" "world_key w1 = (a, i)" "wd_status w1 = WAKING"
    "wd_runtime_profile_id w1 = wd_runtime_profile_id w" "wd_runtime_id w1 = wd_runtime_id w"
    "dict_get (st_idempotency w0) (a, key) = Some (wo_id x)" "ws_providers w0 = ws_providers (ap_worlds s)"
    and see: "\<And>k. app_get_world env k a i user (s\<lparr> ap_worlds := w0 \<rparr>) = Inr w1"
  let ?s0 = "s\<lparr> ap_worlds := w0 \<rparr>"
  have id: "wd_id w1 = i" using 1(12) by (simp add: world_key_def)
  obtain r1 v s1 where fund: "fund_wake env a i user key h x ?s0 = (r1, v, s1)" by (metis prod_cases3)
  have go: "app_request_wake env a i user key s = (case (r1, v, s1) of
      (Inr y, _, s2) \<Rightarrow> dispatch env a y s2 | (Inl e, v, s2) \<Rightarrow> abandon_wake env a x v e s2)"
    using 1 see rate fund
    by (cases r1) (simp_all add: app_request_wake_def on_worlds_def quiet(1) Let_def)
  have s0: "store_ok B (ap_billing ?s0)" "operation_lookup (ap_worlds ?s0) (wo_id x) = Some x"
    "world_lookup (ap_worlds ?s0) (a, i) = Some w1"
    "find (\<lambda>q. sq_idempotency_key q = key @ '':quote'') (ws_quotes (repo_get (ap_billing ?s0) a)) = None"
    "find (\<lambda>r. ur_idempotency_key r = key @ '':reservation'') (ws_reservations (repo_get (ap_billing ?s0) a)) = None"
    using ok(2) 1(9,11) new(2,3) by simp_all
  from calm s0(1) fresh see id s0(2) 1(2,3,6,7,5) s0(3) 1(12) s0(4,5) fund show thesis
  proof (cases rule: fund_calm)
    case (rejected e)
    obtain r2 w2 where fail: "fail_wake_preflight (ax_worlds env 4) a (wo_id x) w0 = (r2, w2)" by fastforce
    from quiet(2) 1(9,2,3,4,11,12,10) fail show thesis
    proof (cases rule: preflight_failure_calm)
      case out: (1 x' w')
      have "r = Inl e" "s' = s1\<lparr> ap_worlds := w2 \<rparr>"
        using run go rejected(2-4) fail out(1)
        by (auto simp: abandon_wake_def on_worlds_def quiet(1))
      then show thesis using undone [of e w'] rejected out 1(15) by simp
    qed
  next
    case f: (funded y u rate)
    have run': "dispatch env a y s1 = (r, s')" using run go f(2) by simp
    show thesis
    proof (rule dispatch_run [OF run'])
      fix p assume d: "dispatch_outcome env a y s r s'" "ap_billing s' = ap_billing s1"
        "ap_accounts s' = ap_accounts s1" "ap_worlds s' = (ap_worlds s1)\<lparr> ws_providers := p \<rparr>"
      obtain w' where w': "world_lookup (ap_worlds s1) (a, i) = Some w'" "wd_status w' = wd_status w1"
        "wd_usage_reservation_id w' = Some (ur_id u)" using f(7) by blast
      have look: "operation_lookup (ap_worlds s') (wo_id y) = Some y" "world_lookup (ap_worlds s') (a, i) = Some w'"
        using d(4) f(6) w'(1) by simp_all
      have idem: "dict_get (st_idempotency (ap_worlds s')) (a, key) = Some (wo_id y)"
        using d(4) f(3,16) 1(16) by simp
      show thesis
        by (rule funded [of y u rate w'])
          (use f d look idem w' 1(13) in simp_all)
    qed (use f(8,17) 1(17) in simp_all)
  qed
qed

text \<open>A profile without a price is not charged.\<close>

lemma app_wake_unpriced:
  assumes calm: "undisturbed env" and ok: "worlds_ok U (ap_worlds s)" and may: "may_wake env a i user s"
    and w: "world_lookup (ap_worlds s) (a, i) = Some w" "active_lookup (ap_worlds s) (a, i) = None"
    and rate: "dict_get (ax_rates env) (wd_runtime_profile_id w) = None"
    and new: "dict_get (st_idempotency (ap_worlds s)) (a, key) = None"
    and run: "app_request_wake env a i user key s = (r, s')"
  obtains x w' where "dispatch_outcome env a x s r s'" "ap_billing s' = ap_billing s"
      "operation_lookup (ap_worlds s') (wo_id x) = Some x" "wo_account_id x = a"
      "world_lookup (ap_worlds s') (a, i) = Some w'" "wd_status w' = WAKING"
proof (rule wake_begun [OF calm ok(1) may w new])
  note quiet = undisturbedD [OF calm]
  fix x w1 w0
  assume 1: "request_wake (worlds_env_in env 0 s) a i user key (ap_worlds s) = (Inr x, w0)" "wo_account_id x = a"
    "operation_lookup w0 (wo_id x) = Some x" "world_lookup w0 (a, i) = Some w1" "wd_status w1 = WAKING"
    "wd_runtime_profile_id w1 = wd_runtime_profile_id w" "ws_providers w0 = ws_providers (ap_worlds s)"
    and see: "\<And>k. app_get_world env k a i user (s\<lparr> ap_worlds := w0 \<rparr>) = Inr w1"
  have "dispatch env a x (s\<lparr> ap_worlds := w0 \<rparr>) = (r, s')"
    using 1 see rate run by (simp add: app_request_wake_def on_worlds_def quiet(1) Let_def)
  then show thesis
    by (rule dispatch_run [where s = s]) (use 1 in \<open>auto intro: that\<close>)
qed

text \<open>A repetition of a wake that was funded hands it to the dispatcher again.\<close>

lemma repeated_wake:
  assumes calm: "undisturbed env" and may: "may_wake env a i user s"
    and w: "world_lookup (ap_worlds s) (a, i) = Some w"
    and x: "dict_get (st_idempotency (ap_worlds s)) (a, key) = Some (wo_id x)"
      "operation_lookup (ap_worlds s) (wo_id x) = Some x" "wo_session_quote_id x \<noteq> None"
  shows "app_request_wake env a i user key s = dispatch env a x s"
proof -
  note quiet = undisturbedD [OF calm]
  have "request_wake (worlds_env_in env 0 s) a i user key (ap_worlds s) = (Inr x, ap_worlds s)"
    using may_wake_env [OF may] w x
    by (auto simp: request_wake_def require_permission_def require_storage_def check_def begin_operation_def
        new_operation_def quiet(3) operation_lookup_def dict_index_def Let_def
        split: option.splits simp del: world_get_Inr simp: world_get_Inr [THEN iffD2])
  moreover have "app_get_world env k a i user s = Inr w" for k
    using may w
    by (simp add: may_wake_def app_get_world_def get_world_def require_permission_def worlds_env_in_def check_def)
  ultimately show ?thesis
    using x(3) by (auto simp: app_request_wake_def on_worlds_def quiet(1) Let_def split: option.split)
qed

end
