(* ===== verification/ApplicationProperties.thy ===== *)
theory ApplicationProperties
  imports ApplicationRun WakeFunding BillingSystem
begin

text \<open>
  The properties of the control plane: who gets an answer from the API, and what a request to wake
  a World does across Worlds and Billing.
\<close>

section \<open>Outsiders\<close>

text \<open>
  C30. A User who is not a member of an Account, and whom no other client makes one, gets nothing
  from the routes under it except the view and the acceptance of an Invitation: every request is
  answered with a status of 400 or more or raises, or lists no Worlds, and changes nothing: whatever
  property of the state the other clients keep, the request keeps.
\<close>

theorem outsiders_are_refused:
  assumes "shut_out env Q acc (rq_user_id rq)" and "Q s"
    and "path_parts (rq_path rq) = [''api'', ''v1'', ''accounts'', acc] @ rest"
    and "\<not> (rq_method rq = ''GET'' \<and> length rest = 2 \<and> rest ! 0 = ''invitations'')"
    and "\<not> (rq_method rq = ''POST'' \<and> length rest = 3 \<and> rest ! 0 = ''invitations'' \<and> rest ! 2 = ''accept'')"
  shows "case handle env rq s of (r, s') \<Rightarrow> Q s' \<and> (\<forall>x. r = Inr x \<longrightarrow> 400 \<le> rs_status x
     \<or> x = \<lparr> rs_status = 200, rs_body = Payload [(''worlds'', VList [])] \<rparr>)"
proof -
  have "refused Q (account_routes env rq acc rest s)" by (rule account_routes_refused [OF assms(1,2,4,5)])
  moreover have "dispatch_request env rq s = account_routes env rq acc rest s"
    using assms(3) by (simp add: dispatch_request_def Let_def)
  moreover have "400 \<le> rs_status x" if "api_error e = Inr x" for e x
    using that by (auto simp: api_error_def error_payload_def split: py_error.splits)
  ultimately show ?thesis by (auto simp: handle_def refused_def split: prod.splits sum.splits)
qed

lemma calm_app_shut_out: "outsider (ap_accounts s) ''acc'' user \<Longrightarrow> shut_out (calm_app c) (\<lambda>t. t = s) ''acc'' user"
  by (simp add: shut_out_def rivals_keep_def group_env_def calm_env_def)

lemma outsiders_are_refused_witness:
  "let s = app_with created (funded 1000)
   in case handle (calm_app CHR ''x'') (wake_by ''eve'') s of (r, s') \<Rightarrow> s' = s \<and> (\<forall>x. r = Inr x \<longrightarrow> 400 \<le> rs_status x
     \<or> x = \<lparr> rs_status = 200, rs_body = Payload [(''worlds'', VList [])] \<rparr>)"
proof -
  have out: "outsider (ap_accounts (app_with created (funded 1000))) ''acc'' ''eve''"
    unfolding app_with_simps by code_simp
  have user: "rq_user_id (wake_by ''eve'') = ''eve''" by code_simp
  have path: "path_parts (rq_path (wake_by ''eve'')) = [''api'', ''v1'', ''accounts'', ''acc''] @ [''worlds'', ''w'', ''wake'']"
    by code_simp
  show ?thesis
    unfolding Let_def
    by (rule outsiders_are_refused [OF _ refl path]) (simp_all add: user calm_app_shut_out [OF out])
qed

section \<open>Waking a World\<close>

text \<open>
  C31. A request to wake a Sleeping World, by a member who may wake and view it, in an Account that the
  storage policy lets wake, with keys not used before and while no other client acts, is all or nothing
  (docs/adr/0015). When the World's profile has a price that can be paid, the price of 25 minutes at
  the profile's rate is held by an active reservation of the Wallet, attached to the operation and to
  the World, which is Waking, and the operation is handed to the dispatcher, once; what the dispatcher
  raises is raised, with the wake still funded and pending, and then repeating the
  request with the same key hands the same operation to the dispatcher again and does nothing else.
  When the price cannot be paid the request raises, nothing is dispatched, nothing more is
  held of the Wallet, and the World is Sleeping without a session and without an active operation. A
  profile without a price is dispatched and Billing is left alone.
\<close>

theorem wake_is_funded_or_undone:
  assumes "undisturbed env" and "worlds_reach U (ap_worlds s)" and "billing_reach B (ap_billing s)"
    and "(uuids (ax_billing env 0) \<union> uuids (ax_billing env 1)) \<inter> B = {}"
    and "uuids (ax_billing env 0) \<inter> uuids (ax_billing env 1) = {}"
    and "may_wake env a i user s"
    and "world_get (ap_worlds s) a i = Inr w" and "wd_status w = SLEEPING"
    and "dict_get (st_idempotency (ap_worlds s)) (a, key) = None"
    and "find (\<lambda>q. sq_idempotency_key q = key @ '':quote'') (ws_quotes (repo_get (ap_billing s) a)) = None"
    and "find (\<lambda>r. ur_idempotency_key r = key @ '':reservation'') (ws_reservations (repo_get (ap_billing s) a)) = None"
    and "app_request_wake env a i user key s = (r, s')"
  shows "case dict_get (ax_rates env) (wd_runtime_profile_id w) of
     Some h \<Rightarrow>
       if fundable env a i h (ap_billing s) then
         \<exists>x u w' rate. dispatch_outcome env a x s r s'
           \<and> get_operation (ap_worlds s') a (wo_id x) = Inr x \<and> wo_usage_reservation_id x = Some (ur_id u)
           \<and> positive_money h = Inr rate \<and> prorate Up rate (25 * 60) 3600 = Inr (ur_amount u)
           \<and> find_reservation (repo_get (ap_billing s') a) (ur_id u) = Some u \<and> ur_status u = ACTIVE
           \<and> ur_amount u \<le> available_balance (repo_get (ap_billing s) a)
           \<and> available_balance (repo_get (ap_billing s') a)
               = available_balance (repo_get (ap_billing s) a) - ur_amount u
           \<and> world_get (ap_worlds s') a i = Inr w' \<and> wd_status w' = WAKING
           \<and> wd_usage_reservation_id w' = Some (ur_id u)
           \<and> (\<forall>env2. undisturbed env2 \<longrightarrow> may_wake env2 a i user s' \<longrightarrow>
                app_request_wake env2 a i user key s' = dispatch env2 a x s')
       else
         \<exists>e w'. r = Inl e \<and> ap_dispatched s' = ap_dispatched s
           \<and> ws_reservations (repo_get (ap_billing s') a) = ws_reservations (repo_get (ap_billing s) a)
           \<and> available_balance (repo_get (ap_billing s') a) = available_balance (repo_get (ap_billing s) a)
           \<and> world_get (ap_worlds s') a i = Inr w' \<and> wd_status w' = SLEEPING
           \<and> wd_usage_reservation_id w' = None \<and> active_lookup (ap_worlds s') (a, i) = None
   | None \<Rightarrow>
       \<exists>x w'. dispatch_outcome env a x s r s' \<and> ap_billing s' = ap_billing s
         \<and> get_operation (ap_worlds s') a (wo_id x) = Inr x
         \<and> world_get (ap_worlds s') a i = Inr w' \<and> wd_status w' = WAKING"
proof -
  have ok: "worlds_ok U (ap_worlds s)" "store_ok B (ap_billing s)"
    using worlds_reach_ok [OF assms(2)] reach_store_ok [OF assms(3)] .
  have w: "world_lookup (ap_worlds s) (a, i) = Some w" using assms(7) by simp
  note idle = sleeping_idle [OF ok(1) w assms(8)]
  show ?thesis
  proof (cases "dict_get (ax_rates env) (wd_runtime_profile_id w)")
    case None
    from assms(1) ok(1) assms(6) w idle None assms(9,12) show ?thesis
    proof (cases rule: app_wake_unpriced)
      case (1 x w')
      then show ?thesis using None by (auto intro!: exI [of _ x] exI [of _ w'])
    qed
  next
    case (Some h)
    from assms(1) ok assms(4-6) w idle Some assms(9-12) show ?thesis
    proof (cases rule: app_wake_calm)
      case (undone e w')
      then show ?thesis using Some by auto
    next
      case (funded x u w' rate)
      have "app_request_wake env2 a i user key s' = dispatch env2 a x s'"
        if "undisturbed env2" "may_wake env2 a i user s'" for env2
        by (rule repeated_wake [OF that funded(15,8,4,7)])
      then show ?thesis using Some funded
        by (auto intro!: exI [of _ x] exI [of _ u] exI [of _ w'] exI [of _ rate])
    qed
  qed
qed

lemma calm_app_undisturbed: "undisturbed (calm_app c)"
  by (simp add: undisturbed_def calm_env_def calm_billing_def)

lemma calm_uuids: "uuids (calm_billing c k) = {c # replicate k CHR ''0''}"
  by (auto simp: uuids_def calm_billing_def)

lemma calm_billing_rival: "be_rival (calm_billing c k) n b = b"
  by (simp add: calm_billing_def)

lemma funded_reach: "billing_reach (uuids (calm_billing CHR ''g'' 0)) (funded c)"
proof -
  have "env_ok {} (calm_billing CHR ''g'' 0)"
    unfolding env_ok_def fresh_ids_def by (simp add: calm_rivals [OF calm_billing_rival])
  from reach_call [OF reach_empty this, of "Credit_wallet ''acc'' (decimal_of_cents c) ''gift'' ''gift''"]
  show ?thesis unfolding funded_def run_call.simps by simp
qed

lemma wake_is_funded_or_undone_witness:
  "let s = app_with created (funded 1000); (r, s') = app_request_wake (calm_app CHR ''x'') ''acc'' ''w'' ''owner'' ''k9'' s
   in \<exists>x u. r = Inr x \<and> ap_dispatched s' = ap_dispatched s @ [(''acc'', wo_id x)]
        \<and> find_reservation (repo_get (ap_billing s') ''acc'') (ur_id u) = Some u \<and> ur_amount u = 50"
proof -
  let ?env = "calm_app CHR ''x''" and ?s = "app_with created (funded 1000)"
  obtain r s' where run: "app_request_wake ?env ''acc'' ''w'' ''owner'' ''k9'' ?s = (r, s')" by fastforce
  have ok: "fundable ?env ''acc'' ''w'' (Dec 120 (- 2)) (ap_billing ?s)"
    unfolding app_with_simps by code_simp
  have "map_sum id (\<lambda>w. (wd_status w, wd_runtime_profile_id w)) (world_get created ''acc'' ''w'')
      = Inr (SLEEPING, ''small'')" by code_simp
  then obtain w where w: "world_get created ''acc'' ''w'' = Inr w" "wd_status w = SLEEPING"
    "wd_runtime_profile_id w = ''small''" by (cases "world_get created ''acc'' ''w''") auto
  have may: "authorize (ap_accounts ?s) ''acc'' ''owner'' WAKE_WORLD (Some ''w'') = Inr True"
    "authorize (ap_accounts ?s) ''acc'' ''owner'' VIEW_WORLD (Some ''w'') = Inr True"
    unfolding app_with_simps by code_simp+
  have new: "dict_get (st_idempotency (ap_worlds ?s)) (''acc'', ''k9'') = None
    \<and> ws_quotes (repo_get (ap_billing ?s) ''acc'') = [] \<and> ws_reservations (repo_get (ap_billing ?s) ''acc'') = []"
    unfolding app_with_simps by code_simp
  have price: "positive_money (Dec 120 (- 2)) = Inr 120 \<and> prorate Up 120 (25 * 60) 3600 = Inr 50" by code_simp
  have reach: "worlds_reach creation_ids (ap_worlds ?s)" "billing_reach (uuids (calm_billing CHR ''g'' 0)) (ap_billing ?s)"
    using guarded_reach_reach [OF created_reach] funded_reach by simp_all
  have fresh: "(uuids (ax_billing ?env 0) \<union> uuids (ax_billing ?env 1)) \<inter> uuids (calm_billing CHR ''g'' 0) = {}"
    "uuids (ax_billing ?env 0) \<inter> uuids (ax_billing ?env 1) = {}"
    by (simp_all add: calm_uuids numeral_eq_Suc)
  have settings: "ax_dispatcher ?env = Some (\<lambda>_ _ p. (Inr (), p))" "wv_storage (ax_worlds ?env 0) = None"
    "dict_get (ax_rates ?env) (wd_runtime_profile_id w) = Some (Dec 120 (- 2))"
    using w by (simp_all add: calm_env_def)
  have unused: "dict_get (st_idempotency (ap_worlds ?s)) (''acc'', ''k9'') = None"
    "find (\<lambda>q. sq_idempotency_key q = ''k9'' @ '':quote'') (ws_quotes (repo_get (ap_billing ?s) ''acc'')) = None"
    "find (\<lambda>r. ur_idempotency_key r = ''k9'' @ '':reservation'') (ws_reservations (repo_get (ap_billing ?s) ''acc'')) = None"
    using new by simp_all
  have "world_get (ap_worlds ?s) ''acc'' ''w'' = Inr w" using w(1) by simp
  moreover have "may_wake ?env ''acc'' ''w'' ''owner'' ?s" using may settings(2) by (simp add: may_wake_def)
  ultimately show ?thesis
    using wake_is_funded_or_undone [OF calm_app_undisturbed reach fresh _ _ w(2) unused run] ok price settings(1,3)
    unfolding Let_def run by (auto simp: dispatch_outcome_def)
qed

section \<open>A request to wake an Online World\<close>

text \<open>
  \<open>Worlds.request_wake\<close> does not ask for the World's status, so it begins a new wake of a World that
  is Online. When the Wallet cannot fund it, \<open>fail_wake_preflight\<close> leaves the World Sleeping, without
  the session that pays for its Runtime, and still bound to that Runtime: it runs on, uncharged, and
  nothing was persisted (against docs/adr/0003 and 0006).
\<close>

lemma an_unfunded_wake_ends_a_running_session:
  assumes "undisturbed env" and "worlds_reach U (ap_worlds s)" and "billing_reach B (ap_billing s)"
    and "(uuids (ax_billing env 0) \<union> uuids (ax_billing env 1)) \<inter> B = {}"
    and "uuids (ax_billing env 0) \<inter> uuids (ax_billing env 1) = {}"
    and "may_wake env a i user s"
    and "world_lookup (ap_worlds s) (a, i) = Some w"
    and "wd_status w = ONLINE" and "active_lookup (ap_worlds s) (a, i) = None"
    and "dict_get (ax_rates env) (wd_runtime_profile_id w) = Some h"
    and "dict_get (st_idempotency (ap_worlds s)) (a, key) = None"
    and "find (\<lambda>q. sq_idempotency_key q = key @ '':quote'') (ws_quotes (repo_get (ap_billing s) a)) = None"
    and "find (\<lambda>r. ur_idempotency_key r = key @ '':reservation'') (ws_reservations (repo_get (ap_billing s) a)) = None"
    and "app_request_wake env a i user key s = (r, s')"
    and "\<not> fundable env a i h (ap_billing s)"
  shows "\<exists>w'. world_get (ap_worlds s') a i = Inr w' \<and> wd_status w' = SLEEPING
     \<and> wd_usage_reservation_id w' = None \<and> wd_runtime_id w' = wd_runtime_id w \<and> wd_runtime_id w' \<noteq> None"
proof -
  have ok: "worlds_ok U (ap_worlds s)" "store_ok B (ap_billing s)"
    using worlds_reach_ok [OF assms(2)] reach_store_ok [OF assms(3)] .
  have "wd_runtime_id w \<noteq> None"
    using worlds_okD(3) [OF ok(1) assms(7)] assms(8) by (auto simp: world_ok_def bound_def)
  with assms(1) ok assms(4-7,9-14) show ?thesis
  proof (cases rule: app_wake_calm)
    case (funded x u w' rate')
    then show ?thesis using assms(15) by simp
  qed auto
qed

text \<open>
  A custom Role may grant waking without viewing. The request of such a member begins the operation
  and then raises outside the \<open>try\<close>: the operation stays pending, is not dispatched, and no other
  operation of the World can begin.
\<close>

lemma a_wake_without_view_is_left_pending:
  assumes "undisturbed env" and "worlds_ok U (ap_worlds s)"
    and "authorize (ap_accounts s) a user WAKE_WORLD (Some i) = Inr True"
    and "authorize (ap_accounts s) a user VIEW_WORLD (Some i) = Inr False"
    and "wv_storage (ax_worlds env 0) = None"
    and "world_lookup (ap_worlds s) (a, i) = Some w" and "active_lookup (ap_worlds s) (a, i) = None"
    and "dict_get (st_idempotency (ap_worlds s)) (a, key) = None"
    and "app_request_wake env a i user key s = (r, s')"
  shows "\<exists>e x. r = Inl e \<and> ap_dispatched s' = ap_dispatched s \<and> wo_status x = OP_PENDING
     \<and> operation_lookup (ap_worlds s') (wo_id x) = Some x \<and> active_lookup (ap_worlds s') (a, i) = Some (wo_id x)"
proof -
  note quiet = undisturbedD [OF assms(1)]
  let ?env = "worlds_env_in env 0 s"
  obtain r0 w0 where wake: "request_wake ?env a i user key (ap_worlds s) = (r0, w0)" by fastforce
  have may: "wv_access ?env a user WAKE_WORLD (Some i) = Inr True"
    "case wv_storage ?env of None \<Rightarrow> True | Some gate \<Rightarrow> sg_can_wake gate a"
    using assms(3,5) by (simp_all add: worlds_env_in_def)
  from assms(2) quiet(3) may assms(6-8) wake show ?thesis
  proof (cases rule: wake_calm)
    case (1 x w')
    have "\<exists>e. app_get_world env 1 a i user (s\<lparr> ap_worlds := w0 \<rparr>) = Inl e"
      using assms(4) by (simp add: app_get_world_def get_world_def require_permission_def
          worlds_env_in_def check_def)
    then have "\<exists>e. r = Inl e" "s' = s\<lparr> ap_worlds := w0 \<rparr>"
      using assms(9) wake 1(1) by (auto simp: app_request_wake_def on_worlds_def quiet(1) Let_def)
    then show ?thesis using 1(4,10,11) by auto
  qed
qed

end
