(* ===== verification/StoragePolicy.thy ===== *)
theory StoragePolicy
  imports Archive Effects
begin

text \<open>
  \<open>gamewake/worlds/storage.py\<close>: the Storage Grace Period of an Account whose Worlds and Backups
  exceed its allowance, and the gate that \<open>Worlds\<close> and \<open>WorldData\<close> ask. The archive is the protocol
  \<open>StorageArchive\<close>, a parameter; \<open>st_rival env k\<close> is what other clients do before the \<open>k\<close>-th access
  after the first.
\<close>

record storage_policy =
  po_allowance_bytes :: int
  po_grace_days :: int

definition mk_storage_policy :: "int \<Rightarrow> int \<Rightarrow> storage_policy result" where
  "mk_storage_policy allowance_bytes grace_days =
     (if allowance_bytes < 0 \<or> grace_days \<le> 0
      then Inl (ValueError ''Storage Policy values must be non-negative'')
      else Inr \<lparr> po_allowance_bytes = allowance_bytes, po_grace_days = grace_days \<rparr>)"

record grace_state =
  gr_account_id :: string
  gr_started_at :: instant
  gr_version :: nat

record storage_status =
  su_account_id :: string
  su_used_bytes :: int
  su_allowance_bytes :: int
  su_excess_bytes :: int
  su_grace_started_at :: "instant option"
  su_grace_ends_at :: "instant option"
  su_manual_backups_blocked :: bool
  su_new_worlds_blocked :: bool
  su_wake_blocked :: bool
  su_pruned_backup_ids :: "string list"

section \<open>The in-memory repository\<close>

record storage_repository =
  sr_states :: "(string, grace_state) dict"
  sr_statuses :: "(string, storage_status) dict"

definition empty_storage :: storage_repository where
  "empty_storage = \<lparr> sr_states = [], sr_statuses = [] \<rparr>"

definition grace_get :: "storage_repository \<Rightarrow> string \<Rightarrow> grace_state option" where
  "grace_get r account_id = dict_get (sr_states r) account_id"

definition grace_version :: "storage_repository \<Rightarrow> string \<Rightarrow> nat" where
  "grace_version r account_id = (case grace_get r account_id of None \<Rightarrow> 0 | Some g \<Rightarrow> gr_version g)"

definition grace_conflict :: py_error where
  "grace_conflict = RuntimeError ''Storage Grace Period was changed concurrently''"

definition grace_save :: "grace_state \<Rightarrow> nat \<Rightarrow> storage_repository \<Rightarrow> storage_repository result" where
  "grace_save g expected_version r =
     (if grace_version r (gr_account_id g) \<noteq> expected_version then Inl grace_conflict
      else Inr (r\<lparr> sr_states := dict_set (gr_account_id g)
        \<lparr> gr_account_id = gr_account_id g, gr_started_at = gr_started_at g,
          gr_version = expected_version + 1 \<rparr> (sr_states r) \<rparr>))"

definition grace_clear :: "string \<Rightarrow> nat \<Rightarrow> storage_repository \<Rightarrow> storage_repository result" where
  "grace_clear account_id expected_version r =
     (if grace_version r account_id \<noteq> expected_version then Inl grace_conflict
      else Inr (r\<lparr> sr_states := dict_del account_id (sr_states r) \<rparr>))"

definition status_get :: "storage_repository \<Rightarrow> string \<Rightarrow> storage_status option" where
  "status_get r account_id = dict_get (sr_statuses r) account_id"

definition status_save :: "storage_status \<Rightarrow> storage_repository \<Rightarrow> storage_repository" where
  "status_save u r = r\<lparr> sr_statuses := dict_set (su_account_id u) u (sr_statuses r) \<rparr>"

section \<open>The service\<close>

text \<open>The protocol \<open>StorageArchive\<close> on a state \<open>'p\<close>, and what the service acts on.\<close>

record 'p storage_archive =
  sa_usage :: "string \<Rightarrow> world list \<Rightarrow> 'p \<Rightarrow> int result"
  sa_prune :: "string \<Rightarrow> world list \<Rightarrow> int \<Rightarrow> 'p \<Rightarrow> backup list result \<times> 'p"

record 'p storage_state =
  sy_worlds :: world_store
  sy_archive :: 'p
  sy_repository :: storage_repository

record 'p storage_env =
  st_archive :: "'p storage_archive"
  st_policy :: storage_policy
  st_rival :: "nat \<Rightarrow> 'p storage_state \<Rightarrow> 'p storage_state"

definition grace_end :: "storage_policy \<Rightarrow> grace_state \<Rightarrow> instant" where
  "grace_end p g = gr_started_at g + days (po_grace_days p)"

definition status_of ::
    "storage_policy \<Rightarrow> string \<Rightarrow> int \<Rightarrow> grace_state option \<Rightarrow> string list \<Rightarrow> bool \<Rightarrow> storage_status" where
  "status_of p account_id used grace pruned wake_blocked =
     \<lparr> su_account_id = account_id, su_used_bytes = used, su_allowance_bytes = po_allowance_bytes p,
       su_excess_bytes = max 0 (used - po_allowance_bytes p),
       su_grace_started_at = map_option gr_started_at grace,
       su_grace_ends_at = map_option (grace_end p) grace,
       su_manual_backups_blocked = (grace \<noteq> None), su_new_worlds_blocked = (grace \<noteq> None),
       su_wake_blocked = wake_blocked, su_pruned_backup_ids = pruned \<rparr>"

text \<open>A call that replaces the repository, or raises.\<close>

definition on_repository ::
    "(storage_repository \<Rightarrow> storage_repository result) \<Rightarrow> 'p storage_state
     \<Rightarrow> unit result \<times> 'p storage_state" where
  "on_repository f s = on_ok (f (sy_repository s)) s (\<lambda>r. (Inr (), s\<lparr> sy_repository := r \<rparr>))"

definition persist_status ::
    "storage_status \<Rightarrow> 'p storage_state \<Rightarrow> storage_status result \<times> 'p storage_state" where
  "persist_status u s = (Inr u, s\<lparr> sy_repository := status_save u (sy_repository s) \<rparr>)"

text \<open>After the grace period: Backups are pruned, and usage is measured again.\<close>

definition after_grace ::
    "'p storage_env \<Rightarrow> string \<Rightarrow> world list \<Rightarrow> int \<Rightarrow> grace_state \<Rightarrow> 'p storage_state
     \<Rightarrow> (int \<times> backup list \<times> grace_state option) result \<times> 'p storage_state" where
  "after_grace env account_id worlds used g s =
     (let allowance = po_allowance_bytes (st_policy env)
      in case sa_prune (st_archive env) account_id worlds (used - allowance) (sy_archive s) of
           (Inl e, p) \<Rightarrow> (Inl e, s\<lparr> sy_archive := p \<rparr>)
         | (Inr pruned, p) \<Rightarrow>
             (let s1 = st_rival env 4 (s\<lparr> sy_archive := p \<rparr>)
              in on_ok (sa_usage (st_archive env) account_id worlds (sy_archive s1)) s1 (\<lambda>left.
                 if left \<le> allowance
                 then and_then (on_repository (grace_clear account_id (gr_version g)) (st_rival env 5 s1))
                   (\<lambda>_ s2. (Inr (left, pruned, None), s2))
                 else (Inr (left, pruned, Some g), s1))))"

definition evaluate ::
    "'p storage_env \<Rightarrow> string \<Rightarrow> bool \<Rightarrow> instant \<Rightarrow> 'p storage_state
     \<Rightarrow> storage_status result \<times> 'p storage_state" where
  "evaluate env account_id wallet_can_fund observed_at s =
     (let policy = st_policy env;
          worlds = list_worlds_of (sy_worlds s) account_id;
          s1 = st_rival env 0 s
      in on_ok (sa_usage (st_archive env) account_id worlds (sy_archive s1)) s1 (\<lambda>used.
         let s2 = st_rival env 1 s1; grace = grace_get (sy_repository s2) account_id
         in if used \<le> po_allowance_bytes policy \<or> wallet_can_fund
            then and_then (case grace of
                None \<Rightarrow> (Inr (), s2)
              | Some g \<Rightarrow> on_repository (grace_clear account_id (gr_version g)) (st_rival env 2 s2))
              (\<lambda>_ s3. persist_status (status_of policy account_id used None [] False) (st_rival env 3 s3))
            else and_then (case grace of
                Some g \<Rightarrow> (Inr (Some g), s2)
              | None \<Rightarrow>
                  and_then (on_repository (grace_save
                      \<lparr> gr_account_id = account_id, gr_started_at = observed_at, gr_version = 0 \<rparr> 0)
                      (st_rival env 2 s2))
                    (\<lambda>_ s3. let s4 = st_rival env 3 s3 in (Inr (grace_get (sy_repository s4) account_id), s4)))
              (\<lambda>now_grace s3. case now_grace of
                 None \<Rightarrow> (Inl (RuntimeError ''Storage Grace Period was not persisted''), s3)
               | Some g \<Rightarrow>
                   and_then (if observed_at < grace_end policy g then (Inr (used, [], Some g), s3)
                             else after_grace env account_id worlds used g (st_rival env 6 s3))
                     (\<lambda>(left, pruned, still) s4.
                        persist_status (status_of policy account_id left still (map bk_id pruned)
                            (still \<noteq> None \<and> grace_end policy g \<le> observed_at))
                          (st_rival env 7 s4)))))"

section \<open>The gate\<close>

definition can_create_world :: "storage_repository \<Rightarrow> string \<Rightarrow> bool" where
  "can_create_world r account_id = (case status_get r account_id of
     None \<Rightarrow> True | Some u \<Rightarrow> \<not> su_new_worlds_blocked u)"

definition can_create_manual_backup :: "storage_repository \<Rightarrow> string \<Rightarrow> bool" where
  "can_create_manual_backup r account_id = (case status_get r account_id of
     None \<Rightarrow> True | Some u \<Rightarrow> \<not> su_manual_backups_blocked u)"

definition can_wake :: "storage_repository \<Rightarrow> string \<Rightarrow> bool" where
  "can_wake r account_id = (case status_get r account_id of
     None \<Rightarrow> True | Some u \<Rightarrow> \<not> su_wake_blocked u)"

definition gate_of :: "storage_repository \<Rightarrow> storage_gate" where
  "gate_of r = \<lparr> sg_can_create_world = can_create_world r,
     sg_can_create_manual_backup = can_create_manual_backup r, sg_can_wake = can_wake r \<rparr>"

text \<open>The in-memory archive as a \<open>StorageArchive\<close>.\<close>

definition memory_storage :: "archive storage_archive" where
  "memory_storage = \<lparr> sa_usage = (\<lambda>account_id worlds a. Inr (storage_usage a account_id worlds)),
     sa_prune = (\<lambda>account_id worlds n a. case prune_oldest_automatic account_id worlds n a of
       (bs, a') \<Rightarrow> (Inr bs, a')) \<rparr>"

end
