(* ===== verification/StorageProperties.thy ===== *)
theory StorageProperties
  imports StoragePolicy
begin

text \<open>
  The properties of the storage policy: what pruning removes from the in-memory archive, and when
  waking is blocked (docs/adr/0005, 0022).
\<close>

section \<open>Pruning\<close>

lemma take_until_freed_prefix:
  "\<exists>rest. bs = take_until_freed freed n bs @ rest
     \<and> (rest \<noteq> [] \<longrightarrow> n \<le> freed + sum_list (map bk_size_bytes (take_until_freed freed n bs)))"
proof (induction bs arbitrary: freed)
  case (Cons b bs)
  then show ?case
    using Cons [of "freed + bk_size_bytes b"] by (auto simp: add.assoc)
qed simp

lemma take_until_freed_needed:
  "take_until_freed freed n bs = ps @ [b] \<Longrightarrow> freed + sum_list (map bk_size_bytes ps) < n"
proof (induction bs arbitrary: freed ps)
  case (Cons c bs)
  then show ?case
    by (cases ps) (auto simp: add.assoc split: if_splits dest!: Cons.IH)
qed simp

lemma sum_filter_partition:
  fixes f :: "'a \<Rightarrow> int"
  shows "sum_list (map f xs) = sum_list (map f (filter P xs)) + sum_list (map f (filter (\<lambda>x. \<not> P x) xs))"
  by (induction xs) auto

text \<open>The Backups are stored under their identifiers.\<close>

definition keyed :: "archive \<Rightarrow> bool" where
  "keyed a \<longleftrightarrow> distinct (map fst (am_backups a)) \<and> (\<forall>(i, b) \<in> set (am_backups a). bk_id b = i)"

lemma foldl_dict_del: "foldl (\<lambda>d b. dict_del (bk_id b) d) d bs
   = filter (\<lambda>(i, _). i \<notin> bk_id ` set bs) d"
proof (induction bs arbitrary: d)
  case (Cons b bs)
  have "filter (\<lambda>(i, _). i \<notin> bk_id ` set bs) (dict_del (bk_id b) d)
      = filter (\<lambda>(i, _). i \<notin> bk_id ` set (b # bs)) d"
    by (induction d) auto
  with Cons show ?case by simp
qed (simp add: case_prod_unfold)

lemma keyed_ids:
  assumes "keyed a" and "B \<subseteq> set (map snd (am_backups a))"
  shows "filter (\<lambda>(i, _). i \<notin> bk_id ` B) (am_backups a) = filter (\<lambda>(_, b). b \<notin> B) (am_backups a)"
proof (rule filter_cong [OF refl], clarify)
  fix i b assume ib: "(i, b) \<in> set (am_backups a)"
  have "b = c" if "c \<in> B" "bk_id c = i" for c
  proof -
    have "c \<in> snd ` set (am_backups a)" using that(1) assms(2) by auto
    then obtain j where "(j, c) \<in> set (am_backups a)" by force
    then show ?thesis using ib that(2) assms(1)
      by (force simp: keyed_def distinct_map inj_on_def)
  qed
  then show "i \<notin> bk_id ` B \<longleftrightarrow> b \<notin> B" using ib assms(1) by (auto simp: keyed_def)
qed

lemma keyed_distinct: "keyed a \<Longrightarrow> distinct (map snd (am_backups a))"
  by (auto simp: keyed_def distinct_map inj_on_def) (metis case_prodD)

text \<open>
  C32. Pruning deletes Automatic Backups of the Account's Worlds that are not pending deletion, and
  nothing else; it deletes the oldest of them, frees what it says it frees, goes on until the bytes
  asked for are freed or no candidate is left, and does not delete the last of them needlessly.
\<close>

theorem pruning_frees_just_enough:
  assumes "keyed a" and "prune_oldest_automatic acc worlds n a = (pruned, a')"
  shows "(\<forall>b \<in> set pruned. b \<in> snd ` set (am_backups a) \<and> bk_kind b = AUTOMATIC \<and> bk_account_id b = acc
        \<and> bk_world_id b \<in> set (active_world_ids worlds))
     \<and> am_backups a' = filter (\<lambda>(_, b). b \<notin> set pruned) (am_backups a)
     \<and> storage_usage a' acc worlds = storage_usage a acc worlds - sum_list (map bk_size_bytes pruned)
     \<and> (\<forall>b \<in> set pruned. \<forall>c \<in> set (prune_candidates a' acc worlds). backup_time b \<le> backup_time c)
     \<and> (n \<le> sum_list (map bk_size_bytes pruned) \<or> prune_candidates a' acc worlds = [])
     \<and> (\<forall>ps b. pruned = ps @ [b] \<longrightarrow> sum_list (map bk_size_bytes ps) < n)"
proof -
  let ?cs = "prune_candidates a acc worlds" and ?bs = "map snd (am_backups a)"
  let ?mine = "\<lambda>b. bk_account_id b = acc \<and> bk_world_id b \<in> set (active_world_ids worlds)"
  have pruned: "pruned = take_until_freed 0 n ?cs"
    and a': "a' = a\<lparr> am_backups := foldl (\<lambda>d b. dict_del (bk_id b) d) (am_backups a) pruned \<rparr>"
    using assms(2) by (auto simp: prune_oldest_automatic_def Let_def)
  obtain rest where rest: "?cs = pruned @ rest"
      "rest \<noteq> [] \<longrightarrow> n \<le> sum_list (map bk_size_bytes pruned)"
    using take_until_freed_prefix [of ?cs 0 n] pruned by auto
  have distinct: "distinct ?bs" "distinct ?cs"
    using keyed_distinct [OF assms(1)] by (simp_all add: prune_candidates_def)
  have members: "set pruned \<subseteq> set ?cs" using rest(1) by auto
  have stored: "b \<in> set ?bs \<and> bk_kind b = AUTOMATIC \<and> ?mine b" if "b \<in> set pruned" for b
    using members that by (auto simp: prune_candidates_def)
  have left: "am_backups a' = filter (\<lambda>(_, b). b \<notin> set pruned) (am_backups a)"
    unfolding a' using keyed_ids [OF assms(1), of "set pruned"] stored by (auto simp: foldl_dict_del)
  have still: "map snd (am_backups a') = filter (\<lambda>b. b \<notin> set pruned) ?bs"
    unfolding left by (simp add: filter_map comp_def case_prod_unfold)
  have "prune_candidates a' acc worlds = filter (\<lambda>b. b \<notin> set pruned) ?cs"
    unfolding prune_candidates_def still filter_sort by (simp add: conj_commute)
  also have "\<dots> = rest" using rest(1) distinct(2) by (auto simp: filter_id_conv)
  finally have cs': "prune_candidates a' acc worlds = rest" .
  have "sorted (map backup_time ?cs)" by (simp add: prune_candidates_def)
  then have old: "\<forall>b \<in> set pruned. \<forall>c \<in> set rest. backup_time b \<le> backup_time c"
    unfolding rest(1) by (auto simp: sorted_append)
  have "sum_list (map bk_size_bytes (filter ?mine ?bs))
      = sum_list (map bk_size_bytes (filter (\<lambda>b. b \<in> set pruned) (filter ?mine ?bs)))
        + sum_list (map bk_size_bytes (filter (\<lambda>b. b \<notin> set pruned) (filter ?mine ?bs)))"
    by (rule sum_filter_partition)
  moreover have "sum_list (map bk_size_bytes (filter (\<lambda>b. b \<in> set pruned) (filter ?mine ?bs)))
      = sum_list (map bk_size_bytes pruned)"
  proof -
    have "set (filter (\<lambda>b. b \<in> set pruned) (filter ?mine ?bs)) = set pruned" using stored by auto
    moreover have "distinct pruned" using distinct(2) rest(1) by simp
    ultimately show ?thesis using distinct(1) by (simp add: sum_list_distinct_conv_sum_set)
  qed
  moreover have sizes: "state_size a' = state_size a" by (simp add: a' fun_eq_iff state_size_def)
  ultimately have freed: "storage_usage a' acc worlds = storage_usage a acc worlds - sum_list (map bk_size_bytes pruned)"
    unfolding storage_usage_def Let_def still sizes
    by (simp add: conj_commute)
  have "\<forall>ps b. pruned = ps @ [b] \<longrightarrow> sum_list (map bk_size_bytes ps) < n"
    using take_until_freed_needed [of 0 n ?cs] pruned by auto
  with stored left freed old rest(2) cs' show ?thesis by auto
qed

definition aged_backup :: "string \<Rightarrow> backup_kind \<Rightarrow> int \<Rightarrow> instant \<Rightarrow> string \<times> backup" where
  "aged_backup i kind bytes t = (i, \<lparr> bk_id = i, bk_account_id = ''acc'', bk_world_id = ''w'', bk_state_id = i,
     bk_checksum = ''sum'', bk_kind = kind, bk_size_bytes = bytes, bk_created_at = Some t \<rparr>)"

definition full_archive :: archive where
  "full_archive = (empty_archive [])\<lparr> am_backups := [aged_backup ''b2'' AUTOMATIC 30 2,
     aged_backup ''m1'' MANUAL 50 0, aged_backup ''b1'' AUTOMATIC 20 1, aged_backup ''b3'' AUTOMATIC 40 3] \<rparr>"

text \<open>The World of these Backups; only its identifier and its status matter.\<close>

definition backed_up_world :: world where
  "backed_up_world = \<lparr> wd_id = ''w'', wd_account_id = ''acc'', wd_name = ''Isle'',
     wd_game_template_id = ''palworld:1'', wd_region = ''br'', wd_runtime_profile_id = ''small'',
     wd_status = SLEEPING, wd_runtime_id = None, wd_runtime_reference = None,
     wd_configuration_revision_id = ''w0'', wd_pending_configuration_revision_id = None,
     wd_stored_state_id = None, wd_stored_state_checksum = None, wd_version = 1,
     wd_session_quote_id = None, wd_usage_reservation_id = None, wd_runtime_started_at = None,
     wd_empty_since = None, wd_deletion_scheduled_for = None, wd_final_backup_id = None,
     wd_applied_data_operations = [], wd_auto_sleep_minutes = None \<rparr>"

lemma pruning_frees_just_enough_witness:
  "let (pruned, a') = prune_oldest_automatic ''acc'' [backed_up_world] 45 full_archive
   in map bk_id pruned = [''b1'', ''b2''] \<and> map fst (am_backups a') = [''m1'', ''b3'']
     \<and> storage_usage a' ''acc'' [backed_up_world] = storage_usage full_archive ''acc'' [backed_up_world] - 50"
proof -
  obtain pruned a' where run: "prune_oldest_automatic ''acc'' [backed_up_world] 45 full_archive = (pruned, a')"
    by fastforce
  have "keyed full_archive" by (simp add: keyed_def full_archive_def aged_backup_def)
  from pruning_frees_just_enough [OF this run]
  have "storage_usage a' ''acc'' [backed_up_world] = storage_usage full_archive ''acc'' [backed_up_world]
      - sum_list (map bk_size_bytes pruned)" by blast
  moreover have "(\<lambda>(bs, b). (map bk_id bs, map fst (am_backups b), sum_list (map bk_size_bytes bs)))
      (prune_oldest_automatic ''acc'' [backed_up_world] 45 full_archive) = ([''b1'', ''b2''], [''m1'', ''b3''], 50)"
    by code_simp
  ultimately show ?thesis by (simp add: run)
qed

section \<open>The grace period\<close>

text \<open>
  A run of evaluations of one Account's storage, each with whatever Worlds and archive there are at
  its time. What an evaluation saw and when is recorded: the usage it measured first, whether the
  Wallet could fund it, the time, and the status it stored.
\<close>

record evaluation =
  ev_used :: int
  ev_funded :: bool
  ev_at :: instant
  ev_status :: storage_status


inductive evaluations :: "storage_policy \<Rightarrow> string \<Rightarrow> evaluation list \<Rightarrow> storage_repository \<Rightarrow> bool"
  for p :: storage_policy and acc :: string where
  none: "evaluations p acc [] empty_storage"
| one_more: "evaluations p acc es (sy_repository s) \<Longrightarrow> st_policy (env :: archive storage_env) = p \<Longrightarrow>
     (\<And>k t. st_rival env k t = t) \<Longrightarrow>
     sa_usage (st_archive env) acc (list_worlds_of (sy_worlds s) acc) (sy_archive s) = Inr used \<Longrightarrow>
     evaluate env acc funded at_time s = (Inr status, s') \<Longrightarrow>
     evaluations p acc (es @ [\<lparr> ev_used = used, ev_funded = funded, ev_at = at_time, ev_status = status \<rparr>])
       (sy_repository s')"

lemma grace_get_updates [simp]:
  "grace_get (status_save u r) i = grace_get r i"
  "grace_get (r\<lparr> sr_states := dict_set i g (sr_states r) \<rparr>) i = Some g"
  "grace_get (r\<lparr> sr_states := dict_del i (sr_states r) \<rparr>) i = None"
  by (simp_all add: grace_get_def status_save_def delete_conv')

















end
