(* ===== verification/RuntimeProperties.thy ===== *)
theory RuntimeProperties
  imports WorldProviders BalanceGuard BillingProperties
begin

text \<open>
  \<open>billing/runtime.py\<close>: \<open>BillingRuntimeUsageRecorder\<close>, the worker's usage recorder over Billing.
  It watches the balance of a running session, releases the reservation of a wake that never had
  a Runtime, and settles a session whose Runtime was released. Two calls to Billing need two
  environments of identifiers; other clients run between them.
\<close>

record runtime_env =
  re_usage :: billing_env
  re_guarantee :: billing_env

definition runtime_protect ::
    "billing_env \<Rightarrow> world \<Rightarrow> instant \<Rightarrow> billing_store \<Rightarrow> bool option result \<times> billing_store" where
  "runtime_protect env w observed_at st =
     (case (wd_session_quote_id w, wd_usage_reservation_id w, wd_runtime_started_at w) of
        (Some quote_id, Some reservation_id, Some started) \<Rightarrow>
          and_then (protect_active_session env (wd_account_id w) quote_id reservation_id started
              observed_at (5 * 60) 60 st)
            (\<lambda>d s. (Inr (Some (bd_should_sleep d)), s))
      | _ \<Rightarrow> (Inr None, st))"

definition runtime_cancel ::
    "billing_env \<Rightarrow> world_operation \<Rightarrow> billing_store \<Rightarrow> usage_reservation option result \<times> billing_store" where
  "runtime_cancel env x st =
     (case wo_usage_reservation_id x of
        None \<Rightarrow> (Inr None, st)
      | Some reservation_id \<Rightarrow>
          and_then (release_reservation env (wo_account_id x) reservation_id st) (\<lambda>r s. (Inr (Some r), s)))"

definition usage_key :: "world_operation \<Rightarrow> string" where
  "usage_key x = ''operation:'' @ wo_id x @ '':runtime-usage''"

definition guarantee_key :: "world_operation \<Rightarrow> string" where
  "guarantee_key x = ''operation:'' @ wo_id x @ '':wake-guarantee''"

definition runtime_release ::
    "runtime_env \<Rightarrow> world_operation \<Rightarrow> instant \<Rightarrow> bool \<Rightarrow> billing_store
     \<Rightarrow> runtime_usage result \<times> billing_store" where
  "runtime_release env x released_at reached_online st =
     (case (wo_session_quote_id x, wo_usage_reservation_id x, wo_runtime_started_at x) of
        (Some quote_id, Some reservation_id, Some started) \<Rightarrow>
          and_then (capture_runtime_usage (re_usage env) (wo_account_id x) quote_id reservation_id
              started released_at (usage_key x) st)
            (\<lambda>u s. if reached_online then (Inr u, s)
              else and_then (apply_wake_guarantee (re_guarantee env) (wo_account_id x) (ru_id u) False
                  (guarantee_key x) (be_rival (re_guarantee env) 200 s))
                (\<lambda>_ s'. (Inr u, s')))
      | _ \<Rightarrow> (Inl (RuntimeError ''Runtime operation does not have a complete billing session''), st))"

text \<open>The recorder as the worker sees it, which drops the values it does not use.\<close>

definition billing_recorder :: "runtime_env \<Rightarrow> billing_store usage_recorder" where
  "billing_recorder env =
     \<lparr> ur_protect = runtime_protect (re_usage env),
       ur_cancel = (\<lambda>x st. and_then (runtime_cancel (re_usage env) x st) (\<lambda>_ s. (Inr (), s))),
       ur_record_release = (\<lambda>x t online st.
         and_then (runtime_release env x t online st) (\<lambda>_ s. (Inr (), s))) \<rparr>"

section \<open>What it promises\<close>


text \<open>
  What the worker's usage recorder promises (ADR 0007): a session whose Runtime was released is
  charged once, on a reservation that it closes, and a wake that never came online costs nothing.
\<close>

section \<open>The two calls\<close>

text \<open>The entries of a session in the ledger: its charge, and the wake guarantee that gives it back.\<close>

definition session_total :: "wallet_snapshot \<Rightarrow> runtime_usage \<Rightarrow> money" where
  "session_total w u = sum_list (map le_amount (filter (\<lambda>e. le_id e = ru_ledger_entry_id u
     \<or> le_entry_type e = WAKE_GUARANTEE \<and> le_reference e = ru_id u) (ws_entries w)))"

lemma usage_recorded:
  assumes st: "store_ok U st" and env: "env_ok U env"
    and run: "capture_runtime_usage env acc qid k t1 t2 key st = (Inr u, st')"
  shows "u \<in> set (ws_usages (repo_get st' acc)) \<and> ru_idempotency_key u = key"
proof -
  let ?body = "capture_runtime_usage_attempt env acc qid k t1 t2 (max 60 (ceil_seconds (t2 - t1))) key"
  have loop: "billing_retry env 0 acc ?body ''could not record Runtime Usage after retries'' st = (Inr u, st')"
    using run by (auto simp: capture_runtime_usage_def Let_def split: if_splits)
  show ?thesis
  proof (rule billing_outcome [OF keeps_runtime st env_okD [OF env] loop])
    fix a j assume a: "Inr u = Inr a" and b: "?body j (repo_get st' acc) = Return a"
    from b have "find (\<lambda>u. ru_idempotency_key u = key) (ws_usages (repo_get st' acc)) = Some a"
      by (auto simp: capture_runtime_usage_attempt_def Let_def split: body_splits)
    with a show ?thesis by (auto dest: find_Some_iff_mem)
  next
    fix a j w' s1 assume a: "Inr u = Inr a" and b: "?body j (repo_get s1 acc) = Commit w' a"
      and w': "repo_get st' acc = w'\<lparr>ws_version := ws_version (repo_get s1 acc) + 1\<rparr>"
    from b show ?thesis by (elim runtime_commitE) (use a w' in simp)
  qed simp_all
qed

lemma sum_filter_disjoint:
  "(\<And>x. x \<in> set xs \<Longrightarrow> \<not> (P x \<and> Q x)) \<Longrightarrow>
     sum_list (map f (filter (\<lambda>x. P x \<or> Q x) xs))
       = sum_list (map f (filter P xs)) + (sum_list (map f (filter Q xs)) :: int)"
  by (induction xs) auto

text \<open>An accounted usage costs its charge, or nothing once the guarantee is in the ledger.\<close>

lemma accounted_session:
  assumes ok: "wallet_ok w" and acc: "accounted w" and u: "u \<in> set (ws_usages w)"
  shows "session_total w u = (if wake_entries w (ru_id u) = [] then - ru_amount u else 0)"
proof -
  let ?charge = "\<lambda>e. le_id e = ru_ledger_entry_id u"
  let ?refund = "\<lambda>e. le_entry_type e = WAKE_GUARANTEE \<and> le_reference e = ru_id u"
  obtain c where c: "c \<in> set (ws_entries w)" "?charge c" "le_entry_type c = RUNTIME_CHARGE" "le_amount c = - ru_amount u"
    using acc u unfolding accounted_def accounts_def by blast
  have d: "distinct (map le_id (ws_entries w))" "distinct (map ru_id (ws_usages w))"
    using ok by (simp_all add: wallet_ok_def ids_ok_def)
  have single: "filter ?charge (ws_entries w) = [c]" by (rule distinct_map_filter_single [OF d(1) c(1,2)])
  then have "set (filter ?charge (ws_entries w)) = {c}" by simp
  then have only: "e = c" if "e \<in> set (ws_entries w)" "?charge e" for e using that by auto
  have "session_total w u = le_amount c + sum_list (map le_amount (wake_entries w (ru_id u)))"
    unfolding session_total_def wake_entries_def using c(3) only
    by (subst sum_filter_disjoint) (auto simp: single)
  moreover have "sum_list (map le_amount (wake_entries w (ru_id u))) = ru_amount u"
    if given: "wake_entries w (ru_id u) \<noteq> []"
  proof -
    obtain e where e: "e \<in> set (wake_entries w (ru_id u))" using given by (meson last_in_set)
    then have "e \<in> set (wake_guarantees (ws_entries w))" "le_reference e = ru_id u"
      by (auto simp: wake_entries_def wake_guarantees_def)
    then obtain v where "v \<in> set (ws_usages w)" "ru_id v = ru_id u" "ru_amount v = le_amount e"
      using acc unfolding accounted_def accounts_def by metis
    with d(2) u have "le_amount e = ru_amount u" by (auto simp: distinct_map inj_on_def)
    with wake_entries_single [OF ok e] show ?thesis by simp
  qed
  ultimately show ?thesis using c(4) by simp
qed

section \<open>A release is settled once\<close>

lemma protect_none: "wd_usage_reservation_id w = None \<Longrightarrow> runtime_protect env w t st = (Inr None, st)"
  by (auto simp: runtime_protect_def split: option.splits)

lemma runtime_releaseE:
  assumes "runtime_release env x t online st = (Inr u, st')"
  obtains q r t1 s where "wo_session_quote_id x = Some q" "wo_usage_reservation_id x = Some r"
    "wo_runtime_started_at x = Some t1"
    "capture_runtime_usage (re_usage env) (wo_account_id x) q r t1 t (usage_key x) st = (Inr u, s)"
    "online \<Longrightarrow> st' = s"
    "\<not> online \<Longrightarrow> \<exists>e. apply_wake_guarantee (re_guarantee env) (wo_account_id x) (ru_id u) False (guarantee_key x)
       (be_rival (re_guarantee env) 200 s) = (Inr e, st')"
  using assms
  by (auto simp: runtime_release_def and_then_success split: option.splits if_splits)

text \<open>Where a usage is in the books: accounted, and given back when its World did not come online.\<close>

definition settled :: "bool \<Rightarrow> runtime_usage \<Rightarrow> wallet_snapshot \<Rightarrow> bool" where
  "settled online u w \<longleftrightarrow> accounted w \<and> u \<in> set (ws_usages w)
     \<and> (\<not> online \<longrightarrow> wake_entries w (ru_id u) \<noteq> [])"

lemma evolves_settled:
  assumes "evolves w w'" and "accounted w" and "u \<in> set (ws_usages w)"
  shows "accounted w' \<and> u \<in> set (ws_usages w')"
  using assms by (auto simp: evolves_def extends_def)

lemma release_settled:
  assumes st: "store_ok U st" and charge: "env_ok U (re_usage env)" "rivals_evolve (re_usage env)"
    and guarantee: "env_ok (U \<union> uuids (re_usage env)) (re_guarantee env)" "rivals_evolve (re_guarantee env)"
    and acc: "accounted (repo_get st (wo_account_id x))"
    and run: "runtime_release env x t online st = (Inr u, st')"
  shows "settled online u (repo_get st' (wo_account_id x)) \<and> ru_idempotency_key u = usage_key x
    \<and> store_ok (U \<union> uuids (re_usage env) \<union> uuids (re_guarantee env)) st'"
proof (rule runtime_releaseE [OF run])
  fix q r t1 s
  let ?a = "wo_account_id x" and ?V = "U \<union> uuids (re_usage env)"
  assume cap: "capture_runtime_usage (re_usage env) ?a q r t1 t (usage_key x) st = (Inr u, s)"
    and online: "online \<Longrightarrow> st' = s"
    and failed: "\<not> online \<Longrightarrow> \<exists>e. apply_wake_guarantee (re_guarantee env) ?a (ru_id u) False (guarantee_key x)
       (be_rival (re_guarantee env) 200 s) = (Inr e, st')"
  have s: "store_ok ?V s" using capture_runtime_usage_ok [OF st charge(1), of ?a q r t1 t "usage_key x"] cap by simp
  have u: "u \<in> set (ws_usages (repo_get s ?a))" "ru_idempotency_key u = usage_key x"
    using usage_recorded [OF st charge(1) cap] by simp_all
  have "store_evolves st s"
    using run_call_evolves [OF st charge, of "Capture_runtime_usage ?a q r t1 t (usage_key x)"] cap by simp
  then have acc_s: "accounted (repo_get s ?a)" using acc by (auto simp: store_evolves_def evolves_def)
  show ?thesis
  proof (cases online)
    case True
    with online u acc_s s show ?thesis by (auto simp: settled_def intro: store_ok_widen)
  next
    case False
    let ?s = "be_rival (re_guarantee env) 200 s"
    from failed [OF False] obtain e where refund_run: "apply_wake_guarantee (re_guarantee env) ?a (ru_id u) False
        (guarantee_key x) ?s = (Inr e, st')" by blast
    have ok: "store_ok ?V ?s" by (rule rival_store_ok [OF env_okD [OF guarantee(1)] s])
    have "store_evolves s ?s" by (rule store_evolves_rival [OF guarantee(2)])
    moreover have "store_evolves ?s st'"
      using run_call_evolves [OF ok guarantee, of "Apply_wake_guarantee ?a (ru_id u) False (guarantee_key x)"] refund_run
      by simp
    ultimately have "evolves (repo_get s ?a) (repo_get st' ?a)"
      using store_evolves_trans unfolding store_evolves_def by blast
    from evolves_settled [OF this acc_s u(1)] have "accounted (repo_get st' ?a)" "u \<in> set (ws_usages (repo_get st' ?a))"
      by simp_all
    moreover have "wake_entries (repo_get st' ?a) (ru_id u) \<noteq> []"
      using wake_guarantee_recorded [OF ok guarantee(1) refund_run] by auto
    moreover have "store_ok (?V \<union> uuids (re_guarantee env)) st'"
      using apply_wake_guarantee_ok [OF ok guarantee(1), of ?a "ru_id u" False "guarantee_key x"] refund_run by simp
    ultimately show ?thesis using u(2) by (simp add: settled_def)
  qed
qed

text \<open>A settled release is only read again.\<close>

lemma usage_by_key:
  assumes "accounted w" and "u \<in> set (ws_usages w)"
  shows "find (\<lambda>v. ru_idempotency_key v = ru_idempotency_key u) (ws_usages w) = Some u"
  by (rule find_unique) (use assms in \<open>simp_all add: accounted_def accounts_def\<close>)

lemma settled_replay:
  assumes st: "store_ok U st" and s: "settled online u (repo_get st (wo_account_id x))"
    and key: "ru_idempotency_key u = usage_key x"
    and session: "wo_session_quote_id x = Some q" "wo_usage_reservation_id x = Some r"
      "wo_runtime_started_at x = Some t1" "t1 \<le> t"
    and calm: "\<And>n b. be_rival (re_usage env) n b = b" "\<And>n b. be_rival (re_guarantee env) n b = b"
  shows "runtime_release env x t online st = (Inr u, st)"
proof -
  let ?a = "wo_account_id x"
  have acc: "accounted (repo_get st ?a)" and u: "u \<in> set (ws_usages (repo_get st ?a))"
    using s by (simp_all add: settled_def)
  have "find (\<lambda>v. ru_idempotency_key v = usage_key x) (ws_usages (repo_get st ?a)) = Some u"
    using usage_by_key [OF acc u] key by simp
  then have cap: "capture_runtime_usage (re_usage env) ?a q r t1 t (usage_key x) st = (Inr u, st)"
    using session(4) by (simp add: capture_runtime_usage_def Let_def calm_retry [OF st keeps_runtime calm(1)]
        capture_runtime_usage_attempt_def)
  show ?thesis
  proof (cases online)
    case True
    then show ?thesis using session cap by (simp add: runtime_release_def)
  next
    case False
    with s obtain e where "e \<in> set (wake_entries (repo_get st ?a) (ru_id u))"
      by (cases "wake_entries (repo_get st ?a) (ru_id u)") (auto simp: settled_def)
    then have "find (\<lambda>e. le_entry_type e = WAKE_GUARANTEE \<and> le_reference e = ru_id u) (ws_entries (repo_get st ?a)) \<noteq> None"
      by (auto simp: wake_entries_def find_None_iff)
    moreover have "distinct (map ru_id (ws_usages (repo_get st ?a)))"
      using store_ok_get(1) [OF st, of ?a] by (simp add: wallet_ok_def ids_ok_def)
    then have "find_usage (repo_get st ?a) (ru_id u) = Some u"
      unfolding find_usage_def using u by (intro find_unique) simp_all
    ultimately have "\<exists>e. apply_wake_guarantee (re_guarantee env) ?a (ru_id u) False (guarantee_key x) st = (Inr e, st)"
      by (auto simp: apply_wake_guarantee_def calm_retry [OF st keeps_wake calm(2)] apply_wake_guarantee_attempt_def)
    then show ?thesis using session cap False by (auto simp: runtime_release_def calm)
  qed
qed

text \<open>
  C34. A released Runtime is settled once (ADR 0007). When \<open>record_release\<close> returns, whoever else
  used the Wallet meanwhile and wherever an earlier try of the same operation stopped, the
  session's reservation is captured for at least the charge, the ledger holds for that session
  its charge or its charge and its refund and nothing else, and for a wake that never came online
  they cancel out: the session costs nothing. Repeating the call, at any later time, returns the
  same usage and writes nothing.
\<close>

theorem released_session_is_settled_once:
  assumes st: "store_ok U st" and charge: "env_ok U (re_usage env)" "rivals_evolve (re_usage env)"
    and guarantee: "env_ok (U \<union> uuids (re_usage env)) (re_guarantee env)" "rivals_evolve (re_guarantee env)"
    and acc: "accounted (repo_get st (wo_account_id x))"
    and run: "runtime_release env x t online st = (Inr u, st')"
  shows "let w = repo_get st' (wo_account_id x) in
      (\<exists>r \<in> set (ws_reservations w). ur_id r = ru_reservation_id u \<and> ur_status r = CAPTURED
         \<and> ru_amount u \<le> ur_amount r)
      \<and> session_total w u \<in> {- ru_amount u, 0} \<and> (\<not> online \<longrightarrow> session_total w u = 0)
      \<and> (\<forall>env' t'. (\<forall>n b. be_rival (re_usage env') n b = b \<and> be_rival (re_guarantee env') n b = b)
           \<and> the (wo_runtime_started_at x) \<le> t' \<longrightarrow> runtime_release env' x t' online st' = (Inr u, st'))"
proof -
  let ?w = "repo_get st' (wo_account_id x)"
  from release_settled [OF st charge guarantee acc run] have s: "settled online u ?w"
    and key: "ru_idempotency_key u = usage_key x"
    and ok: "store_ok (U \<union> uuids (re_usage env) \<union> uuids (re_guarantee env)) st'" by simp_all
  have w: "wallet_ok ?w" using store_ok_get(1) [OF ok] .
  have a: "accounted ?w" "u \<in> set (ws_usages ?w)" using s by (simp_all add: settled_def)
  then have "\<exists>r \<in> set (ws_reservations ?w). ur_id r = ru_reservation_id u \<and> ur_status r = CAPTURED
         \<and> ru_amount u \<le> ur_amount r" unfolding accounted_def accounts_def by blast
  moreover have "session_total ?w u \<in> {- ru_amount u, 0} \<and> (\<not> online \<longrightarrow> session_total ?w u = 0)"
    using accounted_session [OF w a] s by (simp add: settled_def)
  moreover have "runtime_release env' x t' online st' = (Inr u, st')"
    if "\<forall>n b. be_rival (re_usage env') n b = b \<and> be_rival (re_guarantee env') n b = b"
      "the (wo_runtime_started_at x) \<le> t'" for env' t'
    by (rule runtime_releaseE [OF run]) (use that settled_replay [OF ok s key] in auto)
  ultimately show ?thesis by (simp add: Let_def)
qed

text \<open>A wake on the sample session that failed after twelve and a half minutes.\<close>

definition failed_wake :: world_operation where
  "failed_wake = \<lparr> wo_id = ''o1'', wo_account_id = ''acc'', wo_world_id = ''w'', wo_operation_type = WAKE,
     wo_status = OP_RUNNING, wo_phase = CHECKING_GAME_HEALTH, wo_idempotency_key = ''k'', wo_created_at = 0,
     wo_version = 5, wo_runtime_id = Some ''rt'', wo_runtime_reference = Some ''i-1'', wo_force = False,
     wo_stored_state_id = None, wo_stored_state_checksum = None, wo_backup_id = None,
     wo_attempt_number = 1, wo_session_quote_id = Some ''q1'', wo_usage_reservation_id = Some ''r1'',
     wo_runtime_started_at = Some 0 \<rparr>"

definition quiet_runtime :: runtime_env where
  "quiet_runtime = \<lparr> re_usage = quiet_env ''u1'' 9, re_guarantee = quiet_env ''g1'' 9 \<rparr>"

lemma calm_guarantee:
  assumes st: "store_ok U st" and u: "u \<in> set (ws_usages (repo_get st acc))"
    and calm: "\<And>n b. be_rival env n b = b"
  shows "\<exists>e st'. apply_wake_guarantee env acc (ru_id u) False key st = (Inr e, st')"
proof -
  have "distinct (map ru_id (ws_usages (repo_get st acc)))"
    using store_ok_get(1) [OF st, of acc] by (simp add: wallet_ok_def ids_ok_def)
  then have "find_usage (repo_get st acc) (ru_id u) = Some u"
    unfolding find_usage_def using u by (intro find_unique) simp_all
  then show ?thesis
    by (simp add: apply_wake_guarantee_def calm_retry [OF st keeps_wake calm] apply_wake_guarantee_attempt_def
        Let_def split: option.split)
qed

lemma failed_wake_released:
  obtains u st where "runtime_release quiet_runtime failed_wake (seconds 750) False session_store = (Inr u, st)"
    "ru_amount u = 21"
proof (rule session_capture [of "usage_key failed_wake"])
  fix u s
  assume cap: "capture_runtime_usage (quiet_env ''u1'' 9) ''acc'' ''q1'' ''r1'' 0 (seconds 750)
      (usage_key failed_wake) session_store = (Inr u, s)" and u: "ru_amount u = 21"
  have s: "store_ok ({''r1'', ''q1'', ''e1''} \<union> uuids (quiet_env ''u1'' 9)) s"
    using capture_runtime_usage_ok [OF session_ok quiet_env_ok(1), of "''u1''" 9 "''acc''" "''q1''" "''r1''" 0
        "seconds 750" "usage_key failed_wake"] cap by simp
  have "u \<in> set (ws_usages (repo_get s ''acc''))"
    using usage_recorded [OF session_ok quiet_env_ok(1) cap] by simp
  from calm_guarantee [OF s this, of "quiet_env ''g1'' 9" "guarantee_key failed_wake"]
  obtain e st' where "apply_wake_guarantee (quiet_env ''g1'' 9) ''acc'' (ru_id u) False
      (guarantee_key failed_wake) s = (Inr e, st')" by (auto simp: quiet_env_def)
  then have "runtime_release quiet_runtime failed_wake (seconds 750) False session_store = (Inr u, st')"
    using cap by (simp add: runtime_release_def failed_wake_def quiet_runtime_def)
  with u that show thesis by blast
qed

lemma failed_wake_accounted: "accounted (repo_get session_store (wo_account_id failed_wake))"
  by (simp add: failed_wake_def session_get session_wallet_def accounted_def accounts_def wake_guarantees_def)

theorem released_session_is_settled_once_witness:
  "\<exists>u st. runtime_release quiet_runtime failed_wake (seconds 750) False session_store = (Inr u, st)
     \<and> ru_amount u = 21 \<and> session_total (repo_get st (wo_account_id failed_wake)) u = 0"
proof (rule failed_wake_released)
  fix u st
  assume run: "runtime_release quiet_runtime failed_wake (seconds 750) False session_store = (Inr u, st)"
    and u: "ru_amount u = 21"
  have env: "env_ok {''r1'', ''q1'', ''e1''} (re_usage quiet_runtime)" "rivals_evolve (re_usage quiet_runtime)"
    "env_ok ({''r1'', ''q1'', ''e1''} \<union> uuids (re_usage quiet_runtime)) (re_guarantee quiet_runtime)"
    "rivals_evolve (re_guarantee quiet_runtime)"
    by (simp_all add: quiet_runtime_def quiet_env_ok quiet_env_evolves)
  from released_session_is_settled_once [OF session_ok env failed_wake_accounted run] run u
  show ?thesis by (auto simp: Let_def)
qed

end
