(* ===== verification/JsonText.thy ===== *)
theory JsonText
  imports DecimalText Urls
begin

text \<open>
  \<open>json.dumps\<close> without indentation and \<open>json.loads\<close>, on Python values: strings are sequences of
  8-bit characters, floats are written by \<open>repr\<close> and read by \<open>float\<close>, integers are limited to 4300
  digits. Reading what was written gives the value back.
\<close>

section \<open>Writing\<close>

definition hex4 :: "nat \<Rightarrow> string" where
  "hex4 n = ''00'' @ map (\<lambda>d. ''0123456789abcdef'' ! d) [n div 16 mod 16, n mod 16]"

text \<open>The escapes of \<open>py_encode_basestring_ascii\<close> and, without \<open>ensure_ascii\<close>, \<open>py_encode_basestring\<close>.\<close>

definition escape_char :: "bool \<Rightarrow> char \<Rightarrow> string" where
  "escape_char ascii c =
     (if c \<in> {CHR 0x22, CHR 0x5C} then [CHR 0x5C, c]
      else if c = CHR 0x08 then [CHR 0x5C, CHR ''b'']
      else if c = CHR 0x0C then [CHR 0x5C, CHR ''f'']
      else if c = CHR 0x0A then [CHR 0x5C, CHR ''n'']
      else if c = CHR 0x0D then [CHR 0x5C, CHR ''r'']
      else if c = CHR 0x09 then [CHR 0x5C, CHR ''t'']
      else if of_char c < (32 :: nat) \<or> ascii \<and> 127 \<le> (of_char c :: nat)
      then CHR 0x5C # CHR ''u'' # hex4 (of_char c)
      else [c])"

definition string_text :: "bool \<Rightarrow> string \<Rightarrow> string" where
  "string_text ascii s = CHR 0x22 # concat (map (escape_char ascii) s) @ [CHR 0x22]"

text \<open>
  \<open>float.__repr__\<close>: the shortest digits that read back, in positional notation for exponents from
  -4 to 15 and in scientific notation otherwise.
\<close>

definition float_text :: "py_float \<Rightarrow> string" where
  "float_text x = (case decimal_of_float x of
      DInf neg \<Rightarrow> (if neg then ''-'' else []) @ ''Infinity''
    | Dec c k \<Rightarrow>
        (if c = 0 then ''0.0''
         else (let ds = show_nat (nat \<bar>c\<bar>); point = int (length ds) + k;
                   exponent = point - 1
               in (if c < 0 then ''-'' else []) @
                  (if - 4 < point \<and> point \<le> 16
                   then (if point \<le> 0 then ''0.'' @ replicate (nat (- point)) CHR ''0'' @ ds
                         else if k < 0 then take (nat point) ds @ ''.'' @ drop (nat point) ds
                         else ds @ replicate (nat k) CHR ''0'' @ ''.0'')
                   else hd ds # (if tl ds = [] then [] else CHR ''.'' # tl ds) @ ''e'' @
                     (if exponent < 0 then ''-'' else ''+'') @ zero_pad 2 (nat \<bar>exponent\<bar>))))
    | _ \<Rightarrow> ''NaN'')"

text \<open>\<open>sp\<close> follows the separators: nothing in compact form, a space by default.\<close>

fun json_text :: "bool \<Rightarrow> string \<Rightarrow> py_value \<Rightarrow> string" and items_text :: "bool \<Rightarrow> string \<Rightarrow> py_value list \<Rightarrow> string"
  and members_text :: "bool \<Rightarrow> string \<Rightarrow> (string \<times> py_value) list \<Rightarrow> string" where
  "json_text ascii sp VNone = ''null''"
| "json_text ascii sp (VBool b) = (if b then ''true'' else ''false'')"
| "json_text ascii sp (VInt n) = show_int n"
| "json_text ascii sp (VFloat x) = float_text x"
| "json_text ascii sp (VStr s) = string_text ascii s"
| "json_text ascii sp (VList vs) = ''['' @ items_text ascii sp vs @ '']''"
| "json_text ascii sp (VDict d) = ''{'' @ members_text ascii sp d @ ''}''"
| "items_text ascii sp [] = []"
| "items_text ascii sp [v] = json_text ascii sp v"
| "items_text ascii sp (v # vs) = json_text ascii sp v @ '','' @ sp @ items_text ascii sp vs"
| "members_text ascii sp [] = []"
| "members_text ascii sp [(k, v)] = string_text ascii k @ '':'' @ sp @ json_text ascii sp v"
| "members_text ascii sp ((k, v) # d) = string_text ascii k @ '':'' @ sp @ json_text ascii sp v @ '','' @ sp @ members_text ascii sp d"

text \<open>\<open>sort_keys=True\<close>.\<close>

fun sort_keys :: "py_value \<Rightarrow> py_value" where
  "sort_keys (VList vs) = VList (map sort_keys vs)"
| "sort_keys (VDict d) = VDict (sort_key fst (map (\<lambda>(k, v). (k, sort_keys v)) d))"
| "sort_keys v = v"

section \<open>Reading\<close>

definition json_space :: "char \<Rightarrow> bool" where
  "json_space c \<longleftrightarrow> c \<in> {CHR '' '', CHR 0x09, CHR 0x0A, CHR 0x0D}"

abbreviation skip_space :: "string \<Rightarrow> string" where
  "skip_space \<equiv> dropWhile json_space"

definition hex4_value :: "string \<Rightarrow> nat option" where
  "hex4_value s = (case map hex_value s of
      [Some a, Some b, Some c, Some d] \<Rightarrow> Some (nat (((a * 16 + b) * 16 + c) * 16 + d))
    | _ \<Rightarrow> None)"

definition escaped :: "char \<Rightarrow> char option" where
  "escaped e = map_of [(CHR 0x22, CHR 0x22), (CHR 0x5C, CHR 0x5C), (CHR ''/'', CHR ''/''), (CHR ''b'', CHR 0x08),
     (CHR ''f'', CHR 0x0C), (CHR ''n'', CHR 0x0A), (CHR ''r'', CHR 0x0D), (CHR ''t'', CHR 0x09)] e"

text \<open>
  The text up to the closing quote and the rest. A control character, an unknown escape and a
  text that ends are errors; an escaped character beyond 8 bits is outside this model, and counts
  as one.
\<close>

function scan_string :: "string \<Rightarrow> (string \<times> string) option" where
  "scan_string [] = None"
| "scan_string (c # cs) =
     (if c = CHR 0x22 then Some ([], cs)
      else if c \<noteq> CHR 0x5C
      then (if of_char c < (32 :: nat) then None
            else map_option (\<lambda>(s, r). (c # s, r)) (scan_string cs))
      else (case cs of
          [] \<Rightarrow> None
        | e # r \<Rightarrow>
            if e = CHR ''u''
            then (case hex4_value (take 4 r) of
                Some n \<Rightarrow> (if n < 256 then map_option (\<lambda>(s, r'). (char_of n # s, r')) (scan_string (drop 4 r))
                          else None)
              | None \<Rightarrow> None)
            else (case escaped e of
                Some d \<Rightarrow> map_option (\<lambda>(s, r'). (d # s, r')) (scan_string r)
              | None \<Rightarrow> None)))"
  by pat_completeness auto
termination by (relation "measure length") auto

text \<open>\<open>-?(?:0|[1-9]\d*)(\.\d+)?([eE][-+]?\d+)?\<close>: the three parts and the rest.\<close>

definition digits_of :: "string \<Rightarrow> string \<times> string" where
  "digits_of s = (takeWhile is_digit s, dropWhile is_digit s)"

definition scan_whole :: "string \<Rightarrow> (string \<times> string) option" where
  "scan_whole s =
     (let (sign, r) = (if take 1 s = ''-'' then (''-'', drop 1 s) else ([], s))
      in case r of
           [] \<Rightarrow> None
         | c # cs \<Rightarrow> if c = CHR ''0'' then Some (sign @ ''0'', cs)
             else if is_digit c then (case digits_of r of (ds, r') \<Rightarrow> Some (sign @ ds, r'))
             else None)"

definition scan_fraction :: "string \<Rightarrow> string \<times> string" where
  "scan_fraction s = (case s of
      c # r \<Rightarrow> (case digits_of r of (ds, r') \<Rightarrow>
        if c = CHR ''.'' \<and> ds \<noteq> [] then (c # ds, r') else ([], s))
    | [] \<Rightarrow> ([], s))"

definition scan_exponent :: "string \<Rightarrow> string \<times> string" where
  "scan_exponent s = (case s of
      c # r \<Rightarrow>
        (let (sign, r1) = (if take 1 r \<in> {''-'', ''+''} then (take 1 r, drop 1 r) else ([], r));
             (ds, r2) = digits_of r1
         in if c \<in> {CHR ''e'', CHR ''E''} \<and> ds \<noteq> [] then (c # sign @ ds, r2) else ([], s))
    | [] \<Rightarrow> ([], s))"

definition scan_number :: "string \<Rightarrow> (py_value \<times> string) option" where
  "scan_number s = (case scan_whole s of
      None \<Rightarrow> None
    | Some (whole, r1) \<Rightarrow>
        (let (fraction, r2) = scan_fraction r1; (exponent, r3) = scan_exponent r2
         in if fraction = [] \<and> exponent = []
            then map_option (\<lambda>n. (VInt n, r3)) (int_of_text whole)
            else map_option (\<lambda>x. (VFloat x, r3)) (float_of_text (whole @ fraction @ exponent))))"

text \<open>
  \<open>JSONObject\<close>, \<open>JSONArray\<close> and \<open>scan_once\<close>; the first argument bounds the depth of the calls, and
  the length of the text is enough.
\<close>

fun json_value :: "nat \<Rightarrow> string \<Rightarrow> (py_value \<times> string) option"
  and json_items :: "nat \<Rightarrow> string \<Rightarrow> (py_value list \<times> string) option"
  and json_members :: "nat \<Rightarrow> string \<Rightarrow> ((string \<times> py_value) list \<times> string) option" where
  "json_value 0 s = None"
| "json_value (Suc n) s =
     (case s of
        [] \<Rightarrow> None
      | c # cs \<Rightarrow>
          if c = CHR 0x22 then map_option (\<lambda>(t, r). (VStr t, r)) (scan_string cs)
          else if c = CHR 0x7B
          then (case skip_space cs of
              [] \<Rightarrow> None
            | d # r \<Rightarrow> if d = CHR 0x7D then Some (VDict [], r)
                else map_option (\<lambda>(m, r'). (VDict (foldl (\<lambda>d (k, v). dict_set k v d) [] m), r'))
                  (json_members n (d # r)))
          else if c = CHR 0x5B
          then (case skip_space cs of
              [] \<Rightarrow> None
            | d # r \<Rightarrow> if d = CHR 0x5D then Some (VList [], r)
                else map_option (\<lambda>(vs, r'). (VList vs, r')) (json_items n (d # r)))
          else if starts_with ''null'' s then Some (VNone, drop 4 s)
          else if starts_with ''true'' s then Some (VBool True, drop 4 s)
          else if starts_with ''false'' s then Some (VBool False, drop 5 s)
          else if starts_with ''NaN'' s then Some (VFloat NaN, drop 3 s)
          else if starts_with ''Infinity'' s then Some (VFloat (FInf False), drop 8 s)
          else if starts_with ''-Infinity'' s then Some (VFloat (FInf True), drop 9 s)
          else scan_number s)"
| "json_items 0 s = None"
| "json_items (Suc n) s =
     (case json_value n s of
        None \<Rightarrow> None
      | Some (v, r) \<Rightarrow> (case skip_space r of
          [] \<Rightarrow> None
        | c # r' \<Rightarrow> if c = CHR 0x5D then Some ([v], r')
            else if c = CHR '','' then map_option (\<lambda>(vs, r''). (v # vs, r'')) (json_items n (skip_space r'))
            else None))"
| "json_members 0 s = None"
| "json_members (Suc n) s =
     (case s of
        [] \<Rightarrow> None
      | c # cs \<Rightarrow>
          if c \<noteq> CHR 0x22 then None
          else (case scan_string cs of
              None \<Rightarrow> None
            | Some (k, r) \<Rightarrow> (case skip_space r of
                [] \<Rightarrow> None
              | c # r1 \<Rightarrow>
                  if c \<noteq> CHR '':'' then None
                  else (case json_value n (skip_space r1) of
                      None \<Rightarrow> None
                    | Some (v, r2) \<Rightarrow> (case skip_space r2 of
                        [] \<Rightarrow> None
                      | c # r3 \<Rightarrow> if c = CHR 0x7D then Some ([(k, v)], r3)
                          else if c = CHR '','' then map_option (\<lambda>(m, r4). ((k, v) # m, r4))
                            (json_members n (skip_space r3))
                          else None)))))"

definition json_loads :: "string \<Rightarrow> py_value option" where
  "json_loads s = (case json_value (Suc (length s)) (skip_space s) of
      Some (v, r) \<Rightarrow> (if skip_space r = [] then Some v else None)
    | None \<Rightarrow> None)"

end
