(* ===== verification/Session.thy ===== *)
theory Session
  imports JsonText Effects
begin

text \<open>
  \<open>auth/session.py\<close>: sessions as JSON claims authenticated by an HMAC key that never leaves AWS KMS.
  The key service is a parameter: what \<open>generate_mac\<close> and \<open>verify_mac\<close> answer, or the exception of
  its client. Bytes are 8-bit characters.
\<close>

section \<open>Bytes and text\<close>

text \<open>\<open>base64.urlsafe_b64encode(value).rstrip(b"=")\<close>.\<close>

definition b64_letters :: string where
  "b64_letters = ''ABCDEFGHIJKLMNOPQRSTUVWXYZabcdefghijklmnopqrstuvwxyz0123456789-_''"

definition b64_char :: "nat \<Rightarrow> char" where
  "b64_char n = b64_letters ! n"

fun b64_encode :: "string \<Rightarrow> string" where
  "b64_encode [] = []"
| "b64_encode [x] = (let a = of_char x in map b64_char [a div 4, (a mod 4) * 16])"
| "b64_encode [x, y] = (let a = of_char x; b = of_char y
     in map b64_char [a div 4, (a mod 4) * 16 + b div 16, (b mod 16) * 4])"
| "b64_encode (x # y # z # bs) = (let a = of_char x; b = of_char y; c = of_char z
     in map b64_char [a div 4, (a mod 4) * 16 + b div 16, (b mod 16) * 4 + c div 64, c mod 64] @ b64_encode bs)"

text \<open>
  \<open>base64.urlsafe_b64decode\<close>: both alphabets are read, characters of neither are skipped, and
  enough padding ends the input. The state is the position in the group of four, the bits left
  over and the padding seen.
\<close>

definition b64_value :: "char \<Rightarrow> nat option" where
  "b64_value c = (let n = of_char c :: nat in
     if 65 \<le> n \<and> n \<le> 90 then Some (n - 65)
     else if 97 \<le> n \<and> n \<le> 122 then Some (n - 71)
     else if 48 \<le> n \<and> n \<le> 57 then Some (n + 4)
     else if n \<in> {43, 45} then Some 62
     else if n \<in> {47, 95} then Some 63 else None)"

fun b64_scan :: "nat \<Rightarrow> nat \<Rightarrow> nat \<Rightarrow> string \<Rightarrow> string option" where
  "b64_scan pos left pads [] = (if pos = 0 then Some [] else None)"
| "b64_scan pos left pads (c # cs) =
     (if c = CHR ''=''
      then (if pos < 2 then b64_scan pos left pads cs
            else if 4 \<le> pos + pads + 1 then Some [] else b64_scan pos left (pads + 1) cs)
      else (case b64_value c of
          None \<Rightarrow> b64_scan pos left pads cs
        | Some v \<Rightarrow>
            if pos = 0 then b64_scan 1 v 0 cs
            else if pos = 1 then map_option (Cons (char_of (left * 4 + v div 16))) (b64_scan 2 (v mod 16) 0 cs)
            else if pos = 2 then map_option (Cons (char_of (left * 16 + v div 4))) (b64_scan 3 (v mod 4) 0 cs)
            else map_option (Cons (char_of (left * 64 + v))) (b64_scan 0 0 0 cs)))"

definition is_ascii :: "string \<Rightarrow> bool" where
  "is_ascii s \<longleftrightarrow> (\<forall>c \<in> set s. of_char c < (128 :: nat))"

definition b64_decode :: "string \<Rightarrow> string result" where
  "b64_decode s =
     (if \<not> is_ascii s then Inl (ValueError ''string argument should contain only ASCII characters'')
      else (case b64_scan 0 0 0 (s @ replicate (nat ((- int (length s)) mod 4)) CHR ''='') of
          None \<Rightarrow> Inl (ValueError ''Invalid base64-encoded string'')
        | Some bs \<Rightarrow> Inr bs))"

text \<open>\<open>str.encode()\<close> and \<open>bytes.decode()\<close> for characters of at most 8 bits.\<close>

definition utf8_char :: "char \<Rightarrow> string" where
  "utf8_char c = (let n = of_char c :: nat in
     if n < 128 then [c] else [char_of (192 + n div 64), char_of (128 + n mod 64)])"

definition utf8_encode :: "string \<Rightarrow> string" where
  "utf8_encode s = concat (map utf8_char s)"

fun utf8_decode :: "string \<Rightarrow> string result" where
  "utf8_decode [] = Inr []"
| "utf8_decode [c] = (if of_char c < (128 :: nat) then Inr [c] else Inl (ValueError ''unexpected end of data''))"
| "utf8_decode (c # d # cs) =
     (let n = of_char c :: nat; m = of_char d :: nat in
      if n < 128 then map_sum id (Cons c) (utf8_decode (d # cs))
      else if n \<in> {194, 195} \<and> 128 \<le> m \<and> m < 192
      then map_sum id (Cons (char_of ((n - 192) * 64 + (m - 128)))) (utf8_decode cs)
      else Inl (ValueError ''invalid start byte''))"

section \<open>Python conversions\<close>

text \<open>The classes below \<open>ValueError\<close>.\<close>

definition is_value_error :: "py_error \<Rightarrow> bool" where
  "is_value_error e = (case e of
      ValueError _ \<Rightarrow> True | InsufficientFundsError _ \<Rightarrow> True | WorldBudgetExceeded _ \<Rightarrow> True
    | LastOwnerRemovalError _ \<Rightarrow> True | DiscordGuildAlreadyLinkedError _ \<Rightarrow> True
    | ExistingMembershipInvitationError _ \<Rightarrow> True | StorageBlockedError _ \<Rightarrow> True
    | SettingsValidationError _ \<Rightarrow> True | GameConfigurationError _ \<Rightarrow> True | InvalidSession _ \<Rightarrow> True
    | InvalidWebhookSignature _ \<Rightarrow> True | InvalidWebhookPayload _ \<Rightarrow> True
    | SignatureValidationError _ \<Rightarrow> True | _ \<Rightarrow> False)"

definition is_lookup_error :: "py_error \<Rightarrow> bool" where
  "is_lookup_error e = (is_value_error e \<or> (case e of KeyError _ \<Rightarrow> True | TypeError _ \<Rightarrow> True | _ \<Rightarrow> False))"

text \<open>\<open>bool(value)\<close>, \<open>int(value)\<close> and \<open>str(value)\<close> of a JSON value.\<close>

definition py_true :: "py_value \<Rightarrow> bool" where
  "py_true v = (case v of VNone \<Rightarrow> False | VBool b \<Rightarrow> b | VInt n \<Rightarrow> n \<noteq> 0
     | VFloat x \<Rightarrow> (case x of Flt m _ \<Rightarrow> m \<noteq> 0 | _ \<Rightarrow> True)
     | VStr s \<Rightarrow> s \<noteq> [] | VList vs \<Rightarrow> vs \<noteq> [] | VDict d \<Rightarrow> d \<noteq> [])"

definition py_int :: "py_value \<Rightarrow> int result" where
  "py_int v = (case v of
      VInt n \<Rightarrow> Inr n
    | VBool b \<Rightarrow> Inr (if b then 1 else 0)
    | VFloat x \<Rightarrow> (case x of
          Flt m e \<Rightarrow> Inr (if 0 \<le> e then m * 2 ^ nat e else sgn m * (\<bar>m\<bar> div 2 ^ nat (- e)))
        | FInf _ \<Rightarrow> Inl (OverflowError ''cannot convert float infinity to integer'')
        | NaN \<Rightarrow> Inl (ValueError ''cannot convert float NaN to integer''))
    | VStr s \<Rightarrow> (case int_of_text s of Some n \<Rightarrow> Inr n
        | None \<Rightarrow> Inl (ValueError ''invalid literal for int() with base 10''))
    | _ \<Rightarrow> Inl (TypeError ''int() argument must be a string or a real number''))"

text \<open>\<open>repr\<close> of a string of printable characters: the other quote is taken when the first occurs.\<close>

definition repr_string :: "string \<Rightarrow> string" where
  "repr_string s =
     (let q = (if CHR 0x27 \<in> set s \<and> CHR 0x22 \<notin> set s then CHR 0x22 else CHR 0x27);
          hex = (\<lambda>n. [''0123456789abcdef'' ! (n div 16), ''0123456789abcdef'' ! (n mod 16)])
      in [q] @ concat (map (\<lambda>c.
           if c = q \<or> c = CHR 0x5C then [CHR 0x5C, c]
           else if c = CHR 0x0A then [CHR 0x5C, CHR ''n'']
           else if c = CHR 0x0D then [CHR 0x5C, CHR ''r'']
           else if c = CHR 0x09 then [CHR 0x5C, CHR ''t'']
           else if of_char c < (32 :: nat) \<or> (127 \<le> (of_char c :: nat) \<and> (of_char c :: nat) \<le> 160) \<or> of_char c = (173 :: nat)
           then [CHR 0x5C, CHR ''x''] @ hex (of_char c)
           else [c]) s) @ [q])"

fun py_repr :: "py_value \<Rightarrow> string" where
  "py_repr VNone = ''None''"
| "py_repr (VBool b) = (if b then ''True'' else ''False'')"
| "py_repr (VInt n) = show_int n"
| "py_repr (VFloat x) = (case x of FInf neg \<Rightarrow> (if neg then ''-inf'' else ''inf'') | NaN \<Rightarrow> ''nan'' | _ \<Rightarrow> float_text x)"
| "py_repr (VStr s) = repr_string s"
| "py_repr (VList vs) = ''['' @ join_comma (map py_repr vs) @ '']''"
| "py_repr (VDict d) = ''{'' @ join_comma (map (\<lambda>(k, v). repr_string k @ '': '' @ py_repr v) d) @ ''}''"

definition py_str :: "py_value \<Rightarrow> string" where
  "py_str v = (case v of VStr s \<Rightarrow> s | _ \<Rightarrow> py_repr v)"

text \<open>\<open>int(t.timestamp())\<close> and \<open>datetime.fromtimestamp(n, tz=UTC)\<close>, from the year 1 to the year 9999.\<close>

definition unix_seconds :: "instant \<Rightarrow> int" where
  "unix_seconds t = sgn t * (\<bar>t\<bar> div 1000000)"

definition from_timestamp :: "int \<Rightarrow> instant result" where
  "from_timestamp n =
     (if n < - (2 ^ 63) \<or> 2 ^ 63 \<le> n then Inl (OverflowError ''timestamp out of range for platform time_t'')
      else if n < - 67768040609740800 \<or> 67768036191676799 < n
      then Inl (OSError ''Value too large for defined data type'')
      else if n < - 62135596800 \<or> 253402300799 < n then Inl (ValueError ''year is out of range'')
      else Inr (seconds n))"

section \<open>The codec\<close>

record session_claims =
  cl_subject :: string
  cl_issued_at :: instant
  cl_expires_at :: instant
  cl_verified_email :: "string option"

text \<open>\<open>self._clock\<close>, \<open>token_urlsafe\<close> and the KMS key.\<close>

record session_env =
  se_clock :: instant
  se_token :: string
  se_generate_mac :: "string \<Rightarrow> string result"
  se_verify_mac :: "string \<Rightarrow> string \<Rightarrow> bool result"

definition session_payload :: "session_env \<Rightarrow> string \<Rightarrow> int \<Rightarrow> string option \<Rightarrow> py_value" where
  "session_payload env subject ttl email = sort_keys (VDict
     [(''iss'', VStr ''gamewake''), (''sub'', VStr subject), (''iat'', VInt (unix_seconds (se_clock env))),
      (''exp'', VInt (unix_seconds (se_clock env + ttl))), (''jti'', VStr (se_token env)),
      (''verified_email'', (case email of None \<Rightarrow> VNone | Some e \<Rightarrow> VStr e))])"

definition session_issue :: "session_env \<Rightarrow> string \<Rightarrow> int \<Rightarrow> string option \<Rightarrow> string result" where
  "session_issue env subject ttl email =
     (if subject = [] \<or> ttl \<le> 0 then Inl (ValueError ''session subject and positive TTL are required'')
      else (let payload = json_text True [] (session_payload env subject ttl email)
            in case se_generate_mac env payload of
                 Inl e \<Rightarrow> Inl e
               | Inr mac \<Rightarrow> Inr (b64_encode payload @ ''.'' @ b64_encode mac)))"

text \<open>\<open>claims["sub"]\<close>, \<open>claims["iat"]\<close> and \<open>claims["exp"]\<close>: only an object has them.\<close>

definition claim :: "py_value \<Rightarrow> string \<Rightarrow> py_value result" where
  "claim claims key = (case claims of
      VDict d \<Rightarrow> (case dict_get d key of Some v \<Rightarrow> Inr v | None \<Rightarrow> Inl (KeyError key))
    | _ \<Rightarrow> Inl (TypeError ''indices must be integers or slices, not str''))"

definition instant_claim :: "py_value \<Rightarrow> string \<Rightarrow> instant result" where
  "instant_claim claims key = (case claim claims key of
      Inl e \<Rightarrow> Inl e
    | Inr v \<Rightarrow> (case py_int v of Inl e \<Rightarrow> Inl e | Inr n \<Rightarrow> from_timestamp n))"

text \<open>The \<open>try\<close> block: the claims, and whether the key service accepted the signature.\<close>

definition read_token ::
    "session_env \<Rightarrow> string \<Rightarrow> (bool \<times> py_value \<times> py_value \<times> instant \<times> instant) result" where
  "read_token env token =
     (if CHR ''.'' \<notin> set token then Inl (ValueError ''not enough values to unpack'')
      else (let payload_part = takeWhile (\<lambda>c. c \<noteq> CHR ''.'') token;
                mac_part = drop (Suc (length payload_part)) token
            in case b64_decode payload_part of Inl e \<Rightarrow> Inl e | Inr payload \<Rightarrow>
               (case b64_decode mac_part of Inl e \<Rightarrow> Inl e | Inr mac \<Rightarrow>
               (case se_verify_mac env payload mac of Inl e \<Rightarrow> Inl e | Inr verified \<Rightarrow>
               (case utf8_decode payload of Inl e \<Rightarrow> Inl e | Inr text \<Rightarrow>
               (case json_loads text of None \<Rightarrow> Inl (ValueError ''invalid JSON'') | Some claims \<Rightarrow>
               (case claim claims ''sub'' of Inl e \<Rightarrow> Inl e | Inr subject \<Rightarrow>
               (case instant_claim claims ''iat'' of Inl e \<Rightarrow> Inl e | Inr issued_at \<Rightarrow>
               (case instant_claim claims ''exp'' of Inl e \<Rightarrow> Inl e | Inr expires_at \<Rightarrow>
                  Inr (verified, claims, subject, issued_at, expires_at))))))))))"

definition session_verify :: "session_env \<Rightarrow> string \<Rightarrow> session_claims result" where
  "session_verify env token =
     (case read_token env token of
        Inl e \<Rightarrow> Inl (if is_lookup_error e then InvalidSession ''invalid GameWake session'' else e)
      | Inr (verified, claims, subject, issued_at, expires_at) \<Rightarrow>
          if \<not> verified \<or> claim claims ''iss'' \<noteq> Inr (VStr ''gamewake'') \<or> \<not> py_true subject
          then Inl (InvalidSession ''invalid GameWake session'')
          else if expires_at \<le> se_clock env then Inl (InvalidSession ''GameWake session expired'')
          else Inr \<lparr> cl_subject = py_str subject, cl_issued_at = issued_at, cl_expires_at = expires_at,
            cl_verified_email = (case claim claims ''verified_email'' of
                Inr (VStr e) \<Rightarrow> Some e | _ \<Rightarrow> None) \<rparr>)"

end
