(* ===== verification/JsonRoundTrip.thy ===== *)
theory JsonRoundTrip
  imports JsonText
begin

text \<open>
  Reading a JSON text that was written gives the value back: for strings, for integers, for floats
  whose shortest digits read back, and by induction for lists and objects.
\<close>

section \<open>Strings\<close>

lemma hex_value_digit: "d < 16 \<Longrightarrow> hex_value (''0123456789abcdef'' ! d) = Some (int d)"
proof -
  have "list_all (\<lambda>d. hex_value (''0123456789abcdef'' ! d) = Some (int d)) [0..<16]" by code_simp
  then show "d < 16 \<Longrightarrow> hex_value (''0123456789abcdef'' ! d) = Some (int d)" by (auto simp: list_all_iff)
qed

lemma hex4_value_hex4: "n < 256 \<Longrightarrow> hex4_value (hex4 n) = Some n"
proof -
  have "hex_value CHR ''0'' = Some 0" by code_simp
  then show "n < 256 \<Longrightarrow> hex4_value (hex4 n) = Some n"
    by (simp add: hex4_value_def hex4_def hex_value_digit nat_add_distrib nat_mult_distrib)
qed

lemma length_hex4 [simp]: "length (hex4 n) = 4" by (simp add: hex4_def)

lemma char_nat_less: "(of_char c :: nat) < 256"
  by (simp add: of_char_def) 

lemma scan_escaped:
  "scan_string (escape_char ascii c @ s) = map_option (\<lambda>(t, r). (c # t, r)) (scan_string s)"
  by (auto simp: escape_char_def escaped_def hex4_value_hex4 char_nat_less)

lemma scan_written: "scan_string (concat (map (escape_char ascii) s) @ CHR 0x22 # r) = Some (s, r)"
  by (induction s) (simp_all add: scan_escaped)

lemma digit_code: "of_char (digit d) = (48 + d mod 10 :: nat)" and is_digit_digit [simp]: "is_digit (digit d)"
proof -
  have "list_all (\<lambda>k. of_char (digit k) = (48 + k :: nat) \<and> is_digit (digit k)) [0..<10]" by code_simp
  moreover have "digit d = digit (d mod 10)" by (simp add: digit_def)
  ultimately show "of_char (digit d) = (48 + d mod 10 :: nat)" "is_digit (digit d)"
    by (auto simp: list_all_iff)
qed

lemma show_nat_digits: "list_all is_digit (show_nat n)"
  by (induction n rule: show_nat.induct) (subst show_nat.simps, simp)

lemma show_nat_nonempty [simp]: "show_nat n \<noteq> []"
  by (subst show_nat.simps) simp

lemma nat_of_digits_snoc: "nat_of_digits (ds @ [c]) = 10 * nat_of_digits ds + (of_char c - 48)"
  by (simp add: nat_of_digits_def)

lemma nat_of_show [simp]: "nat_of_digits (show_nat n) = n"
proof (induction n rule: show_nat.induct)
  case (1 n)
  show ?case
  proof (cases "n < 10")
    case True
    then show ?thesis by (subst show_nat.simps) (simp add: nat_of_digits_def digit_code)
  next
    case False
    then show ?thesis using 1 by (subst show_nat.simps) (simp add: nat_of_digits_snoc digit_code)
  qed
qed

text \<open>A number does not begin with a zero, but for zero itself.\<close>

lemma hd_show_nat: "0 < n \<Longrightarrow> hd (show_nat n) \<noteq> CHR ''0''"
proof (induction n rule: show_nat.induct)
  case (1 n)
  have zero: "of_char (CHR ''0'') = (48 :: nat)" by code_simp
  show ?case
  proof (cases "n < 10")
    case True
    have "of_char (digit n) \<noteq> (48 :: nat)" using True 1(2) by (simp add: digit_code)
    with zero have "digit n \<noteq> CHR ''0''" by metis
    with True show ?thesis by (subst show_nat.simps) simp
  next
    case False
    then show ?thesis using 1 by (subst show_nat.simps) (simp add: hd_append)
  qed
qed

lemma show_nat_0: "show_nat 0 = ''0''" by code_simp

text \<open>Characters that end a number in a list or an object.\<close>

definition ends :: "string \<Rightarrow> bool" where
  "ends r \<longleftrightarrow> r = [] \<or> hd r \<in> set '',]}''"

lemma digits_of_append:
  assumes "list_all is_digit ds" and "r = [] \<or> \<not> is_digit (hd r)"
  shows "digits_of (ds @ r) = (ds, r)"
  using assms by (cases r) (auto simp: digits_of_def list_all_iff takeWhile_tail dropWhile_append3)

lemma skip_underscore_digits: "list_all is_digit ds \<Longrightarrow> skip_underscore ds = ds"
proof -
  have "\<not> is_digit CHR ''_''" by code_simp
  then show "list_all is_digit ds \<Longrightarrow> skip_underscore ds = ds"
    by (auto simp: skip_underscore_def split: list.splits)
qed

lemma scan_digits_all: "list_all is_digit ds \<Longrightarrow> scan_digits ds = (ds, [])"
  by (induction ds) (simp_all add: skip_underscore_digits)

lemma digit_not: "is_digit c \<Longrightarrow> \<not> is_space c \<and> c \<notin> {CHR ''-'', CHR ''+'', CHR ''.'', CHR ''e'', CHR ''E'', CHR '','', CHR 0x5D, CHR 0x7D}"
  by (auto simp: is_digit_def is_space_def)

lemma strip_no_space:
  assumes "s = [] \<or> \<not> is_space (hd s) \<and> \<not> is_space (last s)"
  shows "strip s = s"
proof -
  have "dropWhile is_space s = s" using assms by (cases s) auto
  moreover have "dropWhile is_space (rev s) = rev s" using assms by (cases s rule: rev_cases) auto
  ultimately show ?thesis by (simp add: strip_def)
qed

lemma show_nat_ends: "is_digit (hd (show_nat n))" "is_digit (last (show_nat n))"
  using show_nat_digits [of n] by (simp_all add: list_all_iff)

lemma int_of_show:
  assumes "length (show_nat (nat \<bar>n\<bar>)) \<le> 4300"
  shows "int_of_text (show_int n) = Some n"
proof (cases "n < 0")
  case True
  have m: "\<not> is_space CHR ''-''" by code_simp
  have "strip (show_int n) = CHR ''-'' # show_nat (nat (- n))"
    using True digit_not [OF show_nat_ends(2)] m by (subst strip_no_space) (auto simp: show_int_def)
  then show ?thesis using True assms
    by (simp add: int_of_text_def split_sign_def scan_digits_all show_nat_digits)
next
  case False
  obtain c cs where c: "show_nat (nat n) = c # cs" by (cases "show_nat (nat n)") simp_all
  then have "is_digit c" using show_nat_ends [of "nat n"] by simp
  have "strip (show_int n) = show_nat (nat n)"
    using False digit_not [OF show_nat_ends(1)] digit_not [OF show_nat_ends(2)]
    by (subst strip_no_space) (auto simp: show_int_def)
  then show ?thesis using False assms digit_not [OF \<open>is_digit c\<close>] scan_digits_all [OF show_nat_digits [of "nat n"]]
      nat_of_show [of "nat n"]
    by (simp add: int_of_text_def split_sign_def c)
qed

section \<open>Numbers\<close>

lemma ends_not: "ends r \<Longrightarrow> r = [] \<or> \<not> is_digit (hd r) \<and> hd r \<notin> {CHR ''.'', CHR ''e'', CHR ''E''}"
  by (auto simp: ends_def is_digit_def)

text \<open>The three parts of a number in the form the scanner expects.\<close>

definition whole_part :: "string \<Rightarrow> bool" where
  "whole_part ds \<longleftrightarrow> ds \<noteq> [] \<and> list_all is_digit ds \<and> (hd ds = CHR ''0'' \<longrightarrow> ds = ''0'')"

definition fraction_part :: "string \<Rightarrow> bool" where
  "fraction_part f \<longleftrightarrow> f = [] \<or> (\<exists>ds. f = CHR ''.'' # ds \<and> ds \<noteq> [] \<and> list_all is_digit ds)"

definition exponent_part :: "string \<Rightarrow> bool" where
  "exponent_part x \<longleftrightarrow> x = [] \<or> (\<exists>c ds. x = CHR ''e'' # c # ds \<and> c \<in> {CHR ''-'', CHR ''+''} \<and> ds \<noteq> [] \<and> list_all is_digit ds)"

lemma whole_part_show: "whole_part (show_nat n)"
proof (cases "n = 0")
  case True
  then show ?thesis by (simp add: whole_part_def show_nat_0 is_digit_def)
qed (use hd_show_nat [of n] in \<open>auto simp: whole_part_def show_nat_digits\<close>)

lemma scan_whole_part:
  assumes "whole_part ds" and "sg \<in> {[], ''-''}" and "r = [] \<or> \<not> is_digit (hd r)"
  shows "scan_whole (sg @ ds @ r) = Some (sg @ ds, r)"
proof -
  obtain c cs where ds: "ds = c # cs" "is_digit c" using assms(1) by (cases ds) (auto simp: whole_part_def)
  have all: "list_all is_digit (c # cs)" using assms(1) ds by (simp add: whole_part_def)
  have "cs = []" if "c = CHR ''0''" using assms(1) that ds by (simp add: whole_part_def)
  then show ?thesis using assms(2) digit_not [OF ds(2)] ds digits_of_append [OF all assms(3)]
    by (auto simp: scan_whole_def ds)
qed

lemma scan_fraction_part:
  assumes "fraction_part f" and "r = [] \<or> \<not> is_digit (hd r) \<and> hd r \<noteq> CHR ''.''"
  shows "scan_fraction (f @ r) = (f, r)"
proof (cases "f = []")
  case True
  with assms(2) show ?thesis by (cases r) (auto simp: scan_fraction_def split: prod.split)
next
  case False
  then obtain ds where f: "f = CHR ''.'' # ds" "ds \<noteq> []" "list_all is_digit ds"
    using assms(1) by (auto simp: fraction_part_def)
  have "digits_of (ds @ r) = (ds, r)" using digits_of_append [OF f(3)] assms(2) by blast
  with f show ?thesis by (simp add: scan_fraction_def)
qed

lemma scan_exponent_part:
  assumes "exponent_part x" and "ends r"
  shows "scan_exponent (x @ r) = (x, r)"
proof (cases "x = []")
  case True
  with ends_not [OF assms(2)] show ?thesis by (cases r) (auto simp: scan_exponent_def Let_def split: prod.split)
next
  case False
  then obtain c ds where x: "x = CHR ''e'' # c # ds" "c \<in> {CHR ''-'', CHR ''+''}" "ds \<noteq> []" "list_all is_digit ds"
    using assms(1) by (auto simp: exponent_part_def)
  have "digits_of (ds @ r) = (ds, r)" using digits_of_append [OF x(4)] ends_not [OF assms(2)] by blast
  with x show ?thesis by (auto simp: scan_exponent_def)
qed

lemma scan_number_parts:
  assumes "whole_part ds" "sg \<in> {[], ''-''}" "fraction_part f" "exponent_part x" "ends r"
  shows "scan_number (sg @ ds @ f @ x @ r) =
    (if f = [] \<and> x = [] then map_option (\<lambda>n. (VInt n, r)) (int_of_text (sg @ ds))
     else map_option (\<lambda>v. (VFloat v, r)) (float_of_text (sg @ ds @ f @ x)))"
proof -
  have e: "\<not> is_digit CHR ''e''" "\<not> is_digit CHR ''.''" by code_simp+
  have 1: "x @ r = [] \<or> \<not> is_digit (hd (x @ r)) \<and> hd (x @ r) \<noteq> CHR ''.''"
    using assms(4) ends_not [OF assms(5)] e by (auto simp: exponent_part_def)
  then have "f @ x @ r = [] \<or> \<not> is_digit (hd (f @ x @ r))"
    using assms(3) e by (auto simp: fraction_part_def)
  from scan_whole_part [OF assms(1,2) this]
  show ?thesis by (simp add: scan_number_def scan_fraction_part [OF assms(3) 1] scan_exponent_part [OF assms(4,5)])
qed

lemma scan_int:
  assumes "length (show_nat (nat \<bar>n\<bar>)) \<le> 4300" and "ends r"
  shows "scan_number (show_int n @ r) = Some (VInt n, r)"
proof -
  have "scan_number ((if n < 0 then ''-'' else []) @ show_nat (nat \<bar>n\<bar>) @ [] @ [] @ r) = Some (VInt n, r)"
    using int_of_show [OF assms(1)]
    by (subst scan_number_parts) (auto simp: whole_part_show fraction_part_def exponent_part_def assms(2) show_int_def)
  then show ?thesis by (auto simp: show_int_def)
qed


text \<open>The floats whose text reads back: every finite double, by its shortest digits.\<close>

definition float_ok :: "py_float \<Rightarrow> bool" where
  "float_ok x \<longleftrightarrow> (case decimal_of_float x of Dec c k \<Rightarrow> float_of_text (float_text x) = Some x
     | DInf neg \<Rightarrow> x = FInf neg | DNaN \<Rightarrow> x = NaN | DSNaN \<Rightarrow> False)"

lemma is_digit_0 [simp]: "is_digit CHR ''0''" by code_simp

lemma digits_replicate: "list_all is_digit (replicate n CHR ''0'')"
  by (simp add: list_all_iff)

lemma zero_pad_digits: "list_all is_digit (zero_pad w n)" "zero_pad w n \<noteq> []"
  by (simp_all add: zero_pad_def Let_def digits_replicate show_nat_digits)

lemma digits_take_drop: "list_all is_digit ds \<Longrightarrow> list_all is_digit (take n ds) \<and> list_all is_digit (drop n ds)"
  by (auto simp: list_all_iff dest: in_set_takeD in_set_dropD)

lemma float_text_parts:
  assumes "decimal_of_float x = Dec c k"
  obtains sg ds f e where "float_text x = sg @ ds @ f @ e" "sg \<in> {[], ''-''}" "whole_part ds"
    "fraction_part f" "exponent_part e" "\<not> (f = [] \<and> e = [])"
proof (cases "c = 0")
  case True
  show thesis by (rule that [of "[]" "''0''" "''.0''" "[]"])
    (use assms True in \<open>simp_all add: float_text_def whole_part_def fraction_part_def exponent_part_def\<close>)
next
  case False
  define n where "n = nat \<bar>c\<bar>"
  let ?ds = "show_nat n"
  let ?sg = "if c < 0 then ''-'' else []" and ?point = "int (length ?ds) + k"
  have n: "0 < n" using False by (simp add: n_def)
  have all: "list_all is_digit ?ds" and hd: "hd ?ds \<noteq> CHR ''0''" using show_nat_digits hd_show_nat [OF n] by simp_all
  show thesis
  proof (cases "- 4 < ?point \<and> ?point \<le> 16")
    case positional: True
    consider (small) "?point \<le> 0" | (mixed) "0 < ?point" "k < 0" | (whole) "0 \<le> k" "0 < ?point"
      by linarith
    then show thesis
    proof cases
      case small
      show thesis by (rule that [of ?sg "''0''" "CHR ''.'' # replicate (nat (- ?point)) CHR ''0'' @ ?ds" "[]"])
        (use assms False positional small all digits_replicate in
          \<open>simp_all add: float_text_def n_def Let_def whole_part_def fraction_part_def exponent_part_def\<close>)
    next
      case mixed
      have p: "0 < nat ?point" "nat ?point < length ?ds" using mixed by simp_all
      then have "take (nat ?point) ?ds \<noteq> []" "hd (take (nat ?point) ?ds) \<noteq> CHR ''0''"
        "drop (nat ?point) ?ds \<noteq> []" using hd by (simp_all add: hd_take)
      then show thesis by (intro that [of ?sg "take (nat ?point) ?ds" "CHR ''.'' # drop (nat ?point) ?ds" "[]"])
        (use assms False positional mixed digits_take_drop [OF all] in
          \<open>simp_all add: float_text_def n_def Let_def whole_part_def fraction_part_def exponent_part_def\<close>)
    next
      case whole
      have "hd (?ds @ replicate (nat k) CHR ''0'') \<noteq> CHR ''0''" using hd by (simp add: hd_append)
      then show thesis by (intro that [of ?sg "?ds @ replicate (nat k) CHR ''0''" "''.0''" "[]"])
        (use assms False positional whole all digits_replicate in
          \<open>simp_all add: float_text_def n_def Let_def whole_part_def fraction_part_def exponent_part_def\<close>)
    qed
  next
    case scientific: False
    let ?e = "?point - 1"
    let ?x = "CHR ''e'' # (if ?e < 0 then CHR ''-'' else CHR ''+'') # zero_pad 2 (nat \<bar>?e\<bar>)"
    let ?f = "if tl ?ds = [] then [] else CHR ''.'' # tl ?ds"
    obtain d ds where d: "?ds = d # ds" by (cases ?ds) simp_all
    have "whole_part [d]" "list_all is_digit ds" using hd all by (auto simp: d whole_part_def)
    then show thesis by (intro that [of ?sg "[hd ?ds]" ?f ?x])
      (use assms False scientific zero_pad_digits d in
        \<open>auto simp: float_text_def n_def Let_def fraction_part_def exponent_part_def\<close>)
  qed
qed

lemma scan_float:
  assumes "float_ok x" and "decimal_of_float x = Dec c k" and "ends r"
  shows "scan_number (float_text x @ r) = Some (VFloat x, r)"
proof (rule float_text_parts [OF assms(2)])
  fix sg ds f e
  assume t: "float_text x = sg @ ds @ f @ e" and parts: "sg \<in> {[], ''-''}" "whole_part ds" "fraction_part f"
    "exponent_part e" "\<not> (f = [] \<and> e = [])"
  have "float_of_text (sg @ ds @ f @ e) = Some x" using assms(1,2) t by (simp add: float_ok_def)
  with scan_number_parts [OF parts(2,1,3,4) assms(3)] parts(5) t show ?thesis by auto
qed


section \<open>Values\<close>

fun json_ok :: "py_value \<Rightarrow> bool" where
  "json_ok (VInt n) = (length (show_nat (nat \<bar>n\<bar>)) \<le> 4300)"
| "json_ok (VFloat x) = float_ok x"
| "json_ok (VList vs) = (\<forall>v \<in> set vs. json_ok v)"
| "json_ok (VDict d) = (distinct (map fst d) \<and> (\<forall>p \<in> set d. json_ok (snd p)))"
| "json_ok v = True"

lemma digit_starts:
  assumes "is_digit d"
  shows "d \<notin> {CHR 0x22, CHR 0x7B, CHR 0x5B, CHR ''n'', CHR ''t'', CHR ''f'', CHR ''N'', CHR ''I'', CHR ''-'', CHR 0x5D, CHR 0x7D}
    \<and> \<not> json_space d"
  using assms by (auto simp: is_digit_def json_space_def)

lemma json_value_number:
  assumes "is_digit d" and "sg \<in> {[], ''-''}"
  shows "json_value (Suc n) (sg @ d # cs) = scan_number (sg @ d # cs)"
  using assms(2) digit_starts [OF assms(1)] by (auto simp: starts_with_def)

lemma show_int_form:
  obtains sg d ds where "show_int n = sg @ d # ds" "sg \<in> {[], ''-''}" "is_digit d"
proof -
  obtain d ds where "show_nat (nat \<bar>n\<bar>) = d # ds" by (cases "show_nat (nat \<bar>n\<bar>)") simp_all
  moreover from this have "is_digit d" using show_nat_ends [of "nat \<bar>n\<bar>"] by simp
  ultimately show thesis using that [of "[]" d ds] that [of "''-''" d ds] by (cases "n < 0") (simp_all add: show_int_def)
qed

lemma float_text_form:
  assumes "decimal_of_float x = Dec c k"
  obtains sg d ds where "float_text x = sg @ d # ds" "sg \<in> {[], ''-''}" "is_digit d"
proof (rule float_text_parts [OF assms])
  fix sg w f e assume t: "float_text x = sg @ w @ f @ e" "sg \<in> {[], ''-''}" "whole_part w"
  then obtain d ds where "w = d # ds" "is_digit d" by (cases w) (auto simp: whole_part_def)
  with t that [of sg d "ds @ f @ e"] show thesis by simp
qed

lemma float_value:
  assumes "float_ok x" and "ends r"
  shows "json_value (Suc n) (float_text x @ r) = Some (VFloat x, r)"
proof (cases "decimal_of_float x")
  case (Dec c k)
  obtain sg d ds where "float_text x = sg @ d # ds" "sg \<in> {[], ''-''}" "is_digit d" by (rule float_text_form [OF Dec])
  then show ?thesis using json_value_number [of d sg n "ds @ r"] scan_float [OF assms(1) Dec assms(2)] by simp
qed (use assms in \<open>auto simp: float_ok_def float_text_def starts_with_def\<close>)

text \<open>How a text begins: not with a space, and not with what closes a list or an object.\<close>

definition opens :: "string \<Rightarrow> bool" where
  "opens s \<longleftrightarrow> s \<noteq> [] \<and> \<not> json_space (hd s) \<and> hd s \<notin> {CHR 0x5D, CHR 0x7D}"

lemma opens_append: "opens s \<Longrightarrow> opens (s @ r)"
  by (auto simp: opens_def hd_append)

lemma opens_skip: "opens s \<Longrightarrow> skip_space s = s"
  by (cases s) (auto simp: opens_def)

lemma json_text_opens: "json_ok v \<Longrightarrow> opens (json_text ascii sp v)"
proof (cases v)
  case (VInt n)
  then show ?thesis using digit_starts
    by (cases rule: show_int_form [of n]) (auto simp: opens_def json_space_def)
next
  case (VFloat x)
  assume "json_ok v"
  then show ?thesis
  proof (cases "decimal_of_float x")
    case (Dec c k)
    then show ?thesis using digit_starts VFloat
      by (cases rule: float_text_form [OF Dec]) (auto simp: opens_def json_space_def)
  qed (use VFloat in \<open>auto simp: float_text_def opens_def json_space_def float_ok_def\<close>)
qed (auto simp: opens_def json_space_def string_text_def)

lemma items_text_opens: "\<forall>v \<in> set vs. json_ok v \<Longrightarrow> vs \<noteq> [] \<Longrightarrow> opens (items_text ascii sp vs)"
proof (induction vs)
  case (Cons v vs)
  then have "opens (json_text ascii sp v)" by (simp add: json_text_opens)
  then show ?case by (cases vs) (auto intro: opens_append)
qed simp

lemma members_text_opens: "d \<noteq> [] \<Longrightarrow> \<exists>r. members_text ascii sp d = CHR 0x22 # r"
proof (induction d)
  case (Cons p d)
  then show ?case by (cases p; cases d) (auto simp: string_text_def)
qed simp

lemma dict_of_distinct:
  "distinct (map fst (e @ d)) \<Longrightarrow> foldl (\<lambda>d (k, v). dict_set k v d) e d = e @ d"
proof (induction d arbitrary: e)
  case (Cons p d)
  have "dict_set (fst p) (snd p) e = e @ [p]" using Cons.prems
    by (induction e) auto
  with Cons show ?case by (simp add: case_prod_beta)
qed simp

text \<open>What follows a separator is skipped.\<close>

lemma skip_spaces: "list_all json_space sp \<Longrightarrow> skip_space (sp @ t) = skip_space t"
  by (induction sp) simp_all

text \<open>Reading a written value, a list up to its bracket and an object up to its brace.\<close>

lemma json_value_written:
  "list_all json_space sp \<Longrightarrow> json_ok v \<Longrightarrow> length (json_text ascii sp v) \<le> n \<Longrightarrow> ends r \<Longrightarrow>
     json_value n (json_text ascii sp v @ r) = Some (v, r)"
  and json_items_written: "list_all json_space sp \<Longrightarrow> \<forall>v \<in> set vs. json_ok v \<Longrightarrow> vs \<noteq> [] \<Longrightarrow>
     length (items_text ascii sp vs) < n \<Longrightarrow>
     json_items n (items_text ascii sp vs @ CHR 0x5D # r) = Some (vs, r)"
  and json_members_written: "list_all json_space sp \<Longrightarrow> \<forall>p \<in> set d. json_ok (snd p) \<Longrightarrow> d \<noteq> [] \<Longrightarrow>
     length (members_text ascii sp d) < n \<Longrightarrow>
     json_members n (members_text ascii sp d @ CHR 0x7D # r) = Some (d, r)"
proof (induction ascii sp v and ascii sp vs and ascii sp d arbitrary: n r and n r and n r rule: json_text_items_text_members_text.induct)
  case (1 ascii sp)
  then show ?case by (cases n) (simp_all add: starts_with_def)
next
  case (2 ascii sp b)
  then show ?case by (cases n; cases b) (simp_all add: starts_with_def)
next
  case (3 ascii sp m)
  obtain sg d ds where "show_int m = sg @ d # ds" "sg \<in> {[], ''-''}" "is_digit d" by (rule show_int_form)
  then show ?case using 3 json_value_number [of d sg _ "ds @ r"] scan_int [of m r] by (cases n) auto
next
  case (4 ascii sp x)
  then show ?case using float_value [of x r] json_text_opens [of "VFloat x" ascii sp]
    by (cases n) (auto simp: opens_def)
next
  case (5 ascii sp s)
  then show ?case by (cases n) (simp_all add: string_text_def scan_written)
next
  case (6 ascii sp vs)
  obtain m where n: "n = Suc m" using 6(4) by (cases n) simp_all
  show ?case
  proof (cases "vs = []")
    case True
    then show ?thesis by (simp add: n json_space_def starts_with_def)
  next
    case False
    have o: "opens (items_text ascii sp vs @ CHR 0x5D # r)"
      using 6(3) False by (intro opens_append items_text_opens) simp_all
    have "json_items m (items_text ascii sp vs @ CHR 0x5D # r) = Some (vs, r)"
      using 6 False n by simp
    then show ?thesis using opens_skip [OF o] o
      by (cases "items_text ascii sp vs @ CHR 0x5D # r") (auto simp: n opens_def)
  qed
next
  case (7 ascii sp d)
  obtain m where n: "n = Suc m" using 7(4) by (cases n) simp_all
  show ?case
  proof (cases "d = []")
    case True
    then show ?thesis by (simp add: n json_space_def starts_with_def)
  next
    case False
    obtain t where t: "members_text ascii sp d = CHR 0x22 # t" using members_text_opens [OF False] by blast
    have "json_members m (members_text ascii sp d @ CHR 0x7D # r) = Some (d, r)"
      using 7 False n by simp
    then show ?thesis using dict_of_distinct [of "[]" d] 7(3) by (simp add: n t json_space_def)
  qed
next
  case (9 ascii sp v)
  then show ?case by (cases n) (simp_all add: ends_def json_space_def)
next
  case (10 ascii sp v w vs)
  obtain m where n: "n = Suc m" using 10(6) by (cases n) simp_all
  have v: "json_value m (json_text ascii sp v @ '','' @ sp @ items_text ascii sp (w # vs) @ CHR 0x5D # r)
      = Some (v, '','' @ sp @ items_text ascii sp (w # vs) @ CHR 0x5D # r)"
    using 10(3,4,6) n by (intro 10(1)) (simp_all add: ends_def)
  have "opens (items_text ascii sp (w # vs) @ CHR 0x5D # r)"
    using 10(4) by (intro opens_append items_text_opens) simp_all
  moreover have "json_items m (items_text ascii sp (w # vs) @ CHR 0x5D # r) = Some (w # vs, r)"
    using 10(3,4,6) n by (intro 10(2)) simp_all
  ultimately show ?case using v by (simp add: n json_space_def opens_skip skip_spaces [OF 10(3)])
next
  case (12 ascii sp k v)
  obtain m where n: "n = Suc m" using 12(5) by (cases n) simp_all
  have "json_value m (json_text ascii sp v @ CHR 0x7D # r) = Some (v, CHR 0x7D # r)"
    using 12(2,3,5) n by (intro 12(1)) (simp_all add: ends_def string_text_def)
  moreover have "opens (json_text ascii sp v @ CHR 0x7D # r)"
    using 12(3) by (intro opens_append json_text_opens) simp
  ultimately show ?case
    by (simp add: n string_text_def scan_written json_space_def opens_skip skip_spaces [OF 12(2)])
next
  case (13 ascii sp k v p d)
  obtain m where n: "n = Suc m" using 13(6) by (cases n) simp_all
  have v: "json_value m (json_text ascii sp v @ '','' @ sp @ members_text ascii sp (p # d) @ CHR 0x7D # r)
      = Some (v, '','' @ sp @ members_text ascii sp (p # d) @ CHR 0x7D # r)"
    using 13(3,4,6) n by (intro 13(1)) (simp_all add: ends_def string_text_def)
  have "opens (json_text ascii sp v @ '','' @ sp @ members_text ascii sp (p # d) @ CHR 0x7D # r)"
    using 13(4) by (intro opens_append json_text_opens) simp
  moreover have "json_members m (members_text ascii sp (p # d) @ CHR 0x7D # r) = Some (p # d, r)"
    using 13(3,4,6) n by (intro 13(2)) (simp_all add: string_text_def)
  moreover obtain t where "members_text ascii sp (p # d) = CHR 0x22 # t"
    using members_text_opens [of "p # d" ascii sp] by blast
  ultimately show ?case using v
    by (simp add: n string_text_def scan_written json_space_def opens_skip skip_spaces [OF 13(3)])
qed simp_all

lemma json_loads_written:
  assumes "list_all json_space sp" and "json_ok v"
  shows "json_loads (json_text ascii sp v) = Some v"
  using json_value_written [OF assms, of ascii "Suc (length (json_text ascii sp v))" "[]"]
    opens_skip [OF json_text_opens [OF assms(2), of ascii sp]]
  by (simp add: json_loads_def ends_def)

text \<open>The decimal text of a number below a power of ten has no more digits than the power.\<close>

lemma show_nat_length: "n < 10 ^ Suc k \<Longrightarrow> length (show_nat n) \<le> Suc k"
proof (induction k arbitrary: n)
  case 0
  then show ?case by (subst show_nat.simps) simp
next
  case (Suc k)
  have "n div 10 < 10 ^ Suc k" using Suc.prems by (simp add: less_mult_imp_div_less)
  from Suc.IH [OF this] show ?case by (subst show_nat.simps) simp
qed

end
