(* ===== verification/SessionProperties.thy ===== *)
theory SessionProperties
  imports Session JsonRoundTrip
begin

text \<open>
  A session that was issued is verified with the same claims until it expires, and no other claims
  are accepted than those of a payload whose signature the key service confirms.
\<close>

section \<open>Base64\<close>

lemma length_b64_letters: "length b64_letters = 64"
  by (simp add: b64_letters_def)

lemma b64_value_char:
  assumes "n < 64"
  shows "b64_value (b64_char n) = Some n"
proof -
  have "map b64_value b64_letters = map Some [0..<64]" by code_simp
  then have "map b64_value b64_letters ! n = Some n" using assms by simp
  then show ?thesis using assms by (simp add: length_b64_letters b64_char_def)
qed

definition b64_plain :: "char \<Rightarrow> bool" where
  "b64_plain c \<longleftrightarrow> c \<noteq> CHR ''='' \<and> c \<noteq> CHR ''.'' \<and> (of_char c :: nat) < 128"

lemma b64_char_plain: "n < 64 \<Longrightarrow> b64_plain (b64_char n)"
proof -
  have "list_all b64_plain b64_letters" by code_simp
  then show "n < 64 \<Longrightarrow> b64_plain (b64_char n)"
    by (simp add: list_all_length length_b64_letters b64_char_def)
qed

lemma b64_scan_char:
  assumes "n < 64"
  shows "b64_scan pos left pads (b64_char n # cs) =
    (if pos = 0 then b64_scan 1 n 0 cs
     else if pos = 1 then map_option (Cons (char_of (left * 4 + n div 16))) (b64_scan 2 (n mod 16) 0 cs)
     else if pos = 2 then map_option (Cons (char_of (left * 16 + n div 4))) (b64_scan 3 (n mod 4) 0 cs)
     else map_option (Cons (char_of (left * 64 + n))) (b64_scan 0 0 0 cs))"
  using b64_value_char [OF assms] b64_char_plain [OF assms] by (simp add: b64_plain_def)

lemma b64_scan_pad:
  "b64_scan pos left pads (CHR ''='' # cs) =
     (if pos < 2 then b64_scan pos left pads cs
      else if 4 \<le> pos + pads + 1 then Some [] else b64_scan pos left (pads + 1) cs)"
  by simp

text \<open>Taking six-bit groups of bytes apart and putting them together.\<close>

lemma join_groups:
  fixes x y k :: nat
  assumes "y < k"
  shows "(x * k + y) div k = x" "(x * k + y) mod k = y"
  using assms by simp_all

lemma split_byte:
  fixes n :: nat
  assumes "n < 256"
  shows "n div 4 < 64" "n div 16 < 16" "n div 64 < 4" "(n mod 4) * 16 < 64" "(n mod 16) * 4 < 64" "n mod 64 < 64"
    "n div 4 * 4 + n mod 4 = n" "n div 16 * 16 + n mod 16 = n" "n div 64 * 64 + n mod 64 = n"
proof -
  have "n mod 4 < 4" "n mod 16 < 16" by simp_all
  then show "(n mod 4) * 16 < 64" "(n mod 16) * 4 < 64" by linarith+
qed (use assms in \<open>simp_all add: less_mult_imp_div_less\<close>)

lemma join_bounds:
  fixes n m :: nat
  assumes "n < 256" "m < 256"
  shows "(n mod 4) * 16 + m div 16 < 64" "(n mod 16) * 4 + m div 64 < 64"
proof -
  have "n mod 4 < 4" "n mod 16 < 16" by simp_all
  then show "(n mod 4) * 16 + m div 16 < 64" "(n mod 16) * 4 + m div 64 < 64"
    using split_byte(2,3) [OF assms(2)] by linarith+
qed

lemma b64_scan_two:
  assumes "a1 < 64" "a0 < 4" "b1 < 16"
  shows "b64_scan 0 left pads (b64_char a1 # b64_char (a0 * 16 + b1) # cs)
    = map_option (Cons (char_of (a1 * 4 + a0))) (b64_scan 2 b1 0 cs)"
proof -
  have "a0 * 16 + b1 < 64" using assms by linarith
  then show ?thesis using assms(1)
    by (simp only: b64_scan_char join_groups [OF assms(3)] if_True if_False simp_thms one_neq_zero)
qed

lemma b64_scan_third:
  assumes "b0 < 16" "c1 < 4"
  shows "b64_scan 2 b1 pads (b64_char (b0 * 4 + c1) # cs)
    = map_option (Cons (char_of (b1 * 16 + b0))) (b64_scan 3 c1 0 cs)"
proof -
  have "b0 * 4 + c1 < 64" using assms by linarith
  then have "b64_scan 2 b1 pads (b64_char (b0 * 4 + c1) # cs) =
      map_option (Cons (char_of (b1 * 16 + (b0 * 4 + c1) div 4))) (b64_scan 3 ((b0 * 4 + c1) mod 4) 0 cs)"
    by (subst b64_scan_char) simp_all
  then show ?thesis by (simp only: join_groups [OF assms(2)])
qed

lemma b64_scan_fourth:
  "c0 < 64 \<Longrightarrow> b64_scan 3 c1 pads (b64_char c0 # cs) = map_option (Cons (char_of (c1 * 64 + c0))) (b64_scan 0 0 0 cs)"
  by (subst b64_scan_char) simp_all

lemma b64_scan_encoded:
  "b64_scan 0 left pads (b64_encode bs @ replicate (nat ((- int (length (b64_encode bs))) mod 4)) CHR ''='') = Some bs"
proof (induction bs arbitrary: left pads rule: b64_encode.induct)
  case (2 x)
  let ?a = "of_char x :: nat"
  note a = split_byte [OF char_nat_less [of x]]
  have "b64_scan 0 left pads [b64_char (?a div 4), b64_char (?a mod 4 * 16 + 0), CHR ''='', CHR ''=''] = Some [x]"
    by (subst b64_scan_two) (simp_all add: a b64_scan_pad del: b64_scan.simps(2))
  then show ?case by (simp add: Let_def numeral_2_eq_2 del: b64_scan.simps(2))
next
  case (3 x y)
  let ?a = "of_char x :: nat" and ?b = "of_char y :: nat"
  note a = split_byte [OF char_nat_less [of x]] and b = split_byte [OF char_nat_less [of y]]
  have "b64_scan 0 left pads [b64_char (?a div 4), b64_char (?a mod 4 * 16 + ?b div 16),
      b64_char (?b mod 16 * 4 + 0), CHR ''=''] = Some [x, y]"
    by (subst b64_scan_two; (subst b64_scan_third)?) (simp_all add: a b b64_scan_pad del: b64_scan.simps(2))
  then show ?case by (simp add: Let_def del: b64_scan.simps(2))
next
  case (4 x y z bs)
  let ?a = "of_char x :: nat" and ?b = "of_char y :: nat" and ?c = "of_char z :: nat"
  let ?pad = "replicate (nat ((- int (length (b64_encode bs))) mod 4)) CHR ''=''"
  note a = split_byte [OF char_nat_less [of x]] and b = split_byte [OF char_nat_less [of y]]
    and c = split_byte [OF char_nat_less [of z]]
  have pad: "(- int (length (b64_encode (x # y # z # bs)))) mod 4 = (- int (length (b64_encode bs))) mod 4"
    by (simp add: Let_def) presburger
  have "b64_scan 0 left pads (b64_char (?a div 4) # b64_char (?a mod 4 * 16 + ?b div 16) #
      b64_char (?b mod 16 * 4 + ?c div 64) # b64_char (?c mod 64) # b64_encode bs @ ?pad)
    = map_option (Cons x) (map_option (Cons y) (map_option (Cons z) (b64_scan 0 0 0 (b64_encode bs @ ?pad))))"
    by (simp only: b64_scan_two [OF a(1) mod_less_divisor b(2)] b64_scan_third [OF mod_less_divisor c(3)]
        b64_scan_fourth [OF c(6)] a(7) b(8) c(9) char_of_char zero_less_numeral)
  then show ?case by (simp only: pad 4) (simp add: Let_def del: b64_scan.simps(2))
qed simp

lemma b64_encode_plain: "list_all b64_plain (b64_encode bs)"
proof (induction bs rule: b64_encode.induct)
  case (2 x)
  then show ?case using split_byte [OF char_nat_less [of x]] by (simp add: Let_def b64_char_plain)
next
  case (3 x y)
  then show ?case using split_byte [OF char_nat_less [of x]] split_byte [OF char_nat_less [of y]]
      join_bounds [OF char_nat_less char_nat_less, of x y] by (simp add: Let_def b64_char_plain)
next
  case (4 x y z bs)
  let ?a = "of_char x :: nat" and ?b = "of_char y :: nat" and ?c = "of_char z :: nat"
  have "list_all (\<lambda>n. n < 64) [?a div 4, (?a mod 4) * 16 + ?b div 16, (?b mod 16) * 4 + ?c div 64, ?c mod 64]"
    using split_byte(1) [OF char_nat_less [of x]] split_byte(6) [OF char_nat_less [of z]]
      join_bounds [OF char_nat_less char_nat_less, of x y] join_bounds [OF char_nat_less char_nat_less, of y z]
    by (simp only: list.pred_inject simp_thms)
  then have "list_all b64_plain (map b64_char [?a div 4, (?a mod 4) * 16 + ?b div 16, (?b mod 16) * 4 + ?c div 64, ?c mod 64])"
    unfolding list.pred_map comp_def by (rule list.pred_mono_strong) (rule b64_char_plain)
  with 4 show ?case by (simp add: Let_def)
qed simp

lemma b64_decode_encode: "b64_decode (b64_encode bs) = Inr bs"
  using b64_encode_plain [of bs]
  by (auto simp: b64_decode_def is_ascii_def b64_plain_def list_all_iff b64_scan_encoded)

section \<open>The payload\<close>

lemma is_ascii_simps [simp]:
  "is_ascii [] = True"
  "is_ascii (c # s) = ((of_char c :: nat) < 128 \<and> is_ascii s)"
  "is_ascii (s @ t) = (is_ascii s \<and> is_ascii t)"
  by (auto simp: is_ascii_def)

lemma utf8_decode_ascii: "is_ascii s \<Longrightarrow> utf8_decode s = Inr s"
  by (induction s rule: utf8_decode.induct) (simp_all add: Let_def)

lemma digit_ascii: "is_digit c \<Longrightarrow> (of_char c :: nat) < 128"
  by (auto simp: is_digit_def)

lemma digits_ascii: "list_all is_digit ds \<Longrightarrow> is_ascii ds"
  by (induction ds) (simp_all add: digit_ascii)

lemma show_int_ascii: "is_ascii (show_int n)"
  using digits_ascii [OF show_nat_digits] by (simp add: show_int_def)

lemma escape_char_ascii: "is_ascii (escape_char True c)"
proof -
  have hex: "is_ascii (hex4 n)" for n
  proof -
    have "list_all (\<lambda>d. (of_char (''0123456789abcdef'' ! d) :: nat) < 128) [0..<16]" by code_simp
    then have "d < 16 \<Longrightarrow> (of_char (''0123456789abcdef'' ! d) :: nat) < 128" for d by (auto simp: list_all_iff)
    from this [of "n div 16 mod 16"] this [of "n mod 16"] show ?thesis by (simp add: hex4_def)
  qed
  show ?thesis by (auto simp: escape_char_def hex)
qed

lemma string_text_ascii: "is_ascii (string_text True s)"
proof -
  have "is_ascii (concat (map (escape_char True) s))"
    by (induction s) (simp_all add: escape_char_ascii)
  then show ?thesis by (simp add: string_text_def)
qed

lemma session_payload_sorted:
  "session_payload env subject ttl email = VDict
     [(''exp'', VInt (unix_seconds (se_clock env + ttl))), (''iat'', VInt (unix_seconds (se_clock env))),
      (''iss'', VStr ''gamewake''), (''jti'', VStr (se_token env)), (''sub'', VStr subject),
      (''verified_email'', (case email of None \<Rightarrow> VNone | Some e \<Rightarrow> VStr e))]"
  by (simp add: session_payload_def split: option.split)

lemma small_int_ok: "\<bar>n\<bar> < 10 ^ 20 \<Longrightarrow> json_ok (VInt n)"
proof -
  assume "\<bar>n\<bar> < 10 ^ 20"
  then have "nat \<bar>n\<bar> < 10 ^ Suc 19" by simp
  from show_nat_length [OF this] show ?thesis by simp
qed

lemma unix_seconds_bounds:
  assumes "0 \<le> t" and "t < seconds 253402300800"
  shows "0 \<le> unix_seconds t" "unix_seconds t \<le> 253402300799" "json_ok (VInt (unix_seconds t))"
    "from_timestamp (unix_seconds t) = Inr (seconds (unix_seconds t))"
proof -
  show 1: "0 \<le> unix_seconds t" using assms(1) by (simp add: unix_seconds_def sgn_if)
  show 2: "unix_seconds t \<le> 253402300799" using assms by (auto simp: unix_seconds_def sgn_if seconds_def)
  show "json_ok (VInt (unix_seconds t))" using 1 2 by (intro small_int_ok) simp
  show "from_timestamp (unix_seconds t) = Inr (seconds (unix_seconds t))"
    using 1 2 by (simp add: from_timestamp_def)
qed

lemma token_parts:
  assumes "CHR ''.'' \<notin> set p"
  shows "takeWhile (\<lambda>c. c \<noteq> CHR ''.'') (p @ ''.'' @ m) = p" "drop (Suc (length p)) (p @ ''.'' @ m) = m"
  using assms by (simp_all add: takeWhile_append)

lemma b64_no_dot: "CHR ''.'' \<notin> set (b64_encode bs)"
  using b64_encode_plain [of bs] by (auto simp: list_all_iff b64_plain_def)

lemma session_issueE:
  assumes "session_issue env subject ttl email = Inr token"
  obtains mac where "subject \<noteq> []" "0 < ttl"
    "se_generate_mac env (json_text True [] (session_payload env subject ttl email)) = Inr mac"
    "token = b64_encode (json_text True [] (session_payload env subject ttl email)) @ ''.'' @ b64_encode mac"
  using assms by (auto simp: session_issue_def Let_def split: if_splits sum.splits)

lemma issued_payload_read:
  assumes "0 \<le> se_clock env" "0 < ttl" "se_clock env + ttl < seconds 253402300800"
  shows "utf8_decode (json_text True [] (session_payload env subject ttl email))
      = Inr (json_text True [] (session_payload env subject ttl email))"
    "json_loads (json_text True [] (session_payload env subject ttl email)) = Some (session_payload env subject ttl email)"
proof -
  show "utf8_decode (json_text True [] (session_payload env subject ttl email))
      = Inr (json_text True [] (session_payload env subject ttl email))"
    by (rule utf8_decode_ascii) (simp add: session_payload_sorted string_text_ascii show_int_ascii split: option.split)
  have "json_ok (VInt (unix_seconds (se_clock env)))" "json_ok (VInt (unix_seconds (se_clock env + ttl)))"
    by (rule unix_seconds_bounds(3); use assms in simp)+
  then have "json_ok (session_payload env subject ttl email)"
    by (simp add: session_payload_sorted split: option.split)
  then show "json_loads (json_text True [] (session_payload env subject ttl email)) = Some (session_payload env subject ttl email)"
    by (simp add: json_loads_written)
qed

text \<open>What verifying reads in a token that was issued.\<close>

lemma issued_token_read:
  assumes issued: "session_issue env subject ttl email = Inr token"
    and key: "\<forall>p m. se_generate_mac env p = Inr m \<longrightarrow> se_verify_mac env' p m = Inr True"
    and time: "0 \<le> se_clock env" "se_clock env + ttl < seconds 253402300800"
  shows "read_token env' token = Inr (True, session_payload env subject ttl email, VStr subject,
      seconds (unix_seconds (se_clock env)), seconds (unix_seconds (se_clock env + ttl)))" and "subject \<noteq> []"
proof (atomize(full), rule session_issueE [OF issued])
  fix mac
  let ?v = "session_payload env subject ttl email"
  let ?p = "json_text True [] ?v"
  assume s: "subject \<noteq> []" "0 < ttl" and mac: "se_generate_mac env ?p = Inr mac"
    and token: "token = b64_encode ?p @ ''.'' @ b64_encode mac"
  have times: "from_timestamp (unix_seconds (se_clock env)) = Inr (seconds (unix_seconds (se_clock env)))"
    "from_timestamp (unix_seconds (se_clock env + ttl)) = Inr (seconds (unix_seconds (se_clock env + ttl)))"
    by (rule unix_seconds_bounds(4); use time s(2) in simp)+
  have "read_token env' token = Inr (True, ?v, VStr subject, seconds (unix_seconds (se_clock env)),
      seconds (unix_seconds (se_clock env + ttl)))"
    unfolding read_token_def token token_parts [OF b64_no_dot] Let_def
    using key mac issued_payload_read [OF time(1) s(2) time(2), of subject email] times
    by (simp add: b64_decode_encode claim_def instant_claim_def py_int_def session_payload_sorted)
  with s(1) show "read_token env' token = Inr (True, ?v, VStr subject, seconds (unix_seconds (se_clock env)),
      seconds (unix_seconds (se_clock env + ttl))) \<and> subject \<noteq> []" by simp
qed

lemmas session_verify_simps = session_verify_def Let_def claim_def session_payload_sorted py_true_def py_str_def not_le

text \<open>
  C35. A session says what it was issued with. When the key service confirms the signatures it
  made with the key, verifying an issued token returns its subject, its verified e-mail and its
  times (to the second) until the second it expires in, and raises InvalidSession from then on;
  whatever characters the subject has, and whatever the clocks read between 1970 and 9999.
\<close>

theorem issued_session_is_verified:
  assumes issued: "session_issue env subject ttl email = Inr token"
    and key: "\<forall>p m. se_generate_mac env p = Inr m \<longrightarrow> se_verify_mac env' p m = Inr True"
    and time: "0 \<le> se_clock env" "se_clock env + ttl < seconds 253402300800"
  shows "session_verify env' token =
    (let expires = seconds (unix_seconds (se_clock env + ttl))
     in if se_clock env' < expires
        then Inr \<lparr> cl_subject = subject, cl_issued_at = seconds (unix_seconds (se_clock env)),
          cl_expires_at = expires, cl_verified_email = email \<rparr>
        else Inl (InvalidSession ''GameWake session expired''))"
  using issued_token_read [OF assms] by (simp add: session_verify_simps split: option.split)

text \<open>A key that signs by prefixing, for the witness.\<close>

definition prefix_key :: "instant \<Rightarrow> session_env" where
  "prefix_key t = \<lparr> se_clock = t, se_token = ''nonce'', se_generate_mac = (\<lambda>p. Inr (''key:'' @ p)),
     se_verify_mac = (\<lambda>p m. Inr (m = ''key:'' @ p)) \<rparr>"

theorem issued_session_is_verified_witness:
  "\<exists>token. session_issue (prefix_key (seconds 1000)) ''ana'' (minutes 10) None = Inr token
     \<and> session_verify (prefix_key (seconds 1500)) token = Inr \<lparr> cl_subject = ''ana'',
         cl_issued_at = seconds 1000, cl_expires_at = seconds 1600, cl_verified_email = None \<rparr>
     \<and> session_verify (prefix_key (seconds 1600)) token = Inl (InvalidSession ''GameWake session expired'')"
proof -
  obtain token where t: "session_issue (prefix_key (seconds 1000)) ''ana'' (minutes 10) None = Inr token"
    by (simp add: session_issue_def prefix_key_def Let_def time_units)
  have "session_verify (prefix_key t) token =
    (let expires = seconds (unix_seconds (se_clock (prefix_key (seconds 1000)) + minutes 10))
     in if se_clock (prefix_key t) < expires
        then Inr \<lparr> cl_subject = ''ana'', cl_issued_at = seconds (unix_seconds (se_clock (prefix_key (seconds 1000)))),
          cl_expires_at = expires, cl_verified_email = None \<rparr>
        else Inl (InvalidSession ''GameWake session expired''))" for t
    by (rule issued_session_is_verified [OF t]) (simp_all add: prefix_key_def time_units)
  with t show ?thesis by (simp add: prefix_key_def Let_def time_units unix_seconds_def)
qed

section \<open>Only what was signed\<close>

text \<open>
  The key service confirmed the signature of the payload that the claims were read from: a GameWake
  token, and each field of the claims is what that payload says. So the expiry compared with the
  clock is the one that was signed.
\<close>

definition signed :: "session_env \<Rightarrow> string \<Rightarrow> session_claims \<Rightarrow> bool" where
  "signed env token claims \<longleftrightarrow> (\<exists>payload mac text d v.
     b64_decode (takeWhile (\<lambda>c. c \<noteq> CHR ''.'') token) = Inr payload
     \<and> b64_decode (tl (dropWhile (\<lambda>c. c \<noteq> CHR ''.'') token)) = Inr mac
     \<and> se_verify_mac env payload mac = Inr True
     \<and> utf8_decode payload = Inr text \<and> json_loads text = Some (VDict d)
     \<and> dict_get d ''iss'' = Some (VStr ''gamewake'')
     \<and> dict_get d ''sub'' = Some v \<and> py_true v \<and> cl_subject claims = py_str v
     \<and> instant_claim (VDict d) ''iat'' = Inr (cl_issued_at claims)
     \<and> instant_claim (VDict d) ''exp'' = Inr (cl_expires_at claims)
     \<and> cl_verified_email claims = (case dict_get d ''verified_email'' of Some (VStr e) \<Rightarrow> Some e | _ \<Rightarrow> None))"

text \<open>A token that stands for these claims now: signed, and the signed expiry is still to come.\<close>

definition live :: "session_env \<Rightarrow> string \<Rightarrow> session_claims \<Rightarrow> bool" where
  "live env token claims \<longleftrightarrow> signed env token claims \<and> se_clock env < cl_expires_at claims"

lemma claim_Inr: "claim v k = Inr x \<longleftrightarrow> (\<exists>d. v = VDict d \<and> dict_get d k = Some x)"
  by (auto simp: claim_def split: py_value.splits option.splits)

lemma claim_of_dict: "claim (VDict d) k = (case dict_get d k of Some v \<Rightarrow> Inr v | None \<Rightarrow> Inl (KeyError k))"
  by (simp add: claim_def)

text \<open>A payload is one JSON text: a token stands for one set of claims.\<close>

lemma signed_once: "signed env token c \<Longrightarrow> signed env token c' \<Longrightarrow> c = c'"
  unfolding signed_def by (intro session_claims.equality) auto

lemma verified_session_was_signed:
  assumes "session_verify env token = Inr claims"
  shows "live env token claims"
proof -
  obtain v subject issued expires where r: "read_token env token = Inr (True, v, subject, issued, expires)"
    and iss: "claim v ''iss'' = Inr (VStr ''gamewake'')" "py_true subject"
    and c: "cl_subject claims = py_str subject" "cl_issued_at claims = issued" "cl_expires_at claims = expires"
      "se_clock env < expires" "cl_verified_email claims = (case claim v ''verified_email'' of
        Inr (VStr e) \<Rightarrow> Some e | _ \<Rightarrow> None)"
    using assms by (auto simp: session_verify_def split: sum.splits prod.splits if_splits)
  have rest: "drop (Suc (length (takeWhile P t))) t = tl (dropWhile P t)" for P and t :: string
    by (simp add: dropWhile_eq_drop drop_Suc tl_drop)
  obtain payload mac body where "b64_decode (takeWhile (\<lambda>c. c \<noteq> CHR ''.'') token) = Inr payload"
    "b64_decode (tl (dropWhile (\<lambda>c. c \<noteq> CHR ''.'') token)) = Inr mac" "se_verify_mac env payload mac = Inr True"
    "utf8_decode payload = Inr body" "json_loads body = Some v" "claim v ''sub'' = Inr subject"
    "instant_claim v ''iat'' = Inr issued" "instant_claim v ''exp'' = Inr expires"
    using r by (auto simp: read_token_def Let_def rest split: if_splits sum.splits option.splits)
  moreover from iss obtain d where "v = VDict d" by (auto simp: claim_Inr)
  moreover have "cl_verified_email claims = (case dict_get d ''verified_email'' of Some (VStr e) \<Rightarrow> Some e | _ \<Rightarrow> None)"
    using c(5) \<open>v = VDict d\<close> by (auto simp: claim_of_dict split: option.splits)
  ultimately show ?thesis using iss c unfolding live_def signed_def claim_Inr by auto
qed

end
