(* ===== verification/AbacatePay.thy ===== *)
theory AbacatePay
  imports Payments Session
begin

text \<open>
  \<open>billing/abacatepay.py\<close>: the Payment Provider behind Billing, over an HTTP client that is itself
  modelled over one opener of requests, and the webhook handler, which authenticates a body before
  it reads it. The opener and HMAC-SHA256 are parameters.
\<close>

section \<open>The HTTP client\<close>

text \<open>What \<open>urlopen\<close> answers: a body, an HTTP error with its code and body, or a network failure.\<close>

datatype http_reply = Reply string | HttpError int string | Unreachable

type_synonym http_opener =
  "string \<Rightarrow> string \<Rightarrow> (string \<times> string) list \<Rightarrow> string option \<Rightarrow> http_reply"

text \<open>\<open>json.loads(data.decode("utf-8"))\<close>.\<close>

definition loads_bytes :: "string \<Rightarrow> py_value result" where
  "loads_bytes b = (case utf8_decode b of
      Inl e \<Rightarrow> Inl e
    | Inr s \<Rightarrow> (case json_loads s of Some v \<Rightarrow> Inr v | None \<Rightarrow> Inl (ValueError ''invalid JSON'')))"

definition http_error_message :: "string \<Rightarrow> string" where
  "http_error_message body =
     (let refused = ''provider rejected the request''
      in case loads_bytes body of
           Inr (VDict d) \<Rightarrow> (case dict_get d ''error'' of
               Some (VStr m) \<Rightarrow> if strip m = [] then refused else take 300 (strip m)
             | _ \<Rightarrow> refused)
         | _ \<Rightarrow> refused)"

text \<open>A body that is not UTF-8 raises its own error; one that is not JSON is a failed request.\<close>

definition http_request ::
    "http_opener \<Rightarrow> string \<Rightarrow> string \<Rightarrow> (string \<times> string) list \<Rightarrow> py_value option
     \<Rightarrow> (string \<times> py_value) list result" where
  "http_request opener method url headers body =
     (case opener method url
         (dict_set ''User-Agent'' ''GameWake/0.1.0 (+https://gamewake.com.br)'' headers)
         (map_option (json_text True '' '') body) of
        HttpError code b \<Rightarrow> Inl (PaymentProviderError
          (''AbacatePay request failed ('' @ show_int code @ ''): '' @ http_error_message b))
      | Unreachable \<Rightarrow> Inl (PaymentProviderError ''AbacatePay request failed'')
      | Reply b \<Rightarrow> (case utf8_decode b of
            Inl e \<Rightarrow> Inl e
          | Inr s \<Rightarrow> (case json_loads s of
              None \<Rightarrow> Inl (PaymentProviderError ''AbacatePay request failed'')
            | Some (VDict d) \<Rightarrow> Inr d
            | Some _ \<Rightarrow> Inl (PaymentProviderError ''AbacatePay returned an invalid response''))))"

section \<open>The provider\<close>

record abacatepay =
  ab_api_key :: string
  ab_opener :: http_opener
  ab_base_url :: string

text \<open>\<open>base_url.rstrip("/")\<close> is done when the provider is made.\<close>

definition strip_slashes :: "string \<Rightarrow> string" where
  "strip_slashes s = rev (dropWhile (\<lambda>c. c = CHR ''/'') (rev s))"

definition mk_abacatepay :: "string \<Rightarrow> http_opener \<Rightarrow> string \<Rightarrow> abacatepay result" where
  "mk_abacatepay api_key opener base_url =
     (if api_key = [] then Inl (ValueError ''AbacatePay API key is required'')
      else Inr \<lparr> ab_api_key = api_key, ab_opener = opener, ab_base_url = strip_slashes base_url \<rparr>)"

definition authorization :: "abacatepay \<Rightarrow> (string \<times> string) list" where
  "authorization p = [(''Authorization'', ''Bearer '' @ ab_api_key p)]"

definition json_headers :: "abacatepay \<Rightarrow> (string \<times> string) list" where
  "json_headers p = authorization p @ [(''Content-Type'', ''application/json'')]"

definition value_get :: "(string \<times> py_value) list \<Rightarrow> string \<Rightarrow> py_value" where
  "value_get d key = (case dict_get d key of Some v \<Rightarrow> v | None \<Rightarrow> VNone)"

text \<open>\<open>str(response.get("error") or default)\<close>.\<close>

definition refusal :: "(string \<times> py_value) list \<Rightarrow> string \<Rightarrow> py_error" where
  "refusal response message = (let e = value_get response ''error''
     in PaymentProviderError (if py_true e then py_str e else message))"

text \<open>
  An amount in cents divided by 100 in the decimal context: exact up to 28 digits, rounded half-even
  beyond them.
\<close>

definition context_cents :: "int \<Rightarrow> money" where
  "context_cents n = (case fix_prec (nat \<bar>n\<bar>) 0 of (m, k) \<Rightarrow> sgn n * int m * 10 ^ nat k)"

definition required_value :: "(string \<times> py_value) list \<Rightarrow> string \<Rightarrow> py_value result" where
  "required_value d key = (case dict_get d key of Some v \<Rightarrow> Inr v | None \<Rightarrow> Inl (KeyError key))"

definition parse_checkout :: "(string \<times> py_value) list \<Rightarrow> payment_checkout result" where
  "parse_checkout d =
     (let amount = (case required_value d ''amount'' of Inl e \<Rightarrow> Inl e | Inr v \<Rightarrow> py_int v);
          paid = (case value_get d ''paidAmount'' of VNone \<Rightarrow> Inr None
                    | v \<Rightarrow> map_sum id Some (py_int v));
          field = (\<lambda>k. map_sum id py_str (required_value d k));
          invalid = (\<lambda>e. Inl (if is_lookup_error e
            then PaymentProviderError ''AbacatePay returned an invalid checkout'' else e))
      in case amount of Inl e \<Rightarrow> invalid e | Inr amount \<Rightarrow>
        (case paid of Inl e \<Rightarrow> invalid e | Inr paid \<Rightarrow>
        (case field ''id'' of Inl e \<Rightarrow> invalid e | Inr i \<Rightarrow>
        (case field ''externalId'' of Inl e \<Rightarrow> invalid e | Inr external \<Rightarrow>
        (case field ''url'' of Inl e \<Rightarrow> invalid e | Inr url \<Rightarrow>
        (case field ''status'' of Inl e \<Rightarrow> invalid e | Inr status \<Rightarrow>
           Inr \<lparr> pc_id = i, pc_external_id = external, pc_url = url, pc_amount = context_cents amount,
             pc_status = status, pc_paid_amount = map_option context_cents paid \<rparr>))))))"

definition create_customer :: "abacatepay \<Rightarrow> contribution_checkout_request \<Rightarrow> string option result" where
  "create_customer p rq =
     (let email = (case cr_payer_email rq of None \<Rightarrow> [] | Some e \<Rightarrow> strip e)
      in if email = [] then Inr None
         else
           (let name = (case cr_payer_name rq of None \<Rightarrow> [] | Some n \<Rightarrow> strip n);
                body = [(''email'', VStr email),
                        (''metadata'', VDict [(''gamewakeContributionId'', VStr (cr_external_id rq))])]
                  @ (if name = [] then [] else [(''name'', VStr name)])
            in case http_request (ab_opener p) ''POST'' (ab_base_url p @ ''/customers/create'')
                  (json_headers p) (Some (VDict body)) of
                 Inl e \<Rightarrow> Inl e
               | Inr response \<Rightarrow> (case (value_get response ''success'', value_get response ''data'') of
                   (VBool True, VDict d) \<Rightarrow> (case value_get d ''id'' of
                       VStr i \<Rightarrow> if starts_with ''cust_'' i then Inr (Some i)
                         else Inl (PaymentProviderError ''AbacatePay returned an invalid customer'')
                     | _ \<Rightarrow> Inl (PaymentProviderError ''AbacatePay returned an invalid customer''))
                 | _ \<Rightarrow> Inl (refusal response ''customer creation failed''))))"

definition create_checkout :: "abacatepay \<Rightarrow> contribution_checkout_request \<Rightarrow> payment_checkout result" where
  "create_checkout p rq =
     (case create_customer p rq of Inl e \<Rightarrow> Inl e | Inr customer \<Rightarrow>
        (let body =
               [(''items'', VList [VDict [(''id'', VStr (cr_provider_product_id rq)), (''quantity'', VInt 1)]]),
                (''methods'', VList [VStr ''PIX'']), (''externalId'', VStr (cr_external_id rq)),
                (''returnUrl'', VStr (cr_return_url rq)), (''completionUrl'', VStr (cr_completion_url rq)),
                (''metadata'', VDict [(''gamewakeContributionId'', VStr (cr_external_id rq))])]
               @ (case customer of None \<Rightarrow> [] | Some i \<Rightarrow> [(''customerId'', VStr i)])
         in case http_request (ab_opener p) ''POST'' (ab_base_url p @ ''/checkouts/create'')
               (json_headers p) (Some (VDict body)) of
              Inl e \<Rightarrow> Inl e
            | Inr response \<Rightarrow> (case (value_get response ''success'', value_get response ''data'') of
                (VBool True, VDict d) \<Rightarrow> (case parse_checkout d of
                    Inl e \<Rightarrow> Inl e
                  | Inr checkout \<Rightarrow>
                      if pc_external_id checkout \<noteq> cr_external_id rq
                      then Inl (PaymentProviderError ''AbacatePay checkout externalId does not match'')
                      else if pc_amount checkout \<noteq> cr_expected_amount rq
                      then Inl (PaymentProviderError
                        ''AbacatePay checkout amount does not match credit package'')
                      else Inr checkout)
              | _ \<Rightarrow> Inl (refusal response ''checkout creation failed''))))"

definition find_checkout :: "abacatepay \<Rightarrow> string \<Rightarrow> payment_checkout option result" where
  "find_checkout p external_id =
     (case http_request (ab_opener p) ''GET''
         (ab_base_url p @ ''/checkouts/list?'' @ urlencode [(''externalId'', external_id), (''limit'', ''1'')])
         (authorization p) None of
        Inl e \<Rightarrow> Inl e
      | Inr response \<Rightarrow> (case (value_get response ''success'', value_get response ''data'') of
          (VBool True, VList items) \<Rightarrow>
            (case find (\<lambda>v. case v of VDict d \<Rightarrow> value_get d ''externalId'' = VStr external_id | _ \<Rightarrow> False) items of
               Some (VDict d) \<Rightarrow> (case parse_checkout d of
                   Inl e \<Rightarrow> Inl e
                 | Inr checkout \<Rightarrow>
                     if pc_external_id checkout \<noteq> external_id
                     then Inl (PaymentProviderError ''AbacatePay checkout externalId does not match'')
                     else Inr (Some checkout))
             | _ \<Rightarrow> Inr None)
        | _ \<Rightarrow> Inl (refusal response ''checkout lookup failed'')))"

definition refund_checkout :: "abacatepay \<Rightarrow> string \<Rightarrow> string \<Rightarrow> string result" where
  "refund_checkout p checkout_id reason =
     (if \<not> starts_with ''bill_'' checkout_id
      then Inl (ValueError ''AbacatePay Checkout ID must start with bill_'')
      else if reason = [] \<or> 500 < length reason
      then Inl (ValueError ''refund reason must contain between 1 and 500 characters'')
      else (case http_request (ab_opener p) ''POST'' (ab_base_url p @ ''/checkouts/refund'') (json_headers p)
            (Some (VDict [(''id'', VStr checkout_id), (''reason'', VStr reason)])) of
          Inl e \<Rightarrow> Inl e
        | Inr response \<Rightarrow> (case (value_get response ''success'', value_get response ''data'') of
            (VBool True, VDict d) \<Rightarrow> (case value_get d ''refundPublicId'' of
                VStr i \<Rightarrow> if i = [] then Inl (PaymentProviderError ''AbacatePay returned an invalid refund'')
                  else Inr i
              | _ \<Rightarrow> Inl (PaymentProviderError ''AbacatePay returned an invalid refund''))
          | _ \<Rightarrow> Inl (refusal response ''checkout refund failed''))))"

text \<open>The provider that Billing is given.\<close>

definition abacatepay_provider :: "abacatepay \<Rightarrow> payment_provider" where
  "abacatepay_provider p = \<lparr> pp_create_checkout = create_checkout p,
     pp_refund_checkout = refund_checkout p, pp_find_checkout = find_checkout p \<rparr>"

section \<open>The webhook\<close>

record 's webhook =
  wb_secret :: string
  wb_hmac_key :: string
  wb_hmac_sha256 :: "string \<Rightarrow> string \<Rightarrow> string"
  wb_processor :: "(string, json) dict \<Rightarrow> 's \<Rightarrow> unit result \<times> 's"

definition mk_webhook ::
    "string \<Rightarrow> string \<Rightarrow> (string \<Rightarrow> string \<Rightarrow> string)
     \<Rightarrow> ((string, json) dict \<Rightarrow> 's \<Rightarrow> unit result \<times> 's) \<Rightarrow> 's webhook result" where
  "mk_webhook secret key hmac processor =
     (if secret = [] \<or> key = [] then Inl (ValueError ''AbacatePay webhook secrets are required'')
      else Inr \<lparr> wb_secret = secret, wb_hmac_key = key, wb_hmac_sha256 = hmac, wb_processor = processor \<rparr>)"

text \<open>\<open>base64.b64encode\<close>: the standard alphabet, padded.\<close>

definition b64_standard :: "string \<Rightarrow> string" where
  "b64_standard bs = (let t = b64_encode bs in
     map (\<lambda>c. if c = CHR ''-'' then CHR ''+'' else if c = CHR ''_'' then CHR ''/'' else c) t
     @ replicate (nat ((- int (length t)) mod 4)) CHR ''='')"

text \<open>\<open>hmac.compare_digest\<close> of two strings.\<close>

definition compare_digest :: "string \<Rightarrow> string \<Rightarrow> bool result" where
  "compare_digest a b = (if is_ascii a \<and> is_ascii b then Inr (a = b)
     else Inl (TypeError ''comparing strings with non-ASCII characters is not supported''))"

fun json_of :: "py_value \<Rightarrow> json" where
  "json_of VNone = JNull"
| "json_of (VBool b) = JBool b"
| "json_of (VInt n) = JInt n"
| "json_of (VFloat x) = JNum (decimal_of_float x)"
| "json_of (VStr s) = JStr s"
| "json_of (VList vs) = JList (map json_of vs)"
| "json_of (VDict d) = JObj (map (\<lambda>(k, v). (k, json_of v)) d)"

definition webhook_handle ::
    "'s webhook \<Rightarrow> string \<Rightarrow> string \<Rightarrow> string \<Rightarrow> 's \<Rightarrow> unit result \<times> 's" where
  "webhook_handle w raw_body secret signature s =
     (let expected = b64_standard (wb_hmac_sha256 w (utf8_encode (wb_hmac_key w)) raw_body)
      in on_ok (compare_digest (wb_secret w) secret) s (\<lambda>ok.
           if \<not> ok then (Inl (InvalidWebhookSignature ''url_secret''), s)
           else on_ok (compare_digest expected signature) s (\<lambda>ok.
             if \<not> ok then (Inl (InvalidWebhookSignature ''hmac_signature''), s)
             else (case loads_bytes raw_body of
                 Inl e \<Rightarrow> (Inl (InvalidWebhookPayload ''invalid AbacatePay webhook JSON''), s)
               | Inr (VDict d) \<Rightarrow> (case wb_processor w (map (\<lambda>(k, v). (k, json_of v)) d) s of
                   (Inl e, s') \<Rightarrow> (Inl (if is_lookup_error e
                     then InvalidWebhookPayload ''invalid AbacatePay webhook event'' else e), s')
                 | (Inr _, s') \<Rightarrow> (Inr (), s'))
               | Inr _ \<Rightarrow> (Inl (InvalidWebhookPayload ''invalid AbacatePay webhook payload''), s)))))"

end
