(* ===== verification/DiscordAuth.thy ===== *)
theory DiscordAuth
  imports AbacatePay
begin

text \<open>
  Signing in with Discord: the OAuth client (\<open>auth/discord_oauth.py\<close>) and the signature check of
  interactions (\<open>lambda/discord_signature.py\<close>). The opener of requests and Ed25519 verification
  are parameters.
\<close>

section \<open>OAuth\<close>

record discord_identity =
  di_discord_user_id :: string
  di_display_name :: string
  di_verified_email :: "string option"
  di_installed_guild_id :: "string option"

record oauth_grant =
  og_identity :: discord_identity
  og_access_token :: string

record oauth_client =
  oc_client_id :: string
  oc_client_secret :: string
  oc_opener :: http_opener

definition mk_oauth_client :: "string \<Rightarrow> string \<Rightarrow> http_opener \<Rightarrow> oauth_client result" where
  "mk_oauth_client client_id secret opener =
     (if client_id = [] \<or> secret = [] then Inl (ValueError ''Discord OAuth credentials are required'')
      else Inr \<lparr> oc_client_id = client_id, oc_client_secret = secret, oc_opener = opener \<rparr>)"

text \<open>\<open>UrllibOAuthHttpClient.request\<close>: \<open>json.loads\<close> of bytes that are not UTF-8 is not caught.\<close>

definition oauth_request ::
    "http_opener \<Rightarrow> string \<Rightarrow> string \<Rightarrow> (string \<times> string) list \<Rightarrow> (string \<times> string) list option
     \<Rightarrow> (string \<times> py_value) list result" where
  "oauth_request opener method url headers form =
     (case opener method url
         (dict_set ''User-Agent'' ''DiscordBot (https://gamewake.com.br, 0.1.0)'' headers)
         (map_option urlencode form) of
        Reply b \<Rightarrow> (case utf8_decode b of
            Inl e \<Rightarrow> Inl e
          | Inr s \<Rightarrow> (case json_loads s of
              None \<Rightarrow> Inl (RuntimeError ''Discord OAuth request failed'')
            | Some (VDict d) \<Rightarrow> Inr d
            | Some _ \<Rightarrow> Inl (RuntimeError ''Discord OAuth returned an invalid response'')))
      | _ \<Rightarrow> Inl (RuntimeError ''Discord OAuth request failed''))"

definition authorization_url :: "oauth_client \<Rightarrow> string \<Rightarrow> string \<Rightarrow> bool \<Rightarrow> string" where
  "authorization_url c state redirect_uri install =
     (let parameters = [(''client_id'', oc_client_id c), (''response_type'', ''code''),
            (''redirect_uri'', redirect_uri), (''scope'', ''identify email''), (''state'', state)];
          parameters = (if install
            then dict_set ''scope'' ''identify email applications.commands bot'' parameters
              @ [(''permissions'', ''3072''), (''integration_type'', ''0'')]
            else parameters)
      in ''https://discord.com/api/v10/oauth2/authorize?'' @ urlencode parameters)"

definition all_decimal :: "string \<Rightarrow> bool" where
  "all_decimal s \<longleftrightarrow> s \<noteq> [] \<and> list_all is_digit s"

text \<open>The identity that the two responses of Discord describe.\<close>

definition oauth_exchange :: "oauth_client \<Rightarrow> string \<Rightarrow> string option \<Rightarrow> oauth_grant result" where
  "oauth_exchange c code redirect_uri =
     (let form = [(''client_id'', oc_client_id c), (''client_secret'', oc_client_secret c),
            (''grant_type'', ''authorization_code''), (''code'', code)]
            @ (case redirect_uri of None \<Rightarrow> [] | Some u \<Rightarrow> [(''redirect_uri'', u)])
      in case oauth_request (oc_opener c) ''POST'' ''https://discord.com/api/v10/oauth2/token''
           [(''Content-Type'', ''application/x-www-form-urlencoded'')] (Some form) of
           Inl e \<Rightarrow> Inl e
         | Inr token \<Rightarrow> (case value_get token ''access_token'' of
             VStr access \<Rightarrow>
               if access = [] then Inl (RuntimeError ''Discord OAuth returned no access token'')
               else (case oauth_request (oc_opener c) ''GET'' ''https://discord.com/api/v10/users/@me''
                     [(''Authorization'', ''Bearer '' @ access)] None of
                   Inl e \<Rightarrow> Inl e
                 | Inr user \<Rightarrow>
                     (let name = (if py_true (value_get user ''global_name'') then value_get user ''global_name''
                                  else value_get user ''username'')
                      in case (value_get user ''id'', name) of
                           (VStr i, VStr n) \<Rightarrow>
                             Inr \<lparr> og_identity = \<lparr> di_discord_user_id = i, di_display_name = n,
                                 di_verified_email = (case (value_get user ''verified'', value_get user ''email'') of
                                     (VBool True, VStr m) \<Rightarrow> if CHR ''@'' \<in> set m then Some m else None
                                   | _ \<Rightarrow> None),
                                 di_installed_guild_id = (case value_get token ''guild'' of
                                     VDict g \<Rightarrow> (case value_get g ''id'' of
                                         VStr k \<Rightarrow> if all_decimal k then Some k else None | _ \<Rightarrow> None)
                                   | _ \<Rightarrow> None) \<rparr>,
                               og_access_token = access \<rparr>
                         | _ \<Rightarrow> Inl (RuntimeError ''Discord OAuth returned an invalid User'')))
           | _ \<Rightarrow> Inl (RuntimeError ''Discord OAuth returned no access token'')))"

definition oauth_authenticate :: "oauth_client \<Rightarrow> string \<Rightarrow> string \<Rightarrow> discord_identity result" where
  "oauth_authenticate c code redirect_uri = map_sum id og_identity (oauth_exchange c code (Some redirect_uri))"

definition authenticate_activity :: "oauth_client \<Rightarrow> string \<Rightarrow> oauth_grant result" where
  "authenticate_activity c code = oauth_exchange c code None"

section \<open>Signed interactions\<close>

definition header_named :: "(string \<times> string) list \<Rightarrow> string \<Rightarrow> string option" where
  "header_named headers name = map_option snd (find (\<lambda>h. casefold (fst h) = casefold name) headers)"

text \<open>\<open>bytes.fromhex(s.strip())\<close>: pairs of digits, with spaces between the pairs.\<close>

fun from_hex :: "string \<Rightarrow> string option" where
  "from_hex [] = Some []"
| "from_hex [c] = (if is_space c then Some [] else None)"
| "from_hex (c # d # cs) =
     (if is_space c then from_hex (d # cs)
      else (case (hex_value c, hex_value d) of
          (Some a, Some b) \<Rightarrow> map_option (Cons (char_of (16 * a + b))) (from_hex cs)
        | _ \<Rightarrow> None))"

text \<open>
  \<open>VerifyKey(key).verify(message, signature)\<close> is the parameter: it accepts, or raises
  \<open>BadSignatureError\<close>.
\<close>

definition verify_discord_signature ::
    "(string \<Rightarrow> string \<Rightarrow> string \<Rightarrow> bool) \<Rightarrow> (string \<times> string) list \<Rightarrow> string \<Rightarrow> string \<Rightarrow> unit result" where
  "verify_discord_signature ed25519 headers raw_body public_key_hex =
     (case (header_named headers ''X-Signature-Ed25519'', header_named headers ''X-Signature-Timestamp'') of
        (Some signature_hex, Some timestamp) \<Rightarrow>
          if signature_hex = [] \<or> timestamp = []
          then Inl (SignatureValidationError ''cabecalhos de assinatura ausentes'')
          else (case (from_hex (strip public_key_hex), from_hex (strip signature_hex)) of
              (Some key, Some signature) \<Rightarrow>
                if length key \<noteq> 32 \<or> length signature \<noteq> 64
                then Inl (SignatureValidationError ''assinatura ou chave publica com tamanho invalido'')
                else check (ed25519 key (utf8_encode timestamp @ raw_body) signature)
                  (SignatureValidationError ''assinatura invalida'')
            | _ \<Rightarrow> Inl (SignatureValidationError ''assinatura ou chave publica malformada''))
      | _ \<Rightarrow> Inl (SignatureValidationError ''cabecalhos de assinatura ausentes''))"

end
