(* ===== verification/Http.thy ===== *)
theory Http
  imports Api DiscordAuth
begin

text \<open>
  \<open>class GameWakeHttpHandler\<close> (\<open>control_plane/http.py\<close>): OAuth, the API, Discord and payments behind
  one function URL. An exception that \<open>handle\<close> does not turn into a response is the \<open>Inl\<close> of its
  result. The sessions, the OAuth client and the application are those of the other theories;
  Discord's adapter, its signature check and the webhook handler are optional, as in the code.
  \<open>ht_rival env k\<close> is what other clients do before the \<open>k\<close>-th step that reads the stores again.
\<close>

section \<open>Requests and responses\<close>

text \<open>The parts of a function URL event that the handler reads.\<close>

record http_event =
  ev_method :: string
  ev_path :: string
  ev_headers :: "(string \<times> string) list"
  ev_query :: "(string \<times> string) list"
  ev_body :: string
  ev_is_base64 :: bool
  ev_domain_name :: "string option"

text \<open>A body is kept as the value that \<open>json.dumps\<close> writes.\<close>

datatype http_body = NoBody | ApiBody api_body

record web_response =
  hs_status :: int
  hs_headers :: "(string \<times> string) list"
  hs_body :: http_body

type_synonym ('s, 'a) call = "'s \<Rightarrow> 'a result \<times> 's"

record 'p http_env =
  ht_app :: "'p app_env"
  ht_sessions :: session_env
  ht_oauth :: oauth_client
  ht_console_url :: string
  ht_redirect_uri :: "string option"
  ht_discord :: "(json_object \<Rightarrow> ('p app_state, json_object) call) option"
  ht_verify_discord :: "((string \<times> string) list \<Rightarrow> string \<Rightarrow> unit result) option"
  ht_webhook :: "'p app_state webhook option"
  ht_rival :: "nat \<Rightarrow> 'p app_state \<Rightarrow> 'p app_state"

definition console_url :: "'p http_env \<Rightarrow> string" where
  "console_url env = strip_slashes (ht_console_url env)"

definition http_response :: "int \<Rightarrow> http_body \<Rightarrow> (string \<times> string) list \<Rightarrow> web_response" where
  "http_response status body headers = \<lparr> hs_status = status,
     hs_headers = foldl (\<lambda>d (k, v). dict_set k v d) [(''content-type'', ''application/json'')] headers,
     hs_body = body \<rparr>"

definition http_error :: "int \<Rightarrow> string \<Rightarrow> string \<Rightarrow> (string \<times> string) list \<Rightarrow> web_response" where
  "http_error status code message headers = http_response status
     (ApiBody (Payload [(''error'', VDict [(''code'', VStr code), (''message'', VStr message)])])) headers"

definition redirect :: "string \<Rightarrow> web_response" where
  "redirect location = \<lparr> hs_status = 302,
     hs_headers = [(''location'', location), (''cache-control'', ''no-store'')], hs_body = NoBody \<rparr>"

definition cors :: "'p http_env \<Rightarrow> string option \<Rightarrow> (string \<times> string) list" where
  "cors env origin =
     (if origin \<noteq> Some (console_url env) then []
      else [(''access-control-allow-origin'', console_url env),
            (''access-control-allow-headers'', ''authorization,content-type,idempotency-key''),
            (''access-control-allow-methods'', ''GET,POST,PUT,PATCH,DELETE,OPTIONS''),
            (''vary'', ''Origin'')])"

text \<open>
  \<open>base64.b64decode(body, validate=True)\<close>: the standard alphabet, groups of four, at most two
  characters of padding at the end.
\<close>

definition b64_strict :: "string \<Rightarrow> string result" where
  "b64_strict s =
     (let core = takeWhile (\<lambda>c. c \<noteq> CHR ''='') s; pads = length s - length core
      in if list_all (\<lambda>c. b64_value c \<noteq> None \<and> c \<notin> {CHR ''-'', CHR ''_''}) core
            \<and> drop (length core) s = replicate pads CHR ''='' \<and> pads \<le> 2 \<and> length s mod 4 = 0
         then (case b64_scan 0 0 0 s of Some bs \<Rightarrow> Inr bs | None \<Rightarrow> Inl (ValueError ''Incorrect padding''))
         else Inl (ValueError ''Only base64 data is allowed''))"

definition raw_body :: "http_event \<Rightarrow> string result" where
  "raw_body ev = (if ev_is_base64 ev then b64_strict (ev_body ev) else Inr (utf8_encode (ev_body ev)))"

definition json_body :: "string \<Rightarrow> json_object result" where
  "json_body raw = (case loads_bytes raw of
      Inl e \<Rightarrow> Inl e
    | Inr (VDict d) \<Rightarrow> Inr d
    | Inr _ \<Rightarrow> Inl (ValueError ''JSON body must be an object''))"

definition callback_uri :: "http_event \<Rightarrow> string result" where
  "callback_uri ev = (case ev_domain_name ev of
      None \<Rightarrow> Inl (ValueError ''request domain is unavailable'')
    | Some d \<Rightarrow> if d = [] then Inl (ValueError ''request domain is unavailable'')
        else Inr (''https://'' @ d @ ''/auth/discord/callback''))"

text \<open>
  The \<open>except\<close> clauses. The clause for \<open>ValueError\<close> looks at \<open>raw_body\<close>, which is unbound when reading
  it raised.
\<close>

definition http_failure :: "(string \<times> string) list \<Rightarrow> string option \<Rightarrow> py_error \<Rightarrow> web_response result" where
  "http_failure headers raw e = (case e of
      InvalidSession _ \<Rightarrow> Inr (http_error 401 ''invalid_session'' ''Session is invalid or expired'' headers)
    | SensitiveActionConfirmationError _ \<Rightarrow> Inr (http_error 403 ''recent_authentication_required''
        ''Renove seu login Discord e confirme o nome do grupo para continuar.'' headers)
    | PermissionDeniedError _ \<Rightarrow> Inr (http_error 403 ''forbidden''
        ''Voce nao tem permissao para concluir esta acao.'' headers)
    | InvalidWebhookSignature _ \<Rightarrow> Inr (http_error 401 ''invalid_webhook_auth''
        ''Webhook authentication failed'' headers)
    | InvalidWebhookPayload _ \<Rightarrow> Inr (http_error 422 ''invalid_webhook_payload''
        ''Webhook payload could not be processed'' headers)
    | PaymentProviderError _ \<Rightarrow> Inr (http_error 502 ''payment_unavailable''
        ''Nao foi possivel abrir o checkout Pix. Tente novamente em instantes.'' headers)
    | _ \<Rightarrow> if is_value_error e
        then (case raw of
            None \<Rightarrow> Inl (UnboundLocalError ''raw_body'')
          | Some b \<Rightarrow> Inr (http_error 400 (if b = [] then ''invalid_request'' else ''invalid_json'')
              ''Invalid request'' headers))
        else Inr (http_error 500 ''internal_error'' ''Nao foi possivel concluir a acao.'' headers))"

section \<open>Routes\<close>

definition answer :: "'a \<Rightarrow> 's \<Rightarrow> 'a result \<times> 's" where
  "answer r s = (Inr r, s)"

definition oauth_start :: "'p http_env \<Rightarrow> http_event \<Rightarrow> string \<Rightarrow> web_response result" where
  "oauth_start env ev redirect_uri =
     (let account_id = dict_get (ev_query ev) ''accountId'';
          requested = dict_get (ev_query ev) ''install''
      in if (case account_id of None \<Rightarrow> False
             | Some a \<Rightarrow> a = [] \<or> 128 < length a \<or> CHR '':'' \<in> set a)
         then Inr (http_error 400 ''invalid_oauth'' ''Account ID is invalid'' [])
         else
           (let install = (requested = Some ''1'' \<or> requested = None \<and> account_id \<noteq> None);
                kind = (if install then ''oauth:install'' else ''oauth:login'');
                subject = (case account_id of None \<Rightarrow> kind | Some a \<Rightarrow> kind @ '':'' @ a)
            in map_sum id (\<lambda>state. redirect (authorization_url (ht_oauth env) state redirect_uri install))
                 (session_issue (ht_sessions env) subject (minutes 10) None)))"

text \<open>The account named after the prefix of the state's subject, if the prefix is there.\<close>

definition named_after :: "string \<Rightarrow> string \<Rightarrow> string option" where
  "named_after prefix subject =
     (if starts_with prefix subject then Some (drop (length prefix) subject) else None)"

fun recover_accounts ::
    "'p http_env \<Rightarrow> string \<Rightarrow> string \<Rightarrow> account list \<Rightarrow> 'p app_state \<Rightarrow> py_value list result \<times> 'p app_state" where
  "recover_accounts env user email [] s = (Inr [], s)"
| "recover_accounts env user email (a # as) s =
     on_ok (owner_recovery_ready (ap_accounts s) (ac_id a)) s (\<lambda>ready.
       if ready then recover_accounts env user email as s
       else (case app_enable_owner_recovery (ht_app env) (ac_id a) user email (ht_rival env (2 + length as) s) of
           (Inl e, s1) \<Rightarrow>
             (case e of
                PermissionError _ \<Rightarrow> recover_accounts env user email as s1
              | PermissionDeniedError _ \<Rightarrow> recover_accounts env user email as s1
              | SensitiveActionConfirmationError _ \<Rightarrow> recover_accounts env user email as s1
              | InvalidRecoveryCodeError _ \<Rightarrow> recover_accounts env user email as s1
              | _ \<Rightarrow> (Inl e, s1))
         | (Inr codes, s1) \<Rightarrow> and_then (recover_accounts env user email as s1) (\<lambda>rest s2.
             answer (VDict [(''accountId'', VStr (ac_id a)), (''verifiedEmail'', VStr email),
               (''codes'', VList (map VStr codes))] # rest) s2)))"

definition bootstrap_owner_recovery ::
    "'p http_env \<Rightarrow> string \<Rightarrow> string option \<Rightarrow> 'p app_state \<Rightarrow> py_value list result \<times> 'p app_state" where
  "bootstrap_owner_recovery env user email s = (case email of
      None \<Rightarrow> (Inr [], s)
    | Some e \<Rightarrow> recover_accounts env user e (app_list_accounts user s) s)"

text \<open>What an install adds to the fragment: the account of the guild, or the guild to be linked.\<close>

definition install_fragment ::
    "'p http_env \<Rightarrow> string \<Rightarrow> string option \<Rightarrow> string \<Rightarrow> 'p app_state \<Rightarrow> string result \<times> 'p app_state" where
  "install_fragment env user requested guild s =
     (let existing = app_list_accounts user s;
          selected = find (\<lambda>a. ac_discord_guild_id a = Some guild) existing;
          wanted = (case requested of None \<Rightarrow> None | Some i \<Rightarrow> find (\<lambda>a. ac_id a = i) existing);
          unlinked = (case wanted of
              Some a \<Rightarrow> if ac_discord_guild_id a = None then Some a
                else if requested = None \<and> length existing = 1 \<and> ac_discord_guild_id (hd existing) = None
                then Some (hd existing) else None
            | None \<Rightarrow> if requested = None \<and> length existing = 1 \<and> ac_discord_guild_id (hd existing) = None
                then Some (hd existing) else None)
      in case selected of
           Some a \<Rightarrow> answer (''&accountId='' @ ac_id a) s
         | None \<Rightarrow> (case unlinked of
             Some a \<Rightarrow> and_then (app_configure_discord_guild (ht_app env) (ac_id a) user guild (ht_rival env 1 s))
               (\<lambda>_. answer (''&accountId='' @ ac_id a))
           | None \<Rightarrow> answer (''&discordGuildId='' @ guild) s))"

definition callback_fragment ::
    "'p http_env \<Rightarrow> string \<Rightarrow> user \<Rightarrow> discord_identity \<Rightarrow> 'p app_state \<Rightarrow> string option result \<times> 'p app_state" where
  "callback_fragment env subject u identity s =
     (if subject = ''oauth:install'' \<or> starts_with ''oauth:install:'' subject
      then (case di_installed_guild_id identity of
          None \<Rightarrow> answer None s
        | Some guild \<Rightarrow>
            if \<not> all_decimal guild then answer None s
            else and_then (install_fragment env (us_id u) (named_after ''oauth:install:'' subject) guild s)
              (\<lambda>f. answer (Some f)))
      else (case named_after ''oauth:login:'' subject of
          None \<Rightarrow> answer (Some []) s
        | Some i \<Rightarrow>
            if \<exists>a \<in> set (app_list_accounts (us_id u) s). ac_id a = i
            then answer (Some (''&accountId='' @ i @ ''&reauthenticated=1'')) s
            else answer (Some []) s))"

definition oauth_callback ::
    "'p http_env \<Rightarrow> http_event \<Rightarrow> string \<Rightarrow> 'p app_state \<Rightarrow> web_response result \<times> 'p app_state" where
  "oauth_callback env ev redirect_uri s =
     (case (dict_get (ev_query ev) ''code'', dict_get (ev_query ev) ''state'') of
        (Some code, Some state) \<Rightarrow>
          on_ok (session_verify (ht_sessions env) state) s (\<lambda>claims.
            let subject = cl_subject claims in
            if \<not> (subject \<in> {''oauth:install'', ''oauth:login''}
                  \<or> starts_with ''oauth:install:'' subject \<or> starts_with ''oauth:login:'' subject)
            then answer (http_error 401 ''invalid_oauth'' ''OAuth state is invalid'' []) s
            else on_ok (oauth_authenticate (ht_oauth env) code redirect_uri) s (\<lambda>identity.
              and_then (app_sign_in (ht_app env) 0 (di_discord_user_id identity) (di_display_name identity) s)
                (\<lambda>u s1.
              and_then (bootstrap_owner_recovery env (us_id u) (di_verified_email identity) s1) (\<lambda>recovery s2.
              on_ok (session_issue (ht_sessions env) (us_id u) (days 30) (di_verified_email identity)) s2
                (\<lambda>session.
              and_then (callback_fragment env subject u identity (ht_rival env 0 s2)) (\<lambda>fragment s3.
                case fragment of
                  None \<Rightarrow> answer (http_error 400 ''discord_install_incomplete''
                    ''Selecione um servidor do Discord para continuar.'' []) s3
                | Some f \<Rightarrow> answer (redirect (console_url env @ ''/auth/callback#session='' @ session @ f
                    @ (if recovery = [] then []
                       else ''&ownerRecovery='' @ b64_encode (utf8_encode (json_text False '' '' (VList recovery)))))) s3))))))
      | _ \<Rightarrow> answer (http_error 400 ''invalid_oauth'' ''OAuth callback is incomplete'' []) s)"

definition discord_route ::
    "'p http_env \<Rightarrow> (string \<times> string) list \<Rightarrow> string \<Rightarrow> 'p app_state \<Rightarrow> web_response result \<times> 'p app_state" where
  "discord_route env headers raw s =
     (case (ht_discord env, ht_verify_discord env) of
        (Some discord, Some verify) \<Rightarrow>
          on_ok (verify headers raw) s (\<lambda>_.
          on_ok (json_body raw) s (\<lambda>payload.
          and_then (discord payload s) (\<lambda>r. answer (http_response 200 (ApiBody (Payload r)) []))))
      | _ \<Rightarrow> answer (http_error 503 ''not_configured'' ''Discord is not configured'' []) s)"

definition abacatepay_route ::
    "'p http_env \<Rightarrow> http_event \<Rightarrow> (string \<times> string) list \<Rightarrow> string \<Rightarrow> 'p app_state
     \<Rightarrow> web_response result \<times> 'p app_state" where
  "abacatepay_route env ev headers raw s =
     (case ht_webhook env of
        None \<Rightarrow> answer (http_error 503 ''not_configured'' ''AbacatePay is not configured'' []) s
      | Some w \<Rightarrow>
          and_then (webhook_handle w raw
              (case dict_get (ev_query ev) ''webhookSecret'' of None \<Rightarrow> [] | Some x \<Rightarrow> x)
              (case dict_get headers ''x-webhook-signature'' of None \<Rightarrow> [] | Some x \<Rightarrow> x) s)
            (\<lambda>_. answer (http_response 200 (ApiBody (Payload [(''processed'', VBool True)])) [])))"

definition activity_token ::
    "'p http_env \<Rightarrow> string \<Rightarrow> (string \<times> string) list \<Rightarrow> 'p app_state \<Rightarrow> web_response result \<times> 'p app_state" where
  "activity_token env raw cors_headers s =
     on_ok (json_body raw) s (\<lambda>body.
       case body_get body ''code'' of
         VStr code \<Rightarrow>
           if code = [] then answer (http_error 400 ''invalid_oauth'' ''OAuth code is required'' cors_headers) s
           else on_ok (authenticate_activity (ht_oauth env) code) s (\<lambda>grant.
             let identity = og_identity grant in
             and_then (app_sign_in (ht_app env) 0 (di_discord_user_id identity) (di_display_name identity) s)
               (\<lambda>u s1.
             on_ok (session_issue (ht_sessions env) (us_id u) (minutes 720) (di_verified_email identity)) s1
               (\<lambda>session. answer (http_response 200 (ApiBody (Payload
                 [(''accessToken'', VStr (og_access_token grant)), (''session'', VStr session)])) cors_headers) s1)))
       | _ \<Rightarrow> answer (http_error 400 ''invalid_oauth'' ''OAuth code is required'' cors_headers) s)"

definition api_call ::
    "'p http_env \<Rightarrow> http_event \<Rightarrow> string \<Rightarrow> (string \<times> string) list \<Rightarrow> string \<Rightarrow> (string \<times> string) list
     \<Rightarrow> 'p app_state \<Rightarrow> web_response result \<times> 'p app_state" where
  "api_call env ev path headers raw cors_headers s =
     (let authorization = (case dict_get headers ''authorization'' of None \<Rightarrow> [] | Some a \<Rightarrow> a)
      in if \<not> starts_with ''Bearer '' authorization
         then answer (http_error 401 ''unauthorized'' ''Authentication required'' cors_headers) s
         else on_ok (session_verify (ht_sessions env) (drop 7 authorization)) s (\<lambda>claims.
           on_ok (if raw = [] then Inr [] else json_body raw) s (\<lambda>body.
           and_then (handle (ht_app env) \<lparr> rq_method = ev_method ev, rq_path = path,
               rq_user_id = cl_subject claims, rq_body = body,
               rq_authenticated_at = Some (cl_issued_at claims),
               rq_verified_email = cl_verified_email claims \<rparr> s)
             (\<lambda>r. answer (http_response (rs_status r) (ApiBody (rs_body r)) cors_headers)))))"

text \<open>\<open>self._oauth_redirect_uri or self._callback_uri(event)\<close>.\<close>

definition oauth_redirect_uri :: "'p http_env \<Rightarrow> http_event \<Rightarrow> string result" where
  "oauth_redirect_uri env ev = (case ht_redirect_uri env of
      Some u \<Rightarrow> if u = [] then callback_uri ev else Inr u
    | None \<Rightarrow> callback_uri ev)"

text \<open>The \<open>try\<close> block after the body was read.\<close>

definition http_routes ::
    "'p http_env \<Rightarrow> http_event \<Rightarrow> string \<Rightarrow> (string \<times> string) list \<Rightarrow> string \<Rightarrow> (string \<times> string) list
     \<Rightarrow> 'p app_state \<Rightarrow> web_response result \<times> 'p app_state" where
  "http_routes env ev path headers raw cors_headers s =
     on_ok (oauth_redirect_uri env ev) s (\<lambda>redirect_uri.
       if ev_method ev = ''GET'' \<and> path = ''/auth/discord/start'' then (oauth_start env ev redirect_uri, s)
       else if ev_method ev = ''GET'' \<and> path = ''/auth/discord/callback''
       then oauth_callback env ev redirect_uri s
       else if ev_method ev = ''POST'' \<and> path = ''/discord/interactions'' then discord_route env headers raw s
       else if ev_method ev = ''POST'' \<and> path = ''/webhooks/abacatepay'' then abacatepay_route env ev headers raw s
       else if ev_method ev = ''POST'' \<and> path = ''/api/v1/auth/discord/activity/token''
       then activity_token env raw cors_headers s
       else if starts_with ''/api/v1/'' path then api_call env ev path headers raw cors_headers s
       else answer (http_error 404 ''not_found'' ''Not found'' cors_headers) s)"

text \<open>Header names are folded; of two that fold to one name the later wins.\<close>

definition folded_headers :: "http_event \<Rightarrow> (string \<times> string) list" where
  "folded_headers ev = foldl (\<lambda>d (k, v). dict_set (casefold k) v d) [] (ev_headers ev)"

definition http_handle ::
    "'p http_env \<Rightarrow> http_event \<Rightarrow> 'p app_state \<Rightarrow> web_response result \<times> 'p app_state" where
  "http_handle env ev s =
     (let path = (if ev_path ev = [] then ''/'' else ev_path ev);
          headers = folded_headers ev;
          cors_headers = cors env (dict_get headers ''origin'')
      in if ev_method ev = ''OPTIONS'' then answer (http_response 204 NoBody cors_headers) s
         else (case raw_body ev of
             Inl e \<Rightarrow> (http_failure cors_headers None e, s)
           | Inr raw \<Rightarrow> (case http_routes env ev path headers raw cors_headers s of
               (Inl e, s') \<Rightarrow> (http_failure cors_headers (Some raw) e, s')
             | (Inr r, s') \<Rightarrow> (Inr r, s'))))"

definition handle_discord ::
    "'p http_env \<Rightarrow> json_object \<Rightarrow> ('p app_state, json_object) call" where
  "handle_discord env payload s = (case ht_discord env of
      None \<Rightarrow> (Inl (RuntimeError ''Discord is not configured''), s)
    | Some discord \<Rightarrow> discord payload s)"

end
