(* ===== verification/HttpProperties.thy ===== *)
theory HttpProperties
  imports Http SessionProperties ApplicationRun
begin

text \<open>
  The properties of the HTTP boundary: who a request acts as, and what has to be authenticated
  before anything changes.
\<close>

section \<open>Responses\<close>

lemma http_error_status [simp]: "hs_status (http_error c k m h) = c"
  and http_response_status [simp]: "hs_status (http_response c b h) = c"
  by (simp_all add: http_error_def http_response_def)

lemma http_failure_status: "http_failure h raw e = Inr x \<Longrightarrow> 400 \<le> hs_status x"
  by (auto simp: http_failure_def split: py_error.splits option.splits if_splits)

text \<open>
  The request that the headers authenticate: the claims of a session that the key service
  confirmed and whose signed expiry is still to come.
\<close>

definition authenticated_as :: "'p http_env \<Rightarrow> http_event \<Rightarrow> session_claims \<Rightarrow> bool" where
  "authenticated_as env ev claims \<longleftrightarrow> (\<exists>token.
     dict_get (folded_headers ev) ''authorization'' = Some (''Bearer '' @ token)
     \<and> live (ht_sessions env) token claims)"

definition refused_call :: "web_response result \<times> 's \<Rightarrow> 's \<Rightarrow> bool" where
  "refused_call rs s \<longleftrightarrow> snd rs = s \<and> (\<forall>x. fst rs = Inr x \<longrightarrow> 400 \<le> hs_status x)"

text \<open>
  The application's request for an event: its method, path and body, for whom the session was
  signed, when it was issued and the e-mail it verified.
\<close>

definition acts_for :: "http_event \<Rightarrow> session_claims \<Rightarrow> api_request \<Rightarrow> bool" where
  "acts_for ev claims rq \<longleftrightarrow> rq_method rq = ev_method ev \<and> rq_path rq = ev_path ev
     \<and> (\<exists>raw. raw_body ev = Inr raw \<and> (if raw = [] then Inr [] else json_body raw) = Inr (rq_body rq))
     \<and> rq_user_id rq = cl_subject claims
     \<and> rq_authenticated_at rq = Some (cl_issued_at claims)
     \<and> rq_verified_email rq = cl_verified_email claims"

text \<open>What the API did, once the request was authenticated.\<close>

definition api_acted ::
    "'p http_env \<Rightarrow> http_event \<Rightarrow> web_response result \<times> 'p app_state \<Rightarrow> 'p app_state \<Rightarrow> bool" where
  "api_acted env ev rs s \<longleftrightarrow> (\<exists>rq claims. authenticated_as env ev claims \<and> acts_for ev claims rq
     \<and> snd rs = snd (handle (ht_app env) rq s)
     \<and> (\<forall>x. fst rs = Inr x \<longrightarrow> 400 \<le> hs_status x
          \<or> (\<exists>y. fst (handle (ht_app env) rq s) = Inr y \<and> hs_status x = rs_status y
               \<and> hs_body x = ApiBody (rs_body y))))"

lemma acted_answer:
  assumes "authenticated_as env ev claims" and "acts_for ev claims rq"
  shows "api_acted env ev (and_then (handle (ht_app env) rq s)
    (\<lambda>r. answer (http_response (rs_status r) (ApiBody (rs_body r)) h))) s"
  unfolding api_acted_def using assms
  by (cases "handle (ht_app env) rq s"; cases "fst (handle (ht_app env) rq s)")
    (auto simp: and_then_def answer_def http_response_def intro!: exI [of _ rq] exI [of _ claims])

lemma starts_with_split: "starts_with p s \<Longrightarrow> s = p @ drop (length p) s"
  unfolding starts_with_def by (metis append_take_drop_id)

lemma starts_with_prefix: "starts_with (p @ q) s \<Longrightarrow> starts_with p s"
  unfolding starts_with_def
  by (metis append_eq_conv_conj length_append min.absorb1 le_add1 take_take)

lemma starts_with_bearer:
  assumes "starts_with ''Bearer '' s"
  shows "s = ''Bearer '' @ drop 7 s"
proof -
  have "7 = length ''Bearer ''" by simp
  then show ?thesis using starts_with_split [OF assms] by metis
qed

lemma api_call_cases:
  assumes "ev_path ev = path" and "headers = folded_headers ev" and "raw_body ev = Inr raw"
  shows "(\<exists>e. api_call env ev path headers raw h s = (Inl e, s))
    \<or> refused_call (api_call env ev path headers raw h s) s
    \<or> api_acted env ev (api_call env ev path headers raw h s) s"
proof -
  define auth where "auth = (case dict_get headers ''authorization'' of None \<Rightarrow> [] | Some a \<Rightarrow> a)"
  show ?thesis
  proof (cases "starts_with ''Bearer '' auth")
    case False
    then show ?thesis by (simp add: api_call_def Let_def auth_def [symmetric] answer_def refused_call_def)
  next
    case True
    then have bearer: "dict_get (folded_headers ev) ''authorization'' = Some (''Bearer '' @ drop 7 auth)"
      using assms(2) starts_with_bearer [OF True] True
      by (cases "dict_get headers ''authorization''") (auto simp: auth_def starts_with_def)
    show ?thesis
    proof (cases "session_verify (ht_sessions env) (drop 7 auth)")
      case (Inl e)
      then show ?thesis using True by (simp add: api_call_def Let_def auth_def [symmetric])
    next
      case (Inr claims)
      have user: "authenticated_as env ev claims"
        using bearer verified_session_was_signed [OF Inr] unfolding authenticated_as_def by blast
      show ?thesis
      proof (cases "if raw = [] then Inr [] else json_body raw")
        case (Inl e)
        then show ?thesis using True \<open>session_verify _ _ = _\<close>
          by (simp add: api_call_def Let_def auth_def [symmetric])
      next
        case (Inr body)
        define rq where "rq = \<lparr> rq_method = ev_method ev, rq_path = path, rq_user_id = cl_subject claims,
          rq_body = body, rq_authenticated_at = Some (cl_issued_at claims),
          rq_verified_email = cl_verified_email claims \<rparr>"
        have "api_call env ev path headers raw h s = and_then (handle (ht_app env) rq s)
            (\<lambda>r. answer (http_response (rs_status r) (ApiBody (rs_body r)) h))"
          using True \<open>session_verify _ _ = _\<close> Inr
          by (simp add: api_call_def Let_def auth_def [symmetric] rq_def)
        moreover have "acts_for ev claims rq"
          using assms Inr by (simp add: rq_def acts_for_def)
        ultimately show ?thesis using user by (simp add: acted_answer)
      qed
    qed
  qed
qed

text \<open>The \<open>except\<close> clauses around the routes.\<close>

definition finished ::
    "(string \<times> string) list \<Rightarrow> string \<Rightarrow> web_response result \<times> 's \<Rightarrow> web_response result \<times> 's" where
  "finished h raw rs = (case rs of (Inl e, s') \<Rightarrow> (http_failure h (Some raw) e, s') | (Inr r, s') \<Rightarrow> (Inr r, s'))"

lemma finished_simps [simp]:
  "finished h raw (Inl e, s) = (http_failure h (Some raw) e, s)" "finished h raw (Inr r, s) = (Inr r, s)"
  "snd (finished h raw rs) = snd rs"
  by (auto simp: finished_def split: prod.splits sum.splits)

lemma refused_finished: "refused_call rs s \<Longrightarrow> refused_call (finished h raw rs) s"
  by (auto simp: refused_call_def finished_def dest: http_failure_status split: prod.splits sum.splits)

lemma acted_finished: "api_acted env ev rs s \<Longrightarrow> api_acted env ev (finished h raw rs) s"
  unfolding api_acted_def by (cases rs; cases "fst rs") (auto dest: http_failure_status)

lemma raised_refused: "refused_call (http_failure h raw e, s) s"
  by (auto simp: refused_call_def dest: http_failure_status)

lemma http_handle_finished:
  assumes "ev_method ev \<noteq> ''OPTIONS''" and "ev_path ev \<noteq> []"
  obtains (unread) e h where "http_handle env ev s = (http_failure h None e, s)"
  | (read) h raw where "raw_body ev = Inr raw"
      "http_handle env ev s = finished h raw (http_routes env ev (ev_path ev) (folded_headers ev) raw h s)"
  using assms that by (cases "raw_body ev") (simp_all add: http_handle_def Let_def finished_def)

section \<open>Requests act as their session\<close>

text \<open>
  C36. A request under /api/v1/, other than the exchange of an Activity's OAuth code, either changes
  nothing and gets a response with a status of 400 or more (or an exception), or it carries a Bearer
  token whose signature the key service confirmed and whose signed expiry is still to come, and does
  exactly what the API does for the signed subject, with the signed instant of authentication and
  verified e-mail and the request's own method, path and body: no header, query or body makes it act
  as anyone else.
\<close>

theorem requests_act_as_their_session:
  assumes "starts_with ''/api/v1/'' (ev_path ev)" and "ev_method ev \<noteq> ''OPTIONS''"
    and "\<not> (ev_method ev = ''POST'' \<and> ev_path ev = ''/api/v1/auth/discord/activity/token'')"
  shows "refused_call (http_handle env ev s) s \<or> api_acted env ev (http_handle env ev s) s"
proof -
  have path: "ev_path ev \<noteq> []" "ev_path ev \<noteq> ''/auth/discord/start''" "ev_path ev \<noteq> ''/auth/discord/callback''"
    "ev_path ev \<noteq> ''/discord/interactions''" "ev_path ev \<noteq> ''/webhooks/abacatepay''"
    using assms(1) by (auto simp: starts_with_def)
  from assms(2) path(1) show ?thesis
  proof (cases rule: http_handle_finished [where env = env and s = s])
    case (unread e h)
    then show ?thesis by (auto simp: refused_call_def dest: http_failure_status)
  next
    case (read h raw)
    have "http_routes env ev (ev_path ev) (folded_headers ev) raw h s
        \<in> {(Inl e, s) | e. True} \<union> {api_call env ev (ev_path ev) (folded_headers ev) raw h s}"
      using path assms by (auto simp: http_routes_def on_ok_def split: sum.splits)
    then show ?thesis
      using api_call_cases [OF refl refl read(1), of env h s]
      by (auto simp: read raised_refused dest: refused_finished acted_finished)
  qed
qed

text \<open>A function URL over \<^theory_text>\<open>ApplicationRun\<close>'s application, and a request for the Memberships.\<close>

definition web_env :: "unit http_env" where
  "web_env = \<lparr> ht_app = calm_app CHR ''x'', ht_sessions = prefix_key (seconds 1500),
     ht_oauth = \<lparr> oc_client_id = ''id'', oc_client_secret = ''s'', oc_opener = (\<lambda>_ _ _ _. Unreachable) \<rparr>,
     ht_console_url = ''https://c.example/'', ht_redirect_uri = Some ''https://c.example/cb'',
     ht_discord = None, ht_verify_discord = None, ht_webhook = None, ht_rival = (\<lambda>_ s. s) \<rparr>"

definition members_event :: "(string \<times> string) list \<Rightarrow> http_event" where
  "members_event headers = \<lparr> ev_method = ''GET'', ev_path = ''/api/v1/accounts/acc/memberships'',
     ev_headers = headers, ev_query = [], ev_body = [], ev_is_base64 = False, ev_domain_name = None \<rparr>"

lemma members_event_simps [simp]:
  "ev_method (members_event h) = ''GET''" "ev_path (members_event h) = ''/api/v1/accounts/acc/memberships''"
  "ev_headers (members_event h) = h" "ev_body (members_event h) = []" "\<not> ev_is_base64 (members_event h)"
  by (simp_all add: members_event_def)

lemma web_env_simps [simp]:
  "ht_app web_env = calm_app CHR ''x''" "ht_sessions web_env = prefix_key (seconds 1500)"
  "oauth_redirect_uri web_env ev = Inr ''https://c.example/cb''"
  by (simp_all add: web_env_def oauth_redirect_uri_def)

definition members_request :: api_request where
  "members_request = \<lparr> rq_method = ''GET'', rq_path = ''/api/v1/accounts/acc/memberships'',
     rq_user_id = ''owner'', rq_body = [], rq_authenticated_at = Some (seconds 1000), rq_verified_email = None \<rparr>"

lemma members_listed:
  "map_sum id rs_status (fst (handle (calm_app CHR ''x'') members_request (app_with created (funded 1000)))) = Inr 200"
  unfolding app_with_def by code_simp

lemma token_of_the_owner:
  assumes "session_issue (prefix_key (seconds 1000)) ''owner'' (minutes 10) None = Inr token"
  shows "session_verify (prefix_key (seconds 1500)) token = Inr \<lparr> cl_subject = ''owner'',
    cl_issued_at = seconds 1000, cl_expires_at = seconds 1600, cl_verified_email = None \<rparr>"
proof -
  have "read_token (prefix_key (seconds 1500)) token = Inr (True,
      session_payload (prefix_key (seconds 1000)) ''owner'' (minutes 10) None, VStr ''owner'',
      seconds (unix_seconds (se_clock (prefix_key (seconds 1000)))),
      seconds (unix_seconds (se_clock (prefix_key (seconds 1000)) + minutes 10)))"
    by (rule issued_token_read(1) [OF assms]) (simp_all add: prefix_key_def time_units)
  then show ?thesis
    by (simp add: session_verify_simps prefix_key_def time_units unix_seconds_def)
qed

lemma members_answered:
  assumes "session_issue (prefix_key (seconds 1000)) ''owner'' (minutes 10) None = Inr token"
  shows "map_sum id hs_status (fst (http_handle web_env (members_event [(''Authorization'', ''Bearer '' @ token)])
    (app_with created (funded 1000)))) = Inr 200"
proof -
  define b where "b = ''Bearer '' @ token"
  let ?h = "[(''Authorization'', b)]" and ?s = "app_with created (funded 1000)"
  have fold: "casefold ''Authorization'' = ''authorization''" by code_simp
  have headers: "folded_headers (members_event ?h) = [(''authorization'', b)]"
    unfolding folded_headers_def by (simp add: fold)
  have auth: "starts_with ''Bearer '' b" "drop 7 b = token"
    by (simp_all add: starts_with_def b_def)
  have empty: "utf8_encode [] = []" by code_simp
  have "http_routes web_env (members_event ?h) ''/api/v1/accounts/acc/memberships'' (folded_headers (members_event ?h)) [] h ?s
      = api_call web_env (members_event ?h) ''/api/v1/accounts/acc/memberships'' (folded_headers (members_event ?h)) [] h ?s" for h
    by (simp add: http_routes_def starts_with_def)
  moreover have "api_call web_env (members_event ?h) ''/api/v1/accounts/acc/memberships'' (folded_headers (members_event ?h)) [] h ?s
      = and_then (handle (calm_app CHR ''x'') members_request ?s)
          (\<lambda>r. answer (http_response (rs_status r) (ApiBody (rs_body r)) h))" for h
    using token_of_the_owner [OF assms]
    by (simp add: api_call_def headers auth members_request_def)
  ultimately show ?thesis using members_listed unfolding b_def [symmetric]
    by (cases "handle (calm_app CHR ''x'') members_request ?s"; cases "fst (handle (calm_app CHR ''x'') members_request ?s)")
      (simp_all add: http_handle_def Let_def raw_body_def empty answer_def and_then_def)
qed

theorem requests_act_as_their_session_witness:
  "let s = app_with created (funded 1000)
   in (\<exists>token. session_issue (prefix_key (seconds 1000)) ''owner'' (minutes 10) None = Inr token
        \<and> api_acted web_env (members_event [(''Authorization'', ''Bearer '' @ token)])
            (http_handle web_env (members_event [(''Authorization'', ''Bearer '' @ token)]) s) s)
      \<and> refused_call (http_handle web_env (members_event []) s) s"
proof -
  obtain token where t: "session_issue (prefix_key (seconds 1000)) ''owner'' (minutes 10) None = Inr token"
    by (simp add: session_issue_def prefix_key_def Let_def time_units)
  let ?s = "app_with created (funded 1000)"
  have either: "refused_call (http_handle web_env (members_event h) s) s
      \<or> api_acted web_env (members_event h) (http_handle web_env (members_event h) s) s" for h s
    by (rule requests_act_as_their_session) (simp_all add: members_event_def starts_with_def)
  have "\<not> refused_call (http_handle web_env (members_event [(''Authorization'', ''Bearer '' @ token)]) ?s) ?s"
    using members_answered [OF t]
    by (cases "fst (http_handle web_env (members_event [(''Authorization'', ''Bearer '' @ token)]) ?s)")
      (auto simp: refused_call_def)
  moreover have "\<not> authenticated_as web_env (members_event []) claims" for claims
    by (simp add: authenticated_as_def folded_headers_def members_event_def)
  ultimately show ?thesis
    using either t unfolding Let_def api_acted_def by blast
qed

section \<open>Nothing changes unauthenticated\<close>

text \<open>What each route has to be shown before it may change anything.\<close>

definition webhook_proof :: "'s webhook \<Rightarrow> http_event \<Rightarrow> bool" where
  "webhook_proof w ev \<longleftrightarrow> (\<exists>raw. raw_body ev = Inr raw
     \<and> wb_secret w = (case dict_get (ev_query ev) ''webhookSecret'' of None \<Rightarrow> [] | Some x \<Rightarrow> x)
     \<and> b64_standard (wb_hmac_sha256 w (utf8_encode (wb_hmac_key w)) raw)
       = (case dict_get (folded_headers ev) ''x-webhook-signature'' of None \<Rightarrow> [] | Some x \<Rightarrow> x))"

definition callback_proof :: "'p http_env \<Rightarrow> http_event \<Rightarrow> bool" where
  "callback_proof env ev \<longleftrightarrow> (\<exists>code state claims uri identity.
     dict_get (ev_query ev) ''code'' = Some code \<and> dict_get (ev_query ev) ''state'' = Some state
     \<and> live (ht_sessions env) state claims
     \<and> starts_with ''oauth:'' (cl_subject claims)
     \<and> oauth_redirect_uri env ev = Inr uri
     \<and> oauth_authenticate (ht_oauth env) code uri = Inr identity)"

definition activity_proof :: "'p http_env \<Rightarrow> http_event \<Rightarrow> bool" where
  "activity_proof env ev \<longleftrightarrow> (\<exists>raw body code grant. raw_body ev = Inr raw \<and> json_body raw = Inr body
     \<and> body_get body ''code'' = VStr code \<and> authenticate_activity (ht_oauth env) code = Inr grant)"

definition authentic :: "'p http_env \<Rightarrow> http_event \<Rightarrow> bool" where
  "authentic env ev \<longleftrightarrow>
     ev_method ev = ''GET'' \<and> ev_path ev = ''/auth/discord/callback'' \<and> callback_proof env ev
   \<or> ev_method ev = ''POST'' \<and> ev_path ev = ''/discord/interactions''
       \<and> (\<exists>verify raw. ht_verify_discord env = Some verify \<and> raw_body ev = Inr raw
            \<and> verify (folded_headers ev) raw = Inr ())
   \<or> ev_method ev = ''POST'' \<and> ev_path ev = ''/webhooks/abacatepay''
       \<and> (\<exists>w. ht_webhook env = Some w \<and> webhook_proof w ev)
   \<or> ev_method ev = ''POST'' \<and> ev_path ev = ''/api/v1/auth/discord/activity/token''
       \<and> activity_proof env ev
   \<or> starts_with ''/api/v1/'' (ev_path ev) \<and> (\<exists>claims. authenticated_as env ev claims)"

lemma webhook_changes:
  assumes "snd (webhook_handle w raw secret signature s) \<noteq> s"
  shows "wb_secret w = secret" and "b64_standard (wb_hmac_sha256 w (utf8_encode (wb_hmac_key w)) raw) = signature"
  using assms
  by (auto simp: webhook_handle_def compare_digest_def Let_def on_ok_def split: if_splits)

lemma and_then_same: "snd p = s \<Longrightarrow> (\<And>a. snd (f a s) = s) \<Longrightarrow> snd (and_then p f) = s"
  by (cases p) (auto simp: and_then_def on_ok_def split: sum.splits)

lemma webhook_route_changes:
  assumes "snd (abacatepay_route env ev (folded_headers ev) raw s) \<noteq> s" and "raw_body ev = Inr raw"
  shows "\<exists>w. ht_webhook env = Some w \<and> webhook_proof w ev"
proof (cases "ht_webhook env")
  case None
  then show ?thesis using assms(1) by (simp add: abacatepay_route_def answer_def)
next
  case (Some w)
  then have "snd (webhook_handle w raw (case dict_get (ev_query ev) ''webhookSecret'' of None \<Rightarrow> [] | Some x \<Rightarrow> x)
      (case dict_get (folded_headers ev) ''x-webhook-signature'' of None \<Rightarrow> [] | Some x \<Rightarrow> x) s) \<noteq> s"
    using assms(1) by (auto simp: abacatepay_route_def answer_def intro: and_then_same)
  from webhook_changes [OF this] Some assms(2) show ?thesis by (auto simp: webhook_proof_def)
qed

lemma callback_changes:
  assumes "snd (oauth_callback env ev uri s) \<noteq> s" and "oauth_redirect_uri env ev = Inr uri"
  shows "callback_proof env ev"
proof -
  obtain code state where q: "dict_get (ev_query ev) ''code'' = Some code" "dict_get (ev_query ev) ''state'' = Some state"
    using assms by (auto simp: oauth_callback_def answer_def split: option.splits)
  obtain claims where v: "session_verify (ht_sessions env) state = Inr claims"
    using assms q by (auto simp: oauth_callback_def on_ok_def split: sum.splits)
  have subject: "cl_subject claims \<in> {''oauth:install'', ''oauth:login''}
      \<or> starts_with ''oauth:install:'' (cl_subject claims) \<or> starts_with ''oauth:login:'' (cl_subject claims)"
    using assms q v by (auto simp: oauth_callback_def answer_def Let_def split: if_splits)
  obtain identity where "oauth_authenticate (ht_oauth env) code uri = Inr identity"
    using assms q v subject by (auto simp: oauth_callback_def answer_def Let_def on_ok_def split: sum.splits)
  moreover have "starts_with ''oauth:'' (cl_subject claims)"
    using subject starts_with_prefix [of "''oauth:''" "''install:''" "cl_subject claims"]
      starts_with_prefix [of "''oauth:''" "''login:''" "cl_subject claims"] by (auto simp: starts_with_def)
  ultimately show ?thesis
    using q assms(2) verified_session_was_signed [OF v] unfolding callback_proof_def by blast
qed

lemma interaction_changes:
  assumes "snd (discord_route env headers raw s) \<noteq> s"
  shows "\<exists>verify. ht_verify_discord env = Some verify \<and> verify headers raw = Inr ()"
  using assms by (auto simp: discord_route_def answer_def on_ok_def split: option.splits sum.splits)

lemma activity_changes:
  assumes "snd (activity_token env raw h s) \<noteq> s" and "raw_body ev = Inr raw"
  shows "activity_proof env ev"
  using assms unfolding activity_proof_def
  by (auto simp: activity_token_def answer_def on_ok_def split: sum.splits py_value.splits if_splits)

lemma api_changes:
  assumes "snd (api_call env ev (ev_path ev) (folded_headers ev) raw h s) \<noteq> s" and "raw_body ev = Inr raw"
  shows "\<exists>claims. authenticated_as env ev claims"
  using api_call_cases [OF refl refl assms(2), of env h s] assms(1)
  by (auto simp: refused_call_def api_acted_def)

lemma snd_http_handle: "snd (http_handle env ev s) = (if ev_method ev = ''OPTIONS'' then s
   else case raw_body ev of Inl e \<Rightarrow> s
     | Inr raw \<Rightarrow> snd (http_routes env ev (if ev_path ev = [] then ''/'' else ev_path ev) (folded_headers ev) raw
         (cors env (dict_get (folded_headers ev) ''origin'')) s))"
  by (simp add: http_handle_def Let_def answer_def split: sum.split prod.split)

lemma no_routes_at_root: "snd (http_routes env ev ''/'' headers raw h s) = s"
  by (simp add: http_routes_def answer_def on_ok_def starts_with_def split: sum.split)

lemma route_changes:
  assumes "snd (http_routes env ev (ev_path ev) (folded_headers ev) raw h s) \<noteq> s" and raw: "raw_body ev = Inr raw"
  shows "authentic env ev"
proof -
  obtain uri where uri: "oauth_redirect_uri env ev = Inr uri"
    using assms(1) by (cases "oauth_redirect_uri env ev") (simp_all add: http_routes_def)
  consider
      "ev_method ev = ''GET''" "ev_path ev = ''/auth/discord/callback''" "snd (oauth_callback env ev uri s) \<noteq> s"
    | "ev_method ev = ''POST''" "ev_path ev = ''/discord/interactions''"
        "snd (discord_route env (folded_headers ev) raw s) \<noteq> s"
    | "ev_method ev = ''POST''" "ev_path ev = ''/webhooks/abacatepay''"
        "snd (abacatepay_route env ev (folded_headers ev) raw s) \<noteq> s"
    | "ev_method ev = ''POST''" "ev_path ev = ''/api/v1/auth/discord/activity/token''"
        "snd (activity_token env raw h s) \<noteq> s"
    | "starts_with ''/api/v1/'' (ev_path ev)" "snd (api_call env ev (ev_path ev) (folded_headers ev) raw h s) \<noteq> s"
    using assms(1) uri by (simp add: http_routes_def answer_def split: if_splits)
  then show ?thesis
  proof cases
    case 1
    then show ?thesis unfolding authentic_def using callback_changes uri by blast
  next
    case 2
    then show ?thesis unfolding authentic_def using interaction_changes raw by blast
  next
    case 3
    then show ?thesis unfolding authentic_def using webhook_route_changes raw by blast
  next
    case 4
    then show ?thesis unfolding authentic_def using activity_changes raw by blast
  next
    case 5
    then show ?thesis unfolding authentic_def using api_changes raw by blast
  qed
qed

text \<open>
  C37. Nothing changes unauthenticated. Whatever is sent to the function URL, no store changes
  unless the route got its proof first: a session that the key service confirmed and whose signed
  expiry is still to come (the API), a signed and unexpired state and a code that Discord accepted
  (the OAuth callback), a signature of the body (the
  interactions), both webhook secrets (the payments), or a code that Discord accepted (an
  Activity).
\<close>

theorem every_change_is_authenticated:
  "snd (http_handle env ev s) = s \<or> authentic env ev"
  using route_changes [of env ev] no_routes_at_root [of env ev]
  by (auto simp: snd_http_handle split: sum.split if_splits)

end
