(* ===== verification/Notifications.thy ===== *)
theory Notifications
  imports AbacatePay Application
begin

text \<open>
  Messages on Discord (\<open>experience/notifications.py\<close>): the REST client over the opener of requests,
  the private message to an invited friend and the message about an operation that ended. SHA-256
  is a parameter. The messages are kept in ASCII: accents are dropped and an emoji is its name in
  brackets.
\<close>

section \<open>The REST client\<close>

record message_client =
  mc_bot_token :: string
  mc_opener :: http_opener

definition mk_message_client :: "string \<Rightarrow> http_opener \<Rightarrow> message_client result" where
  "mk_message_client token opener =
     (if token = [] then Inl (ValueError ''Discord Bot Token is required'')
      else Inr \<lparr> mc_bot_token = token, mc_opener = opener \<rparr>)"

definition bot_headers :: "message_client \<Rightarrow> (string \<times> string) list" where
  "bot_headers c = [(''Authorization'', ''Bot '' @ mc_bot_token c), (''Content-Type'', ''application/json''),
     (''User-Agent'', ''GameWake (https://gamewake.example, 1.0)'')]"

text \<open>\<open>json.dumps(payload, ensure_ascii=False, separators=(",", ":")).encode()\<close>.\<close>

definition compact_body :: "(string \<times> py_value) list \<Rightarrow> string" where
  "compact_body d = utf8_encode (json_text False [] (VDict d))"

definition create_message :: "message_client \<Rightarrow> string \<Rightarrow> string \<Rightarrow> string \<Rightarrow> bool \<Rightarrow> unit result" where
  "create_message c channel content nonce enforce_nonce =
     (case mc_opener c ''POST'' (''https://discord.com/api/v10/channels/'' @ channel @ ''/messages'') (bot_headers c)
         (Some (compact_body [(''content'', VStr content), (''nonce'', VStr nonce),
            (''enforce_nonce'', VBool enforce_nonce), (''allowed_mentions'', VDict [(''parse'', VList [])])])) of
        Reply _ \<Rightarrow> Inr ()
      | _ \<Rightarrow> Inl (RuntimeError ''Discord notification failed''))"

definition direct_channel :: "string \<Rightarrow> string option" where
  "direct_channel body = (case loads_bytes body of
      Inr (VDict d) \<Rightarrow> (case dict_get d ''id'' of
          Some v \<Rightarrow> if py_str v = [] then None else Some (py_str v)
        | None \<Rightarrow> None)
    | _ \<Rightarrow> None)"

definition create_direct :: "message_client \<Rightarrow> string \<Rightarrow> string \<Rightarrow> string \<Rightarrow> bool \<Rightarrow> unit result" where
  "create_direct c recipient content nonce enforce_nonce =
     (let failed = Inl (RuntimeError ''Discord direct message channel failed'')
      in case mc_opener c ''POST'' ''https://discord.com/api/v10/users/@me/channels'' (bot_headers c)
           (Some (compact_body [(''recipient_id'', VStr recipient)])) of
           Reply b \<Rightarrow> (case direct_channel b of
               Some channel \<Rightarrow> create_message c channel content nonce enforce_nonce
             | None \<Rightarrow> failed)
         | _ \<Rightarrow> failed)"

section \<open>The notifiers\<close>

text \<open>\<open>sha256(...).hexdigest()\<close> is the parameter \<open>sha\<close>.\<close>

definition nl :: string where
  "nl = [CHR 0x0A]"

definition invitation_content :: "string \<Rightarrow> account \<Rightarrow> invitation \<Rightarrow> string \<Rightarrow> string" where
  "invitation_content url a i inviter =
     ''[video game] **'' @ inviter @ '' convidou voce para '' @ ac_name a @ '' no GameWake.**'' @ nl
     @ ''Voce entrara como **Player** depois de aceitar.'' @ nl
     @ ''Aceitar convite: '' @ url @ ''/convites/'' @ ac_id a @ ''/'' @ iv_id i @ nl
     @ ''Se preferir, use `/gamewake aceitar` no servidor do grupo.''"

definition notify_invitation ::
    "message_client \<Rightarrow> (string \<Rightarrow> string) \<Rightarrow> string \<Rightarrow> account \<Rightarrow> invitation \<Rightarrow> string \<Rightarrow> string \<Rightarrow> bool result" where
  "notify_invitation c sha url a i inviter recipient =
     (case create_direct c recipient (invitation_content (strip_slashes url) a i inviter)
         (take 25 (sha (utf8_encode (''invitation:'' @ iv_id i)))) True of
        Inl e \<Rightarrow> Inl e | Inr _ \<Rightarrow> Inr True)"

definition operation_content :: "world \<Rightarrow> world_operation \<Rightarrow> string" where
  "operation_content w x =
     (if wo_status x = OP_FAILED \<or> wo_status x = OP_NEEDS_ATTENTION
      then ''[red circle] **'' @ wd_name w @ ''** precisa de atencao. Abra a GameWake Console para revisar a operacao.''
      else if wo_status x = OP_CANCELLED
      then ''[orange circle] A operacao de **'' @ wd_name w @ ''** foi cancelada com seguranca.''
      else case wo_operation_type x of
        WAKE \<Rightarrow> ''[green circle] **'' @ wd_name w
          @ ''** esta Online. Use `/gamewake conectar` para receber o endereco e a senha em privado.''
      | SLEEP \<Rightarrow> ''[black circle] **'' @ wd_name w @ ''** foi salvo, verificado e esta dormindo.''
      | RECOVER \<Rightarrow> ''[green circle] **'' @ wd_name w @ ''** foi recuperado e esta Online.'')"

definition notify_channel ::
    "message_client \<Rightarrow> (string \<Rightarrow> string) \<Rightarrow> account \<Rightarrow> world \<Rightarrow> world_operation \<Rightarrow> bool result" where
  "notify_channel c sha a w x = (case ac_discord_channel_id a of
      None \<Rightarrow> Inr False
    | Some channel \<Rightarrow> (case create_message c channel (operation_content w x)
          (take 25 (sha (utf8_encode (wo_id x)))) True of
        Inl e \<Rightarrow> Inl e | Inr _ \<Rightarrow> Inr True))"

end
