(* ===== verification/Discord.thy ===== *)
theory Discord
  imports Notifications Api
begin

text \<open>
  The Discord experience (\<open>experience/discord.py\<close>): the command controller over the application, the
  adapter of Discord's interactions and the client that edits a deferred response. Texts are kept
  in ASCII, as in the messages. \<open>dc_rival env k\<close> is what other clients do before the \<open>k\<close>-th step of
  a command that reads the stores again; a notification acts on the providers' state.
\<close>

section \<open>The controller's data\<close>

record discord_user =
  du_id :: string
  du_display_name :: string

record discord_interaction =
  in_id :: string
  in_guild_id :: string
  in_discord_user_id :: string
  in_display_name :: string
  in_command :: string
  in_channel_id :: "string option"
  in_selected_users :: "discord_user list"
  in_world_id :: "string option"

record world_option =
  op_id :: string
  op_label :: string
  op_status_text :: string

record command_response =
  dr_content :: string
  dr_ephemeral :: bool
  dr_world_options :: "world_option list"
  dr_links :: "(string \<times> string) list"
  dr_select_command :: "string option"

definition private_reply :: "string \<Rightarrow> (string \<times> string) list \<Rightarrow> command_response" where
  "private_reply content links = \<lparr> dr_content = content, dr_ephemeral = True, dr_world_options = [],
     dr_links = links, dr_select_command = None \<rparr>"

definition public_reply :: "string \<Rightarrow> command_response" where
  "public_reply content = \<lparr> dr_content = content, dr_ephemeral = False, dr_world_options = [],
     dr_links = [], dr_select_command = None \<rparr>"

text \<open>The notifier takes the Account, the Invitation, the inviter's name and the friend.\<close>

record 'p discord_env =
  dc_app :: "'p app_env"
  dc_console_url :: string
  dc_notifier :: "(account \<Rightarrow> invitation \<Rightarrow> string \<Rightarrow> string \<Rightarrow> 'p \<Rightarrow> bool result \<times> 'p) option"
  dc_rival :: "nat \<Rightarrow> 'p app_state \<Rightarrow> 'p app_state"

definition discord_console :: "'p discord_env \<Rightarrow> string" where
  "discord_console env = strip_slashes (dc_console_url env)"

section \<open>What is shown\<close>

definition operation_phases :: "(string, string list) dict" where
  "operation_phases =
    [(''wake'', [''requested'', ''provisioning_runtime'', ''restoring_world'', ''applying_configuration'',
        ''starting_game'', ''checking_game_health'', ''complete'']),
     (''sleep'', [''requested'', ''checking_players'', ''saving_game'', ''stopping_game'', ''persisting_world'',
        ''creating_backup'', ''releasing_runtime'', ''complete''])]"

definition operation_phase_copy :: "(string, string \<times> string) dict" where
  "operation_phase_copy =
    [(''requested'', (''Pedido recebido'', ''A GameWake esta validando o despertar e protegendo a reserva.'')),
     (''provisioning_runtime'', (''Reservando a maquina do jogo'',
        ''Separando uma maquina temporaria so para este World.'')),
     (''restoring_world'', (''Preparando a maquina do jogo'',
        ''Iniciando o ambiente e restaurando seu World protegido.'')),
     (''applying_configuration'', (''Aplicando suas configuracoes'',
        ''Carregando as regras salvas para esta sessao.'')),
     (''starting_game'', (''Iniciando Palworld'', ''Abrindo o servidor com o progresso restaurado.'')),
     (''checking_game_health'', (''Confirmando que esta pronto'',
        ''Testando a conexao real antes de liberar o endereco.'')),
     (''checking_players'', (''Verificando jogadores'',
        ''Confirmando que ninguem sera desconectado sem aviso.'')),
     (''saving_game'', (''Salvando o progresso'', ''Pedindo ao Palworld o save mais recente.'')),
     (''stopping_game'', (''Encerrando Palworld'', ''Fechando o jogo depois do save.'')),
     (''persisting_world'', (''Protegendo o World'', ''Enviando o progresso para o armazenamento duravel.'')),
     (''creating_backup'', (''Validando o Backup'', ''Conferindo a copia recuperavel.'')),
     (''releasing_runtime'', (''Liberando a maquina'', ''Encerrando a cobranca da infraestrutura temporaria.'')),
     (''complete'', (''Operacao concluida'', ''A etapa final foi concluida com seguranca.''))]"

definition to_upper :: "char \<Rightarrow> char" where
  "to_upper c = (let n = of_char c :: nat in if 97 \<le> n \<and> n \<le> 122 then char_of (n - 32) else c)"

text \<open>\<open>phase.replace("_", " ").capitalize()\<close>, of an ASCII text.\<close>

definition capitalize :: "string \<Rightarrow> string" where
  "capitalize s = (case s of [] \<Rightarrow> [] | c # cs \<Rightarrow> to_upper c # casefold cs)"

text \<open>\<open>phases.index(phase)\<close>.\<close>

definition index_of :: "string list \<Rightarrow> string \<Rightarrow> nat" where
  "index_of xs x = length (takeWhile (\<lambda>y. y \<noteq> x) xs)"

definition operation_progress :: "world_operation \<Rightarrow> string" where
  "operation_progress x =
     (let phase = phase_value (wo_phase x);
          phases = (case dict_get operation_phases (operation_type_value (wo_operation_type x)) of
            Some ps \<Rightarrow> ps | None \<Rightarrow> [phase]);
          current = (if phase \<in> set phases then index_of phases phase + 1 else 1);
          (label, detail) = (case dict_get operation_phase_copy phase of
            Some c \<Rightarrow> c
          | None \<Rightarrow> (capitalize (map (\<lambda>c. if c = CHR ''_'' then CHR '' '' else c) phase),
              ''Acompanhando a operacao persistida.''))
      in ''Etapa '' @ show_int (int current) @ '' de '' @ show_int (int (length phases)) @ '': **'' @ label
         @ ''**'' @ nl @ detail)"

definition status_label :: "string \<Rightarrow> string" where
  "status_label s = (case dict_get [(''sleeping'', ''dormindo''), (''waking'', ''acordando''), (''online'', ''online''),
     (''going_to_sleep'', ''indo dormir''), (''needs_attention'', ''precisa de atencao''),
     (''pending_deletion'', ''exclusao pendente'')] s of Some l \<Rightarrow> l | None \<Rightarrow> s)"

definition status_icon :: "string \<Rightarrow> string" where
  "status_icon s = (case dict_get [(''sleeping'', ''[black circle]''), (''waking'', ''[yellow circle]''),
     (''online'', ''[green circle]''), (''going_to_sleep'', ''[orange circle]''),
     (''needs_attention'', ''[red circle]''), (''pending_deletion'', ''[white circle]'')] s of
       Some l \<Rightarrow> l | None \<Rightarrow> ''[white circle]'')"

section \<open>Commands\<close>

text \<open>\<open>_resolve_world\<close>: the World, or the response that asks for one.\<close>

definition choose_world :: "'p discord_env \<Rightarrow> string \<Rightarrow> string option \<Rightarrow> string \<Rightarrow> world list
    \<Rightarrow> command_response + world" where
  "choose_world env account_id selected command worlds = (case selected of
      Some i \<Rightarrow> (case find (\<lambda>w. wd_id w = i) worlds of
          Some w \<Rightarrow> Inr w
        | None \<Rightarrow> Inl (private_reply ''O World solicitado nao esta disponivel para voce.'' []))
    | None \<Rightarrow> (case worlds of
          [w] \<Rightarrow> Inr w
        | [] \<Rightarrow> Inl (private_reply (''Nenhum World foi criado ainda. Abra a GameWake Console, ''
              @ ''crie o primeiro World e depois use `/gamewake acordar`.'')
              [(''Criar primeiro World'', discord_console env @ ''/accounts/'' @ account_id)])
        | _ \<Rightarrow> Inl \<lparr> dr_content = ''Escolha um World para continuar:'', dr_ephemeral = True,
            dr_world_options = map (\<lambda>w. \<lparr> op_id = wd_id w, op_label = wd_name w,
              op_status_text = world_status_value (wd_status w) \<rparr>) worlds,
            dr_links = [], dr_select_command = Some command \<rparr>))"

definition on_world ::
    "'p discord_env \<Rightarrow> account \<Rightarrow> user \<Rightarrow> discord_interaction
     \<Rightarrow> (world \<Rightarrow> 'p app_state \<Rightarrow> command_response result \<times> 'p app_state)
     \<Rightarrow> 'p app_state \<Rightarrow> command_response result \<times> 'p app_state" where
  "on_world env account actor i f s =
     on_ok (app_list_worlds (dc_app env) (ac_id account) (us_id actor) s) s (\<lambda>worlds.
       case choose_world env (ac_id account) (in_world_id i) (in_command i) worlds of
         Inl r \<Rightarrow> (Inr r, s)
       | Inr w \<Rightarrow> f w (dc_rival env 1 s))"

definition command_start ::
    "'p discord_env \<Rightarrow> discord_interaction \<Rightarrow> 'p app_state \<Rightarrow> command_response result \<times> 'p app_state" where
  "command_start env i s =
     and_then (start_discord_account (dc_app env) (in_guild_id i) (in_discord_user_id i) (in_display_name i)
         (in_channel_id i) s) (\<lambda>(account, _) s1.
       (Inr (private_reply
          (''[check mark] **Conta do servidor pronta. Proximos passos:**'' @ nl
           @ ''1. Abra a Console e crie o primeiro World.'' @ nl
           @ ''2. Use `/gamewake convidar` para chamar os amigos; cada um aceita com `/gamewake aceitar`.'' @ nl
           @ ''3. Adicione creditos via Pix e use `/gamewake acordar` quando forem jogar.'')
          [(''Abrir GameWake Console'', discord_console env @ ''/accounts/'' @ ac_id account)]), s1))"

definition command_accept ::
    "'p discord_env \<Rightarrow> account \<Rightarrow> user \<Rightarrow> 'p app_state \<Rightarrow> command_response result \<times> 'p app_state" where
  "command_accept env account actor s =
     and_then (app_accept_pending_invitation (dc_app env) (ac_id account) (us_id actor) s)
       (\<lambda>_ s1. (Inr (private_reply ''[check mark] Convite aceito. Voce agora tem a Role Player.'' []), s1))"

definition is_runtime_error :: "py_error \<Rightarrow> bool" where
  "is_runtime_error e = (case e of RuntimeError _ \<Rightarrow> True | ConcurrentBillingUpdate _ \<Rightarrow> True
     | PaymentProviderError _ \<Rightarrow> True | RuntimeNotReady _ \<Rightarrow> True | _ \<Rightarrow> False)"

text \<open>The loop over \<open>zip(..., strict=True)\<close>: the names of the friends the message did not reach.\<close>

fun notify_all ::
    "(account \<Rightarrow> invitation \<Rightarrow> string \<Rightarrow> string \<Rightarrow> 'p \<Rightarrow> bool result \<times> 'p) \<Rightarrow> account \<Rightarrow> string
     \<Rightarrow> invitation list \<Rightarrow> discord_user list \<Rightarrow> 'p app_state \<Rightarrow> string list result \<times> 'p app_state" where
  "notify_all notify a inviter [] [] s = (Inr [], s)"
| "notify_all notify a inviter (v # vs) (f # fs) s =
     (case outside (notify a v inviter (du_id f)) s of
        (Inl e, s1) \<Rightarrow> if is_runtime_error e
          then and_then (notify_all notify a inviter vs fs s1) (\<lambda>names s2. (Inr (du_display_name f # names), s2))
          else (Inl e, s1)
      | (Inr _, s1) \<Rightarrow> notify_all notify a inviter vs fs s1)"
| "notify_all notify a inviter vs fs s = (Inl (ValueError ''zip() arguments have different lengths''), s)"

definition notification_copy :: "bool \<Rightarrow> string list \<Rightarrow> string" where
  "notification_copy notified failures =
     (if failures \<noteq> [] then join_comma failures
        @ '' nao recebeu a mensagem privada, mas o convite continua valido. ''
        @ ''Peca para usar `/gamewake aceitar` neste servidor.''
      else if notified then ''Cada amigo recebeu uma mensagem privada com o link para aceitar.''
      else ''Agora cada amigo precisa usar `/gamewake aceitar` neste servidor.'')"

definition command_invite ::
    "'p discord_env \<Rightarrow> account \<Rightarrow> user \<Rightarrow> discord_interaction \<Rightarrow> 'p app_state
     \<Rightarrow> command_response result \<times> 'p app_state" where
  "command_invite env account actor i s =
     and_then (invite_discord_friends (dc_app env) (ac_id account) (us_id actor)
         (map (\<lambda>f. (du_id f, du_display_name f)) (in_selected_users i)) s) (\<lambda>invitations s1.
     and_then (case dc_notifier env of
         None \<Rightarrow> (Inr [], s1)
       | Some notify \<Rightarrow> notify_all notify account (in_display_name i) invitations (in_selected_users i) s1)
       (\<lambda>failures s2. (Inr (private_reply (''[check mark] '' @ show_int (int (length invitations)) @ '' ''
          @ (if length invitations = 1 then ''convite criado'' else ''convites criados'') @ ''. ''
          @ notification_copy (dc_notifier env \<noteq> None) failures) []), s2)))"

definition command_status ::
    "'p discord_env \<Rightarrow> account \<Rightarrow> user \<Rightarrow> world \<Rightarrow> 'p app_state \<Rightarrow> command_response result \<times> 'p app_state" where
  "command_status env account actor w s =
     on_ok (list_operations (worlds_env_in (dc_app env) 0 s) (ac_id account) (wd_id w) (us_id actor) (ap_worlds s)) s
       (\<lambda>operations. let status = world_status_value (wd_status w)
         in (Inr (public_reply (status_icon status @ '' **'' @ wd_name w @ ''**'' @ nl @ ''Estado: **''
              @ status_label status @ ''**'' @ (case find (\<lambda>x. is_active (wo_status x)) (rev operations) of
                  None \<Rightarrow> [] | Some x \<Rightarrow> nl @ operation_progress x))), s))"

definition command_wake ::
    "'p discord_env \<Rightarrow> account \<Rightarrow> user \<Rightarrow> discord_interaction \<Rightarrow> world \<Rightarrow> 'p app_state
     \<Rightarrow> command_response result \<times> 'p app_state" where
  "command_wake env account actor i w s =
     and_then (app_request_wake (dc_app env) (ac_id account) (wd_id w) (us_id actor)
         (''discord:'' @ in_id i @ '':wake'') s) (\<lambda>x s1.
       (Inr (public_reply (''[yellow circle] **'' @ wd_name w @ ''** esta acordando. Operacao `'' @ take 8 (wo_id x)
          @ ''` iniciada.'' @ nl @ operation_progress x @ nl
          @ ''Acompanhe a etapa atual com `/gamewake status`.'')), s1))"

definition command_connect ::
    "'p discord_env \<Rightarrow> account \<Rightarrow> user \<Rightarrow> world \<Rightarrow> 'p app_state \<Rightarrow> command_response result \<times> 'p app_state" where
  "command_connect env account actor w s =
     and_then (app_connection_details (dc_app env) (ac_id account) (wd_id w) (us_id actor) s) (\<lambda>d s1.
       (Inr (private_reply (''[lock] **Conexao privada - '' @ wd_name w @ ''**'' @ nl @ ''Endereco: `'' @ cd_host d
          @ '':'' @ show_int (cd_port d) @ ''`''
          @ (case cd_password d of None \<Rightarrow> [] | Some p \<Rightarrow> nl @ ''Senha: `'' @ p @ ''`'')) []), s1))"

definition command_sleep ::
    "'p discord_env \<Rightarrow> account \<Rightarrow> user \<Rightarrow> discord_interaction \<Rightarrow> world \<Rightarrow> 'p app_state
     \<Rightarrow> command_response result \<times> 'p app_state" where
  "command_sleep env account actor i w s =
     and_then (app_request_sleep (dc_app env) (ac_id account) (wd_id w) (us_id actor)
         (''discord:'' @ in_id i @ '':sleep'') False s) (\<lambda>x s1.
       (Inr (public_reply (''[orange circle] O sono seguro de **'' @ wd_name w @ ''** foi iniciado. Operacao `''
          @ take 8 (wo_id x) @ ''`.'')), s1))"

definition command_configure :: "'p discord_env \<Rightarrow> account \<Rightarrow> world \<Rightarrow> command_response" where
  "command_configure env account w = private_reply (''Configure **'' @ wd_name w @ ''** na GameWake Console.'')
     [(''Abrir configuracoes'', discord_console env @ ''/accounts/'' @ ac_id account @ ''/worlds/'' @ wd_id w
        @ ''/configuration'')]"

definition help_text :: string where
  "help_text =
     ''**COMECE AQUI**'' @ nl
     @ ''1. `/gamewake comecar` - cria a conta deste servidor.'' @ nl
     @ ''2. Abra a Console e crie o primeiro World.'' @ nl
     @ ''3. Adicione creditos e use `/gamewake acordar`.'' @ nl @ nl
     @ ''**Comandos GameWake**'' @ nl
     @ ''`/gamewake convidar` - convida ate tres amigos de uma vez.'' @ nl
     @ ''`/gamewake aceitar` - cada amigo aceita seu convite pendente.'' @ nl
     @ ''`/gamewake status` - mostra o estado do World.'' @ nl
     @ ''`/gamewake acordar` - prepara o World para jogar.'' @ nl
     @ ''`/gamewake conectar` - entrega conexao e senha em privado.'' @ nl
     @ ''`/gamewake dormir` - salva e inicia o sono seguro.'' @ nl
     @ ''`/gamewake configurar` - abre a configuracao guiada.'' @ nl
     @ ''`/gamewake console` - abre a GameWake Console.''"

text \<open>The commands of a User that the guild's Account knows.\<close>

definition principal_command ::
    "'p discord_env \<Rightarrow> account \<Rightarrow> user \<Rightarrow> discord_interaction \<Rightarrow> 'p app_state
     \<Rightarrow> command_response result \<times> 'p app_state" where
  "principal_command env account actor i s =
     (if in_command i = ''aceitar'' then command_accept env account actor s
      else if in_command i = ''convidar'' then command_invite env account actor i s
      else if in_command i = ''status'' then on_world env account actor i (command_status env account actor) s
      else if in_command i = ''acordar'' then on_world env account actor i (command_wake env account actor i) s
      else if in_command i = ''conectar'' then on_world env account actor i (command_connect env account actor) s
      else if in_command i = ''configurar''
      then on_world env account actor i (\<lambda>w s1. (Inr (command_configure env account w), s1)) s
      else if in_command i = ''dormir'' then on_world env account actor i (command_sleep env account actor i) s
      else if in_command i = ''console'' then (Inr (private_reply ''Abra a GameWake Console para gerenciar o grupo.''
        [(''Abrir GameWake Console'', discord_console env @ ''/accounts/'' @ ac_id account)]), s)
      else if in_command i = ''ajuda'' then (Inr (private_reply help_text []), s)
      else (Inr (private_reply ''Comando desconhecido. Use `/gamewake ajuda`.'' []), s))"

definition is_permission_error :: "py_error \<Rightarrow> bool" where
  "is_permission_error e = (case e of PermissionError _ \<Rightarrow> True | PermissionDeniedError _ \<Rightarrow> True
     | SensitiveActionConfirmationError _ \<Rightarrow> True | InvalidRecoveryCodeError _ \<Rightarrow> True | _ \<Rightarrow> False)"

text \<open>\<open>str(error)\<close> of a \<open>ValueError\<close>.\<close>

definition error_text :: "py_error \<Rightarrow> string" where
  "error_text e = (case e of
      ValueError m \<Rightarrow> m | InsufficientFundsError m \<Rightarrow> m | WorldBudgetExceeded m \<Rightarrow> m | LastOwnerRemovalError m \<Rightarrow> m
    | DiscordGuildAlreadyLinkedError m \<Rightarrow> m
    | ExistingMembershipInvitationError _ \<Rightarrow> ''pelo menos um jogador convidado ja faz parte deste grupo''
    | StorageBlockedError m \<Rightarrow> m | SettingsValidationError m \<Rightarrow> m | GameConfigurationError m \<Rightarrow> m
    | InvalidSession m \<Rightarrow> m | InvalidWebhookSignature m \<Rightarrow> m | InvalidWebhookPayload m \<Rightarrow> m
    | SignatureValidationError m \<Rightarrow> m | _ \<Rightarrow> [])"

definition command_failure :: "py_error \<Rightarrow> command_response result" where
  "command_failure e =
     (if is_permission_error e then Inr (private_reply ''[no entry] Voce nao tem permissao para esta acao.'' [])
      else (case e of
        KeyError _ \<Rightarrow> Inr (private_reply ''Este servidor Discord ainda nao esta conectado ao GameWake.'' [])
      | _ \<Rightarrow> if is_value_error e
          then Inr (private_reply (''Nao foi possivel concluir: '' @ error_text e) []) else Inl e))"

definition discord_command ::
    "'p discord_env \<Rightarrow> discord_interaction \<Rightarrow> 'p app_state \<Rightarrow> command_response result \<times> 'p app_state" where
  "discord_command env i s =
     (case (if in_command i = ''comecar'' then command_start env i s
            else and_then (resolve_discord_principal (dc_app env) (in_guild_id i) (in_discord_user_id i)
                (in_display_name i) s)
              (\<lambda>(account, actor) s1. principal_command env account actor i (dc_rival env 0 s1))) of
        (Inl e, s') \<Rightarrow> (command_failure e, s')
      | (Inr r, s') \<Rightarrow> (Inr r, s'))"

section \<open>Interactions\<close>


text \<open>
  \<open>DiscordInteractionAdapter\<close> and \<open>DiscordInteractionWebhookClient\<close> (\<open>experience/discord.py\<close>): from
  the wire payload, any JSON object, to a command and back, and the edit of a deferred response.
\<close>

section \<open>Reading a payload\<close>

definition bind_ok :: "'a result \<Rightarrow> ('a \<Rightarrow> 'b result) \<Rightarrow> 'b result" where
  "bind_ok r f = (case r of Inl e \<Rightarrow> Inl e | Inr x \<Rightarrow> f x)"

lemma bind_ok_simps [simp]: "bind_ok (Inl e) f = Inl e" "bind_ok (Inr x) f = f x"
  by (simp_all add: bind_ok_def)

text \<open>\<open>v.get(key)\<close>: only an object has it.\<close>

definition attr_get :: "py_value \<Rightarrow> string \<Rightarrow> py_value result" where
  "attr_get v key = (case v of VDict d \<Rightarrow> Inr (value_get d key)
     | _ \<Rightarrow> Inl (AttributeError ''object has no attribute get''))"

text \<open>\<open>v or {}\<close> and \<open>str(v or default)\<close>.\<close>

definition or_empty :: "py_value \<Rightarrow> py_value" where
  "or_empty v = (if py_true v then v else VDict [])"

definition text_or :: "string \<Rightarrow> py_value \<Rightarrow> string" where
  "text_or default_text v = (if py_true v then py_str v else default_text)"

text \<open>\<open>v == n\<close> for a whole number: \<open>True\<close> is 1 and a float may be equal to it.\<close>

definition num_eq :: "py_value \<Rightarrow> int \<Rightarrow> bool" where
  "num_eq v n = (case v of VInt m \<Rightarrow> m = n | VBool b \<Rightarrow> n = (if b then 1 else 0)
     | VFloat (Flt m e) \<Rightarrow> (if 0 \<le> e then m * 2 ^ nat e = n else m = n * 2 ^ nat (- e)) | _ \<Rightarrow> False)"

definition hashable :: "py_value \<Rightarrow> bool" where
  "hashable v = (case v of VList _ \<Rightarrow> False | VDict _ \<Rightarrow> False | _ \<Rightarrow> True)"

text \<open>\<open>v[0]\<close> of a true value and \<open>list(v)\<close>.\<close>

definition first_of :: "py_value \<Rightarrow> py_value result" where
  "first_of v = (case v of
      VList (x # _) \<Rightarrow> Inr x
    | VStr (c # _) \<Rightarrow> Inr (VStr [c])
    | VDict _ \<Rightarrow> Inl (KeyError ''0'')
    | _ \<Rightarrow> Inl (TypeError ''object is not subscriptable''))"

definition list_of :: "py_value \<Rightarrow> py_value list result" where
  "list_of v = (case v of
      VList xs \<Rightarrow> Inr xs
    | VStr s \<Rightarrow> Inr (map (\<lambda>c. VStr [c]) s)
    | VDict d \<Rightarrow> Inr (map (\<lambda>e. VStr (fst e)) d)
    | _ \<Rightarrow> Inl (TypeError ''object is not iterable''))"

section \<open>The adapter\<close>

definition command_of :: "py_value \<Rightarrow> bool \<Rightarrow> (string \<times> py_value list) result" where
  "command_of data component =
     (if component
      then bind_ok (attr_get data ''custom_id'') (\<lambda>v.
        let custom_id = text_or [] v; prefix = ''gamewake:world:''
        in if \<not> starts_with prefix custom_id then Inr (''unknown'', [])
           else bind_ok (attr_get data ''values'') (\<lambda>vs.
             let values = (if py_true vs then vs else VList []) in
             if \<not> py_true values then Inr (drop (length prefix) custom_id, [VDict []])
             else bind_ok (first_of values) (\<lambda>v.
               Inr (drop (length prefix) custom_id, [VDict [(''name'', VStr ''world''), (''value'', v)]]))))
      else bind_ok (attr_get data ''name'') (\<lambda>name.
        if name \<noteq> VStr ''gamewake'' then Inr (''unknown'', [])
        else bind_ok (attr_get data ''options'') (\<lambda>options.
          if \<not> py_true options then Inr (''ajuda'', [])
          else bind_ok (first_of options) (\<lambda>selected.
            bind_ok (attr_get selected ''name'') (\<lambda>n.
            bind_ok (attr_get selected ''options'') (\<lambda>os.
            bind_ok (list_of (if py_true os then os else VList [])) (\<lambda>items.
              Inr (text_or ''unknown'' n, items))))))))"

definition resolved_user :: "py_value \<Rightarrow> string \<Rightarrow> discord_user result" where
  "resolved_user users user_id =
     bind_ok (attr_get users user_id) (\<lambda>v. let user = or_empty v in
     bind_ok (attr_get user ''global_name'') (\<lambda>g.
     bind_ok (if py_true g then Inr g else attr_get user ''username'') (\<lambda>name.
       Inr \<lparr> du_id = user_id, du_display_name = text_or user_id name \<rparr>)))"

fun users_selected :: "py_value \<Rightarrow> py_value list \<Rightarrow> discord_user list result" where
  "users_selected users [] = Inr []"
| "users_selected users (x # xs) =
     bind_ok (attr_get x ''type'') (\<lambda>t.
     bind_ok (if num_eq t 6 then attr_get x ''value'' else Inr VNone) (\<lambda>v.
     bind_ok (if v = VNone then Inr [] else map_sum id (\<lambda>u. [u]) (resolved_user users (py_str v))) (\<lambda>u.
     bind_ok (users_selected users xs) (\<lambda>us. Inr (u @ us)))))"

fun world_selected :: "py_value list \<Rightarrow> string option result" where
  "world_selected [] = Inr None"
| "world_selected (x # xs) =
     bind_ok (attr_get x ''name'') (\<lambda>n.
       if \<not> hashable n then Inl (TypeError ''unhashable type'')
       else bind_ok (if n = VStr ''world'' \<or> n = VStr ''mundo'' then attr_get x ''value'' else Inr VNone) (\<lambda>v.
         if v = VNone then world_selected xs else Inr (Some (py_str v))))"

definition read_interaction :: "json_object \<Rightarrow> bool \<Rightarrow> discord_interaction result" where
  "read_interaction payload component =
     bind_ok (attr_get (or_empty (value_get payload ''member'')) ''user'') (\<lambda>member.
     let user = or_empty member; data = or_empty (value_get payload ''data'') in
     bind_ok (command_of data component) (\<lambda>(command, options).
     bind_ok (attr_get data ''resolved'') (\<lambda>resolved.
     bind_ok (attr_get (or_empty resolved) ''users'') (\<lambda>users.
     bind_ok (users_selected (or_empty users) options) (\<lambda>selected.
     bind_ok (world_selected options) (\<lambda>world.
     bind_ok (attr_get user ''id'') (\<lambda>i.
     bind_ok (attr_get user ''global_name'') (\<lambda>g.
     bind_ok (if py_true g then Inr g else attr_get user ''username'') (\<lambda>name.
     let channel = text_or [] (value_get payload ''channel_id'') in
       Inr \<lparr> in_id = text_or ''unknown'' (value_get payload ''id''),
         in_guild_id = text_or [] (value_get payload ''guild_id''),
         in_discord_user_id = text_or [] i, in_display_name = text_or ''Discord User'' name,
         in_command = command, in_channel_id = (if channel = [] then None else Some channel),
         in_selected_users = selected, in_world_id = world \<rparr>)))))))))"

definition option_object :: "world_option \<Rightarrow> py_value" where
  "option_object x = VDict [(''label'', VStr (take 100 (op_label x))), (''value'', VStr (op_id x)),
     (''description'', VStr (take 100 (''Estado: '' @ op_status_text x)))]"

definition link_object :: "string \<times> string \<Rightarrow> py_value" where
  "link_object l = VDict [(''type'', VInt 2), (''style'', VInt 5), (''label'', VStr (take 80 (fst l))),
     (''url'', VStr (snd l))]"

definition action_row :: "py_value list \<Rightarrow> py_value" where
  "action_row components = VDict [(''type'', VInt 1), (''components'', VList components)]"

text \<open>\<open>f"gamewake:world:{response.select_command}"\<close>.\<close>

definition render :: "command_response \<Rightarrow> json_object" where
  "render r =
     (let command = (case dr_select_command r of None \<Rightarrow> ''None'' | Some c \<Rightarrow> c);
          menu = (if dr_world_options r = [] then [] else [action_row [VDict [(''type'', VInt 3),
            (''custom_id'', VStr (''gamewake:world:'' @ command)),
            (''placeholder'', VStr ''Selecione um World''),
            (''options'', VList (map option_object (take 25 (dr_world_options r))))]]]);
          buttons = (if dr_links r = [] then [] else [action_row (map link_object (take 5 (dr_links r)))]);
          components = menu @ buttons
      in [(''type'', VInt 4), (''data'', VDict ([(''content'', VStr (dr_content r)),
            (''allowed_mentions'', VDict [(''parse'', VList [])])]
          @ (if dr_ephemeral r then [(''flags'', VInt 64)] else [])
          @ (if components = [] then [] else [(''components'', VList components)])))])"

text \<open>Whether the interaction is a command (2) or a component (3); another value is not supported.\<close>

definition interaction_kind :: "py_value \<Rightarrow> bool option result" where
  "interaction_kind t = (if \<not> hashable t then Inl (TypeError ''unhashable type'')
     else if num_eq t 3 then Inr (Some True) else if num_eq t 2 then Inr (Some False) else Inr None)"

definition discord_handle ::
    "'p discord_env \<Rightarrow> json_object \<Rightarrow> 'p app_state \<Rightarrow> json_object result \<times> 'p app_state" where
  "discord_handle env payload s =
     (let t = value_get payload ''type''
      in if num_eq t 1 then (Inr [(''type'', VInt 1)], s)
         else on_ok (interaction_kind t) s (\<lambda>kind. case kind of
             None \<Rightarrow> (Inr (render (private_reply ''Interacao do Discord nao suportada.'' [])), s)
           | Some component \<Rightarrow> on_ok (read_interaction payload component) s (\<lambda>i.
               and_then (discord_command env i s) (\<lambda>r s1. (Inr (render r), s1)))))"

text \<open>What must not wait for the control plane; \<open>None\<close> when the command has to be run first.\<close>

definition lightweight_response :: "json_object \<Rightarrow> json_object option result" where
  "lightweight_response payload =
     (let t = value_get payload ''type''
      in if num_eq t 1 then Inr (Some [(''type'', VInt 1)])
         else bind_ok (interaction_kind t) (\<lambda>kind. case kind of
             None \<Rightarrow> Inr None
           | Some component \<Rightarrow> bind_ok (command_of (or_empty (value_get payload ''data'')) component)
               (\<lambda>(command, _). Inr (if command \<noteq> ''acordar'' then None
                  else Some [(''type'', VInt (if component then 6 else 5))]))))"

section \<open>Editing a deferred response\<close>

text \<open>\<open>quote(s, safe="")\<close>.\<close>

definition quote_strict :: "string \<Rightarrow> string" where
  "quote_strict s = concat (map (\<lambda>c. if c = CHR '' '' then ''%20'' else quote_char c) (utf8_encode s))"

definition update_original :: "http_opener \<Rightarrow> json_object \<Rightarrow> json_object \<Rightarrow> unit result" where
  "update_original opener payload response =
     (let application_id = text_or [] (value_get payload ''application_id'');
          token = text_or [] (value_get payload ''token'');
          incomplete = Inl (ValueError ''deferred Discord interaction is incomplete'')
      in if application_id = [] \<or> token = [] then incomplete
         else (case value_get response ''data'' of
             VDict data \<Rightarrow> (case opener ''PATCH''
                 (''https://discord.com/api/v10/webhooks/'' @ quote_strict application_id @ ''/'' @ quote_strict token
                  @ ''/messages/@original'')
                 [(''Content-Type'', ''application/json''),
                  (''User-Agent'', ''GameWake (https://gamewake.example, 1.0)'')]
                 (Some (compact_body (filter (\<lambda>e. fst e \<noteq> ''flags'') data))) of
               Reply _ \<Rightarrow> Inr ()
             | _ \<Rightarrow> Inl (RuntimeError ''Discord interaction response failed''))
           | _ \<Rightarrow> incomplete))"

end
