(* ===== verification/DiscordProperties.thy ===== *)
theory DiscordProperties
  imports Discord ApplicationRun
begin

text \<open>
  What the Discord experience shows to a whole channel does not depend on the provider of connection
  details.
\<close>

section \<open>Two applications that differ in their secrets\<close>

definition with_secrets ::
    "(world \<Rightarrow> string \<Rightarrow> 'p \<Rightarrow> connection_details result \<times> 'p) option \<Rightarrow> 'p password_manager option
     \<Rightarrow> 'p discord_env \<Rightarrow> 'p discord_env" where
  "with_secrets c p env = env\<lparr> dc_app := (dc_app env)\<lparr> ax_connection := c, ax_passwords := p \<rparr> \<rparr>"

abbreviation secret_app where
  "secret_app c p app \<equiv> app\<lparr> ax_connection := c, ax_passwords := p \<rparr>"

lemma with_secrets_simps [simp]:
  "dc_app (with_secrets c p env) = secret_app c p (dc_app env)"
  "dc_rival (with_secrets c p env) = dc_rival env" "dc_notifier (with_secrets c p env) = dc_notifier env"
  "discord_console (with_secrets c p env) = discord_console env"
  by (simp_all add: with_secrets_def discord_console_def)

lemmas branches = option.case_cong sum.case_cong list.case_cong prod.case_cong if_cong

lemma same_sign_in: "app_sign_in (secret_app c p app) k i n = app_sign_in app k i n"
  by (simp add: app_sign_in_def)

lemma same_friends: "sign_in_friends (secret_app c p app) k fs s = sign_in_friends app k fs s"
  by (induction app k fs s rule: sign_in_friends.induct) (simp_all add: same_sign_in)

lemma same_worlds_env: "worlds_env_in (secret_app c p app) k s = worlds_env_in app k s"
  by (simp add: worlds_env_in_def)

lemma same_dispatch: "dispatch (secret_app c p app) a x s = dispatch app a x s"
  by (simp add: dispatch_def)

lemma same_use_cases:
  "resolve_discord_principal (secret_app c p app) g i n s = resolve_discord_principal app g i n s"
  "start_discord_account (secret_app c p app) g i n ch s = start_discord_account app g i n ch s"
  "app_accept_pending_invitation (secret_app c p app) a u s = app_accept_pending_invitation app a u s"
  "invite_discord_friends (secret_app c p app) a u fs s = invite_discord_friends app a u fs s"
  "app_list_worlds (secret_app c p app) a u s = app_list_worlds app a u s"
  "app_request_sleep (secret_app c p app) a w u key forced s = app_request_sleep app a w u key forced s"
  by (simp_all add: resolve_discord_principal_def start_discord_account_def same_sign_in
      app_accept_pending_invitation_def invite_discord_friends_def same_friends invite_friends_def
      app_list_worlds_def same_worlds_env app_request_sleep_def same_dispatch cong: branches)

lemma same_wake: "app_request_wake (secret_app c p app) a w u key s = app_request_wake app a w u key s"
proof -
  have "fund_wake (secret_app c p app) a w u key h x t = fund_wake app a w u key h x t" for h x t
    by (simp add: fund_wake_def same_worlds_env app_get_world_def cong: branches)
  moreover have "abandon_wake (secret_app c p app) a x r e t = abandon_wake app a x r e t" for x r e t
    by (simp add: abandon_wake_def same_worlds_env cong: branches)
  ultimately show ?thesis
    by (simp add: app_request_wake_def same_worlds_env same_dispatch app_get_world_def cong: branches)
qed

lemmas same_simps = same_use_cases same_wake same_worlds_env

section \<open>Commands\<close>

text \<open>A response that only the User who asked can see.\<close>

definition secretive :: "command_response result \<times> 's \<Rightarrow> bool" where
  "secretive rs \<longleftrightarrow> (\<forall>r. fst rs = Inr r \<longrightarrow> dr_ephemeral r)"

lemma secretive_connect: "secretive (command_connect env account actor w s)"
  by (auto simp: secretive_def command_connect_def and_then_def on_ok_def private_reply_def split: sum.splits)

lemma secretive_on_world:
  assumes "\<And>w s. secretive (f w s)"
  shows "secretive (on_world env account actor i f s)"
  using assms
  by (auto simp: secretive_def on_world_def on_ok_def choose_world_def private_reply_def
      split: sum.splits option.splits list.splits)

lemma same_choice: "choose_world (with_secrets c p env) a sel cmd ws = choose_world env a sel cmd ws"
  by (simp add: choose_world_def cong: branches)

lemma same_on_world:
  assumes "\<And>w s. f w s = g w s"
  shows "on_world (with_secrets c p env) account actor i f s = on_world env account actor i g s"
  using assms by (simp add: on_world_def same_simps same_choice cong: branches)

lemma same_commands:
  "command_start (with_secrets c p env) i s = command_start env i s"
  "command_accept (with_secrets c p env) account actor s = command_accept env account actor s"
  "command_invite (with_secrets c p env) account actor i s = command_invite env account actor i s"
  "command_status (with_secrets c p env) account actor w s = command_status env account actor w s"
  "command_wake (with_secrets c p env) account actor i w s = command_wake env account actor i w s"
  "command_sleep (with_secrets c p env) account actor i w s = command_sleep env account actor i w s"
  "command_configure (with_secrets c p env) account w = command_configure env account w"
  by (simp_all add: command_start_def command_accept_def command_invite_def command_status_def
      command_wake_def command_sleep_def command_configure_def same_simps cong: branches)

lemma same_principal_command:
  assumes "in_command i \<noteq> ''conectar''"
  shows "principal_command (with_secrets c p env) account actor i s = principal_command env account actor i s"
  using assms by (simp add: principal_command_def same_commands same_on_world)

lemma secretive_failure: "secretive (command_failure e, s)"
  by (auto simp: secretive_def command_failure_def private_reply_def split: py_error.splits if_splits)

text \<open>A command either does the same with other secrets, or is answered in private with both.\<close>

lemma same_or_secretive:
  "discord_command (with_secrets c p env) i s = discord_command env i s
   \<or> secretive (discord_command env i s)"
proof (cases "in_command i = ''conectar''")
  case True
  have "secretive (principal_command env account actor i t)" for account actor t
    using True by (simp add: principal_command_def secretive_on_world secretive_connect)
  then have "secretive (and_then (resolve_discord_principal (dc_app env) (in_guild_id i) (in_discord_user_id i)
      (in_display_name i) s) (\<lambda>(account, actor) s1. principal_command env account actor i (dc_rival env 0 s1)))"
    by (auto simp: and_then_def on_ok_def secretive_def split: sum.splits prod.splits)
  then have "secretive (discord_command env i s)" using True
    unfolding discord_command_def
    by (auto simp: secretive_failure [unfolded secretive_def] secretive_def split: sum.splits prod.splits)
  then show ?thesis ..
next
  case False
  then show ?thesis
    by (simp add: discord_command_def same_commands same_simps same_principal_command case_prod_beta cong: branches)
qed

section \<open>What a channel sees\<close>

text \<open>A response that Discord shows to nobody but the User who asked.\<close>

definition only_the_user_sees :: "json_object \<Rightarrow> bool" where
  "only_the_user_sees r = (case value_get r ''data'' of
      VDict d \<Rightarrow> value_get d ''flags'' = VInt 64 | _ \<Rightarrow> False)"

lemma render_ephemeral: "dr_ephemeral r \<Longrightarrow> only_the_user_sees (render r)"
  by (simp add: only_the_user_sees_def render_def value_get_def Let_def)

lemma same_rendered:
  assumes "and_then (discord_command env i s) (\<lambda>r s1. (Inr (render r), s1)) = (Inr r, s')"
    and "\<not> only_the_user_sees r"
  shows "discord_command (with_secrets c p env) i s = discord_command env i s"
proof -
  obtain q where "discord_command env i s = (Inr q, s')" "r = render q"
    using assms(1) by (cases "discord_command env i s") (auto simp: and_then_def elim: on_ok_InrE)
  then have "\<not> secretive (discord_command env i s)"
    using assms(2) render_ephemeral by (auto simp: secretive_def)
  then show ?thesis using same_or_secretive by blast
qed

text \<open>
  C38. Nothing of the connection reaches a channel. Take any interaction, and change the provider of
  connection details and the password manager of the application to any others: a response that is
  not for the eyes of the User alone stays the same, word for word, and so does everything that was
  done to the stores. So no message that a whole channel sees can depend on the address or the
  password of a World.
\<close>

theorem channel_learns_no_secret:
  assumes "discord_handle env payload s = (Inr r, s')" and "\<not> only_the_user_sees r"
  shows "discord_handle (with_secrets c p env) payload s = (Inr r, s')"
proof (cases "num_eq (value_get payload ''type'') 1")
  case True
  then show ?thesis using assms(1) by (simp add: discord_handle_def Let_def)
next
  case False
  then obtain kind where k: "interaction_kind (value_get payload ''type'') = Inr kind"
    using assms(1) by (auto simp: discord_handle_def Let_def elim: on_okE)
  show ?thesis
  proof (cases kind)
    case None
    then show ?thesis using assms(1) False k by (simp add: discord_handle_def Let_def)
  next
    case (Some component)
    then obtain i where i: "read_interaction payload component = Inr i"
      and r: "and_then (discord_command env i s) (\<lambda>r s1. (Inr (render r), s1)) = (Inr r, s')"
      using assms(1) False k by (auto simp: discord_handle_def Let_def elim: on_okE)
    then show ?thesis using False k Some
      by (simp add: discord_handle_def Let_def same_rendered [OF r assms(2)])
  qed
qed

text \<open>A guild whose Account has the World of \<^theory_text>\<open>WorldRun\<close>, and an interaction.\<close>

definition guild_env :: "unit discord_env" where
  "guild_env = \<lparr> dc_app = calm_app CHR ''x'', dc_console_url = ''https://c.example'', dc_notifier = None,
     dc_rival = (\<lambda>_ s. s) \<rparr>"

definition slash :: "string \<Rightarrow> json_object" where
  "slash command = [(''type'', VInt 2), (''id'', VStr ''9''), (''guild_id'', VStr ''g''),
     (''member'', VDict [(''user'', VDict [(''id'', VStr ''7''), (''username'', VStr ''ana'')])]),
     (''data'', VDict [(''name'', VStr ''gamewake''),
        (''options'', VList [VDict [(''name'', VStr command), (''type'', VInt 1)]])])]"

definition guild_state :: "unit app_state" where
  "guild_state = snd (discord_handle guild_env (slash ''comecar'')
     \<lparr> ap_accounts = \<lparr> as_snapshots = [], as_users = [], as_identities = [], as_recovery = Some [],
         as_notifications = [] \<rparr>, ap_worlds = created, ap_billing = funded 1000, ap_dispatched = [] \<rparr>)"

lemma status_shown:
  "map_sum id only_the_user_sees (fst (discord_handle guild_env (slash ''status'') guild_state)) = Inr False"
  by code_simp

theorem channel_learns_no_secret_witness:
  "\<exists>r s'. discord_handle guild_env (slash ''status'') guild_state = (Inr r, s')
     \<and> \<not> only_the_user_sees r
     \<and> discord_handle (with_secrets (Some (\<lambda>w u q. (Inr \<lparr> cd_host = ''h'', cd_port = 8211,
          cd_password = Some ''secret'' \<rparr>, q))) None guild_env) (slash ''status'') guild_state = (Inr r, s')"
proof -
  obtain r s' where "discord_handle guild_env (slash ''status'') guild_state = (Inr r, s')" "\<not> only_the_user_sees r"
    using status_shown
    by (cases "discord_handle guild_env (slash ''status'') guild_state";
        cases "fst (discord_handle guild_env (slash ''status'') guild_state)") auto
  with channel_learns_no_secret [OF this] show ?thesis by blast
qed

end
