(* ===== verification/Orchestration.thy ===== *)
theory Orchestration
  imports WorldWorker AbacatePay ApiViews
begin

text \<open>
  The durable orchestration of operations (\<open>orchestration/handler.py\<close>,
  \<open>orchestration/step_functions.py\<close>): one step of an execution, and the client of Step Functions,
  whose calls are parameters over the providers' state. SHA-256 is a parameter.
\<close>

section \<open>One step\<close>

text \<open>\<open>isinstance(value, str)\<close>.\<close>

definition string_value :: "py_value \<Rightarrow> string option" where
  "string_value v = (case v of VStr s \<Rightarrow> Some s | _ \<Rightarrow> None)"

definition terminal_statuses :: "operation_status list" where
  "terminal_statuses = [OP_SUCCEEDED, OP_CANCELLED, OP_FAILED, OP_NEEDS_ATTENTION]"

definition step_result :: "string \<Rightarrow> string \<Rightarrow> world_operation \<Rightarrow> (string \<times> py_value) list" where
  "step_result account_id operation_id x =
     [(''account_id'', VStr account_id), (''operation_id'', VStr operation_id),
      (''world_id'', VStr (wo_world_id x)), (''operation_type'', VStr (operation_type_value (wo_operation_type x))),
      (''status'', VStr (operation_status_value (wo_status x))), (''phase'', VStr (phase_value (wo_phase x))),
      (''terminal'', VBool (wo_status x \<in> set terminal_statuses))]"

definition advance_operation ::
    "'p worker_env \<Rightarrow> (string \<times> py_value) list \<Rightarrow> 'p worker_state
     \<Rightarrow> (string \<times> py_value) list result \<times> 'p worker_state" where
  "advance_operation env event s =
     (case (string_value (value_get event ''account_id''), string_value (value_get event ''operation_id'')) of
        (Some account_id, Some operation_id) \<Rightarrow>
          and_then (if value_get event ''action'' = VStr ''record_failure''
              then mark_needs_attention env account_id operation_id s
              else advance env account_id operation_id s)
            (\<lambda>x s1. (Inr (step_result account_id operation_id x), s1))
      | _ \<Rightarrow> (Inl (ValueError ''account_id and operation_id are required''), s))"

section \<open>Executions\<close>

record operation_execution =
  ox_name :: string
  ox_arn :: string

text \<open>What \<open>start_execution\<close> answers, and the client.\<close>

datatype start_reply = StartedAs string | ExecutionAlreadyExists | StartFailed py_error

record 'p step_functions =
  sf_start :: "string \<Rightarrow> string \<Rightarrow> string \<Rightarrow> 'p \<Rightarrow> start_reply \<times> 'p"
  sf_describe :: "string \<Rightarrow> 'p \<Rightarrow> string result \<times> 'p"
  sf_redrive :: "string \<Rightarrow> 'p \<Rightarrow> unit result \<times> 'p"
  sf_sha256 :: "string \<Rightarrow> string"

definition safe_name_char :: "char \<Rightarrow> bool" where
  "safe_name_char c = (let n = of_char c :: nat in 48 \<le> n \<and> n \<le> 57 \<or> 65 \<le> n \<and> n \<le> 90
     \<or> 97 \<le> n \<and> n \<le> 122 \<or> c = CHR ''_'' \<or> c = CHR ''-'')"

text \<open>\<open>_UNSAFE_EXECUTION_NAME.sub("-", s)\<close>: each run of unsafe characters becomes one dash.\<close>

fun dash_runs :: "bool \<Rightarrow> string \<Rightarrow> string" where
  "dash_runs in_run [] = []"
| "dash_runs in_run (c # cs) =
     (if safe_name_char c then c # dash_runs False cs
      else if in_run then dash_runs True cs else CHR ''-'' # dash_runs True cs)"

definition strip_dashes :: "string \<Rightarrow> string" where
  "strip_dashes s = (let f = dropWhile (\<lambda>c. c = CHR ''-'') in rev (f (rev (f s))))"

definition execution_name :: "(string \<Rightarrow> string) \<Rightarrow> string \<Rightarrow> string" where
  "execution_name sha256 operation_id =
     (let cleaned = strip_dashes (dash_runs False operation_id);
          candidate = ''world-operation-'' @ (if cleaned = [] then ''operation'' else cleaned)
      in if length candidate \<le> 80 then candidate
         else (let digest = take 16 (sha256 (utf8_encode operation_id))
               in take (80 - length digest - 1) candidate @ ''-'' @ digest))"

text \<open>\<open>arn.rpartition(":stateMachine:")\<close>: the parts around the last occurrence.\<close>

fun rpartition :: "string \<Rightarrow> string \<Rightarrow> (string \<times> string) option" where
  "rpartition sep [] = None"
| "rpartition sep (c # cs) = (case rpartition sep cs of
      Some (a, b) \<Rightarrow> Some (c # a, b)
    | None \<Rightarrow> if sep \<noteq> [] \<and> starts_with sep (c # cs) then Some ([], drop (length sep) (c # cs)) else None)"

definition execution_arn :: "string \<Rightarrow> string \<Rightarrow> string result" where
  "execution_arn state_machine_arn name = (case rpartition '':stateMachine:'' state_machine_arn of
      None \<Rightarrow> Inl (ValueError ''invalid Step Functions state machine ARN'')
    | Some (prefix, machine) \<Rightarrow>
        if machine = [] then Inl (ValueError ''invalid Step Functions state machine ARN'')
        else Inr (prefix @ '':execution:'' @ machine @ '':'' @ name))"

text \<open>\<open>json.dumps({...}, separators=(",", ":"), sort_keys=True)\<close>.\<close>

definition execution_input :: "string \<Rightarrow> string \<Rightarrow> string" where
  "execution_input account_id operation_id = json_text True [] (sort_keys (VDict
     [(''account_id'', VStr account_id), (''operation_id'', VStr operation_id), (''session_monitor'', VBool False)]))"

definition start_operation ::
    "'p step_functions \<Rightarrow> string \<Rightarrow> string \<Rightarrow> string \<Rightarrow> 'p \<Rightarrow> operation_execution result \<times> 'p" where
  "start_operation c arn account_id operation_id p =
     (if account_id = [] \<or> operation_id = []
      then (Inl (ValueError ''account_id and operation_id are required''), p)
      else (let name = execution_name (sf_sha256 c) operation_id
            in case sf_start c arn name (execution_input account_id operation_id) p of
                 (StartedAs a, p1) \<Rightarrow> (Inr \<lparr> ox_name = name, ox_arn = a \<rparr>, p1)
               | (ExecutionAlreadyExists, p1) \<Rightarrow>
                   (map_sum id (\<lambda>a. \<lparr> ox_name = name, ox_arn = a \<rparr>) (execution_arn arn name), p1)
               | (StartFailed e, p1) \<Rightarrow> (Inl e, p1)))"

definition ensure_running ::
    "'p step_functions \<Rightarrow> string \<Rightarrow> string \<Rightarrow> string \<Rightarrow> 'p \<Rightarrow> operation_execution result \<times> 'p" where
  "ensure_running c arn account_id operation_id p =
     and_then (start_operation c arn account_id operation_id p) (\<lambda>x p1.
     and_then (sf_describe c (ox_arn x) p1) (\<lambda>status p2.
       if status \<in> {''FAILED'', ''TIMED_OUT'', ''ABORTED''}
       then and_then (sf_redrive c (ox_arn x) p2) (\<lambda>_ p3. (Inr x, p3))
       else (Inr x, p2)))"

text \<open>A name that Step Functions accepts: 1 to 80 letters, digits, dashes and underscores.\<close>

lemma dash_runs_safe: "list_all safe_name_char (dash_runs r s)"
  by (induction r s rule: dash_runs.induct) (simp_all add: safe_name_char_def)

lemma strip_dashes_safe: "list_all safe_name_char s \<Longrightarrow> list_all safe_name_char (strip_dashes s)"
  by (auto simp: strip_dashes_def Let_def list_all_iff dest!: set_dropWhileD)

lemma execution_name_accepted:
  assumes "list_all safe_name_char (sha256 (utf8_encode i))"
  shows "0 < length (execution_name sha256 i) \<and> length (execution_name sha256 i) \<le> 80
    \<and> list_all safe_name_char (execution_name sha256 i)"
proof -
  have prefix: "list_all safe_name_char ''world-operation-''" "list_all safe_name_char ''operation''"
    by code_simp+
  have cleaned: "list_all safe_name_char (strip_dashes (dash_runs False i))"
    by (rule strip_dashes_safe [OF dash_runs_safe])
  have takes: "list_all P xs \<Longrightarrow> list_all P (take n xs)" for P and xs :: string and n
    by (auto simp: list_all_iff dest: in_set_takeD)
  have dash: "safe_name_char CHR ''-''" by (simp add: safe_name_char_def)
  show ?thesis
    using assms prefix cleaned
    by (auto simp: execution_name_def Let_def takes dash simp del: append.simps)
qed

end
