(* ===== verification/IsoTime.thy ===== *)
theory IsoTime
  imports Floats Effects JsonRoundTrip
begin

text \<open>
  Reading an instant from its text, the inverse of \<^theory_text>\<open>isoformat\<close>.
\<close>

text \<open>
  \<open>datetime.fromisoformat(s)\<close>, of the forms that \<open>isoformat\<close> writes: a date, a
  time to the second or the microsecond, and an offset. A text without an offset is naive and
  cannot be compared with the stored instants.
\<close>

definition days_from_civil :: "int \<Rightarrow> int \<Rightarrow> int \<Rightarrow> int" where
  "days_from_civil y m d =
     (let y = (if m \<le> 2 then y - 1 else y); era = y div 400; yoe = y mod 400;
          doy = (153 * (if 2 < m then m - 3 else m + 9) + 2) div 5 + d - 1;
          doe = yoe * 365 + yoe div 4 - yoe div 100 + doy
      in era * 146097 + doe - 719468)"

text \<open>A number of exactly \<open>k\<close> digits at position \<open>i\<close>.\<close>

definition digits_at :: "string \<Rightarrow> nat \<Rightarrow> nat \<Rightarrow> int option" where
  "digits_at s i k = (let d = take k (drop i s)
     in if length d = k \<and> list_all is_digit d then int_of_text d else None)"

definition offset_of :: "string \<Rightarrow> int option" where
  "offset_of s = (case (digits_at s 1 2, digits_at s 4 2) of
      (Some h, Some m) \<Rightarrow>
        if length s = 6 \<and> s ! 3 = CHR '':'' \<and> h < 24 \<and> m < 60 \<and> (s ! 0 = CHR ''+'' \<or> s ! 0 = CHR ''-'')
        then Some ((if s ! 0 = CHR ''-'' then -1 else 1) * minutes (60 * h + m)) else None
    | _ \<Rightarrow> None)"

definition valid_date :: "int \<Rightarrow> int \<Rightarrow> int \<Rightarrow> bool" where
  "valid_date y m d \<longleftrightarrow> 1 \<le> y \<and> 1 \<le> m \<and> m \<le> 12 \<and> 1 \<le> d \<and> civil_from_days (days_from_civil y m d) = (y, m, d)"

definition instant_of_text :: "string \<Rightarrow> instant result" where
  "instant_of_text s =
     (let invalid = Inl (ValueError ''Invalid isoformat string'');
          fraction = (if take 1 (drop 19 s) = ''.'' then digits_at s 20 6 else Some 0);
          rest = (if take 1 (drop 19 s) = ''.'' then drop 26 s else drop 19 s)
      in case (digits_at s 0 4, digits_at s 5 2, digits_at s 8 2, digits_at s 11 2, digits_at s 14 2,
             digits_at s 17 2, fraction) of
           (Some y, Some m, Some d, Some h, Some mi, Some sec, Some us) \<Rightarrow>
             if \<not> (s ! 4 = CHR ''-'' \<and> s ! 7 = CHR ''-'' \<and> s ! 13 = CHR '':'' \<and> s ! 16 = CHR '':''
                   \<and> valid_date y m d \<and> h < 24 \<and> mi < 60 \<and> sec < 60) then invalid
             else if rest = [] then Inl (TypeError ''can't compare offset-naive and offset-aware datetimes'')
             else (case offset_of rest of
                 None \<Rightarrow> invalid
               | Some o' \<Rightarrow> Inr (days (days_from_civil y m d) + minutes (60 * h + mi) + seconds sec + us - o'))
         | _ \<Rightarrow> invalid)"

section \<open>Reading what was written\<close>


text \<open>
  Reading the text of an instant gives the instant back, from the year 1 to the year 9999: the civil date
  determines the day, and the fields of the text have their widths.
\<close>

section \<open>The civil date determines the day\<close>

text \<open>The year of a day of an era of 400 years, and the first day of a year.\<close>

definition year_of_era :: "int \<Rightarrow> int" where
  "year_of_era doe = (doe - doe div 1460 + doe div 36524 - doe div 146096) div 365"

definition year_start :: "int \<Rightarrow> int" where
  "year_start y = 365 * y + y div 4 - y div 100 + y div 400"

lemma year_of_era_mono:
  assumes "a \<le> b" shows "year_of_era a \<le> year_of_era b"
proof -
  have step: "x - x div 1460 + x div 36524 - x div 146096 \<le> x + 1 - (x + 1) div 1460 + (x + 1) div 36524 - (x + 1) div 146096"
    for x :: int
  proof -
    have c: "z div 146096 = z div 36524 div 4" for z :: int by (simp add: zdiv_zmult2_eq [symmetric])
    have "(x + 1) div 1460 \<le> x div 1460 + 1" by linarith
    moreover have b: "x div 36524 \<le> (x + 1) div 36524" "(x + 1) div 36524 \<le> x div 36524 + 1" by linarith+
    then have "x div 36524 - x div 36524 div 4 \<le> (x + 1) div 36524 - (x + 1) div 36524 div 4" by linarith
    ultimately show ?thesis unfolding c by linarith
  qed
  show ?thesis unfolding year_of_era_def
  proof (rule zdiv_mono1)
    show "a - a div 1460 + a div 36524 - a div 146096 \<le> b - b div 1460 + b div 36524 - b div 146096"
      using assms by (induction b rule: int_ge_induct) (use step order_trans in \<open>blast+\<close>)
  qed simp
qed

text \<open>The 400 years of an era, checked one by one at their first and their last day.\<close>

lemma years_checked:
  assumes "0 \<le> y" and "y < 400"
  shows "year_of_era (year_start y) = y" "year_of_era (year_start (y + 1) - 1) = y"
    "year_start (y + 1) - year_start y \<le> 366"
proof -
  have "list_all (\<lambda>y. year_of_era (year_start y) = y \<and> year_of_era (year_start (y + 1) - 1) = y
      \<and> year_start (y + 1) - year_start y \<le> 366) (map int [0..<400])"
    by code_simp
  moreover have "y \<in> set (map int [0..<400])" using assms by (auto intro!: image_eqI [of _ _ "nat y"])
  ultimately show "year_of_era (year_start y) = y" "year_of_era (year_start (y + 1) - 1) = y"
    "year_start (y + 1) - year_start y \<le> 366" by (auto simp: list_all_iff)
qed

lemma year_of_day:
  assumes "0 \<le> doe" and "doe < 146097"
  shows "0 \<le> year_of_era doe" "year_of_era doe < 400"
    "0 \<le> doe - year_start (year_of_era doe)" "doe - year_start (year_of_era doe) < 366"
proof -
  let ?y = "year_of_era doe"
  have ends: "year_of_era 0 = 0" "year_of_era 146096 = 399" "year_start 400 = 146097"
    by code_simp+
  show y: "0 \<le> ?y" "?y < 400"
    using year_of_era_mono [OF assms(1)] year_of_era_mono [of doe 146096] assms(2) ends by auto
  show low: "0 \<le> doe - year_start ?y"
  proof (rule ccontr)
    assume less: "\<not> 0 \<le> doe - year_start ?y"
    have z: "year_start 0 = 0" by code_simp
    with less assms have "?y \<noteq> 0" by auto
    with y have "0 \<le> ?y - 1" "?y - 1 < 400" by auto
    from years_checked(2) [OF this] have "year_of_era (year_start ?y - 1) = ?y - 1" using y by auto
    moreover have "?y \<le> year_of_era (year_start ?y - 1)" using year_of_era_mono less by auto
    ultimately show False by simp
  qed
  have "doe < year_start (?y + 1)"
  proof (cases "?y = 399")
    case True
    then show ?thesis using assms(2) ends by simp
  next
    case False
    with y have n: "0 \<le> ?y + 1" "?y + 1 < 400" by auto
    show ?thesis
    proof (rule ccontr)
      assume "\<not> doe < year_start (?y + 1)"
      then have "year_of_era (year_start (?y + 1)) \<le> ?y" using year_of_era_mono by auto
      then show False using years_checked(1) [OF n] by simp
    qed
  qed
  then show "doe - year_start ?y < 366" using years_checked(3) [OF y] by linarith
qed

text \<open>Month and day of a day of the year.\<close>

lemma month_checked:
  assumes "0 \<le> doy" and "doy < (366 :: int)"
  shows "0 \<le> (5 * doy + 2) div 153" "(5 * doy + 2) div 153 \<le> 11"
    "1 \<le> doy - (153 * ((5 * doy + 2) div 153) + 2) div 5 + 1"
    "doy - (153 * ((5 * doy + 2) div 153) + 2) div 5 + 1 \<le> 31"
proof -
  have "list_all (\<lambda>doy. 0 \<le> (5 * doy + 2) div 153 \<and> (5 * doy + 2) div 153 \<le> 11
      \<and> 1 \<le> doy - (153 * ((5 * doy + 2) div 153) + 2) div 5 + 1
      \<and> doy - (153 * ((5 * doy + 2) div 153) + 2) div 5 + 1 \<le> 31) (map int [0..<366])"
    by code_simp
  moreover have "doy \<in> set (map int [0..<366])" using assms by (auto intro!: image_eqI [of _ _ "nat doy"])
  ultimately show "0 \<le> (5 * doy + 2) div 153" "(5 * doy + 2) div 153 \<le> 11"
    "1 \<le> doy - (153 * ((5 * doy + 2) div 153) + 2) div 5 + 1"
    "doy - (153 * ((5 * doy + 2) div 153) + 2) div 5 + 1 \<le> 31" by (auto simp: list_all_iff)
qed

lemma civil_day:
  assumes "civil_from_days z = (y, m, d)"
  shows "days_from_civil y m d = z" "1 \<le> m" "m \<le> 12" "1 \<le> d" "d \<le> 31"
proof -
  define doe where "doe = (z + 719468) mod 146097"
  define era where "era = (z + 719468) div 146097"
  define yoe where "yoe = year_of_era doe"
  define doy where "doy = doe - year_start yoe"
  define mp where "mp = (5 * doy + 2) div 153"
  have doe: "0 \<le> doe" "doe < 146097" by (simp_all add: doe_def)
  note yr = year_of_day [OF doe, folded yoe_def, folded doy_def]
  note mon = month_checked [OF yr(3,4), folded mp_def]
  have "yoe div 400 = 0" using yr(1,2) by simp
  then have doy': "doe - (365 * yoe + yoe div 4 - yoe div 100) = doy" by (simp add: doy_def year_start_def)
  have "civil_from_days z = (let m = (if mp < 10 then mp + 3 else mp - 9)
      in (yoe + era * 400 + (if m \<le> 2 then 1 else 0), m, doy - (153 * mp + 2) div 5 + 1))"
    unfolding civil_from_days_def Let_def doe_def [symmetric] era_def [symmetric]
      year_of_era_def [symmetric] yoe_def [symmetric] doy' mp_def [symmetric] ..
  then have e: "d = doy - (153 * mp + 2) div 5 + 1" "m = (if mp < 10 then mp + 3 else mp - 9)"
    "y = yoe + era * 400 + (if m \<le> 2 then 1 else 0)"
    unfolding assms Let_def by (simp_all only: prod.inject)
  show bounds: "1 \<le> m" "m \<le> 12" "1 \<le> d" "d \<le> 31" using mon e by (auto split: if_splits)
  have y': "(if m \<le> 2 then y - 1 else y) = yoe + era * 400" using e by auto
  have mp': "(if 2 < m then m - 3 else m + 9) = mp" using e mon by (auto split: if_splits)
  have "(yoe + era * 400) div 400 = era" "(yoe + era * 400) mod 400 = yoe" using yr(1,2) by auto
  then have "days_from_civil y m d = era * 146097 + doe - 719468"
    unfolding days_from_civil_def Let_def y' mp' using e(1) doy' by simp
  also have "\<dots> = z" by (simp add: era_def doe_def)
  finally show "days_from_civil y m d = z" .
qed

section \<open>The text\<close>

lemma nat_of_zeros: "nat_of_digits (replicate k CHR ''0'' @ ds) = nat_of_digits ds"
proof -
  have zero: "of_char CHR ''0'' = (48 :: nat)" by code_simp
  have "foldl (\<lambda>n c. 10 * n + (of_char c - 48)) 0 (replicate k CHR ''0'') = (0 :: nat)"
    by (induction k) (simp_all add: zero)
  then show ?thesis by (simp add: nat_of_digits_def)
qed

lemma int_of_digits:
  assumes "ds \<noteq> []" and "list_all is_digit ds" and "length ds \<le> 4300"
  shows "int_of_text ds = Some (int (nat_of_digits ds))"
proof -
  obtain c cs where ds: "ds = c # cs" using assms(1) by (cases ds) auto
  have c: "is_digit c" using assms(2) ds by simp
  have "is_digit (last ds)" using assms(1,2) by (simp add: list_all_iff)
  then have "strip ds = ds" using assms(1) digit_not c ds by (intro strip_no_space) auto
  moreover have "split_sign ds = (False, ds)" using digit_not [OF c] ds by (auto simp: split_sign_def)
  ultimately show ?thesis using assms by (simp add: int_of_text_def scan_digits_all not_less)
qed

lemma zero_padded:
  assumes "n < 10 ^ Suc w" and "w < 4300"
  shows "length (zero_pad (Suc w) n) = Suc w" "list_all is_digit (zero_pad (Suc w) n)"
    "int_of_text (zero_pad (Suc w) n) = Some (int n)"
proof -
  show l: "length (zero_pad (Suc w) n) = Suc w"
    using show_nat_length [OF assms(1)] by (simp add: zero_pad_def Let_def)
  show d: "list_all is_digit (zero_pad (Suc w) n)" by (rule zero_pad_digits)
  show "int_of_text (zero_pad (Suc w) n) = Some (int n)"
    using int_of_digits [OF zero_pad_digits(2) d] l assms(2) by (simp add: zero_pad_def Let_def nat_of_zeros)
qed

text \<open>The characters of the fields of two and four digits.\<close>

lemma two_digits:
  assumes "0 \<le> n" and "n < (100 :: int)"
  obtains a b where "zero_pad 2 (nat n) = [a, b]" "is_digit a" "is_digit b" "int_of_text [a, b] = Some n"
proof -
  have n: "nat n < 10 ^ Suc 1" using assms by simp
  note z = zero_padded [OF n, simplified]
  obtain a b where ab: "zero_pad 2 (nat n) = [a, b]"
    using z(1) by (auto simp: numeral_2_eq_2 length_Suc_conv)
  show thesis using that [of a b] z assms(1) ab by (simp add: numeral_2_eq_2)
qed

lemma four_digits:
  assumes "0 \<le> n" and "n < (10000 :: int)"
  obtains a b c d where "zero_pad 4 (nat n) = [a, b, c, d]" "list_all is_digit [a, b, c, d]"
    "int_of_text [a, b, c, d] = Some n"
proof -
  have n: "nat n < 10 ^ Suc 3" using assms by simp
  note z = zero_padded [OF n, simplified]
  obtain a b c d where ab: "zero_pad 4 (nat n) = [a, b, c, d]"
    using z(1) by (auto simp: eval_nat_numeral length_Suc_conv)
  show thesis using that [of a b c d] z assms(1) ab by (simp add: eval_nat_numeral)
qed

text \<open>The years of \<open>datetime\<close>.\<close>

definition datetime_ok :: "instant \<Rightarrow> bool" where
  "datetime_ok t \<longleftrightarrow> (case civil_date t of (y, _, _) \<Rightarrow> 1 \<le> y \<and> y \<le> 9999)"

lemma utc_offset: "offset_of ''+00:00'' = Some 0" by code_simp

lemma clock:
  fixes us :: int
  assumes "60 * q + r = m" and "60 * m + c = s" and "1000000 * s + f = us"
  shows "us = 60 * (60 * q + r) * 1000000 + c * 1000000 + f"
  using assms by simp

theorem instant_of_isoformat:
  assumes "datetime_ok t" shows "instant_of_text (isoformat t) = Inr t"
proof -
  obtain y m d where c: "civil_date t = (y, m, d)" by (cases "civil_date t") auto
  have y: "1 \<le> y" "y \<le> 9999" using assms c by (auto simp: datetime_ok_def)
  have civil: "civil_from_days (t div days 1) = (y, m, d)" using c by (simp add: civil_date_def)
  note day = civil_day [OF civil]
  define us where "us = t mod days 1"
  have us: "0 \<le> us" "us < 86400000000" by (simp_all add: us_def time_units)
  define s f where "s = us div 1000000" and "f = us mod 1000000"
  have s: "0 \<le> s" "s < 86400" and f: "0 \<le> f" "f < 1000000" using us by (auto simp: s_def f_def)
  have h: "0 \<le> s div 3600" "s div 3600 < 24" and mi: "0 \<le> s div 60 mod 60" "s div 60 mod 60 < 60"
    and se: "0 \<le> s mod 60" "s mod 60 < 60" using s by auto
  obtain y1 y2 y3 y4 where Y: "zero_pad 4 (nat y) = [y1, y2, y3, y4]" "list_all is_digit [y1, y2, y3, y4]"
    "int_of_text [y1, y2, y3, y4] = Some y" using y by (auto intro: four_digits [of y])
  obtain m1 m2 where M: "zero_pad 2 (nat m) = [m1, m2]" "is_digit m1" "is_digit m2" "int_of_text [m1, m2] = Some m"
    using day by (auto intro: two_digits [of m])
  obtain d1 d2 where D: "zero_pad 2 (nat d) = [d1, d2]" "is_digit d1" "is_digit d2" "int_of_text [d1, d2] = Some d"
    using day by (auto intro: two_digits [of d])
  obtain h1 h2 where H: "zero_pad 2 (nat (s div 3600)) = [h1, h2]" "is_digit h1" "is_digit h2"
    "int_of_text [h1, h2] = Some (s div 3600)" using h by (auto intro: two_digits [of "s div 3600"])
  obtain i1 i2 where I: "zero_pad 2 (nat (s div 60 mod 60)) = [i1, i2]" "is_digit i1" "is_digit i2"
    "int_of_text [i1, i2] = Some (s div 60 mod 60)" using mi by (auto intro: two_digits [of "s div 60 mod 60"])
  obtain s1 s2 where S: "zero_pad 2 (nat (s mod 60)) = [s1, s2]" "is_digit s1" "is_digit s2"
    "int_of_text [s1, s2] = Some (s mod 60)" using se by (auto intro: two_digits [of "s mod 60"])
  define tail where "tail = (if f = 0 then [] else ''.'' @ zero_pad 6 (nat f)) @ ''+00:00''"
  have written: "isoformat t = [y1, y2, y3, y4] @ ''-'' @ [m1, m2] @ ''-'' @ [d1, d2] @ ''T'' @ [h1, h2] @ '':''
      @ [i1, i2] @ '':'' @ [s1, s2] @ tail"
    unfolding isoformat_def c Let_def us_def [symmetric] s_def [symmetric] f_def [symmetric] tail_def
    by (simp add: Y(1) M(1) D(1) H(1) I(1) S(1))
  have "nat f < 10 ^ Suc 5" using f by simp
  note six = zero_padded [OF this]
  have f6: "length (zero_pad 6 (nat f)) = 6" "list_all is_digit (zero_pad 6 (nat f))"
    "int_of_text (zero_pad 6 (nat f)) = Some f"
    using six f by simp_all
  have fraction: "(if take 1 tail = ''.'' then digits_at (isoformat t) 20 6 else Some 0) = Some f"
    "(if take 1 tail = ''.'' then drop 26 (isoformat t) else tail) = ''+00:00''"
    unfolding written using f6 by (auto simp: tail_def digits_at_def)
  have valid: "valid_date y m d" using y day civil by (simp add: valid_date_def)
  have "t = days (t div days 1) + us" by (simp add: us_def days_def seconds_def)
  also have "us = minutes (60 * (s div 3600) + s div 60 mod 60) + seconds (s mod 60) + f"
  proof -
    have q: "s div 3600 = s div 60 div 60" using zdiv_zmult2_eq [of 60 s 60] by simp
    have u: "1000000 * s + f = us" unfolding s_def f_def by (rule mult_div_mod_eq)
    show ?thesis unfolding minutes_def seconds_def q
      by (rule clock [OF mult_div_mod_eq mult_div_mod_eq u])
  qed
  finally have total: "days (days_from_civil y m d) + minutes (60 * (s div 3600) + s div 60 mod 60)
      + seconds (s mod 60) + f - 0 = t" using day(1) by simp
  have drop19: "drop 19 (isoformat t) = tail" by (simp add: written)
  show ?thesis
    unfolding instant_of_text_def Let_def drop19 fraction
    using Y(2,3) M(2-4) D(2-4) H(2-4) I(2-4) S(2-4) valid h mi se total
    by (simp add: written digits_at_def utc_offset)
qed

end
