(* ===== verification/WorkerLambda.thy ===== *)
theory WorkerLambda
  imports Orchestration StoragePolicy Application DecimalText IsoTime "HOL-Library.Product_Lexorder"
begin

text \<open>
  The Lambda function behind the state machine and the schedules (\<open>lambda/gamewake_worker.py\<close>):
  \<open>handle_event\<close> over the worker, World data, the storage policy and Billing, which share the stores
  of one state. Billing's store is a part of the providers' state, which the usage recorder of the
  worker writes too (\<open>lm_billing_of\<close>, \<open>lm_billing_to\<close>); \<open>lm_rival env k\<close> is what other clients do
  before the \<open>k\<close>-th call to a component after the first.
\<close>

section \<open>The services\<close>

record 'p lambda_state =
  lb_worlds :: "'p worker_state"
  lb_accounts :: accounts_state
  lb_storage :: storage_repository

record 'p lambda_env =
  lm_worker :: "'p worker_env"
  lm_data :: "'p data_env"
  lm_storage :: "nat \<Rightarrow> 'p storage_env"
  lm_billing :: "nat \<Rightarrow> billing_env"
  lm_billing_of :: "'p \<Rightarrow> billing_store"
  lm_billing_to :: "billing_store \<Rightarrow> 'p \<Rightarrow> 'p"
  lm_storage_rate :: decimal
  lm_migrate :: "'p \<Rightarrow> string list result \<times> 'p"
  lm_step_functions :: "'p step_functions"
  lm_notify :: "account \<Rightarrow> world \<Rightarrow> world_operation \<Rightarrow> 'p \<Rightarrow> bool result \<times> 'p"
  lm_now :: instant
  lm_rival :: "nat \<Rightarrow> 'p lambda_state \<Rightarrow> 'p lambda_state"

definition lb_on_worlds ::
    "('p worker_state \<Rightarrow> 'a result \<times> 'p worker_state) \<Rightarrow> 'p lambda_state \<Rightarrow> 'a result \<times> 'p lambda_state" where
  "lb_on_worlds f s = (case f (lb_worlds s) of (r, w) \<Rightarrow> (r, s\<lparr> lb_worlds := w \<rparr>))"

definition lb_outside :: "('p \<Rightarrow> 'a result \<times> 'p) \<Rightarrow> 'p lambda_state \<Rightarrow> 'a result \<times> 'p lambda_state" where
  "lb_outside f = lb_on_worlds (\<lambda>w. case f (ws_providers w) of (r, p) \<Rightarrow> (r, w\<lparr> ws_providers := p \<rparr>))"

definition lb_on_billing ::
    "'p lambda_env \<Rightarrow> (billing_store \<Rightarrow> 'a result \<times> billing_store) \<Rightarrow> 'p lambda_state
     \<Rightarrow> 'a result \<times> 'p lambda_state" where
  "lb_on_billing env f = lb_outside (\<lambda>p. case f (lm_billing_of env p) of (r, b) \<Rightarrow> (r, lm_billing_to env b p))"

text \<open>The storage policy reads the Worlds, and the archive is the provider of World data.\<close>

definition lb_on_storage ::
    "('p storage_state \<Rightarrow> 'a result \<times> 'p storage_state) \<Rightarrow> 'p lambda_state \<Rightarrow> 'a result \<times> 'p lambda_state" where
  "lb_on_storage f s =
     (case f \<lparr> sy_worlds = world_store.truncate (lb_worlds s), sy_archive = ws_providers (lb_worlds s),
         sy_repository = lb_storage s \<rparr> of
        (r, y) \<Rightarrow> (r, s\<lparr> lb_worlds := world_store.extend (sy_worlds y)
              \<lparr> ws_providers = sy_archive y, ws_log = ws_log (lb_worlds s) \<rparr>,
            lb_storage := sy_repository y \<rparr>))"

section \<open>Actions\<close>

definition migrate_action :: "'p lambda_env \<Rightarrow> 'p lambda_state \<Rightarrow> (string \<times> py_value) list result \<times> 'p lambda_state" where
  "migrate_action env s = and_then (lb_outside (lm_migrate env) s)
     (\<lambda>names s1. (Inr [(''applied_migrations'', VList (map VStr names))], s1))"

text \<open>\<open>SELECT ... WHERE status IN ('pending', 'running') ORDER BY created_at, id\<close>.\<close>

definition unfinished_operations :: "'p worker_state \<Rightarrow> world_operation list" where
  "unfinished_operations w =
     sort_key (\<lambda>x. (wo_created_at x, wo_id x)) (filter (\<lambda>x. is_active (wo_status x)) (map snd (st_operations w)))"

fun ensure_all ::
    "'p lambda_env \<Rightarrow> string \<Rightarrow> world_operation list \<Rightarrow> 'p lambda_state \<Rightarrow> unit result \<times> 'p lambda_state" where
  "ensure_all env arn [] s = (Inr (), s)"
| "ensure_all env arn (x # xs) s =
     and_then (lb_outside (ensure_running (lm_step_functions env) arn (wo_account_id x) (wo_id x)) s)
       (\<lambda>_. ensure_all env arn xs)"

text \<open>\<open>services.orchestrator_factory(arn)\<close>, of an \<open>arn\<close> that the caller found to be a string.\<close>

definition state_machine :: "(string \<times> py_value) list \<Rightarrow> string \<Rightarrow> string result" where
  "state_machine event purpose = (case string_value (value_get event ''state_machine_arn'') of
      Some arn \<Rightarrow> if arn = [] then Inl (ValueError (''state_machine_arn is required for '' @ purpose)) else Inr arn
    | None \<Rightarrow> Inl (ValueError (''state_machine_arn is required for '' @ purpose)))"

definition reconcile_action ::
    "'p lambda_env \<Rightarrow> (string \<times> py_value) list \<Rightarrow> 'p lambda_state
     \<Rightarrow> (string \<times> py_value) list result \<times> 'p lambda_state" where
  "reconcile_action env event s =
     on_ok (state_machine event ''reconciliation'') s (\<lambda>arn.
       let xs = unfinished_operations (lb_worlds s)
       in and_then (ensure_all env arn xs (lm_rival env 0 s))
            (\<lambda>_ s1. (Inr [(''reconciled'', VInt (int (length xs)))], s1)))"

definition optional_int :: "py_value \<Rightarrow> int option result" where
  "optional_int v = (case v of VNone \<Rightarrow> Inr None | _ \<Rightarrow> map_sum id Some (py_int v))"

text \<open>The Sleep operation that a World on its way to sleep is waiting for.\<close>

definition pending_sleep :: "'p worker_state \<Rightarrow> string \<Rightarrow> string \<Rightarrow> world_operation option" where
  "pending_sleep w account_id world_id =
     find (\<lambda>x. wo_operation_type x = SLEEP \<and> is_active (wo_status x)) (rev (list_operations_of w account_id world_id))"

definition monitor_step ::
    "'p lambda_env \<Rightarrow> string \<Rightarrow> string \<Rightarrow> int option \<Rightarrow> world \<Rightarrow> 'p lambda_state
     \<Rightarrow> world_operation option result \<times> 'p lambda_state" where
  "monitor_step env account_id world_id idle w s =
     (let s1 = lm_rival env 0 s
      in if wd_status w = ONLINE
         then lb_on_worlds (monitor_session (lm_worker env) account_id world_id None idle) s1
         else if wd_status w = GOING_TO_SLEEP
         then (Inr (pending_sleep (lb_worlds s1) account_id world_id), s1)
         else (Inr None, s))"

definition monitor_action ::
    "'p lambda_env \<Rightarrow> (string \<times> py_value) list \<Rightarrow> 'p lambda_state
     \<Rightarrow> (string \<times> py_value) list result \<times> 'p lambda_state" where
  "monitor_action env event s =
     on_ok (state_machine event ''session monitoring'') s (\<lambda>arn.
     case (string_value (value_get event ''account_id''), string_value (value_get event ''world_id'')) of
       (Some account_id, Some world_id) \<Rightarrow>
         on_ok (optional_int (value_get event ''idle_minutes'')) s (\<lambda>idle.
         on_ok (case dict_get event ''monitor_checks'' of None \<Rightarrow> Inr 0 | Some v \<Rightarrow> py_int v) s (\<lambda>checks.
         if checks < 0 then (Inl (ValueError ''monitor_checks must be non-negative''), s)
         else on_ok (world_get (lb_worlds s) account_id world_id) s (\<lambda>w.
         and_then (monitor_step env account_id world_id idle w s) (\<lambda>operation s1.
         and_then (case operation of
             None \<Rightarrow> (Inr (), s1)
           | Some x \<Rightarrow> and_then (lb_outside (ensure_running (lm_step_functions env) arn account_id (wo_id x)) s1)
               (\<lambda>_ s2. (Inr (), s2))) (\<lambda>_ s2.
           (Inr [(''account_id'', VStr account_id), (''world_id'', VStr world_id), (''session_monitor'', VBool True),
              (''monitor_checks'', VInt (checks + 1)),
              (''continue_monitoring'', VBool (wd_status w = ONLINE \<and> operation = None)),
              (''sleep_operation_id'', (case operation of None \<Rightarrow> VNone | Some x \<Rightarrow> VStr (wo_id x)))], s2))))))
     | _ \<Rightarrow> (Inl (ValueError ''account_id and world_id are required for session monitoring''), s))"

definition given_text :: "(string \<times> py_value) list \<Rightarrow> string \<Rightarrow> string option" where
  "given_text event key = (case string_value (value_get event key) of
      Some t \<Rightarrow> if strip t = [] then None else Some t | None \<Rightarrow> None)"

text \<open>\<open>Decimal(str(value))\<close> of a value that is not \<open>None\<close>; \<open>str\<close> of a float is its shortest text.\<close>

definition event_decimal :: "py_value \<Rightarrow> decimal result" where
  "event_decimal v = (case v of
      VInt n \<Rightarrow> Inr (Dec n 0)
    | VFloat x \<Rightarrow> Inr (decimal_of_float x)
    | _ \<Rightarrow> (case decimal_of_text (py_str v) of Some d \<Rightarrow> Inr d | None \<Rightarrow> Inl InvalidOperation))"

definition support_credit_action ::
    "'p lambda_env \<Rightarrow> (string \<times> py_value) list \<Rightarrow> 'p lambda_state
     \<Rightarrow> (string \<times> py_value) list result \<times> 'p lambda_state" where
  "support_credit_action env event s =
     (case (given_text event ''account_id'', given_text event ''reference'', given_text event ''actor_user_id'',
         given_text event ''reason'', given_text event ''idempotency_key'') of
        (Some account_id, Some reference, Some actor, Some reason, Some key) \<Rightarrow>
          on_ok (event_decimal (value_get event ''amount_brl'')) s (\<lambda>amount.
          and_then (lb_on_billing env (apply_support_credit (lm_billing env 0) account_id amount reference actor
              reason key) s) (\<lambda>e s1.
            (Inr [(''ledger_entry_id'', VStr (le_id e)), (''entry_type'', VStr (entry_type_value (le_entry_type e))),
               (''amount_brl'', VStr (show_cents (le_amount e < 0) \<bar>le_amount e\<bar>)),
               (''reference'', VStr (le_reference e))], s1)))
      | _ \<Rightarrow> (Inl (ValueError
          ''account_id, reference, actor_user_id, reason and idempotency_key are required''), s))"

section \<open>Maintenance\<close>

definition replace_z :: "string \<Rightarrow> string" where
  "replace_z s = concat (map (\<lambda>c. if c = CHR ''Z'' then ''+00:00'' else [c]) s)"

definition observed_time :: "'p lambda_env \<Rightarrow> (string \<times> py_value) list \<Rightarrow> instant result" where
  "observed_time env event = (case string_value (value_get event ''observed_at'') of
      Some t \<Rightarrow> instant_of_text (replace_z t) | None \<Rightarrow> Inr (lm_now env))"

text \<open>\<open>SELECT account_id, id FROM worlds WHERE status = 'pending_deletion' ORDER BY account_id, id\<close>.\<close>

definition pending_deletions :: "'p worker_state \<Rightarrow> (string \<times> string) list" where
  "pending_deletions w = sort (map (\<lambda>(_, x). (wd_account_id x, wd_id x))
     (filter (\<lambda>(_, x). wd_status x = PENDING_DELETION) (st_worlds w)))"

definition account_ids :: "accounts_state \<Rightarrow> string list" where
  "account_ids a = sort (map (\<lambda>x. ac_id (sn_account x)) (map snd (as_snapshots a)))"

fun purge_all ::
    "'p lambda_env \<Rightarrow> instant \<Rightarrow> (string \<times> string) list \<Rightarrow> 'p lambda_state \<Rightarrow> int result \<times> 'p lambda_state" where
  "purge_all env t [] s = (Inr 0, s)"
| "purge_all env t ((a, i) # ws) s =
     and_then (lb_on_worlds (purge_due_deletion (lm_data env) a i t) s) (\<lambda>purged s1.
     and_then (purge_all env t ws s1) (\<lambda>n s2. (Inr ((if purged then 1 else 0) + n), s2)))"

text \<open>
  \<open>(rate * Decimal(excess) / Decimal(1024**3)).quantize(Decimal("0.01"), ROUND_HALF_UP)\<close>, and whether
  it is zero. A quiet NaN stays one and is not zero; an infinity or a signalling NaN raises.
\<close>

definition estimate_is_zero :: "decimal \<Rightarrow> int \<Rightarrow> bool result" where
  "estimate_is_zero rate excess_bytes = (case rate of
      DNaN \<Rightarrow> Inr False
    | Dec c e \<Rightarrow> map_sum id (\<lambda>n. n = 0)
        (quantize_cents HalfUp (dec_quot (dec_mul (nat \<bar>c\<bar>, e) (nat excess_bytes, 0)) (1024 ^ 3, 0)))
    | _ \<Rightarrow> Inl InvalidOperation)"

text \<open>One Account: whether a charge was written, in the month of the observation.\<close>

definition charge_account ::
    "'p lambda_env \<Rightarrow> nat \<Rightarrow> instant \<Rightarrow> string \<Rightarrow> storage_status \<Rightarrow> 'p lambda_state
     \<Rightarrow> (bool \<times> bool) result \<times> 'p lambda_state" where
  "charge_account env k t account_id status s =
     on_ok (estimate_is_zero (lm_storage_rate env) (su_excess_bytes status)) s (\<lambda>free.
       if free then (Inr (True, False), s)
       else (case lb_on_billing env (charge_monthly_storage (lm_billing env k) account_id (su_excess_bytes status)
               (lm_storage_rate env) (month_key t) (''storage:'' @ account_id @ '':'' @ month_key t)) s of
           (Inl (InsufficientFundsError m), s1) \<Rightarrow> (Inr (False, False), s1)
         | (Inl e, s1) \<Rightarrow> (Inl e, s1)
         | (Inr _, s1) \<Rightarrow> (Inr (True, True), s1)))"

definition maintain_account ::
    "'p lambda_env \<Rightarrow> nat \<Rightarrow> instant \<Rightarrow> string \<Rightarrow> 'p lambda_state \<Rightarrow> int result \<times> 'p lambda_state" where
  "maintain_account env k t account_id s =
     and_then (lb_on_storage (evaluate (lm_storage env (2 * k)) account_id False t) s) (\<lambda>status s1.
       if su_excess_bytes status \<le> 0 then (Inr 0, s1)
       else and_then (charge_account env k t account_id status (lm_rival env (3 * k + 2) s1))
         (\<lambda>(funded, charged) s2.
           if funded then and_then (lb_on_storage (evaluate (lm_storage env (2 * k + 1)) account_id True t)
                (lm_rival env (3 * k + 3) s2)) (\<lambda>_ s3. (Inr (if charged then 1 else 0), s3))
           else (Inr 0, s2)))"

fun maintain_all ::
    "'p lambda_env \<Rightarrow> nat \<Rightarrow> instant \<Rightarrow> string list \<Rightarrow> 'p lambda_state \<Rightarrow> int result \<times> 'p lambda_state" where
  "maintain_all env k t [] s = (Inr 0, s)"
| "maintain_all env k t (a # as) s =
     and_then (maintain_account env k t a (lm_rival env (3 * k + 1) s)) (\<lambda>n s1.
     and_then (maintain_all env (Suc k) t as s1) (\<lambda>m s2. (Inr (n + m), s2)))"

definition maintain_action ::
    "'p lambda_env \<Rightarrow> (string \<times> py_value) list \<Rightarrow> 'p lambda_state
     \<Rightarrow> (string \<times> py_value) list result \<times> 'p lambda_state" where
  "maintain_action env event s =
     on_ok (observed_time env event) s (\<lambda>t.
       let deletions = pending_deletions (lb_worlds s); accounts = account_ids (lb_accounts s)
       in and_then (purge_all env t deletions (lm_rival env 0 s)) (\<lambda>purged s1.
          and_then (maintain_all env 0 t accounts s1) (\<lambda>charges s2.
            (Inr [(''purged'', VInt purged), (''storage_accounts'', VInt (int (length accounts))),
               (''storage_charges'', VInt charges)], s2))))"

section \<open>The handler\<close>

text \<open>
  What ended is announced; whatever the announcement raises is logged and swallowed, but not what
  reading the operation, the World and the Account raises.
\<close>

definition announce ::
    "'p lambda_env \<Rightarrow> (string \<times> py_value) list \<Rightarrow> string \<Rightarrow> string \<Rightarrow> 'p lambda_state
     \<Rightarrow> (string \<times> py_value) list result \<times> 'p lambda_state" where
  "announce env result account_id operation_id s =
     on_ok (get_operation (lb_worlds s) account_id operation_id) s (\<lambda>x.
     let s1 = lm_rival env 1 s
     in on_ok (world_get (lb_worlds s1) account_id (wo_world_id x)) s1 (\<lambda>w.
     let s2 = lm_rival env 2 s1
     in on_ok (account_get (lb_accounts s2) account_id) s2 (\<lambda>snapshot.
        case lb_outside (lm_notify env (sn_account snapshot) w x) s2 of
          (Inr sent, s3) \<Rightarrow> (Inr (result @ [(''notified'', VBool sent)]), s3)
        | (Inl _, s3) \<Rightarrow> (Inr (result @ [(''notified'', VBool False)]), s3))))"

definition advance_action ::
    "'p lambda_env \<Rightarrow> (string \<times> py_value) list \<Rightarrow> 'p lambda_state
     \<Rightarrow> (string \<times> py_value) list result \<times> 'p lambda_state" where
  "advance_action env event s =
     and_then (lb_on_worlds (advance_operation (lm_worker env) event) s) (\<lambda>result s1.
       if value_get result ''terminal'' = VBool True
       then announce env result (py_str (value_get result ''account_id'')) (py_str (value_get result ''operation_id''))
         (lm_rival env 0 s1)
       else (Inr result, s1))"

definition handle_event ::
    "'p lambda_env \<Rightarrow> (string \<times> py_value) list \<Rightarrow> 'p lambda_state
     \<Rightarrow> (string \<times> py_value) list result \<times> 'p lambda_state" where
  "handle_event env event s =
     (let action = (case dict_get event ''action'' of None \<Rightarrow> VStr ''advance'' | Some a \<Rightarrow> a)
      in if action = VStr ''migrate'' then migrate_action env s
         else if action = VStr ''reconcile'' then reconcile_action env event s
         else if action = VStr ''monitor_session'' then monitor_action env event s
         else if action = VStr ''apply_support_credit'' then support_credit_action env event s
         else if action = VStr ''maintain_data'' then maintain_action env event s
         else if action = VStr ''advance'' \<or> action = VStr ''record_failure'' then advance_action env event s
         else (case action of
             VList _ \<Rightarrow> (Inl (TypeError ''unhashable type''), s)
           | VDict _ \<Rightarrow> (Inl (TypeError ''unhashable type''), s)
           | _ \<Rightarrow> (Inl (ValueError (''unsupported operation worker action: '' @ py_str action)), s)))"

end
