(* ===== verification/Aws.thy ===== *)
theory Aws
  imports Application Session
begin

text \<open>
  The adapters behind the worker and the connection details (\<open>aws/ssm_runtime.py\<close>,
  \<open>aws/ec2_runtime.py\<close>, \<open>aws/connection.py\<close>): World passwords, the commands run on a game host, the
  Palworld template, the state store and the runtimes. The calls of the AWS clients are parameters
  over the providers' state \<open>'p\<close>, with the shape of their documented answers; an error of AWS is
  \<open>ClientError\<close> with its code. SHA-256 and the secrets of \<open>token_urlsafe\<close> are parameters.
\<close>

section \<open>SSM\<close>

record ssm_parameter =
  sp_name :: string
  sp_description :: string
  sp_type :: string
  sp_value :: string
  sp_overwrite :: bool

record ssm_invocation =
  si_status :: "string option"
  si_response_code :: "int option"
  si_output :: "string option"

record 'p ssm_client =
  sm_put_parameter :: "ssm_parameter \<Rightarrow> 'p \<Rightarrow> unit result \<times> 'p"
  sm_get_parameter :: "string \<Rightarrow> bool \<Rightarrow> 'p \<Rightarrow> string result \<times> 'p"
  sm_send_command :: "string \<Rightarrow> string \<Rightarrow> 'p \<Rightarrow> string result \<times> 'p"
  sm_wait :: "string \<Rightarrow> string \<Rightarrow> 'p \<Rightarrow> unit result \<times> 'p"
  sm_invocation :: "string \<Rightarrow> string \<Rightarrow> 'p \<Rightarrow> ssm_invocation result \<times> 'p"

definition is_code :: "string \<Rightarrow> py_error \<Rightarrow> bool" where
  "is_code code e \<longleftrightarrow> e = ClientError code"

section \<open>World passwords\<close>

record 'p ssm_passwords =
  pm_prefix :: string
  pm_client :: "'p ssm_client"
  pm_secret :: string

definition mk_ssm_passwords :: "string \<Rightarrow> 'p ssm_client \<Rightarrow> string \<Rightarrow> 'p ssm_passwords result" where
  "mk_ssm_passwords prefix client secret =
     (if prefix = [] then Inl (ValueError ''per-World parameter prefix is required'')
      else Inr \<lparr> pm_prefix = rev (dropWhile (\<lambda>c. c = CHR ''/'') (rev prefix)), pm_client = client,
        pm_secret = secret \<rparr>)"

definition password_modes :: "string list" where
  "password_modes = [''fixed'', ''random_each_run'']"

definition parameter_name :: "'p ssm_passwords \<Rightarrow> world \<Rightarrow> string \<Rightarrow> string" where
  "parameter_name m w suffix = pm_prefix m @ ''/'' @ wd_account_id w @ ''/'' @ wd_id w @ ''/'' @ suffix"

definition validate_password :: "string option \<Rightarrow> unit result" where
  "validate_password p = (case p of
      None \<Rightarrow> Inl (ValueError ''fixed password must contain between 6 and 64 characters'')
    | Some s \<Rightarrow>
        if length s < 6 \<or> 64 < length s
        then Inl (ValueError ''fixed password must contain between 6 and 64 characters'')
        else check (list_all (\<lambda>c. 32 \<le> (of_char c :: nat) \<and> of_char c \<noteq> (127 :: nat)) s)
          (ValueError ''fixed password cannot contain control characters''))"

definition read_optional :: "'p ssm_passwords \<Rightarrow> string \<Rightarrow> 'p \<Rightarrow> string option result \<times> 'p" where
  "read_optional m name p = (case sm_get_parameter (pm_client m) name False p of
      (Inr v, p1) \<Rightarrow> (Inr (Some v), p1)
    | (Inl e, p1) \<Rightarrow> (if is_code ''ParameterNotFound'' e then Inr None else Inl e, p1))"

definition put_secret :: "'p ssm_client \<Rightarrow> string \<Rightarrow> string \<Rightarrow> bool \<Rightarrow> 'p \<Rightarrow> unit result \<times> 'p" where
  "put_secret c name secret overwrite = sm_put_parameter c \<lparr> sp_name = name,
     sp_description = ''GameWake managed per-World Palworld entry credential'', sp_type = ''SecureString'',
     sp_value = secret, sp_overwrite = overwrite \<rparr>"

definition ensure_password :: "'p ssm_passwords \<Rightarrow> string \<Rightarrow> 'p \<Rightarrow> unit result \<times> 'p" where
  "ensure_password m name p =
     and_then (read_optional m name p) (\<lambda>found p1.
       if found \<noteq> None then (Inr (), p1)
       else (case put_secret (pm_client m) name (pm_secret m) False p1 of
           (Inl e, p2) \<Rightarrow> (if is_code ''ParameterAlreadyExists'' e then Inr () else Inl e, p2)
         | (Inr _, p2) \<Rightarrow> (Inr (), p2)))"

definition ssm_get_settings :: "'p ssm_passwords \<Rightarrow> world \<Rightarrow> 'p \<Rightarrow> password_settings result \<times> 'p" where
  "ssm_get_settings m w p =
     and_then (read_optional m (parameter_name m w ''server-password-mode'') p) (\<lambda>found p1.
       let mode = (case found of None \<Rightarrow> ''fixed'' | Some v \<Rightarrow> if v = [] then ''fixed'' else v)
       in if mode \<notin> set password_modes then (Inl (ValueError ''stored World password mode is invalid''), p1)
          else (Inr \<lparr> pw_mode = mode \<rparr>, p1))"

definition ssm_configure ::
    "'p ssm_passwords \<Rightarrow> world \<Rightarrow> string \<Rightarrow> string option \<Rightarrow> 'p \<Rightarrow> password_settings result \<times> 'p" where
  "ssm_configure m w mode password p =
     (if mode \<notin> set password_modes
      then (Inl (ValueError ''password mode must be fixed or random_each_run''), p)
      else and_then (if mode = ''fixed''
          then on_ok (validate_password password) p (\<lambda>_.
            put_secret (pm_client m) (parameter_name m w ''server-password'')
              (case password of Some v \<Rightarrow> v | None \<Rightarrow> []) True p)
          else (check (password = None) (ValueError ''random_each_run does not accept a fixed password''), p))
        (\<lambda>_ p1. and_then (sm_put_parameter (pm_client m) \<lparr> sp_name = parameter_name m w ''server-password-mode'',
            sp_description = ''GameWake per-World Palworld password rotation mode'', sp_type = ''String'',
            sp_value = mode, sp_overwrite = True \<rparr> p1)
          (\<lambda>_ p2. (Inr \<lparr> pw_mode = mode \<rparr>, p2))))"

text \<open>A random password is new once per key: the key is stored beside it.\<close>

definition prepare_for_run :: "'p ssm_passwords \<Rightarrow> world \<Rightarrow> string \<Rightarrow> 'p \<Rightarrow> unit result \<times> 'p" where
  "prepare_for_run m w key p =
     and_then (ssm_get_settings m w p) (\<lambda>settings p1.
       let name = parameter_name m w ''server-password''; rotation = parameter_name m w ''server-password-rotation''
       in if pw_mode settings = ''fixed'' then ensure_password m name p1
          else and_then (read_optional m rotation p1) (\<lambda>found p2.
            if found = Some key then (Inr (), p2)
            else on_ok (validate_password (Some (pm_secret m))) p2 (\<lambda>_.
              and_then (put_secret (pm_client m) name (pm_secret m) True p2) (\<lambda>_ p3.
                sm_put_parameter (pm_client m) \<lparr> sp_name = rotation,
                  sp_description = ''Idempotency marker for the current World password rotation'',
                  sp_type = ''String'', sp_value = key, sp_overwrite = True \<rparr> p3))))"

definition ssm_password_manager :: "'p ssm_passwords \<Rightarrow> 'p password_manager" where
  "ssm_password_manager m = \<lparr> pm_get = ssm_get_settings m, pm_configure = ssm_configure m \<rparr>"

section \<open>Commands on the host\<close>

definition host_actions :: "string list" where
  "host_actions = [''apply-configuration'', ''health'', ''initialize-state'', ''persist-state'', ''player-count'',
     ''restore-state'', ''save'', ''start'', ''stop'']"

record 'p command_runner =
  rn_client :: "'p ssm_client"
  rn_sha256 :: "string \<Rightarrow> string"

text \<open>\<open>shlex.quote\<close>.\<close>

definition shell_safe :: "char \<Rightarrow> bool" where
  "shell_safe c = (let n = of_char c :: nat in 48 \<le> n \<and> n \<le> 57 \<or> 65 \<le> n \<and> n \<le> 90 \<or> 97 \<le> n \<and> n \<le> 122
     \<or> c \<in> set ''@%_-+=:,./'')"

definition shell_quote :: "string \<Rightarrow> string" where
  "shell_quote s =
     (let q = CHR 0x27 in
      if s = [] then [q, q]
      else if list_all shell_safe s then s
      else [q] @ concat (map (\<lambda>c. if c = q then [q, CHR 0x22, q, CHR 0x22, q] else [c]) s) @ [q])"

definition failure_of :: "ssm_invocation \<Rightarrow> string \<Rightarrow> unit result" where
  "failure_of r action =
     (if si_status r = Some ''Success'' then Inr ()
      else if si_response_code r = Some 75
      then Inl (RuntimeNotReady ''GameWake runtime bootstrap is still running'')
      else if si_response_code r = Some (-1)
      then Inl (RuntimeNotReady ''GameWake runtime has not received the command yet'')
      else Inl (RuntimeError (''SSM action '' @ action @ '' failed'')))"

definition host_command :: "string \<Rightarrow> string \<Rightarrow> string list \<Rightarrow> string" where
  "host_command marker action arguments =
     join_with '' '' (map shell_quote ([''sudo'', ''/opt/gamewake/bin/gamewake-operation'', marker, action] @ arguments))"

definition run_command ::
    "'p command_runner \<Rightarrow> string \<Rightarrow> string \<Rightarrow> string \<Rightarrow> string list \<Rightarrow> 'p \<Rightarrow> string result \<times> 'p" where
  "run_command c instance_id action key arguments p =
     (if action \<notin> set host_actions then (Inl (ValueError (''unsupported GameWake host action: '' @ action)), p)
      else and_then (sm_send_command (rn_client c) instance_id
          (host_command (rn_sha256 c (utf8_encode key)) action arguments) p) (\<lambda>command p1.
        case sm_wait (rn_client c) command instance_id p1 of
          (Inl _, p2) \<Rightarrow> and_then (sm_invocation (rn_client c) command instance_id p2) (\<lambda>r p3.
            on_ok (failure_of r action) p3 (\<lambda>_. (Inl (RuntimeError (''SSM action '' @ action @ '' failed'')), p3)))
        | (Inr _, p2) \<Rightarrow> and_then (sm_invocation (rn_client c) command instance_id p2) (\<lambda>r p3.
            on_ok (failure_of r action) p3 (\<lambda>_.
              (Inr (strip (case si_output r of None \<Rightarrow> [] | Some s \<Rightarrow> s)), p3)))))"

definition run_action ::
    "'p command_runner \<Rightarrow> string \<Rightarrow> string \<Rightarrow> string \<Rightarrow> string list \<Rightarrow> 'p \<Rightarrow> unit result \<times> 'p" where
  "run_action c instance_id action key arguments p =
     and_then (run_command c instance_id action key arguments p) (\<lambda>_ p1. (Inr (), p1))"

section \<open>The Palworld template\<close>

text \<open>\<open>tm_configuration\<close> is the repository's \<open>get_configuration\<close>; without one only the revision is named.\<close>

record 'p ssm_template =
  tm_runner :: "'p command_runner"
  tm_configuration :: "(string \<Rightarrow> string \<Rightarrow> string \<Rightarrow> 'p \<Rightarrow> configuration_revision result) option"
  tm_prefix :: "string option"
  tm_base :: "(string \<times> py_value) list"
  tm_client :: "'p ssm_client"
  tm_secret :: string
  tm_passwords :: "'p ssm_passwords option"

definition world_parameter_base :: "'p ssm_template \<Rightarrow> world \<Rightarrow> string result" where
  "world_parameter_base t w = (case tm_prefix t of
      None \<Rightarrow> Inl (RuntimeError ''per-World parameter prefix is not configured'')
    | Some prefix \<Rightarrow> Inr (prefix @ ''/'' @ wd_account_id w @ ''/'' @ wd_id w))"

definition ensure_secret :: "'p ssm_template \<Rightarrow> string \<Rightarrow> 'p \<Rightarrow> unit result \<times> 'p" where
  "ensure_secret t name p = (case sm_get_parameter (tm_client t) name False p of
      (Inr _, p1) \<Rightarrow> (Inr (), p1)
    | (Inl e, p1) \<Rightarrow>
        if \<not> is_code ''ParameterNotFound'' e then (Inl e, p1)
        else (case sm_put_parameter (tm_client t) \<lparr> sp_name = name,
              sp_description = ''GameWake managed per-World Palworld credential'', sp_type = ''SecureString'',
              sp_value = tm_secret t, sp_overwrite = False \<rparr> p1 of
            (Inl e', p2) \<Rightarrow> (if is_code ''ParameterAlreadyExists'' e' then Inr () else Inl e', p2)
          | (Inr _, p2) \<Rightarrow> (Inr (), p2)))"

text \<open>\<open>{**base, **revision.values}\<close>, written with sorted keys.\<close>

definition effective_text :: "'p ssm_template \<Rightarrow> configuration_revision \<Rightarrow> string" where
  "effective_text t r = json_text True [] (sort_keys (VDict
     (foldl (\<lambda>d (k, v). dict_set k (to_py v) d) (tm_base t) (cr_entries r))))"

definition template_arguments ::
    "'p ssm_template \<Rightarrow> world \<Rightarrow> string \<Rightarrow> 'p \<Rightarrow> string list result \<times> 'p" where
  "template_arguments t w key p = (case tm_configuration t of
      None \<Rightarrow> (Inr [wd_configuration_revision_id w], p)
    | Some get \<Rightarrow>
        on_ok (get (wd_account_id w) (wd_id w) (case wd_pending_configuration_revision_id w of
            Some i \<Rightarrow> if i = [] then wd_configuration_revision_id w else i
          | None \<Rightarrow> wd_configuration_revision_id w) p) p (\<lambda>revision.
        on_ok (world_parameter_base t w) p (\<lambda>base.
        and_then (sm_put_parameter (tm_client t) \<lparr> sp_name = base @ ''/config'',
            sp_description = ''Effective non-secret GameWake World configuration'', sp_type = ''String'',
            sp_value = effective_text t revision, sp_overwrite = True \<rparr> p) (\<lambda>_ p1.
        case tm_passwords t of
          None \<Rightarrow> (Inl (RuntimeError ''per-World password manager is not configured''), p1)
        | Some m \<Rightarrow> and_then (prepare_for_run m w key p1) (\<lambda>_ p2.
            and_then (ensure_secret t (base @ ''/admin-password'') p2) (\<lambda>_ p3.
              (Inr [base @ ''/config'', base @ ''/server-password'', base @ ''/admin-password''], p3)))))))"

definition ssm_apply_configuration ::
    "'p ssm_template \<Rightarrow> world \<Rightarrow> runtime \<Rightarrow> string \<Rightarrow> 'p \<Rightarrow> unit result \<times> 'p" where
  "ssm_apply_configuration t w rt key p =
     and_then (template_arguments t w key p) (\<lambda>arguments.
       run_action (tm_runner t) (rt_provider_reference rt) ''apply-configuration'' key arguments)"

definition ssm_is_healthy :: "'p ssm_template \<Rightarrow> world \<Rightarrow> runtime \<Rightarrow> 'p \<Rightarrow> bool result \<times> 'p" where
  "ssm_is_healthy t w rt p =
     and_then (run_command (tm_runner t) (rt_provider_reference rt) ''health'' (''health:'' @ wd_id w) [] p)
       (\<lambda>out p1. let health = casefold (strip out)
         in if health = ''starting'' then (Inl (RuntimeNotReady ''Palworld game process is still starting''), p1)
            else (Inr (health = ''healthy''), p1))"

definition ssm_player_count :: "'p ssm_template \<Rightarrow> world \<Rightarrow> runtime \<Rightarrow> 'p \<Rightarrow> int result \<times> 'p" where
  "ssm_player_count t w rt p =
     and_then (run_command (tm_runner t) (rt_provider_reference rt) ''player-count'' (''player-count:'' @ wd_id w) [] p)
       (\<lambda>out p1. case int_of_text (strip out) of
           Some n \<Rightarrow> (if n < 0 then Inl (ValueError ''Palworld host returned an invalid player count'') else Inr n, p1)
         | None \<Rightarrow> (Inl (ValueError ''Palworld host returned an invalid player count''), p1))"

definition ssm_driver :: "'p ssm_template \<Rightarrow> 'p game_driver" where
  "ssm_driver t = \<lparr> gd_apply_configuration = ssm_apply_configuration t,
     gd_start = (\<lambda>w rt key. run_action (tm_runner t) (rt_provider_reference rt) ''start'' key []),
     gd_is_healthy = ssm_is_healthy t, gd_player_count = ssm_player_count t,
     gd_save = (\<lambda>w rt key. run_action (tm_runner t) (rt_provider_reference rt) ''save'' key []),
     gd_stop = (\<lambda>w rt key. run_action (tm_runner t) (rt_provider_reference rt) ''stop'' key []) \<rparr>"

section \<open>World states in S3\<close>

definition state_prefix :: "world \<Rightarrow> string" where
  "state_prefix w = ''states/'' @ wd_account_id w @ ''/'' @ wd_id w @ ''/''"

definition state_key :: "world \<Rightarrow> string \<Rightarrow> string" where
  "state_key w state_id = state_prefix w @ state_id @ ''.tar.zst''"

definition s3_restore :: "'p command_runner \<Rightarrow> string \<Rightarrow> world \<Rightarrow> runtime \<Rightarrow> string \<Rightarrow> 'p \<Rightarrow> unit result \<times> 'p" where
  "s3_restore c bucket w rt key = (case (wd_stored_state_id w, wd_stored_state_checksum w) of
      (Some state_id, Some checksum) \<Rightarrow> run_action c (rt_provider_reference rt) ''restore-state'' key
        [bucket, state_key w state_id, checksum]
    | _ \<Rightarrow> run_action c (rt_provider_reference rt) ''initialize-state'' key [])"

definition persisted_state :: "string \<Rightarrow> stored_world_state result" where
  "persisted_state output =
     (let invalid = Inl (ValueError ''runtime did not return a validated World state'')
      in case json_loads output of
           Some (VDict d) \<Rightarrow> (case (dict_get d ''state_id'', dict_get d ''checksum'', dict_get d ''validated'') of
               (Some (VStr i), Some (VStr k), Some (VBool True)) \<Rightarrow>
                 if i = [] \<or> \<not> starts_with ''sha256:'' k then invalid
                 else Inr \<lparr> ss_id = i, ss_checksum = k, ss_validated = True \<rparr>
             | _ \<Rightarrow> invalid)
         | _ \<Rightarrow> invalid)"

definition s3_persist ::
    "'p command_runner \<Rightarrow> string \<Rightarrow> world \<Rightarrow> runtime \<Rightarrow> string \<Rightarrow> 'p \<Rightarrow> stored_world_state result \<times> 'p" where
  "s3_persist c bucket w rt key p =
     and_then (run_command c (rt_provider_reference rt) ''persist-state'' key [bucket, state_prefix w] p)
       (\<lambda>out p1. (persisted_state out, p1))"

section \<open>Runtimes\<close>

record ec2_instance =
  ei_id :: string
  ei_state :: string
  ei_public_ip :: "string option"

record run_request =
  rq_launch_template :: string
  rq_client_token :: string
  rq_tags :: "(string \<times> string) list"

record 'p ec2_client =
  ec_describe :: "string list \<Rightarrow> 'p \<Rightarrow> ec2_instance list list result \<times> 'p"
  ec_describe_where :: "(string \<times> string list) list \<Rightarrow> 'p \<Rightarrow> ec2_instance list list result \<times> 'p"
  ec_run :: "run_request \<Rightarrow> 'p \<Rightarrow> ec2_instance list result \<times> 'p"
  ec_terminate :: "string list \<Rightarrow> 'p \<Rightarrow> unit result \<times> 'p"

record 'p ec2_provider =
  ep_launch_template :: string
  ep_client :: "'p ec2_client"
  ep_sha256 :: "string \<Rightarrow> string"

definition mk_ec2_provider ::
    "string \<Rightarrow> 'p ec2_client \<Rightarrow> (string \<Rightarrow> string) \<Rightarrow> 'p ec2_provider result" where
  "mk_ec2_provider template client sha256 =
     (if template = [] then Inl (ValueError ''launch_template_id is required'')
      else Inr \<lparr> ep_launch_template = template, ep_client = client, ep_sha256 = sha256 \<rparr>)"

definition runtime_of :: "string \<Rightarrow> runtime" where
  "runtime_of instance_id = \<lparr> rt_id = instance_id, rt_provider_reference = instance_id \<rparr>"

definition find_by_operation ::
    "'p ec2_provider \<Rightarrow> string \<Rightarrow> 'p \<Rightarrow> ec2_instance option result \<times> 'p" where
  "find_by_operation e key p =
     and_then (ec_describe_where (ep_client e) [(''tag:GameWakeOperation'', [key]),
         (''instance-state-name'', [''pending'', ''running'', ''stopping'', ''stopped''])] p)
       (\<lambda>reservations p1. (Inr (case concat reservations of [] \<Rightarrow> None | x # _ \<Rightarrow> Some x), p1))"

text \<open>
  \<open>response["Instances"][0]\<close>: EC2 answers a request for one instance with one. Of an empty list it would
  raise \<open>IndexError\<close>, which is written here as the other \<open>LookupError\<close>.
\<close>

definition ec2_provision :: "'p ec2_provider \<Rightarrow> world \<Rightarrow> string \<Rightarrow> 'p \<Rightarrow> runtime result \<times> 'p" where
  "ec2_provision e w key p =
     and_then (find_by_operation e key p) (\<lambda>existing p1. case existing of
         Some x \<Rightarrow> (Inr (runtime_of (ei_id x)), p1)
       | None \<Rightarrow> and_then (ec_run (ep_client e) \<lparr> rq_launch_template = ep_launch_template e,
             rq_client_token = ep_sha256 e (utf8_encode key),
             rq_tags = [(''Name'', ''gamewake-world-'' @ wd_id w), (''GameWakeAccount'', wd_account_id w),
               (''GameWakeWorld'', wd_id w), (''GameWakeOperation'', key), (''GameWakeManaged'', ''true'')] \<rparr> p1)
           (\<lambda>instances p2. (case instances of
               [] \<Rightarrow> Inl (KeyError ''list index out of range'') | x # _ \<Rightarrow> Inr (runtime_of (ei_id x)), p2)))"

definition ec2_release :: "'p ec2_provider \<Rightarrow> runtime \<Rightarrow> string \<Rightarrow> 'p \<Rightarrow> unit result \<times> 'p" where
  "ec2_release e rt key p = (case ec_describe (ep_client e) [rt_provider_reference rt] p of
      (Inl err, p1) \<Rightarrow> (if is_code ''InvalidInstanceID.NotFound'' err then Inr () else Inl err, p1)
    | (Inr reservations, p1) \<Rightarrow> (case concat reservations of
          [] \<Rightarrow> (Inr (), p1)
        | x # _ \<Rightarrow> if ei_state x = ''shutting-down'' \<or> ei_state x = ''terminated'' then (Inr (), p1)
            else ec_terminate (ep_client e) [rt_provider_reference rt] p1))"

section \<open>Connection details\<close>

record 'p connection_provider =
  cn_prefix :: string
  cn_ec2 :: "'p ec2_client"
  cn_ssm :: "'p ssm_client"
  cn_port :: int

definition mk_connection_provider ::
    "string \<Rightarrow> 'p ec2_client \<Rightarrow> 'p ssm_client \<Rightarrow> int \<Rightarrow> 'p connection_provider result" where
  "mk_connection_provider prefix ec2 ssm port =
     (if prefix = [] \<or> port < 1 \<or> 65535 < port
      then Inl (ValueError ''parameter prefix and a valid game port are required'')
      else Inr \<lparr> cn_prefix = rev (dropWhile (\<lambda>c. c = CHR ''/'') (rev prefix)), cn_ec2 = ec2, cn_ssm = ssm,
        cn_port = port \<rparr>)"

definition issue_connection ::
    "'p connection_provider \<Rightarrow> world \<Rightarrow> string \<Rightarrow> 'p \<Rightarrow> connection_details result \<times> 'p" where
  "issue_connection c w viewer p = (case wd_runtime_reference w of
      None \<Rightarrow> (Inl (ValueError ''World does not have an active Runtime''), p)
    | Some reference \<Rightarrow> and_then (ec_describe (cn_ec2 c) [reference] p) (\<lambda>reservations p1.
        case concat reservations of
          [x] \<Rightarrow>
            if ei_state x \<noteq> ''running'' then (Inl (ValueError ''World Runtime is not reachable''), p1)
            else (case ei_public_ip x of
                None \<Rightarrow> (Inl (ValueError ''World Runtime does not have a public address''), p1)
              | Some host \<Rightarrow>
                  if host = [] then (Inl (ValueError ''World Runtime does not have a public address''), p1)
                  else and_then (sm_get_parameter (cn_ssm c) (cn_prefix c @ ''/'' @ wd_account_id w @ ''/'' @ wd_id w
                      @ ''/server-password'') True p1) (\<lambda>password p2.
                    (Inr \<lparr> cd_host = host, cd_port = cn_port c, cd_password = Some password \<rparr>, p2)))
        | _ \<Rightarrow> (Inl (ValueError ''World Runtime is not reachable''), p1)))"

end
