(* ===== verification/S3Archive.thy ===== *)
theory S3Archive
  imports Archive StoragePolicy Aws IsoTime ApiViews
begin

text \<open>
  \<open>class S3WorldArchiveStore\<close> (\<open>aws/s3_archive.py\<close>): Backups and Exports as objects of a bucket. The
  calls of the S3 client are parameters over the providers' state, with the shape of their documented
  answers. A listing is followed for at most \<open>s3_pages\<close> pages; one that went on for longer would keep
  the loop of the code running.
\<close>

section \<open>The client\<close>

record s3_head =
  oh_length :: int
  oh_metadata :: "(string, string) dict"

record 'a s3_page =
  pg_items :: "'a list"
  pg_next :: "string option"

record s3_put =
  pt_key :: string
  pt_body :: string
  pt_metadata :: "(string, string) dict"

record 'p s3_client =
  s3_head_object :: "string \<Rightarrow> 'p \<Rightarrow> s3_head result \<times> 'p"
  s3_list_objects :: "string \<Rightarrow> string option \<Rightarrow> 'p \<Rightarrow> (string \<times> int) s3_page result \<times> 'p"
  s3_list_versions :: "string \<Rightarrow> string option \<Rightarrow> 'p \<Rightarrow> (string \<times> string) s3_page result \<times> 'p"
  s3_delete_objects :: "(string \<times> string option) list \<Rightarrow> 'p \<Rightarrow> unit result \<times> 'p"
  s3_copy_object :: "string \<Rightarrow> string \<Rightarrow> (string, string) dict \<Rightarrow> 'p \<Rightarrow> unit result \<times> 'p"
  s3_put_object :: "s3_put \<Rightarrow> 'p \<Rightarrow> unit result \<times> 'p"
  s3_presign :: "string \<Rightarrow> int \<Rightarrow> string"

record 'p s3_archive =
  sv_client :: "'p s3_client"
  sv_clock :: instant
  sv_expiry_seconds :: int
  sv_sha256 :: "string \<Rightarrow> string"
  sv_pages :: nat

section \<open>Objects\<close>

definition head_or_none :: "'p s3_archive \<Rightarrow> string \<Rightarrow> 'p \<Rightarrow> s3_head option result \<times> 'p" where
  "head_or_none a key p = (case s3_head_object (sv_client a) key p of
      (Inr h, p1) \<Rightarrow> (Inr (Some h), p1)
    | (Inl e, p1) \<Rightarrow> (if is_code ''404'' e \<or> is_code ''NoSuchKey'' e \<or> is_code ''NotFound'' e
        then Inr None else Inl e, p1))"

fun list_pages ::
    "nat \<Rightarrow> (string option \<Rightarrow> 'p \<Rightarrow> 'a s3_page result \<times> 'p) \<Rightarrow> string option \<Rightarrow> 'p \<Rightarrow> 'a list result \<times> 'p" where
  "list_pages 0 page token p = (Inl (RuntimeError ''the listing goes on''), p)"
| "list_pages (Suc n) page token p =
     and_then (page token p) (\<lambda>r p1. case pg_next r of
         None \<Rightarrow> (Inr (pg_items r), p1)
       | Some next \<Rightarrow> and_then (list_pages n page (Some next) p1) (\<lambda>rest p2. (Inr (pg_items r @ rest), p2)))"

definition s3_list :: "'p s3_archive \<Rightarrow> string \<Rightarrow> 'p \<Rightarrow> (string \<times> int) list result \<times> 'p" where
  "s3_list a prefix = list_pages (sv_pages a) (s3_list_objects (sv_client a) prefix) None"

definition list_versions :: "'p s3_archive \<Rightarrow> string \<Rightarrow> 'p \<Rightarrow> (string \<times> string) list result \<times> 'p" where
  "list_versions a prefix = list_pages (sv_pages a) (s3_list_versions (sv_client a) prefix) None"

text \<open>A thousand versions a call.\<close>

fun delete_versions ::
    "'p s3_archive \<Rightarrow> (string \<times> string option) list \<Rightarrow> 'p \<Rightarrow> unit result \<times> 'p" where
  "delete_versions a [] p = (Inr (), p)"
| "delete_versions a (v # vs) p =
     and_then (s3_delete_objects (sv_client a) (take 1000 (v # vs)) p)
       (\<lambda>_. delete_versions a (drop 999 vs))"

definition presigned :: "'p s3_archive \<Rightarrow> string \<Rightarrow> string" where
  "presigned a key = s3_presign (sv_client a) key (sv_expiry_seconds a)"

definition stable_id :: "'p s3_archive \<Rightarrow> string \<Rightarrow> string" where
  "stable_id a key = take 32 (sv_sha256 a (utf8_encode key))"

definition backup_key :: "backup \<Rightarrow> string" where
  "backup_key b = ''backups/'' @ bk_account_id b @ ''/'' @ bk_world_id b @ ''/'' @ backup_kind_value (bk_kind b)
     @ ''/'' @ bk_id b @ ''.tar.zst''"

definition kind_of_value :: "string \<Rightarrow> backup_kind result" where
  "kind_of_value v = (case find (\<lambda>k. backup_kind_value k = v) [AUTOMATIC, MANUAL, RESTORE_POINT, FINAL] of
      Some k \<Rightarrow> Inr k | None \<Rightarrow> Inl (ValueError (v @ '' is not a valid BackupKind'')))"

definition backup_from_metadata :: "(string, string) dict \<Rightarrow> int \<Rightarrow> backup result" where
  "backup_from_metadata m bytes =
     (case (dict_get m ''backup_id'', dict_get m ''account_id'', dict_get m ''world_id'', dict_get m ''state_id'',
         dict_get m ''checksum'', dict_get m ''kind'', dict_get m ''created_at'') of
        (Some i, Some acc, Some w, Some st, Some k, Some kind, Some at_text) \<Rightarrow>
          (case kind_of_value kind of Inl e \<Rightarrow> Inl e | Inr kind \<Rightarrow>
          (case instant_of_text at_text of Inl e \<Rightarrow> Inl e | Inr t \<Rightarrow>
             Inr \<lparr> bk_id = i, bk_account_id = acc, bk_world_id = w, bk_state_id = st, bk_checksum = k,
               bk_kind = kind, bk_size_bytes = bytes, bk_created_at = Some t \<rparr>))
      | _ \<Rightarrow> Inl (ValueError ''S3 backup metadata is incomplete''))"

section \<open>Backups\<close>

fun heads_of :: "'p s3_archive \<Rightarrow> (string \<times> int) list \<Rightarrow> 'p \<Rightarrow> backup list result \<times> 'p" where
  "heads_of a [] p = (Inr [], p)"
| "heads_of a ((key, bytes) # items) p =
     and_then (s3_head_object (sv_client a) key p) (\<lambda>h p1.
     on_ok (backup_from_metadata (oh_metadata h) bytes) p1 (\<lambda>b.
     and_then (heads_of a items p1) (\<lambda>bs p2. (Inr (b # bs), p2))))"

definition s3_list_backups :: "'p s3_archive \<Rightarrow> string \<Rightarrow> string \<Rightarrow> 'p \<Rightarrow> backup list result \<times> 'p" where
  "s3_list_backups a account_id world_id p =
     and_then (s3_list a (''backups/'' @ account_id @ ''/'' @ world_id @ ''/'') p) (\<lambda>items p1.
     and_then (heads_of a items p1) (\<lambda>bs p2. (Inr (sort_key backup_time bs), p2)))"

definition require_state :: "'p s3_archive \<Rightarrow> world \<Rightarrow> string \<Rightarrow> string \<Rightarrow> 'p \<Rightarrow> s3_head result \<times> 'p" where
  "require_state a w state_id checksum p =
     and_then (head_or_none a (state_key w state_id) p) (\<lambda>found p1. case found of
         None \<Rightarrow> (Inl (ValueError ''validated World state does not exist in S3''), p1)
       | Some h \<Rightarrow> (case dict_get (oh_metadata h) ''sha256'' of
           Some sha \<Rightarrow> if sha \<noteq> [] \<and> ''sha256:'' @ sha \<noteq> checksum
             then (Inl (ValueError ''validated World state checksum does not match S3''), p1) else (Inr h, p1)
         | None \<Rightarrow> (Inr h, p1)))"

definition require_validated_state ::
    "'p s3_archive \<Rightarrow> world \<Rightarrow> stored_world_state \<Rightarrow> 'p \<Rightarrow> s3_head result \<times> 'p" where
  "require_validated_state a w st p =
     (if \<not> ss_validated st then (Inl (ValueError ''Backup requires a validated World state''), p)
      else require_state a w (ss_id st) (ss_checksum st) p)"

definition backup_metadata :: "backup \<Rightarrow> instant \<Rightarrow> (string, string) dict" where
  "backup_metadata b t = [(''backup_id'', bk_id b), (''account_id'', bk_account_id b), (''world_id'', bk_world_id b),
     (''state_id'', bk_state_id b), (''checksum'', bk_checksum b), (''kind'', backup_kind_value (bk_kind b)),
     (''created_at'', isoformat t)]"

definition s3_create_backup ::
    "'p s3_archive \<Rightarrow> backup_kind \<Rightarrow> world \<Rightarrow> stored_world_state \<Rightarrow> string \<Rightarrow> 'p \<Rightarrow> backup result \<times> 'p" where
  "s3_create_backup a kind w st key p =
     and_then (require_validated_state a w st p) (\<lambda>source p1.
     let b = \<lparr> bk_id = stable_id a key, bk_account_id = wd_account_id w, bk_world_id = wd_id w,
           bk_state_id = ss_id st, bk_checksum = ss_checksum st, bk_kind = kind,
           bk_size_bytes = oh_length source, bk_created_at = Some (sv_clock a) \<rparr>
     in and_then (head_or_none a (backup_key b) p1) (\<lambda>existing p2. case existing of
           Some h \<Rightarrow> (backup_from_metadata (oh_metadata h) (oh_length h), p2)
         | None \<Rightarrow> and_then (s3_copy_object (sv_client a) (state_key w (ss_id st)) (backup_key b)
               (backup_metadata b (sv_clock a)) p2) (\<lambda>_ p3. (Inr b, p3))))"

definition s3_restore_backup ::
    "'p s3_archive \<Rightarrow> world \<Rightarrow> backup \<Rightarrow> string \<Rightarrow> 'p \<Rightarrow> stored_world_state result \<times> 'p" where
  "s3_restore_backup a w b key p =
     (if bk_account_id b \<noteq> wd_account_id w \<or> bk_world_id b \<noteq> wd_id w then (Inl (KeyError (bk_id b)), p)
      else and_then (require_state a w (bk_state_id b) (bk_checksum b) p) (\<lambda>_ p1.
        (Inr \<lparr> ss_id = bk_state_id b, ss_checksum = bk_checksum b, ss_validated = True \<rparr>, p1)))"

section \<open>Exports\<close>

definition export_payload ::
    "'p s3_archive \<Rightarrow> world \<Rightarrow> stored_world_state \<Rightarrow> configuration_revision \<Rightarrow> string" where
  "export_payload a w st r = utf8_encode (json_text False '' '' (sort_keys (VDict
     [(''format_version'', VInt 1), (''game_template_id'', VStr (wd_game_template_id w)),
      (''configuration_revision_id'', VStr (cr_id r)),
      (''configuration'', VDict (map (\<lambda>(k, v). (k, to_py v)) (cr_entries r))),
      (''world_state_id'', VStr (ss_id st)), (''world_state_checksum'', VStr (ss_checksum st)),
      (''state_download_url'', VStr (presigned a (state_key w (ss_id st)))),
      (''state_download_url_expires_in_seconds'', VInt (sv_expiry_seconds a)),
      (''created_at'', VStr (isoformat (sv_clock a)))])))"

definition s3_create_export ::
    "'p s3_archive \<Rightarrow> world \<Rightarrow> stored_world_state \<Rightarrow> configuration_revision \<Rightarrow> string \<Rightarrow> 'p
     \<Rightarrow> world_export result \<times> 'p" where
  "s3_create_export a w st r key p =
     and_then (require_validated_state a w st p) (\<lambda>_ p1.
     let i = stable_id a key;
         object = ''exports/'' @ wd_account_id w @ ''/'' @ wd_id w @ ''/'' @ i @ ''.json''
     in and_then (head_or_none a object p1) (\<lambda>existing p2.
        and_then (if existing \<noteq> None then (Inr (), p2)
          else s3_put_object (sv_client a) \<lparr> pt_key = object, pt_body = export_payload a w st r,
            pt_metadata = [(''account_id'', wd_account_id w), (''world_id'', wd_id w), (''export_id'', i)] \<rparr> p2)
          (\<lambda>_ p3. (Inr \<lparr> ex_id = i, ex_account_id = wd_account_id w, ex_world_id = wd_id w,
             ex_download_url = presigned a object,
             ex_manifest = \<lparr> mf_format_version = 1, mf_game_template_id = wd_game_template_id w,
               mf_configuration_revision_id = cr_id r, mf_configuration = cr_entries r,
               mf_world_state_id = ss_id st, mf_world_state_checksum = ss_checksum st \<rparr>,
             ex_created_at = sv_clock a \<rparr>, p3))))"

section \<open>Deletion and storage\<close>

fun versions_under :: "'p s3_archive \<Rightarrow> string list \<Rightarrow> 'p \<Rightarrow> (string \<times> string) list result \<times> 'p" where
  "versions_under a [] p = (Inr [], p)"
| "versions_under a (prefix # prefixes) p =
     and_then (list_versions a prefix p) (\<lambda>vs p1.
     and_then (versions_under a prefixes p1) (\<lambda>rest p2. (Inr (vs @ rest), p2)))"

definition s3_delete_world_data :: "'p s3_archive \<Rightarrow> string \<Rightarrow> string \<Rightarrow> string \<Rightarrow> 'p \<Rightarrow> unit result \<times> 'p" where
  "s3_delete_world_data a account_id world_id key p =
     and_then (versions_under a (map (\<lambda>kind. kind @ account_id @ ''/'' @ world_id @ ''/'')
         [''states/'', ''backups/'', ''exports/'']) p)
       (\<lambda>vs. delete_versions a (map (\<lambda>(k, v). (k, Some v)) vs))"

definition active_worlds :: "string \<Rightarrow> world list \<Rightarrow> world list" where
  "active_worlds account_id worlds =
     filter (\<lambda>w. wd_account_id w = account_id \<and> wd_status w \<noteq> PENDING_DELETION) worlds"

fun state_bytes :: "'p s3_archive \<Rightarrow> world list \<Rightarrow> 'p \<Rightarrow> int result \<times> 'p" where
  "state_bytes a [] p = (Inr 0, p)"
| "state_bytes a (w # ws) p =
     and_then (case wd_stored_state_id w of
         None \<Rightarrow> (Inr 0, p)
       | Some i \<Rightarrow> and_then (head_or_none a (state_key w i) p) (\<lambda>h p1.
           (Inr (case h of None \<Rightarrow> 0 | Some h \<Rightarrow> oh_length h), p1)))
       (\<lambda>n p1. and_then (state_bytes a ws p1) (\<lambda>m p2. (Inr (n + m), p2)))"

fun backups_of_worlds :: "'p s3_archive \<Rightarrow> string \<Rightarrow> world list \<Rightarrow> 'p \<Rightarrow> backup list result \<times> 'p" where
  "backups_of_worlds a account_id [] p = (Inr [], p)"
| "backups_of_worlds a account_id (w # ws) p =
     and_then (s3_list_backups a account_id (wd_id w) p) (\<lambda>bs p1.
     and_then (backups_of_worlds a account_id ws p1) (\<lambda>rest p2. (Inr (bs @ rest), p2)))"

definition s3_storage_usage :: "'p s3_archive \<Rightarrow> string \<Rightarrow> world list \<Rightarrow> 'p \<Rightarrow> int result \<times> 'p" where
  "s3_storage_usage a account_id worlds p =
     (let active = active_worlds account_id worlds
      in and_then (state_bytes a active p) (\<lambda>states p1.
         and_then (backups_of_worlds a account_id active p1) (\<lambda>bs p2.
           (Inr (states + sum_list (map bk_size_bytes bs)), p2))))"

text \<open>All versions of the Backup's object; the object itself when there are none.\<close>

fun prune_loop ::
    "'p s3_archive \<Rightarrow> int \<Rightarrow> int \<Rightarrow> backup list \<Rightarrow> 'p \<Rightarrow> backup list result \<times> 'p" where
  "prune_loop a freed bytes_to_free [] p = (Inr [], p)"
| "prune_loop a freed bytes_to_free (b # bs) p =
     (if bytes_to_free \<le> freed then (Inr [], p)
      else and_then (list_versions a (backup_key b) p) (\<lambda>vs p1.
        let mine = filter (\<lambda>(k, _). k = backup_key b) vs
        in and_then (delete_versions a (if mine = [] then [(backup_key b, None)]
              else map (\<lambda>(k, v). (k, Some v)) mine) p1) (\<lambda>_ p2.
           and_then (prune_loop a (freed + bk_size_bytes b) bytes_to_free bs p2)
             (\<lambda>rest p3. (Inr (b # rest), p3)))))"

definition s3_prune ::
    "'p s3_archive \<Rightarrow> string \<Rightarrow> world list \<Rightarrow> int \<Rightarrow> 'p \<Rightarrow> backup list result \<times> 'p" where
  "s3_prune a account_id worlds bytes_to_free p =
     and_then (backups_of_worlds a account_id (active_worlds account_id worlds) p) (\<lambda>bs p1.
       prune_loop a 0 bytes_to_free (sort_key backup_time (filter (\<lambda>b. bk_kind b = AUTOMATIC) bs)) p1)"

section \<open>The archive as a provider\<close>

definition s3_archive_store :: "'p s3_archive \<Rightarrow> 'p archive_store" where
  "s3_archive_store a = \<lparr> ar_create_automatic = s3_create_backup a AUTOMATIC,
     ar_create_manual = s3_create_backup a MANUAL, ar_create_restore_point = s3_create_backup a RESTORE_POINT,
     ar_create_final = s3_create_backup a FINAL, ar_list_backups = s3_list_backups a,
     ar_restore = s3_restore_backup a, ar_create_export = s3_create_export a,
     ar_delete_world_data = s3_delete_world_data a \<rparr>"

definition s3_storage :: "'p s3_archive \<Rightarrow> 'p storage_archive" where
  "s3_storage a = \<lparr> sa_usage = (\<lambda>account_id worlds p. fst (s3_storage_usage a account_id worlds p)),
     sa_prune = s3_prune a \<rparr>"

text \<open>The loop prunes what the in-memory archive prunes of the same candidates.\<close>

lemma prune_loop_prunes:
  assumes "\<And>b p. \<exists>vs. fst (list_versions a (backup_key b) p) = Inr vs"
    and "\<And>vs p. fst (delete_versions a vs p) = Inr ()"
  shows "fst (prune_loop a freed n bs p) = Inr (take_until_freed freed n bs)"
proof (induction bs arbitrary: freed p)
  case (Cons b bs)
  obtain vs p1 where l: "list_versions a (backup_key b) p = (Inr vs, p1)"
    using assms(1) [of b p] by (metis prod.collapse)
  have d: "\<exists>p2. delete_versions a xs p1 = (Inr (), p2)" for xs
    using assms(2) by (metis prod.collapse)
  have r: "\<exists>p3. prune_loop a m n bs p2 = (Inr (take_until_freed m n bs), p3)" for m p2
    using Cons.IH by (metis prod.collapse)
  show ?case
  proof (cases "n \<le> freed")
    case False
    obtain p2 where p2: "delete_versions a (if filter (\<lambda>(k, _). k = backup_key b) vs = [] then [(backup_key b, None)]
        else map (\<lambda>(k, v). (k, Some v)) (filter (\<lambda>(k, _). k = backup_key b) vs)) p1 = (Inr (), p2)"
      using d by blast
    obtain p3 where "prune_loop a (freed + bk_size_bytes b) n bs p2
        = (Inr (take_until_freed (freed + bk_size_bytes b) n bs), p3)" using r by blast
    then show ?thesis using False by (simp add: l p2 Let_def del: delete_versions.simps)
  qed simp
qed simp

end
