(* ===== verification/ApiLambda.thy ===== *)
theory ApiLambda
  imports Http Discord
begin

text \<open>
  The Lambda function behind the function URL (\<open>lambda/gamewake_api.py\<close>): a Discord interaction that
  would take too long is answered at once and sent to the function itself as an event, which runs the
  command and edits the answer; everything else goes to the HTTP handler. The invocation of the
  function is a parameter over the providers' state, and building the handler may raise.
\<close>

section \<open>Events\<close>

datatype lambda_event = HttpCall http_event | DeferredCall py_value

text \<open>The response of the function: the handler's, or the receipt of a deferred event.\<close>

datatype lambda_response = HttpReply web_response | Processed

record 'p api_env =
  al_handler :: "'p http_env result"
  al_ed25519 :: "string \<Rightarrow> string \<Rightarrow> string \<Rightarrow> bool"
  al_public_key :: "string option"
  al_invoke :: "string \<Rightarrow> 'p \<Rightarrow> unit result \<times> 'p"
  al_opener :: http_opener

definition plain_response :: "int \<Rightarrow> json_object \<Rightarrow> web_response" where
  "plain_response status payload = \<lparr> hs_status = status, hs_headers = [(''content-type'', ''application/json'')],
     hs_body = ApiBody (Payload payload) \<rparr>"

definition plain_error :: "int \<Rightarrow> string \<Rightarrow> string \<Rightarrow> web_response" where
  "plain_error status code message = plain_response status
     [(''error'', VDict [(''code'', VStr code), (''message'', VStr message)])]"

definition is_discord_http_event :: "http_event \<Rightarrow> bool" where
  "is_discord_http_event ev \<longleftrightarrow> ev_path ev = ''/discord/interactions'' \<and> ev_method ev = ''POST''"

text \<open>\<open>json.dumps({...}, ensure_ascii=False, separators=(",", ":")).encode()\<close>.\<close>

definition deferred_payload :: "json_object \<Rightarrow> string" where
  "deferred_payload payload = compact_body
     [(''eventType'', VStr ''gamewake.discord.interaction.v1''), (''payload'', VDict payload)]"

definition required_key :: "'p api_env \<Rightarrow> string result" where
  "required_key env = (case al_public_key env of
      Some k \<Rightarrow> if k = [] then Inl (RuntimeError ''missing required environment variable: DISCORD_PUBLIC_KEY'')
        else Inr k
    | None \<Rightarrow> Inl (RuntimeError ''missing required environment variable: DISCORD_PUBLIC_KEY''))"

text \<open>The signature is checked before the body is read.\<close>

definition signed_payload ::
    "'p api_env \<Rightarrow> http_event \<Rightarrow> string \<Rightarrow> json_object result" where
  "signed_payload env ev raw =
     bind_ok (required_key env) (\<lambda>key.
     bind_ok (verify_discord_signature (al_ed25519 env) (folded_headers ev) raw key) (\<lambda>_.
     bind_ok (loads_bytes raw) (\<lambda>v. case v of
         VDict d \<Rightarrow> Inr d
       | _ \<Rightarrow> Inl (ValueError ''Discord payload must be an object''))))"

definition dispatch_failed :: web_response where
  "dispatch_failed = plain_response 200 [(''type'', VInt 4), (''data'', VDict
     [(''content'', VStr ''Nao foi possivel iniciar a acao. Tente novamente em instantes.''),
      (''flags'', VInt 64), (''allowed_mentions'', VDict [(''parse'', VList [])])])]"

text \<open>\<open>None\<close> when the handler has to answer.\<close>

definition lightweight_discord_response ::
    "'p api_env \<Rightarrow> http_event \<Rightarrow> 'p app_state \<Rightarrow> web_response option result \<times> 'p app_state" where
  "lightweight_discord_response env ev s =
     on_ok (raw_body ev) s (\<lambda>raw.
     case signed_payload env ev raw of
       Inl e \<Rightarrow> (case e of
           SignatureValidationError _ \<Rightarrow>
             (Inr (Some (plain_error 401 ''invalid_discord_signature'' ''Invalid signature'')), s)
         | _ \<Rightarrow> if is_value_error e then (Inr (Some (plain_error 400 ''invalid_request'' ''Invalid request'')), s)
             else (Inl e, s))
     | Inr payload \<Rightarrow> on_ok (lightweight_response payload) s (\<lambda>response. case response of
         None \<Rightarrow> (Inr None, s)
       | Some r \<Rightarrow>
           if num_eq (value_get payload ''type'') 1 then (Inr (Some (plain_response 200 r)), s)
           else if \<not> py_true (value_get payload ''application_id'') \<or> \<not> py_true (value_get payload ''token'')
           then (Inr (Some (plain_error 400 ''invalid_request'' ''Invalid request'')), s)
           else (case outside (al_invoke env (deferred_payload payload)) s of
               (Inl _, s1) \<Rightarrow> (Inr (Some dispatch_failed), s1)
             | (Inr _, s1) \<Rightarrow> (Inr (Some (plain_response 200 r)), s1))))"

definition deferred_failure :: json_object where
  "deferred_failure = [(''type'', VInt 4), (''data'', VDict
     [(''content'', VStr ''Nao foi possivel concluir a acao. Tente novamente em instantes.''),
      (''allowed_mentions'', VDict [(''parse'', VList [])])])]"

definition process_deferred_discord ::
    "'p api_env \<Rightarrow> py_value \<Rightarrow> 'p app_state \<Rightarrow> lambda_response result \<times> 'p app_state" where
  "process_deferred_discord env payload s = (case payload of
      VDict d \<Rightarrow> on_ok (al_handler env) s (\<lambda>handler.
        case handle_discord handler d s of
          (r, s1) \<Rightarrow> on_ok (update_original (al_opener env) d
              (case r of Inr response \<Rightarrow> response | Inl _ \<Rightarrow> deferred_failure)) s1
            (\<lambda>_. (Inr Processed, s1)))
    | _ \<Rightarrow> (Inl (ValueError ''deferred Discord payload must be an object''), s))"

definition lambda_handler ::
    "'p api_env \<Rightarrow> lambda_event \<Rightarrow> 'p app_state \<Rightarrow> lambda_response result \<times> 'p app_state" where
  "lambda_handler env event s = (case event of
      DeferredCall payload \<Rightarrow> process_deferred_discord env payload s
    | HttpCall ev \<Rightarrow>
        and_then (if is_discord_http_event ev then lightweight_discord_response env ev s else (Inr None, s))
          (\<lambda>lightweight s1. case lightweight of
              Some r \<Rightarrow> (Inr (HttpReply r), s1)
            | None \<Rightarrow> on_ok (al_handler env) s1 (\<lambda>handler.
                and_then (http_handle handler ev s1) (\<lambda>r s2. (Inr (HttpReply r), s2)))))"

text \<open>Nothing is deferred before the signature was accepted.\<close>

lemma deferred_is_signed:
  assumes "snd (lightweight_discord_response env ev s) \<noteq> s"
  shows "\<exists>raw payload. raw_body ev = Inr raw \<and> signed_payload env ev raw = Inr payload"
  using assms
  by (auto simp: lightweight_discord_response_def on_ok_def split: sum.splits py_error.splits if_splits)

end
