(* ===== verification/Postgres.thy ===== *)
theory Postgres
  imports WorldStore StoragePolicy BillingStore "HOL-Library.Product_Lexorder"
begin

text \<open>
  The tables of the database (\<open>persistence/sql/*.sql\<close>) and the statements the repositories of
  \<open>persistence/postgres.py\<close> send to it: a table is the list of its rows, and an INSERT, an UPDATE or a
  DELETE the function of the rows that its text says, with the keys, the UNIQUE and CHECK constraints and the
  references of the table. A row is the object its JSONB column holds, and the columns that are set
  once and never updated; the other columns repeat fields of that object. A transaction is
  atomic: another client's statements do not come between its own. Texts are ordered by their
  characters.
\<close>

section \<open>Statements\<close>

text \<open>What the client raises for a violated constraint.\<close>

definition integrity_error :: py_error where
  "integrity_error = ClientError ''DatabaseErrorException''"

text \<open>\<open>clash r x\<close>: the rows \<open>r\<close> and \<open>x\<close> agree on a key of the table.\<close>

definition insert_row :: "('r \<Rightarrow> 'r \<Rightarrow> bool) \<Rightarrow> 'r \<Rightarrow> 'r list \<Rightarrow> 'r list result" where
  "insert_row clash r rows = (if list_ex (clash r) rows then Inl integrity_error else Inr (rows @ [r]))"

text \<open>\<open>ON CONFLICT DO NOTHING\<close>, with the number of rows inserted.\<close>

definition insert_unless :: "('r \<Rightarrow> 'r \<Rightarrow> bool) \<Rightarrow> 'r \<Rightarrow> 'r list \<Rightarrow> nat \<times> 'r list" where
  "insert_unless clash r rows = (if list_ex (clash r) rows then (0, rows) else (1, rows @ [r]))"

text \<open>\<open>ON CONFLICT (id) DO UPDATE\<close>: a conflict on another key is an error.\<close>

definition upsert_row :: "('r \<Rightarrow> 'r \<Rightarrow> bool) \<Rightarrow> ('r \<Rightarrow> 'r \<Rightarrow> bool) \<Rightarrow> ('r \<Rightarrow> 'r) \<Rightarrow> 'r \<Rightarrow> 'r list \<Rightarrow> 'r list result" where
  "upsert_row same clash f r rows =
     (if list_ex (same r) rows then Inr (map (\<lambda>x. if same r x then f x else x) rows)
      else insert_row clash r rows)"

text \<open>\<open>UPDATE ... WHERE\<close>, with the number of rows updated.\<close>

definition update_rows :: "('r \<Rightarrow> bool) \<Rightarrow> ('r \<Rightarrow> 'r) \<Rightarrow> 'r list \<Rightarrow> nat \<times> 'r list" where
  "update_rows P f rows = (length (filter P rows), map (\<lambda>x. if P x then f x else x) rows)"

definition delete_rows :: "('r \<Rightarrow> bool) \<Rightarrow> 'r list \<Rightarrow> nat \<times> 'r list" where
  "delete_rows P rows = (length (filter P rows), filter (\<lambda>x. \<not> P x) rows)"

text \<open>A row refers to another table, or a CHECK holds.\<close>

definition constraint :: "bool \<Rightarrow> unit result" where
  "constraint ok = check ok integrity_error"

section \<open>The tables\<close>

record operation_row =
  or_account_id :: string
  or_world_id :: string
  or_key :: string
  or_created_at :: instant
  or_operation :: world_operation

record contribution_row =
  ct_account_id :: string
  ct_key :: string
  ct_contribution :: wallet_contribution

record database =
  db_accounts :: "account_snapshot list"
  db_users :: "user list"
  db_identities :: "linked_identity list"
  db_activity :: "activity_event list"
  db_memberships :: "(string \<times> string \<times> string) list"
  db_recovery_profiles :: "(string \<times> string) list"
  db_recovery_codes :: "(string \<times> string) list"
  db_worlds :: "world list"
  db_revisions :: "configuration_revision list"
  db_operations :: "operation_row list"
  db_wallets :: "wallet_snapshot list"
  db_entries :: "ledger_entry list"
  db_contributions :: "contribution_row list"
  db_grace :: "grace_state list"
  db_statuses :: "storage_status list"

definition empty_database :: database where
  "empty_database = \<lparr> db_accounts = [], db_users = [], db_identities = [], db_activity = [], db_memberships = [],
     db_recovery_profiles = [], db_recovery_codes = [], db_worlds = [], db_revisions = [], db_operations = [],
     db_wallets = [], db_entries = [], db_contributions = [], db_grace = [], db_statuses = [] \<rparr>"

definition has_account :: "database \<Rightarrow> string \<Rightarrow> bool" where
  "has_account d account_id = list_ex (\<lambda>s. ac_id (sn_account s) = account_id) (db_accounts d)"

definition has_user :: "database \<Rightarrow> string \<Rightarrow> bool" where
  "has_user d user_id = list_ex (\<lambda>u. us_id u = user_id) (db_users d)"

definition has_world :: "database \<Rightarrow> string \<Rightarrow> string \<Rightarrow> bool" where
  "has_world d account_id world_id =
     list_ex (\<lambda>w. wd_account_id w = account_id \<and> wd_id w = world_id) (db_worlds d)"

text \<open>\<open>with database.transaction() as transaction\<close>: an exception undoes what its statements did.\<close>

definition transaction :: "(database \<Rightarrow> 'a result \<times> database) \<Rightarrow> database \<Rightarrow> 'a result \<times> database" where
  "transaction f d = (case f d of (Inl e, _) \<Rightarrow> (Inl e, d) | (Inr a, d') \<Rightarrow> (Inr a, d'))"

lemma transaction_undone: "fst (transaction f d) = Inl e \<Longrightarrow> snd (transaction f d) = d"
  by (auto simp: transaction_def split: prod.splits sum.splits)

section \<open>Accounts and recovery\<close>


text \<open>
  \<open>PostgresAccountRepository\<close> and \<open>PostgresRecoverySecretStore\<close> (\<open>persistence/postgres.py\<close>): an Account as
  one row with its aggregate and version, its Memberships again in a table of their own, its activity
  events in one that is only appended to.
\<close>

section \<open>Accounts\<close>

text \<open>The keys of \<open>accounts\<close>: the identifier and the Guild.\<close>

definition same_account :: "account_snapshot \<Rightarrow> account_snapshot \<Rightarrow> bool" where
  "same_account s x \<longleftrightarrow> ac_id (sn_account s) = ac_id (sn_account x)"

definition account_clash :: "account_snapshot \<Rightarrow> account_snapshot \<Rightarrow> bool" where
  "account_clash s x \<longleftrightarrow> same_account s x
     \<or> (ac_discord_guild_id (sn_account s) \<noteq> None
        \<and> ac_discord_guild_id (sn_account s) = ac_discord_guild_id (sn_account x))"

text \<open>The keys of \<open>account_memberships\<close>: Account and User, and the Membership.\<close>

definition membership_clash :: "string \<times> string \<times> string \<Rightarrow> string \<times> string \<times> string \<Rightarrow> bool" where
  "membership_clash r x \<longleftrightarrow>
     (fst r = fst x \<and> fst (snd r) = fst (snd x)) \<or> snd (snd r) = snd (snd x)"

fun insert_memberships ::
    "string \<Rightarrow> membership list \<Rightarrow> (string \<times> string \<times> string) list \<Rightarrow> (string \<times> string \<times> string) list result" where
  "insert_memberships account_id [] rows = Inr rows"
| "insert_memberships account_id (m # ms) rows =
     (case insert_row membership_clash (account_id, mb_user_id m, mb_id m) rows of
        Inl e \<Rightarrow> Inl e | Inr rows' \<Rightarrow> insert_memberships account_id ms rows')"

definition sync_memberships :: "account_snapshot \<Rightarrow> database \<Rightarrow> unit result \<times> database" where
  "sync_memberships s d =
     (let account_id = ac_id (sn_account s)
      in on_ok (insert_memberships account_id (sn_memberships s)
             (snd (delete_rows (\<lambda>r. fst r = account_id) (db_memberships d)))) d
           (\<lambda>rows. (Inr (), d\<lparr>db_memberships := rows\<rparr>)))"

definition pg_account_create :: "account \<Rightarrow> membership \<Rightarrow> database \<Rightarrow> unit result \<times> database" where
  "pg_account_create account owner = transaction (\<lambda>d.
     let snapshot = \<lparr> sn_account = account, sn_memberships = [owner], sn_invitations = [], sn_custom_roles = [],
           sn_activity_events = [], sn_version = 1 \<rparr>
     in on_ok (check (ac_discord_guild_id account = None
            \<or> \<not> list_ex (\<lambda>x. ac_discord_guild_id (sn_account x) = ac_discord_guild_id account) (db_accounts d))
          guild_error) d (\<lambda>_.
        on_ok (insert_row account_clash snapshot (db_accounts d)) d (\<lambda>rows.
          sync_memberships snapshot (d\<lparr>db_accounts := rows\<rparr>))))"

text \<open>\<open>_snapshot\<close>: the aggregate with its activity events in their order.\<close>

definition account_activity :: "database \<Rightarrow> string \<Rightarrow> activity_event list" where
  "account_activity d account_id =
     sort_key (\<lambda>e. (ae_occurred_at e, ae_id e)) (filter (\<lambda>e. ae_account_id e = account_id) (db_activity d))"

definition snapshot_of :: "database \<Rightarrow> account_snapshot \<Rightarrow> account_snapshot" where
  "snapshot_of d row = row\<lparr>sn_activity_events := account_activity d (ac_id (sn_account row))\<rparr>"

definition pg_account_lookup :: "database \<Rightarrow> string \<Rightarrow> account_snapshot option" where
  "pg_account_lookup d account_id =
     map_option (snapshot_of d) (find (\<lambda>s. ac_id (sn_account s) = account_id) (db_accounts d))"

definition pg_account_get :: "database \<Rightarrow> string \<Rightarrow> account_snapshot result" where
  "pg_account_get d account_id =
     (case pg_account_lookup d account_id of None \<Rightarrow> Inl (KeyError account_id) | Some s \<Rightarrow> Inr s)"

definition pg_find_by_discord_guild :: "database \<Rightarrow> string \<Rightarrow> account_snapshot option" where
  "pg_find_by_discord_guild d guild_id =
     map_option (snapshot_of d) (find (\<lambda>s. ac_discord_guild_id (sn_account s) = Some guild_id) (db_accounts d))"

definition pg_list_for_user :: "database \<Rightarrow> string \<Rightarrow> account_snapshot list" where
  "pg_list_for_user d user_id =
     map (snapshot_of d) (sort_key (\<lambda>s. (ac_name (sn_account s), ac_id (sn_account s)))
       (concat (map (\<lambda>r. filter (\<lambda>s. ac_id (sn_account s) = fst r) (db_accounts d))
         (filter (\<lambda>r. fst (snd r) = user_id) (db_memberships d)))))"

text \<open>The activity events of a snapshot: a stored one has to be the same.\<close>

fun append_activity :: "activity_event list \<Rightarrow> database \<Rightarrow> unit result \<times> database" where
  "append_activity [] d = (Inr (), d)"
| "append_activity (e # es) d =
     (case insert_unless (\<lambda>a b. ae_id a = ae_id b) e (db_activity d) of (inserted, rows) \<Rightarrow>
        on_ok (constraint (inserted = 0 \<or> has_account d (ae_account_id e))) d (\<lambda>_.
        if inserted = 0 \<and> find (\<lambda>x. ae_id x = ae_id e) (db_activity d) \<noteq> Some e
        then (Inl (ValueError ''immutable Activity Event conflicts with persisted data''), d)
        else append_activity es (d\<lparr>db_activity := rows\<rparr>)))"

definition pg_account_save :: "account_snapshot \<Rightarrow> nat \<Rightarrow> database \<Rightarrow> unit result \<times> database" where
  "pg_account_save s expected_version = transaction (\<lambda>d.
     let persisted = s\<lparr>sn_activity_events := [], sn_version := expected_version + 1\<rparr>;
         current = (\<lambda>x. same_account s x \<and> sn_version x = expected_version)
     in on_ok (constraint (\<not> list_ex current (db_accounts d)
            \<or> \<not> list_ex (\<lambda>x. account_clash s x \<and> \<not> same_account s x) (db_accounts d))) d (\<lambda>_.
        case update_rows current (\<lambda>_. persisted) (db_accounts d) of (updated, rows) \<Rightarrow>
          if updated \<noteq> 1 then (Inl (RuntimeError ''account was changed concurrently''), d)
          else and_then (sync_memberships s (d\<lparr>db_accounts := rows\<rparr>))
            (\<lambda>_ d1. append_activity (sn_activity_events s) d1)))"

section \<open>Users and identities\<close>

definition identity_clash :: "linked_identity \<Rightarrow> linked_identity \<Rightarrow> bool" where
  "identity_clash i x \<longleftrightarrow> li_id i = li_id x
     \<or> (li_provider i = li_provider x \<and> li_provider_user_id i = li_provider_user_id x)
     \<or> (li_user_id i = li_user_id x \<and> li_provider i = li_provider x)"

definition pg_find_user_by_identity :: "database \<Rightarrow> identity_provider \<Rightarrow> string \<Rightarrow> user option" where
  "pg_find_user_by_identity d provider provider_user_id =
     (case find (\<lambda>i. li_provider i = provider \<and> li_provider_user_id i = provider_user_id) (db_identities d) of
        None \<Rightarrow> None
      | Some i \<Rightarrow> find (\<lambda>u. us_id u = li_user_id i) (db_users d))"

definition pg_get_user :: "database \<Rightarrow> string \<Rightarrow> user option" where
  "pg_get_user d user_id = find (\<lambda>u. us_id u = user_id) (db_users d)"

definition insert_identity :: "linked_identity \<Rightarrow> database \<Rightarrow> unit result \<times> database" where
  "insert_identity i d =
     on_ok (constraint (has_user d (li_user_id i))) d (\<lambda>_.
     on_ok (insert_row identity_clash i (db_identities d)) d (\<lambda>rows. (Inr (), d\<lparr>db_identities := rows\<rparr>)))"

definition pg_create_user :: "user \<Rightarrow> linked_identity \<Rightarrow> database \<Rightarrow> unit result \<times> database" where
  "pg_create_user u i = transaction (\<lambda>d.
     on_ok (insert_row (\<lambda>a b. us_id a = us_id b) u (db_users d)) d (\<lambda>rows.
       insert_identity i (d\<lparr>db_users := rows\<rparr>)))"

definition pg_replace_identity :: "linked_identity \<Rightarrow> database \<Rightarrow> unit result \<times> database" where
  "pg_replace_identity i = transaction (\<lambda>d.
     insert_identity i (d\<lparr>db_identities := snd (delete_rows
       (\<lambda>x. li_user_id x = li_user_id i \<and> li_provider x = li_provider i) (db_identities d))\<rparr>))"

definition pg_list_linked_identities :: "database \<Rightarrow> string \<Rightarrow> linked_identity list" where
  "pg_list_linked_identities d user_id =
     sort_key li_id (filter (\<lambda>i. li_user_id i = user_id) (db_identities d))"

section \<open>Recovery secrets\<close>

fun insert_codes :: "string \<Rightarrow> string list \<Rightarrow> (string \<times> string) list \<Rightarrow> (string \<times> string) list result" where
  "insert_codes owner [] rows = Inr rows"
| "insert_codes owner (h # hs) rows =
     (case insert_row (=) (owner, h) rows of Inl e \<Rightarrow> Inl e | Inr rows' \<Rightarrow> insert_codes owner hs rows')"

text \<open>\<open>hashes\<close> is a frozenset: a list without repetitions.\<close>

definition pg_recovery_put :: "string \<Rightarrow> string \<Rightarrow> string list \<Rightarrow> database \<Rightarrow> unit result \<times> database" where
  "pg_recovery_put owner email hashes d =
     (if email = [] \<or> hashes = [] then (Inl (ValueError ''verified email and recovery codes are required''), d)
      else transaction (\<lambda>d.
        on_ok (constraint (has_user d owner)) d (\<lambda>_.
        on_ok (upsert_row (\<lambda>a b. fst a = fst b) (\<lambda>a b. fst a = fst b) (\<lambda>_. (owner, email)) (owner, email)
            (db_recovery_profiles d)) d (\<lambda>profiles.
        on_ok (insert_codes owner (sort (remdups hashes))
            (snd (delete_rows (\<lambda>c. fst c = owner) (db_recovery_codes d)))) d (\<lambda>codes.
          (Inr (), d\<lparr>db_recovery_profiles := profiles, db_recovery_codes := codes\<rparr>))))) d)"

definition pg_recovery_is_enabled :: "string \<Rightarrow> database \<Rightarrow> bool" where
  "pg_recovery_is_enabled owner d \<longleftrightarrow>
     list_ex (\<lambda>p. fst p = owner) (db_recovery_profiles d) \<and> list_ex (\<lambda>c. fst c = owner) (db_recovery_codes d)"

definition pg_recovery_consume :: "string \<Rightarrow> string \<Rightarrow> database \<Rightarrow> bool \<times> database" where
  "pg_recovery_consume owner hash d =
     (case delete_rows (\<lambda>c. c = (owner, hash)) (db_recovery_codes d) of (deleted, rows) \<Rightarrow>
        (deleted = 1, d\<lparr>db_recovery_codes := rows\<rparr>))"

section \<open>Worlds\<close>


text \<open>
  \<open>PostgresWorldRepository\<close> (\<open>persistence/postgres.py\<close>): Worlds by Account and identifier, Configuration
  Revisions and operations that refer to them and go with them, one idempotency key per Account for
  each, and at most one active operation of a World.
\<close>

text \<open>The keys of the tables.\<close>

definition same_world :: "world \<Rightarrow> world \<Rightarrow> bool" where
  "same_world w x \<longleftrightarrow> wd_account_id w = wd_account_id x \<and> wd_id w = wd_id x"

definition revision_clash :: "configuration_revision \<Rightarrow> configuration_revision \<Rightarrow> bool" where
  "revision_clash r x \<longleftrightarrow> cr_id r = cr_id x
     \<or> (cr_account_id r = cr_account_id x \<and> cr_idempotency_key r = cr_idempotency_key x)
     \<or> (cr_account_id r = cr_account_id x \<and> cr_world_id r = cr_world_id x \<and> cr_number r = cr_number x)"

definition both_active :: "operation_row \<Rightarrow> operation_row \<Rightarrow> bool" where
  "both_active r x \<longleftrightarrow> or_account_id r = or_account_id x \<and> or_world_id r = or_world_id x
     \<and> is_active (wo_status (or_operation r)) \<and> is_active (wo_status (or_operation x))"

definition operation_clash :: "operation_row \<Rightarrow> operation_row \<Rightarrow> bool" where
  "operation_clash r x \<longleftrightarrow> wo_id (or_operation r) = wo_id (or_operation x)
     \<or> (or_account_id r = or_account_id x \<and> or_key r = or_key x) \<or> both_active r x"

definition operation_row_of :: "world_operation \<Rightarrow> operation_row" where
  "operation_row_of x = \<lparr> or_account_id = wo_account_id x, or_world_id = wo_world_id x, or_key = wo_idempotency_key x,
     or_created_at = wo_created_at x, or_operation = x \<rparr>"

definition insert_configuration :: "configuration_revision \<Rightarrow> database \<Rightarrow> unit result \<times> database" where
  "insert_configuration r d =
     on_ok (constraint (1 \<le> cr_number r \<and> has_world d (cr_account_id r) (cr_world_id r))) d (\<lambda>_.
     on_ok (insert_row revision_clash r (db_revisions d)) d (\<lambda>rows. (Inr (), d\<lparr>db_revisions := rows\<rparr>)))"

definition pg_world_create :: "world \<Rightarrow> configuration_revision \<Rightarrow> database \<Rightarrow> unit result \<times> database" where
  "pg_world_create w initial = transaction (\<lambda>d.
     on_ok (constraint (1 \<le> wd_version w \<and> has_account d (wd_account_id w))) d (\<lambda>_.
     on_ok (insert_row same_world w (db_worlds d)) d (\<lambda>rows.
       insert_configuration initial (d\<lparr>db_worlds := rows\<rparr>))))"

definition pg_world_get :: "database \<Rightarrow> string \<Rightarrow> string \<Rightarrow> world result" where
  "pg_world_get d account_id world_id =
     (case find (\<lambda>w. wd_account_id w = account_id \<and> wd_id w = world_id) (db_worlds d) of
        None \<Rightarrow> Inl (KeyError world_id) | Some w \<Rightarrow> Inr w)"

definition pg_list_worlds :: "database \<Rightarrow> string \<Rightarrow> world list" where
  "pg_list_worlds d account_id = sort_key wd_id (filter (\<lambda>w. wd_account_id w = account_id) (db_worlds d))"

text \<open>\<open>_save_world\<close>, within a transaction.\<close>

definition update_world :: "world \<Rightarrow> nat \<Rightarrow> database \<Rightarrow> unit result \<times> database" where
  "update_world w expected_version d =
     (let current = (\<lambda>x. same_world w x \<and> wd_version x = expected_version)
      in on_ok (constraint (1 \<le> wd_version w \<or> \<not> list_ex current (db_worlds d))) d (\<lambda>_.
         case update_rows current (\<lambda>_. w) (db_worlds d) of (updated, rows) \<Rightarrow>
           if updated \<noteq> 1 then (Inl world_conflict, d) else (Inr (), d\<lparr>db_worlds := rows\<rparr>)))"

definition pg_world_save :: "world \<Rightarrow> nat \<Rightarrow> database \<Rightarrow> unit result \<times> database" where
  "pg_world_save w expected_version = transaction (update_world w expected_version)"

text \<open>The revisions and operations of a World go with it.\<close>

definition pg_world_delete :: "string \<Rightarrow> string \<Rightarrow> database \<Rightarrow> unit result \<times> database" where
  "pg_world_delete account_id world_id = transaction (\<lambda>d.
     case delete_rows (\<lambda>w. wd_account_id w = account_id \<and> wd_id w = world_id) (db_worlds d) of (deleted, rows) \<Rightarrow>
       if deleted \<noteq> 1 then (Inl (KeyError world_id), d)
       else (Inr (), d\<lparr> db_worlds := rows,
         db_revisions := filter (\<lambda>r. \<not> (cr_account_id r = account_id \<and> cr_world_id r = world_id)) (db_revisions d),
         db_operations := filter (\<lambda>r. \<not> (or_account_id r = account_id \<and> or_world_id r = world_id))
           (db_operations d) \<rparr>))"

text \<open>The operations of a World in their order; the first active one is the one that \<open>LIMIT 1\<close> takes.\<close>

definition operations_of :: "database \<Rightarrow> string \<Rightarrow> string \<Rightarrow> world_operation list" where
  "operations_of d account_id world_id =
     map or_operation (sort_key (\<lambda>r. (or_created_at r, wo_id (or_operation r)))
       (filter (\<lambda>r. or_account_id r = account_id \<and> or_world_id r = world_id) (db_operations d)))"

definition pg_list_operations :: "database \<Rightarrow> string \<Rightarrow> string \<Rightarrow> world_operation list" where
  "pg_list_operations d account_id world_id = operations_of d account_id world_id"

definition pg_begin_operation ::
    "world \<Rightarrow> world_operation \<Rightarrow> nat \<Rightarrow> database \<Rightarrow> world_operation result \<times> database" where
  "pg_begin_operation w x expected_world_version = transaction (\<lambda>d.
     case find (\<lambda>r. or_account_id r = wo_account_id x \<and> or_key r = wo_idempotency_key x) (db_operations d) of
       Some existing \<Rightarrow> (Inr (or_operation existing), d)
     | None \<Rightarrow> (case find (\<lambda>y. is_active (wo_status y)) (operations_of d (wo_account_id x) (wo_world_id x)) of
         Some active \<Rightarrow> (Inr active, d)
       | None \<Rightarrow>
           and_then (update_world w expected_world_version d) (\<lambda>_ d1.
           on_ok (constraint (1 \<le> wo_version x \<and> has_world d1 (wo_account_id x) (wo_world_id x))) d1 (\<lambda>_.
           on_ok (insert_row operation_clash (operation_row_of x) (db_operations d1)) d1 (\<lambda>rows.
             (Inr x, d1\<lparr>db_operations := rows\<rparr>))))))"

definition pg_get_operation :: "database \<Rightarrow> string \<Rightarrow> string \<Rightarrow> world_operation result" where
  "pg_get_operation d account_id operation_id =
     (case find (\<lambda>r. or_account_id r = account_id \<and> wo_id (or_operation r) = operation_id) (db_operations d) of
        None \<Rightarrow> Inl (KeyError operation_id) | Some r \<Rightarrow> Inr (or_operation r))"

text \<open>The update of an operation, refused when it would make a second one of its World active.\<close>

definition update_operation :: "world_operation \<Rightarrow> nat \<Rightarrow> database \<Rightarrow> unit result \<times> database" where
  "update_operation x expected_version d =
     (let current = (\<lambda>r. or_account_id r = wo_account_id x \<and> wo_id (or_operation r) = wo_id x
            \<and> wo_version (or_operation r) = expected_version);
          written = (\<lambda>r. r\<lparr>or_operation := x\<rparr>)
      in on_ok (constraint (list_all (\<lambda>r. current r \<longrightarrow> 1 \<le> wo_version x
             \<and> list_all (\<lambda>y. current y \<or> \<not> both_active (written r) y) (db_operations d)) (db_operations d))) d (\<lambda>_.
         case update_rows current written (db_operations d) of (updated, rows) \<Rightarrow>
           if updated \<noteq> 1 then (Inl operation_conflict, d) else (Inr (), d\<lparr>db_operations := rows\<rparr>)))"

text \<open>\<open>save_operation\<close>; a World is given with the version that was read, and without it the call fails.\<close>

definition pg_save_operation ::
    "world_operation \<Rightarrow> nat \<Rightarrow> (world \<times> nat option) option \<Rightarrow> database \<Rightarrow> unit result \<times> database" where
  "pg_save_operation x expected_version with_world = transaction (\<lambda>d.
     and_then (case with_world of
         None \<Rightarrow> (Inr (), d)
       | Some (w, None) \<Rightarrow> (Inl (ValueError ''expected World version is required''), d)
       | Some (w, Some v) \<Rightarrow> update_world w v d)
       (\<lambda>_ d1. update_operation x expected_version d1))"

definition pg_get_configuration :: "database \<Rightarrow> string \<Rightarrow> string \<Rightarrow> string \<Rightarrow> configuration_revision result" where
  "pg_get_configuration d account_id world_id revision_id =
     (case find (\<lambda>r. cr_account_id r = account_id \<and> cr_world_id r = world_id \<and> cr_id r = revision_id) (db_revisions d) of
        None \<Rightarrow> Inl (KeyError revision_id) | Some r \<Rightarrow> Inr r)"

definition pg_append_configuration ::
    "world \<Rightarrow> configuration_revision \<Rightarrow> nat \<Rightarrow> database \<Rightarrow> configuration_revision result \<times> database" where
  "pg_append_configuration w r expected_world_version = transaction (\<lambda>d.
     case find (\<lambda>x. cr_account_id x = cr_account_id r \<and> cr_idempotency_key x = cr_idempotency_key r) (db_revisions d) of
       Some existing \<Rightarrow> (Inr existing, d)
     | None \<Rightarrow>
         and_then (update_world w expected_world_version d) (\<lambda>_ d1.
         and_then (insert_configuration r d1) (\<lambda>_ d2. (Inr r, d2))))"

section \<open>Billing and storage\<close>


text \<open>
  \<open>PostgresBillingRepository\<close> and \<open>PostgresStoragePolicyRepository\<close> (\<open>persistence/postgres.py\<close>): a Wallet as
  one row with its version, beside its ledger entries, a table that triggers keep from any update
  or deletion, and its contributions.
\<close>

section \<open>Wallets\<close>

text \<open>The keys of \<open>wallet_ledger_entries\<close> and \<open>wallet_contributions\<close>.\<close>

definition entry_clash :: "ledger_entry \<Rightarrow> ledger_entry \<Rightarrow> bool" where
  "entry_clash e x \<longleftrightarrow> le_id e = le_id x
     \<or> (le_account_id e = le_account_id x \<and> le_idempotency_key e = le_idempotency_key x)"

definition same_contribution :: "contribution_row \<Rightarrow> contribution_row \<Rightarrow> bool" where
  "same_contribution r x \<longleftrightarrow> wc_id (ct_contribution r) = wc_id (ct_contribution x)"

definition contribution_clash :: "contribution_row \<Rightarrow> contribution_row \<Rightarrow> bool" where
  "contribution_clash r x \<longleftrightarrow> same_contribution r x
     \<or> (ct_account_id r = ct_account_id x \<and> ct_key r = ct_key x)"

definition contribution_row_of :: "wallet_contribution \<Rightarrow> contribution_row" where
  "contribution_row_of c =
     \<lparr> ct_account_id = wc_account_id c, ct_key = wc_idempotency_key c, ct_contribution = c \<rparr>"

text \<open>\<open>NUMERIC(20, 6)\<close> holds amounts below \<open>10 ^ 14\<close>; an amount is a number of cents.\<close>

definition fits_numeric :: "money \<Rightarrow> bool" where
  "fits_numeric m \<longleftrightarrow> \<bar>m\<bar> < 10 ^ 16"

definition stored_entries :: "database \<Rightarrow> string \<Rightarrow> ledger_entry list" where
  "stored_entries d account_id = sort_key (\<lambda>e. (le_occurred_at e, le_id e))
     (filter (\<lambda>e. le_account_id e = account_id) (db_entries d))"

definition stored_contributions :: "database \<Rightarrow> string \<Rightarrow> wallet_contribution list" where
  "stored_contributions d account_id = sort_key wc_id
     (map ct_contribution (filter (\<lambda>r. ct_account_id r = account_id) (db_contributions d)))"

definition pg_wallet_get :: "database \<Rightarrow> string \<Rightarrow> wallet_snapshot" where
  "pg_wallet_get d account_id =
     (case find (\<lambda>w. ws_account_id w = account_id) (db_wallets d) of
        None \<Rightarrow> empty_wallet account_id
      | Some w \<Rightarrow> w\<lparr> ws_entries := stored_entries d account_id, ws_contributions := stored_contributions d account_id \<rparr>)"

text \<open>The ledger entries of a snapshot: a stored one has to be the same.\<close>

fun append_entries :: "ledger_entry list \<Rightarrow> database \<Rightarrow> unit result \<times> database" where
  "append_entries [] d = (Inr (), d)"
| "append_entries (e # es) d =
     (case insert_unless entry_clash e (db_entries d) of (inserted, rows) \<Rightarrow>
        on_ok (constraint (fits_numeric (le_amount e) \<and> (inserted = 0 \<or> has_account d (le_account_id e)))) d (\<lambda>_.
        if inserted = 0 \<and> find (\<lambda>x. le_id x = le_id e) (db_entries d) \<noteq> Some e
        then (Inl (ValueError ''immutable Ledger Entry conflicts with persisted data''), d)
        else append_entries es (d\<lparr>db_entries := rows\<rparr>)))"

fun put_contributions :: "wallet_contribution list \<Rightarrow> database \<Rightarrow> unit result \<times> database" where
  "put_contributions [] d = (Inr (), d)"
| "put_contributions (c # cs) d =
     (let row = contribution_row_of c
      in on_ok (constraint (list_ex (same_contribution row) (db_contributions d) \<or> has_account d (wc_account_id c))) d (\<lambda>_.
         on_ok (upsert_row same_contribution contribution_clash (\<lambda>r. r\<lparr>ct_contribution := c\<rparr>) row (db_contributions d)) d
           (\<lambda>rows. put_contributions cs (d\<lparr>db_contributions := rows\<rparr>))))"

text \<open>\<open>save\<close>: the row is inserted for the version 0 and updated under any other.\<close>

definition put_wallet :: "wallet_snapshot \<Rightarrow> nat \<Rightarrow> database \<Rightarrow> (nat \<times> wallet_snapshot list) result" where
  "put_wallet w expected_version d =
     (let row = w\<lparr> ws_entries := [], ws_contributions := [], ws_version := expected_version + 1 \<rparr>;
          same = (\<lambda>x. ws_account_id x = ws_account_id w)
      in if expected_version = 0
         then (case insert_unless (\<lambda>a. same) row (db_wallets d) of (inserted, rows) \<Rightarrow>
           (if inserted = 0 \<or> has_account d (ws_account_id w) then Inr (inserted, rows) else Inl integrity_error))
         else Inr (update_rows (\<lambda>x. same x \<and> ws_version x = expected_version) (\<lambda>_. row) (db_wallets d)))"

definition wallet_conflict :: py_error where
  "wallet_conflict = ConcurrentBillingUpdate ''Wallet was changed concurrently''"

definition pg_wallet_save :: "wallet_snapshot \<Rightarrow> nat \<Rightarrow> database \<Rightarrow> unit result \<times> database" where
  "pg_wallet_save w expected_version = transaction (\<lambda>d.
     on_ok (put_wallet w expected_version d) d (\<lambda>(updated, rows).
       if updated \<noteq> 1 then (Inl wallet_conflict, d)
       else and_then (append_entries (ws_entries w) (d\<lparr>db_wallets := rows\<rparr>))
         (\<lambda>_ d1. put_contributions (ws_contributions w) d1)))"

definition pg_find_contribution :: "database \<Rightarrow> string \<Rightarrow> wallet_contribution option" where
  "pg_find_contribution d contribution_id =
     map_option ct_contribution (find (\<lambda>r. wc_id (ct_contribution r) = contribution_id) (db_contributions d))"

section \<open>Storage Grace Periods\<close>

definition pg_grace_get :: "database \<Rightarrow> string \<Rightarrow> grace_state option" where
  "pg_grace_get d account_id = find (\<lambda>g. gr_account_id g = account_id) (db_grace d)"

definition put_grace :: "grace_state \<Rightarrow> nat \<Rightarrow> database \<Rightarrow> (nat \<times> grace_state list) result" where
  "put_grace g expected_version d =
     (let row = g\<lparr>gr_version := expected_version + 1\<rparr>;
          same = (\<lambda>x. gr_account_id x = gr_account_id g)
      in if expected_version = 0
         then (case insert_unless (\<lambda>a. same) row (db_grace d) of (inserted, rows) \<Rightarrow>
           (if inserted = 0 \<or> has_account d (gr_account_id g) then Inr (inserted, rows) else Inl integrity_error))
         else Inr (update_rows (\<lambda>x. same x \<and> gr_version x = expected_version) (\<lambda>_. row) (db_grace d)))"

definition pg_grace_save :: "grace_state \<Rightarrow> nat \<Rightarrow> database \<Rightarrow> unit result \<times> database" where
  "pg_grace_save g expected_version = transaction (\<lambda>d.
     on_ok (put_grace g expected_version d) d (\<lambda>(updated, rows).
       if updated \<noteq> 1 then (Inl grace_conflict, d) else (Inr (), d\<lparr>db_grace := rows\<rparr>)))"

definition pg_grace_clear :: "string \<Rightarrow> nat \<Rightarrow> database \<Rightarrow> unit result \<times> database" where
  "pg_grace_clear account_id expected_version = transaction (\<lambda>d.
     case delete_rows (\<lambda>g. gr_account_id g = account_id \<and> gr_version g = expected_version) (db_grace d) of
       (deleted, rows) \<Rightarrow>
         if deleted \<noteq> 1 \<and> (pg_grace_get d account_id \<noteq> None \<or> expected_version \<noteq> 0)
         then (Inl grace_conflict, d) else (Inr (), d\<lparr>db_grace := rows\<rparr>))"

definition pg_status_get :: "database \<Rightarrow> string \<Rightarrow> storage_status option" where
  "pg_status_get d account_id = find (\<lambda>u. su_account_id u = account_id) (db_statuses d)"

definition pg_status_save :: "storage_status \<Rightarrow> database \<Rightarrow> unit result \<times> database" where
  "pg_status_save u = transaction (\<lambda>d.
     let same = (\<lambda>a b. su_account_id a = su_account_id b)
     in on_ok (constraint (has_account d (su_account_id u))) d (\<lambda>_.
        on_ok (upsert_row same same (\<lambda>_. u) u (db_statuses d)) d (\<lambda>rows. (Inr (), d\<lparr>db_statuses := rows\<rparr>))))"

end
