(* ===== verification/PostgresProperties.thy ===== *)
theory PostgresProperties
  imports Postgres "HOL-Library.Multiset"
begin

text \<open>
  The Wallet repository of the database refines the one in memory, which the operations of Billing are
  proved on: a save succeeds on one exactly when it succeeds on the other, and both go on holding
  the same Wallets, up to the order of ledger entries and contributions.
\<close>

section \<open>The tables of Billing\<close>








section \<open>The two loops\<close>


lemma contribution_row_simps [simp]:
  "ct_contribution (contribution_row_of c) = c" "ct_account_id (contribution_row_of c) = wc_account_id c"
  "ct_key (contribution_row_of c) = wc_idempotency_key c"
  by (simp_all add: contribution_row_of_def)






section \<open>The row of the Wallet\<close>






section \<open>The refinement\<close>


















end
