(* ===== verification/Codec.thy ===== *)
theory Codec
  imports Session IsoTime
begin

text \<open>
  How a domain object is written into a JSONB column and read again (\<open>persistence/codec.py\<close>). A domain
  object is a value of \<open>domain_value\<close>: a dataclass is its name with its fields in their order, an enum member
  its class and value, a frozenset the list of its members in the order of their \<open>repr\<close>. Every datetime
  is aware and in UTC (theory IsoTime), a date is the number of its day.
\<close>

section \<open>Domain objects\<close>

datatype domain_value =
    DNone
  | DBool bool
  | DInt int
  | DFloat py_float
  | DStr string
  | DEnum string string
  | DDecimal decimal
  | DInstant instant
  | DDate int
  | DObject string "(string \<times> domain_value) list"
  | DTuple "domain_value list"
  | DFrozenset "domain_value list"
  | DList "domain_value list"
  | DMap "(domain_value \<times> domain_value) list"
  | DBytes string
  | DOther string

text \<open>
  \<open>_domain_types()\<close>: the enums with their values and the dataclasses with their fields and defaults of
  the modules it lists.
\<close>

definition enum_types :: "(string \<times> string list) list" where
  "enum_types = [
     (''gamewake.accounts.model.PredefinedRole'', [''owner'', ''manager'', ''player'']),
     (''gamewake.accounts.model.InvitationStatus'', [''pending'', ''accepted'']),
     (''gamewake.accounts.model.InvitationAccess'', [''play'', ''console'']),
     (''gamewake.accounts.model.IdentityProvider'', [''discord'']),
     (''gamewake.accounts.policy.Permission'', [''world:create'', ''world:view'', ''world:wake'',
     ''world:sleep_when_empty'', ''world:edit'', ''world:restart'', ''world:update'', ''world:force_sleep'',
     ''world:logs:view'', ''backup:create'', ''backup:restore'', ''membership:manage'', ''role:manage'',
     ''integration:manage'', ''wallet:manage'', ''world:budget:manage'', ''world:migrate'', ''world:export'',
     ''world:delete'', ''account:ownership:transfer'', ''account:delete'']),
     (''gamewake.accounts.security.ActivityAction'', [''membership.revoked'', ''owner.recovered'',
     ''role_assignment.revoked'']),
     (''gamewake.billing.model.LedgerEntryType'', [''contribution'', ''runtime_charge'', ''storage_charge'',
     ''wake_guarantee'', ''availability_credit'', ''support_credit'', ''refund'', ''dispute'']),
     (''gamewake.billing.model.ReservationStatus'', [''active'', ''captured'', ''released'']),
     (''gamewake.billing.model.ContributionStatus'', [''creating_checkout'', ''pending'', ''completed'',
     ''refund_requested'', ''refunded'', ''disputed'', ''needs_review'']),
     (''gamewake.worlds.model.WorldStatus'', [''sleeping'', ''waking'', ''online'', ''going_to_sleep'',
     ''needs_attention'', ''pending_deletion'']),
     (''gamewake.worlds.model.BackupKind'', [''automatic'', ''manual'', ''restore_point'', ''final'']),
     (''gamewake.worlds.model.OperationType'', [''wake'', ''sleep'', ''recover'']),
     (''gamewake.worlds.model.OperationStatus'', [''pending'', ''running'', ''succeeded'', ''cancelled'',
     ''failed'', ''needs_attention'']),
     (''gamewake.worlds.model.OperationPhase'', [''requested'', ''provisioning_runtime'', ''restoring_world'',
     ''applying_configuration'', ''starting_game'', ''checking_game_health'', ''online'', ''checking_players'',
     ''saving_game'', ''stopping_game'', ''persisting_world'', ''creating_backup'', ''releasing_runtime'',
     ''complete''])]"

definition dataclass_types :: "(string \<times> (string \<times> domain_value option) list) list" where
  "dataclass_types = [
     (''gamewake.accounts.model.User'', [(''id'', None), (''display_name'', None)]),
     (''gamewake.accounts.model.LinkedIdentity'', [(''id'', None), (''user_id'', None), (''provider'', None),
     (''provider_user_id'', None)]),
     (''gamewake.accounts.model.Account'', [(''id'', None), (''name'', None),
     (''discord_guild_id'', Some DNone), (''discord_channel_id'', Some DNone)]),
     (''gamewake.accounts.model.ResourceScope'', [(''account_id'', None), (''world_id'', Some DNone)]),
     (''gamewake.accounts.model.RoleAssignment'', [(''id'', None), (''scope'', None),
     (''predefined_role'', Some DNone), (''custom_role_id'', Some DNone)]),
     (''gamewake.accounts.model.Membership'', [(''id'', None), (''account_id'', None), (''user_id'', None),
     (''assignments'', None)]),
     (''gamewake.accounts.model.Invitation'', [(''id'', None), (''account_id'', None),
     (''inviter_user_id'', None), (''invited_user_id'', None), (''status'', None),
     (''access'', Some (DEnum ''gamewake.accounts.model.InvitationAccess'' ''play'')),
     (''predefined_role'', Some (DEnum ''gamewake.accounts.model.PredefinedRole'' ''player'')),
     (''custom_role_id'', Some DNone), (''world_id'', Some DNone), (''expires_at'', Some DNone)]),
     (''gamewake.accounts.policy.CustomRole'', [(''id'', None), (''account_id'', None), (''name'', None),
     (''permissions'', None)]),
     (''gamewake.accounts.repository.AccountSnapshot'', [(''account'', None), (''memberships'', None),
     (''invitations'', None), (''custom_roles'', None), (''activity_events'', None), (''version'', None)]),
     (''gamewake.accounts.security.ActivityEvent'', [(''id'', None), (''account_id'', None),
     (''actor_user_id'', None), (''action'', None), (''subject_id'', None), (''occurred_at'', None)]),
     (''gamewake.accounts.security.SensitiveActionConfirmation'', [(''actor_user_id'', None),
     (''reauthenticated_at'', None), (''confirmed_resource_name'', None)]),
     (''gamewake.billing.model.ContributionPackage'', [(''id'', None), (''amount'', None),
     (''provider_product_id'', None)]),
     (''gamewake.billing.model.ContributionCheckoutRequest'', [(''external_id'', None),
     (''provider_product_id'', None), (''expected_amount'', None), (''return_url'', None),
     (''completion_url'', None), (''payer_name'', Some DNone), (''payer_email'', Some DNone)]),
     (''gamewake.billing.model.PaymentCheckout'', [(''id'', None), (''external_id'', None), (''url'', None),
     (''amount'', None), (''status'', Some (DStr ''PENDING'')), (''paid_amount'', Some DNone)]),
     (''gamewake.billing.model.PaymentMethodSummary'', [(''method'', None), (''card_last_four'', Some DNone),
     (''card_brand'', Some DNone)]),
     (''gamewake.billing.model.WalletContribution'', [(''id'', None), (''account_id'', None),
     (''payer_user_id'', None), (''package_id'', None), (''amount'', None), (''provider_product_id'', None),
     (''provider_checkout_id'', None), (''checkout_url'', None), (''return_url'', None),
     (''completion_url'', None), (''status'', None), (''idempotency_key'', None), (''created_at'', None),
     (''payment_method'', None), (''provider_refund_id'', None)]),
     (''gamewake.billing.model.ProcessedPaymentEvent'', [(''id'', None), (''event_type'', None),
     (''contribution_id'', None), (''processed_at'', None)]),
     (''gamewake.billing.model.BalanceGuardState'', [(''reservation_id'', None),
     (''notified_alert_minutes'', None)]),
     (''gamewake.billing.model.BalanceGuardDecision'', [(''reservation_id'', None),
     (''reserved_amount'', None), (''remaining_minutes'', None), (''new_alert_minutes'', None),
     (''new_budget_alert_percentages'', None), (''safe_sleep_reserved'', None), (''should_sleep'', None),
     (''reason'', None)]),
     (''gamewake.billing.model.WorldBudget'', [(''id'', None), (''account_id'', None), (''world_id'', None),
     (''monthly_limit'', None), (''idempotency_key'', None), (''updated_at'', None)]),
     (''gamewake.billing.model.WorldBudgetAlertState'', [(''world_id'', None), (''period'', None),
     (''notified_percentages'', None)]),
     (''gamewake.billing.model.WorldBudgetStatus'', [(''world_id'', None), (''period'', None),
     (''monthly_limit'', None), (''spent'', None), (''reserved'', None), (''committed'', None),
     (''percentage'', None), (''wake_allowed'', None)]),
     (''gamewake.billing.model.LedgerEntry'', [(''id'', None), (''account_id'', None), (''entry_type'', None),
     (''amount'', None), (''reference'', None), (''idempotency_key'', None), (''occurred_at'', None),
     (''actor_user_id'', Some DNone), (''reason'', Some DNone)]),
     (''gamewake.billing.model.UsageReservation'', [(''id'', None), (''account_id'', None), (''amount'', None),
     (''purpose'', None), (''idempotency_key'', None), (''status'', None), (''created_at'', None),
     (''quote_id'', Some DNone), (''world_id'', Some DNone)]),
     (''gamewake.billing.model.SessionQuote'', [(''id'', None), (''account_id'', None), (''world_id'', None),
     (''runtime_profile_id'', None), (''hourly_rate'', None), (''idempotency_key'', None),
     (''created_at'', None), (''expires_at'', None)]),
     (''gamewake.billing.model.RuntimeUsage'', [(''id'', None), (''account_id'', None), (''world_id'', None),
     (''quote_id'', None), (''reservation_id'', None), (''billable_seconds'', None), (''amount'', None),
     (''runtime_started_at'', None), (''runtime_released_at'', None), (''ledger_entry_id'', None),
     (''idempotency_key'', None)]),
     (''gamewake.billing.model.WalletSnapshot'', [(''account_id'', None), (''entries'', None),
     (''reservations'', None), (''quotes'', None), (''usages'', None), (''contributions'', None),
     (''payment_events'', None), (''balance_guards'', None), (''world_budgets'', None),
     (''world_budget_alerts'', None), (''version'', None)]),
     (''gamewake.billing.model.Wallet'', [(''account_id'', None), (''currency'', None), (''balance'', None),
     (''available_balance'', None), (''statement'', None), (''reservations'', None)]),
     (''gamewake.worlds.model.World'', [(''id'', None), (''account_id'', None), (''name'', None),
     (''game_template_id'', None), (''region'', None), (''runtime_profile_id'', None), (''status'', None),
     (''runtime_id'', None), (''runtime_provider_reference'', None), (''configuration_revision_id'', None),
     (''pending_configuration_revision_id'', None), (''stored_state_id'', None),
     (''stored_state_checksum'', None), (''version'', None), (''session_quote_id'', Some DNone),
     (''usage_reservation_id'', Some DNone), (''runtime_started_at'', Some DNone),
     (''empty_since'', Some DNone), (''deletion_scheduled_for'', Some DNone),
     (''final_backup_id'', Some DNone), (''applied_data_operations'', Some (DTuple [])),
     (''auto_sleep_minutes'', Some (DInt 20))]),
     (''gamewake.worlds.model.Runtime'', [(''id'', None), (''provider_reference'', None)]),
     (''gamewake.worlds.model.StoredWorldState'', [(''id'', None), (''checksum'', None), (''validated'', None)]),
     (''gamewake.worlds.model.Backup'', [(''id'', None), (''account_id'', None), (''world_id'', None),
     (''state_id'', None), (''checksum'', None),
     (''kind'', Some (DEnum ''gamewake.worlds.model.BackupKind'' ''automatic'')),
     (''size_bytes'', Some (DInt 0)), (''created_at'', Some DNone)]),
     (''gamewake.worlds.model.WorldExportManifest'', [(''format_version'', None), (''game_template_id'', None),
     (''configuration_revision_id'', None), (''configuration'', None), (''world_state_id'', None),
     (''world_state_checksum'', None)]),
     (''gamewake.worlds.model.WorldExport'', [(''id'', None), (''account_id'', None), (''world_id'', None),
     (''download_url'', None), (''manifest'', None), (''created_at'', None)]),
     (''gamewake.worlds.model.ConfigurationRevision'', [(''id'', None), (''account_id'', None),
     (''world_id'', None), (''game_template_id'', None), (''number'', None), (''entries'', None),
     (''idempotency_key'', None), (''created_at'', None), (''actor_user_id'', Some (DStr ''system'')),
     (''origin'', Some (DStr ''system''))]),
     (''gamewake.worlds.model.ConfigurationChange'', [(''key'', None), (''current'', None),
     (''proposed'', None), (''restart_required'', None)]),
     (''gamewake.worlds.model.ConfigurationChangePreview'', [(''world_id'', None),
     (''base_revision_id'', None), (''changes'', None), (''proposed_entries'', None)]),
     (''gamewake.worlds.model.WorldOperation'', [(''id'', None), (''account_id'', None), (''world_id'', None),
     (''operation_type'', None), (''status'', None), (''phase'', None), (''idempotency_key'', None),
     (''created_at'', None), (''version'', None), (''runtime_id'', Some DNone),
     (''runtime_provider_reference'', Some DNone), (''force'', Some (DBool False)),
     (''stored_state_id'', Some DNone), (''stored_state_checksum'', Some DNone), (''backup_id'', Some DNone),
     (''attempt_number'', Some (DInt 0)), (''session_quote_id'', Some DNone),
     (''usage_reservation_id'', Some DNone), (''runtime_started_at'', Some DNone)]),
     (''gamewake.worlds.storage.StoragePolicy'', [(''allowance_bytes'', None), (''grace_days'', Some (DInt 30))]),
     (''gamewake.worlds.storage.StorageGraceState'', [(''account_id'', None), (''started_at'', None),
     (''version'', None)]),
     (''gamewake.worlds.storage.StorageStatus'', [(''account_id'', None), (''used_bytes'', None),
     (''allowance_bytes'', None), (''excess_bytes'', None), (''grace_started_at'', None),
     (''grace_ends_at'', None), (''manual_backups_blocked'', None), (''new_worlds_blocked'', None),
     (''wake_blocked'', None), (''pruned_backup_ids'', None)])]"

definition field :: "(string \<times> domain_value) list \<Rightarrow> string \<Rightarrow> domain_value" where
  "field fs name = (case dict_get fs name of Some v \<Rightarrow> v | None \<Rightarrow> DNone)"

text \<open>The \<open>__post_init__\<close> of three dataclasses.\<close>

definition post_init :: "string \<Rightarrow> (string \<times> domain_value) list \<Rightarrow> unit result" where
  "post_init name fs =
     (let one_role = ((field fs ''predefined_role'' = DNone) \<noteq> (field fs ''custom_role_id'' = DNone))
      in if name = ''gamewake.accounts.model.RoleAssignment''
         then check one_role (ValueError ''a Role Assignment must reference exactly one Role'')
         else if name = ''gamewake.accounts.model.Invitation''
         then (if \<not> one_role then Inl (ValueError ''an Invitation must grant exactly one Role'')
               else check (\<not> (field fs ''access'' = DEnum ''gamewake.accounts.model.InvitationAccess'' ''play''
                     \<and> (field fs ''predefined_role'' \<noteq> DEnum ''gamewake.accounts.model.PredefinedRole'' ''player''
                         \<or> field fs ''custom_role_id'' \<noteq> DNone)))
                 (ValueError ''play Invitations must grant the Player Role''))
         else if name = ''gamewake.worlds.storage.StoragePolicy''
         then (case (field fs ''allowance_bytes'', field fs ''grace_days'') of
             (DInt a, DInt g) \<Rightarrow> check (0 \<le> a \<and> 0 < g) (ValueError ''Storage Policy values must be non-negative'')
           | _ \<Rightarrow> Inl (TypeError ''not supported between these instances''))
         else Inr ())"

text \<open>The values of a list of results, or the first exception.\<close>

fun all_ok :: "'a result list \<Rightarrow> 'a list result" where
  "all_ok [] = Inr []"
| "all_ok (r # rs) = (case r of Inl e \<Rightarrow> Inl e | Inr a \<Rightarrow>
     (case all_ok rs of Inl e \<Rightarrow> Inl e | Inr as \<Rightarrow> Inr (a # as)))"

text \<open>\<open>value_type(**kwargs)\<close>: unknown and missing arguments raise.\<close>

definition field_value ::
    "(string \<times> domain_value) list \<Rightarrow> string \<times> domain_value option \<Rightarrow> (string \<times> domain_value) result" where
  "field_value kwargs f = (case dict_get kwargs (fst f) of
      Some v \<Rightarrow> Inr (fst f, v)
    | None \<Rightarrow> (case snd f of Some v \<Rightarrow> Inr (fst f, v) | None \<Rightarrow> Inl (TypeError ''missing a required argument'')))"

definition construct ::
    "string \<Rightarrow> (string \<times> domain_value option) list \<Rightarrow> (string \<times> domain_value) list \<Rightarrow> domain_value result" where
  "construct name declared kwargs =
     (if \<not> list_all (\<lambda>(k, _). k \<in> fst ` set declared) kwargs
      then Inl (TypeError ''got an unexpected keyword argument'')
      else (case all_ok (map (field_value kwargs) declared) of
          Inl e \<Rightarrow> Inl e
        | Inr fs \<Rightarrow> (case post_init name fs of Inl e \<Rightarrow> Inl e | Inr _ \<Rightarrow> Inr (DObject name fs))))"

section \<open>Writing\<close>

text \<open>\<open>str(d)\<close> of a \<open>Decimal\<close>.\<close>

definition decimal_str :: "decimal \<Rightarrow> string" where
  "decimal_str d = (case d of
      Dec c e \<Rightarrow>
        (let ds = show_nat (nat \<bar>c\<bar>); left = e + int (length ds);
             point = (if e \<le> 0 \<and> - 6 < left then left else 1)
         in (if c < 0 then ''-'' else [])
            @ (if point \<le> 0 then ''0.'' @ replicate (nat (- point)) CHR ''0'' @ ds
               else if int (length ds) \<le> point then ds @ replicate (nat point - length ds) CHR ''0''
               else take (nat point) ds @ ''.'' @ drop (nat point) ds)
            @ (if left = point then []
               else ''E'' @ (if left < point then [] else ''+'') @ show_int (left - point)))
    | DInf neg \<Rightarrow> (if neg then ''-'' else []) @ ''Infinity''
    | DNaN \<Rightarrow> ''NaN''
    | DSNaN \<Rightarrow> ''sNaN'')"

definition isodate :: "int \<Rightarrow> string" where
  "isodate day = (case civil_from_days day of (y, m, d) \<Rightarrow>
     zero_pad 4 (nat y) @ ''-'' @ zero_pad 2 (nat m) @ ''-'' @ zero_pad 2 (nat d))"

text \<open>\<open>_encode\<close>; \<open>order\<close> is \<open>repr\<close>.\<close>

fun encode :: "(domain_value \<Rightarrow> string) \<Rightarrow> domain_value \<Rightarrow> py_value result" where
  "encode order (DEnum name v) = Inr (VDict [(''__enum__'', VStr name), (''value'', VStr v)])"
| "encode order DNone = Inr VNone"
| "encode order (DBool b) = Inr (VBool b)"
| "encode order (DInt n) = Inr (VInt n)"
| "encode order (DFloat x) = Inr (VFloat x)"
| "encode order (DStr s) = Inr (VStr s)"
| "encode order (DDecimal d) = Inr (VDict [(''__decimal__'', VStr (decimal_str d))])"
| "encode order (DInstant t) = Inr (VDict [(''__datetime__'', VStr (isoformat t))])"
| "encode order (DDate d) = Inr (VDict [(''__date__'', VStr (isodate d))])"
| "encode order (DObject name fs) = map_sum id
     (\<lambda>vs. VDict [(''__type__'', VStr name), (''fields'', VDict (zip (map fst fs) vs))])
     (all_ok (map (\<lambda>(_, v). encode order v) fs))"
| "encode order (DTuple vs) = map_sum id (\<lambda>xs. VDict [(''__tuple__'', VList xs)]) (all_ok (map (encode order) vs))"
| "encode order (DFrozenset vs) = map_sum id (\<lambda>xs. VDict [(''__frozenset__'', VList xs)])
     (all_ok (map snd (sort_key fst (map (\<lambda>v. (order v, encode order v)) vs))))"
| "encode order (DList vs) = map_sum id (\<lambda>xs. VDict [(''__list__'', VList xs)]) (all_ok (map (encode order) vs))"
| "encode order (DMap ps) = map_sum id (\<lambda>xs. VDict [(''__map__'', VList xs)])
     (all_ok (map (\<lambda>(k, v). map_sum id VList (all_ok [encode order k, encode order v])) ps))"
| "encode order (DBytes s) = Inl (TypeError ''unsupported persisted domain value: bytes'')"
| "encode order (DOther name) = Inl (TypeError (''unsupported persisted domain value: '' @ name))"

text \<open>\<open>json.dumps(..., ensure_ascii=False, separators=(",", ":"), sort_keys=True)\<close>\<close>

definition encode_domain :: "(domain_value \<Rightarrow> string) \<Rightarrow> domain_value \<Rightarrow> string result" where
  "encode_domain order v = map_sum id (\<lambda>x. json_text False [] (sort_keys x)) (encode order v)"

section \<open>Reading\<close>

fun hashable_value :: "domain_value \<Rightarrow> bool" where
  "hashable_value (DList _) \<longleftrightarrow> False"
| "hashable_value (DMap _) \<longleftrightarrow> False"
| "hashable_value (DObject _ fs) \<longleftrightarrow> list_all (\<lambda>(_, v). hashable_value v) fs"
| "hashable_value (DTuple vs) \<longleftrightarrow> list_all hashable_value vs"
| "hashable_value _ \<longleftrightarrow> True"

definition unhashable :: py_error where
  "unhashable = TypeError ''unhashable type''"

text \<open>\<open>frozenset(...)\<close> and a dict of pairs; equal members of different types are kept apart.\<close>

definition frozen :: "(domain_value \<Rightarrow> string) \<Rightarrow> domain_value list \<Rightarrow> domain_value result" where
  "frozen order vs = (if list_all hashable_value vs then Inr (DFrozenset (sort_key order (remdups vs))) else Inl unhashable)"

definition map_of_pairs :: "(domain_value \<times> domain_value) list \<Rightarrow> domain_value result" where
  "map_of_pairs ps = (if list_all (\<lambda>(k, _). hashable_value k) ps
     then Inr (DMap (foldl (\<lambda>d (k, v). dict_set k v d) [] ps)) else Inl unhashable)"

text \<open>\<open>date.fromisoformat\<close> in the form that \<open>isoformat\<close> writes.\<close>

definition date_of_text :: "string \<Rightarrow> int result" where
  "date_of_text s = (case (digits_at s 0 4, digits_at s 5 2, digits_at s 8 2) of
      (Some y, Some m, Some d) \<Rightarrow>
        if length s = 10 \<and> s ! 4 = CHR ''-'' \<and> s ! 7 = CHR ''-'' \<and> valid_date y m d
        then Inr (days_from_civil y m d) else Inl (ValueError ''Invalid isoformat string'')
    | _ \<Rightarrow> Inl (ValueError ''Invalid isoformat string''))"

definition decimal_from :: "string \<Rightarrow> domain_value result" where
  "decimal_from s = (case decimal_of_text s of Some d \<Rightarrow> Inr (DDecimal d) | None \<Rightarrow> Inl InvalidOperation)"

text \<open>A parsed value as it is: only an object is decoded.\<close>

fun raw :: "py_value \<Rightarrow> domain_value" where
  "raw VNone = DNone"
| "raw (VBool b) = DBool b"
| "raw (VInt n) = DInt n"
| "raw (VFloat x) = DFloat x"
| "raw (VStr s) = DStr s"
| "raw (VList vs) = DList (map raw vs)"
| "raw (VDict d) = DMap (map (\<lambda>(k, v). (DStr k, raw v)) d)"

text \<open>An enum of a name and a value that may be missing.\<close>

definition decode_enum :: "string \<Rightarrow> py_value option \<Rightarrow> domain_value result" where
  "decode_enum name v = (case dict_get enum_types name of
      None \<Rightarrow> Inl (ValueError (if dict_get dataclass_types name = None
        then ''unknown persisted domain type: '' @ name else ''persisted type is not an enum: '' @ name))
    | Some values \<Rightarrow> (case v of
        None \<Rightarrow> Inl (KeyError ''value'')
      | Some (VStr s) \<Rightarrow> if s \<in> set values then Inr (DEnum name s) else Inl (ValueError ''is not a valid member'')
      | Some _ \<Rightarrow> Inl (ValueError ''is not a valid member'')))"

definition decode_object :: "string \<Rightarrow> (string \<times> domain_value) list result option \<Rightarrow> domain_value result" where
  "decode_object name kwargs = (case dict_get dataclass_types name of
      None \<Rightarrow> Inl (ValueError (if dict_get enum_types name = None
        then ''unknown persisted domain type: '' @ name else ''persisted type is not a dataclass: '' @ name))
    | Some declared \<Rightarrow> (case kwargs of
        None \<Rightarrow> Inl (ValueError ''persisted dataclass fields must be an object'')
      | Some (Inl e) \<Rightarrow> Inl e
      | Some (Inr fs) \<Rightarrow> construct name declared fs))"

text \<open>\<open>for key, item in\<close> the members of a value.\<close>

definition pair_up :: "domain_value list result \<Rightarrow> (domain_value \<times> domain_value) result" where
  "pair_up r = (case r of
      Inl e \<Rightarrow> Inl e
    | Inr [k, v] \<Rightarrow> Inr (k, v)
    | Inr _ \<Rightarrow> Inl (ValueError ''wrong number of values to unpack''))"

text \<open>
  \<open>_decode\<close>, with the members of a value that is iterated over (a list, the characters of a text, the
  keys of an object), and the pairs. Each is computed for every member of an object, and the one that its
  marker asks for is taken.
\<close>

fun decode :: "(domain_value \<Rightarrow> string) \<Rightarrow> py_value \<Rightarrow> domain_value result"
  and decode_items :: "(domain_value \<Rightarrow> string) \<Rightarrow> py_value \<Rightarrow> domain_value list result"
  and decode_pairs :: "(domain_value \<Rightarrow> string) \<Rightarrow> py_value \<Rightarrow> (domain_value \<times> domain_value) list result"
  and decode_fields :: "(domain_value \<Rightarrow> string) \<Rightarrow> py_value \<Rightarrow> (string \<times> domain_value) list result option" where
  "decode order VNone = Inr DNone"
| "decode order (VBool b) = Inr (DBool b)"
| "decode order (VInt n) = Inr (DInt n)"
| "decode order (VFloat x) = Inr (DFloat x)"
| "decode order (VStr s) = Inr (DStr s)"
| "decode order (VList vs) = Inr (DList (map raw vs))"
| "decode order (VDict d) =
     (let items = map (\<lambda>(k, v). (k, decode_items order v)) d;
          pairs = map (\<lambda>(k, v). (k, decode_pairs order v)) d;
          kwargs = map (\<lambda>(k, v). (k, decode_fields order v)) d
      in case dict_get d ''__decimal__'' of Some v \<Rightarrow> decimal_from (py_str v) | None \<Rightarrow>
         (case dict_get d ''__datetime__'' of Some v \<Rightarrow> map_sum id DInstant (instant_of_text (py_str v)) | None \<Rightarrow>
         (case dict_get d ''__date__'' of Some v \<Rightarrow> map_sum id DDate (date_of_text (py_str v)) | None \<Rightarrow>
         (case dict_get d ''__enum__'' of Some v \<Rightarrow> decode_enum (py_str v) (dict_get d ''value'') | None \<Rightarrow>
         (case dict_get d ''__type__'' of Some v \<Rightarrow> decode_object (py_str v)
            (case dict_get kwargs ''fields'' of Some f \<Rightarrow> f | None \<Rightarrow> None) | None \<Rightarrow>
         (case dict_get items ''__tuple__'' of Some r \<Rightarrow> map_sum id DTuple r | None \<Rightarrow>
         (case dict_get items ''__frozenset__'' of
            Some r \<Rightarrow> (case r of Inl e \<Rightarrow> Inl e | Inr vs \<Rightarrow> frozen order vs) | None \<Rightarrow>
         (case dict_get items ''__list__'' of Some r \<Rightarrow> map_sum id DList r | None \<Rightarrow>
         (case dict_get pairs ''__map__'' of
            Some r \<Rightarrow> (case r of Inl e \<Rightarrow> Inl e | Inr ps \<Rightarrow> map_of_pairs ps) | None \<Rightarrow>
         Inl (ValueError ''unknown persisted domain object''))))))))))"
| "decode_items order (VList vs) = all_ok (map (decode order) vs)"
| "decode_items order (VStr s) = Inr (map (\<lambda>c. DStr [c]) s)"
| "decode_items order (VDict d) = Inr (map (\<lambda>(k, _). DStr k) d)"
| "decode_items order v = Inl (TypeError ''object is not iterable'')"
| "decode_pairs order (VList vs) = all_ok (map (\<lambda>v. pair_up (decode_items order v)) vs)"
| "decode_pairs order (VStr s) = (if s = [] then Inr [] else Inl (ValueError ''wrong number of values to unpack''))"
| "decode_pairs order (VDict d) = all_ok (map (\<lambda>(k, _). pair_up (Inr (map (\<lambda>c. DStr [c]) k))) d)"
| "decode_pairs order v = Inl (TypeError ''object is not iterable'')"
| "decode_fields order (VDict d) = Some (all_ok (map (\<lambda>(k, v). map_sum id (\<lambda>x. (k, x)) (decode order v)) d))"
| "decode_fields order v = None"

text \<open>\<open>decode_domain(payload, expected_type)\<close>; \<open>None\<close> is not valid JSON.\<close>

definition object_of :: "string option \<Rightarrow> domain_value \<Rightarrow> bool" where
  "object_of expected v \<longleftrightarrow> (case expected of None \<Rightarrow> True
     | Some name \<Rightarrow> (case v of DObject n _ \<Rightarrow> n = name | DEnum n _ \<Rightarrow> n = name | _ \<Rightarrow> False))"

definition decode_domain :: "(domain_value \<Rightarrow> string) \<Rightarrow> string option \<Rightarrow> string \<Rightarrow> domain_value result" where
  "decode_domain order expected payload = (case json_loads payload of
      None \<Rightarrow> Inl (ValueError ''invalid JSON'')
    | Some x \<Rightarrow> (case decode order x of
        Inl e \<Rightarrow> Inl e
      | Inr v \<Rightarrow> if object_of expected v then Inr v else Inl (ValueError ''persisted value has another type'')))"

text \<open>\<open>_payload(row)\<close>: the column as the client gives it, a text or the value it was parsed to.\<close>

definition payload_text :: "py_value \<Rightarrow> string" where
  "payload_text v = (case v of VStr s \<Rightarrow> s | _ \<Rightarrow> json_text False [] (sort_keys v))"

end
