(* ===== verification/CodecProperties.thy ===== *)
theory CodecProperties
  imports Codec
begin

text \<open>
  What was written into a column of the database is read again: for decimals, for instants and dates, and by
  induction for every domain object that can be stored.
\<close>

section \<open>Decimals\<close>

lemma scan_digits_append:
  "list_all is_digit ds \<Longrightarrow> r = [] \<or> \<not> is_digit (hd r) \<and> hd r \<noteq> CHR ''_'' \<Longrightarrow> scan_digits (ds @ r) = (ds, r)"
proof (induction ds)
  case Nil
  then show ?case by (cases r) auto
next
  case (Cons c ds)
  have u: "\<not> is_digit CHR ''_''" by code_simp
  then have "skip_underscore (ds @ r) = ds @ r" using Cons.prems
    by (cases ds; cases r) (auto simp: skip_underscore_def split: list.splits)
  with Cons show ?case by simp
qed

lemma casefold_append [simp]: "casefold (a @ b) = casefold a @ casefold b"
  by (simp add: casefold_def)

lemma casefold_digits: "list_all is_digit ds \<Longrightarrow> casefold ds = ds"
proof -
  have "list_all (\<lambda>c. to_lower c = c) ''0123456789''" by code_simp
  then have "is_digit c \<Longrightarrow> to_lower c = c" for c by (auto simp: is_digit_def list_all_iff)
  then show "list_all is_digit ds \<Longrightarrow> casefold ds = ds"
    by (auto simp: casefold_def list_all_iff intro!: map_idI)
qed

lemma no_underscore: "list_all is_digit ds \<Longrightarrow> filter (\<lambda>c. c \<noteq> CHR ''_'') ds = ds"
proof -
  have "\<not> is_digit CHR ''_''" by code_simp
  then show "list_all is_digit ds \<Longrightarrow> filter (\<lambda>c. c \<noteq> CHR ''_'') ds = ds"
    by (auto simp: list_all_iff intro!: filter_True)
qed

text \<open>The exponent of a decimal number, as it is written.\<close>

definition exponent_text :: "int \<Rightarrow> string" where
  "exponent_text x = (if x = 0 then [] else ''E'' @ (if x < 0 then [] else ''+'') @ show_int x)"

lemma exponent_chars:
  "x \<noteq> 0 \<Longrightarrow> exponent_text x = CHR ''E'' # (if x < 0 then CHR ''-'' else CHR ''+'') # show_nat (nat \<bar>x\<bar>)"
  by (simp add: exponent_text_def show_int_def)

lemma exponent_none [simp]: "exponent_text 0 = []"
  by (simp add: exponent_text_def)

text \<open>The digits before and after the point.\<close>

lemma whole_point:
  fixes e :: int
  assumes "0 < l" and "int l \<le> (if e \<le> 0 \<and> - 6 < e + int l then e + int l else 1)"
  shows "nat (if e \<le> 0 \<and> - 6 < e + int l then e + int l else 1) = l"
  using assms by (auto split: if_splits)

lemma decimal_str_parts:
  obtains whole frac x where
    "decimal_str (Dec c e) = (if c < 0 then ''-'' else []) @ whole @ (if frac = [] then [] else CHR ''.'' # frac) @ exponent_text x"
    "whole \<noteq> []" "list_all is_digit whole" "list_all is_digit frac"
    "nat_of_digits (whole @ frac) = nat \<bar>c\<bar>" "e = x - int (length frac)"
proof -
  let ?ds = "show_nat (nat \<bar>c\<bar>)"
  let ?left = "e + int (length ?ds)"
  let ?point = "if e \<le> 0 \<and> - 6 < ?left then ?left else 1"
  have len: "0 < length ?ds" by simp
  have ex: "(if ?left = ?point then [] else ''E'' @ (if ?left < ?point then [] else ''+'') @ show_int (?left - ?point))
      = exponent_text (?left - ?point)" by (simp add: exponent_text_def)
  show thesis
  proof (cases "?point \<le> 0")
    case True
    then have p: "?point = ?left" by (auto split: if_splits)
    show thesis
    proof (rule that [of "''0''" "replicate (nat (- ?left)) CHR ''0'' @ ?ds" 0])
      show "decimal_str (Dec c e) = (if c < 0 then ''-'' else []) @ ''0'' @ (if replicate (nat (- ?left)) CHR ''0'' @ ?ds = []
          then [] else CHR ''.'' # (replicate (nat (- ?left)) CHR ''0'' @ ?ds)) @ exponent_text 0"
        using True p by (simp add: decimal_str_def Let_def exponent_text_def)
      show "nat_of_digits (''0'' @ replicate (nat (- ?left)) CHR ''0'' @ ?ds) = nat \<bar>c\<bar>"
        using nat_of_zeros [of 1 "replicate (nat (- ?left)) CHR ''0'' @ ?ds"] by (simp add: nat_of_zeros)
      show "e = 0 - int (length (replicate (nat (- ?left)) CHR ''0'' @ ?ds))" using True p by auto
    qed (simp_all add: digits_replicate show_nat_digits)
  next
    case False
    show thesis
    proof (cases "int (length ?ds) \<le> ?point")
      case True
      have n: "nat ?point = length ?ds" by (rule whole_point [OF len True])
      show thesis
      proof (rule that [of ?ds "[]" "?left - ?point"])
        show "decimal_str (Dec c e) = (if c < 0 then ''-'' else []) @ ?ds @ (if [] = [] then [] else CHR ''.'' # []) @ exponent_text (?left - ?point)"
          using True False n unfolding decimal_str_def Let_def decimal.case ex by simp
        show "e = ?left - ?point - int (length [])" using n True len by (auto split: if_splits)
      qed (simp_all add: show_nat_digits)
    next
      case split: False
      let ?p = "nat ?point"
      have p: "0 < ?p" "?p < length ?ds" using False split by auto
      show thesis
      proof (rule that [of "take ?p ?ds" "drop ?p ?ds" "?left - ?point"])
        show "decimal_str (Dec c e) = (if c < 0 then ''-'' else []) @ take ?p ?ds @ (if drop ?p ?ds = [] then [] else CHR ''.'' # drop ?p ?ds) @ exponent_text (?left - ?point)"
          using False split p unfolding decimal_str_def Let_def decimal.case ex by simp
        show "e = ?left - ?point - int (length (drop ?p ?ds))" using p False by auto
      qed (use p digits_take_drop [OF show_nat_digits] in auto)
    qed
  qed
qed

text \<open>Reading the exponent and the parts of the number.\<close>

lemma to_lower_simps [simp]: "to_lower CHR ''E'' = CHR ''e''" "to_lower CHR ''.'' = CHR ''.''"
  "to_lower CHR ''-'' = CHR ''-''" "to_lower CHR ''+'' = CHR ''+''"
  by code_simp+

lemma not_digits [simp]: "\<not> is_digit CHR ''e''" "\<not> is_digit CHR ''.''" "\<not> is_digit CHR ''E''"
  "\<not> is_digit CHR ''-''" "\<not> is_digit CHR ''+''"
  by code_simp+

lemma scan_decimal_parts:
  assumes "whole \<noteq> []" and "list_all is_digit whole" and "list_all is_digit frac"
  shows "scan_decimal (whole @ (if frac = [] then [] else CHR ''.'' # frac) @ casefold (exponent_text x))
    = Some (nat_of_digits (whole @ frac), x - int (length frac))"
proof -
  let ?ex = "casefold (exponent_text x)"
  have ex: "?ex = [] \<and> x = 0 \<or> (x \<noteq> 0 \<and> ?ex = CHR ''e'' # (if x < 0 then CHR ''-'' else CHR ''+'') # show_nat (nat \<bar>x\<bar>))"
    using exponent_chars [of x] casefold_digits [OF show_nat_digits, of "nat \<bar>x\<bar>"]
    by (cases "x = 0") (simp_all add: exponent_text_def casefold_def)
  have after: "?ex = [] \<or> \<not> is_digit (hd ?ex) \<and> hd ?ex \<noteq> CHR ''_''" using ex by auto
  have whole: "scan_digits (whole @ (if frac = [] then [] else CHR ''.'' # frac) @ ?ex)
      = (whole, (if frac = [] then [] else CHR ''.'' # frac) @ ?ex)"
    using after by (intro scan_digits_append [OF assms(2)]) auto
  have frac: "(if take 1 ((if frac = [] then [] else CHR ''.'' # frac) @ ?ex) = ''.''
      then scan_digits (drop 1 ((if frac = [] then [] else CHR ''.'' # frac) @ ?ex))
      else ([], (if frac = [] then [] else CHR ''.'' # frac) @ ?ex)) = (frac, ?ex)"
    using ex scan_digits_append [OF assms(3) after] by auto
  have digits: "scan_digits (show_nat m) = (show_nat m, [])" for m
    by (rule scan_digits_all [OF show_nat_digits])
  from ex show ?thesis
  proof
    assume "?ex = [] \<and> x = 0"
    then have none: "?ex = []" and zero: "x = 0" by blast+
    show ?thesis unfolding scan_decimal_def whole frac prod.case unfolding none using assms(1) zero by (simp add: Let_def)
  next
    assume "x \<noteq> 0 \<and> ?ex = CHR ''e'' # (if x < 0 then CHR ''-'' else CHR ''+'') # show_nat (nat \<bar>x\<bar>)"
    then show ?thesis unfolding scan_decimal_def whole frac prod.case using assms(1)
      by (simp add: Let_def split_sign_def digits)
  qed
qed

lemma digit_head:
  assumes "is_digit c"
  shows "\<not> is_space c" "c \<noteq> CHR ''-''" "c \<noteq> CHR ''+''" "c \<noteq> CHR ''_''" "c \<noteq> CHR ''i''" "c \<noteq> CHR ''n''" "c \<noteq> CHR ''s''"
  using assms by (auto simp: is_digit_def is_space_def)

lemma decimal_of_plain_text:
  assumes "casefold (filter (\<lambda>c. c \<noteq> CHR ''_'') (strip s)) = t" and "split_sign t = (neg, r)"
    and "r \<notin> set [''inf'', ''infinity'']" and "take 3 r \<noteq> ''nan''" and "take 4 r \<noteq> ''snan''"
    and "scan_decimal r = Some (n, k)"
  shows "decimal_of_text s = Some (Dec (if neg then - int n else int n) k)"
  unfolding decimal_of_text_def assms(1,2) using assms(3-6) by simp

theorem decimal_of_str: "decimal_of_text (decimal_str d) = Some d"
proof (cases d)
  case (Dec c e)
  obtain whole frac x where t: "decimal_str (Dec c e)
        = (if c < 0 then ''-'' else []) @ whole @ (if frac = [] then [] else CHR ''.'' # frac) @ exponent_text x"
      and w: "whole \<noteq> []" "list_all is_digit whole" and f: "list_all is_digit frac"
      and n: "nat_of_digits (whole @ frac) = nat \<bar>c\<bar>" and e: "e = x - int (length frac)"
    by (rule decimal_str_parts)
  let ?body = "whole @ (if frac = [] then [] else CHR ''.'' # frac)"
  let ?s = "(if c < 0 then ''-'' else []) @ ?body @ exponent_text x"
  have hd: "is_digit (hd whole)" using w by (cases whole) auto
  have minus: "\<not> is_space CHR ''-''" by code_simp
  have "is_digit (last ?s)"
    using w f show_nat_ends(2) [of "nat \<bar>x\<bar>"]
    by (cases "x = 0"; cases "frac = []") (auto simp: exponent_chars list_all_iff)
  moreover have "\<not> is_space (hd ?s)" using w(1) digit_head(1) [OF hd] minus by simp
  ultimately have strip: "strip ?s = ?s" using digit_head(1) by (intro strip_no_space) auto
  have plain: "filter (\<lambda>c. c \<noteq> CHR ''_'') ?s = ?s"
    using no_underscore [OF w(2)] no_underscore [OF f] no_underscore [OF show_nat_digits, of "nat \<bar>x\<bar>"]
    by (cases "x = 0") (simp_all add: exponent_chars)
  let ?r = "?body @ casefold (exponent_text x)"
  have low: "casefold ?s = (if c < 0 then ''-'' else []) @ ?r"
    using casefold_digits [OF w(2)] casefold_digits [OF f] by (simp add: casefold_def)
  have hd_r: "hd ?r = hd whole" "?r \<noteq> []" using w(1) by auto
  then have sign: "split_sign ((if c < 0 then ''-'' else []) @ ?r) = (c < 0, ?r)"
    using digit_head [OF hd] by (cases ?r) (auto simp: split_sign_def)
  have words: "?r \<notin> set [''inf'', ''infinity'']" "take 3 ?r \<noteq> ''nan''" "take 4 ?r \<noteq> ''snan''"
    using hd_r digit_head [OF hd] by (cases ?r; auto)+
  have folded: "casefold (filter (\<lambda>c. c \<noteq> CHR ''_'') (strip ?s)) = (if c < 0 then ''-'' else []) @ ?r"
    by (simp only: strip plain low)
  have "scan_decimal ?r = Some (nat \<bar>c\<bar>, e)" using scan_decimal_parts [OF w f, of x] n e by simp
  from decimal_of_plain_text [OF folded sign words this]
  have "decimal_of_text (decimal_str (Dec c e)) = Some (Dec (if c < 0 then - int (nat \<bar>c\<bar>) else int (nat \<bar>c\<bar>)) e)"
    unfolding t by simp
  then show ?thesis using Dec by simp
next
  case (DInf neg)
  have "decimal_of_text (decimal_str (DInf True)) = Some (DInf True)" "decimal_of_text (decimal_str (DInf False)) = Some (DInf False)"
    by code_simp+
  with DInf show ?thesis by (cases neg) auto
next
  case DNaN
  have "decimal_of_text (decimal_str DNaN) = Some DNaN" by code_simp
  with DNaN show ?thesis by simp
next
  case DSNaN
  have "decimal_of_text (decimal_str DSNaN) = Some DSNaN" by code_simp
  with DSNaN show ?thesis by simp
qed

section \<open>Dates\<close>

lemma date_of_isodate:
  assumes "1 \<le> fst (civil_from_days n)" and "fst (civil_from_days n) \<le> 9999"
  shows "date_of_text (isodate n) = Inr n"
proof -
  obtain y m d where c: "civil_from_days n = (y, m, d)" by (cases "civil_from_days n") auto
  note day = civil_day [OF c]
  have y: "1 \<le> y" "y \<le> 9999" using assms c by auto
  obtain y1 y2 y3 y4 where Y: "zero_pad 4 (nat y) = [y1, y2, y3, y4]" "list_all is_digit [y1, y2, y3, y4]"
    "int_of_text [y1, y2, y3, y4] = Some y" using y by (auto intro: four_digits [of y])
  obtain m1 m2 where M: "zero_pad 2 (nat m) = [m1, m2]" "is_digit m1" "is_digit m2" "int_of_text [m1, m2] = Some m"
    using day by (auto intro: two_digits [of m])
  obtain d1 d2 where D: "zero_pad 2 (nat d) = [d1, d2]" "is_digit d1" "is_digit d2" "int_of_text [d1, d2] = Some d"
    using day by (auto intro: two_digits [of d])
  have "isodate n = [y1, y2, y3, y4] @ ''-'' @ [m1, m2] @ ''-'' @ [d1, d2]"
    using c Y(1) M(1) D(1) by (simp add: isodate_def)
  moreover have "valid_date y m d" using y day c by (simp add: valid_date_def)
  ultimately show ?thesis using Y(2,3) M(2-4) D(2-4) day(1) by (simp add: date_of_text_def digits_at_def)
qed

section \<open>Domain objects\<close>

text \<open>
  The objects that can be stored: members of their enums, dataclasses with their fields in order that pass
  their checks, frozensets and dicts of different hashable members, integers and floats that JSON keeps
  (theory JsonRoundTrip), years of \<open>datetime\<close>.
\<close>

fun storable :: "(domain_value \<Rightarrow> string) \<Rightarrow> domain_value \<Rightarrow> bool" where
  "storable order (DInt n) \<longleftrightarrow> length (show_nat (nat \<bar>n\<bar>)) \<le> 4300"
| "storable order (DFloat x) \<longleftrightarrow> float_ok x"
| "storable order (DEnum name v) \<longleftrightarrow> (case dict_get enum_types name of None \<Rightarrow> False | Some vs \<Rightarrow> v \<in> set vs)"
| "storable order (DInstant t) \<longleftrightarrow> datetime_ok t"
| "storable order (DDate n) \<longleftrightarrow> 1 \<le> fst (civil_from_days n) \<and> fst (civil_from_days n) \<le> 9999"
| "storable order (DObject name fs) \<longleftrightarrow>
     (case dict_get dataclass_types name of None \<Rightarrow> False | Some declared \<Rightarrow> map fst fs = map fst declared)
     \<and> post_init name fs = Inr () \<and> (\<forall>p \<in> set fs. storable order (snd p))"
| "storable order (DTuple vs) \<longleftrightarrow> (\<forall>v \<in> set vs. storable order v)"
| "storable order (DList vs) \<longleftrightarrow> (\<forall>v \<in> set vs. storable order v)"
| "storable order (DFrozenset vs) \<longleftrightarrow> distinct vs \<and> sorted (map order vs) \<and> list_all hashable_value vs
     \<and> (\<forall>v \<in> set vs. storable order v)"
| "storable order (DMap ps) \<longleftrightarrow> distinct (map fst ps) \<and> (\<forall>p \<in> set ps. hashable_value (fst p))
     \<and> (\<forall>p \<in> set ps. storable order (fst p) \<and> storable order (snd p))"
| "storable order (DBytes s) \<longleftrightarrow> False"
| "storable order (DOther s) \<longleftrightarrow> False"
| "storable order v \<longleftrightarrow> True"

text \<open>The fields of a dataclass have different names.\<close>

lemma names_of_fields_distinct:
  "dict_get dataclass_types name = Some declared \<Longrightarrow> distinct (map fst declared)"
proof -
  have "list_all (\<lambda>(_, declared). distinct (map fst declared)) dataclass_types" by code_simp
  then show "dict_get dataclass_types name = Some declared \<Longrightarrow> distinct (map fst declared)"
    by (auto simp: list_all_iff dest: map_of_SomeD)
qed

lemma all_ok_map: "(\<And>x. x \<in> set xs \<Longrightarrow> f x = Inr (g x)) \<Longrightarrow> all_ok (map f xs) = Inr (map g xs)"
  by (induction xs) auto

lemma sort_key_map: "sort_key f (map g xs) = map g (sort_key (\<lambda>x. f (g x)) xs)"
proof (induction xs)
  case (Cons x xs)
  have "insort_key f (g x) (map g ys) = map g (insort_key (\<lambda>x. f (g x)) x ys)" for ys
    by (induction ys) auto
  with Cons show ?case by simp
qed simp

lemma construct_fields:
  assumes "map fst fs = map fst declared" and "distinct (map fst declared)" and "post_init name fs = Inr ()"
  shows "construct name declared (sort_key fst fs) = Inr (DObject name fs)"
proof -
  have d1: "distinct (map fst fs)" using assms(1,2) by simp
  then have d: "distinct (map fst fs)" "distinct (map fst (sort_key fst fs))" by (simp_all add: distinct_map)
  have get: "dict_get (sort_key fst fs) = dict_get fs" using d by (intro map_of_eqI) auto
  have "all_ok (map (field_value (sort_key fst fs)) declared) = Inr (map (\<lambda>f. (fst f, the (dict_get fs (fst f)))) declared)"
  proof (rule all_ok_map)
    fix f assume "f \<in> set declared"
    then have "fst f \<in> set (map fst fs)" using assms(1) by (metis image_eqI list.set_map)
    then obtain v where "dict_get fs (fst f) = Some v" by (cases "dict_get fs (fst f)") (auto simp: map_of_eq_None_iff)
    then show "field_value (sort_key fst fs) f = Inr (fst f, the (dict_get fs (fst f)))"
      by (simp add: field_value_def get)
  qed
  also have "map (\<lambda>f. (fst f, the (dict_get fs (fst f)))) declared = map (\<lambda>k. (k, the (dict_get fs k))) (map fst declared)"
    by simp
  also have "\<dots> = map (\<lambda>p. (fst p, the (dict_get fs (fst p)))) fs" unfolding assms(1) [symmetric] by simp
  also have "\<dots> = fs" using d(1) by (intro map_idI) auto
  finally have made: "all_ok (map (field_value (sort_key fst fs)) declared) = Inr fs" .
  have known: "list_all (\<lambda>(k, _). k \<in> fst ` set declared) (sort_key fst fs)"
    using arg_cong [OF assms(1), of set] by (auto simp: list_all_iff) (metis fst_conv image_eqI)
  show ?thesis unfolding construct_def made using known assms(3) by simp
qed

text \<open>The members of a container, written with \<open>f\<close> and read with \<open>h\<close>.\<close>

lemma members_round_trip:
  assumes "\<And>v. v \<in> set vs \<Longrightarrow> \<exists>x. f v = Inr x \<and> json_ok (sort_keys x) \<and> h (sort_keys x) = Inr v"
  shows "\<exists>xs. all_ok (map f vs) = Inr xs \<and> (\<forall>x \<in> set xs. json_ok (sort_keys x))
     \<and> all_ok (map h (map sort_keys xs)) = Inr vs"
  using assms
proof (induction vs)
  case (Cons v vs)
  obtain x where x: "f v = Inr x" "json_ok (sort_keys x)" "h (sort_keys x) = Inr v" using Cons.prems [of v] by auto
  obtain xs where "all_ok (map f vs) = Inr xs" "\<forall>x \<in> set xs. json_ok (sort_keys x)"
    "all_ok (map h (map sort_keys xs)) = Inr vs" using Cons.IH Cons.prems by (metis list.set_intros(2))
  with x show ?case by (intro exI [of _ "x # xs"]) simp
qed simp

lemma marker_order: "''__enum__'' \<le> ''value''" "''__type__'' \<le> ''fields''"
  by code_simp+

lemma object_round_trip:
  assumes fields: "\<And>p. p \<in> set fs \<Longrightarrow> \<exists>x. encode order (snd p) = Inr x \<and> json_ok (sort_keys x)
      \<and> decode order (sort_keys x) = Inr (snd p)"
    and ok: "storable order (DObject name fs)"
  shows "\<exists>x. encode order (DObject name fs) = Inr x \<and> json_ok (sort_keys x)
     \<and> decode order (sort_keys x) = Inr (DObject name fs)"
proof -
  obtain declared where declared: "dict_get dataclass_types name = Some declared" "map fst fs = map fst declared"
    using ok by (auto split: option.splits)
  note distinct = names_of_fields_distinct [OF declared(1)]
  obtain g where g: "\<And>p. p \<in> set fs \<Longrightarrow> encode order (snd p) = Inr (g p) \<and> json_ok (sort_keys (g p))
      \<and> decode order (sort_keys (g p)) = Inr (snd p)" using fields by metis
  have enc: "all_ok (map (\<lambda>(_, v). encode order v) fs) = Inr (map g fs)" by (rule all_ok_map) (use g in auto)
  have zip: "zip (map fst fs) (map g fs) = map (\<lambda>p. (fst p, g p)) fs" by (induction fs) auto
  let ?sorted = "map (\<lambda>p. (fst p, sort_keys (g p))) (sort_key fst fs)"
  have "sort_key fst (map (\<lambda>(k, v). (k, sort_keys v)) (map (\<lambda>p. (fst p, g p)) fs)) = ?sorted"
    by (simp add: sort_key_map comp_def)
  then have keys: "sort_keys (VDict [(''__type__'', VStr name), (''fields'', VDict (map (\<lambda>p. (fst p, g p)) fs))])
      = VDict [(''__type__'', VStr name), (''fields'', VDict ?sorted)]"
    using marker_order(2) by simp
  have "all_ok (map (\<lambda>(k, v). map_sum id (\<lambda>x. (k, x)) (decode order v)) ?sorted)
      = Inr (map (\<lambda>p. p) (sort_key fst fs))"
    unfolding map_map by (rule all_ok_map) (use g in auto)
  then have kwargs: "decode_fields order (VDict ?sorted) = Some (Inr (sort_key fst fs))" by simp
  have "decode order (VDict [(''__type__'', VStr name), (''fields'', VDict ?sorted)])
      = decode_object name (decode_fields order (VDict ?sorted))" by (simp add: py_str_def)
  also have "\<dots> = Inr (DObject name fs)"
    unfolding kwargs decode_object_def declared(1) option.case sum.case
    using construct_fields [OF declared(2) distinct] ok by simp
  finally have dec: "decode order (VDict [(''__type__'', VStr name), (''fields'', VDict ?sorted)]) = Inr (DObject name fs)" .
  have "distinct (map fst ?sorted)" using distinct declared(2) by (simp add: comp_def) (metis distinct_map distinct_sort set_sort)
  then have "json_ok (VDict [(''__type__'', VStr name), (''fields'', VDict ?sorted)])" using g by auto
  moreover have "encode order (DObject name fs)
      = Inr (VDict [(''__type__'', VStr name), (''fields'', VDict (map (\<lambda>p. (fst p, g p)) fs))])"
    unfolding encode.simps enc by (simp add: zip)
  ultimately show ?thesis using dec unfolding keys [symmetric] by blast
qed

lemma encode_round_trip:
  "storable order v \<Longrightarrow> \<exists>x. encode order v = Inr x \<and> json_ok (sort_keys x) \<and> decode order (sort_keys x) = Inr v"
proof (induction order v rule: encode.induct)
  case (1 order name v)
  then obtain vs where "dict_get enum_types name = Some vs" "v \<in> set vs" by (auto split: option.splits)
  then show ?case using marker_order(1) by (simp add: py_str_def decode_enum_def)
next
  case (10 order name fs)
  show ?case
  proof (rule object_round_trip [OF _ 10(2)])
    fix p assume p: "p \<in> set fs"
    then have "storable order (snd p)" using 10(2) by auto
    then show "\<exists>x. encode order (snd p) = Inr x \<and> json_ok (sort_keys x) \<and> decode order (sort_keys x) = Inr (snd p)"
      using 10(1) [OF p] by (cases p) auto
  qed
next
  case (11 order vs)
  then obtain xs where "all_ok (map (encode order) vs) = Inr xs" "\<forall>x \<in> set xs. json_ok (sort_keys x)"
    "all_ok (map (decode order) (map sort_keys xs)) = Inr vs"
    using members_round_trip [of vs "encode order" "decode order"] by auto
  then show ?case by simp
next
  case (12 order vs)
  then obtain xs where xs: "all_ok (map (encode order) vs) = Inr xs" "\<forall>x \<in> set xs. json_ok (sort_keys x)"
    "all_ok (map (decode order) (map sort_keys xs)) = Inr vs"
    using members_round_trip [of vs "encode order" "decode order"] by auto
  have "map snd (sort_key fst (map (\<lambda>v. (order v, encode order v)) vs)) = map (encode order) vs"
    using 12(2) by (simp add: sort_key_map sort_key_id_if_sorted comp_def)
  then show ?case using xs 12(2) by (simp add: frozen_def sort_key_id_if_sorted distinct_remdups_id)
next
  case (13 order vs)
  then obtain xs where "all_ok (map (encode order) vs) = Inr xs" "\<forall>x \<in> set xs. json_ok (sort_keys x)"
    "all_ok (map (decode order) (map sort_keys xs)) = Inr vs"
    using members_round_trip [of vs "encode order" "decode order"] by auto
  then show ?case by simp
next
  case (14 order ps)
  have "\<exists>x. (case p of (k, v) \<Rightarrow> map_sum id VList (all_ok [encode order k, encode order v])) = Inr x
      \<and> json_ok (sort_keys x) \<and> pair_up (decode_items order (sort_keys x)) = Inr p" if p: "p \<in> set ps" for p
  proof -
    obtain k v where kv: "p = (k, v)" by (cases p)
    have "storable order k" "storable order v" using 14(3) p kv by auto
    then obtain x y where "encode order k = Inr x" "json_ok (sort_keys x)" "decode order (sort_keys x) = Inr k"
      "encode order v = Inr y" "json_ok (sort_keys y)" "decode order (sort_keys y) = Inr v"
      using 14(1,2) p kv by metis
    then show ?thesis using kv by (simp add: pair_up_def)
  qed
  then obtain xs where xs: "all_ok (map (\<lambda>(k, v). map_sum id VList (all_ok [encode order k, encode order v])) ps) = Inr xs"
    "\<forall>x \<in> set xs. json_ok (sort_keys x)"
    "all_ok (map (\<lambda>v. pair_up (decode_items order v)) (map sort_keys xs)) = Inr ps"
    using members_round_trip [of ps _ "\<lambda>v. pair_up (decode_items order v)"] by blast
  moreover have "foldl (\<lambda>d (k, v). dict_set k v d) [] ps = ps" using dict_of_distinct [of "[]" ps] 14(3) by simp
  ultimately show ?case using 14(3) by (auto simp: map_of_pairs_def list_all_iff)
qed (auto simp: py_str_def decimal_from_def decimal_of_str instant_of_isoformat date_of_isodate)

section \<open>The round trip\<close>

text \<open>
  C40. What is stored in a column of the database is read again: every domain object that can be stored is
  written to a JSON text, and reading that text as an object of its type gives the object back, for every
  dataclass and enum of the domain, decimals, instants, dates, tuples, frozensets and dicts at any depth.
\<close>

theorem stored_object_is_read_back:
  assumes "storable order v" and "object_of expected v"
  shows "\<exists>t. encode_domain order v = Inr t \<and> decode_domain order expected t = Inr v"
proof -
  obtain x where x: "encode order v = Inr x" "json_ok (sort_keys x)" "decode order (sort_keys x) = Inr v"
    using encode_round_trip [OF assms(1)] by blast
  then show ?thesis using assms(2)
    by (simp add: encode_domain_def decode_domain_def json_loads_written)
qed

text \<open>A custom Role, ordered by the values of its permissions, and a Configuration Revision.\<close>

definition by_value :: "domain_value \<Rightarrow> string" where
  "by_value v = (case v of DEnum _ s \<Rightarrow> s | _ \<Rightarrow> [])"

definition caretaker_role :: domain_value where
  "caretaker_role = DObject ''gamewake.accounts.policy.CustomRole''
     [(''id'', DStr ''r1''), (''account_id'', DStr ''acc''), (''name'', DStr ''Zelador'' ),
      (''permissions'', DFrozenset [DEnum ''gamewake.accounts.policy.Permission'' ''world:view'',
         DEnum ''gamewake.accounts.policy.Permission'' ''world:wake''])]"

definition night_revision :: domain_value where
  "night_revision = DObject ''gamewake.worlds.model.ConfigurationRevision''
     [(''id'', DStr ''rev''), (''account_id'', DStr ''acc''), (''world_id'', DStr ''w''), (''game_template_id'', DStr ''palworld''),
      (''number'', DInt 2), (''entries'', DTuple [DTuple [DStr ''NightTimeSpeedRate'', DFloat (Flt 3 (- 1))],
        DTuple [DStr ''bIsPvP'', DBool False]]), (''idempotency_key'', DStr ''k''),
      (''created_at'', DInstant 1700000000123456), (''actor_user_id'', DStr ''ana''), (''origin'', DStr ''console'')]"

theorem stored_object_is_read_back_witness:
  "(\<exists>t. encode_domain by_value caretaker_role = Inr t
      \<and> decode_domain by_value (Some ''gamewake.accounts.policy.CustomRole'') t = Inr caretaker_role)
   \<and> (\<exists>t. encode_domain by_value night_revision = Inr t \<and> decode_domain by_value None t = Inr night_revision)"
proof -
  have "storable by_value caretaker_role" "storable by_value night_revision"
    "object_of (Some ''gamewake.accounts.policy.CustomRole'') caretaker_role" "object_of None night_revision"
    by code_simp+
  then show ?thesis using stored_object_is_read_back by blast
qed

end
