(* ===== verification/DataApi.thy ===== *)
theory DataApi
  imports Codec AbacatePay
begin

text \<open>
  How a repository's statements reach the database: the RDS Data API client (\<open>persistence/data_api.py\<close>), the
  migrations (\<open>persistence/migrations.py\<close>) and the direct PostgreSQL adapter (\<open>persistence/psycopg.py\<close>).
  The calls of the clients are parameters on a state \<open>'p\<close>.
\<close>

section \<open>Parameters\<close>

text \<open>\<open>json.dumps\<close> of a dict, a list or a tuple; a dict here has texts as its keys.\<close>

fun plain_json :: "domain_value \<Rightarrow> py_value result" where
  "plain_json DNone = Inr VNone"
| "plain_json (DBool b) = Inr (VBool b)"
| "plain_json (DInt n) = Inr (VInt n)"
| "plain_json (DFloat x) = Inr (VFloat x)"
| "plain_json (DStr s) = Inr (VStr s)"
| "plain_json (DEnum _ s) = Inr (VStr s)"
| "plain_json (DTuple vs) = map_sum id VList (all_ok (map plain_json vs))"
| "plain_json (DList vs) = map_sum id VList (all_ok (map plain_json vs))"
| "plain_json (DMap ps) = map_sum id VDict (all_ok (map (\<lambda>(k, v). case k of
     DStr s \<Rightarrow> map_sum id (\<lambda>x. (s, x)) (plain_json v)
   | DEnum _ s \<Rightarrow> map_sum id (\<lambda>x. (s, x)) (plain_json v)
   | _ \<Rightarrow> Inl (TypeError ''keys must be str'')) ps))"
| "plain_json v = Inl (TypeError ''Object is not JSON serializable'')"

text \<open>\<open>astimezone(UTC).replace(tzinfo=None).isoformat(sep=" ")\<close>\<close>

definition naive_text :: "instant \<Rightarrow> string" where
  "naive_text t = (let s = isoformat t in take 10 s @ '' '' @ take (length s - 17) (drop 11 s))"

definition parameter_value :: "domain_value \<Rightarrow> ((string \<times> py_value) list \<times> string option) result" where
  "parameter_value v = (case v of
      DNone \<Rightarrow> Inr ([(''isNull'', VBool True)], None)
    | DBool b \<Rightarrow> Inr ([(''booleanValue'', VBool b)], None)
    | DInt n \<Rightarrow> Inr ([(''longValue'', VInt n)], None)
    | DFloat x \<Rightarrow> Inr ([(''doubleValue'', VFloat x)], None)
    | DDecimal d \<Rightarrow> Inr ([(''stringValue'', VStr (decimal_str d))], Some ''DECIMAL'')
    | DInstant t \<Rightarrow> Inr ([(''stringValue'', VStr (naive_text t))], Some ''TIMESTAMP'')
    | DDate d \<Rightarrow> Inr ([(''stringValue'', VStr (isodate d))], Some ''DATE'')
    | DBytes b \<Rightarrow> Inr ([(''blobValue'', VStr b)], None)
    | DStr s \<Rightarrow> Inr ([(''stringValue'', VStr s)], None)
    | DEnum _ s \<Rightarrow> Inr ([(''stringValue'', VStr s)], None)
    | DFrozenset _ \<Rightarrow> Inl (TypeError ''unsupported Data API parameter: frozenset'')
    | DObject name _ \<Rightarrow> Inl (TypeError (''unsupported Data API parameter: '' @ name))
    | DOther name \<Rightarrow> Inl (TypeError (''unsupported Data API parameter: '' @ name))
    | _ \<Rightarrow> map_sum id (\<lambda>x. ([(''stringValue'', VStr (json_text False [] (sort_keys x)))], Some ''JSON'')) (plain_json v))"

definition parameter_objects :: "(string \<times> domain_value) list \<Rightarrow> py_value list result" where
  "parameter_objects values = all_ok (map (\<lambda>(name, v). map_sum id
     (\<lambda>(encoded, hint). VDict ([(''name'', VStr name), (''value'', VDict encoded)]
        @ (case hint of None \<Rightarrow> [] | Some h \<Rightarrow> [(''typeHint'', VStr h)]))) (parameter_value v)) values)"

section \<open>Transactions\<close>

text \<open>The calls of the \<open>rds-data\<close> client for one database, and \<open>sleep\<close>.\<close>

record 'p data_client =
  da_begin :: "'p \<Rightarrow> string result \<times> 'p"
  da_statement :: "string \<Rightarrow> string \<Rightarrow> py_value list \<Rightarrow> 'p \<Rightarrow> (string \<times> py_value) list result \<times> 'p"
  da_commit :: "string \<Rightarrow> 'p \<Rightarrow> unit result \<times> 'p"
  da_rollback :: "string \<Rightarrow> 'p \<Rightarrow> unit result \<times> 'p"
  da_sleep :: "py_float \<Rightarrow> 'p \<Rightarrow> 'p"

definition mk_data_api :: "string \<Rightarrow> string \<Rightarrow> string \<Rightarrow> 'p data_client \<Rightarrow> 'p data_client result" where
  "mk_data_api resource_arn secret_arn database client =
     (if resource_arn = [] \<or> secret_arn = [] \<or> database = []
      then Inl (ValueError ''Aurora resource ARN, secret ARN and database are required'') else Inr client)"

text \<open>One, two, four and eight seconds.\<close>

definition resume_retry_delays :: "py_float list" where
  "resume_retry_delays = [Flt 1 0, Flt 1 1, Flt 1 2, Flt 1 3]"

definition is_database_resuming :: "py_error \<Rightarrow> bool" where
  "is_database_resuming e \<longleftrightarrow> e = ClientError ''DatabaseResumingException''"

text \<open>A database that resumes is asked again after each delay, and once more after the last.\<close>

fun begin_transaction :: "'p data_client \<Rightarrow> py_float list \<Rightarrow> 'p \<Rightarrow> string result \<times> 'p" where
  "begin_transaction client [] p = da_begin client p"
| "begin_transaction client (delay # delays) p = (case da_begin client p of
     (Inl e, p1) \<Rightarrow> (if is_database_resuming e then begin_transaction client delays (da_sleep client delay p1) else (Inl e, p1))
   | (Inr i, p1) \<Rightarrow> (Inr i, p1))"

definition data_transaction ::
    "'p data_client \<Rightarrow> (string \<Rightarrow> 'p \<Rightarrow> 'a result \<times> 'p) \<Rightarrow> 'p \<Rightarrow> 'a result \<times> 'p" where
  "data_transaction client body p =
     and_then (begin_transaction client resume_retry_delays p) (\<lambda>i p1.
       case body i p1 of
         (Inl e, p2) \<Rightarrow> and_then (da_rollback client i p2) (\<lambda>_ p3. (Inl e, p3))
       | (Inr a, p2) \<Rightarrow> and_then (da_commit client i p2) (\<lambda>_ p3. (Inr a, p3)))"

definition run_statement ::
    "'p data_client \<Rightarrow> string \<Rightarrow> string \<Rightarrow> (string \<times> domain_value) list \<Rightarrow> 'p \<Rightarrow> (string \<times> py_value) list result \<times> 'p" where
  "run_statement client i sql parameters p =
     on_ok (parameter_objects parameters) p (\<lambda>encoded. da_statement client i sql encoded p)"

definition execute_statement ::
    "'p data_client \<Rightarrow> string \<Rightarrow> string \<Rightarrow> (string \<times> domain_value) list \<Rightarrow> 'p \<Rightarrow> int result \<times> 'p" where
  "execute_statement client i sql parameters p =
     and_then (run_statement client i sql parameters p) (\<lambda>response p1.
       (case dict_get response ''numberOfRecordsUpdated'' of None \<Rightarrow> Inr 0 | Some n \<Rightarrow> py_int n, p1))"

text \<open>\<open>formattedRecords\<close>: nothing, or the JSON text of a list of objects.\<close>

definition rows_of :: "py_value \<Rightarrow> (string \<times> py_value) list list result" where
  "rows_of formatted =
     (if \<not> py_true formatted then Inr []
      else (case formatted of
          VStr t \<Rightarrow> (case json_loads t of
              None \<Rightarrow> Inl (ValueError ''invalid JSON'')
            | Some (VList vs) \<Rightarrow> map_sum (\<lambda>_. ValueError ''Aurora Data API returned an invalid JSON row set'') id
                (all_ok (map (\<lambda>v. case v of VDict d \<Rightarrow> Inr d | _ \<Rightarrow> Inl (ValueError [])) vs))
            | Some _ \<Rightarrow> Inl (ValueError ''Aurora Data API returned an invalid JSON row set''))
        | _ \<Rightarrow> Inl (TypeError ''the JSON object must be str, bytes or bytearray'')))"

definition fetch_all ::
    "'p data_client \<Rightarrow> string \<Rightarrow> string \<Rightarrow> (string \<times> domain_value) list \<Rightarrow> 'p \<Rightarrow> (string \<times> py_value) list list result \<times> 'p" where
  "fetch_all client i sql parameters p =
     and_then (run_statement client i sql parameters p) (\<lambda>response p1.
       (rows_of (value_get response ''formattedRecords''), p1))"

definition fetch_one ::
    "'p data_client \<Rightarrow> string \<Rightarrow> string \<Rightarrow> (string \<times> domain_value) list \<Rightarrow> 'p \<Rightarrow> (string \<times> py_value) list option result \<times> 'p" where
  "fetch_one client i sql parameters p =
     and_then (fetch_all client i sql parameters p) (\<lambda>rows p1.
       (Inr (case rows of [] \<Rightarrow> None | r # _ \<Rightarrow> Some r), p1))"

text \<open>A transaction that is committed is one whose body succeeded.\<close>

lemma transaction_commits_success:
  assumes "data_transaction client body p = (Inr a, p')"
  obtains i p1 p2 where "begin_transaction client resume_retry_delays p = (Inr i, p1)"
    "body i p1 = (Inr a, p2)" "da_commit client i p2 = (Inr (), p')"
proof -
  obtain i p1 where b: "begin_transaction client resume_retry_delays p = (Inr i, p1)"
    and rest: "(case body i p1 of
         (Inl e, p2) \<Rightarrow> and_then (da_rollback client i p2) (\<lambda>_ p3. (Inl e, p3))
       | (Inr a, p2) \<Rightarrow> and_then (da_commit client i p2) (\<lambda>_ p3. (Inr a, p3))) = (Inr a, p')"
    using assms unfolding data_transaction_def and_then_success by blast
  obtain r p2 where r: "body i p1 = (r, p2)" by (cases "body i p1")
  then show thesis using rest by (cases r) (auto simp: and_then_success intro: that [OF b])
qed

section \<open>Migrations\<close>

record migration =
  mg_id :: string
  mg_path :: string
  mg_statements :: "string list"

text \<open>\<open>text.split(marker)\<close>; \<open>current\<close> is what was read of a piece, reversed.\<close>

fun split_text :: "string \<Rightarrow> nat \<Rightarrow> string \<Rightarrow> string \<Rightarrow> string list" where
  "split_text marker skip current [] = [rev current]"
| "split_text marker (Suc n) current (c # cs) = split_text marker n current cs"
| "split_text marker 0 current (c # cs) =
     (if starts_with marker (c # cs) then rev current # split_text marker (length marker - 1) [] cs
      else split_text marker 0 (c # current) cs)"

definition statement_marker :: string where
  "statement_marker = ''-- gamewake:statement''"

text \<open>The files of the directory by name, as \<open>glob\<close> finds them.\<close>

definition load_migrations :: "string \<Rightarrow> (string \<times> string) list \<Rightarrow> migration list" where
  "load_migrations directory files =
     map (\<lambda>(name, content). \<lparr> mg_id = take (length name - 4) name, mg_path = directory @ ''/'' @ name,
        mg_statements = filter (\<lambda>s. s \<noteq> []) (map strip (split_text statement_marker 0 [] content)) \<rparr>)
       (sort_key fst (filter (\<lambda>(name, _). drop (length name - 4) name = ''.sql'') files))"

text \<open>The statements of \<open>apply\<close>, white space aside.\<close>

definition migrations_table :: string where
  "migrations_table = ''CREATE TABLE IF NOT EXISTS schema_migrations (id TEXT PRIMARY KEY, ''
     @ ''applied_at TIMESTAMPTZ NOT NULL DEFAULT CURRENT_TIMESTAMP)''"

definition applied_migrations :: "'p data_client \<Rightarrow> 'p \<Rightarrow> string list result \<times> 'p" where
  "applied_migrations client = data_transaction client (\<lambda>i p.
     and_then (execute_statement client i migrations_table [] p) (\<lambda>_ p1.
     and_then (fetch_all client i ''SELECT id FROM schema_migrations ORDER BY id'' [] p1) (\<lambda>rows p2.
       (all_ok (map (\<lambda>r. case dict_get r ''id'' of None \<Rightarrow> Inl (KeyError ''id'') | Some v \<Rightarrow> Inr (py_str v)) rows), p2))))"

fun run_statements :: "'p data_client \<Rightarrow> string \<Rightarrow> string list \<Rightarrow> 'p \<Rightarrow> unit result \<times> 'p" where
  "run_statements client i [] p = (Inr (), p)"
| "run_statements client i (s # ss) p =
     and_then (execute_statement client i s [] p) (\<lambda>_ p1. run_statements client i ss p1)"

fun apply_new :: "'p data_client \<Rightarrow> string list \<Rightarrow> migration list \<Rightarrow> 'p \<Rightarrow> string list result \<times> 'p" where
  "apply_new client applied [] p = (Inr [], p)"
| "apply_new client applied (m # ms) p =
     (if mg_id m \<in> set applied then apply_new client applied ms p
      else and_then (data_transaction client (\<lambda>i p1.
             and_then (run_statements client i (mg_statements m) p1) (\<lambda>_ p2.
               execute_statement client i ''INSERT INTO schema_migrations (id) VALUES (:id)'' [(''id'', DStr (mg_id m))] p2)) p)
           (\<lambda>_ p1. and_then (apply_new client applied ms p1) (\<lambda>ids p2. (Inr (mg_id m # ids), p2))))"

definition apply_migrations :: "'p data_client \<Rightarrow> migration list \<Rightarrow> 'p \<Rightarrow> string list result \<times> 'p" where
  "apply_migrations client migrations p =
     and_then (applied_migrations client p) (\<lambda>applied p1. apply_new client applied migrations p1)"

text \<open>What is newly applied are the migrations that were not, in their order.\<close>

lemma newly_applied:
  "apply_new client applied ms p = (Inr ids, p') \<Longrightarrow> ids = filter (\<lambda>i. i \<notin> set applied) (map mg_id ms)"
proof (induction ms arbitrary: p ids p')
  case (Cons m ms)
  show ?case
  proof (cases "mg_id m \<in> set applied")
    case True
    with Cons show ?thesis by simp
  next
    case False
    from Cons.prems False obtain rest q q' where "apply_new client applied ms q = (Inr rest, q')" "ids = mg_id m # rest"
      by (auto simp: and_then_success)
    with Cons.IH False show ?thesis by simp
  qed
qed simp

section \<open>The direct adapter\<close>

text \<open>\<open>(?<!:):([A-Za-z_][A-Za-z0-9_]*)\<close> becomes \<open>%(name)s\<close>; \<open>prev\<close> is the character before.\<close>

definition name_start :: "char \<Rightarrow> bool" where
  "name_start c \<longleftrightarrow> (let n = of_char c :: nat in 65 \<le> n \<and> n \<le> 90 \<or> 97 \<le> n \<and> n \<le> 122 \<or> n = 95)"

definition name_part :: "char \<Rightarrow> bool" where
  "name_part c \<longleftrightarrow> name_start c \<or> is_digit c"

function psycopg_sql :: "char option \<Rightarrow> string \<Rightarrow> string" where
  "psycopg_sql prev [] = []"
| "psycopg_sql prev (c # cs) =
     (let name = takeWhile name_part cs
      in if c = CHR '':'' \<and> prev \<noteq> Some CHR '':'' \<and> cs \<noteq> [] \<and> name_start (hd cs)
         then ''%('' @ name @ '')s'' @ psycopg_sql (Some (last name)) (dropWhile name_part cs)
         else c # psycopg_sql (Some c) cs)"
  by pat_completeness auto
termination by (relation "measure (length \<circ> snd)") (auto simp: le_imp_less_Suc length_dropWhile_le)

lemma psycopg_sql_example: "psycopg_sql None ''id = :id AND a::text = :b''
    = ''id = %(id)s AND a::text = %(b)s''"
  by code_simp

text \<open>A connection: \<open>cursor.execute\<close>, its row count and rows, and the end of a transaction.\<close>

record 'p connection =
  cn_run :: "string \<Rightarrow> (string \<times> domain_value) list \<Rightarrow> 'p \<Rightarrow> (int \<times> (string \<times> py_value) list list) result \<times> 'p"
  cn_commit :: "'p \<Rightarrow> unit result \<times> 'p"
  cn_rollback :: "'p \<Rightarrow> unit result \<times> 'p"
  cn_close :: "'p \<Rightarrow> unit result \<times> 'p"

definition psycopg_execute :: "'p connection \<Rightarrow> string \<Rightarrow> (string \<times> domain_value) list \<Rightarrow> 'p \<Rightarrow> int result \<times> 'p" where
  "psycopg_execute c sql parameters p =
     and_then (cn_run c (psycopg_sql None sql) parameters p) (\<lambda>(count, _) p1. (Inr count, p1))"

definition psycopg_fetch_all ::
    "'p connection \<Rightarrow> string \<Rightarrow> (string \<times> domain_value) list \<Rightarrow> 'p \<Rightarrow> (string \<times> py_value) list list result \<times> 'p" where
  "psycopg_fetch_all c sql parameters p =
     and_then (cn_run c (psycopg_sql None sql) parameters p) (\<lambda>(_, rows) p1. (Inr rows, p1))"

definition psycopg_fetch_one ::
    "'p connection \<Rightarrow> string \<Rightarrow> (string \<times> domain_value) list \<Rightarrow> 'p \<Rightarrow> (string \<times> py_value) list option result \<times> 'p" where
  "psycopg_fetch_one c sql parameters p =
     and_then (psycopg_fetch_all c sql parameters p) (\<lambda>rows p1. (Inr (case rows of [] \<Rightarrow> None | r # _ \<Rightarrow> Some r), p1))"

text \<open>\<open>PsycopgDatabase\<close>: the connection is closed in any case.\<close>

definition mk_psycopg_database :: "string \<Rightarrow> string result" where
  "mk_psycopg_database dsn = (if dsn = [] then Inl (ValueError ''PostgreSQL DSN is required'') else Inr dsn)"

definition psycopg_transaction ::
    "('p \<Rightarrow> 'p connection result \<times> 'p) \<Rightarrow> ('p connection \<Rightarrow> 'p \<Rightarrow> 'a result \<times> 'p) \<Rightarrow> 'p \<Rightarrow> 'a result \<times> 'p" where
  "psycopg_transaction connect body p =
     and_then (connect p) (\<lambda>c p1.
       case (case body c p1 of
           (Inl e, p2) \<Rightarrow> and_then (cn_rollback c p2) (\<lambda>_ p3. (Inl e, p3))
         | (Inr a, p2) \<Rightarrow> and_then (cn_commit c p2) (\<lambda>_ p3. (Inr a, p3))) of
         (r, p4) \<Rightarrow> (case cn_close c p4 of (Inl e, p5) \<Rightarrow> (Inl e, p5) | (Inr _, p5) \<Rightarrow> (r, p5)))"

end
