(* ===== verification/Spec2Isabelle.thy ===== *)
theory Spec2Isabelle
  imports BillingProperties InvitationProperties SettingsProperties WorldProperties
    WorkerProperties ConfigurationProperties ApplicationProperties StorageProperties RuntimeProperties
    SessionProperties HttpProperties DiscordProperties WorkerLambda S3Archive ApiLambda
    PostgresProperties CodecProperties DataApi
begin

text \<open>
  GameWake lets a group of friends create, pay for, wake and put to sleep a game server. This
  development models its Python service (\<open>src/gamewake\<close>, \<open>src/lambda\<close>, \<open>src/shared\<close>) as functions and
  states what makes it correct.

  \<^bold>\<open>The program.\<close> Discord and the web console reach one Lambda function (\<open>lambda/gamewake_api.py\<close>), whose
  HTTP handler (\<open>control_plane/http.py\<close>) signs Users in, verifies sessions and webhooks and calls the API
  (\<open>control_plane/api.py\<close>) or the Discord experience (\<open>experience/discord.py\<close>). Both call the use cases of
  \<open>control_plane/application.py\<close> over Accounts (\<open>accounts/\<close>: who may do what), Worlds (\<open>worlds/\<close>: the saved
  game, its configuration and its operations) and Billing (\<open>billing/\<close>: a prepaid Wallet per Account). An
  operation that was begun is dispatched to Step Functions (\<open>orchestration/\<close>), which calls a second
  Lambda function (\<open>lambda/gamewake_worker.py\<close>) until the worker (\<open>worlds/worker.py\<close>) has brought it to its
  end, through the adapters of EC2, SSM and S3 (\<open>aws/\<close>).

  \<^bold>\<open>The theories\<close>, in the order of their imports. What the components share:
  \<^item> \<open>Prelude\<close>, \<open>Effects\<close>: exceptions as values (\<open>py_error\<close>, \<open>'a result\<close>), texts, dicts, the control flow
    of an operation (\<open>on_ok\<close>, \<open>and_then\<close>, \<open>check\<close>);
  \<^item> \<open>Decimals\<close>, \<open>DecimalText\<close>, \<open>Floats\<close>, \<open>Calendar\<close>, \<open>IsoTime\<close>: the parts of \<open>decimal\<close> (28 digits, the rounding
    modes), \<open>float\<close> (binary64) and \<open>datetime\<close> (microseconds since 1970) that the source uses;
  \<^item> \<open>JsonText\<close>, \<open>JsonRoundTrip\<close>, \<open>Urls\<close>: \<open>json.dumps\<close>/\<open>loads\<close> with the proof that what was written is
    read again, and \<open>urllib.parse\<close>.
  Billing (\<open>billing/model.py\<close>, \<open>service.py\<close>, \<open>in_memory.py\<close>, \<open>runtime.py\<close>, \<open>abacatepay.py\<close>):
  \<^item> \<open>Wallet\<close>: the records of a Wallet, its balances and \<open>wallet_ok\<close>; \<open>BillingStore\<close>: the repository, and
    \<open>billing_retry\<close>, the optimistic loop that all operations share, with the locale of what its bodies
    keep; \<open>BillingOps\<close>, \<open>Payments\<close> (with the JSON values of a request body and a webhook),
    \<open>BalanceGuard\<close>: the operations;
  \<^item> \<open>BillingSafety\<close>, \<open>BillingHistory\<close>, \<open>BillingSystem\<close>: the invariant, what may change between two
    states, and the states reached by any calls; \<open>BillingProperties\<close>: C1 to C11;
  \<^item> \<open>AbacatePay\<close>: the Payment Provider and the webhook; \<open>RuntimeProperties\<close>: the usage recorder
    of the worker and C34.
  Accounts (\<open>accounts/\<close>):
  \<^item> \<open>AccountModel\<close>, \<open>AccountStore\<close>, \<open>AccountOps\<close>, \<open>AccountAdmin\<close>: data and policy, repositories, operations;
  \<^item> \<open>AccountSafety\<close>, \<open>AccountInvariant\<close>, \<open>AccountHistory\<close>: the invariant and the history of every reachable
    state; \<open>AccountProperties\<close>, \<open>InvitationProperties\<close>: C12 to C21.
  Worlds (\<open>worlds/\<close>, \<open>shared/palworld_settings_catalog.py\<close>, \<open>game_catalog/\<close>):
  \<^item> \<open>Settings\<close>, \<open>SettingsProperties\<close>: the settings of the game and C22;
  \<^item> \<open>WorldModel\<close>, \<open>WorldStore\<close>, \<open>WorldOps\<close>: data, repository, \<open>class Worlds\<close>;
    \<open>WorldProviders\<close>, \<open>WorldWorker\<close>: the worker over its providers, each call of which is logged;
    \<open>WorldData\<close>, \<open>Archive\<close>, \<open>StoragePolicy\<close>: Backups, Exports, deletion, the storage policy;
  \<^item> \<open>WorldSafety\<close>, \<open>WorldRepository\<close>, \<open>WorldInvariant\<close>, \<open>WorkerInvariant\<close>, \<open>WorldSystem\<close>: the invariant \<open>worlds_ok\<close> and
    its preservation by every operation; \<open>Lifecycle\<close>: the abstract specification that operations refine;
    \<open>SafeSleep\<close>: what the log of a guarded run holds;
  \<^item> \<open>WorldProperties\<close>, \<open>WorkerProperties\<close>, \<open>ConfigurationProperties\<close>, \<open>StorageProperties\<close>: C23 to C29, C32, C33,
    with the measure of the worker's loop (\<open>WorkerProperties\<close>) and the edit of a configuration
    (\<open>ConfigurationProperties\<close>); \<open>WorldRun\<close>: the run their witnesses use.
  The control plane and what stands in front of it:
  \<^item> \<open>Application\<close>, \<open>ApiViews\<close>, \<open>Api\<close>: use cases, payloads, routes; \<open>ApiAccess\<close>, \<open>WakeFunding\<close>,
    \<open>ApplicationRun\<close>, \<open>ApplicationProperties\<close>: C30, C31;
  \<^item> \<open>Session\<close>, \<open>DiscordAuth\<close>, \<open>Http\<close>: the session codec, signing in with Discord, the HTTP handler;
    \<open>SessionProperties\<close>, \<open>HttpProperties\<close>: C35 to C37;
  \<^item> \<open>Notifications\<close>, \<open>Discord\<close>, \<open>DiscordProperties\<close>: the Discord experience and C38;
  \<^item> \<open>Orchestration\<close>, \<open>WorkerLambda\<close>, \<open>ApiLambda\<close>: Step Functions and the two Lambda functions;
  \<^item> \<open>Aws\<close>, \<open>S3Archive\<close>: the adapters of SSM, EC2 and S3.
  Persistence (\<open>persistence/\<close>):
  \<^item> \<open>Postgres\<close>: the tables with their keys, constraints and references, what INSERT, UPDATE and DELETE do to
    their rows, and the repositories on them;
    \<open>PostgresProperties\<close>: C39, the Wallet repository on the database refines the one in memory;
  \<^item> \<open>Codec\<close>, \<open>CodecProperties\<close>: how a domain object is written into a JSONB column, and C40, that it is read
    again (\<open>IsoTime\<close> shows it of the instants); \<open>DataApi\<close>: the Data API client, the migrations and the direct adapter.

  \<^bold>\<open>How the code is modelled.\<close> A dataclass is a record (its fields prefixed by the record's initials), an
  \<open>Enum\<close> a datatype, a dict a list of pairs in insertion order, \<open>None\<close> an option. A method that changes
  state is a function from a state to a result and the state at its end; an exception is \<open>Inl\<close> of it, with the
  changes made before it. What the code takes from outside is a field of an environment record: the
  clock, \<open>uuid4\<close> and \<open>token_urlsafe\<close> (functions of a position), the keyed hashes, Ed25519, \<open>urlopen\<close>, the
  calls of the AWS clients. Between any two accesses to a store other clients act: an arbitrary
  function of the store (\<open>..._rival\<close>), of which a property assumes no more than that it keeps
  the invariant or what else its statement names. The components stand on the in-memory
  repositories of the source, with their versions and idempotency keys; C39 carries Billing over to the
  database, and the other repositories on it are modelled beside them.

  \<^bold>\<open>Bounds.\<close> Money and Python's integers are unbounded, floats are IEEE doubles, \<open>Decimal\<close> keeps 28
  digits. The optimistic loop of Billing has a hundred attempts, as the source; C3 shows when they are
  not enough. \<open>json.loads\<close> recurses at most as deep as its text is long, so that length is its fuel, and
  \<open>JsonRoundTrip\<close> shows it suffices for a text that was written. A listing of S3 is followed for as many
  pages as the client's model says there are (\<open>sv_pages\<close>); a while loop over pages that never ends has no
  other value in the source. The loop of the worker needs no fuel: C27 shows that it terminates.

  \<^bold>\<open>Limits.\<close> A text is a list of characters below 256. \<open>Urls\<close> and \<open>Session\<close> read them as the bytes or the
  code points the source has there; the Portuguese texts and symbols that are only shown are written in
  ASCII. The body of an HTTP response is kept as the value whose JSON the source writes, and the body of a
  request is UTF-8 (\<open>json.loads\<close> of bytes also takes UTF-16 and UTF-32). \<open>fromisoformat\<close> is modelled on the
  forms \<open>isoformat\<close> writes. The explanatory texts of the game's settings are left out.

  A transaction of the database is atomic here: what READ COMMITTED lets another transaction do between two
  of its statements is not modelled. A row is the object its JSONB column holds, and the order of texts
  is that of their characters, not of a collation.

  \<^bold>\<open>Not modelled.\<close> \<open>build_services\<close> and \<open>build_handler\<close> only wire the components from environment variables.
  The scripts of the game host, of the security reports and of the deployment, the web console and the
  Terraform configuration are other languages or no part of the service.
\<close>

end
